(* ===== verification/Prelude.thy ===== *)
theory Prelude
  imports Main "HOL-Library.AList"
begin

text \<open>
  What every component of the development shares: the values a JavaScript call can throw, the
  type of a state-changing operation, the first failing guard of a chain, and the list and map
  operations of the JavaScript standard library that the program uses, each with the facts the
  component proofs rewrite with.

  A method that changes state is a function \<open>'w \<Rightarrow> (exn + 'a) \<times> 'w\<close>: it returns either the
  thrown value or the result, and in both cases the state it leaves behind. A throw after a
  mutation therefore keeps the mutation, as it does in the program.
\<close>

named_theorems js_simps "rewrite rules for the JavaScript library operations"
named_theorems guard_simps "how a chain of guards decides"

section \<open>Thrown values and operations\<close>

text \<open>
  \<open>DemoError status code message\<close> is the ledger's own error class, \<open>PlainError\<close> a bare
  \<open>new Error(message)\<close>; \<open>TypeError\<close> and \<open>RangeError\<close> are raised by the language (a property
  of \<open>undefined\<close>, \<open>BigInt\<close> of a fraction).
\<close>

datatype exn =
    DemoError nat string string
  | PlainError string
  | TypeError
  | RangeError

type_synonym 'a res = "exn + 'a"
type_synonym ('w, 'a) act = "'w \<Rightarrow> (exn + 'a) \<times> 'w"

text \<open>A chain of guards, each \<open>Some e\<close> when it throws \<open>e\<close>: the first one to throw decides.\<close>

fun first_err :: "exn option list \<Rightarrow> exn option" where
  "first_err [] = None"
| "first_err (Some e # gs) = Some e"
| "first_err (None # gs) = first_err gs"

definition throw_if :: "bool \<Rightarrow> exn \<Rightarrow> exn option" where
  "throw_if b e = (if b then Some e else None)"

text \<open>Run \<open>k\<close> when no guard throws; a throwing guard leaves the state alone.\<close>

definition guarded :: "exn option list \<Rightarrow> ('w, 'a) act \<Rightarrow> ('w, 'a) act" where
  "guarded gs k w = (case first_err gs of Some e \<Rightarrow> (Inl e, w) | None \<Rightarrow> k w)"

text \<open>Sequencing: a throw skips the rest and keeps the state reached so far.\<close>

definition and_then :: "('w, 'a) act \<Rightarrow> ('a \<Rightarrow> ('w, 'b) act) \<Rightarrow> ('w, 'b) act" where
  "and_then m f w = (case m w of (Inl e, w') \<Rightarrow> (Inl e, w') | (Inr a, w') \<Rightarrow> f a w')"

text \<open>\<open>xs.map(f)\<close> where \<open>f\<close> can throw.\<close>

fun map_res :: "('a \<Rightarrow> 'b res) \<Rightarrow> 'a list \<Rightarrow> 'b list res" where
  "map_res f [] = Inr []"
| "map_res f (x # xs) = (case f x of Inl e \<Rightarrow> Inl e | Inr y \<Rightarrow>
     (case map_res f xs of Inl e \<Rightarrow> Inl e | Inr ys \<Rightarrow> Inr (y # ys)))"

lemma map_res_Inr:
  "map_res f xs = Inr ys \<Longrightarrow> length ys = length xs \<and> (\<forall>k < length xs. f (xs ! k) = Inr (ys ! k))"
proof (induction xs arbitrary: ys)
  case (Cons x xs)
  then show ?case by (auto simp: nth_Cons split: sum.splits nat.splits)
qed simp

lemma throw_if_None [guard_simps]: "throw_if b e = None \<longleftrightarrow> \<not> b"
  by (simp add: throw_if_def)

lemma throw_if_Some [guard_simps]: "throw_if b e = Some e' \<longleftrightarrow> b \<and> e' = e"
  by (auto simp: throw_if_def)

lemma first_err_Cons [guard_simps]:
  "first_err (g # gs) = None \<longleftrightarrow> g = None \<and> first_err gs = None"
  by (cases g) auto

lemma first_err_append:
  "first_err (gs @ hs) = (case first_err gs of Some e \<Rightarrow> Some e | None \<Rightarrow> first_err hs)"
  by (induction gs rule: first_err.induct) auto

lemma first_err_None_iff: "first_err gs = None \<longleftrightarrow> (\<forall>g \<in> set gs. g = None)"
  by (induction gs rule: first_err.induct) auto

lemma guarded_Inr [guard_simps]:
  "guarded gs k w = (Inr a, w') \<longleftrightarrow> first_err gs = None \<and> k w = (Inr a, w')"
  by (auto simp: guarded_def split: option.splits)

lemma guarded_Inl:
  "guarded gs k w = (Inl e, w') \<longleftrightarrow>
     (first_err gs = Some e \<and> w' = w) \<or> (first_err gs = None \<and> k w = (Inl e, w'))"
  by (auto simp: guarded_def split: option.splits)

lemma guardedI: "first_err gs = None \<Longrightarrow> guarded gs k w = k w"
  by (simp add: guarded_def)

lemma and_then_Inr [guard_simps]:
  "and_then m f w = (Inr b, w'') \<longleftrightarrow> (\<exists>a w'. m w = (Inr a, w') \<and> f a w' = (Inr b, w''))"
  by (auto simp: and_then_def split: prod.splits sum.splits)

lemma and_then_Inl:
  "and_then m f w = (Inl e, w'') \<longleftrightarrow>
     m w = (Inl e, w'') \<or> (\<exists>a w'. m w = (Inr a, w') \<and> f a w' = (Inl e, w''))"
  by (auto simp: and_then_def split: prod.splits sum.splits)

lemma case_prod_eq:
  "(case p of (a, b) \<Rightarrow> f a b) = y \<longleftrightarrow> (\<exists>a b. p = (a, b) \<and> f a b = y)"
  by (cases p) simp

text \<open>
  What an operation leaves behind, whether it throws or not: a predicate that holds before and that
  every part keeps holds after.
\<close>

lemma snd_guarded: "P w \<Longrightarrow> P (snd (k w)) \<Longrightarrow> P (snd (guarded gs k w))"
  by (auto simp: guarded_def split: option.splits)

lemma snd_and_then:
  assumes "P (snd (m w))" and "\<And>a w'. m w = (Inr a, w') \<Longrightarrow> P w' \<Longrightarrow> P (snd (f a w'))"
  shows "P (snd (and_then m f w))"
  using assms by (cases "m w"; cases "fst (m w)") (auto simp: and_then_def)

section \<open>Arrays\<close>

text \<open>
  \<open>xs.find(p)\<close> is the library's \<open>find\<close>. Mutating the object a \<open>find\<close> returned, in place,
  changes its first occurrence in the array.
\<close>

fun upd_first :: "('a \<Rightarrow> bool) \<Rightarrow> ('a \<Rightarrow> 'a) \<Rightarrow> 'a list \<Rightarrow> 'a list" where
  "upd_first P f [] = []"
| "upd_first P f (x # xs) = (if P x then f x # xs else x # upd_first P f xs)"

text \<open>\<open>xs.slice(-n)\<close> and \<open>xs.splice(i, 1)\<close>.\<close>

definition slice_last :: "nat \<Rightarrow> 'a list \<Rightarrow> 'a list" where
  "slice_last n xs = drop (length xs - n) xs"

definition splice1 :: "nat \<Rightarrow> 'a list \<Rightarrow> 'a list" where
  "splice1 i xs = take i xs @ drop (Suc i) xs"

text \<open>\<open>xs.findIndex(p)\<close>, with \<open>None\<close> for the \<open>-1\<close> of no match.\<close>

fun find_index :: "('a \<Rightarrow> bool) \<Rightarrow> 'a list \<Rightarrow> nat option" where
  "find_index P [] = None"
| "find_index P (x # xs) = (if P x then Some 0 else map_option Suc (find_index P xs))"

text \<open>\<open>xs.at(-1)\<close>.\<close>

definition at_last :: "'a list \<Rightarrow> 'a option" where
  "at_last xs = (if xs = [] then None else Some (last xs))"

lemma length_upd_first [simp]: "length (upd_first P f xs) = length xs"
  by (induction xs) auto

lemma upd_first_none [js_simps]: "find P xs = None \<Longrightarrow> upd_first P f xs = xs"
  by (induction xs) (auto split: if_splits)

lemma map_upd_first: "(\<And>x. P x \<Longrightarrow> g (f x) = g x) \<Longrightarrow> map g (upd_first P f xs) = map g xs"
  by (induction xs) auto

lemma map_upd_first_key [simp]: "map k (upd_first (\<lambda>x. k x = k y) (\<lambda>_. y) xs) = map k xs"
  by (induction xs) auto

lemma set_upd_first: "set (upd_first P f xs) \<subseteq> set xs \<union> f ` {x \<in> set xs. P x}"
  by (induction xs) auto

lemma in_upd_firstE:
  assumes "y \<in> set (upd_first P f xs)"
  obtains "y \<in> set xs" | x where "x \<in> set xs" "P x" "y = f x" "find P xs = Some x"
  using assms by (induction xs) (auto split: if_splits)

lemma upd_first_in: "x \<in> set xs \<Longrightarrow> P x \<Longrightarrow> y \<in> set (upd_first P (\<lambda>_. y) xs)"
  by (induction xs) auto

lemma find_Some_prop: "find P xs = Some x \<Longrightarrow> P x \<and> x \<in> set xs"
  by (induction xs) (auto split: if_splits)

lemma find_None_prop: "find P xs = None \<longleftrightarrow> (\<forall>x \<in> set xs. \<not> P x)"
  by (induction xs) auto

lemma find_upd_first [js_simps]:
  "(\<And>x. P x \<Longrightarrow> P (f x)) \<Longrightarrow> find P (upd_first P f xs) = map_option f (find P xs)"
  by (induction xs) auto

lemma find_upd_first_other:
  "(\<And>x. P x \<Longrightarrow> \<not> Q x \<and> \<not> Q (f x)) \<Longrightarrow> find Q (upd_first P f xs) = find Q xs"
  by (induction xs) auto

lemma find_append [js_simps]:
  "find P (xs @ ys) = (case find P xs of Some x \<Rightarrow> Some x | None \<Rightarrow> find P ys)"
  by (induction xs) auto

lemma find_index_None: "find_index P xs = None \<longleftrightarrow> (\<forall>x \<in> set xs. \<not> P x)"
  by (induction xs) auto

lemma find_index_less: "find_index P xs = Some i \<Longrightarrow> i < length xs \<and> P (xs ! i)"
  by (induction xs arbitrary: i) (auto split: if_splits)

lemma length_splice1: "i < length xs \<Longrightarrow> length (splice1 i xs) = length xs - 1"
  by (simp add: splice1_def)

lemma set_splice1: "set (splice1 i xs) \<subseteq> set xs"
  by (auto simp: splice1_def dest: in_set_takeD in_set_dropD)

lemma length_slice_last [simp]: "length (slice_last n xs) = min n (length xs)"
  by (simp add: slice_last_def)

lemma set_slice_last: "set (slice_last n xs) \<subseteq> set xs"
  by (auto simp: slice_last_def dest: in_set_dropD)

lemma at_last_snoc [simp]: "at_last (xs @ [x]) = Some x"
  by (simp add: at_last_def)

text \<open>With distinct keys, \<open>find\<close> by key is membership.\<close>

lemma find_key_distinct:
  assumes "distinct (map k xs)" and "x \<in> set xs"
  shows "find (\<lambda>y. k y = k x) xs = Some x"
  using assms by (induction xs) force+

lemma upd_first_key_map:
  assumes "distinct (map k xs)"
  shows "upd_first (\<lambda>x. k x = i) f xs = map (\<lambda>x. if k x = i then f x else x) xs"
  using assms
proof (induction xs)
  case (Cons x xs)
  show ?case
  proof (cases "k x = i")
    case True
    with Cons.prems have "\<forall>y \<in> set xs. k y \<noteq> i" by (metis distinct.simps(2) imageI list.map(2) list.set_map)
    then have "map (\<lambda>x. if k x = i then f x else x) xs = xs" by (intro map_idI) simp
    with True show ?thesis by simp
  qed (use Cons in simp)
qed simp

section \<open>Maps in insertion order\<close>

text \<open>
  A JavaScript \<open>Map\<close> keeps insertion order: it is an association list with \<open>AList.update\<close>
  (which overwrites in place or appends), \<open>AList.delete\<close> and \<open>map_of\<close>.
\<close>

lemma distinct_keys_update [simp]:
  "distinct (map fst xs) \<Longrightarrow> distinct (map fst (AList.update k v xs))"
  by (rule distinct_update)

lemma length_alist_update_le: "length (AList.update k v xs) \<le> Suc (length xs)"
  by (induction xs) auto

lemma length_alist_delete_le: "length (AList.delete k xs) \<le> length xs"
  by (rule length_delete_le)

end
