(* ===== verification/JsNumber.thy ===== *)
theory JsNumber
  imports Prelude Complex_Main "HOL-Library.Log_Nat"
begin

text \<open>
  JavaScript numbers. A finite double is a rational; every arithmetic operator computes the exact
  rational result and rounds it to the nearest double, ties to even, which is \<open>fl\<close>. Exponents
  are not bounded: the program's amounts are far from overflow and from the subnormals. \<open>NaN\<close>
  and the infinities, which only an unreadable request field produces, are outside the model (every
  \<open>isSafeInteger\<close> guard refuses them). A \<open>bigint\<close> is an \<open>int\<close>.

  The facts of the theory say when a computation is exact: a result that is an integer of at most
  \<open>2 ^ 53\<close> is not rounded, rounding keeps the sign and zero, and rounding twice is rounding once.
\<close>

type_synonym num = rat

section \<open>Integers among the doubles\<close>

definition max_safe :: num where
  "max_safe = 9007199254740991"

text \<open>\<open>Number.isInteger\<close> and \<open>Number.isSafeInteger\<close>.\<close>

definition is_integer :: "num \<Rightarrow> bool" where
  "is_integer x \<longleftrightarrow> of_int \<lfloor>x\<rfloor> = x"

definition is_safe :: "num \<Rightarrow> bool" where
  "is_safe x \<longleftrightarrow> is_integer x \<and> \<bar>x\<bar> \<le> max_safe"

text \<open>\<open>BigInt(x)\<close> throws on a fraction.\<close>

definition to_bigint :: "num \<Rightarrow> int res" where
  "to_bigint x = (if is_integer x then Inr \<lfloor>x\<rfloor> else Inl RangeError)"

section \<open>Rounding\<close>

text \<open>The position of the leading bit of a positive rational.\<close>

definition ilog2 :: "rat \<Rightarrow> int" where
  "ilog2 x = (if 1 \<le> x then bitlen \<lfloor>x\<rfloor> - 1 else - bitlen (\<lceil>1 / x\<rceil> - 1))"

text \<open>Nearest integer, ties to even.\<close>

definition rne :: "rat \<Rightarrow> int" where
  "rne x = (let f = \<lfloor>x\<rfloor>; d = x - of_int f in
     if d < 1 / 2 then f else if 1 / 2 < d then f + 1 else if even f then f else f + 1)"

definition fl :: "rat \<Rightarrow> num" where
  "fl x = (if x = 0 then 0
     else let u = ilog2 \<bar>x\<bar> - 52 in of_int (rne (x / 2 powi u)) * 2 powi u)"

text \<open>The operators, and \<open>10 ** e\<close>, which the engines round correctly in the range used here.\<close>

definition js_add :: "num \<Rightarrow> num \<Rightarrow> num" where "js_add a b = fl (a + b)"
definition js_sub :: "num \<Rightarrow> num \<Rightarrow> num" where "js_sub a b = fl (a - b)"
definition js_mul :: "num \<Rightarrow> num \<Rightarrow> num" where "js_mul a b = fl (a * b)"
definition js_div :: "num \<Rightarrow> num \<Rightarrow> num" where "js_div a b = fl (a / b)"
definition js_pow10 :: "int \<Rightarrow> num" where "js_pow10 e = fl (10 powi e)"

text \<open>\<open>xs.reduce((a, x) => a + x, 0)\<close>, and the same loop from a running total.\<close>

definition js_sum_from :: "num \<Rightarrow> num list \<Rightarrow> num" where
  "js_sum_from a xs = foldl js_add a xs"

abbreviation js_sum :: "num list \<Rightarrow> num" where
  "js_sum \<equiv> js_sum_from 0"

text \<open>\<open>a / b\<close> and \<open>a % b\<close> of \<open>bigint\<close>s truncate toward zero (a zero divisor throws).\<close>

definition big_div :: "int \<Rightarrow> int \<Rightarrow> int" where
  "big_div a b = sgn a * sgn b * (\<bar>a\<bar> div \<bar>b\<bar>)"

definition big_mod :: "int \<Rightarrow> int \<Rightarrow> int" where
  "big_mod a b = sgn a * (\<bar>a\<bar> mod \<bar>b\<bar>)"

text \<open>\<open>Number(n)\<close> of a \<open>bigint\<close>.\<close>

definition of_bigint :: "int \<Rightarrow> num" where
  "of_bigint n = fl (of_int n)"

section \<open>The leading bit\<close>

lemma powi_2_nat: "(2::rat) powi int n = 2 ^ n"
  by (simp add: power_int_def)

lemma bitlen_rat_bounds:
  assumes "0 < (k::int)"
  shows "(2::rat) powi (bitlen k - 1) \<le> of_int k \<and> of_int k < (2::rat) powi bitlen k"
proof -
  have b: "2 ^ nat (bitlen k - 1) \<le> k \<and> k < 2 ^ nat (bitlen k)"
    using bitlen_bounds [OF assms] .
  have n: "1 \<le> bitlen k" using assms by (simp add: bitlen_def floorlog_def)
  have "(2::rat) powi (bitlen k - 1) = of_int (2 ^ nat (bitlen k - 1))"
    using n by (simp add: power_int_def)
  moreover have "(2::rat) powi bitlen k = of_int (2 ^ nat (bitlen k))"
    using n by (simp add: power_int_def)
  ultimately show ?thesis using b by (metis of_int_le_iff of_int_less_iff)
qed

lemma ilog2_bounds_ge1:
  assumes "1 \<le> x"
  shows "2 powi ilog2 x \<le> x \<and> x < 2 powi (ilog2 x + 1)"
proof -
  have p: "0 < \<lfloor>x\<rfloor>" using assms by (simp add: le_floor_iff)
  note b = bitlen_rat_bounds [OF p]
  have "of_int \<lfloor>x\<rfloor> \<le> x" by simp
  with b have lo: "2 powi (bitlen \<lfloor>x\<rfloor> - 1) \<le> x" by linarith
  have n: "0 \<le> bitlen \<lfloor>x\<rfloor>" by (simp add: bitlen_def)
  have "\<lfloor>x\<rfloor> < 2 ^ nat (bitlen \<lfloor>x\<rfloor>)" using bitlen_bounds [OF p] by simp
  then have "x < of_int (2 ^ nat (bitlen \<lfloor>x\<rfloor>))" by (simp only: floor_less_iff)
  then have "x < 2 powi bitlen \<lfloor>x\<rfloor>" using n by (simp add: power_int_def)
  with lo assms show ?thesis by (simp add: ilog2_def)
qed

lemma ilog2_bounds_less1:
  assumes "0 < x" and "x < 1"
  shows "2 powi ilog2 x \<le> x \<and> x < 2 powi (ilog2 x + 1)"
proof -
  define c where "c = \<lceil>1 / x\<rceil> - 1"
  have y: "1 < 1 / x" using assms by simp
  then have c0: "0 < c" by (simp add: c_def less_ceiling_iff)
  note b = bitlen_bounds [OF c0]
  have n: "1 \<le> bitlen c" using c0 by (simp add: bitlen_def floorlog_def)
  have "of_int c < 1 / x" unfolding c_def by linarith
  then have "of_int (2 ^ nat (bitlen c - 1)) < 1 / x"
    using b by (meson le_less_trans of_int_le_iff)
  then have "2 powi (bitlen c - 1) < 1 / x" using n by (simp add: power_int_def)
  then have hi: "x < 1 / 2 powi (bitlen c - 1)"
    using assms by (simp add: field_simps)
  have "1 / x \<le> of_int (c + 1)" unfolding c_def by (simp add: le_of_int_ceiling)
  moreover have "c + 1 \<le> 2 ^ nat (bitlen c)" using b by simp
  ultimately have "1 / x \<le> of_int (2 ^ nat (bitlen c))" by (meson of_int_le_iff order_trans)
  then have "1 / x \<le> 2 powi bitlen c" using n by (simp add: power_int_def)
  then have lo: "1 / 2 powi bitlen c \<le> x" using assms by (simp add: field_simps)
  have e: "ilog2 x = - bitlen c" using assms by (simp add: ilog2_def c_def)
  have "- bitlen c + 1 = - (bitlen c - 1)" by simp
  then have "1 / 2 powi (bitlen c - 1) = (2::rat) powi (- bitlen c + 1)"
    by (simp only: power_int_minus_divide)
  moreover have "1 / 2 powi bitlen c = (2::rat) powi (- bitlen c)"
    by (simp add: power_int_minus_divide)
  ultimately show ?thesis using lo hi e by simp
qed

lemma ilog2_bounds: "0 < x \<Longrightarrow> 2 powi ilog2 x \<le> x \<and> x < 2 powi (ilog2 x + 1)"
  using ilog2_bounds_ge1 [of x] ilog2_bounds_less1 [of x] by linarith

lemma powi2_less_imp: "(2::rat) powi a < 2 powi b \<Longrightarrow> a < b"
  using power_int_increasing [of b a "2::rat"] by (force simp: not_less [symmetric])

lemma ilog2_unique:
  assumes "2 powi k \<le> x" and "x < 2 powi (k + 1)"
  shows "ilog2 x = k"
proof -
  have "0 < (2::rat) powi k" by simp
  then have "0 < x" using assms(1) by linarith
  then have b: "2 powi ilog2 x \<le> x" "x < 2 powi (ilog2 x + 1)" using ilog2_bounds by auto
  have "k < ilog2 x + 1" using assms(1) b(2) by (intro powi2_less_imp) linarith
  moreover have "ilog2 x < k + 1" using assms(2) b(1) by (intro powi2_less_imp) linarith
  ultimately show ?thesis by simp
qed

section \<open>Nearest integer\<close>

lemma rne_of_int [simp]: "rne (of_int k) = k"
  by (simp add: rne_def)

lemma rne_ge:
  assumes "of_int k \<le> x"
  shows "k \<le> rne x"
proof -
  have "k \<le> \<lfloor>x\<rfloor>" using assms by (simp add: le_floor_iff)
  then show ?thesis by (auto simp: rne_def Let_def)
qed

lemma rne_le:
  assumes "x \<le> of_int k"
  shows "rne x \<le> k"
proof (cases "x = of_int k")
  case False
  with assms have "\<lfloor>x\<rfloor> < k" by (simp add: floor_less_iff)
  then show ?thesis by (auto simp: rne_def Let_def)
qed simp

lemma rne_minus: "rne (- x) = - rne x"
proof (cases "x = of_int \<lfloor>x\<rfloor>")
  case True
  then show ?thesis by (metis of_int_minus rne_of_int)
next
  case False
  define f d where "f = \<lfloor>x\<rfloor>" and "d = x - of_int \<lfloor>x\<rfloor>"
  have d: "0 < d" "d < 1" using False by (auto simp: d_def) linarith+
  have "\<lfloor>- x\<rfloor> = - f - 1"
    using d by (intro floor_unique) (simp_all add: f_def d_def)
  moreover have "- x - of_int (- f - 1) = 1 - d" by (simp add: f_def d_def)
  ultimately have "rne (- x) =
      (if 1 - d < 1 / 2 then - f - 1 else if 1 / 2 < 1 - d then - f
       else if even (- f - 1) then - f - 1 else - f)"
    by (simp add: rne_def Let_def)
  also have "\<dots> = - (if d < 1 / 2 then f else if 1 / 2 < d then f + 1 else if even f then f else f + 1)"
    by (auto simp: not_less)
  finally show ?thesis by (simp add: rne_def Let_def f_def d_def)
qed

section \<open>What rounding preserves\<close>

text \<open>A rational is a double when it is an integer of at most 53 bits times a power of two.\<close>

definition is_double :: "rat \<Rightarrow> bool" where
  "is_double x \<longleftrightarrow> (\<exists>m e. x = of_int m * 2 powi e \<and> \<bar>m\<bar> \<le> 2 ^ 53)"

lemma fl_0 [simp]: "fl 0 = 0"
  by (simp add: fl_def)

lemma fl_minus [simp]: "fl (- x) = - fl x"
  by (simp add: fl_def Let_def rne_minus)

lemma powi_52: "(2::rat) powi (k + 52) = 2 powi k * 4503599627370496"
  by (simp add: power_int_add)

lemma scaled_bounds:
  assumes "0 < x"
  shows "4503599627370496 \<le> x / 2 powi (ilog2 x - 52) \<and> x / 2 powi (ilog2 x - 52) < 9007199254740992"
proof -
  define u where "u = ilog2 x - 52"
  have "2 powi (u + 52) \<le> x" "x < 2 powi (u + 1 + 52)"
    using ilog2_bounds [OF assms] by (simp_all add: u_def add.commute)
  then have "2 powi u * 4503599627370496 \<le> x" "x < 2 powi (u + 1) * 4503599627370496"
    by (simp_all only: powi_52)
  then show ?thesis
    by (simp add: u_def [symmetric] power_int_add field_simps)
qed

lemma fl_pos:
  assumes "0 < x"
  shows "0 < fl x"
proof -
  have "of_int 4503599627370496 \<le> x / 2 powi (ilog2 x - 52)"
    using scaled_bounds [OF assms] by simp
  then have "4503599627370496 \<le> rne (x / 2 powi (ilog2 x - 52))" by (rule rne_ge)
  then show ?thesis using assms by (simp add: fl_def Let_def)
qed

lemma fl_less_0_iff [simp]: "fl x < 0 \<longleftrightarrow> x < 0"
  using fl_pos [of x] fl_pos [of "- x"] by (cases x "0::rat" rule: linorder_cases) auto

lemma fl_gr_0_iff [simp]: "0 < fl x \<longleftrightarrow> 0 < x"
  using fl_less_0_iff [of "- x"] by simp

lemma fl_ge_0_iff [simp]: "0 \<le> fl x \<longleftrightarrow> 0 \<le> x"
  by (simp add: not_less [symmetric])

lemma fl_eq_0_iff [simp]: "fl x = 0 \<longleftrightarrow> x = 0"
  by (metis fl_0 fl_gr_0_iff fl_less_0_iff linorder_neqE_linordered_idom order_less_irrefl)

lemma is_double_minus [simp]: "is_double (- x) = is_double x"
proof -
  have "is_double y \<Longrightarrow> is_double (- y)" for y
    unfolding is_double_def by (metis abs_minus_cancel mult_minus_left of_int_minus)
  from this [of x] this [of "- x"] show ?thesis by auto
qed

lemma is_double_fl: "is_double (fl x)"
proof -
  have pos: "is_double (fl y)" if "0 < y" for y
  proof -
    note b = scaled_bounds [OF that]
    have "rne (y / 2 powi (ilog2 y - 52)) \<le> 9007199254740992"
      using b by (intro rne_le) simp
    moreover have "4503599627370496 \<le> rne (y / 2 powi (ilog2 y - 52))"
      using b by (intro rne_ge) simp
    ultimately have "\<bar>rne (y / 2 powi (ilog2 y - 52))\<bar> \<le> 2 ^ 53" by simp
    then show ?thesis using that by (auto simp: is_double_def fl_def Let_def)
  qed
  have "is_double 0" unfolding is_double_def by (intro exI [of _ 0]) simp
  then show ?thesis
    using pos [of x] pos [of "- x"] by (cases x "0::rat" rule: linorder_cases) auto
qed

lemma fl_double_pos:
  assumes "is_double x" and "0 < x"
  shows "fl x = x"
proof -
  from assms(1) obtain m e where x: "x = of_int m * 2 powi e" and m: "\<bar>m\<bar> \<le> 2 ^ 53"
    by (auto simp: is_double_def)
  define u where "u = ilog2 x - 52"
  have pe: "(0::rat) < 2 powi e" by simp
  have "\<exists>k. x / 2 powi u = of_int k"
  proof (cases "u \<le> e")
    case True
    have "x / 2 powi u = of_int m * 2 powi (e - u)" by (simp add: x power_int_diff)
    also have "\<dots> = of_int (m * 2 ^ nat (e - u))" using True by (simp add: power_int_def)
    finally show ?thesis by blast
  next
    case False
    have "2 powi (u + 52) \<le> x"
      using ilog2_bounds [OF assms(2)] by (simp add: u_def)
    moreover have "2 powi (e + 1 + 52) \<le> (2::rat) powi (u + 52)"
      using False by (intro power_int_increasing) auto
    ultimately have "2 powi e * 9007199254740992 \<le> x"
      by (simp add: powi_52 power_int_add)
    then have "9007199254740992 \<le> m"
      using pe by (simp add: x mult.commute [of _ "2 powi e"])
    with m have m': "m = 9007199254740992" by simp
    have "ilog2 x = e + 53"
      by (rule ilog2_unique) (simp_all add: x m' power_int_add)
    then have "x / 2 powi u = of_int 4503599627370496"
      by (simp add: u_def x m' power_int_add)
    then show ?thesis by blast
  qed
  then obtain k where k: "x / 2 powi u = of_int k" ..
  then have "rne (x / 2 powi u) = k" by simp
  moreover have "of_int k * 2 powi u = x" using k by (simp add: field_simps)
  ultimately show ?thesis using assms(2) by (simp add: fl_def Let_def u_def)
qed

lemma fl_double: "is_double x \<Longrightarrow> fl x = x"
  using fl_double_pos [of x] fl_double_pos [of "- x"]
  by (cases x "0::rat" rule: linorder_cases) auto

lemma fl_fl [simp]: "fl (fl x) = fl x"
  by (rule fl_double [OF is_double_fl])

section \<open>Integers are exact up to \<open>2 ^ 53\<close>\<close>

lemma is_integer_iff: "is_integer x \<longleftrightarrow> (\<exists>k. x = of_int k)"
  unfolding is_integer_def by (metis floor_of_int)

lemma is_integer_of_int [simp]: "is_integer (of_int k)"
  by (simp add: is_integer_iff)

lemma is_integer_numeral [simp]:
  "is_integer 0" "is_integer 1" "is_integer (numeral n)" "is_integer (- numeral n)" "is_integer (- 1)"
  by (simp_all add: is_integer_def)

lemma is_integer_minus [simp]: "is_integer (- x) = is_integer x"
  unfolding is_integer_iff by (metis add.inverse_inverse of_int_minus)

lemma is_integer_add: "is_integer x \<Longrightarrow> is_integer y \<Longrightarrow> is_integer (x + y)"
  unfolding is_integer_iff by (metis of_int_add)

lemma is_integer_diff: "is_integer x \<Longrightarrow> is_integer y \<Longrightarrow> is_integer (x - y)"
  unfolding is_integer_iff by (metis of_int_diff)

lemma is_integer_mult: "is_integer x \<Longrightarrow> is_integer y \<Longrightarrow> is_integer (x * y)"
  unfolding is_integer_iff by (metis of_int_mult)

lemma is_integer_min: "is_integer x \<Longrightarrow> is_integer y \<Longrightarrow> is_integer (min x y)"
  by (simp add: min_def)

lemma is_integer_max: "is_integer x \<Longrightarrow> is_integer y \<Longrightarrow> is_integer (max x y)"
  by (simp add: max_def)

lemma is_integer_sum_list: "(\<forall>x \<in> set xs. is_integer x) \<Longrightarrow> is_integer (sum_list xs)"
  by (induction xs) (auto intro: is_integer_add)

lemma is_double_integer:
  assumes "is_integer x" and "\<bar>x\<bar> \<le> 9007199254740992"
  shows "is_double x"
proof -
  from assms(1) obtain k where k: "x = of_int k" by (auto simp: is_integer_iff)
  have "rat_of_int \<bar>k\<bar> \<le> of_int 9007199254740992" using assms(2) unfolding k by simp
  then have "\<bar>k\<bar> \<le> 2 ^ 53" by (simp only: of_int_le_iff) simp
  then show ?thesis unfolding is_double_def k by (intro exI [of _ k] exI [of _ 0]) simp
qed

lemma fl_integer: "is_integer x \<Longrightarrow> \<bar>x\<bar> \<le> 9007199254740992 \<Longrightarrow> fl x = x"
  by (rule fl_double [OF is_double_integer])

lemma fl_numeral [simp]:
  "numeral n \<le> (9007199254740992 :: rat) \<Longrightarrow> fl (numeral n) = numeral n"
  "fl 1 = 1"
  by (rule fl_integer; simp)+

lemma fl_of_int: "\<bar>k\<bar> \<le> 9007199254740992 \<Longrightarrow> fl (of_int k) = of_int k"
proof (rule fl_integer)
  assume "\<bar>k\<bar> \<le> 9007199254740992"
  then have "\<bar>rat_of_int k\<bar> \<le> of_int 9007199254740992" by linarith
  then show "\<bar>rat_of_int k\<bar> \<le> 9007199254740992" by simp
qed simp

lemma is_safeD:
  assumes "is_safe x"
  shows "is_integer x" "\<bar>x\<bar> \<le> 9007199254740991" "fl x = x" "is_double x"
  using assms by (auto simp: is_safe_def max_safe_def intro: fl_integer is_double_integer)

lemma is_safe_minus [simp]: "is_safe (- x) = is_safe x"
  by (simp add: is_safe_def)

lemma is_safe_0 [simp]: "is_safe 0"
  by (simp add: is_safe_def max_safe_def)

lemma is_safe_numeral [simp]:
  "is_safe (numeral n) \<longleftrightarrow> numeral n \<le> (9007199254740991 :: rat)" "is_safe 1"
  by (simp_all add: is_safe_def max_safe_def)

lemma to_bigint_of_int [simp]: "to_bigint (of_int k) = Inr k"
  by (simp add: to_bigint_def)

lemma to_bigint_Inr: "to_bigint x = Inr k \<longleftrightarrow> x = of_int k"
  by (auto simp: to_bigint_def is_integer_def)

lemma js_add_exact: "is_integer (a + b) \<Longrightarrow> \<bar>a + b\<bar> \<le> 9007199254740992 \<Longrightarrow> js_add a b = a + b"
  by (simp add: js_add_def fl_integer)

lemma js_sub_exact: "is_integer (a - b) \<Longrightarrow> \<bar>a - b\<bar> \<le> 9007199254740992 \<Longrightarrow> js_sub a b = a - b"
  by (simp add: js_sub_def fl_integer)

lemma js_mul_exact: "is_integer (a * b) \<Longrightarrow> \<bar>a * b\<bar> \<le> 9007199254740992 \<Longrightarrow> js_mul a b = a * b"
  by (simp add: js_mul_def fl_integer)

lemma js_add_0 [simp]: "is_double a \<Longrightarrow> js_add 0 a = a" "is_double a \<Longrightarrow> js_add a 0 = a"
  by (simp_all add: js_add_def fl_double)

lemma js_mul_1 [simp]: "is_double a \<Longrightarrow> js_mul a 1 = a"
  by (simp add: js_mul_def fl_double)

lemma js_pow10_0 [simp]: "js_pow10 0 = 1"
  by (simp add: js_pow10_def)

lemma js_add_cancel: "is_double a \<Longrightarrow> js_add a (- a) = 0"
  by (simp add: js_add_def)

section \<open>Evaluation\<close>

text \<open>
  Code equations with fewer library constants than the definitions: a safe integer is not rounded at
  all, and the rest avoids \<open>ceiling\<close> and \<open>even\<close>, whose code equations are costly to load.
\<close>

lemma ilog2_code [code]:
  "ilog2 x = (if 1 \<le> x then bitlen \<lfloor>x\<rfloor> - 1 else - bitlen (- \<lfloor>- 1 / x\<rfloor> - 1))"
  by (simp add: ilog2_def ceiling_def)

lemma rne_code [code]:
  "rne x = (let f = \<lfloor>x\<rfloor>; d = x - of_int f in
     if d < 1 / 2 then f else if 1 / 2 < d then f + 1 else if f mod 2 = 0 then f else f + 1)"
  by (simp only: rne_def even_iff_mod_2_eq_zero)

lemma fl_code [code]:
  "fl x = (if is_safe x then x else let u = ilog2 \<bar>x\<bar> - 52 in of_int (rne (x / 2 powi u)) * 2 powi u)"
proof (cases "is_safe x")
  case False
  then have "x \<noteq> 0" by auto
  with False show ?thesis by (simp add: fl_def)
qed (simp add: is_safeD)

section \<open>Sums\<close>

lemma js_sum_from_Nil [simp]: "js_sum_from a [] = a"
  by (simp add: js_sum_from_def)

lemma js_sum_from_Cons [simp]: "js_sum_from a (x # xs) = js_sum_from (js_add a x) xs"
  by (simp add: js_sum_from_def)

lemma js_sum_from_append [simp]: "js_sum_from a (xs @ ys) = js_sum_from (js_sum_from a xs) ys"
  by (simp add: js_sum_from_def)

lemma is_double_0 [simp]: "is_double 0"
  by (simp add: is_double_integer)

lemma is_double_js_add [simp]: "is_double (js_add a b)"
  by (simp add: js_add_def is_double_fl)

lemma is_double_js_sum: "is_double a \<Longrightarrow> is_double (js_sum_from a xs)"
  by (induction xs arbitrary: a) auto

text \<open>
  A sum of integers whose absolute values add up to at most \<open>2 ^ 53\<close> is computed exactly, in any
  order of accumulation.
\<close>

lemma js_sum_from_exact:
  assumes "is_integer a" and "\<forall>x \<in> set xs. is_integer x"
    and "\<bar>a\<bar> + sum_list (map abs xs) \<le> 9007199254740992"
  shows "js_sum_from a xs = a + sum_list xs"
  using assms
proof (induction xs arbitrary: a)
  case (Cons x xs)
  have nn: "0 \<le> sum_list (map abs xs)" by (induction xs) auto
  have i: "is_integer (a + x)" using Cons.prems by (auto intro: is_integer_add)
  have b: "\<bar>a + x\<bar> + sum_list (map abs xs) \<le> 9007199254740992" using Cons.prems(3) by simp
  have "js_add a x = a + x" using i b nn by (intro js_add_exact) auto
  moreover have "js_sum_from (a + x) xs = a + x + sum_list xs"
    by (rule Cons.IH) (use i b Cons.prems in auto)
  ultimately show ?case by simp
qed simp

lemma js_sum_exact:
  "\<forall>x \<in> set xs. is_integer x \<Longrightarrow> sum_list (map abs xs) \<le> 9007199254740992 \<Longrightarrow> js_sum xs = sum_list xs"
  using js_sum_from_exact [of 0 xs] by simp

lemma js_sum_from_nonneg: "0 \<le> a \<Longrightarrow> \<forall>x \<in> set xs. 0 \<le> x \<Longrightarrow> 0 \<le> js_sum_from a xs"
  by (induction xs arbitrary: a) (auto simp: js_add_def)

section \<open>Order and error of rounding\<close>

lemma rne_error: "\<bar>of_int (rne x) - x\<bar> \<le> 1 / 2"
proof -
  have d: "0 \<le> x - of_int \<lfloor>x\<rfloor>" "x - of_int \<lfloor>x\<rfloor> < 1" by linarith+
  then show ?thesis by (auto simp: rne_def Let_def not_less abs_le_iff)
qed

lemma fl_error: "\<bar>fl x - x\<bar> \<le> \<bar>x\<bar> / 9007199254740992"
proof -
  have pos: "\<bar>fl y - y\<bar> \<le> y / 9007199254740992" if "0 < y" for y
  proof -
    define u where "u = ilog2 y - 52"
    define z where "z = y / 2 powi u"
    have p: "(0::rat) < 2 powi u" by simp
    have y: "y = z * 2 powi u" by (simp add: z_def)
    have z: "4503599627370496 \<le> z" using scaled_bounds [OF that] by (simp add: z_def u_def)
    have "fl y - y = (of_int (rne z) - z) * 2 powi u"
      using that by (simp add: fl_def Let_def u_def [symmetric] z_def left_diff_distrib)
    then have "\<bar>fl y - y\<bar> = \<bar>of_int (rne z) - z\<bar> * 2 powi u" by (simp add: abs_mult)
    also have "\<dots> \<le> 1 / 2 * 2 powi u"
      using rne_error [of z] p by (intro mult_right_mono) auto
    also have "\<dots> \<le> z / 9007199254740992 * 2 powi u"
      using z p by (intro mult_right_mono) auto
    also have "\<dots> = y / 9007199254740992" by (simp add: y)
    finally show ?thesis .
  qed
  show ?thesis
    using pos [of x] pos [of "- x"] by (cases x "0::rat" rule: linorder_cases) auto
qed

text \<open>A double below (above) the exact result stays below (above) the rounded one.\<close>

lemma fl_ge_integer:
  assumes "is_integer k" and "\<bar>k\<bar> \<le> 9007199254740992" and "k \<le> x" and "0 < k"
  shows "k \<le> fl x"
proof -
  define u where "u = ilog2 x - 52"
  have x: "0 < x" using assms by linarith
  have p: "(0::rat) < 2 powi u" by simp
  have bnd: "4503599627370496 \<le> x / 2 powi u" using scaled_bounds [OF x] by (simp add: u_def)
  have f: "fl x = of_int (rne (x / 2 powi u)) * 2 powi u"
    using x by (simp add: fl_def Let_def u_def)
  obtain i where i: "k = of_int i" using assms(1) by (auto simp: is_integer_iff)
  show ?thesis
  proof (cases "u \<le> 0")
    case True
    have "of_int (i * 2 ^ nat (- u)) = k / 2 powi u"
      using True by (simp add: i power_int_def field_simps)
    also have "\<dots> \<le> x / 2 powi u" using assms(3) p by (intro divide_right_mono) auto
    finally have "i * 2 ^ nat (- u) \<le> rne (x / 2 powi u)" by (rule rne_ge)
    then have "of_int (i * 2 ^ nat (- u)) * 2 powi u \<le> fl x"
      unfolding f using p by (intro mult_right_mono) (simp_all only: of_int_le_iff less_imp_le)
    moreover have "of_int (i * 2 ^ nat (- u)) * 2 powi u = k"
      using True by (simp add: i power_int_def field_simps)
    ultimately show ?thesis by simp
  next
    case False
    have "of_int 4503599627370496 \<le> x / 2 powi u" using bnd by simp
    then have "4503599627370496 \<le> rne (x / 2 powi u)" by (rule rne_ge)
    then have "(4503599627370496 :: rat) \<le> of_int (rne (x / 2 powi u))" by linarith
    moreover have "(2::rat) \<le> 2 powi u"
      using power_int_increasing [of 1 u "2::rat"] False by simp
    ultimately have "4503599627370496 * 2 \<le> fl x" unfolding f by (intro mult_mono) auto
    then show ?thesis using assms(2) by linarith
  qed
qed

text \<open>\<open>Math.floor(a / b)\<close> of safe integers is integer division: rounding never reaches the next one.\<close>

lemma floor_js_div:
  assumes "0 \<le> a" and "a < 9007199254740992" and "0 < b"
  shows "\<lfloor>js_div (of_int a) (of_int b)\<rfloor> = a div b"
proof -
  define q r where "q = a div b" and "r = a mod b"
  define x :: rat where "x = of_int a / of_int b"
  have r: "0 \<le> r" "r + 1 \<le> b" and a: "a = q * b + r"
    using assms(3) by (simp_all add: q_def r_def zless_imp_add1_zle)
  have b: "(1::rat) \<le> of_int b" using assms(3) by simp
  have q0: "0 \<le> q" using assms by (simp add: q_def pos_imp_zdiv_nonneg_iff)
  have x: "x = of_int q + of_int r / of_int b"
    using b by (simp add: x_def a add_divide_distrib)
  have lo: "of_int q \<le> x" using r b by (simp add: x)
  have "of_int r + 1 \<le> (of_int b :: rat)" using r(2) by linarith
  then have "of_int r / of_int b + 1 / of_int b \<le> (1::rat)"
    using b by (simp add: add_divide_distrib [symmetric])
  then have hi: "x + 1 / of_int b \<le> of_int q + 1" by (simp add: x)
  have x0: "0 \<le> x" using lo q0 by linarith
  have "of_int a < (of_int 9007199254740992 :: rat)" using assms(2) by (simp only: of_int_less_iff)
  then have "x / 9007199254740992 < 1 / of_int b"
    using b by (simp add: x_def field_simps)
  moreover have "fl x - x \<le> x / 9007199254740992"
    using fl_error [of x] x0 by linarith
  ultimately have up: "fl x < of_int q + 1" using hi by linarith
  have qa: "q \<le> a" using r q0 assms(3) by (simp add: a) (smt (verit) mult_le_cancel_left1)
  have "of_int q \<le> fl x"
  proof (cases "q = 0")
    case False
    have "\<bar>rat_of_int q\<bar> \<le> 9007199254740992"
    proof -
      have "\<bar>q\<bar> \<le> 9007199254740992" using qa q0 assms(2) by simp
      then have "rat_of_int \<bar>q\<bar> \<le> of_int 9007199254740992" by (simp only: of_int_le_iff)
      then show ?thesis by simp
    qed
    then show ?thesis using False q0 lo by (intro fl_ge_integer) auto
  qed (use x0 in simp)
  with up have "\<lfloor>fl x\<rfloor> = q" by (intro floor_unique) auto
  then show ?thesis by (simp add: js_div_def x_def q_def)
qed

lemma big_div_nonneg: "0 \<le> a \<Longrightarrow> 0 < b \<Longrightarrow> big_div a b = a div b"
  by (cases "a = 0") (auto simp: big_div_def)

lemma big_mod_nonneg: "0 \<le> a \<Longrightarrow> 0 < b \<Longrightarrow> big_mod a b = a mod b"
  by (cases "a = 0") (auto simp: big_mod_def)

lemma of_bigint_exact: "\<bar>k\<bar> \<le> 9007199254740992 \<Longrightarrow> of_bigint k = of_int k"
  by (simp add: of_bigint_def fl_of_int)

end
