(* ===== verification/JsString.thy ===== *)
theory JsString
  imports Prelude "HOL-Library.Sublist" "HOL-Library.Char_ord"
begin

text \<open>
  JavaScript strings, with one \<open>char\<close> per UTF-16 code unit below 256 (the Latin-1 characters), so
  that \<open>length\<close> is the language's \<open>.length\<close> and the UTF-8 size of a string is computed from its
  code units. Holds the string methods the program uses and the decimal rendering of counters in
  identifiers such as \<open>txn-12\<close>, with the facts that make those identifiers distinct.
\<close>

section \<open>Characters by their code\<close>

text \<open>\<open>char_of\<close> bit by bit: the code equations below evaluate with it.\<close>

definition nat_char :: "nat \<Rightarrow> char" where
  "nat_char n = Char (n mod 2 = 1) (n div 2 mod 2 = 1) (n div 4 mod 2 = 1) (n div 8 mod 2 = 1)
     (n div 16 mod 2 = 1) (n div 32 mod 2 = 1) (n div 64 mod 2 = 1) (n div 128 mod 2 = 1)"

lemma nat_char: "char_of n = nat_char n"
  by (simp add: nat_char_def char_of_def bit_iff_odd odd_iff_mod_2_eq_one)

section \<open>Decimal rendering\<close>

fun show_nat :: "nat \<Rightarrow> string" where
  "show_nat n = (if n < 10 then [char_of (48 + n)] else show_nat (n div 10) @ [char_of (48 + n mod 10)])"

declare show_nat.simps [simp del]

lemma show_nat_code [code]:
  "show_nat n = (if n < 10 then [nat_char (48 + n)] else show_nat (n div 10) @ [nat_char (48 + n mod 10)])"
  by (subst show_nat.simps) (simp only: nat_char)

definition digit_val :: "char \<Rightarrow> nat" where
  "digit_val c = of_char c - 48"

definition is_digit :: "char \<Rightarrow> bool" where
  "is_digit c \<longleftrightarrow> 48 \<le> (of_char c :: nat) \<and> (of_char c :: nat) \<le> 57"

definition parse_digits :: "string \<Rightarrow> nat" where
  "parse_digits s = foldl (\<lambda>a c. a * 10 + digit_val c) 0 s"

lemma digit_val_digit [simp]: "d < 10 \<Longrightarrow> digit_val (char_of (48 + d)) = d"
  by (simp add: digit_val_def)

lemma is_digit_digit [simp]: "d < (10::nat) \<Longrightarrow> is_digit (char_of (48 + d))"
  by (simp add: is_digit_def)

lemma show_nat_small [simp]: "n < 10 \<Longrightarrow> show_nat n = [char_of (48 + n)]"
  by (subst show_nat.simps) simp

lemma show_nat_step: "\<not> n < 10 \<Longrightarrow> show_nat n = show_nat (n div 10) @ [char_of (48 + n mod 10)]"
  by (subst show_nat.simps) simp

lemma parse_show_nat [simp]: "parse_digits (show_nat n) = n"
proof (induction n rule: show_nat.induct)
  case (1 n)
  show ?case
  proof (cases "n < 10")
    case True
    then show ?thesis by (simp add: parse_digits_def)
  next
    case False
    with 1 have "parse_digits (show_nat (n div 10)) = n div 10" by blast
    with False show ?thesis by (simp add: show_nat_step parse_digits_def)
  qed
qed

lemma show_nat_inject [simp]: "show_nat m = show_nat n \<longleftrightarrow> m = n"
  by (metis parse_show_nat)

lemma show_nat_digits: "\<forall>c \<in> set (show_nat n). is_digit c"
proof (induction n rule: show_nat.induct)
  case (1 n)
  then show ?case by (cases "n < 10") (auto simp: show_nat_step)
qed

lemma show_nat_nonempty [simp]: "show_nat n \<noteq> []"
  by (cases "n < 10") (simp_all add: show_nat_step)

lemma show_nat_no_dash: "CHR ''-'' \<notin> set (show_nat n)"
  using show_nat_digits [of n] by (auto simp: is_digit_def)

section \<open>String methods\<close>

definition starts_with :: "string \<Rightarrow> string \<Rightarrow> bool" where
  "starts_with p s \<longleftrightarrow> prefix p s"

definition ends_with :: "string \<Rightarrow> string \<Rightarrow> bool" where
  "ends_with p s \<longleftrightarrow> suffix p s"

text \<open>\<open>s.split(c).at(-1)\<close>: what follows the last \<open>c\<close>, all of \<open>s\<close> when there is none.\<close>

definition after_last :: "char \<Rightarrow> string \<Rightarrow> string" where
  "after_last c s = rev (takeWhile (\<lambda>d. d \<noteq> c) (rev s))"

text \<open>\<open>s.replace(/-usd$/, '')\<close> for a literal tail.\<close>

definition strip_tail :: "string \<Rightarrow> string \<Rightarrow> string" where
  "strip_tail p s = (if suffix p s then take (length s - length p) s else s)"

text \<open>White space, control characters (\<open>/[\x00-\x1f\x7f]/\<close>), lower case, UTF-8 size.\<close>

definition is_space :: "char \<Rightarrow> bool" where
  "is_space c \<longleftrightarrow> (of_char c :: nat) \<in> {9, 10, 11, 12, 13, 32, 160}"

definition trim :: "string \<Rightarrow> string" where
  "trim s = rev (dropWhile is_space (rev (dropWhile is_space s)))"

definition is_control :: "char \<Rightarrow> bool" where
  "is_control c \<longleftrightarrow> (of_char c :: nat) < 32 \<or> (of_char c :: nat) = 127"

definition has_control :: "string \<Rightarrow> bool" where
  "has_control s \<longleftrightarrow> list_ex is_control s"

definition lower_char :: "char \<Rightarrow> char" where
  "lower_char c = (let n = of_char c :: nat in
     if (65 \<le> n \<and> n \<le> 90) \<or> (192 \<le> n \<and> n \<le> 222 \<and> n \<noteq> 215) then char_of (n + 32) else c)"

lemma lower_char_code [code]:
  "lower_char c = (let n = of_char c :: nat in
     if (65 \<le> n \<and> n \<le> 90) \<or> (192 \<le> n \<and> n \<le> 222 \<and> n \<noteq> 215) then nat_char (n + 32) else c)"
  by (simp only: lower_char_def nat_char)

definition to_lower :: "string \<Rightarrow> string" where
  "to_lower = map lower_char"

definition utf8_length :: "string \<Rightarrow> nat" where
  "utf8_length s = sum_list (map (\<lambda>c. if (of_char c :: nat) < 128 then 1 else 2) s)"

text \<open>\<open>s.padStart(n, c)\<close> and \<open>s.padEnd(n, c)\<close>.\<close>

definition pad_start :: "nat \<Rightarrow> char \<Rightarrow> string \<Rightarrow> string" where
  "pad_start n c s = replicate (n - length s) c @ s"

definition pad_end :: "nat \<Rightarrow> char \<Rightarrow> string \<Rightarrow> string" where
  "pad_end n c s = s @ replicate (n - length s) c"

lemma trim_idem [simp]: "trim (trim s) = trim s"
proof -
  define t where "t = dropWhile is_space s"
  have hd_t: "t = [] \<or> \<not> is_space (hd t)"
    by (metis hd_dropWhile t_def)
  define u where "u = rev (dropWhile is_space (rev t))"
  have "dropWhile is_space u = u"
  proof (cases "u = []")
    case False
    then have "prefix u t"
      unfolding u_def by (metis dropWhile_eq_drop suffix_drop suffix_to_prefix rev_rev_ident)
    with False have "hd u = hd t" and "t \<noteq> []" by (auto simp: prefix_def)
    with hd_t False show ?thesis by (simp add: dropWhile_eq_self_iff)
  qed simp
  moreover have "dropWhile is_space (rev u) = rev u"
    by (simp add: u_def dropWhile_idem)
  ultimately show ?thesis by (simp add: trim_def u_def t_def)
qed

lemma after_last_append:
  "c \<notin> set t \<Longrightarrow> after_last c (p @ c # t) = t"
  unfolding after_last_def rev_append rev.simps(2) append_assoc
  by (subst takeWhile_append2) auto

lemma after_last_counter [simp]: "after_last (CHR ''-'') (p @ CHR ''-'' # show_nat n) = show_nat n"
  by (rule after_last_append [OF show_nat_no_dash])

text \<open>The number at the end of an identifier, \<open>Number(id.split('-').at(-1))\<close>.\<close>

definition id_number :: "string \<Rightarrow> nat" where
  "id_number s = parse_digits (after_last (CHR ''-'') s)"

lemma id_number_counter [simp]: "id_number (p @ CHR ''-'' # show_nat n) = n"
  by (simp add: id_number_def)

lemma utf8_length_ge: "length s \<le> utf8_length s"
  by (induction s) (auto simp: utf8_length_def)

lemma to_lower_length [simp]: "length (to_lower s) = length s"
  by (simp add: to_lower_def)

lemma lower_char_idem [simp]: "lower_char (lower_char c) = lower_char c"
  by (auto simp: lower_char_def Let_def)

lemma to_lower_idem [simp]: "to_lower (to_lower s) = to_lower s"
  by (simp add: to_lower_def)

end
