(* ===== verification/Models.thy ===== *)
theory Models
  imports JsNumber JsString
begin

text \<open>
  The data of \<open>api/models.ts\<close>: the enumerations as datatypes, the interfaces as records. Optional
  fields are \<open>option\<close>s. Amounts and quantities are JavaScript numbers (\<open>num\<close>); timestamps are
  \<open>int\<close> (Unix seconds) and counters \<open>nat\<close>, both far below \<open>2 ^ 53\<close>. Names carry a short
  prefix where two interfaces share a field name.
\<close>

section \<open>Enumerations\<close>

datatype economic_kind = Labor | Good | Gift | OtherKind | LoanPrincipal | Interest

datatype economic_unit =
    Each | Batch | Task | Minute | Hour | Gram | Kilogram | Milliliter | Liter | Load | OtherUnit

datatype role = Nana | Member
datatype user_status = UserActive | UserDisabled
datatype listing_status = ListingActive | Sold | ListingCancelled
datatype listing_side = Sell | Buy
datatype transaction_kind = Message | Issue | Retire | Transfer | Purchase | Reversal
datatype offer_status = OfferOpen | Accepted | Settled | Reversed | Declined | NotSelected | Withdrawn
datatype quote_side = Bid | Ask
datatype quote_status = QuoteOpen | Filled | QuoteCancelled | QuoteExpired
datatype loan_status = Requested | Offered | Armed | LoanActive | Paid | LoanDeclined | LoanCancelled
datatype lotto_kind = Simple | Delayed | Savings
datatype lotto_status = LottoOpen | Waiting | Paying | LottoSettled
datatype fulfillment_status = Todo | Done | Disputed | FulfillmentReversed
datatype fulfillment_action = Complete | Dispute | WithdrawDispute
datatype fulfillment_kind = Work | Goods | Cash

section \<open>People\<close>

text \<open>The ledger's stored member (\<open>DemoUser\<close>), and the member as the API returns it (\<open>User\<close>).\<close>

record user =
  u_id :: string
  username :: string
  display_name :: string
  u_role :: role
  u_status :: user_status
  u_account :: string
  u_created_at :: int
  bio :: "string option"
  password :: string

record user_view =
  uv_id :: string
  uv_username :: string
  uv_display_name :: string
  uv_role :: role
  uv_status :: user_status
  uv_account :: string
  uv_created_at :: int
  uv_bio :: "string option"
  uv_balance :: "num option"
  uv_usd_cents :: "num option"

section \<open>Money movements\<close>

record posting =
  p_account :: string
  p_name :: string
  p_amount :: num

record fulfillment_update =
  fu_id :: string
  fu_at :: int
  fu_actor :: string
  fu_actor_name :: string
  fu_status :: fulfillment_status
  fu_reason :: string

record fulfillment =
  f_transaction :: string
  f_provider :: string
  f_recipient :: string
  f_provider_name :: string
  f_recipient_name :: string
  f_description :: string
  f_kind :: fulfillment_kind
  f_status :: fulfillment_status
  f_updates :: "fulfillment_update list"

record transaction =
  t_fulfillment :: "fulfillment option"
  t_id :: string
  t_kind :: transaction_kind
  t_created_at :: int
  t_actor :: string
  t_description :: string
  t_reference :: "string option"
  t_reverses :: "string option"
  t_economic_kind :: "economic_kind option"
  t_thing :: "string option"
  t_thing_name :: "string option"
  t_quantity_milli :: "num option"
  t_unit :: "economic_unit option"
  t_postings :: "posting list"
  t_money_epoch :: "nat option"
  t_decimals :: "nat option"
  t_gift_request :: "nat option"
  t_art :: "nat option"

text \<open>A transaction as the read methods return it: named postings and what was refunded.\<close>

record transaction_view = transaction +
  tv_original_postings :: "posting list"
  tv_current_money_epoch :: nat
  tv_refunded :: num
  tv_reversed_by :: "string option"

section \<open>The market\<close>

record listing =
  l_id :: string
  l_seller :: string
  l_seller_name :: string
  l_title :: string
  l_description :: string
  l_price :: num
  l_status :: listing_status
  l_created_at :: int
  l_updated_at :: int
  l_buyer :: "string option"
  l_buyer_name :: "string option"
  l_sold_tx :: "string option"
  l_kind :: "string option"
  l_currency :: "string option"
  l_minor_units :: "num option"
  l_economic_kind :: "economic_kind option"
  l_thing :: "string option"
  l_quantity_milli :: "num option"
  l_unit :: "economic_unit option"
  l_standard :: "bool option"
  l_side :: "listing_side option"

record thing =
  th_id :: string
  th_name :: string
  th_economic_kind :: economic_kind
  th_unit :: economic_unit
  th_standard :: bool
  th_updated_at :: int

record offer =
  o_id :: string
  o_listing :: string
  o_listing_title :: string
  o_listing_owner :: string
  o_listing_owner_name :: string
  o_listing_side :: listing_side
  o_offerer :: string
  o_offerer_name :: string
  o_amount :: num
  o_message :: string
  o_status :: offer_status
  o_created_at :: int
  o_updated_at :: int
  o_settled_tx :: "string option"

record quote =
  q_id :: string
  q_maker :: string
  q_maker_name :: string
  q_side :: quote_side
  q_cents_per_coin :: num
  q_coins :: num
  q_cents :: num
  q_status :: quote_status
  q_created_at :: int
  q_updated_at :: int
  q_live :: bool
  q_taker :: "string option"
  q_taker_name :: "string option"
  q_coin_tx :: "string option"
  q_cash_tx :: "string option"

section \<open>Loans\<close>

record loan_offer_input =
  in_borrower :: string
  in_amount :: num
  in_rate_bps :: num
  in_rate_days :: int
  in_payment_days :: int
  in_installment :: num
  in_credit :: bool
  in_memo :: string

record loan =
  ln_id :: nat
  ln_lender :: string
  ln_lender_name :: string
  ln_borrower :: string
  ln_borrower_name :: string
  ln_amount :: num
  ln_rate_bps :: num
  ln_rate_days :: int
  ln_payment_days :: int
  ln_installment :: num
  ln_credit :: bool
  ln_memo :: string
  ln_status :: loan_status
  ln_principal :: num
  ln_interest :: num
  ln_overdue :: num
  ln_next_due_at :: int
  ln_created_at :: int
  ln_updated_at :: int
  ln_waiting_reason :: string

section \<open>Lottos\<close>

record lotto_terms =
  lt_kind :: lotto_kind
  lt_title :: string
  lt_ticket_price :: num
  lt_closes_at :: num
  lt_rate_bps :: num

record lotto =
  lo_id :: nat
  lo_terms :: lotto_terms
  lo_house :: string
  lo_pool :: num
  lo_interest :: num
  lo_tickets :: num
  lo_my_tickets :: num
  lo_winner :: "string option"
  lo_winner_name :: "string option"
  lo_due_at :: num
  lo_status :: lotto_status

section \<open>Gift requests and art\<close>

record gift_request =
  g_id :: nat
  g_owner :: nat
  g_title :: string
  g_description :: string
  g_target :: "num option"
  g_deadline :: "num option"
  g_received :: num
  g_closed :: bool
  g_created_at :: int

record artwork =
  a_id :: nat
  a_creator :: nat
  a_owner :: nat
  a_title :: string
  a_license :: string
  a_sha256 :: string
  a_locator :: string
  a_price :: "num option"
  a_revision :: nat
  a_equipped :: bool
  a_created_at :: int

datatype commerce_action =
    CreateRequest string string "num option" "num option"
  | CloseRequest nat
  | Contribute nat num string
  | MintArt string string string string
  | ListArt nat "num option"
  | BuyArt nat nat nat num
  | GiftArt nat nat
  | EquipArt nat bool

section \<open>Requests and results\<close>

record reform_input =
  ri_decimals :: num
  ri_power :: num
  ri_expected_epoch :: nat
  ri_expected_sequence :: nat
  ri_preview :: bool

record reform_result =
  rr_decimals :: nat
  rr_money_epoch :: nat
  rr_sequence :: nat
  rr_circulation :: num
  rr_preview :: bool

record status_view =
  st_decimals :: nat
  st_money_epoch :: nat
  st_sequence :: nat
  st_provisioned :: bool
  st_household :: string
  st_users :: nat
  st_transactions :: nat
  st_active_listings :: nat
  st_circulation :: num
  st_journal_used :: nat
  st_journal_capacity :: nat
  st_ledger_balanced :: bool

section \<open>Truthiness\<close>

text \<open>
  A condition on an optional number or string is false when the field is absent, zero or empty.
\<close>

definition truthy_nat :: "nat option \<Rightarrow> bool" where
  "truthy_nat x \<longleftrightarrow> (case x of Some n \<Rightarrow> n \<noteq> 0 | None \<Rightarrow> False)"

definition truthy_num :: "num option \<Rightarrow> bool" where
  "truthy_num x \<longleftrightarrow> (case x of Some n \<Rightarrow> n \<noteq> 0 | None \<Rightarrow> False)"

definition truthy_str :: "string option \<Rightarrow> bool" where
  "truthy_str x \<longleftrightarrow> (case x of Some s \<Rightarrow> s \<noteq> [] | None \<Rightarrow> False)"

text \<open>The transaction limit of \<open>api/money.ts\<close>.\<close>

definition max_money :: num where
  "max_money = 1000000000000000"

lemma max_money_safe: "max_money \<le> max_safe"
  by (simp add: max_money_def max_safe_def)

end
