(* ===== verification/Lending.thy ===== *)
theory Lending
  imports Models
begin

text \<open>
  \<open>demo/lending.ts\<close>: the tab's loan book. Its state is the list of loans, the next id and the set
  of accounts whose last cash came from a loan. It reaches the ledger only through the interface
  \<open>LendingHost\<close> (a balance, a member by account, a payment); the methods are written over a record
  of those three and of where the book sits in the caller's state \<open>'w\<close>, because a payment goes
  through the ledger, which calls the book back (\<open>cashChanged\<close>).
\<close>

section \<open>State\<close>

record stored_loan = loan +
  sl_remainder :: int
  sl_accrued_at :: int
  sl_principal_due :: num
  sl_interest_due :: num
  sl_attempted_balance :: num

record lending =
  le_loans :: "stored_loan list"
  le_next_id :: nat
  le_blocked :: "string set"

definition new_lending :: lending where
  "new_lending = \<lparr>le_loans = [], le_next_id = 1, le_blocked = {}\<rparr>"

record 'w lending_host =
  lh_balance :: "'w \<Rightarrow> string \<Rightarrow> num"
  lh_user :: "'w \<Rightarrow> string \<Rightarrow> user option"
  lh_post :: "string \<Rightarrow> string \<Rightarrow> num \<Rightarrow> nat \<Rightarrow> bool \<Rightarrow> ('w, unit) act"
  lh_get :: "'w \<Rightarrow> lending"
  lh_put :: "lending \<Rightarrow> 'w \<Rightarrow> 'w"

definition DAY :: int where "DAY = 86400"

definition terminal :: "stored_loan \<Rightarrow> bool" where
  "terminal l \<longleftrightarrow> ln_status l \<in> {Paid, LoanDeclined, LoanCancelled}"

text \<open>
  What a caught error shows: its message. The text of the language's own errors is the engine's
  and not modelled.
\<close>

fun exn_message :: "exn \<Rightarrow> string" where
  "exn_message (DemoError _ _ m) = m"
| "exn_message (PlainError m) = m"
| "exn_message TypeError = ''TypeError''"
| "exn_message RangeError = ''RangeError''"

section \<open>Guards and helpers\<close>

definition cash_changed :: "string list \<Rightarrow> bool \<Rightarrow> lending \<Rightarrow> lending" where
  "cash_changed accounts is_loan b =
     foldl (\<lambda>b a. if is_loan then b\<lparr>le_blocked := insert a (le_blocked b)\<rparr>
                  else b\<lparr>le_blocked := le_blocked b - {a}\<rparr>) b accounts"

definition loan_active_user :: "'w lending_host \<Rightarrow> 'w \<Rightarrow> string \<Rightarrow> user res" where
  "loan_active_user h w account =
     (case lh_user h w account of
        None \<Rightarrow> Inl (PlainError ''An account is disabled.'')
      | Some u \<Rightarrow> if u_status u \<noteq> UserActive then Inl (PlainError ''An account is disabled.'') else Inr u)"

definition loan_active :: "'w lending_host \<Rightarrow> 'w \<Rightarrow> string \<Rightarrow> exn option" where
  "loan_active h w account = (case loan_active_user h w account of Inl e \<Rightarrow> Some e | Inr _ \<Rightarrow> None)"

definition loan_find :: "lending \<Rightarrow> nat \<Rightarrow> stored_loan option" where
  "loan_find b i = find (\<lambda>l. ln_id l = i) (le_loans b)"

definition check_funds :: "'w lending_host \<Rightarrow> 'w \<Rightarrow> string \<Rightarrow> string \<Rightarrow> num \<Rightarrow> exn option" where
  "check_funds h w src dst amount = first_err
     [loan_active h w src, loan_active h w dst,
      throw_if (lh_balance h w src < amount) (PlainError ''Insufficient funds.''),
      throw_if (\<not> is_safe (js_add (lh_balance h w dst) amount)) (PlainError ''Balance limit exceeded.'')]"

text \<open>Changing a loan object in place.\<close>

definition set_loan :: "'w lending_host \<Rightarrow> stored_loan \<Rightarrow> 'w \<Rightarrow> 'w" where
  "set_loan h l w = (let b = lh_get h w in
     lh_put h (b\<lparr>le_loans := upd_first (\<lambda>x. ln_id x = ln_id l) (\<lambda>_. l) (le_loans b)\<rparr>) w)"

text \<open>
  Interest up to \<open>now\<close>, in exact \<open>bigint\<close> arithmetic: whole units are added to the interest owed
  and the rest is carried in \<open>remainder\<close>.
\<close>

definition accrue_denominator :: "stored_loan \<Rightarrow> int" where
  "accrue_denominator l = 10000 * (ln_rate_days l * DAY)"

definition accrue :: "stored_loan \<Rightarrow> int \<Rightarrow> stored_loan res" where
  "accrue l now =
     (if now < sl_accrued_at l then Inl (PlainError ''Clock is unavailable.'')
      else case to_bigint (ln_principal l) of Inl e \<Rightarrow> Inl e | Inr prin \<Rightarrow>
      (case to_bigint (ln_rate_bps l) of Inl e \<Rightarrow> Inl e | Inr rate \<Rightarrow>
      (case to_bigint (ln_interest l) of Inl e \<Rightarrow> Inl e | Inr owed \<Rightarrow>
        let denominator = accrue_denominator l;
            numerator = prin * rate * (now - sl_accrued_at l) + sl_remainder l in
        if denominator = 0 then Inl RangeError
        else let interest = owed + big_div numerator denominator in
          if interest + prin > 9007199254740991
          then Inl (PlainError ''Interest exceeds the accounting limit.'')
          else Inr (l\<lparr>ln_interest := of_bigint interest,
                      sl_remainder := big_mod numerator denominator,
                      sl_accrued_at := now\<rparr>))))"

section \<open>Views\<close>

definition loan_view :: "'w lending_host \<Rightarrow> 'w \<Rightarrow> stored_loan \<Rightarrow> int \<Rightarrow> loan" where
  "loan_view h w l now =
     (let checked = first_err [loan_active h w (ln_borrower l),
                               (if ln_status l \<noteq> Requested then loan_active h w (ln_lender l) else None)];
          accrued = (if ln_status l = LoanActive then accrue l now else Inr l);
          reason = (case checked of Some e \<Rightarrow> exn_message e
            | None \<Rightarrow> (case accrued of Inl e \<Rightarrow> exn_message e
              | Inr _ \<Rightarrow> if ln_status l = Armed then
                  (if lh_balance h w (ln_borrower l) \<noteq> 0 then ''Waiting for a zero balance''
                   else if ln_borrower l \<in> le_blocked (lh_get h w) then ''Credit does not fund loan payments''
                   else if lh_balance h w (ln_lender l) < ln_amount l then ''Waiting for lender funds''
                   else ''Ready for automatic funding'')
                else ''''));
          copy = (case (checked, accrued) of (None, Inr c) \<Rightarrow> c | _ \<Rightarrow> l)
      in loan.truncate copy
           \<lparr>ln_overdue := js_add (sl_principal_due l) (sl_interest_due l), ln_waiting_reason := reason\<rparr>)"

record loan_book =
  lb_loans :: "loan list"
  lb_outstanding :: int
  lb_overdue :: int
  lb_active :: nat
  lb_weighted_annual_percent :: "num option"
  lb_decimals :: nat
  lb_money_epoch :: nat
  lb_sequence :: nat

fun big_sum :: "num list \<Rightarrow> int res" where
  "big_sum [] = Inr 0"
| "big_sum (x # xs) = (case to_bigint x of Inl e \<Rightarrow> Inl e | Inr n \<Rightarrow>
     (case big_sum xs of Inl e \<Rightarrow> Inl e | Inr m \<Rightarrow> Inr (n + m)))"

definition loan_visible :: "user \<Rightarrow> stored_loan \<Rightarrow> bool" where
  "loan_visible actor l \<longleftrightarrow> ln_status l = Requested \<or> u_role actor = Nana
     \<or> ln_borrower l = u_account actor \<or> ln_lender l = u_account actor"

definition loan_book :: "'w lending_host \<Rightarrow> user \<Rightarrow> nat \<Rightarrow> nat \<Rightarrow> nat \<Rightarrow> int \<Rightarrow> 'w \<Rightarrow> loan_book res" where
  "loan_book h actor decimals epoch sequence now w =
     (let b = lh_get h w; active = filter (\<lambda>l. ln_status l = LoanActive) (le_loans b) in
      case big_sum (map ln_principal active) of Inl e \<Rightarrow> Inl e | Inr outstanding \<Rightarrow>
      (case big_sum (map (\<lambda>l. js_add (sl_principal_due l) (sl_interest_due l)) active) of
         Inl e \<Rightarrow> Inl e
       | Inr overdue \<Rightarrow>
         let weighted = js_sum (map (\<lambda>l. js_div (js_mul (js_div (js_mul (ln_principal l) (ln_rate_bps l)) 100) 365)
                                           (of_int (ln_rate_days l))) active)
         in Inr \<lparr>lb_loans = map (\<lambda>l. loan_view h w l now) (rev (filter (loan_visible actor) (le_loans b))),
                 lb_outstanding = outstanding, lb_overdue = overdue, lb_active = length active,
                 lb_weighted_annual_percent =
                   (if outstanding \<noteq> 0 then Some (js_div weighted (of_bigint outstanding)) else None),
                 lb_decimals = decimals, lb_money_epoch = epoch, lb_sequence = sequence\<rparr>))"

definition member_book :: "'w lending_host \<Rightarrow> user \<Rightarrow> user \<Rightarrow> int \<Rightarrow> 'w \<Rightarrow> loan list" where
  "member_book h viewer subject now w =
     map (\<lambda>l. let v = loan_view h w l now in
            if u_role viewer = Nana \<or> u_account viewer = ln_lender l \<or> u_account viewer = ln_borrower l
            then v else v\<lparr>ln_memo := ''''\<rparr>)
       (rev (filter (\<lambda>l. (ln_lender l = u_account subject \<or> ln_borrower l = u_account subject)
                       \<and> (ln_status l = LoanActive \<or> ln_status l = Paid)) (le_loans (lh_get h w))))"

section \<open>Operations\<close>

definition terms_ok :: "user \<Rightarrow> loan_offer_input \<Rightarrow> bool \<Rightarrow> bool" where
  "terms_ok actor i request \<longleftrightarrow>
     \<not> ((if request then u_account actor \<noteq> in_borrower i else u_account actor = in_borrower i)
        \<or> \<not> is_safe (in_amount i) \<or> in_amount i \<le> 0 \<or> in_amount i > max_money
        \<or> \<not> is_safe (in_installment i) \<or> in_installment i \<le> 0 \<or> in_installment i > in_amount i
        \<or> \<not> is_integer (in_rate_bps i) \<or> in_rate_bps i < 0 \<or> in_rate_bps i > 4294967295
        \<or> in_rate_days i \<notin> {1, 7, 30, 365} \<or> in_payment_days i \<notin> {1, 7, 30}
        \<or> utf8_length (in_memo i) > 96 \<or> has_control (in_memo i))"

text \<open>\<open>Object.assign(application, input, ...)\<close> and the record of a new loan.\<close>

definition assign_input :: "loan_offer_input \<Rightarrow> stored_loan \<Rightarrow> stored_loan" where
  "assign_input i l = l\<lparr>ln_borrower := in_borrower i, ln_amount := in_amount i, ln_rate_bps := in_rate_bps i,
     ln_rate_days := in_rate_days i, ln_payment_days := in_payment_days i,
     ln_installment := in_installment i, ln_credit := in_credit i, ln_memo := in_memo i\<rparr>"

definition fresh_loan :: "user \<Rightarrow> user \<Rightarrow> loan_offer_input \<Rightarrow> int \<Rightarrow> bool \<Rightarrow> nat \<Rightarrow> stored_loan" where
  "fresh_loan actor borrower i now request n =
     \<lparr>ln_id = n, ln_lender = (if request then '''' else u_account actor),
      ln_lender_name = (if request then ''Seeking lender'' else display_name actor),
      ln_borrower = in_borrower i, ln_borrower_name = display_name borrower,
      ln_amount = in_amount i, ln_rate_bps = in_rate_bps i, ln_rate_days = in_rate_days i,
      ln_payment_days = in_payment_days i, ln_installment = in_installment i,
      ln_credit = in_credit i, ln_memo = in_memo i,
      ln_status = (if request then Requested else Offered),
      ln_principal = 0, ln_interest = 0, ln_overdue = 0, ln_next_due_at = 0,
      ln_created_at = now, ln_updated_at = now, ln_waiting_reason = '''',
      sl_remainder = 0, sl_accrued_at = 0, sl_principal_due = 0, sl_interest_due = 0,
      sl_attempted_balance = 0\<rparr>"

definition loan_offer ::
  "'w lending_host \<Rightarrow> user \<Rightarrow> loan_offer_input \<Rightarrow> int \<Rightarrow> bool \<Rightarrow> nat option \<Rightarrow> ('w, loan) act" where
  "loan_offer h actor i now request responding w =
     (case loan_active_user h w (u_account actor) of Inl e \<Rightarrow> (Inl e, w) | Inr _ \<Rightarrow>
     (case loan_active_user h w (in_borrower i) of Inl e \<Rightarrow> (Inl e, w) | Inr borrower \<Rightarrow>
     (if \<not> terms_ok actor i request then (Inl (PlainError ''Invalid loan terms.''), w)
      else case responding of
        Some r \<Rightarrow> (case loan_find (lh_get h w) r of
            None \<Rightarrow> (Inl (PlainError ''Loan not found.''), w)
          | Some application \<Rightarrow>
              if ln_status application \<noteq> Requested \<or> ln_borrower application \<noteq> in_borrower i
              then (Inl (PlainError ''Application is no longer available.''), w)
              else let l = (assign_input i application)\<lparr>ln_lender := u_account actor,
                              ln_lender_name := display_name actor, ln_status := Offered, ln_updated_at := now\<rparr>;
                       w' = set_loan h l w
                   in (Inr (loan_view h w' l now), w'))
      | None \<Rightarrow>
          let b = lh_get h w;
              room = (if length (le_loans b) = 32
                      then (case find_index terminal (le_loans b) of
                              None \<Rightarrow> None | Some k \<Rightarrow> Some (splice1 k (le_loans b)))
                      else Some (le_loans b))
          in case room of
               None \<Rightarrow> (Inl (PlainError ''Loan capacity reached.''), w)
             | Some ls \<Rightarrow>
                 let l = fresh_loan actor borrower i now request (le_next_id b);
                     w' = lh_put h (b\<lparr>le_loans := ls @ [l], le_next_id := Suc (le_next_id b)\<rparr>) w
                 in (Inr (loan_view h w' l now), w'))))"

definition loan_start :: "'w lending_host \<Rightarrow> stored_loan \<Rightarrow> int \<Rightarrow> ('w, stored_loan) act" where
  "loan_start h l now w =
     (case check_funds h w (ln_lender l) (ln_borrower l) (ln_amount l) of Some e \<Rightarrow> (Inl e, w) | None \<Rightarrow>
     (case lh_post h (ln_lender l) (ln_borrower l) (ln_amount l) (ln_id l) False w of
        (Inl e, w') \<Rightarrow> (Inl e, w')
      | (Inr _, w') \<Rightarrow>
          let l' = l\<lparr>ln_status := LoanActive, ln_principal := ln_amount l, sl_accrued_at := now,
                     ln_next_due_at := now + ln_payment_days l * DAY, ln_updated_at := now\<rparr>
          in (Inr l', set_loan h l' w')))"

definition loan_accept :: "'w lending_host \<Rightarrow> user \<Rightarrow> nat \<Rightarrow> int \<Rightarrow> ('w, loan) act" where
  "loan_accept h actor i now w =
     (case loan_find (lh_get h w) i of None \<Rightarrow> (Inl (PlainError ''Loan not found.''), w) | Some l \<Rightarrow>
       (case first_err [loan_active h w (u_account actor), loan_active h w (ln_lender l),
            throw_if (u_account actor \<noteq> ln_borrower l \<or> ln_status l \<noteq> Offered)
              (PlainError ''This loan cannot be accepted.'')] of
          Some e \<Rightarrow> (Inl e, w)
        | None \<Rightarrow>
            if ln_credit l
            then let l' = l\<lparr>ln_status := Armed, ln_updated_at := now\<rparr>; w' = set_loan h l' w
                 in (Inr (loan_view h w' l' now), w')
            else (case loan_start h l now w of
                    (Inl e, w') \<Rightarrow> (Inl e, w')
                  | (Inr l', w') \<Rightarrow> (Inr (loan_view h w' l' now), w'))))"

definition loan_close :: "'w lending_host \<Rightarrow> user \<Rightarrow> nat \<Rightarrow> int \<Rightarrow> ('w, loan) act" where
  "loan_close h actor i now w =
     (case loan_active h w (u_account actor) of Some e \<Rightarrow> (Inl e, w) | None \<Rightarrow>
     (case loan_find (lh_get h w) i of None \<Rightarrow> (Inl (PlainError ''Loan not found.''), w) | Some l \<Rightarrow>
       if u_account actor \<notin> {ln_borrower l, ln_lender l} \<or> ln_status l \<notin> {Requested, Offered, Armed}
       then (Inl (PlainError ''This loan cannot be cancelled.''), w)
       else let l' = l\<lparr>ln_status := (if u_account actor = ln_borrower l \<and> ln_status l = Offered
                                     then LoanDeclined else LoanCancelled), ln_updated_at := now\<rparr>;
                w' = set_loan h l' w
            in (Inr (loan_view h w' l' now), w')))"

text \<open>
  One settlement of an active loan: accrue, move due dates forward, work out what is asked for
  (all that is due, or the amount the borrower chose), take what the balance allows, principal
  first on the ledger, interest first in the split. \<open>settled_terms\<close> is the part before any money
  moves, \<open>settled_loan\<close> the bookkeeping after it.
\<close>

definition roll_due :: "stored_loan \<Rightarrow> int \<Rightarrow> stored_loan res" where
  "roll_due l now =
     (if now \<ge> ln_next_due_at l then
        let periods = \<lfloor>js_div (of_int (now - ln_next_due_at l)) (of_int (ln_payment_days l * DAY))\<rfloor> + 1 in
        case to_bigint (ln_principal l) of Inl e \<Rightarrow> Inl e | Inr prin \<Rightarrow>
        (case to_bigint (sl_principal_due l) of Inl e \<Rightarrow> Inl e | Inr due \<Rightarrow>
        (case to_bigint (ln_installment l) of Inl e \<Rightarrow> Inl e | Inr installment \<Rightarrow>
           Inr (l\<lparr>sl_principal_due := of_bigint (min prin (due + periods * installment)),
                  sl_interest_due := ln_interest l,
                  ln_next_due_at := ln_next_due_at l + periods * ln_payment_days l * DAY\<rparr>)))
      else Inr l)"

definition requested_payment :: "stored_loan \<Rightarrow> num option \<Rightarrow> num" where
  "requested_payment l amount = (case amount of
       None \<Rightarrow> min max_money (js_add (sl_principal_due l) (sl_interest_due l))
     | Some a \<Rightarrow> min a (js_add (ln_principal l) (ln_interest l)))"

definition settled_loan :: "stored_loan \<Rightarrow> num \<Rightarrow> num \<Rightarrow> num \<Rightarrow> num \<Rightarrow> int \<Rightarrow> stored_loan" where
  "settled_loan l balance paid prin interest now =
     (let l1 = l\<lparr>ln_principal := js_sub (ln_principal l) prin,
                 ln_interest := js_sub (ln_interest l) interest,
                 sl_principal_due := max 0 (js_sub (sl_principal_due l) prin),
                 sl_interest_due := max 0 (js_sub (sl_interest_due l) interest),
                 sl_attempted_balance := js_sub balance paid,
                 ln_updated_at := now\<rparr>
      in if ln_principal l1 = 0 \<and> ln_interest l1 = 0
         then l1\<lparr>ln_status := Paid, sl_remainder := 0, ln_next_due_at := 0\<rparr> else l1)"

definition settle_prepare :: "'w lending_host \<Rightarrow> 'w \<Rightarrow> stored_loan \<Rightarrow> int \<Rightarrow> stored_loan res" where
  "settle_prepare h w original now =
     (case first_err [throw_if (ln_status original \<noteq> LoanActive) (PlainError ''Loan is not active.''),
          loan_active h w (ln_borrower original), loan_active h w (ln_lender original)] of
        Some e \<Rightarrow> Inl e | None \<Rightarrow>
     (case accrue original now of Inl e \<Rightarrow> Inl e | Inr l \<Rightarrow> roll_due l now))"

definition payment :: "'w lending_host \<Rightarrow> 'w \<Rightarrow> stored_loan \<Rightarrow> num option \<Rightarrow> num" where
  "payment h w l amount = min (requested_payment l amount) (max 0 (lh_balance h w (ln_borrower l)))"

definition post_nonzero :: "'w lending_host \<Rightarrow> string \<Rightarrow> string \<Rightarrow> num \<Rightarrow> nat \<Rightarrow> bool \<Rightarrow> ('w, unit) act" where
  "post_nonzero h src dst amount i is_interest w =
     (if amount \<noteq> 0 then lh_post h src dst amount i is_interest w else (Inr (), w))"

definition settle_pay :: "'w lending_host \<Rightarrow> stored_loan \<Rightarrow> int \<Rightarrow> num option \<Rightarrow> ('w, stored_loan) act" where
  "settle_pay h l now amount w =
     (let balance = lh_balance h w (ln_borrower l);
          paid = payment h w l amount;
          interest = min paid (ln_interest l);
          prin = js_sub paid interest
      in guarded
          [throw_if (amount \<noteq> None \<and> balance < requested_payment l amount) (PlainError ''Insufficient funds.''),
           (if paid > 0 then check_funds h w (ln_borrower l) (ln_lender l) paid else None)]
          (and_then (post_nonzero h (ln_borrower l) (ln_lender l) prin (ln_id l) False)
            (\<lambda>_. and_then (post_nonzero h (ln_borrower l) (ln_lender l) interest (ln_id l) True)
              (\<lambda>_ w'. let l' = settled_loan l balance paid prin interest now in (Inr l', set_loan h l' w')))) w)"

definition loan_settle :: "'w lending_host \<Rightarrow> stored_loan \<Rightarrow> int \<Rightarrow> num option \<Rightarrow> ('w, stored_loan) act" where
  "loan_settle h original now amount w =
     (case settle_prepare h w original now of
        Inl e \<Rightarrow> (Inl e, w) | Inr l \<Rightarrow> settle_pay h l now amount w)"

definition loan_repay :: "'w lending_host \<Rightarrow> user \<Rightarrow> nat \<Rightarrow> num \<Rightarrow> int \<Rightarrow> ('w, loan) act" where
  "loan_repay h actor i amount now w =
     (case loan_find (lh_get h w) i of None \<Rightarrow> (Inl (PlainError ''Loan not found.''), w) | Some l \<Rightarrow>
     (case loan_active h w (u_account actor) of Some e \<Rightarrow> (Inl e, w) | None \<Rightarrow>
       if ln_borrower l \<noteq> u_account actor \<or> \<not> is_safe amount \<or> amount \<le> 0 \<or> amount > max_money
       then (Inl (PlainError ''Invalid repayment.''), w)
       else (case loan_settle h l now (Some amount) w of
               (Inl e, w') \<Rightarrow> (Inl e, w')
             | (Inr l', w') \<Rightarrow> (Inr (loan_view h w' l' now), w'))))"

text \<open>
  One tick: the loans by due date, at most four of them acted on; a throw leaves the count alone
  and the next loan is tried. The list is a snapshot, the loans in it are the live objects.
\<close>

definition loan_due_key :: "stored_loan \<Rightarrow> int" where
  "loan_due_key l = (if ln_next_due_at l \<noteq> 0 then ln_next_due_at l else ln_updated_at l)"

definition tick_order :: "stored_loan list \<Rightarrow> nat list" where
  "tick_order ls = map ln_id (sort_key loan_due_key (sort_key ln_id ls))"

definition loan_ready_to_start :: "'w lending_host \<Rightarrow> 'w \<Rightarrow> stored_loan \<Rightarrow> bool" where
  "loan_ready_to_start h w l \<longleftrightarrow> ln_status l = Armed \<and> lh_balance h w (ln_borrower l) = 0
     \<and> ln_borrower l \<notin> le_blocked (lh_get h w)"

definition loan_ready_to_settle :: "'w lending_host \<Rightarrow> 'w \<Rightarrow> stored_loan \<Rightarrow> int \<Rightarrow> bool" where
  "loan_ready_to_settle h w l now \<longleftrightarrow> ln_status l = LoanActive \<and>
     (now \<ge> ln_next_due_at l
      \<or> (js_add (sl_principal_due l) (sl_interest_due l) > 0 \<and> lh_balance h w (ln_borrower l) > 0
         \<and> lh_balance h w (ln_borrower l) \<noteq> sl_attempted_balance l))"

definition tick_step :: "'w lending_host \<Rightarrow> int \<Rightarrow> nat \<Rightarrow> 'w \<Rightarrow> bool \<times> 'w" where
  "tick_step h now i w = (case loan_find (lh_get h w) i of
       None \<Rightarrow> (False, w)
     | Some l \<Rightarrow>
         if loan_ready_to_start h w l then
           (case loan_start h l now w of (Inl _, w') \<Rightarrow> (False, w') | (Inr _, w') \<Rightarrow> (True, w'))
         else if loan_ready_to_settle h w l now then
           (case loan_settle h l now None w of (Inl _, w') \<Rightarrow> (False, w') | (Inr _, w') \<Rightarrow> (True, w'))
         else (False, w))"

fun tick_loop :: "'w lending_host \<Rightarrow> int \<Rightarrow> nat list \<Rightarrow> nat \<Rightarrow> 'w \<Rightarrow> nat \<times> 'w" where
  "tick_loop h now [] n w = (n, w)"
| "tick_loop h now (i # is) n w =
     (if n = 4 then (n, w)
      else case tick_step h now i w of (acted, w') \<Rightarrow>
        tick_loop h now is (if acted then Suc n else n) w')"

definition loan_tick :: "'w lending_host \<Rightarrow> int \<Rightarrow> 'w \<Rightarrow> nat \<times> 'w" where
  "loan_tick h now w = tick_loop h now (tick_order (le_loans (lh_get h w))) 0 w"

section \<open>Currency reform\<close>

definition loan_convert :: "int \<Rightarrow> int \<Rightarrow> int res" where
  "loan_convert exponent n =
     (let factor = 10 ^ nat \<bar>exponent\<bar> in
      if exponent < 0 \<and> big_mod n factor \<noteq> 0 then Inl (PlainError ''Reform would lose loan fractions.'')
      else Inr (if exponent < 0 then big_div n factor else n * factor))"

definition loan_convert_amount :: "int \<Rightarrow> num \<Rightarrow> num res" where
  "loan_convert_amount exponent n =
     (case to_bigint n of Inl e \<Rightarrow> Inl e | Inr k \<Rightarrow>
     (case loan_convert exponent k of Inl e \<Rightarrow> Inl e | Inr v \<Rightarrow>
        if v > 9007199254740991 \<or> v < - 9007199254740991
        then Inl (PlainError ''Reform exceeds amount limit.'') else Inr (of_bigint v)))"

definition reform_loan :: "int \<Rightarrow> stored_loan \<Rightarrow> stored_loan res" where
  "reform_loan exponent l =
     (let denominator = accrue_denominator l in
      case to_bigint (ln_interest l) of Inl e \<Rightarrow> Inl e | Inr interest \<Rightarrow>
      (case loan_convert exponent (interest * denominator + sl_remainder l) of Inl e \<Rightarrow> Inl e | Inr accrued \<Rightarrow>
      (case loan_convert_amount exponent (ln_amount l) of Inl e \<Rightarrow> Inl e | Inr amount \<Rightarrow>
      (case loan_convert_amount exponent (ln_installment l) of Inl e \<Rightarrow> Inl e | Inr installment \<Rightarrow>
      (case loan_convert_amount exponent (ln_principal l) of Inl e \<Rightarrow> Inl e | Inr prin \<Rightarrow>
      (case loan_convert_amount exponent (sl_principal_due l) of Inl e \<Rightarrow> Inl e | Inr prin_due \<Rightarrow>
      (case loan_convert_amount exponent (sl_interest_due l) of Inl e \<Rightarrow> Inl e | Inr int_due \<Rightarrow>
      (case loan_convert_amount exponent (sl_attempted_balance l) of Inl e \<Rightarrow> Inl e | Inr attempted \<Rightarrow>
      (case to_bigint prin of Inl e \<Rightarrow> Inl e | Inr prin_n \<Rightarrow>
        if denominator = 0 then Inl RangeError
        else if amount > max_money \<or> installment > max_money
           \<or> prin_n + big_div accrued denominator > 9007199254740991
        then Inl (PlainError ''Reform exceeds loan limit.'')
        else Inr (l\<lparr>ln_amount := amount, ln_installment := installment, ln_principal := prin,
               sl_principal_due := prin_due, sl_interest_due := int_due, sl_attempted_balance := attempted,
               ln_interest := of_bigint (big_div accrued denominator),
               sl_remainder := big_mod accrued denominator\<rparr>))))))))))"

definition lending_reform :: "int \<Rightarrow> lending \<Rightarrow> lending res" where
  "lending_reform exponent b =
     (case map_res (reform_loan exponent) (le_loans b) of
        Inl e \<Rightarrow> Inl e | Inr ls \<Rightarrow> Inr (b\<lparr>le_loans := ls\<rparr>))"

section \<open>What a loan record always satisfies\<close>

definition wf_terms :: "stored_loan \<Rightarrow> bool" where
  "wf_terms l \<longleftrightarrow> is_safe (ln_amount l) \<and> 0 < ln_amount l \<and> ln_amount l \<le> max_money
     \<and> is_safe (ln_installment l) \<and> 0 < ln_installment l \<and> ln_installment l \<le> ln_amount l
     \<and> is_integer (ln_rate_bps l) \<and> 0 \<le> ln_rate_bps l \<and> ln_rate_bps l \<le> 4294967295
     \<and> ln_rate_days l \<in> {1, 7, 30, 365} \<and> ln_payment_days l \<in> {1, 7, 30}"

definition wf_debt :: "stored_loan \<Rightarrow> bool" where
  "wf_debt l \<longleftrightarrow> is_integer (ln_principal l) \<and> 0 \<le> ln_principal l
     \<and> is_integer (ln_interest l) \<and> 0 \<le> ln_interest l
     \<and> ln_principal l + ln_interest l \<le> 9007199254740991
     \<and> is_integer (sl_principal_due l) \<and> 0 \<le> sl_principal_due l \<and> sl_principal_due l \<le> ln_principal l
     \<and> is_integer (sl_interest_due l) \<and> 0 \<le> sl_interest_due l \<and> sl_interest_due l \<le> ln_interest l
     \<and> 0 \<le> sl_remainder l \<and> sl_remainder l < accrue_denominator l"

definition wf_loan :: "stored_loan \<Rightarrow> bool" where
  "wf_loan l \<longleftrightarrow> wf_terms l \<and> wf_debt l
     \<and> (ln_status l \<noteq> LoanActive \<longrightarrow> ln_principal l = 0 \<and> ln_interest l = 0 \<and> sl_remainder l = 0)
     \<and> (ln_status l \<in> {Offered, Armed, LoanActive} \<longrightarrow> ln_borrower l \<noteq> ln_lender l)"

definition wf_book :: "lending \<Rightarrow> bool" where
  "wf_book b \<longleftrightarrow> length (le_loans b) \<le> 32 \<and> distinct (map ln_id (le_loans b))
     \<and> (\<forall>l \<in> set (le_loans b). ln_id l < le_next_id b \<and> wf_loan l)"

lemma wf_terms_denominator: "wf_terms l \<Longrightarrow> 0 < accrue_denominator l"
  by (auto simp: wf_terms_def accrue_denominator_def DAY_def)

text \<open>\<open>accrue\<close> over the integers a well-formed loan holds.\<close>

lemma accrue_ints:
  assumes "ln_principal l = of_int p" "ln_rate_bps l = of_int r" "ln_interest l = of_int i"
    and "0 \<le> p" "0 \<le> r" "0 \<le> i" "0 \<le> sl_remainder l" "0 < accrue_denominator l"
  shows "accrue l now =
    (if now < sl_accrued_at l then Inl (PlainError ''Clock is unavailable.'')
     else let n = p * r * (now - sl_accrued_at l) + sl_remainder l; d = accrue_denominator l in
       if i + n div d + p > 9007199254740991
       then Inl (PlainError ''Interest exceeds the accounting limit.'')
       else Inr (l\<lparr>ln_interest := of_int (i + n div d), sl_remainder := n mod d, sl_accrued_at := now\<rparr>))"
proof (cases "now < sl_accrued_at l")
  case False
  define n where "n = p * r * (now - sl_accrued_at l) + sl_remainder l"
  define d where "d = accrue_denominator l"
  have n: "0 \<le> n" using assms False by (simp add: n_def)
  have d: "0 < d" using assms by (simp add: d_def)
  have "0 \<le> n div d" using n d by (simp add: pos_imp_zdiv_nonneg_iff)
  then have "\<not> i + n div d + p > 9007199254740991 \<Longrightarrow> of_bigint (i + n div d) = of_int (i + n div d)"
    using assms by (intro of_bigint_exact) auto
  then show ?thesis
    using False assms n d
    by (simp add: accrue_def Let_def n_def [symmetric] d_def [symmetric] big_div_nonneg big_mod_nonneg
        del: of_int_add)
qed (simp add: accrue_def)

lemma wf_debt_ints:
  assumes "wf_terms l" and "wf_debt l"
  obtains p r i where "ln_principal l = of_int p" "ln_rate_bps l = of_int r" "ln_interest l = of_int i"
    "0 \<le> p" "0 \<le> r" "0 \<le> i" "p + i \<le> 9007199254740991"
    "0 \<le> sl_remainder l" "sl_remainder l < accrue_denominator l" "0 < accrue_denominator l"
proof -
  from assms obtain p r i where *: "ln_principal l = of_int p" "ln_rate_bps l = of_int r"
      "ln_interest l = of_int i"
    by (auto simp: wf_terms_def wf_debt_def is_integer_iff)
  have "rat_of_int (p + i) \<le> of_int 9007199254740991"
    using assms(2) by (simp add: wf_debt_def *)
  then have "p + i \<le> 9007199254740991" by (simp only: of_int_le_iff)
  with * assms wf_terms_denominator [OF assms(1)] show ?thesis
    by (intro that [of p r i]) (auto simp: wf_terms_def wf_debt_def)
qed

text \<open>
  Accruing in two steps is accruing in one: the carried remainder loses nothing, so when the
  scheduler runs does not change what a borrower owes.
\<close>

lemma two_step_div:
  fixes a b r d :: int
  assumes "0 < d"
  shows "(a + r) div d + (b + (a + r) mod d) div d = (a + b + r) div d"
    and "(b + (a + r) mod d) mod d = (a + b + r) mod d"
proof -
  have e: "a + b + r = (b + (a + r) mod d) + (a + r) div d * d"
    by (simp add: minus_mod_eq_div_mult [symmetric] algebra_simps)
  have "((b + (a + r) mod d) + (a + r) div d * d) div d = (a + r) div d + (b + (a + r) mod d) div d"
    using assms by (intro div_mult_self1) simp
  then show "(a + r) div d + (b + (a + r) mod d) div d = (a + b + r) div d"
    by (simp only: e [symmetric])
  show "(b + (a + r) mod d) mod d = (a + b + r) mod d"
    by (simp add: mod_add_right_eq algebra_simps)
qed

lemma accrue_split:
  assumes wf: "wf_terms l" "wf_debt l"
    and t: "sl_accrued_at l \<le> t1" "t1 \<le> t2" and l2: "accrue l t2 = Inr l2"
  shows "\<exists>l1. accrue l t1 = Inr l1 \<and> accrue l1 t2 = Inr l2"
proof -
  obtain p r i where v: "ln_principal l = of_int p" "ln_rate_bps l = of_int r" "ln_interest l = of_int i"
    and nn: "0 \<le> p" "0 \<le> r" "0 \<le> i" "0 \<le> sl_remainder l" and d: "0 < accrue_denominator l"
    using wf by (elim wf_debt_ints)
  define d where "d = accrue_denominator l"
  define q where "q = sl_remainder l"
  define a where "a = p * r * (t1 - sl_accrued_at l)"
  define b where "b = p * r * (t2 - t1)"
  have d0: "0 < d" using d by (simp add: d_def)
  have a0: "0 \<le> a" "0 \<le> b" "0 \<le> q" using nn t by (simp_all add: a_def b_def q_def)
  have ab: "p * r * (t2 - sl_accrued_at l) = a + b" by (simp add: a_def b_def algebra_simps)
  note two = two_step_div [OF d0, where a = a and b = b and r = q]
  define l1 where "l1 = l\<lparr>ln_interest := of_int (i + (a + q) div d), sl_remainder := (a + q) mod d,
      sl_accrued_at := t1\<rparr>"
  have lim: "\<not> i + (a + b + q) div d + p > 9007199254740991"
    and l2': "l2 = l\<lparr>ln_interest := of_int (i + (a + b + q) div d), sl_remainder := (a + b + q) mod d,
      sl_accrued_at := t2\<rparr>"
    using l2 t accrue_ints [OF v nn d, of t2]
    by (auto simp: Let_def ab d_def [symmetric] q_def [symmetric] split: if_splits)
  have pos: "0 \<le> (a + q) div d" "0 \<le> (b + (a + q) mod d) div d"
    using a0 d0 by (simp_all add: pos_imp_zdiv_nonneg_iff)
  have 1: "accrue l t1 = Inr l1"
    using t accrue_ints [OF v nn d, of t1] lim pos two(1)
    by (simp add: Let_def a_def [symmetric] d_def [symmetric] q_def [symmetric] l1_def)
  have den: "accrue_denominator l1 = d" by (simp add: l1_def accrue_denominator_def d_def)
  have v1: "ln_principal l1 = of_int p" "ln_rate_bps l1 = of_int r"
    "ln_interest l1 = of_int (i + (a + q) div d)" and q1: "sl_remainder l1 = (a + q) mod d"
    and s1: "sl_accrued_at l1 = t1"
    using v by (simp_all add: l1_def)
  have owed: "i + (a + q) div d + (b + (a + q) mod d) div d = i + (a + b + q) div d"
    using two(1) by simp
  have "accrue l1 t2 = Inr (l1\<lparr>ln_interest := of_int (i + (a + b + q) div d),
      sl_remainder := (a + b + q) mod d, sl_accrued_at := t2\<rparr>)"
    using accrue_ints [OF v1, of t2] nn pos d0 t lim
    by (simp add: Let_def den q1 s1 b_def [symmetric] owed two(2) del: of_int_add)
  then have "accrue l1 t2 = Inr l2" by (simp add: l2' l1_def)
  with 1 show ?thesis by blast
qed

section \<open>How each step keeps a loan record well formed\<close>

lemma accrue_keeps:
  assumes "wf_terms l" "wf_debt l" and l': "accrue l now = Inr l'"
  shows "wf_terms l' \<and> wf_debt l' \<and> ln_principal l' = ln_principal l \<and> ln_interest l \<le> ln_interest l'
    \<and> ln_status l' = ln_status l \<and> ln_id l' = ln_id l \<and> ln_borrower l' = ln_borrower l
    \<and> ln_lender l' = ln_lender l \<and> ln_next_due_at l' = ln_next_due_at l"
proof -
  obtain p r i where v: "ln_principal l = of_int p" "ln_rate_bps l = of_int r" "ln_interest l = of_int i"
    and nn: "0 \<le> p" "0 \<le> r" "0 \<le> i" "0 \<le> sl_remainder l" and d: "0 < accrue_denominator l"
    using assms(1,2) by (elim wf_debt_ints)
  define n where "n = p * r * (now - sl_accrued_at l) + sl_remainder l"
  define k where "k = n div accrue_denominator l"
  have c: "\<not> now < sl_accrued_at l" and lim: "\<not> i + k + p > 9007199254740991"
    and l'_eq: "l' = l\<lparr>ln_interest := of_int (i + k), sl_remainder := n mod accrue_denominator l,
      sl_accrued_at := now\<rparr>"
    using l' accrue_ints [OF v nn d, of now]
    by (auto simp: Let_def n_def [symmetric] k_def [symmetric] split: if_splits)
  have n: "0 \<le> n" using nn c by (simp add: n_def)
  have k: "0 \<le> k" using n d by (simp add: k_def pos_imp_zdiv_nonneg_iff)
  have den: "accrue_denominator l' = accrue_denominator l" by (simp add: l'_eq accrue_denominator_def)
  have "rat_of_int (p + (i + k)) \<le> of_int 9007199254740991"
    using lim by (simp only: of_int_le_iff)
  then have "of_int p + of_int (i + k) \<le> (9007199254740991 :: rat)" by simp
  moreover have "ln_interest l \<le> of_int (i + k)" using k by (simp add: v)
  moreover have "0 \<le> i + k" using nn k by simp
  ultimately show ?thesis
    using assms(1,2) n d den
    by (auto simp: wf_debt_def wf_terms_def l'_eq v simp del: of_int_add)
qed

lemma floor_js_div_nonneg: "0 \<le> a \<Longrightarrow> 0 < b \<Longrightarrow> 0 \<le> \<lfloor>js_div a b\<rfloor>"
  by (simp add: js_div_def)

lemma roll_due_keeps:
  assumes wf: "wf_terms l" "wf_debt l"
  shows "\<exists>l'. roll_due l now = Inr l' \<and> wf_terms l' \<and> wf_debt l' \<and> ln_principal l' = ln_principal l
    \<and> ln_interest l' = ln_interest l \<and> ln_status l' = ln_status l \<and> ln_id l' = ln_id l
    \<and> ln_borrower l' = ln_borrower l \<and> ln_lender l' = ln_lender l"
proof (cases "now \<ge> ln_next_due_at l")
  case True
  from wf obtain p q s where v: "ln_principal l = of_int p" "sl_principal_due l = of_int q"
      "ln_installment l = of_int s"
    by (auto simp: wf_terms_def wf_debt_def is_integer_iff is_safe_def)
  have nn: "0 \<le> p" "0 \<le> q" "0 \<le> s" "q \<le> p"
    using wf by (auto simp: wf_terms_def wf_debt_def v)
  define k where "k = \<lfloor>js_div (of_int (now - ln_next_due_at l)) (of_int (ln_payment_days l * DAY))\<rfloor> + 1"
  have "0 < rat_of_int (ln_payment_days l * DAY)" using wf(1) by (auto simp: wf_terms_def DAY_def)
  then have "0 \<le> \<lfloor>js_div (of_int (now - ln_next_due_at l)) (of_int (ln_payment_days l * DAY))\<rfloor>"
    using True by (intro floor_js_div_nonneg) auto
  then have k: "1 \<le> k" by (simp add: k_def)
  define m where "m = min p (q + k * s)"
  have m: "0 \<le> m" "m \<le> p" using nn k by (auto simp: m_def min_def)
  have "p \<le> 9007199254740991"
    by (rule wf_debt_ints [OF wf]) (use v(1) in auto)
  then have bm: "of_bigint m = of_int m" using m by (intro of_bigint_exact) simp
  define l' where "l' = l\<lparr>sl_principal_due := of_int m, sl_interest_due := ln_interest l,
      ln_next_due_at := ln_next_due_at l + k * ln_payment_days l * DAY\<rparr>"
  have "roll_due l now = Inr l'"
    unfolding roll_due_def Let_def k_def [symmetric]
    using True by (simp add: v m_def [symmetric] bm l'_def)
  moreover have "wf_terms l'" using wf(1) by (simp add: l'_def wf_terms_def)
  moreover have "wf_debt l'"
    using wf(2) m by (simp add: l'_def wf_debt_def accrue_denominator_def v)
  ultimately show ?thesis by (simp add: l'_def)
qed (use wf in \<open>simp add: roll_due_def\<close>)

lemma wf_debt_bound:
  "wf_debt l \<Longrightarrow> 0 \<le> x \<Longrightarrow> x \<le> ln_principal l + ln_interest l \<Longrightarrow> \<bar>x\<bar> \<le> 9007199254740992"
  by (auto simp: wf_debt_def)

text \<open>The split of a payment: interest first, the rest off the principal.\<close>

lemma settled_loan_keeps:
  assumes wf: "wf_terms l" "wf_debt l" and st: "ln_status l = LoanActive"
    and bl: "ln_borrower l \<noteq> ln_lender l" and paid: "is_integer paid" "0 \<le> paid" "paid \<le> ln_principal l + ln_interest l"
    and i: "interest = min paid (ln_interest l)" and pr: "prin = js_sub paid interest"
    and l': "l' = settled_loan l balance paid prin interest now"
  shows "prin = paid - interest \<and> wf_loan l' \<and> ln_id l' = ln_id l
    \<and> ln_principal l' = ln_principal l - prin \<and> ln_interest l' = ln_interest l - interest
    \<and> (ln_status l' = Paid \<longleftrightarrow> ln_principal l' = 0 \<and> ln_interest l' = 0) \<and> ln_status l' \<in> {LoanActive, Paid}"
proof -
  note d = wf(2) [unfolded wf_debt_def]
  have ii: "is_integer interest" "0 \<le> interest" "interest \<le> paid" "interest \<le> ln_interest l"
    using d paid by (auto simp: i min_def)
  have pr': "prin = paid - interest"
    unfolding pr using ii paid wf_debt_bound [OF wf(2)] by (intro js_sub_exact is_integer_diff) auto
  have p: "is_integer prin" "0 \<le> prin" "prin \<le> ln_principal l"
    using ii paid d by (auto simp: pr' i min_def intro: is_integer_diff)
  have e1: "js_sub (ln_principal l) prin = ln_principal l - prin"
    using d p by (intro js_sub_exact is_integer_diff) auto
  have e2: "js_sub (ln_interest l) interest = ln_interest l - interest"
    using d ii by (intro js_sub_exact is_integer_diff) auto
  have e3: "js_sub (sl_principal_due l) prin = sl_principal_due l - prin"
    using d p by (intro js_sub_exact is_integer_diff) auto
  have e4: "js_sub (sl_interest_due l) interest = sl_interest_due l - interest"
    using d ii by (intro js_sub_exact is_integer_diff) auto
  have den: "accrue_denominator l' = accrue_denominator l" "0 < accrue_denominator l"
    using wf_terms_denominator [OF wf(1)] by (simp_all add: l' settled_loan_def Let_def accrue_denominator_def)
  have t: "wf_terms l'" using wf(1) by (auto simp: l' settled_loan_def Let_def wf_terms_def)
  have "wf_debt l'"
    using d p ii den unfolding wf_debt_def den(1)
    by (auto simp: l' settled_loan_def Let_def e1 e2 e3 e4 intro!: is_integer_diff is_integer_max)
  then show ?thesis
    using t st bl by (auto simp: wf_loan_def pr' l' settled_loan_def Let_def e1 [unfolded pr'] e2)
qed

section \<open>The contract with the ledger\<close>

text \<open>
  What the lending book relies on: the ledger's answers do not depend on the book, a payment either
  happens or leaves no trace, leaves the loans alone, moves exactly the amount, and does not fail
  when the payer can pay it. \<open>ok\<close> is the ledger's own invariant that balances are whole numbers.
\<close>

locale lending_client =
  fixes h :: "'w lending_host" and ok :: "'w \<Rightarrow> bool"
  assumes get_put [simp]: "lh_get h (lh_put h b w) = b"
    and balance_put [simp]: "lh_balance h (lh_put h b w) = lh_balance h w"
    and user_put [simp]: "lh_user h (lh_put h b w) = lh_user h w"
    and ok_put [simp]: "ok (lh_put h b w) = ok w"
    and ok_balance: "ok w \<Longrightarrow> is_integer (lh_balance h w x)"
    and post_refused: "lh_post h s d a i f w = (Inl e, w') \<Longrightarrow> w' = w"
    and post_ok: "lh_post h s d a i f w = (Inr u, w') \<Longrightarrow> ok w \<Longrightarrow> is_safe a \<Longrightarrow> ok w'"
    and post_book: "lh_post h s d a i f w = (Inr u, w') \<Longrightarrow>
      le_loans (lh_get h w') = le_loans (lh_get h w) \<and> le_next_id (lh_get h w') = le_next_id (lh_get h w)"
    and post_payer: "lh_post h s d a i f w = (Inr u, w') \<Longrightarrow> ok w \<Longrightarrow> s \<noteq> d \<Longrightarrow> is_safe a \<Longrightarrow>
      lh_balance h w' s = js_sub (lh_balance h w s) a"
    and post_payee: "lh_post h s d a i f w = (Inr u, w') \<Longrightarrow> ok w \<Longrightarrow> s \<noteq> d \<Longrightarrow> is_safe a \<Longrightarrow>
      lh_balance h w' d = js_add (lh_balance h w d) a"
    and post_others: "lh_post h s d a i f w = (Inr u, w') \<Longrightarrow> ok w \<Longrightarrow> is_safe a \<Longrightarrow> x \<noteq> s \<Longrightarrow> x \<noteq> d \<Longrightarrow>
      lh_balance h w' x = lh_balance h w x"
    and post_pays: "ok w \<Longrightarrow> is_safe a \<Longrightarrow> 0 < a \<Longrightarrow> a \<le> lh_balance h w s \<Longrightarrow>
      \<exists>w'. lh_post h s d a i f w = (Inr (), w')"
begin

abbreviation loans :: "'w \<Rightarrow> stored_loan list" where
  "loans w \<equiv> le_loans (lh_get h w)"

lemma set_loan_get [simp]:
  "lh_get h (set_loan h l w) =
     (lh_get h w)\<lparr>le_loans := upd_first (\<lambda>x. ln_id x = ln_id l) (\<lambda>_. l) (loans w)\<rparr>"
  by (simp add: set_loan_def Let_def)

lemma set_loan_frame [simp]:
  "lh_balance h (set_loan h l w) = lh_balance h w" "lh_user h (set_loan h l w) = lh_user h w"
  "ok (set_loan h l w) = ok w"
  by (simp_all add: set_loan_def Let_def)

lemma wf_set_loan:
  assumes "wf_book (lh_get h w)" and "wf_loan l"
  shows "wf_book (lh_get h (set_loan h l w))"
  unfolding wf_book_def
proof (intro conjI ballI)
  show "distinct (map ln_id (loans (set_loan h l w)))" "length (loans (set_loan h l w)) \<le> 32"
    using assms(1) by (simp_all add: wf_book_def)
next
  fix x assume "x \<in> set (loans (set_loan h l w))"
  then have "x \<in> set (upd_first (\<lambda>x. ln_id x = ln_id l) (\<lambda>_. l) (loans w))" by simp
  then show "ln_id x < le_next_id (lh_get h (set_loan h l w))" "wf_loan x"
    using assms by (auto simp: wf_book_def elim!: in_upd_firstE)
qed

lemma wf_book_find:
  "wf_book b \<Longrightarrow> loan_find b i = Some l \<Longrightarrow> l \<in> set (le_loans b) \<and> ln_id l = i \<and> wf_loan l"
  unfolding loan_find_def wf_book_def by (auto dest: find_Some_prop)

lemma post_wf:
  "lh_post h s d a i f w = (Inr u, w') \<Longrightarrow> wf_book (lh_get h w') = wf_book (lh_get h w)"
  by (auto dest: post_book simp: wf_book_def)

text \<open>A refused operation leaves no trace.\<close>

lemma start_refused: "loan_start h l now w = (Inl e, w') \<Longrightarrow> w' = w"
  by (auto simp: loan_start_def Let_def split: option.splits prod.splits sum.splits dest: post_refused)

lemma start_wf:
  assumes "wf_book (lh_get h w)" "wf_terms l" "ok w"
    and r: "loan_start h l now w = (Inr l', w')"
    and d: "ln_borrower l \<noteq> ln_lender l" "ln_interest l = 0" "sl_principal_due l = 0" "sl_interest_due l = 0" "0 \<le> sl_remainder l"
      "sl_remainder l < accrue_denominator l"
  shows "wf_book (lh_get h w') \<and> ok w' \<and> wf_loan l' \<and> ln_status l' = LoanActive
    \<and> ln_principal l' = ln_amount l \<and> ln_id l' = ln_id l"
proof -
  from r obtain w1 where p: "lh_post h (ln_lender l) (ln_borrower l) (ln_amount l) (ln_id l) False w = (Inr (), w1)"
    and l': "l' = l\<lparr>ln_status := LoanActive, ln_principal := ln_amount l, sl_accrued_at := now,
      ln_next_due_at := now + ln_payment_days l * DAY, ln_updated_at := now\<rparr>"
    and w': "w' = set_loan h l' w1"
    by (auto simp: loan_start_def Let_def split: option.splits prod.splits sum.splits)
  have s: "is_safe (ln_amount l)" using assms(2) by (simp add: wf_terms_def)
  have t: "wf_terms l'" using assms(2) by (simp add: l' wf_terms_def)
  have "wf_loan l'"
    using t assms(2) d is_safeD [OF s]
    by (auto simp: wf_loan_def wf_debt_def l' wf_terms_def accrue_denominator_def max_money_def)
  moreover have "wf_book (lh_get h w1)" using post_wf [OF p] assms(1) by simp
  ultimately show ?thesis
    using wf_set_loan [of w1 l'] post_ok [OF p assms(3) s] by (simp add: w' l')
qed


lemma loan_active_put [simp]: "loan_active h (lh_put h b w) x = loan_active h w x"
  by (simp add: loan_active_def loan_active_user_def)

lemma check_funds_None:
  "check_funds h w s d a = None \<Longrightarrow> a \<le> lh_balance h w s \<and> is_safe (js_add (lh_balance h w d) a)"
  by (simp add: check_funds_def guard_simps)

lemma js_sub_ge:
  assumes "is_integer x" "is_integer a" "is_integer b" "0 < b" "b \<le> 9007199254740992" "a + b \<le> x"
  shows "b \<le> js_sub x a"
  unfolding js_sub_def using assms by (intro fl_ge_integer) auto

text \<open>
  A settlement is all or nothing, although it makes two payments: when the principal has been
  posted the borrower still holds the interest, so the second payment cannot be refused.
\<close>

lemma settle_second_post:
  assumes ok: "ok w" and wf: "wf_debt l" and paid: "is_integer paid" "0 \<le> paid"
    "paid \<le> ln_principal l + ln_interest l" "paid \<le> lh_balance h w (ln_borrower l)"
    and bl: "ln_borrower l \<noteq> ln_lender l"
    and i: "interest = min paid (ln_interest l)" "interest \<noteq> 0" and pr: "prin = js_sub paid interest"
    and p1: "post_nonzero h (ln_borrower l) (ln_lender l) prin (ln_id l) False w = (Inr u, w1)"
  shows "\<exists>w2. lh_post h (ln_borrower l) (ln_lender l) interest (ln_id l) True w1 = (Inr (), w2)"
proof -
  note d = wf [unfolded wf_debt_def]
  have ii: "is_integer interest" "0 < interest" "interest \<le> paid"
    using d paid i by (auto simp: min_def split: if_splits)
  have b: "paid \<le> 9007199254740991" using d paid by linarith
  have pr': "prin = paid - interest"
    unfolding pr using ii paid b by (intro js_sub_exact is_integer_diff) auto
  have sp: "is_safe prin" "is_safe interest"
    using ii paid b by (auto simp: pr' is_safe_def max_safe_def intro: is_integer_diff)
  have "ok w1 \<and> interest \<le> lh_balance h w1 (ln_borrower l)"
  proof (cases "prin = 0")
    case True
    with p1 ok ii paid show ?thesis by (auto simp: post_nonzero_def)
  next
    case False
    then have p: "lh_post h (ln_borrower l) (ln_lender l) prin (ln_id l) False w = (Inr u, w1)"
      using p1 by (simp add: post_nonzero_def)
    have "interest \<le> js_sub (lh_balance h w (ln_borrower l)) prin"
      using ii b paid sp ok_balance [OF ok] by (intro js_sub_ge) (auto simp: pr' is_safe_def)
    then show ?thesis using post_ok [OF p ok sp(1)] post_payer [OF p ok bl sp(1)] by simp
  qed
  then show ?thesis using post_pays ii sp by blast
qed


lemma payment_bounds:
  assumes ok: "ok w" and wf: "wf_debt l" and a: "\<And>a. amount = Some a \<Longrightarrow> is_safe a \<and> 0 < a"
  shows "is_integer (payment h w l amount) \<and> 0 \<le> payment h w l amount
    \<and> payment h w l amount \<le> ln_principal l + ln_interest l
    \<and> payment h w l amount \<le> max 0 (lh_balance h w (ln_borrower l))"
proof -
  note d = wf [unfolded wf_debt_def]
  have e1: "js_add (ln_principal l) (ln_interest l) = ln_principal l + ln_interest l"
    using d by (intro js_add_exact is_integer_add) auto
  have e2: "js_add (sl_principal_due l) (sl_interest_due l) = sl_principal_due l + sl_interest_due l"
    using d by (intro js_add_exact is_integer_add) auto
  have mm: "is_integer max_money" by (simp add: max_money_def)
  have "is_integer (requested_payment l amount) \<and> 0 \<le> requested_payment l amount
      \<and> requested_payment l amount \<le> ln_principal l + ln_interest l"
    using d a mm
    by (cases amount)
       (auto simp: requested_payment_def e1 e2 max_money_def is_safe_def min_le_iff_disj
         intro!: is_integer_min is_integer_add)
  then show ?thesis
    using ok_balance [OF ok, of "ln_borrower l"] unfolding payment_def
    by (auto intro!: is_integer_min is_integer_max)
qed

lemma settle_prepared:
  assumes wf: "wf_loan original" and r: "settle_prepare h w original now = Inr l"
  shows "ln_status original = LoanActive \<and> wf_terms l \<and> wf_debt l \<and> ln_status l = LoanActive
    \<and> ln_id l = ln_id original \<and> ln_borrower l = ln_borrower original \<and> ln_lender l = ln_lender original
    \<and> ln_borrower l \<noteq> ln_lender l
    \<and> (\<exists>l0. accrue original now = Inr l0 \<and> ln_principal l = ln_principal l0 \<and> ln_interest l = ln_interest l0)"
proof -
  from r obtain l0 where st: "ln_status original = LoanActive" and acc: "accrue original now = Inr l0"
    and rd: "roll_due l0 now = Inr l"
    unfolding settle_prepare_def by (auto simp: guard_simps split: option.splits sum.splits)
  have a: "wf_terms l0 \<and> wf_debt l0 \<and> ln_status l0 = LoanActive \<and> ln_id l0 = ln_id original
      \<and> ln_borrower l0 = ln_borrower original \<and> ln_lender l0 = ln_lender original"
    using accrue_keeps [OF _ _ acc] wf st by (auto simp: wf_loan_def)
  from roll_due_keeps [of l0 now] a rd acc show ?thesis using wf st by (auto simp: wf_loan_def)
qed

lemma post_nonzero_refused: "post_nonzero h s d a i f w = (Inl e, w') \<Longrightarrow> w' = w"
  by (auto simp: post_nonzero_def split: if_splits dest: post_refused)

lemma settle_pay_refused:
  assumes ok: "ok w" and wf: "wf_debt l" and bl: "ln_borrower l \<noteq> ln_lender l"
    and a: "\<And>a. amount = Some a \<Longrightarrow> is_safe a \<and> 0 < a"
    and r: "settle_pay h l now amount w = (Inl e, w')"
  shows "w' = w"
proof -
  define paid where "paid = payment h w l amount"
  define interest where "interest = min paid (ln_interest l)"
  define prin where "prin = js_sub paid interest"
  note pb = payment_bounds [OF ok wf a, of amount, folded paid_def]
  show ?thesis
  proof (rule ccontr)
    assume ne: "w' \<noteq> w"
    from r obtain u w1 where
      p1: "post_nonzero h (ln_borrower l) (ln_lender l) prin (ln_id l) False w = (Inr u, w1)"
      and p2: "post_nonzero h (ln_borrower l) (ln_lender l) interest (ln_id l) True w1 = (Inl e, w')"
      using ne unfolding settle_pay_def Let_def paid_def [symmetric] interest_def [symmetric] prin_def [symmetric]
      by (auto simp: guarded_Inl and_then_Inl dest: post_nonzero_refused)
    then have i: "interest \<noteq> 0" by (auto simp: post_nonzero_def)
    have "0 \<le> ln_interest l" using wf by (simp add: wf_debt_def)
    then have "0 < paid" using i pb by (auto simp: interest_def min_def split: if_splits)
    then have bal: "paid \<le> lh_balance h w (ln_borrower l)" using pb by auto
    from settle_second_post [OF ok wf _ _ _ bal bl interest_def i prin_def p1] pb p2 i
    show False by (auto simp: post_nonzero_def)
  qed
qed

lemma settle_refused:
  assumes ok: "ok w" and wf: "wf_loan original" and a: "\<And>a. amount = Some a \<Longrightarrow> is_safe a \<and> 0 < a"
    and r: "loan_settle h original now amount w = (Inl e, w')"
  shows "w' = w"
proof (cases "settle_prepare h w original now")
  case (Inr l)
  from settle_prepared [OF wf this] have "wf_debt l" "ln_borrower l \<noteq> ln_lender l" by auto
  with r Inr show ?thesis by (auto simp: loan_settle_def intro: settle_pay_refused [OF ok _ _ a])
qed (use r in \<open>simp add: loan_settle_def\<close>)


lemma post_nonzero_keeps:
  assumes "post_nonzero h s d a i f w = (Inr u, w')" and "is_safe a"
  shows "(ok w \<longrightarrow> ok w') \<and> wf_book (lh_get h w') = wf_book (lh_get h w)
    \<and> loans w' = loans w"
  using assms post_ok post_wf post_book by (auto simp: post_nonzero_def split: if_splits)

lemma post_nonzero_payer:
  assumes "post_nonzero h s d a i f w = (Inr u, w')" "ok w" "s \<noteq> d" "is_safe a"
    and "\<bar>lh_balance h w s\<bar> \<le> 9007199254740992" "0 \<le> a" "a \<le> lh_balance h w s"
  shows "lh_balance h w' s = lh_balance h w s - a"
proof (cases "a = 0")
  case False
  then have "lh_balance h w' s = js_sub (lh_balance h w s) a"
    using assms(1-4) post_payer by (auto simp: post_nonzero_def)
  also have "\<dots> = lh_balance h w s - a"
    using assms ok_balance by (intro js_sub_exact is_integer_diff) (auto simp: is_safe_def)
  finally show ?thesis .
qed (use assms in \<open>auto simp: post_nonzero_def\<close>)

text \<open>
  What a settlement does: the debt with interest up to now falls by exactly what the borrower
  paid, which is no more than the borrower had.
\<close>

lemma settle_pay_done:
  assumes ok: "ok w" and wf: "wf_terms l" "wf_debt l" and st: "ln_status l = LoanActive"
    and bl: "ln_borrower l \<noteq> ln_lender l"
    and a: "\<And>a. amount = Some a \<Longrightarrow> is_safe a \<and> 0 < a"
    and book: "wf_book (lh_get h w)"
    and r: "settle_pay h l now amount w = (Inr l', w')"
  shows "wf_book (lh_get h w') \<and> ok w' \<and> wf_loan l' \<and> ln_id l' = ln_id l
    \<and> ln_status l' \<in> {LoanActive, Paid}
    \<and> (ln_status l' = Paid \<longleftrightarrow> ln_principal l' = 0 \<and> ln_interest l' = 0)
    \<and> ln_principal l' + ln_interest l' = ln_principal l + ln_interest l - payment h w l amount
    \<and> (\<bar>lh_balance h w (ln_borrower l)\<bar> \<le> 9007199254740992 \<longrightarrow>
         lh_balance h w' (ln_borrower l) = lh_balance h w (ln_borrower l) - payment h w l amount)
    \<and> (\<forall>m. amount = Some m \<longrightarrow> payment h w l amount = requested_payment l amount)"
proof -
  define paid where "paid = payment h w l amount"
  define interest where "interest = min paid (ln_interest l)"
  define prin where "prin = js_sub paid interest"
  define balance where "balance = lh_balance h w (ln_borrower l)"
  note pb = payment_bounds [OF ok wf(2) a, of amount, folded paid_def balance_def]
  from r obtain u1 w1 u2 w2 where
    enough: "\<not> (amount \<noteq> None \<and> balance < requested_payment l amount)"
    and p1: "post_nonzero h (ln_borrower l) (ln_lender l) prin (ln_id l) False w = (Inr u1, w1)"
    and p2: "post_nonzero h (ln_borrower l) (ln_lender l) interest (ln_id l) True w1 = (Inr u2, w2)"
    and l': "l' = settled_loan l balance paid prin interest now" and w': "w' = set_loan h l' w2"
    unfolding settle_pay_def Let_def paid_def [symmetric] interest_def [symmetric] prin_def [symmetric]
      balance_def [symmetric]
    by (auto simp: guard_simps)
  note k = settled_loan_keeps [OF wf st bl _ _ _ interest_def prin_def l']
  have i: "is_integer interest" "0 \<le> interest" "interest \<le> paid"
    using pb wf(2) by (auto simp: interest_def min_def wf_debt_def)
  have b: "paid \<le> 9007199254740991" using pb wf(2) by (auto simp: wf_debt_def)
  have p: "prin = paid - interest" using k pb by simp
  have sp: "is_safe prin" "is_safe interest"
    using i pb b by (auto simp: p is_safe_def max_safe_def intro: is_integer_diff)
  note k1 = post_nonzero_keeps [OF p1 sp(1)] and k2 = post_nonzero_keeps [OF p2 sp(2)]
  have "wf_book (lh_get h w2)" "ok w2" using k1 k2 book ok by auto
  moreover have "wf_loan l'" using k pb by simp
  ultimately have "wf_book (lh_get h w')" "ok w'" using wf_set_loan by (simp_all add: w')
  moreover have "lh_balance h w' (ln_borrower l) = balance - paid" if "\<bar>balance\<bar> \<le> 9007199254740992"
  proof (cases "paid = 0")
    case True
    then show ?thesis using p1 p2 i by (simp add: w' p post_nonzero_def balance_def)
  next
    case False
    then have le: "paid \<le> balance" using pb by auto
    have 1: "lh_balance h w1 (ln_borrower l) = balance - prin"
      using post_nonzero_payer [OF p1 ok bl sp(1)] that i le p by (auto simp: balance_def)
    have "ok w1" using k1 ok by simp
    then have "lh_balance h w2 (ln_borrower l) = balance - prin - interest"
      using post_nonzero_payer [OF p2 _ bl sp(2)] 1 that i le p by auto
    then show ?thesis by (simp add: w' p)
  qed
  moreover have "payment h w l amount = requested_payment l amount" if "amount = Some m" for m
  proof -
    have "0 \<le> paid" using pb by simp
    then show ?thesis using enough that by (auto simp: payment_def balance_def min_def)
  qed
  ultimately show ?thesis
    using k pb by (auto simp: paid_def [symmetric] balance_def [symmetric] p)
qed

lemma settle_done:
  assumes ok: "ok w" and wf: "wf_loan original" and book: "wf_book (lh_get h w)"
    and a: "\<And>a. amount = Some a \<Longrightarrow> is_safe a \<and> 0 < a"
    and r: "loan_settle h original now amount w = (Inr l', w')"
  shows "\<exists>l0 paid. accrue original now = Inr l0 \<and> ln_status original = LoanActive
    \<and> 0 \<le> paid \<and> paid \<le> max 0 (lh_balance h w (ln_borrower original))
    \<and> ln_principal l' + ln_interest l' = ln_principal l0 + ln_interest l0 - paid
    \<and> (\<bar>lh_balance h w (ln_borrower original)\<bar> \<le> 9007199254740992 \<longrightarrow>
         lh_balance h w' (ln_borrower original) = lh_balance h w (ln_borrower original) - paid)
    \<and> (\<forall>m. amount = Some m \<longrightarrow> paid = min m (ln_principal l0 + ln_interest l0))
    \<and> (ln_status l' = Paid \<longleftrightarrow> ln_principal l' = 0 \<and> ln_interest l' = 0) \<and> ln_status l' \<in> {LoanActive, Paid}
    \<and> ln_id l' = ln_id original \<and> wf_loan l' \<and> wf_book (lh_get h w') \<and> ok w'"
proof -
  from r obtain l where p: "settle_prepare h w original now = Inr l"
    and s: "settle_pay h l now amount w = (Inr l', w')"
    by (auto simp: loan_settle_def split: sum.splits)
  from settle_prepared [OF wf p] obtain l0 where
    l: "ln_status original = LoanActive" "wf_terms l" "wf_debt l" "ln_status l = LoanActive"
      "ln_id l = ln_id original" "ln_borrower l = ln_borrower original" "ln_borrower l \<noteq> ln_lender l"
    and l0: "accrue original now = Inr l0" "ln_principal l = ln_principal l0" "ln_interest l = ln_interest l0"
    by auto
  note fin = settle_pay_done [OF ok l(2-4,7) a book s]
  note pb = payment_bounds [OF ok l(3) a, of amount]
  have "js_add (ln_principal l) (ln_interest l) = ln_principal l + ln_interest l"
    using l(3) by (intro js_add_exact is_integer_add) (auto simp: wf_debt_def)
  then have "requested_payment l (Some m) = min m (ln_principal l0 + ln_interest l0)" for m
    by (simp add: requested_payment_def l0)
  then show ?thesis
    using fin pb l l0 by (intro exI [of _ l0] exI [of _ "payment h w l amount"]) auto
qed

end

end
