(* ===== verification/LendingSafety.thy ===== *)
theory LendingSafety
  imports Lending
begin

text \<open>
  What the loan book guarantees through its contract with the ledger: every operation of
  \<open>demo/lending.ts\<close> keeps the book well formed, a refused operation leaves no trace (the tick, which
  swallows refusals, included), and one tick acts on at most four loans.
\<close>

section \<open>Currency reform\<close>

text \<open>
  A reform multiplies or divides by a power of ten, and refuses to divide inexactly. \<open>scaled\<close> is
  the relation between an amount before and after.
\<close>

definition scaled :: "int \<Rightarrow> int \<Rightarrow> int \<Rightarrow> bool" where
  "scaled exponent n v \<longleftrightarrow>
     (if exponent < 0 then n = v * 10 ^ nat \<bar>exponent\<bar> else v = n * 10 ^ nat \<bar>exponent\<bar>)"

lemma big_div_mod: "big_div a b * b + big_mod a b = a"
  by (simp add: big_div_def big_mod_def algebra_simps sgn_if abs_if)
     (smt (verit) minus_mult_minus mult_minus_left div_mult_mod_eq minus_mod_eq_mult_div)

lemma loan_convert_scaled: "loan_convert e n = Inr v \<Longrightarrow> scaled e n v"
  using big_div_mod [of n "10 ^ nat \<bar>e\<bar>"]
  by (auto simp: loan_convert_def scaled_def Let_def split: if_splits)

lemma scaled_0 [simp]: "scaled e 0 v \<longleftrightarrow> v = 0"
  by (auto simp: scaled_def)

lemma scaled_mono: "scaled e n v \<Longrightarrow> scaled e m u \<Longrightarrow> n \<le> m \<Longrightarrow> v \<le> u"
  by (auto simp: scaled_def split: if_splits)

lemma scaled_less: "scaled e n v \<Longrightarrow> scaled e m u \<Longrightarrow> n < m \<Longrightarrow> v < u"
  by (auto simp: scaled_def split: if_splits)

lemma scaled_mult: "scaled e n v \<Longrightarrow> scaled e (n * d) (v * d)"
  by (auto simp: scaled_def split: if_splits)

lemma scaled_nonneg: "scaled e n v \<Longrightarrow> 0 \<le> n \<Longrightarrow> 0 \<le> v"
  using scaled_mono [of e 0 0 n v] by simp

lemma scaled_unique: "scaled e n v \<Longrightarrow> scaled e n u \<Longrightarrow> u = v"
  by (auto simp: scaled_def split: if_splits)

lemma loan_convert_amount_scaled:
  assumes "loan_convert_amount e x = Inr y"
  obtains n v where "x = of_int n" "y = of_int v" "scaled e n v" "\<bar>v\<bar> \<le> 9007199254740991"
proof -
  from assms obtain n v where x: "to_bigint x = Inr n" and c: "loan_convert e n = Inr v"
    and y: "y = of_bigint v" and b: "\<bar>v\<bar> \<le> 9007199254740991"
    by (auto simp: loan_convert_amount_def split: sum.splits if_splits)
  have "x = of_int n" using x by (auto simp: to_bigint_def is_integer_iff split: if_splits)
  moreover have "y = of_int v" using y b by (simp add: of_bigint_exact)
  ultimately show ?thesis using that loan_convert_scaled [OF c] b by blast
qed

lemma reform_loan_parts:
  assumes "reform_loan e l = Inr l'" and "0 < accrue_denominator l"
  obtains i acc am ins pr pd idue att where
    "ln_interest l = of_int i" "scaled e (i * accrue_denominator l + sl_remainder l) acc"
    "loan_convert_amount e (ln_amount l) = Inr am" "loan_convert_amount e (ln_installment l) = Inr ins"
    "loan_convert_amount e (ln_principal l) = Inr pr" "loan_convert_amount e (sl_principal_due l) = Inr pd"
    "loan_convert_amount e (sl_interest_due l) = Inr idue" "loan_convert_amount e (sl_attempted_balance l) = Inr att"
    "am \<le> max_money" "ins \<le> max_money"
    "\<And>p. pr = of_int p \<Longrightarrow> p + big_div acc (accrue_denominator l) \<le> 9007199254740991"
    "l' = l\<lparr>ln_amount := am, ln_installment := ins, ln_principal := pr,
       sl_principal_due := pd, sl_interest_due := idue, sl_attempted_balance := att,
       ln_interest := of_bigint (big_div acc (accrue_denominator l)),
       sl_remainder := big_mod acc (accrue_denominator l)\<rparr>"
proof -
  from assms(1) obtain i acc am ins pr pd idue att p where
    i: "to_bigint (ln_interest l) = Inr i"
    and c: "loan_convert e (i * accrue_denominator l + sl_remainder l) = Inr acc"
      "loan_convert_amount e (ln_amount l) = Inr am" "loan_convert_amount e (ln_installment l) = Inr ins"
      "loan_convert_amount e (ln_principal l) = Inr pr" "loan_convert_amount e (sl_principal_due l) = Inr pd"
      "loan_convert_amount e (sl_interest_due l) = Inr idue" "loan_convert_amount e (sl_attempted_balance l) = Inr att"
      "to_bigint pr = Inr p"
    and b: "am \<le> max_money" "ins \<le> max_money" "p + big_div acc (accrue_denominator l) \<le> 9007199254740991"
    and l': "l' = l\<lparr>ln_amount := am, ln_installment := ins, ln_principal := pr,
       sl_principal_due := pd, sl_interest_due := idue, sl_attempted_balance := att,
       ln_interest := of_bigint (big_div acc (accrue_denominator l)),
       sl_remainder := big_mod acc (accrue_denominator l)\<rparr>"
    by (simp add: reform_loan_def Let_def not_less split: sum.splits if_splits)
  have "ln_interest l = of_int i" using i by (auto simp: to_bigint_def is_integer_iff split: if_splits)
  moreover have "k + big_div acc (accrue_denominator l) \<le> 9007199254740991" if "pr = of_int k" for k
    using b(3) c(8) that by simp
  ultimately show ?thesis using that loan_convert_scaled [OF c(1)] c b l' by blast
qed

lemma reform_loan_wf:
  assumes wf: "wf_loan l" and r: "reform_loan e l = Inr l'"
  shows "wf_loan l' \<and> ln_id l' = ln_id l \<and> ln_status l' = ln_status l"
proof -
  note t = wf [unfolded wf_loan_def wf_terms_def wf_debt_def]
  define d where "d = accrue_denominator l"
  have d: "0 < d" unfolding d_def by (rule wf_terms_denominator) (use wf in \<open>simp add: wf_loan_def\<close>)
  obtain i acc am ins pr pd idue att where
    i: "ln_interest l = of_int i" and sa: "scaled e (i * d + sl_remainder l) acc"
    and c: "loan_convert_amount e (ln_amount l) = Inr am" "loan_convert_amount e (ln_installment l) = Inr ins"
      "loan_convert_amount e (ln_principal l) = Inr pr" "loan_convert_amount e (sl_principal_due l) = Inr pd"
      "loan_convert_amount e (sl_interest_due l) = Inr idue" "loan_convert_amount e (sl_attempted_balance l) = Inr att"
    and b: "am \<le> max_money" "ins \<le> max_money" and pl: "\<And>p. pr = of_int p \<Longrightarrow> p + big_div acc d \<le> 9007199254740991"
    and l': "l' = l\<lparr>ln_amount := am, ln_installment := ins, ln_principal := pr,
       sl_principal_due := pd, sl_interest_due := idue, sl_attempted_balance := att,
       ln_interest := of_bigint (big_div acc d), sl_remainder := big_mod acc d\<rparr>"
    using reform_loan_parts [OF r] d unfolding d_def by metis
  obtain a1 a2 where a: "ln_amount l = of_int a1" "am = of_int a2" "scaled e a1 a2" "\<bar>a2\<bar> \<le> 9007199254740991"
    by (rule loan_convert_amount_scaled [OF c(1)])
  obtain n1 n2 where n: "ln_installment l = of_int n1" "ins = of_int n2" "scaled e n1 n2" "\<bar>n2\<bar> \<le> 9007199254740991"
    by (rule loan_convert_amount_scaled [OF c(2)])
  obtain p1 p2 where p: "ln_principal l = of_int p1" "pr = of_int p2" "scaled e p1 p2"
    by (rule loan_convert_amount_scaled [OF c(3)])
  obtain q1 q2 where q: "sl_principal_due l = of_int q1" "pd = of_int q2" "scaled e q1 q2"
    by (rule loan_convert_amount_scaled [OF c(4)])
  obtain x1 x2 where x: "sl_interest_due l = of_int x1" "idue = of_int x2" "scaled e x1 x2"
    by (rule loan_convert_amount_scaled [OF c(5)])
  have le: "0 < a1" "0 < n1" "n1 \<le> a1" "0 \<le> p1" "0 \<le> q1" "q1 \<le> p1" "0 \<le> i" "0 \<le> x1" "x1 \<le> i"
    using t by (auto simp: a n p q x i)
  have le2: "0 < a2" "0 < n2" "n2 \<le> a2" "0 \<le> p2" "0 \<le> q2" "q2 \<le> p2" "0 \<le> x2"
    using le scaled_less [of e 0 0 a1 a2] scaled_less [of e 0 0 n1 n2] scaled_mono [OF n(3) a(3)]
      scaled_nonneg [OF p(3)] scaled_nonneg [OF q(3)] scaled_mono [OF q(3) p(3)] scaled_nonneg [OF x(3)]
      a(3) n(3) by auto
  have r0: "0 \<le> sl_remainder l" "sl_remainder l < d" using t by (auto simp: d_def)
  have acc0: "0 \<le> acc" using scaled_nonneg [OF sa] le d r0 by simp
  have "x1 * d \<le> i * d" using le d by (intro mult_right_mono) auto
  then have "x1 * d \<le> i * d + sl_remainder l" using r0 by linarith
  then have "x2 * d \<le> acc" using scaled_mono [OF scaled_mult [OF x(3)] sa] by simp
  then have x2: "x2 \<le> acc div d" using d zdiv_mono1 [of "x2 * d" acc d] by simp
  define k where "k = acc div d"
  have k: "0 \<le> k" "p2 + k \<le> 9007199254740991"
    using acc0 d pl [OF p(2)] by (auto simp: k_def big_div_nonneg pos_imp_zdiv_nonneg_iff)
  have int: "ln_interest l' = of_int k" and rem: "sl_remainder l' = acc mod d"
    using k acc0 d le2 by (simp_all add: l' big_div_nonneg big_mod_nonneg of_bigint_exact k_def)
  have den: "accrue_denominator l' = d" by (simp add: l' accrue_denominator_def d_def)
  have "rat_of_int (p2 + k) \<le> of_int 9007199254740991" using k(2) by (simp only: of_int_le_iff)
  then have lim: "rat_of_int p2 + of_int k \<le> 9007199254740991" by simp
  have "wf_terms l'"
    using t le2 b a n by (auto simp: wf_terms_def l' is_safe_def max_safe_def)
  moreover have "wf_debt l'"
    unfolding wf_debt_def int rem den
    using le2 k x2 d acc0 lim by (auto simp: l' p q x k_def [symmetric])
  moreover have "ln_principal l' = 0 \<and> ln_interest l' = 0 \<and> sl_remainder l' = 0" if "ln_status l \<noteq> LoanActive"
    using t that sa p i int rem by (auto simp: l' k_def)
  ultimately show ?thesis using t by (auto simp: wf_loan_def l')
qed

lemma lending_reform_wf:
  assumes wf: "wf_book b" and r: "lending_reform e b = Inr b'"
  shows "wf_book b'"
proof -
  from r obtain ls where m: "map_res (reform_loan e) (le_loans b) = Inr ls"
    and b': "b' = b\<lparr>le_loans := ls\<rparr>"
    by (auto simp: lending_reform_def split: sum.splits)
  note n = map_res_Inr [OF m]
  have k: "wf_loan (ls ! i) \<and> ln_id (ls ! i) = ln_id (le_loans b ! i)" if "i < length (le_loans b)" for i
    using reform_loan_wf [of "le_loans b ! i" e "ls ! i"] n that wf by (auto simp: wf_book_def)
  then have ids: "map ln_id ls = map ln_id (le_loans b)"
    using n by (intro nth_equalityI) auto
  have "wf_loan x \<and> ln_id x < le_next_id b" if "x \<in> set ls" for x
  proof -
    from that obtain i where "i < length ls" "x = ls ! i" by (auto simp: in_set_conv_nth)
    with k n wf show ?thesis by (auto simp: wf_book_def)
  qed
  then show ?thesis using wf n ids by (auto simp: wf_book_def b' simp del: list_eq_iff_nth_eq)
qed

context lending_client
begin

lemma offer_refused: "loan_offer h actor i now request responding w = (Inl e, w') \<Longrightarrow> w' = w"
  by (auto simp: loan_offer_def Let_def split: sum.splits option.splits if_splits)

lemma accept_refused: "loan_accept h actor i now w = (Inl e, w') \<Longrightarrow> w' = w"
  by (auto simp: loan_accept_def Let_def dest: start_refused
      split: sum.splits option.splits if_splits prod.splits)

lemma close_refused: "loan_close h actor i now w = (Inl e, w') \<Longrightarrow> w' = w"
  by (auto simp: loan_close_def Let_def split: option.splits if_splits)

lemma repay_refused:
  assumes "ok w" and "wf_book (lh_get h w)" and r: "loan_repay h actor i amount now w = (Inl e, w')"
  shows "w' = w"
proof (rule ccontr)
  assume ne: "w' \<noteq> w"
  then obtain l where l: "loan_find (lh_get h w) i = Some l" "is_safe amount" "0 < amount"
    and s: "loan_settle h l now (Some amount) w = (Inl e, w')"
    using r by (auto simp: loan_repay_def split: option.splits if_splits prod.splits sum.splits)
  have "wf_loan l" using wf_book_find [OF assms(2) l(1)] by simp
  then show False using settle_refused [OF assms(1) _ _ s] l ne by auto
qed

text \<open>Every operation keeps the book well formed.\<close>

lemma terms_wf:
  assumes "terms_ok actor i request"
  shows "wf_terms (assign_input i l)" and "wf_terms (fresh_loan actor b i now request n)"
  using assms by (auto simp: terms_ok_def assign_input_def fresh_loan_def wf_terms_def)

lemma wf_fresh_loan:
  assumes "terms_ok actor i request"
  shows "wf_loan (fresh_loan actor b i now request n)"
proof -
  have "0 < accrue_denominator (fresh_loan actor b i now request n)"
    by (rule wf_terms_denominator [OF terms_wf(2) [OF assms]])
  then show ?thesis
    using terms_wf(2) [OF assms, of b now n] assms
    by (auto simp: wf_loan_def wf_debt_def fresh_loan_def terms_ok_def)
qed

lemma wf_idle:
  assumes "wf_loan l" "ln_status l \<noteq> LoanActive"
  shows "ln_principal l = 0 \<and> ln_interest l = 0 \<and> sl_principal_due l = 0 \<and> sl_interest_due l = 0
    \<and> sl_remainder l = 0"
  using assms by (auto simp: wf_loan_def wf_debt_def)

lemma wf_responded:
  assumes l: "wf_loan l" "ln_status l = Requested" and t: "terms_ok actor i False"
  shows "wf_loan ((assign_input i l)\<lparr>ln_lender := u_account actor, ln_lender_name := n,
    ln_status := Offered, ln_updated_at := now\<rparr>)"
proof -
  have "0 < accrue_denominator (assign_input i l)"
    by (rule wf_terms_denominator [OF terms_wf(1) [OF t]])
  then show ?thesis
    using wf_idle [OF l(1)] l(2) t terms_wf(1) [OF t, of l]
    by (auto simp: wf_loan_def wf_debt_def wf_terms_def assign_input_def terms_ok_def accrue_denominator_def)
qed

lemma wf_room:
  assumes b: "wf_book b" and l: "wf_loan l" "ln_id l = le_next_id b" and ls: "length ls < 32"
    "set ls \<subseteq> set (le_loans b)" "distinct (map ln_id ls)"
  shows "wf_book (b\<lparr>le_loans := ls @ [l], le_next_id := Suc (le_next_id b)\<rparr>)"
  using assms unfolding wf_book_def by (auto simp: subset_iff intro: less_SucI)

lemma distinct_splice1: "distinct (map k xs) \<Longrightarrow> distinct (map k (splice1 i xs))"
  using set_take_disj_set_drop_if_distinct [of "map k xs" i "Suc i"]
  by (auto simp: splice1_def take_map drop_map simp flip: drop_map take_map)

lemma offer_wf:
  assumes wf: "wf_book (lh_get h w)" and req: "responding \<noteq> None \<Longrightarrow> \<not> request"
    and r: "loan_offer h actor i now request responding w = (Inr v, w')"
  shows "wf_book (lh_get h w') \<and> (ok w' = ok w)"
proof (cases responding)
  case (Some k)
  with r obtain l where l: "loan_find (lh_get h w) k = Some l" "ln_status l = Requested"
      and t: "terms_ok actor i request"
      and w': "w' = set_loan h ((assign_input i l)\<lparr>ln_lender := u_account actor,
        ln_lender_name := display_name actor, ln_status := Offered, ln_updated_at := now\<rparr>) w"
    by (auto simp: loan_offer_def Let_def split: sum.splits option.splits if_splits)
  have "wf_loan l" using wf_book_find [OF wf l(1)] by simp
  then have "wf_loan ((assign_input i l)\<lparr>ln_lender := u_account actor,
        ln_lender_name := display_name actor, ln_status := Offered, ln_updated_at := now\<rparr>)"
    using l t req Some by (intro wf_responded [of _ actor]) auto
  then show ?thesis unfolding w' set_loan_frame by (intro conjI wf_set_loan [OF wf] refl)
next
  case None
  with r obtain u ls where t: "terms_ok actor i request"
      and room: "(if length (loans w) = 32 then (case find_index terminal (loans w) of
            None \<Rightarrow> None | Some k \<Rightarrow> Some (splice1 k (loans w))) else Some (loans w)) = Some ls"
      and w': "w' = lh_put h ((lh_get h w)\<lparr>le_loans := ls @ [fresh_loan actor u i now request (le_next_id (lh_get h w))],
          le_next_id := Suc (le_next_id (lh_get h w))\<rparr>) w"
    by (auto simp: loan_offer_def Let_def split: sum.splits option.splits if_splits)
  have "length ls < 32 \<and> set ls \<subseteq> set (loans w) \<and> distinct (map ln_id ls)"
    using room wf by (auto simp: wf_book_def length_splice1 distinct_splice1 split: if_splits option.splits
        dest: find_index_less set_splice1 [THEN subsetD])
  then have "wf_book ((lh_get h w)\<lparr>le_loans := ls @ [fresh_loan actor u i now request (le_next_id (lh_get h w))],
          le_next_id := Suc (le_next_id (lh_get h w))\<rparr>)"
    by (intro wf_room [OF wf wf_fresh_loan [OF t]]) (auto simp: fresh_loan_def)
  then show ?thesis by (simp add: w')
qed

lemma start_keeps:
  assumes wf: "wf_book (lh_get h w)" "ok w" and l: "loan_find (lh_get h w) i = Some l"
    "ln_status l \<in> {Offered, Armed}" and r: "loan_start h l now w = (Inr l', w')"
  shows "wf_book (lh_get h w') \<and> ok w'"
proof -
  have w: "wf_loan l" using wf_book_find [OF wf(1) l(1)] by simp
  then have "wf_terms l" "ln_borrower l \<noteq> ln_lender l" "0 < accrue_denominator l"
    using l(2) by (auto simp: wf_loan_def intro: wf_terms_denominator)
  then show ?thesis
    using start_wf [OF wf(1) _ wf(2) r] wf_idle [OF w] l(2) by auto
qed

lemma accept_wf:
  assumes wf: "wf_book (lh_get h w)" "ok w" and r: "loan_accept h actor i now w = (Inr v, w')"
  shows "wf_book (lh_get h w') \<and> ok w'"
proof -
  from r obtain l where l: "loan_find (lh_get h w) i = Some l" "ln_status l = Offered"
    and c: "if ln_credit l then w' = set_loan h (l\<lparr>ln_status := Armed, ln_updated_at := now\<rparr>) w
            else \<exists>l'. loan_start h l now w = (Inr l', w')"
    by (auto simp: loan_accept_def Let_def guard_simps
        split: sum.splits option.splits if_splits prod.splits)
  have wl: "wf_loan l" using wf_book_find [OF wf(1) l(1)] by simp
  show ?thesis
  proof (cases "ln_credit l")
    case True
    have "wf_loan (l\<lparr>ln_status := Armed, ln_updated_at := now\<rparr>)"
      using wl l(2) by (auto simp: wf_loan_def wf_terms_def wf_debt_def accrue_denominator_def)
    with True c wf show ?thesis by (simp only: if_True set_loan_frame wf_set_loan simp_thms)
  next
    case False
    with c obtain l' where "loan_start h l now w = (Inr l', w')" by auto
    then show ?thesis using start_keeps [OF wf l(1)] l(2) by auto
  qed
qed

lemma close_wf:
  assumes wf: "wf_book (lh_get h w)" and r: "loan_close h actor i now w = (Inr v, w')"
  shows "wf_book (lh_get h w') \<and> (ok w' = ok w)"
proof -
  from r obtain l where l: "loan_find (lh_get h w) i = Some l" "ln_status l \<in> {Requested, Offered, Armed}"
    and w': "w' = set_loan h (l\<lparr>ln_status := (if u_account actor = ln_borrower l \<and> ln_status l = Offered
        then LoanDeclined else LoanCancelled), ln_updated_at := now\<rparr>) w"
    unfolding loan_close_def Let_def by (auto split: option.splits if_splits)
  have "wf_loan l" using wf_book_find [OF wf l(1)] by simp
  then have "wf_loan (l\<lparr>ln_status := (if u_account actor = ln_borrower l \<and> ln_status l = Offered
        then LoanDeclined else LoanCancelled), ln_updated_at := now\<rparr>)"
    using l(2) by (auto simp: wf_loan_def wf_terms_def wf_debt_def accrue_denominator_def)
  then show ?thesis using wf unfolding w' set_loan_frame by (simp only: wf_set_loan simp_thms)
qed

lemma repay_wf:
  assumes wf: "wf_book (lh_get h w)" "ok w" and r: "loan_repay h actor i amount now w = (Inr v, w')"
  shows "wf_book (lh_get h w') \<and> ok w'"
proof -
  from r obtain l l' where l: "loan_find (lh_get h w) i = Some l" "is_safe amount" "0 < amount"
    and s: "loan_settle h l now (Some amount) w = (Inr l', w')"
    by (auto simp: loan_repay_def split: option.splits if_splits prod.splits sum.splits)
  have "wf_loan l" using wf_book_find [OF wf(1) l(1)] by simp
  from settle_done [OF wf(2) this wf(1) _ s] l show ?thesis by auto
qed

text \<open>
  The tick. A loan whose step is refused leaves the book and the ledger exactly as they were, so
  swallowing the exception is sound.
\<close>

lemma tick_step_start:
  assumes "wf_book (lh_get h w)" "ok w" "loan_find (lh_get h w) i = Some l"
    "loan_ready_to_start h w l" "loan_start h l now w = (r, w')"
  shows "wf_book (lh_get h w') \<and> ok w' \<and> (\<forall>e. r = Inl e \<longrightarrow> w' = w)"
proof (cases r)
  case (Inl e)
  with assms start_refused [of l now w e w'] show ?thesis by auto
next
  case (Inr l')
  then show ?thesis
    using start_keeps [OF assms(1,2,3)] assms(4,5) by (auto simp: loan_ready_to_start_def)
qed

lemma tick_step_settle:
  assumes "wf_book (lh_get h w)" "ok w" "loan_find (lh_get h w) i = Some l"
    "loan_settle h l now None w = (r, w')"
  shows "wf_book (lh_get h w') \<and> ok w' \<and> (\<forall>e. r = Inl e \<longrightarrow> w' = w)"
proof -
  have wl: "wf_loan l" using wf_book_find [OF assms(1,3)] by simp
  show ?thesis
  proof (cases r)
    case (Inl e)
    with settle_refused [OF assms(2) wl] assms show ?thesis by auto
  next
    case (Inr l')
    with settle_done [OF assms(2) wl assms(1)] assms(4) show ?thesis by auto
  qed
qed

lemma tick_step_wf:
  assumes "wf_book (lh_get h w)" "ok w" "tick_step h now i w = (acted, w')"
  shows "wf_book (lh_get h w') \<and> ok w' \<and> (\<not> acted \<longrightarrow> w' = w)"
proof (cases "loan_find (lh_get h w) i")
  case None
  with assms show ?thesis by (simp add: tick_step_def)
next
  case l: (Some l)
  show ?thesis
  proof (cases "loan_ready_to_start h w l")
    case True
    obtain r w1 where s: "loan_start h l now w = (r, w1)" by fastforce
    show ?thesis
      using tick_step_start [OF assms(1,2) l True s] assms(3) l True s
      by (cases r) (auto simp: tick_step_def)
  next
    case False
    obtain r w1 where s: "loan_settle h l now None w = (r, w1)" by fastforce
    show ?thesis
      using tick_step_settle [OF assms(1,2) l s] assms l False s
      by (cases r) (auto simp: tick_step_def split: if_splits)
  qed
qed

lemma tick_loop_wf:
  assumes "wf_book (lh_get h w)" "ok w" "tick_loop h now is n w = (m, w')"
  shows "wf_book (lh_get h w') \<and> ok w'"
  using assms
proof (induction "is" arbitrary: n w)
  case (Cons i "is")
  obtain acted w1 where s: "tick_step h now i w = (acted, w1)" by fastforce
  show ?case
    using tick_step_wf [OF Cons.prems(1,2) s] Cons s by (auto split: if_splits)
qed simp

lemma tick_loop_bound: "tick_loop h now is n w = (m, w') \<Longrightarrow> n \<le> 4 \<Longrightarrow> n \<le> m \<and> m \<le> 4"
proof (induction "is" arbitrary: n w)
  case (Cons i "is")
  obtain acted w1 where s: "tick_step h now i w = (acted, w1)" by fastforce
  show ?case
    using Cons.IH [of "if acted then Suc n else n" w1] Cons.prems s by (auto split: if_splits)
qed simp

text \<open>A tick that reports no action changed nothing at all.\<close>

lemma tick_loop_idle:
  assumes "wf_book (lh_get h w)" "ok w" "tick_loop h now is n w = (n, w')"
  shows "n \<le> 4 \<Longrightarrow> w' = w"
  using assms
proof (induction "is" arbitrary: w)
  case (Cons i "is")
  obtain acted w1 where s: "tick_step h now i w = (acted, w1)" by fastforce
  show ?case
  proof (cases "n = 4")
    case False
    have r: "tick_loop h now is (if acted then Suc n else n) w1 = (n, w')"
      using Cons.prems(4) s False by simp
    have "\<not> acted" using tick_loop_bound [OF r] Cons.prems(1) False by (auto split: if_splits)
    then show ?thesis
      using r Cons.IH [OF Cons.prems(1), of w1] tick_step_wf [OF Cons.prems(2,3) s] Cons.prems by simp
  qed (use Cons.prems in simp)
qed simp

lemma tick_wf:
  assumes "wf_book (lh_get h w)" "ok w" "loan_tick h now w = (m, w')"
  shows "wf_book (lh_get h w') \<and> ok w' \<and> m \<le> 4 \<and> (m = 0 \<longrightarrow> w' = w)"
  using assms tick_loop_wf [OF assms(1,2)] tick_loop_bound [of now _ 0 w m w'] tick_loop_idle [OF assms(1,2)]
  by (auto simp: loan_tick_def)

end

end
