(* ===== verification/Lotto.thy ===== *)
theory Lotto
  imports Models
begin

text \<open>
  \<open>demo/lotto.ts\<close>: the draws. A draw is its public view and its entries, a map from account to
  ticket count in insertion order. The host interface gives a balance, a display name and a payment;
  the methods are written over a record of those and of where the draws sit in the caller's state.
  The random source (\<open>crypto.getRandomValues\<close> of one \<open>Uint32\<close>) is the list of values it will
  return; \<open>None\<close> is a rejection loop that is still drawing when the list ends.
\<close>

section \<open>State\<close>

record draw =
  d_view :: lotto
  d_entries :: "(string \<times> num) list"

record 'w lotto_host =
  oh_balance :: "'w \<Rightarrow> string \<Rightarrow> num"
  oh_name :: "'w \<Rightarrow> string \<Rightarrow> string"
  oh_post :: "nat \<Rightarrow> string \<Rightarrow> posting list \<Rightarrow> ('w, unit) act"
  oh_get :: "'w \<Rightarrow> draw list"
  oh_put :: "draw list \<Rightarrow> 'w \<Rightarrow> 'w"

definition MONTH :: num where "MONTH = 2592000"

definition POOL :: string where "POOL = ''lotto-pool-''"

definition pool_account :: "nat \<Rightarrow> string" where
  "pool_account i = POOL @ show_nat i"

definition lotto_active :: "user \<Rightarrow> exn option" where
  "lotto_active actor = throw_if (u_status actor \<noteq> UserActive) (PlainError ''This account is disabled.'')"

definition tickets_of :: "draw \<Rightarrow> string \<Rightarrow> num" where
  "tickets_of d account = (case map_of (d_entries d) account of Some n \<Rightarrow> n | None \<Rightarrow> 0)"

definition lotto_book :: "user \<Rightarrow> draw list \<Rightarrow> lotto list" where
  "lotto_book actor ds =
     rev (map (\<lambda>d. (d_view d)\<lparr>lo_my_tickets := tickets_of d (u_account actor)\<rparr>) ds)"

section \<open>Creating a draw and buying tickets\<close>

definition lotto_terms_bad :: "lotto_terms \<Rightarrow> int \<Rightarrow> bool" where
  "lotto_terms_bad t now \<longleftrightarrow>
     trim (lt_title t) = [] \<or> length (lt_title t) > 80
     \<or> \<not> is_safe (lt_ticket_price t) \<or> lt_ticket_price t \<le> 0
     \<or> \<not> is_safe (lt_closes_at t) \<or> lt_closes_at t \<le> of_int now
     \<or> \<not> is_integer (lt_rate_bps t) \<or> lt_rate_bps t < 0 \<or> lt_rate_bps t > 10000
     \<or> (lt_kind t = Simple \<and> lt_rate_bps t \<noteq> 0)"

definition fresh_lotto :: "user \<Rightarrow> lotto_terms \<Rightarrow> nat \<Rightarrow> lotto" where
  "fresh_lotto actor t i =
     \<lparr>lo_id = i, lo_terms = t, lo_house = u_account actor, lo_pool = 0, lo_interest = 0,
      lo_tickets = 0, lo_my_tickets = 0, lo_winner = None, lo_winner_name = None,
      lo_due_at = js_add (lt_closes_at t) (if lt_kind t = Simple then 0 else MONTH),
      lo_status = LottoOpen\<rparr>"

definition lotto_create :: "user \<Rightarrow> lotto_terms \<Rightarrow> int \<Rightarrow> (draw list, lotto) act" where
  "lotto_create actor t now = guarded
     [lotto_active actor,
      throw_if (u_role actor \<noteq> Nana) (PlainError ''Only Nana can create a lotto.''),
      throw_if (lotto_terms_bad t now) (PlainError ''Invalid lotto terms.'')]
     (\<lambda>ds. let view = fresh_lotto actor t (Suc (length ds)) in
        (Inr view, ds @ [\<lparr>d_view = view, d_entries = []\<rparr>]))"

definition sales_closed :: "draw option \<Rightarrow> int \<Rightarrow> bool" where
  "sales_closed d now \<longleftrightarrow> (case d of None \<Rightarrow> True
     | Some d \<Rightarrow> lo_status (d_view d) \<noteq> LottoOpen \<or> lt_closes_at (lo_terms (d_view d)) \<le> of_int now)"

definition count_bad :: "'w lotto_host \<Rightarrow> 'w \<Rightarrow> user \<Rightarrow> lotto \<Rightarrow> num \<Rightarrow> bool" where
  "count_bad h w actor l count \<longleftrightarrow>
     (let cost = js_mul count (lt_ticket_price (lo_terms l)) in
      \<not> is_integer count \<or> count < 1 \<or> js_add count (lo_tickets l) > 4294967295
      \<or> \<not> is_safe (js_add cost (lo_pool l)) \<or> cost > oh_balance h w (u_account actor))"

definition pool_interest :: "num \<Rightarrow> num \<Rightarrow> num res" where
  "pool_interest pool rate =
     (case to_bigint pool of Inl e \<Rightarrow> Inl e | Inr p \<Rightarrow>
     (case to_bigint rate of Inl e \<Rightarrow> Inl e | Inr r \<Rightarrow> Inr (of_bigint (big_div (p * r) 10000))))"

definition find_draw :: "draw list \<Rightarrow> nat \<Rightarrow> draw option" where
  "find_draw ds i = find (\<lambda>d. lo_id (d_view d) = i) ds"

definition put_draw :: "'w lotto_host \<Rightarrow> draw \<Rightarrow> 'w \<Rightarrow> 'w" where
  "put_draw h d w =
     oh_put h (upd_first (\<lambda>x. lo_id (d_view x) = lo_id (d_view d)) (\<lambda>_. d) (oh_get h w)) w"

definition ticket_postings :: "user \<Rightarrow> nat \<Rightarrow> num \<Rightarrow> posting list" where
  "ticket_postings actor i cost =
     [\<lparr>p_account = u_account actor, p_name = '''', p_amount = - cost\<rparr>,
      \<lparr>p_account = pool_account i, p_name = ''Lotto pool'', p_amount = cost\<rparr>]"

definition sold :: "user \<Rightarrow> num \<Rightarrow> num \<Rightarrow> num \<Rightarrow> draw \<Rightarrow> draw" where
  "sold actor count pool interest d =
     (let l = d_view d in d\<lparr>
        d_entries := AList.update (u_account actor) (js_add (tickets_of d (u_account actor)) count) (d_entries d),
        d_view := l\<lparr>lo_pool := pool, lo_interest := interest, lo_tickets := js_add (lo_tickets l) count\<rparr>\<rparr>)"

definition lotto_buy_draw :: "'w lotto_host \<Rightarrow> user \<Rightarrow> draw \<Rightarrow> nat \<Rightarrow> num \<Rightarrow> ('w, lotto) act" where
  "lotto_buy_draw h actor d i count w =
     (let l = d_view d; cost = js_mul count (lt_ticket_price (lo_terms l)); pool = js_add cost (lo_pool l) in
      guarded
        [throw_if (u_account actor = lo_house l) (PlainError ''Nana cannot buy tickets in her own draw.''),
         throw_if (count_bad h w actor l count) (PlainError ''Enter a whole ticket count you can afford.'')]
        (\<lambda>w. case pool_interest pool (lt_rate_bps (lo_terms l)) of
           Inl e \<Rightarrow> (Inl e, w)
         | Inr interest \<Rightarrow> guarded
             [throw_if (\<not> is_safe (js_add pool interest)) (PlainError ''Pool exceeds the accounting limit.'')]
             (and_then (oh_post h i ''Lotto tickets'' (ticket_postings actor i cost))
               (\<lambda>_ w. let d' = sold actor count pool interest d in
                  (Inr ((d_view d')\<lparr>lo_my_tickets := tickets_of d' (u_account actor)\<rparr>), put_draw h d' w))) w) w)"

definition lotto_buy :: "'w lotto_host \<Rightarrow> user \<Rightarrow> nat \<Rightarrow> num \<Rightarrow> int \<Rightarrow> ('w, lotto) act" where
  "lotto_buy h actor i count now w = guarded
     [lotto_active actor,
      throw_if (sales_closed (find_draw (oh_get h w) i) now) (PlainError ''Ticket sales are closed.'')]
     (\<lambda>w. case find_draw (oh_get h w) i of
        None \<Rightarrow> (Inl (PlainError ''Ticket sales are closed.''), w)
      | Some d \<Rightarrow> lotto_buy_draw h actor d i count w) w"

section \<open>Drawing a winner\<close>

text \<open>\<open>a % b\<close> of whole non-negative numbers is exact.\<close>

definition js_mod :: "num \<Rightarrow> num \<Rightarrow> num" where
  "js_mod a b = a - b * of_int \<lfloor>a / b\<rfloor>"

definition draw_bound :: "num \<Rightarrow> num" where
  "draw_bound tickets = js_mul (of_int \<lfloor>js_div 4294967296 tickets\<rfloor>) tickets"

fun sample :: "num \<Rightarrow> nat list \<Rightarrow> (nat \<times> nat list) option" where
  "sample bound [] = None"
| "sample bound (r # rs) = (if bound \<le> of_nat r then sample bound rs else Some (r, rs))"

fun pick_winner :: "(string \<times> num) list \<Rightarrow> num \<Rightarrow> string" where
  "pick_winner [] ticket = ''''"
| "pick_winner ((account, count) # es) ticket =
     (if ticket < count then account else pick_winner es (js_sub ticket count))"

definition winner_for :: "draw \<Rightarrow> nat \<Rightarrow> string" where
  "winner_for d random = pick_winner (d_entries d) (js_mod (of_nat random) (lo_tickets (d_view d)))"

section \<open>Paying out\<close>

definition add_total :: "string \<Rightarrow> num \<Rightarrow> (string \<times> num) list \<Rightarrow> (string \<times> num) list" where
  "add_total account amount ts =
     AList.update account (js_add (case map_of ts account of Some n \<Rightarrow> n | None \<Rightarrow> 0) amount) ts"

definition payout_totals :: "draw \<Rightarrow> string \<Rightarrow> (string \<times> num) list" where
  "payout_totals d winner =
     (let l = d_view d; start = add_total (pool_account (lo_id l)) (- lo_pool l) [] in
      if lt_kind (lo_terms l) = Savings
      then foldl (\<lambda>ts (a, c). add_total a (js_mul c (lt_ticket_price (lo_terms l))) ts) start (d_entries d)
      else add_total winner (lo_pool l) start)"

definition payout_postings :: "'w lotto_host \<Rightarrow> 'w \<Rightarrow> draw \<Rightarrow> string \<Rightarrow> posting list" where
  "payout_postings h w d winner = filter (\<lambda>p. p_amount p \<noteq> 0)
     (map (\<lambda>(a, x). \<lparr>p_account = a, p_name = oh_name h w a, p_amount = x\<rparr>) (payout_totals d winner))"

definition interest_postings :: "'w lotto_host \<Rightarrow> 'w \<Rightarrow> lotto \<Rightarrow> string \<Rightarrow> posting list" where
  "interest_postings h w l winner =
     (let funded = min (max 0 (oh_balance h w (lo_house l))) (lo_interest l) in
      filter (\<lambda>p. p_amount p \<noteq> 0)
       [\<lparr>p_account = lo_house l, p_name = oh_name h w (lo_house l), p_amount = - funded\<rparr>,
        \<lparr>p_account = ''account:system-issuance'', p_name = ''Issuance'', p_amount = - js_sub (lo_interest l) funded\<rparr>,
        \<lparr>p_account = winner, p_name = oh_name h w winner, p_amount = lo_interest l\<rparr>])"

definition lotto_pay :: "'w lotto_host \<Rightarrow> draw \<Rightarrow> string \<Rightarrow> ('w, unit) act" where
  "lotto_pay h d winner w =
     (let l = d_view d in
      and_then (oh_post h (lo_id l) ''Lotto principal payout'' (payout_postings h w d winner))
       (\<lambda>_. and_then (\<lambda>w. if lo_interest l \<noteq> 0
                then oh_post h (lo_id l) ''Lotto interest'' (interest_postings h w l winner) w
                else (Inr (), w))
       (\<lambda>_ w. (Inr (), put_draw h (d\<lparr>d_view := l\<lparr>lo_winner := Some winner,
                lo_winner_name := Some (oh_name h w winner), lo_status := LottoSettled\<rparr>\<rparr>) w))) w)"

section \<open>Settling\<close>

text \<open>
  One turn of the settlement loop. \<open>due_draw\<close> is the draw as the early exits leave it, with whether
  the turn goes on to pay it out.
\<close>

definition due_draw :: "int \<Rightarrow> bool \<Rightarrow> draw \<Rightarrow> bool \<times> draw" where
  "due_draw now force d =
     (let l = d_view d in
      if lo_status l = LottoSettled \<or> (\<not> force \<and> of_int now < lt_closes_at (lo_terms l)) then (False, d)
      else let l1 = l\<lparr>lo_status := Waiting\<rparr> in
        if \<not> force \<and> of_int now < lo_due_at l1 then (False, d\<lparr>d_view := l1\<rparr>)
        else let l2 = (if force then l1\<lparr>lo_terms := (lo_terms l1)\<lparr>lt_closes_at := min (lt_closes_at (lo_terms l1)) (of_int now)\<rparr>,
                                       lo_due_at := of_int now\<rparr> else l1)
          in if lo_tickets l2 = 0 then (False, d\<lparr>d_view := l2\<lparr>lo_status := LottoSettled\<rparr>\<rparr>)
             else (True, d\<lparr>d_view := l2\<rparr>))"

definition settle_turn ::
  "'w lotto_host \<Rightarrow> int \<Rightarrow> bool \<Rightarrow> nat \<Rightarrow> nat list \<Rightarrow> 'w \<Rightarrow> ((exn + unit) \<times> nat list \<times> 'w) option" where
  "settle_turn h now force k rnd w =
     (case due_draw now force (oh_get h w ! k) of (pays, d) \<Rightarrow>
        let w1 = put_draw h d w in
        if \<not> pays then Some (Inr (), rnd, w1)
        else (case sample (draw_bound (lo_tickets (d_view d))) rnd of
            None \<Rightarrow> None
          | Some (r, rnd') \<Rightarrow> (case lotto_pay h d (winner_for d r) w1 of (res, w2) \<Rightarrow> Some (res, rnd', w2))))"

fun settle_loop ::
  "'w lotto_host \<Rightarrow> int \<Rightarrow> bool \<Rightarrow> nat list \<Rightarrow> nat list \<Rightarrow> 'w \<Rightarrow> ((exn + unit) \<times> 'w) option" where
  "settle_loop h now force [] rnd w = Some (Inr (), w)"
| "settle_loop h now force (k # ks) rnd w = (case settle_turn h now force k rnd w of
       None \<Rightarrow> None
     | Some (Inl e, _, w') \<Rightarrow> Some (Inl e, w')
     | Some (Inr _, rnd', w') \<Rightarrow> settle_loop h now force ks rnd' w')"

definition lotto_settle ::
  "'w lotto_host \<Rightarrow> int \<Rightarrow> bool \<Rightarrow> nat list \<Rightarrow> 'w \<Rightarrow> ((exn + unit) \<times> 'w) option" where
  "lotto_settle h now force rnd w = settle_loop h now force [0..<length (oh_get h w)] rnd w"

definition lotto_tick :: "'w lotto_host \<Rightarrow> int \<Rightarrow> nat list \<Rightarrow> 'w \<Rightarrow> ((exn + unit) \<times> 'w) option" where
  "lotto_tick h now = lotto_settle h now False"

definition lotto_resolve_now ::
  "'w lotto_host \<Rightarrow> user \<Rightarrow> int \<Rightarrow> nat list \<Rightarrow> 'w \<Rightarrow> ((exn + nat) \<times> 'w) option" where
  "lotto_resolve_now h actor now rnd w =
     (case first_err [lotto_active actor,
         throw_if (u_role actor \<noteq> Nana) (PlainError ''Only Nana can resolve demo lottos.'')] of
        Some e \<Rightarrow> Some (Inl e, w)
      | None \<Rightarrow>
          let pending = length (filter (\<lambda>d. lo_status (d_view d) \<noteq> LottoSettled) (oh_get h w)) in
          (case lotto_settle h now True rnd w of
             None \<Rightarrow> None
           | Some (Inl e, w') \<Rightarrow> Some (Inl e, w')
           | Some (Inr _, w') \<Rightarrow> Some (Inr pending, w')))"

section \<open>Currency reform\<close>

fun reform_draw :: "(num \<Rightarrow> num res) \<Rightarrow> draw \<Rightarrow> draw res" where
  "reform_draw convert d =
     (let l = d_view d in
      case convert (lt_ticket_price (lo_terms l)) of Inl e \<Rightarrow> Inl e | Inr price \<Rightarrow>
      (case convert (lo_pool l) of Inl e \<Rightarrow> Inl e | Inr pool \<Rightarrow>
      (case convert (lo_interest l) of Inl e \<Rightarrow> Inl e | Inr interest \<Rightarrow>
         Inr (d\<lparr>d_view := l\<lparr>lo_terms := (lo_terms l)\<lparr>lt_ticket_price := price\<rparr>,
                 lo_pool := pool, lo_interest := interest\<rparr>\<rparr>))))"

definition lotto_reform :: "(num \<Rightarrow> num res) \<Rightarrow> draw list \<Rightarrow> draw list res" where
  "lotto_reform convert ds = map_res (reform_draw convert) ds"

end
