(* ===== verification/LottoFairness.thy ===== *)
theory LottoFairness
  imports Lotto
begin

text \<open>
  The lottery is fair: of the 32-bit values the rejection loop accepts, every ticket is hit by
  exactly the same number, so an account wins with exactly as many values as it holds tickets times
  that number. The counting is done over natural numbers; the program's doubles are shown to compute
  the same thing.
\<close>

section \<open>Counting over natural numbers\<close>

fun npick :: "(string \<times> nat) list \<Rightarrow> nat \<Rightarrow> string" where
  "npick [] t = ''''"
| "npick ((a, c) # es) t = (if t < c then a else npick es (t - c))"

definition nsum :: "(string \<times> nat) list \<Rightarrow> nat" where
  "nsum es = sum_list (map snd es)"

lemma nsum_simps [simp]: "nsum [] = 0" "nsum ((a, c) # es) = c + nsum es"
  by (simp_all add: nsum_def)

lemma npick_in: "t < nsum es \<Longrightarrow> npick es t \<in> fst ` set es"
proof (induction es t rule: npick.induct)
  case (2 a c es t)
  then show ?case by (cases "t < c") auto
qed simp

lemma card_shift: "card {t. c \<le> t \<and> t < c + m \<and> P (t - c)} = card {t. t < m \<and> P t}" for c m :: nat
proof -
  have "{t. c \<le> t \<and> t < c + m \<and> P (t - c)} = (\<lambda>t. c + t) ` {t. t < m \<and> P t}"
    by (auto simp: image_iff intro: exI [of _ "_ - c"]) (metis add_diff_inverse_nat add_less_cancel_left linorder_not_le)
  then show ?thesis by (simp add: card_image)
qed

lemma npick_card:
  assumes "distinct (map fst es)" and "map_of es a = Some c"
  shows "card {t. t < nsum es \<and> npick es t = a} = c"
  using assms
proof (induction es)
  case (Cons e es)
  obtain b k where e: "e = (b, k)" by fastforce
  have split: "{t. t < nsum (e # es) \<and> npick (e # es) t = a} =
      {t. t < k \<and> b = a} \<union> {t. k \<le> t \<and> t < k + nsum es \<and> npick es (t - k) = a}"
    by (auto simp: e split: if_splits)
  have card: "card {t. t < nsum (e # es) \<and> npick (e # es) t = a} =
      card {t. t < k \<and> b = a} + card {t. k \<le> t \<and> t < k + nsum es \<and> npick es (t - k) = a}"
    unfolding split by (rule card_Un_disjoint) (auto intro: finite_subset [of _ "{..< k + nsum es}"])
  note shift = card_shift [of k "nsum es" "\<lambda>t. npick es t = a"]
  show ?case
  proof (cases "b = a")
    case True
    then have "a \<notin> fst ` set es" using Cons.prems by (simp add: e)
    then have "{t. t < nsum es \<and> npick es t = a} = {}" using npick_in by blast
    then show ?thesis using True Cons.prems by (simp only: card shift) (simp add: e)
  next
    case False
    then show ?thesis using Cons by (simp only: card shift) (simp add: e)
  qed
qed simp

lemma card_mod:
  assumes "0 < (n::nat)"
  shows "card {r. r < q * n \<and> P (r mod n)} = q * card {t. t < n \<and> P t}"
proof (induction q)
  case (Suc q)
  have split: "{r. r < Suc q * n \<and> P (r mod n)} =
      {r. r < q * n \<and> P (r mod n)} \<union> {r. q * n \<le> r \<and> r < q * n + n \<and> P (r - q * n)}"
  proof -
    have "r mod n = r - q * n" if "q * n \<le> r" "r < q * n + n" for r
      using that assms by (metis add_diff_inverse_nat less_diff_conv2 linorder_not_le mod_less mod_mult_self3 add.commute)
    then show ?thesis by auto
  qed
  have "card {r. r < Suc q * n \<and> P (r mod n)} =
      card {r. r < q * n \<and> P (r mod n)} + card {r. q * n \<le> r \<and> r < q * n + n \<and> P (r - q * n)}"
    unfolding split by (rule card_Un_disjoint) (auto intro: finite_subset [of _ "{..< q * n + n}"])
  with Suc show ?case by (simp add: card_shift)
qed simp

section \<open>The program's doubles compute it\<close>

abbreviation rat_entries :: "(string \<times> nat) list \<Rightarrow> (string \<times> num) list" where
  "rat_entries es \<equiv> map (\<lambda>(a, c). (a, of_nat c)) es"

lemma js_sub_nat: "c \<le> t \<Longrightarrow> t \<le> 9007199254740992 \<Longrightarrow> js_sub (of_nat t) (of_nat c) = of_nat (t - c)"
  using js_sub_exact [of "of_nat t" "of_nat c"] is_integer_of_int [of "int t - int c"]
  by (simp add: of_nat_diff)

lemma pick_nat:
  "t \<le> 9007199254740992 \<Longrightarrow> pick_winner (rat_entries es) (of_nat t) = npick es t"
proof (induction es t rule: npick.induct)
  case (2 a c es t)
  then show ?case by (auto simp: js_sub_nat)
qed simp

lemma js_mod_nat: "js_mod (of_nat r) (of_nat n) = of_nat (r mod n)"
proof -
  have "\<lfloor>rat_of_nat r / of_nat n\<rfloor> = int (r div n)"
    by (metis floor_divide_of_nat_eq)
  then have "js_mod (of_nat r) (of_nat n) = of_nat r - of_nat n * of_nat (r div n)"
    by (simp add: js_mod_def)
  also have "\<dots> = of_nat (r mod n)"
    by (metis add_diff_cancel_left' mult_div_mod_eq of_nat_add of_nat_mult)
  finally show ?thesis .
qed

lemma draw_bound_nat:
  assumes "0 < n" and "n \<le> 4294967296"
  shows "draw_bound (of_nat n) = of_nat (4294967296 div n * n)"
proof -
  have f: "\<lfloor>js_div 4294967296 (of_nat n)\<rfloor> = int (4294967296 div n)"
    using floor_js_div [of 4294967296 "int n"] assms by (simp add: zdiv_int)
  have "4294967296 div n * n \<le> 4294967296" by (rule div_times_less_eq_dividend)
  also have "(4294967296 :: nat) \<le> 9007199254740992" by simp
  finally have le: "4294967296 div n * n \<le> 9007199254740992" .
  then have "rat_of_nat (4294967296 div n * n) \<le> of_nat 9007199254740992" by (simp only: of_nat_le_iff)
  moreover have "is_integer (rat_of_nat (4294967296 div n * n))"
    using is_integer_of_int [of "int (4294967296 div n * n)"] by simp
  ultimately have "js_mul (of_nat (4294967296 div n)) (of_nat n) = of_nat (4294967296 div n * n)"
    by (subst js_mul_exact) (use le in \<open>simp_all flip: of_nat_mult\<close>)
  then show ?thesis unfolding draw_bound_def f by simp
qed

text \<open>What every draw in the book satisfies.\<close>

definition count_ok :: "num \<Rightarrow> bool" where
  "count_ok c \<longleftrightarrow> is_integer c \<and> 1 \<le> c"

definition wf_draw :: "draw \<Rightarrow> bool" where
  "wf_draw d \<longleftrightarrow> (let l = d_view d in
     distinct (map fst (d_entries d)) \<and> (\<forall>c \<in> set (map snd (d_entries d)). count_ok c)
     \<and> lo_tickets l = sum_list (map snd (d_entries d)) \<and> lo_tickets l \<le> 4294967295
     \<and> is_safe (lt_ticket_price (lo_terms l)) \<and> 0 < lt_ticket_price (lo_terms l)
     \<and> is_integer (lt_rate_bps (lo_terms l)) \<and> 0 \<le> lt_rate_bps (lo_terms l) \<and> lt_rate_bps (lo_terms l) \<le> 10000
     \<and> lo_pool l = lo_tickets l * lt_ticket_price (lo_terms l)
     \<and> is_integer (lo_interest l) \<and> 0 \<le> lo_interest l \<and> is_safe (lo_pool l + lo_interest l))"

lemma entries_nat:
  assumes "\<forall>c \<in> set (map snd es). count_ok c"
  obtains ns where "es = rat_entries ns" "\<forall>c \<in> set (map snd ns). 0 < c"
proof -
  define ns where "ns = map (\<lambda>(a, c). (a, nat \<lfloor>c\<rfloor>)) es"
  have c: "rat_of_nat (nat \<lfloor>c\<rfloor>) = c \<and> 0 < nat \<lfloor>c\<rfloor>" if "(a, c) \<in> set es" for a c
  proof -
    have "count_ok c" using assms that by force
    then show ?thesis by (auto simp: count_ok_def is_integer_def)
  qed
  have "es = rat_entries ns"
    unfolding ns_def map_map by (rule map_idI [symmetric]) (use c in auto)
  moreover have "\<forall>c \<in> set (map snd ns). 0 < c"
    using c by (auto simp: ns_def)
  ultimately show ?thesis by (rule that)
qed

lemma sum_rat_entries: "sum_list (map snd (rat_entries es)) = of_nat (nsum es)"
  by (induction es) auto

lemma map_of_rat_entries: "map_of (rat_entries es) a = map_option of_nat (map_of es a)"
  by (induction es) auto

lemma fst_rat_entries: "map fst (rat_entries es) = map fst es"
  by (induction es) auto

text \<open>
  Every accepted 32-bit value names a winner who holds tickets, and the number of accepted values
  that name an account is its ticket count times \<open>2 ^ 32 div tickets\<close>.
\<close>

theorem draw_is_fair:
  assumes wf: "wf_draw d" and n: "lo_tickets (d_view d) = of_nat n" "0 < n"
    and a: "tickets_of d a = of_nat c" "a \<in> fst ` set (d_entries d)"
  shows "card {r. of_nat r < draw_bound (of_nat n) \<and> winner_for d r = a} = 4294967296 div n * c"
    and "winner_for d r \<in> fst ` set (d_entries d)"
proof -
  note w = wf [unfolded wf_draw_def Let_def]
  obtain ns where es: "d_entries d = rat_entries ns"
    using w entries_nat [of "d_entries d"] by blast
  have "rat_of_nat n = sum_list (map snd (rat_entries ns))" using w n(1) es by metis
  then have sum: "nsum ns = n" unfolding sum_rat_entries by simp
  have le: "n \<le> 4294967296"
  proof -
    have "rat_of_nat n \<le> of_nat 4294967295" using w n by simp
    then show ?thesis by (simp only: of_nat_le_iff)
  qed
  have win: "winner_for d r = npick ns (r mod n)" for r
  proof -
    have "r mod n \<le> 9007199254740992" using n(2) le mod_less_divisor [OF n(2), of r] by linarith
    then show ?thesis unfolding winner_for_def n(1) js_mod_nat es by (rule pick_nat)
  qed
  show "winner_for d r \<in> fst ` set (d_entries d)"
    using npick_in [of "r mod n" ns] n(2) by (simp add: win sum es image_image case_prod_unfold)
  have c: "map_of ns a = Some c"
  proof -
    have "a \<in> fst ` set ns" using a(2) by (simp add: es image_image case_prod_unfold)
    then obtain k where "map_of ns a = Some k" by (metis map_of_eq_None_iff not_None_eq)
    then show ?thesis using a(1) by (simp add: tickets_of_def es map_of_rat_entries)
  qed
  have "card {r. of_nat r < draw_bound (of_nat n) \<and> winner_for d r = a} =
      card {r. r < 4294967296 div n * n \<and> npick ns (r mod n) = a}"
    unfolding draw_bound_nat [OF n(2) le] win of_nat_less_iff ..
  also have "\<dots> = 4294967296 div n * card {t. t < n \<and> npick ns t = a}" by (rule card_mod [OF n(2)])
  also have "card {t. t < n \<and> npick ns t = a} = c"
    using npick_card [OF _ c] w unfolding es fst_rat_entries sum by blast
  finally show "card {r. of_nat r < draw_bound (of_nat n) \<and> winner_for d r = a} = 4294967296 div n * c" .
qed

end
