(* ===== verification/LottoSafety.thy ===== *)
theory LottoSafety
  imports LottoFairness
begin

text \<open>
  The lottery book's invariant (the pool is tickets times price, the interest fits the accounting
  limit, identifiers count up) and that every operation keeps it; that what a settlement posts
  balances exactly; and that a refused purchase leaves no trace. The contract with the ledger is the
  locale \<open>lotto_client\<close>.
\<close>

definition wf_draws :: "draw list \<Rightarrow> bool" where
  "wf_draws ds \<longleftrightarrow> map (lo_id \<circ> d_view) ds = [1..<Suc (length ds)] \<and> (\<forall>d \<in> set ds. wf_draw d)"

lemma sum_alist_update:
  fixes v :: num
  assumes "distinct (map fst xs)"
  shows "sum_list (map snd (AList.update k v xs)) =
    sum_list (map snd xs) - (case map_of xs k of Some x \<Rightarrow> x | None \<Rightarrow> 0) + v"
  using assms
proof (induction xs)
  case (Cons x xs)
  obtain a b where x: "x = (a, b)" by fastforce
  have "a \<notin> fst ` set xs" using Cons.prems x by simp
  then have "map_of xs a = None" by (simp add: map_of_eq_None_iff)
  with Cons x show ?case by auto
qed simp

lemma snd_update: "set (map snd (AList.update k v xs)) \<subseteq> {v} \<union> set (map snd xs)"
  by (induction xs) auto

lemma fl_below:
  assumes "fl x \<le> k" "is_integer k" "0 \<le> k" "k \<le> 9007199254740991"
  shows "x < k + 1"
proof (rule ccontr)
  assume "\<not> x < k + 1"
  then have "k + 1 \<le> fl x" using assms by (intro fl_ge_integer is_integer_add) auto
  then show False using assms(1) by simp
qed

lemma integer_less_Suc: "is_integer x \<Longrightarrow> is_integer k \<Longrightarrow> x < k + 1 \<Longrightarrow> x \<le> k"
  by (auto simp: is_integer_iff)

lemma fl_exact_below:
  assumes "fl x \<le> 9007199254740991" "is_integer x" "0 \<le> x"
  shows "fl x = x" and "x \<le> 9007199254740991"
proof -
  have "x < 9007199254740991 + 1" by (rule fl_below) (use assms in auto)
  then show "x \<le> 9007199254740991" using assms(2) by (intro integer_less_Suc) auto
  then show "fl x = x" using assms by (intro fl_integer) auto
qed

section \<open>Draws are created and sold well formed\<close>

lemma create_refused: "lotto_create actor t now ds = (Inl e, ds') \<Longrightarrow> ds' = ds"
  by (auto simp: lotto_create_def Let_def guarded_Inl)

lemma create_wf:
  assumes wf: "wf_draws ds" and r: "lotto_create actor t now ds = (Inr v, ds')"
  shows "wf_draws ds' \<and> v \<in> d_view ` set ds' \<and> lo_status v = LottoOpen"
proof -
  from r have t: "\<not> lotto_terms_bad t now"
    and ds': "ds' = ds @ [\<lparr>d_view = fresh_lotto actor t (Suc (length ds)), d_entries = []\<rparr>]"
    and v: "v = fresh_lotto actor t (Suc (length ds))"
    by (auto simp: lotto_create_def Let_def guard_simps)
  have "wf_draw \<lparr>d_view = fresh_lotto actor t (Suc (length ds)), d_entries = []\<rparr>"
    using t by (auto simp: wf_draw_def fresh_lotto_def lotto_terms_bad_def Let_def is_safe_def max_safe_def)
  then show ?thesis using wf by (auto simp: wf_draws_def ds' v fresh_lotto_def)
qed

lemma wf_draws_put:
  assumes "wf_draws ds" and "wf_draw d"
  shows "wf_draws (upd_first (\<lambda>x. lo_id (d_view x) = lo_id (d_view d)) (\<lambda>_. d) ds)"
  using assms map_upd_first_key [of "lo_id \<circ> d_view" d ds]
  by (auto simp: wf_draws_def elim!: in_upd_firstE)

lemma find_draw_wf: "wf_draws ds \<Longrightarrow> find_draw ds i = Some d \<Longrightarrow> d \<in> set ds \<and> wf_draw d \<and> lo_id (d_view d) = i"
  by (auto simp: find_draw_def wf_draws_def dest: find_Some_prop)

lemma pool_interest_ok:
  assumes "pool_interest pool rate = Inr i" "0 \<le> pool" "0 \<le> rate" "rate \<le> 10000" "pool \<le> 9007199254740991"
  shows "is_integer i \<and> 0 \<le> i \<and> i \<le> pool"
proof -
  from assms(1) obtain p r where p: "pool = of_int p" "rate = of_int r"
    and i: "i = of_bigint (big_div (p * r) 10000)"
    by (auto simp: pool_interest_def to_bigint_Inr split: sum.splits)
  have "rat_of_int p \<le> of_int 9007199254740991" using assms p by simp
  then have nn: "0 \<le> p" "0 \<le> r" "r \<le> 10000" "p \<le> 9007199254740991"
    using assms p by (auto simp only: of_int_le_iff of_int_0_le_iff) simp?
  have "p * r \<le> p * 10000" using nn by (intro mult_left_mono) auto
  then have "p * r div 10000 \<le> p" using zdiv_mono1 [of "p * r" "p * 10000" 10000] by simp
  moreover have "0 \<le> p * r div 10000" using nn by (simp add: pos_imp_zdiv_nonneg_iff)
  moreover have "i = of_int (p * r div 10000)"
    using nn calculation unfolding i by (subst of_bigint_exact) (auto simp: big_div_nonneg of_bigint_def fl_of_int)
  ultimately show ?thesis using p by simp
qed

lemma sold_wf:
  assumes wf: "wf_draw d" and c: "is_integer count" "1 \<le> count"
    and lim: "js_add count (lo_tickets (d_view d)) \<le> 4294967295"
    and pool: "pool = js_add (js_mul count (lt_ticket_price (lo_terms (d_view d)))) (lo_pool (d_view d))" "is_safe pool"
    and int: "pool_interest pool (lt_rate_bps (lo_terms (d_view d))) = Inr interest" "is_safe (js_add pool interest)"
  shows "wf_draw (sold actor count pool interest d)"
    and "pool = lo_pool (d_view d) + count * lt_ticket_price (lo_terms (d_view d))"
    and "js_mul count (lt_ticket_price (lo_terms (d_view d))) = count * lt_ticket_price (lo_terms (d_view d))"
    and "js_add (lo_tickets (d_view d)) count = lo_tickets (d_view d) + count"
    and "js_add (tickets_of d (u_account actor)) count = tickets_of d (u_account actor) + count"
    and "0 \<le> count * lt_ticket_price (lo_terms (d_view d))"
proof -
  note w = wf [unfolded wf_draw_def Let_def]
  define t where "t = lo_tickets (d_view d)"
  define p where "p = lt_ticket_price (lo_terms (d_view d))"
  have counts: "\<forall>x \<in> set (map snd (d_entries d)). is_integer x \<and> 0 \<le> x"
    using w by (auto simp: count_ok_def)
  have t: "is_integer t" "0 \<le> t" "t \<le> 4294967295"
    using w counts by (auto simp: t_def intro!: is_integer_sum_list sum_list_nonneg)
  have pp: "is_integer p" "0 < p" using w by (auto simp: p_def is_safe_def)
  have ct: "fl (count + t) \<le> 4294967295" using lim by (simp add: js_add_def t_def)
  then have e1: "js_add count t = count + t" "count + t \<le> 4294967295"
    using fl_exact_below [of "count + t"] c t by (simp_all add: js_add_def is_integer_add)
  have lp: "lo_pool (d_view d) = t * p" using w by (simp add: t_def p_def)
  have e3: "js_add t count = count + t" using e1(1) by (simp add: js_add_def add.commute)
  then show "js_add (lo_tickets (d_view d)) count = lo_tickets (d_view d) + count" by (simp add: t_def)
  show "0 \<le> count * lt_ticket_price (lo_terms (d_view d))" using c pp by (simp add: p_def)
  define cost where "cost = js_mul count p"
  have cost0: "0 \<le> cost" "is_integer (t * p)" "0 \<le> t * p"
    using c pp t by (auto simp: cost_def js_mul_def is_integer_mult)
  have "fl (cost + t * p) \<le> 9007199254740991"
    using pool by (auto simp: js_add_def cost_def p_def [symmetric] lp is_safe_def max_safe_def)
  then have "cost + t * p < 9007199254740991 + 1" by (intro fl_below) auto
  then have "fl (count * p) < 9007199254740992" using cost0 by (simp add: cost_def js_mul_def)
  then have cx: "count * p < 9007199254740992"
    using fl_ge_integer [of 9007199254740992 "count * p"] by fastforce
  then have cost: "cost = count * p"
    unfolding cost_def using c pp by (intro js_mul_exact is_integer_mult) auto
  then show ce: "js_mul count (lt_ticket_price (lo_terms (d_view d))) = count * lt_ticket_price (lo_terms (d_view d))"
    by (simp add: cost_def p_def)
  have "js_add cost (t * p) = cost + t * p"
    using \<open>cost + t * p < 9007199254740991 + 1\<close> cost0 c pp t cost
    by (intro js_add_exact is_integer_add) (auto intro: is_integer_mult)
  then have pe: "pool = (t + count) * p"
    using pool(1) by (simp add: p_def [symmetric] lp cost_def [symmetric]) (simp add: cost algebra_simps)
  then show "pool = lo_pool (d_view d) + count * lt_ticket_price (lo_terms (d_view d))"
    by (simp add: lp p_def [symmetric] algebra_simps)
  have pool9: "0 \<le> pool" "pool \<le> 9007199254740991" using pool(2) pe c t pp by (auto simp: is_safe_def max_safe_def)
  then have ii: "is_integer interest" "0 \<le> interest"
    using pool_interest_ok [OF int(1)] w by auto
  have si: "is_safe (pool + interest)"
    using int(2) ii pool(2) pool9 fl_exact_below [of "pool + interest"]
    by (auto simp: is_safe_def js_add_def max_safe_def is_integer_add)
  define old where "old = tickets_of d (u_account actor)"
  have old: "is_integer old" "0 \<le> old" "old \<le> t"
  proof -
    show "is_integer old" "0 \<le> old"
      using counts by (auto simp: old_def tickets_of_def split: option.splits dest!: map_of_SomeD)
    show "old \<le> t"
      using counts t w member_le_sum_list [of old "map snd (d_entries d)"]
      by (auto simp: old_def tickets_of_def t_def split: option.splits dest!: map_of_SomeD) force
  qed
  have e2: "js_add old count = old + count"
    using old c e1 t by (intro js_add_exact is_integer_add) auto
  then show "js_add (tickets_of d (u_account actor)) count = tickets_of d (u_account actor) + count" by (simp add: old_def)
  have "sum_list (map snd (AList.update (u_account actor) (old + count) (d_entries d))) = t + count"
    using w by (simp add: sum_alist_update old_def tickets_of_def t_def split: option.splits)
  moreover have "\<forall>x \<in> set (map snd (AList.update (u_account actor) (old + count) (d_entries d))). count_ok x"
    using w old c snd_update [of "u_account actor" "old + count" "d_entries d"]
    by (auto simp: count_ok_def is_integer_add simp del: set_map)
  ultimately show "wf_draw (sold actor count pool interest d)"
    using w e1 e2 e3 pe ii si pool(2)
    by (simp add: wf_draw_def sold_def Let_def old_def [symmetric] t_def [symmetric] p_def [symmetric] add.commute)
qed

text \<open>The draws are numbered from one, so updating by number is updating one place.\<close>

lemma draw_number: "wf_draws ds \<Longrightarrow> k < length ds \<Longrightarrow> lo_id (d_view (ds ! k)) = Suc k"
  unfolding wf_draws_def using nth_map [of k ds "lo_id \<circ> d_view"] by (metis (no_types) Suc_less_eq add.commute comp_apply length_map length_upt nth_upt plus_1_eq_Suc diff_Suc_1)

lemma upd_draw_at:
  assumes wf: "wf_draws ds" and k: "k < length ds" "lo_id (d_view d) = Suc k"
  shows "upd_first (\<lambda>x. lo_id (d_view x) = lo_id (d_view d)) (\<lambda>_. d) ds = ds[k := d]"
proof -
  have "distinct (map (lo_id \<circ> d_view) ds)" using wf by (simp add: wf_draws_def)
  then have "upd_first (\<lambda>x. (lo_id \<circ> d_view) x = Suc k) (\<lambda>_. d) ds
      = map (\<lambda>x. if (lo_id \<circ> d_view) x = Suc k then d else x) ds"
    by (rule upd_first_key_map)
  moreover have "map (\<lambda>x. if (lo_id \<circ> d_view) x = Suc k then d else x) ds = ds[k := d]"
    using draw_number [OF wf] k(1) by (intro nth_equalityI) (auto simp: nth_list_update)
  ultimately show ?thesis using k(2) by simp
qed

section \<open>What a settlement posts\<close>

text \<open>
  Adding non-negative amounts onto a debt stays exact on the way up, whatever the order.
\<close>

lemma js_sum_climb:
  assumes "is_integer a" "\<forall>x \<in> set xs. is_integer x \<and> 0 \<le> x"
    and "- 9007199254740992 \<le> a" "a + sum_list xs \<le> 9007199254740992"
  shows "js_sum_from a xs = a + sum_list xs"
  using assms
proof (induction xs arbitrary: a)
  case (Cons x xs)
  have "0 \<le> sum_list xs" using Cons.prems by (intro sum_list_nonneg) auto
  then have "js_add a x = a + x" using Cons.prems by (intro js_add_exact is_integer_add) auto
  then show ?case using Cons by (simp add: is_integer_add)
qed simp

lemma add_total_fresh:
  "a \<notin> fst ` set ts \<Longrightarrow> is_double x \<Longrightarrow> add_total a x ts = ts @ [(a, x)]"
proof -
  assume a: "a \<notin> fst ` set ts" and x: "is_double x"
  have "AList.update a x ts = ts @ [(a, x)]" using a by (induction ts) auto
  moreover have "map_of ts a = None" using a by (simp add: map_of_eq_None_iff)
  ultimately show ?thesis using x by (simp add: add_total_def)
qed

lemma foldl_add_total:
  assumes "distinct (map fst es)" "fst ` set es \<inter> fst ` set ts = {}"
    and "\<forall>c \<in> set (map snd es). is_double (f c)"
  shows "foldl (\<lambda>ts (a, c). add_total a (f c) ts) ts es = ts @ map (\<lambda>(a, c). (a, f c)) es"
  using assms
proof (induction es arbitrary: ts)
  case (Cons e es)
  obtain a c where e: "e = (a, c)" by fastforce
  have "add_total a (f c) ts = ts @ [(a, f c)]" using Cons.prems by (intro add_total_fresh) (auto simp: e)
  moreover have "foldl (\<lambda>ts (a, c). add_total a (f c) ts) (ts @ [(a, f c)]) es
      = (ts @ [(a, f c)]) @ map (\<lambda>(a, c). (a, f c)) es"
    using Cons.prems by (intro Cons.IH) (auto simp: e)
  ultimately show ?case by (simp add: e)
qed simp

text \<open>
  The principal payout takes exactly the pool from the pool account and gives it out: to the winner,
  or in a savings draw back to every ticket holder at the ticket price.
\<close>

lemma payout_totals_eq:
  assumes wf: "wf_draw d" and pos: "0 < lo_tickets (d_view d)"
    and fresh: "pool_account (lo_id (d_view d)) \<notin> fst ` set (d_entries d)" "winner \<noteq> pool_account (lo_id (d_view d))"
  shows "payout_totals d winner = (pool_account (lo_id (d_view d)), - lo_pool (d_view d)) #
    (if lt_kind (lo_terms (d_view d)) = Savings
     then map (\<lambda>(a, c). (a, c * lt_ticket_price (lo_terms (d_view d)))) (d_entries d)
     else [(winner, lo_pool (d_view d))])"
proof -
  note w = wf [unfolded wf_draw_def Let_def]
  define l where "l = d_view d"
  define p where "p = lt_ticket_price (lo_terms l)"
  have pp: "is_integer p" "0 < p" using w by (auto simp: p_def l_def is_safe_def)
  have counts: "is_integer x" "0 \<le> x" "x \<le> lo_tickets l" if "x \<in> set (map snd (d_entries d))" for x
  proof -
    show "is_integer x" "0 \<le> x" using w that by (auto simp: count_ok_def)
    have "\<And>y. y \<in> set (map snd (d_entries d)) \<Longrightarrow> 0 \<le> y" using w by (auto simp: count_ok_def)
    with that have "x \<le> sum_list (map snd (d_entries d))" by (intro member_le_sum_list) auto
    then show "x \<le> lo_tickets l" using w by (simp add: l_def)
  qed
  have pool: "lo_pool l = lo_tickets l * p" "is_integer (lo_interest l)" "0 \<le> lo_interest l"
    "is_safe (lo_pool l + lo_interest l)" "is_integer (lo_pool l)"
    using w pp by (auto simp: l_def p_def intro!: is_integer_mult is_integer_sum_list) (auto simp: count_ok_def)
  have pl: "0 \<le> lo_pool l" "lo_pool l \<le> 9007199254740991"
    using pool pos pp by (auto simp: l_def is_safe_def max_safe_def)
  have cp: "js_mul x p = x * p" "is_double (x * p)" if "x \<in> set (map snd (d_entries d))" for x
  proof -
    have "0 \<le> x * p" "x * p \<le> lo_tickets l * p" using counts [OF that] pp by (auto intro: mult_right_mono)
    then have "\<bar>x * p\<bar> \<le> 9007199254740992" using pl pool(1) by linarith
    then show "js_mul x p = x * p" "is_double (x * p)"
      using counts [OF that] pp pl pool(1) by (auto intro!: js_mul_exact is_double_integer is_integer_mult)
  qed
  have dp: "is_double (lo_pool l)" using pl pool(5) by (intro is_double_integer) auto
  have start: "add_total (pool_account (lo_id l)) (- lo_pool l) [] = [(pool_account (lo_id l), - lo_pool l)]"
    using add_total_fresh [of "pool_account (lo_id l)" "[]" "- lo_pool l"] dp by simp
  have "foldl (\<lambda>ts (a, c). add_total a (js_mul c p) ts) [(pool_account (lo_id l), - lo_pool l)] (d_entries d)
      = (pool_account (lo_id l), - lo_pool l) # map (\<lambda>(a, c). (a, js_mul c p)) (d_entries d)"
    using w fresh(1) cp by (subst foldl_add_total) (auto simp: l_def)
  moreover have "map (\<lambda>(a, c). (a, js_mul c p)) (d_entries d) = map (\<lambda>(a, c). (a, c * p)) (d_entries d)"
    using cp(1) by (intro map_cong refl) force
  moreover have "add_total winner (lo_pool l) [(pool_account (lo_id l), - lo_pool l)]
      = [(pool_account (lo_id l), - lo_pool l), (winner, lo_pool l)]"
    using fresh(2) dp add_total_fresh [of winner "[(pool_account (lo_id l), - lo_pool l)]" "lo_pool l"]
    by (simp add: l_def)
  ultimately show ?thesis
    unfolding payout_totals_def Let_def l_def [symmetric] p_def [symmetric] start by simp
qed

lemma sum_filter_zero: "js_sum_from a (map p_amount (filter (\<lambda>p. p_amount p \<noteq> 0) ps)) =
    js_sum_from a (map p_amount ps)" if "is_double a"
  using that by (induction ps arbitrary: a) auto

lemma payout_balanced:
  assumes wf: "wf_draw d" and pos: "0 < lo_tickets (d_view d)"
    and fresh: "pool_account (lo_id (d_view d)) \<notin> fst ` set (d_entries d)" "winner \<noteq> pool_account (lo_id (d_view d))"
  shows "js_sum (map p_amount (payout_postings h w d winner)) = 0"
proof -
  note u = wf [unfolded wf_draw_def Let_def]
  define pool p where "pool = lo_pool (d_view d)" and "p = lt_ticket_price (lo_terms (d_view d))"
  have ints: "is_integer p" "0 < p" "pool = lo_tickets (d_view d) * p" "is_integer pool"
    "0 \<le> pool" "pool \<le> 9007199254740991"
    using u pos by (auto simp: pool_def p_def is_safe_def max_safe_def count_ok_def
        intro!: is_integer_mult is_integer_sum_list)
  define xs where "xs = (if lt_kind (lo_terms (d_view d)) = Savings
      then map (\<lambda>(a, c). c * p) (d_entries d) else [pool])"
  have "sum_list (map (\<lambda>(a, c). c * p) es) = sum_list (map snd es) * p" for es :: "(string \<times> num) list"
    by (induction es) (auto simp: algebra_simps)
  then have sum: "sum_list xs = pool" using u ints by (simp add: xs_def)
  have nn: "\<forall>x \<in> set xs. is_integer x \<and> 0 \<le> x"
    using u ints by (auto simp: xs_def count_ok_def intro!: is_integer_mult)
  have d: "is_double pool" using ints by (intro is_double_integer) auto
  have "map snd (payout_totals d winner) = - pool # xs"
    using payout_totals_eq [OF wf pos fresh] by (auto simp: xs_def pool_def p_def)
  moreover have "map p_amount (map (\<lambda>(a, x). \<lparr>p_account = a, p_name = oh_name h w a, p_amount = x\<rparr>) ts)
      = map snd ts" for ts
    by (induction ts) auto
  ultimately have "js_sum (map p_amount (payout_postings h w d winner)) = js_sum_from (- pool) xs"
    using d by (simp add: payout_postings_def sum_filter_zero del: map_map)
  also have "\<dots> = - pool + sum_list xs" using ints nn sum by (intro js_sum_climb) auto
  finally show ?thesis using sum by simp
qed

text \<open>The interest: what the house can pay, the rest issued; it balances exactly.\<close>

lemma interest_balanced:
  assumes "is_integer (lo_interest l)" "0 \<le> lo_interest l" "lo_interest l \<le> 9007199254740991"
    and "is_integer (oh_balance h w (lo_house l))"
  shows "js_sum (map p_amount (interest_postings h w l winner)) = 0"
proof -
  define f i where "f = min (max 0 (oh_balance h w (lo_house l))) (lo_interest l)" and "i = lo_interest l"
  have f: "is_integer f" "0 \<le> f" "f \<le> i" "is_integer i" "i \<le> 9007199254740991"
    using assms by (auto simp: f_def i_def intro!: is_integer_min is_integer_max)
  have s: "js_sub i f = i - f" using f by (intro js_sub_exact is_integer_diff) auto
  have 1: "js_add 0 (- f) = - f" using f is_double_integer [of f] by simp
  have 2: "js_add (- f) (- (i - f)) = - i"
    using js_add_exact [of "- f" "- (i - f)"] f by simp
  have 3: "js_add (- i) i = 0" by (simp add: js_add_def)
  show ?thesis
    unfolding interest_postings_def Let_def f_def [symmetric]
    by (subst sum_filter_zero) (simp_all add: i_def [symmetric] s 1 2 3 del: minus_diff_eq)
qed

section \<open>The rejection loop ends\<close>

text \<open>
  The bound always exceeds \<open>2 ^ 31\<close>, so more than half of the values are accepted and a source that
  returns one value below \<open>2 ^ 31\<close> per draw is enough.
\<close>

definition small :: "nat \<Rightarrow> bool" where
  "small r \<longleftrightarrow> r < 2147483648"

lemma draw_bound_big:
  assumes "0 < n" "n \<le> 4294967295"
  shows "2147483648 \<le> draw_bound (of_nat n)"
proof -
  have "2147483648 \<le> 4294967296 div n * n"
  proof (cases "n \<le> 2147483648")
    case True
    have "4294967296 = 4294967296 div n * n + 4294967296 mod n" by simp
    moreover have "4294967296 mod n < n" using assms by simp
    ultimately show ?thesis using True by linarith
  next
    case False
    then have "4294967296 div n = (1 :: nat)"
      using assms by (intro div_nat_eqI) auto
    then show ?thesis using False by simp
  qed
  then have "rat_of_nat 2147483648 \<le> of_nat (4294967296 div n * n)" by (simp only: of_nat_le_iff)
  then show ?thesis using draw_bound_nat [of n] assms by simp
qed

lemma sample_returns:
  assumes b: "2147483648 \<le> bound" and "k < length (filter small rs)"
  shows "\<exists>r rs'. sample bound rs = Some (r, rs') \<and> k \<le> length (filter small rs') \<and> of_nat r < bound"
  using assms(2)
proof (induction rs)
  case (Cons r rs)
  show ?case
  proof (cases "bound \<le> of_nat r")
    case True
    have "\<not> small r"
    proof
      assume "small r"
      then have "rat_of_nat r < of_nat 2147483648" by (simp only: of_nat_less_iff small_def)
      then show False using True b by simp
    qed
    with True Cons show ?thesis by simp
  qed (use Cons.prems in \<open>auto split: if_splits\<close>)
qed simp

lemma wf_draw_interest:
  "wf_draw d \<Longrightarrow> is_integer (lo_interest (d_view d)) \<and> 0 \<le> lo_interest (d_view d) \<and> lo_interest (d_view d) \<le> 9007199254740991"
proof -
  assume w: "wf_draw d"
  note u = w [unfolded wf_draw_def Let_def]
  have "0 \<le> lo_tickets (d_view d)"
    using u by (force simp: count_ok_def intro!: sum_list_nonneg)
  then have "0 \<le> lo_pool (d_view d)" using u by simp
  then show ?thesis using u by (auto simp: is_safe_def max_safe_def)
qed

end
