(* ===== verification/LottoHost.thy ===== *)
theory LottoHost
  imports LottoSafety
begin

text \<open>
  The lottery's operations through its contract with the ledger: buying is all or nothing, a
  settlement leaves the book well formed even when the ledger refuses a payment half way, settled
  draws never change again, and settling returns when the random source does.
\<close>

section \<open>What a turn of the settlement does to a draw\<close>

lemma due_draw_wf:
  "wf_draw d \<Longrightarrow> due_draw now force d = (pays, d') \<Longrightarrow>
    wf_draw d' \<and> lo_id (d_view d') = lo_id (d_view d) \<and> d_entries d' = d_entries d
    \<and> lo_tickets (d_view d') = lo_tickets (d_view d) \<and> (pays \<longrightarrow> lo_tickets (d_view d') \<noteq> 0)
    \<and> (lo_status (d_view d) = LottoSettled \<longrightarrow> d' = d \<and> \<not> pays)
    \<and> (force \<and> \<not> pays \<longrightarrow> lo_status (d_view d') = LottoSettled)"
  unfolding due_draw_def Let_def wf_draw_def by (auto split: if_splits)

lemma settled_draw_wf: "wf_draw d \<Longrightarrow> wf_draw (d\<lparr>d_view := (d_view d)\<lparr>lo_winner := x,
    lo_winner_name := y, lo_status := z\<rparr>\<rparr>)"
  by (auto simp: wf_draw_def Let_def)

locale lotto_client =
  fixes h :: "'w lotto_host"
  assumes get_put [simp]: "oh_get h (oh_put h ds w) = ds"
    and balance_put [simp]: "oh_balance h (oh_put h ds w) = oh_balance h w"
    and name_put [simp]: "oh_name h (oh_put h ds w) = oh_name h w"
    and post_refused: "oh_post h i memo ps w = (Inl e, w') \<Longrightarrow> w' = w"
    and post_draws: "oh_post h i memo ps w = (Inr u, w') \<Longrightarrow> oh_get h w' = oh_get h w"
begin

lemma put_draw_get [simp]: "oh_get h (put_draw h d w) =
    upd_first (\<lambda>x. lo_id (d_view x) = lo_id (d_view d)) (\<lambda>_. d) (oh_get h w)"
  by (simp add: put_draw_def)

lemma buy_refused: "lotto_buy h actor i count now w = (Inl e, w') \<Longrightarrow> w' = w"
  by (auto simp: lotto_buy_def lotto_buy_draw_def Let_def guarded_Inl and_then_Inl
      split: option.splits sum.splits dest: post_refused)

lemma buy_done:
  assumes wf: "wf_draws (oh_get h w)" and r: "lotto_buy h actor i count now w = (Inr v, w')"
  shows "wf_draws (oh_get h w') \<and> (\<exists>d d' w1. d \<in> set (oh_get h w) \<and> lo_id (d_view d) = i
    \<and> lo_status (d_view d) = LottoOpen \<and> of_int now < lt_closes_at (lo_terms (d_view d))
    \<and> oh_get h w' = upd_first (\<lambda>x. lo_id (d_view x) = i) (\<lambda>_. d') (oh_get h w)
    \<and> d' \<in> set (oh_get h w') \<and> lo_id (d_view d') = i \<and> v = (d_view d')\<lparr>lo_my_tickets := tickets_of d' (u_account actor)\<rparr>
    \<and> lo_pool (d_view d') = lo_pool (d_view d) + count * lt_ticket_price (lo_terms (d_view d))
    \<and> lo_tickets (d_view d') = lo_tickets (d_view d) + count
    \<and> (\<forall>a. tickets_of d' a = tickets_of d a + (if a = u_account actor then count else 0))
    \<and> 0 \<le> count * lt_ticket_price (lo_terms (d_view d)) \<and> is_double (count * lt_ticket_price (lo_terms (d_view d)))
    \<and> count * lt_ticket_price (lo_terms (d_view d)) \<le> oh_balance h w (u_account actor)
    \<and> oh_post h i ''Lotto tickets'' (ticket_postings actor i (count * lt_ticket_price (lo_terms (d_view d)))) w
        = (Inr (), w1) \<and> oh_balance h w' = oh_balance h w1)"
proof -
  from r obtain d where fd: "find_draw (oh_get h w) i = Some d"
    and open': "lo_status (d_view d) = LottoOpen" "of_int now < lt_closes_at (lo_terms (d_view d))"
    and b: "lotto_buy_draw h actor d i count w = (Inr v, w')"
    by (auto simp: lotto_buy_def guard_simps sales_closed_def not_le split: option.splits)
  define p where "p = lt_ticket_price (lo_terms (d_view d))"
  define pool where "pool = js_add (js_mul count p) (lo_pool (d_view d))"
  from b obtain interest w1 where cb: "\<not> count_bad h w actor (d_view d) count"
    and pi: "pool_interest pool (lt_rate_bps (lo_terms (d_view d))) = Inr interest"
    and sf: "is_safe (js_add pool interest)"
    and po: "oh_post h i ''Lotto tickets'' (ticket_postings actor i (js_mul count p)) w = (Inr (), w1)"
    and w': "w' = put_draw h (sold actor count pool interest d) w1"
    and v: "v = (d_view (sold actor count pool interest d))\<lparr>lo_my_tickets :=
        tickets_of (sold actor count pool interest d) (u_account actor)\<rparr>"
    by (auto simp: lotto_buy_draw_def Let_def guard_simps pool_def [symmetric] p_def [symmetric] split: sum.splits)
  have wd: "d \<in> set (oh_get h w)" "wf_draw d" "lo_id (d_view d) = i" using find_draw_wf [OF wf fd] by auto
  have c: "is_integer count" "1 \<le> count" "js_add count (lo_tickets (d_view d)) \<le> 4294967295" "is_safe pool"
      "js_mul count p \<le> oh_balance h w (u_account actor)"
    using cb by (auto simp: count_bad_def Let_def pool_def p_def)
  note s = sold_wf [OF wd(2) c(1-3) pool_def [unfolded p_def] c(4) pi sf]
  have g: "oh_get h w1 = oh_get h w" by (rule post_draws [OF po])
  have id: "lo_id (d_view (sold actor count pool interest d)) = i" by (simp add: sold_def Let_def wd)
  have "wf_draws (oh_get h w')" unfolding w' put_draw_get g by (rule wf_draws_put [OF wf s(1)])
  moreover have "sold actor count pool interest d \<in> set (oh_get h w')"
    unfolding w' put_draw_get g id using wd by (intro upd_first_in [of d]) auto
  moreover have "lo_pool (d_view (sold actor count pool interest d)) = pool" by (simp add: sold_def Let_def)
  moreover have "oh_get h w' = upd_first (\<lambda>x. lo_id (d_view x) = i) (\<lambda>_. sold actor count pool interest d) (oh_get h w)"
    unfolding w' put_draw_get g id by (rule refl)
  moreover have "lo_tickets (d_view (sold actor count pool interest d)) = lo_tickets (d_view d) + count"
    by (simp add: sold_def Let_def s(4))
  moreover have "tickets_of (sold actor count pool interest d) a = tickets_of d a + (if a = u_account actor then count else 0)" for a
    using s(5) by (auto simp: sold_def Let_def tickets_of_def update_conv')
  moreover have "is_double (count * lt_ticket_price (lo_terms (d_view d)))"
    using s(3) is_double_fl by (metis js_mul_def)
  moreover have "oh_balance h w' = oh_balance h w1" unfolding w' put_draw_def by (rule balance_put)
  ultimately show ?thesis
    using wd open' v s(2,3,6) po c(5) id by (intro conjI exI [of _ d] exI [of _ "sold actor count pool interest d"] exI [of _ w1])
      (auto simp: p_def)
qed

lemma pay_refused: "lotto_pay h d winner w = (Inl e, w') \<Longrightarrow> oh_get h w' = oh_get h w"
  by (auto simp: lotto_pay_def Let_def and_then_Inl split: if_splits dest: post_refused post_draws)

lemma pay_done:
  assumes "lotto_pay h d winner w = (Inr u, w')"
  shows "\<exists>y. oh_get h w' = upd_first (\<lambda>x. lo_id (d_view x) = lo_id (d_view d))
      (\<lambda>_. d\<lparr>d_view := (d_view d)\<lparr>lo_winner := Some winner, lo_winner_name := y, lo_status := LottoSettled\<rparr>\<rparr>) (oh_get h w)"
  using assms by (auto simp: lotto_pay_def Let_def guard_simps split: if_splits dest!: post_draws)

text \<open>One turn touches one draw only, keeps it well formed, and leaves a settled draw alone.\<close>

lemma turn_draws:
  assumes wf: "wf_draws (oh_get h w)" and k: "k < length (oh_get h w)"
    and r: "settle_turn h now force k rnd w = Some (res, rnd', w')"
  shows "\<exists>d. oh_get h w' = (oh_get h w)[k := d] \<and> wf_draw d \<and> lo_id (d_view d) = Suc k
    \<and> (lo_status (d_view (oh_get h w ! k)) = LottoSettled \<longrightarrow> d = oh_get h w ! k)
    \<and> (force \<longrightarrow> res = Inr () \<longrightarrow> lo_status (d_view d) = LottoSettled)"
proof -
  define ds where "ds = oh_get h w"
  obtain pays d where dd: "due_draw now force (ds ! k) = (pays, d)" by fastforce
  have wk: "wf_draw (ds ! k)" using wf k by (auto simp: wf_draws_def ds_def)
  note d = due_draw_wf [OF wk dd]
  have id: "lo_id (d_view d) = Suc k" using d draw_number [OF wf k] by (simp add: ds_def)
  define w1 where "w1 = put_draw h d w"
  have g1: "oh_get h w1 = ds[k := d]"
    unfolding w1_def put_draw_get using upd_draw_at [OF wf k id] by (simp add: ds_def)
  have wf1: "wf_draws (oh_get h w1)"
    unfolding w1_def put_draw_get using wf_draws_put [OF wf] d by blast
  show ?thesis
  proof (cases pays)
    case False
    then have "w' = w1" "res = Inr ()"
      using r dd by (auto simp: settle_turn_def ds_def [symmetric] w1_def Let_def)
    then show ?thesis using g1 d id False by (auto simp: ds_def [symmetric])
  next
    case True
    then obtain x where p: "lotto_pay h d (winner_for d x) w1 = (res, w')"
      using r dd by (auto simp: settle_turn_def ds_def [symmetric] w1_def Let_def split: option.splits prod.splits)
    have not_settled: "lo_status (d_view (ds ! k)) \<noteq> LottoSettled" using d True by auto
    have k1: "k < length (oh_get h w1)" using g1 k by (simp add: ds_def)
    show ?thesis
    proof (cases res)
      case (Inl e)
      have "oh_get h w' = oh_get h w1" by (rule pay_refused [OF p [unfolded Inl]])
      then show ?thesis
        using g1 d id not_settled Inl by (intro exI [of _ d]) (auto simp: ds_def [symmetric])
    next
      case (Inr u)
      from pay_done [OF p [unfolded Inr]] obtain y where
        "oh_get h w' = ds[k := d\<lparr>d_view := (d_view d)\<lparr>lo_winner := Some (winner_for d x),
            lo_winner_name := y, lo_status := LottoSettled\<rparr>\<rparr>]"
        using upd_draw_at [OF wf1 k1] id by (auto simp: g1)
      then show ?thesis
        using d id not_settled settled_draw_wf by (auto simp: ds_def [symmetric] intro!: exI)
    qed
  qed
qed

lemma loop_draws:
  assumes "wf_draws (oh_get h w)" "\<forall>k \<in> set ks. k < length (oh_get h w)"
    and "settle_loop h now force ks rnd w = Some (res, w')"
  shows "wf_draws (oh_get h w') \<and> length (oh_get h w') = length (oh_get h w)
    \<and> (\<forall>k < length (oh_get h w). lo_status (d_view (oh_get h w ! k)) = LottoSettled \<longrightarrow>
          oh_get h w' ! k = oh_get h w ! k)
    \<and> (force \<longrightarrow> res = Inr () \<longrightarrow> (\<forall>k \<in> set ks. lo_status (d_view (oh_get h w' ! k)) = LottoSettled))"
  using assms
proof (induction ks arbitrary: rnd w)
  case (Cons k ks)
  define ds where "ds = oh_get h w"
  from Cons.prems(3) obtain r1 rnd1 w1 where t: "settle_turn h now force k rnd w = Some (r1, rnd1, w1)"
    by (auto split: option.splits sum.splits prod.splits)
  have k: "k < length ds" using Cons.prems(2) by (simp add: ds_def)
  obtain d where d: "oh_get h w1 = ds[k := d]" "wf_draw d" "lo_id (d_view d) = Suc k"
    and same: "lo_status (d_view (ds ! k)) = LottoSettled \<longrightarrow> d = ds ! k"
    and forced: "force \<longrightarrow> r1 = Inr () \<longrightarrow> lo_status (d_view d) = LottoSettled"
    using turn_draws [OF Cons.prems(1) k [unfolded ds_def] t] by (auto simp: ds_def)
  have wf1: "wf_draws (oh_get h w1)"
    using wf_draws_put [OF Cons.prems(1) d(2)] upd_draw_at [OF Cons.prems(1) k [unfolded ds_def] d(3)] d(1)
    by (simp add: ds_def)
  show ?case
  proof (cases r1)
    case (Inl e)
    then have "w' = w1" "res = Inl e" using Cons.prems(3) t by auto
    then show ?thesis using wf1 d(1) same k by (auto simp: ds_def [symmetric] nth_list_update)
  next
    case (Inr u)
    then have "settle_loop h now force ks rnd1 w1 = Some (res, w')" using Cons.prems(3) t by auto
    from Cons.IH [OF wf1 _ this] have ih: "wf_draws (oh_get h w')" "length (oh_get h w') = length ds"
      "\<forall>j < length ds. lo_status (d_view (ds[k := d] ! j)) = LottoSettled \<longrightarrow> oh_get h w' ! j = ds[k := d] ! j"
      "force \<longrightarrow> res = Inr () \<longrightarrow> (\<forall>k \<in> set ks. lo_status (d_view (oh_get h w' ! k)) = LottoSettled)"
      using Cons.prems(2) d(1) by (auto simp: ds_def)
    have "oh_get h w' ! j = ds ! j" if "j < length ds" "lo_status (d_view (ds ! j)) = LottoSettled" for j
      using ih(3) same that by (cases "j = k") (auto simp: nth_list_update)
    moreover have "lo_status (d_view (oh_get h w' ! k)) = LottoSettled" if force
      using ih(3) forced that k Inr by (auto simp: nth_list_update)
    ultimately show ?thesis using ih by (auto simp: ds_def [symmetric])
  qed
qed auto

lemma turn_returns:
  assumes wf: "wf_draws (oh_get h w)" and k: "k < length (oh_get h w)" and n: "n < length (filter small rnd)"
  shows "\<exists>r rnd' w'. settle_turn h now force k rnd w = Some (r, rnd', w') \<and> n \<le> length (filter small rnd')"
proof -
  obtain pays d where dd: "due_draw now force (oh_get h w ! k) = (pays, d)" by fastforce
  have "wf_draw (oh_get h w ! k)" using wf k by (auto simp: wf_draws_def)
  note d = due_draw_wf [OF this dd]
  show ?thesis
  proof (cases pays)
    case False
    then show ?thesis using dd n by (auto simp: settle_turn_def Let_def)
  next
    case True
    have w: "\<forall>c \<in> set (map snd (d_entries d)). count_ok c" "lo_tickets (d_view d) = sum_list (map snd (d_entries d))"
      "lo_tickets (d_view d) \<le> 4294967295"
      using d by (auto simp: wf_draw_def Let_def)
    obtain ns where "d_entries d = rat_entries ns" using w(1) by (elim entries_nat)
    then have t: "lo_tickets (d_view d) = of_nat (nsum ns)" using w(2) sum_rat_entries by metis
    have "rat_of_nat (nsum ns) \<le> of_nat 4294967295" using w(3) t by simp
    then have "nsum ns \<le> 4294967295" by (simp only: of_nat_le_iff)
    moreover have "0 < nsum ns" using d True t by (cases "nsum ns") auto
    ultimately have "2147483648 \<le> draw_bound (lo_tickets (d_view d))"
      unfolding t by (intro draw_bound_big)
    from sample_returns [OF this n] obtain r rnd' where
      s: "sample (draw_bound (lo_tickets (d_view d))) rnd = Some (r, rnd')" "n \<le> length (filter small rnd')"
      by blast
    obtain res w2 where "lotto_pay h d (winner_for d r) (put_draw h d w) = (res, w2)" by fastforce
    then show ?thesis using dd s True by (auto simp: settle_turn_def Let_def)
  qed
qed

lemma loop_returns:
  assumes "wf_draws (oh_get h w)" "\<forall>k \<in> set ks. k < length (oh_get h w)" "length ks \<le> length (filter small rnd)"
  shows "\<exists>res w'. settle_loop h now force ks rnd w = Some (res, w')"
  using assms
proof (induction ks arbitrary: rnd w)
  case (Cons k ks)
  then obtain r rnd1 w1 where t: "settle_turn h now force k rnd w = Some (r, rnd1, w1)"
      "length ks \<le> length (filter small rnd1)"
    using turn_returns [of w k "length ks" rnd now force] by auto
  have "wf_draws (oh_get h w1)" "length (oh_get h w1) = length (oh_get h w)"
    using loop_draws [of w "[k]" now force rnd r w1] Cons.prems t(1) by (cases r; auto)+
  then show ?case using Cons t by (cases r) auto
qed simp

lemma settle_draws:
  assumes "wf_draws (oh_get h w)" "lotto_settle h now force rnd w = Some (res, w')"
  shows "wf_draws (oh_get h w') \<and> length (oh_get h w') = length (oh_get h w)
    \<and> (\<forall>k < length (oh_get h w). lo_status (d_view (oh_get h w ! k)) = LottoSettled \<longrightarrow>
          oh_get h w' ! k = oh_get h w ! k)
    \<and> (force \<longrightarrow> res = Inr () \<longrightarrow> (\<forall>d \<in> set (oh_get h w'). lo_status (d_view d) = LottoSettled))"
  using loop_draws [OF assms(1) _ assms(2) [unfolded lotto_settle_def]]
  by (auto simp: in_set_conv_nth)

lemma settle_returns:
  assumes "wf_draws (oh_get h w)" "length (oh_get h w) \<le> length (filter small rnd)"
  shows "\<exists>res w'. lotto_settle h now force rnd w = Some (res, w')"
  unfolding lotto_settle_def using assms by (intro loop_returns) auto

end

end
