(* ===== verification/Commerce.thy ===== *)
theory Commerce
  imports Models
begin

text \<open>
  \<open>demo/commerce.ts\<close>: gift requests and digital art. A command first validates and, for the two
  that move money, pays through the host; what is left is a change that cannot fail, applied with the
  sequence number the host then hands out. The host's clock and sequence counter are stateful, so
  they thread the caller's state.
\<close>

section \<open>State\<close>

record commerce =
  cm_requests :: "gift_request list"
  cm_artworks :: "artwork list"

definition new_commerce :: commerce where
  "new_commerce = \<lparr>cm_requests = [], cm_artworks = []\<rparr>"

record 'w commerce_host =
  ch_user :: "'w \<Rightarrow> nat \<Rightarrow> user option"
  ch_now :: "'w \<Rightarrow> int \<times> 'w"
  ch_sequence :: "'w \<Rightarrow> nat \<times> 'w"
  ch_pay :: "user \<Rightarrow> string \<Rightarrow> num \<Rightarrow> string \<Rightarrow> nat option \<Rightarrow> nat option \<Rightarrow> ('w, transaction) act"
  ch_get :: "'w \<Rightarrow> commerce"
  ch_put :: "commerce \<Rightarrow> 'w \<Rightarrow> 'w"

section \<open>Guards\<close>

definition commerce_active :: "'w commerce_host \<Rightarrow> 'w \<Rightarrow> nat \<Rightarrow> user res" where
  "commerce_active h w i = (case ch_user h w i of
       None \<Rightarrow> Inl (PlainError ''Member is unavailable.'')
     | Some u \<Rightarrow> if u_status u \<noteq> UserActive then Inl (PlainError ''Member is unavailable.'') else Inr u)"

definition amount_err :: "num \<Rightarrow> exn option" where
  "amount_err n = throw_if (\<not> is_safe n \<or> n \<le> 0 \<or> n > max_money) (PlainError ''Invalid amount.'')"

definition text_err :: "string \<Rightarrow> nat \<Rightarrow> bool \<Rightarrow> exn option" where
  "text_err s limit required =
     throw_if ((required \<and> trim s = []) \<or> utf8_length s > limit \<or> has_control s) (PlainError ''Invalid text.'')"

definition is_hex_digit :: "char \<Rightarrow> bool" where
  "is_hex_digit c \<longleftrightarrow> is_digit c \<or> (let n = of_char c :: nat in (97 \<le> n \<and> n \<le> 102) \<or> (65 \<le> n \<and> n \<le> 70))"

definition is_digest :: "string \<Rightarrow> bool" where
  "is_digest s \<longleftrightarrow> length s = 64 \<and> list_all is_hex_digit s"

fun remove_first :: "string \<Rightarrow> string \<Rightarrow> string" where
  "remove_first p [] = []"
| "remove_first p (c # s) = (if prefix p (c # s) then drop (length p) (c # s) else c # remove_first p s)"

text \<open>\<open>Number(actor.id.replace('user-',''))\<close> of an identifier \<open>user-\<close> followed by digits.\<close>

definition user_number :: "string \<Rightarrow> nat" where
  "user_number s = parse_digits (remove_first ''user-'' s)"

section \<open>The commands\<close>

type_synonym apply_fun = "nat \<Rightarrow> commerce \<Rightarrow> commerce"

definition set_request :: "nat \<Rightarrow> (gift_request \<Rightarrow> gift_request) \<Rightarrow> commerce \<Rightarrow> commerce" where
  "set_request i f c = c\<lparr>cm_requests := upd_first (\<lambda>r. g_id r = i) f (cm_requests c)\<rparr>"

definition set_art :: "nat \<Rightarrow> (artwork \<Rightarrow> artwork) \<Rightarrow> commerce \<Rightarrow> commerce" where
  "set_art i f c = c\<lparr>cm_artworks := upd_first (\<lambda>a. a_id a = i) f (cm_artworks c)\<rparr>"

definition find_request :: "commerce \<Rightarrow> nat \<Rightarrow> gift_request option" where
  "find_request c i = find (\<lambda>r. g_id r = i) (cm_requests c)"

definition find_art :: "commerce \<Rightarrow> nat \<Rightarrow> artwork option" where
  "find_art c i = find (\<lambda>a. a_id a = i) (cm_artworks c)"

definition check_deadline :: "'w commerce_host \<Rightarrow> num option \<Rightarrow> ('w, unit) act" where
  "check_deadline h deadline w = (case deadline of None \<Rightarrow> (Inr (), w)
     | Some d \<Rightarrow> if \<not> is_safe d then (Inl (PlainError ''Deadline must be in the future.''), w)
         else (case ch_now h w of (t, w') \<Rightarrow>
           if d \<le> of_int t then (Inl (PlainError ''Deadline must be in the future.''), w') else (Inr (), w')))"

definition create_request ::
  "'w commerce_host \<Rightarrow> nat \<Rightarrow> string \<Rightarrow> string \<Rightarrow> num option \<Rightarrow> num option \<Rightarrow> ('w, apply_fun) act" where
  "create_request h owner title description target deadline = guarded
     [text_err title 80 True, text_err description 96 False,
      (case target of None \<Rightarrow> None | Some t \<Rightarrow> amount_err t)]
     (and_then (check_deadline h deadline) (\<lambda>_ w. guarded
       [throw_if (length (cm_requests (ch_get h w)) \<ge> 32) (PlainError ''Gift request capacity reached.'')]
       (\<lambda>w. case ch_now h w of (created, w') \<Rightarrow>
         (Inr (\<lambda>i c. c\<lparr>cm_requests := cm_requests c @
            [\<lparr>g_id = i, g_owner = owner, g_title = title, g_description = description, g_target = target,
              g_deadline = deadline, g_received = 0, g_closed = False, g_created_at = created\<rparr>]\<rparr>), w')) w))"

definition close_request :: "'w commerce_host \<Rightarrow> nat \<Rightarrow> nat \<Rightarrow> ('w, apply_fun) act" where
  "close_request h owner i w = (case find_request (ch_get h w) i of
       None \<Rightarrow> (Inl (PlainError ''Gift request not found.''), w)
     | Some r \<Rightarrow> guarded
         [throw_if (g_owner r \<noteq> owner \<or> g_closed r) (PlainError ''Only the owner can close an open request.'')]
         (\<lambda>w. (Inr (\<lambda>_. set_request i (\<lambda>r. r\<lparr>g_closed := True\<rparr>)), w)) w)"

definition request_unavailable :: "'w commerce_host \<Rightarrow> nat \<Rightarrow> gift_request \<Rightarrow> 'w \<Rightarrow> bool \<times> 'w" where
  "request_unavailable h owner r w =
     (if g_closed r then (True, w)
      else case g_deadline r of
          None \<Rightarrow> (g_owner r = owner, w)
        | Some d \<Rightarrow> (case ch_now h w of (t, w') \<Rightarrow> (d \<le> of_int t \<or> g_owner r = owner, w')))"

definition contribute_to ::
  "'w commerce_host \<Rightarrow> user \<Rightarrow> gift_request \<Rightarrow> num \<Rightarrow> string \<Rightarrow> ('w, apply_fun) act" where
  "contribute_to h actor r amount memo w =
     (case commerce_active h w (g_owner r) of Inl e \<Rightarrow> (Inl e, w) | Inr recipient \<Rightarrow> guarded
       [throw_if (\<not> is_safe (js_add (g_received r) amount)) (PlainError ''Contribution limit exceeded.'')]
       (and_then (ch_pay h actor (u_account recipient) amount (if memo = [] then g_title r else memo)
                    (Some (g_id r)) None)
         (\<lambda>_ w. (Inr (\<lambda>_. set_request (g_id r) (\<lambda>r. r\<lparr>g_received := js_add (g_received r) amount\<rparr>)), w))) w)"

definition contribute :: "'w commerce_host \<Rightarrow> user \<Rightarrow> nat \<Rightarrow> nat \<Rightarrow> num \<Rightarrow> string \<Rightarrow> ('w, apply_fun) act" where
  "contribute h actor owner i amount memo w = (case find_request (ch_get h w) i of
       None \<Rightarrow> (Inl (PlainError ''Gift request not found.''), w)
     | Some r \<Rightarrow> guarded [amount_err amount, text_err memo 96 False]
         (\<lambda>w. case request_unavailable h owner r w of (bad, w') \<Rightarrow>
            if bad then (Inl (PlainError ''This request cannot receive your contribution.''), w')
            else contribute_to h actor r amount memo w') w)"

definition mint_art ::
  "'w commerce_host \<Rightarrow> nat \<Rightarrow> string \<Rightarrow> string \<Rightarrow> string \<Rightarrow> string \<Rightarrow> ('w, apply_fun) act" where
  "mint_art h owner title license sha locator w = guarded
     [text_err title 80 True, text_err license 96 True, text_err locator 192 True,
      throw_if (\<not> is_digest sha \<or> \<not> starts_with ''https://'' locator)
        (PlainError ''Art needs a SHA-256 digest and HTTPS locator.''),
      throw_if (length (cm_artworks (ch_get h w)) \<ge> 64) (PlainError ''Art capacity reached.'')]
     (\<lambda>w. case ch_now h w of (created, w') \<Rightarrow>
       (Inr (\<lambda>i c. c\<lparr>cm_artworks := cm_artworks c @
          [\<lparr>a_id = i, a_creator = owner, a_owner = owner, a_title = title, a_license = license,
            a_sha256 = sha, a_locator = locator, a_price = None, a_revision = i, a_equipped = False,
            a_created_at = created\<rparr>]\<rparr>), w')) w"

definition sold_art :: "nat \<Rightarrow> nat \<Rightarrow> artwork \<Rightarrow> artwork" where
  "sold_art owner sequence a = a\<lparr>a_owner := owner, a_price := None, a_equipped := False, a_revision := sequence\<rparr>"

definition buy_art :: "'w commerce_host \<Rightarrow> user \<Rightarrow> nat \<Rightarrow> artwork \<Rightarrow> nat \<Rightarrow> nat \<Rightarrow> num \<Rightarrow> ('w, apply_fun) act" where
  "buy_art h actor owner art expected_owner expected_revision expected_price w =
     (case a_price art of
        None \<Rightarrow> (Inl (PlainError ''The artwork listing changed.''), w)
      | Some price \<Rightarrow> guarded
          [throw_if (a_owner art = owner \<or> expected_owner \<noteq> a_owner art \<or> expected_revision \<noteq> a_revision art
              \<or> expected_price \<noteq> price) (PlainError ''The artwork listing changed.'')]
          (\<lambda>w. case commerce_active h w (a_owner art) of Inl e \<Rightarrow> (Inl e, w) | Inr seller \<Rightarrow>
             and_then (ch_pay h actor (u_account seller) price (''Digital art: '' @ a_title art) None (Some (a_id art)))
               (\<lambda>_ w. (Inr (\<lambda>sequence. set_art (a_id art) (sold_art owner sequence)), w)) w) w)"

definition list_art :: "artwork \<Rightarrow> num option \<Rightarrow> ('w, apply_fun) act" where
  "list_art art price = guarded [(case price of None \<Rightarrow> None | Some p \<Rightarrow> amount_err p)]
     (\<lambda>w. (Inr (\<lambda>sequence. set_art (a_id art) (\<lambda>a. a\<lparr>a_price := price, a_revision := sequence\<rparr>)), w))"

definition gift_art :: "'w commerce_host \<Rightarrow> nat \<Rightarrow> artwork \<Rightarrow> nat \<Rightarrow> ('w, apply_fun) act" where
  "gift_art h owner art recipient w =
     (case commerce_active h w recipient of Inl e \<Rightarrow> (Inl e, w) | Inr _ \<Rightarrow> guarded
        [throw_if (recipient = owner) (PlainError ''Choose another member.'')]
        (\<lambda>w. (Inr (\<lambda>sequence. set_art (a_id art) (sold_art recipient sequence)), w)) w)"

definition equip_art :: "nat \<Rightarrow> artwork \<Rightarrow> bool \<Rightarrow> ('w, apply_fun) act" where
  "equip_art owner art equipped w =
     (Inr (\<lambda>sequence c. set_art (a_id art) (\<lambda>a. a\<lparr>a_equipped := equipped, a_revision := sequence\<rparr>)
        (if equipped then c\<lparr>cm_artworks := map (\<lambda>a. if a_owner a = owner then a\<lparr>a_equipped := False\<rparr> else a)
                                             (cm_artworks c)\<rparr> else c)), w)"

definition with_art ::
  "'w commerce_host \<Rightarrow> nat \<Rightarrow> (artwork \<Rightarrow> ('w, apply_fun) act) \<Rightarrow> ('w, apply_fun) act" where
  "with_art h i k w = (case find_art (ch_get h w) i of
     None \<Rightarrow> (Inl (PlainError ''Artwork not found.''), w) | Some a \<Rightarrow> k a w)"

definition own_art :: "nat \<Rightarrow> (artwork \<Rightarrow> ('w, apply_fun) act) \<Rightarrow> artwork \<Rightarrow> ('w, apply_fun) act" where
  "own_art owner k art = guarded
     [throw_if (a_owner art \<noteq> owner) (PlainError ''Only the owner can change this artwork.'')] (k art)"

fun prepare :: "'w commerce_host \<Rightarrow> user \<Rightarrow> nat \<Rightarrow> commerce_action \<Rightarrow> ('w, apply_fun) act" where
  "prepare h actor owner (CreateRequest title description target deadline) =
     create_request h owner title description target deadline"
| "prepare h actor owner (CloseRequest i) = close_request h owner i"
| "prepare h actor owner (Contribute i amount memo) = contribute h actor owner i amount memo"
| "prepare h actor owner (MintArt title license sha locator) = mint_art h owner title license sha locator"
| "prepare h actor owner (BuyArt i eo er ep) = with_art h i (\<lambda>a. buy_art h actor owner a eo er ep)"
| "prepare h actor owner (ListArt i price) = with_art h i (own_art owner (\<lambda>a. list_art a price))"
| "prepare h actor owner (GiftArt i recipient) = with_art h i (own_art owner (\<lambda>a. gift_art h owner a recipient))"
| "prepare h actor owner (EquipArt i equipped) = with_art h i (own_art owner (\<lambda>a. equip_art owner a equipped))"

definition command :: "'w commerce_host \<Rightarrow> user \<Rightarrow> commerce_action \<Rightarrow> ('w, nat) act" where
  "command h actor action w =
     (let owner = user_number (u_id actor) in
      case commerce_active h w owner of Inl e \<Rightarrow> (Inl e, w) | Inr _ \<Rightarrow>
        and_then (prepare h actor owner action)
          (\<lambda>app w. case ch_sequence h w of (sequence, w') \<Rightarrow>
             (Inr sequence, ch_put h (app sequence (ch_get h w')) w')) w)"

section \<open>Refunds and currency reform\<close>

definition commerce_refunded :: "nat \<Rightarrow> num \<Rightarrow> commerce \<Rightarrow> commerce res" where
  "commerce_refunded i amount c = (case find_request c i of
     None \<Rightarrow> Inl TypeError
   | Some r \<Rightarrow> Inr (set_request i (\<lambda>r. r\<lparr>g_received := js_sub (g_received r) amount\<rparr>) c))"

definition convert_option :: "(num \<Rightarrow> num res) \<Rightarrow> num option \<Rightarrow> num option res" where
  "convert_option convert x = (case x of None \<Rightarrow> Inr None
     | Some n \<Rightarrow> (case convert n of Inl e \<Rightarrow> Inl e | Inr m \<Rightarrow> Inr (Some m)))"

definition reform_request :: "(num \<Rightarrow> num res) \<Rightarrow> gift_request \<Rightarrow> gift_request res" where
  "reform_request convert r = (case convert_option convert (g_target r) of Inl e \<Rightarrow> Inl e | Inr target \<Rightarrow>
     (case convert (g_received r) of Inl e \<Rightarrow> Inl e | Inr received \<Rightarrow>
        Inr (r\<lparr>g_target := target, g_received := received\<rparr>)))"

definition reform_art :: "(num \<Rightarrow> num res) \<Rightarrow> artwork \<Rightarrow> artwork res" where
  "reform_art convert a = (case convert_option convert (a_price a) of Inl e \<Rightarrow> Inl e
     | Inr price \<Rightarrow> Inr (a\<lparr>a_price := price\<rparr>))"

definition commerce_reform :: "(num \<Rightarrow> num res) \<Rightarrow> commerce \<Rightarrow> commerce res" where
  "commerce_reform convert c = (case map_res (reform_request convert) (cm_requests c) of Inl e \<Rightarrow> Inl e
     | Inr rs \<Rightarrow> (case map_res (reform_art convert) (cm_artworks c) of Inl e \<Rightarrow> Inl e
        | Inr as \<Rightarrow> Inr (c\<lparr>cm_requests := rs, cm_artworks := as\<rparr>)))"

end
