(* ===== verification/CommerceSafety.thy ===== *)
theory CommerceSafety
  imports Commerce
begin

text \<open>
  The commerce book's invariant: capacities, unique identifiers handed out by the sequence counter,
  valid prices, and at most one equipped artwork per owner. Every command keeps it, a refused command
  changes nothing but the clock, and a purchase happens only at the owner, revision and price the
  buyer saw.
\<close>

definition price_ok :: "num option \<Rightarrow> bool" where
  "price_ok x \<longleftrightarrow> (case x of None \<Rightarrow> True | Some n \<Rightarrow> is_safe n \<and> 0 < n \<and> n \<le> max_money)"

definition one_equipped :: "artwork list \<Rightarrow> bool" where
  "one_equipped as \<longleftrightarrow> (\<forall>a \<in> set as. \<forall>b \<in> set as.
     a_owner a = a_owner b \<and> a_equipped a \<and> a_equipped b \<longrightarrow> a_id a = a_id b)"

definition wf_commerce :: "nat \<Rightarrow> commerce \<Rightarrow> bool" where
  "wf_commerce n c \<longleftrightarrow>
     length (cm_requests c) \<le> 32 \<and> length (cm_artworks c) \<le> 64
     \<and> distinct (map g_id (cm_requests c)) \<and> distinct (map a_id (cm_artworks c))
     \<and> (\<forall>r \<in> set (cm_requests c). g_id r \<le> n \<and> price_ok (g_target r))
     \<and> (\<forall>a \<in> set (cm_artworks c). a_id a \<le> n \<and> a_revision a \<le> n \<and> price_ok (a_price a))
     \<and> one_equipped (cm_artworks c)"

lemma wf_new_commerce: "wf_commerce n new_commerce"
  by (simp add: wf_commerce_def new_commerce_def one_equipped_def)

lemma wf_commerce_mono: "wf_commerce n c \<Longrightarrow> n \<le> m \<Longrightarrow> wf_commerce m c"
  by (auto simp: wf_commerce_def intro: order_trans)

lemma map_upd_first_id: "(\<And>x. k (f x) = k x) \<Longrightarrow> map k (upd_first P f xs) = map k xs"
  by (rule map_upd_first)

lemma wf_set_request:
  assumes "wf_commerce n c" and f: "\<And>r. g_id (f r) = g_id r \<and> g_target (f r) = g_target r"
  shows "wf_commerce n (set_request i f c)"
  using assms(1) f map_upd_first_id [of g_id f] unfolding wf_commerce_def set_request_def
  by (auto elim!: in_upd_firstE)

lemma wf_set_art:
  assumes wf: "wf_commerce n c" and s: "n < s"
    and f: "\<And>a. a_id (f a) = a_id a" "\<And>a. a_revision (f a) = s"
      "\<And>a. price_ok (a_price a) \<Longrightarrow> price_ok (a_price (f a))"
      "\<And>a. a_equipped (f a) \<Longrightarrow> a_equipped a \<and> a_owner (f a) = a_owner a"
  shows "wf_commerce s (set_art i f c)"
proof -
  define as where "as = upd_first (\<lambda>a. a_id a = i) f (cm_artworks c)"
  have orig: "\<exists>b \<in> set (cm_artworks c). a_id a = a_id b \<and> (a = b \<or> a = f b)" if "a \<in> set as" for a
    using that f(1) unfolding as_def by (auto elim!: in_upd_firstE)
  have eq: "\<exists>b \<in> set (cm_artworks c). a_id a = a_id b \<and> a_owner a = a_owner b \<and> a_equipped b"
    if "a \<in> set as" "a_equipped a" for a
    using orig [OF that(1)] that(2) f(4) by metis
  have "one_equipped as"
    unfolding one_equipped_def
  proof (intro ballI impI)
    fix a b assume a: "a \<in> set as" "b \<in> set as" "a_owner a = a_owner b \<and> a_equipped a \<and> a_equipped b"
    obtain a' where a': "a' \<in> set (cm_artworks c)" "a_id a = a_id a'" "a_owner a = a_owner a'" "a_equipped a'"
      using eq a by blast
    obtain b' where "b' \<in> set (cm_artworks c)" "a_id b = a_id b'" "a_owner b = a_owner b'" "a_equipped b'"
      using eq a by blast
    with a' a wf show "a_id a = a_id b" unfolding wf_commerce_def one_equipped_def by metis
  qed
  moreover have "a_id a \<le> s \<and> a_revision a \<le> s \<and> price_ok (a_price a)" if "a \<in> set as" for a
    using orig [OF that] wf s f unfolding wf_commerce_def by (metis less_imp_le order_refl order_trans)
  moreover have "\<forall>r \<in> set (cm_requests c). g_id r \<le> s \<and> price_ok (g_target r)"
    using wf s unfolding wf_commerce_def by force
  ultimately show ?thesis
    using wf s f(1) map_upd_first_id [of a_id f] unfolding wf_commerce_def set_art_def as_def [symmetric]
    by (auto simp: as_def)
qed

lemma wf_add_art:
  assumes wf: "wf_commerce n c" and s: "n < s" and room: "length (cm_artworks c) < 64"
    and x: "a_id x = s" "a_revision x = s" "price_ok (a_price x)" "\<not> a_equipped x"
  shows "wf_commerce s (c\<lparr>cm_artworks := cm_artworks c @ [x]\<rparr>)"
proof -
  have one: "one_equipped (cm_artworks c @ [x])"
  proof -
    have "one_equipped (cm_artworks c)" using wf by (simp only: wf_commerce_def)
    with x(4) show ?thesis unfolding one_equipped_def set_append list.set by blast
  qed
  have fresh: "s \<notin> a_id ` set (cm_artworks c)" using wf s by (auto simp: wf_commerce_def)
  have "wf_commerce s c" by (rule wf_commerce_mono [OF wf]) (use s in simp)
  with one fresh x room show ?thesis by (simp add: wf_commerce_def)
qed

lemma wf_equip:
  assumes wf: "wf_commerce n c" and s: "n < s" and art: "find_art c i = Some art" "a_owner art = owner"
  shows "wf_commerce s (set_art i (\<lambda>a. a\<lparr>a_equipped := True, a_revision := s\<rparr>)
    (c\<lparr>cm_artworks := map (\<lambda>a. if a_owner a = owner then a\<lparr>a_equipped := False\<rparr> else a) (cm_artworks c)\<rparr>))"
proof -
  define clear where "clear = (\<lambda>a :: artwork. if a_owner a = owner then a\<lparr>a_equipped := False\<rparr> else a)"
  define as where "as = upd_first (\<lambda>a. a_id a = i) (\<lambda>a. a\<lparr>a_equipped := True, a_revision := s\<rparr>) (map clear (cm_artworks c))"
  have art': "art \<in> set (cm_artworks c)" "a_id art = i"
    using art(1) by (auto simp: find_art_def dest: find_Some_prop)
  have dist: "distinct (map a_id (cm_artworks c))" using wf by (simp add: wf_commerce_def)
  have only: "a_owner a = owner" if "a \<in> set (cm_artworks c)" "a_id a = i" for a
    using dist art' art(2) that by (metis (no_types, lifting) distinct_map inj_onD)
  have ids: "map a_id as = map a_id (cm_artworks c)"
    unfolding as_def by (subst map_upd_first_id) (auto simp: clear_def)
  have orig: "\<exists>b \<in> set (cm_artworks c). a_id a = a_id b \<and> a_owner a = a_owner b \<and> a_price a = a_price b
      \<and> (a_revision a = a_revision b \<or> a_revision a = s)
      \<and> (a_equipped a \<longrightarrow> (if a_owner a = owner then a_id a = i else a_equipped b))" if "a \<in> set as" for a
    using that [unfolded as_def]
  proof (cases rule: in_upd_firstE)
    case 1
    then obtain b where "b \<in> set (cm_artworks c)" "a = clear b" by auto
    then show ?thesis by (intro bexI [of _ b]) (auto simp: clear_def)
  next
    case (2 x)
    then obtain b where b: "b \<in> set (cm_artworks c)" "x = clear b" by auto
    then have "a_id b = i" using 2 by (auto simp: clear_def split: if_splits)
    with b 2 only [of b] show ?thesis by (intro bexI [of _ b]) (auto simp: clear_def)
  qed
  have "one_equipped as"
    unfolding one_equipped_def
  proof (intro ballI impI)
    fix a b assume a: "a \<in> set as" "b \<in> set as" "a_owner a = a_owner b \<and> a_equipped a \<and> a_equipped b"
    obtain a' where a': "a' \<in> set (cm_artworks c)" "a_id a = a_id a'" "a_owner a = a_owner a'"
      "if a_owner a = owner then a_id a = i else a_equipped a'" using orig a by blast
    obtain b' where b': "b' \<in> set (cm_artworks c)" "a_id b = a_id b'" "a_owner b = a_owner b'"
      "if a_owner b = owner then a_id b = i else a_equipped b'" using orig a by blast
    show "a_id a = a_id b"
      using a a' b' wf unfolding wf_commerce_def one_equipped_def by (metis (no_types, lifting))
  qed
  moreover have "a_id a \<le> s \<and> a_revision a \<le> s \<and> price_ok (a_price a)" if "a \<in> set as" for a
    using orig [OF that] wf s unfolding wf_commerce_def by (metis less_imp_le order_refl order_trans)
  moreover have "\<forall>r \<in> set (cm_requests c). g_id r \<le> s \<and> price_ok (g_target r)"
    using wf s unfolding wf_commerce_def by force
  moreover have "length as = length (cm_artworks c)" by (simp add: as_def)
  ultimately show ?thesis
    using wf dist ids unfolding wf_commerce_def set_art_def
    by (auto simp: as_def [symmetric] clear_def [symmetric])
qed

section \<open>The contract with the ledger\<close>

text \<open>
  \<open>ticked w w'\<close>: only the clock moved. The sequence counter \<open>seq\<close> only grows, and neither the clock,
  the counter nor a payment touches the commerce book.
\<close>

locale commerce_client =
  fixes h :: "'w commerce_host" and seq :: "'w \<Rightarrow> nat" and ticked :: "'w \<Rightarrow> 'w \<Rightarrow> bool"
  assumes get_put [simp]: "ch_get h (ch_put h c w) = c"
    and seq_put [simp]: "seq (ch_put h c w) = seq w"
    and ticked_refl [simp]: "ticked w w"
    and ticked_trans: "ticked w w' \<Longrightarrow> ticked w' w'' \<Longrightarrow> ticked w w''"
    and ticked_keeps: "ticked w w' \<Longrightarrow> ch_get h w' = ch_get h w \<and> seq w' = seq w"
    and now_ticks: "ch_now h w = (t, w') \<Longrightarrow> ticked w w'"
    and sequence_next: "ch_sequence h w = (s, w') \<Longrightarrow> s = Suc (seq w) \<and> seq w' = s \<and> ch_get h w' = ch_get h w"
    and pay_refused: "ch_pay h u to a m g k w = (Inl e, w') \<Longrightarrow> w' = w"
    and pay_keeps: "ch_pay h u to a m g k w = (Inr tx, w') \<Longrightarrow> ch_get h w' = ch_get h w \<and> seq w \<le> seq w'"
begin

text \<open>Preparing a command: a refusal moves only the clock, success leaves the book to the change.\<close>

definition prepared :: "'w \<Rightarrow> ('w, apply_fun) act \<Rightarrow> bool" where
  "prepared w m \<longleftrightarrow> (case m w of
     (Inl e, w') \<Rightarrow> ticked w w'
   | (Inr app, w') \<Rightarrow> ch_get h w' = ch_get h w \<and> seq w \<le> seq w'
       \<and> (\<forall>n s. wf_commerce n (ch_get h w) \<longrightarrow> n < s \<longrightarrow> wf_commerce s (app s (ch_get h w))))"

lemma preparedI:
  assumes "\<And>e w'. m w = (Inl e, w') \<Longrightarrow> ticked w w'"
    and "\<And>app w'. m w = (Inr app, w') \<Longrightarrow> ch_get h w' = ch_get h w \<and> seq w \<le> seq w'"
    and "\<And>app w' n s. m w = (Inr app, w') \<Longrightarrow> wf_commerce n (ch_get h w) \<Longrightarrow> n < s \<Longrightarrow>
      wf_commerce s (app s (ch_get h w))"
  shows "prepared w m"
  using assms unfolding prepared_def by (auto split: prod.splits sum.splits)

lemma prepared_guarded: "prepared w m \<Longrightarrow> prepared w (guarded gs m)"
  by (auto simp: prepared_def guarded_def split: option.splits)

lemma prepared_throw: "prepared w (\<lambda>w. (Inl e, w))"
  by (simp add: prepared_def)

lemma deadline_ticks: "check_deadline h d w = (r, w') \<Longrightarrow> ticked w w'"
  by (auto simp: check_deadline_def dest: now_ticks split: option.splits if_splits prod.splits)

lemma create_request_prepared: "prepared w (create_request h owner title desc target deadline)"
proof (rule preparedI)
  fix e w' assume r: "create_request h owner title desc target deadline w = (Inl e, w')"
  then show "ticked w w'"
    unfolding create_request_def
    by (auto simp: guarded_Inl and_then_Inl dest: deadline_ticks split: prod.splits)
next
  fix app w' assume r: "create_request h owner title desc target deadline w = (Inr app, w')"
  then obtain w1 t where c: "check_deadline h deadline w = (Inr (), w1)" and n: "ch_now h w1 = (t, w')"
    and room: "length (cm_requests (ch_get h w1)) < 32" and tg: "price_ok target"
    and app: "app = (\<lambda>i c. c\<lparr>cm_requests := cm_requests c @
            [\<lparr>g_id = i, g_owner = owner, g_title = title, g_description = desc, g_target = target,
              g_deadline = deadline, g_received = 0, g_closed = False, g_created_at = t\<rparr>]\<rparr>)"
    unfolding create_request_def
    by (auto simp: guard_simps case_prod_eq amount_err_def price_ok_def not_le split: option.splits)
  have tk: "ticked w w1" "ticked w1 w'" using deadline_ticks [OF c] now_ticks [OF n] by auto
  then show "ch_get h w' = ch_get h w \<and> seq w \<le> seq w'" using ticked_keeps by fastforce
  fix n s assume wf: "wf_commerce n (ch_get h w)" and s: "n < s"
  have g: "ch_get h w1 = ch_get h w" using ticked_keeps [OF tk(1)] by simp
  show "wf_commerce s (app s (ch_get h w))"
    using wf_commerce_mono [OF wf less_imp_le [OF s]] wf s room tg unfolding app wf_commerce_def g by auto
qed

lemma close_request_prepared: "prepared w (close_request h owner i)"
  by (rule preparedI) (auto simp: close_request_def guarded_Inl guard_simps case_prod_eq split: option.splits
      intro!: wf_set_request elim: wf_commerce_mono)

lemma unavailable_ticks: "request_unavailable h owner r w = (b, w') \<Longrightarrow> ticked w w'"
  by (auto simp: request_unavailable_def dest: now_ticks split: option.splits if_splits prod.splits)

lemma contribute_prepared: "prepared w (contribute h actor owner i amount memo)"
proof (rule preparedI)
  fix e w' assume "contribute h actor owner i amount memo w = (Inl e, w')"
  then show "ticked w w'"
    unfolding contribute_def contribute_to_def
    by (auto simp: guarded_Inl and_then_Inl split: option.splits prod.splits if_splits sum.splits
        dest: unavailable_ticks pay_refused)
next
  fix app w' assume "contribute h actor owner i amount memo w = (Inr app, w')"
  then obtain r w1 t and recipient :: user where u: "request_unavailable h owner r w = (False, w1)"
    and p: "ch_pay h actor (u_account recipient) amount (if memo = [] then g_title r else memo) (Some (g_id r)) None w1 = (Inr t, w')"
    and app: "app = (\<lambda>_. set_request (g_id r) (\<lambda>r. r\<lparr>g_received := js_add (g_received r) amount\<rparr>))"
    unfolding contribute_def contribute_to_def
    by (auto simp: guard_simps case_prod_eq split: option.splits if_splits sum.splits)
  show "ch_get h w' = ch_get h w \<and> seq w \<le> seq w'"
    using ticked_keeps [OF unavailable_ticks [OF u]] pay_keeps [OF p] by simp
  fix n s assume "wf_commerce n (ch_get h w)" "n < s"
  then have "wf_commerce s (ch_get h w)" by (auto elim: wf_commerce_mono)
  then show "wf_commerce s (app s (ch_get h w))" unfolding app by (rule wf_set_request) simp
qed

lemma mint_prepared: "prepared w (mint_art h owner title license sha locator)"
proof (rule preparedI)
  fix e w' assume "mint_art h owner title license sha locator w = (Inl e, w')"
  then show "ticked w w'" by (auto simp: mint_art_def guarded_Inl split: prod.splits)
next
  fix app w' assume r: "mint_art h owner title license sha locator w = (Inr app, w')"
  then obtain t where n: "ch_now h w = (t, w')" and room: "length (cm_artworks (ch_get h w)) < 64"
    and app: "app = (\<lambda>i c. c\<lparr>cm_artworks := cm_artworks c @
          [\<lparr>a_id = i, a_creator = owner, a_owner = owner, a_title = title, a_license = license,
            a_sha256 = sha, a_locator = locator, a_price = None, a_revision = i, a_equipped = False,
            a_created_at = t\<rparr>]\<rparr>)"
    by (auto simp: mint_art_def guard_simps case_prod_eq not_le)
  show "ch_get h w' = ch_get h w \<and> seq w \<le> seq w'" using ticked_keeps [OF now_ticks [OF n]] by simp
  fix n s assume wf: "wf_commerce n (ch_get h w)" and s: "n < s"
  show "wf_commerce s (app s (ch_get h w))"
    unfolding app by (rule wf_add_art [OF wf s room]) (simp_all add: price_ok_def)
qed

lemma wf_sold: "wf_commerce n c \<Longrightarrow> n < s \<Longrightarrow> wf_commerce s (set_art i (sold_art owner s) c)"
  by (rule wf_set_art) (auto simp: sold_art_def price_ok_def)

lemma buy_prepared: "prepared w (buy_art h actor owner art eo er ep)"
proof (rule preparedI)
  fix e w' assume "buy_art h actor owner art eo er ep w = (Inl e, w')"
  then show "ticked w w'"
    by (auto simp: buy_art_def guarded_Inl and_then_Inl split: option.splits sum.splits dest: pay_refused)
next
  fix app w' assume "buy_art h actor owner art eo er ep w = (Inr app, w')"
  then obtain price t and seller :: user where p: "ch_pay h actor (u_account seller) price (''Digital art: '' @ a_title art) None (Some (a_id art)) w = (Inr t, w')"
    and app: "app = (\<lambda>sequence. set_art (a_id art) (sold_art owner sequence))"
    by (auto simp: buy_art_def guard_simps case_prod_eq split: option.splits sum.splits)
  show "ch_get h w' = ch_get h w \<and> seq w \<le> seq w'" using pay_keeps [OF p] .
  fix n s assume "wf_commerce n (ch_get h w)" "n < s"
  then show "wf_commerce s (app s (ch_get h w))" unfolding app by (rule wf_sold)
qed

lemma gift_prepared: "prepared w (gift_art h owner art recipient)"
  by (rule preparedI) (auto simp: gift_art_def guarded_Inl guard_simps case_prod_eq split: sum.splits intro: wf_sold)

lemma list_prepared: "prepared w (list_art art price)"
proof (rule preparedI)
  fix app w' n s assume "list_art art price w = (Inr app, w')" and wf: "wf_commerce n (ch_get h w)" "n < s"
  then have "price_ok price" and app: "app = (\<lambda>sequence. set_art (a_id art) (\<lambda>a. a\<lparr>a_price := price, a_revision := sequence\<rparr>))"
    by (auto simp: list_art_def guard_simps case_prod_eq price_ok_def amount_err_def not_le split: option.splits)
  then show "wf_commerce s (app s (ch_get h w))" unfolding app by (intro wf_set_art [OF wf]) auto
qed (auto simp: list_art_def guarded_Inl guard_simps case_prod_eq)

lemma equip_prepared:
  assumes "find_art (ch_get h w) (a_id art) = Some art" "a_owner art = owner"
  shows "prepared w (equip_art owner art equipped)"
proof (rule preparedI)
  fix app w' n s assume "equip_art owner art equipped w = (Inr app, w')" and wf: "wf_commerce n (ch_get h w)" "n < s"
  then have app: "app = (\<lambda>sequence c. set_art (a_id art) (\<lambda>a. a\<lparr>a_equipped := equipped, a_revision := sequence\<rparr>)
        (if equipped then c\<lparr>cm_artworks := map (\<lambda>a. if a_owner a = owner then a\<lparr>a_equipped := False\<rparr> else a)
                                             (cm_artworks c)\<rparr> else c))"
    by (simp add: equip_art_def)
  show "wf_commerce s (app s (ch_get h w))"
  proof (cases equipped)
    case True
    then show ?thesis unfolding app using wf_equip [OF wf assms] by simp
  next
    case False
    then show ?thesis unfolding app by simp (intro wf_set_art [OF wf]; simp)
  qed
qed (auto simp: equip_art_def)

lemma with_art_prepared:
  assumes "\<And>a. find_art (ch_get h w) i = Some a \<Longrightarrow> a_id a = i \<Longrightarrow> prepared w (k a)"
  shows "prepared w (with_art h i k)"
proof (cases "find_art (ch_get h w) i")
  case (Some a)
  then have "a_id a = i" by (auto simp: find_art_def dest: find_Some_prop)
  with assms [OF Some] Some show ?thesis by (simp add: prepared_def with_art_def)
qed (simp add: prepared_def with_art_def)

lemma own_art_prepared:
  assumes "a_owner a = owner \<Longrightarrow> prepared w (k a)"
  shows "prepared w (own_art owner k a)"
proof (cases "a_owner a = owner")
  case True
  with assms show ?thesis by (simp add: own_art_def prepared_guarded)
qed (simp add: own_art_def prepared_def guarded_def throw_if_def)

lemma prepare_prepared: "prepared w (prepare h actor owner action)"
  by (cases action)
     (auto intro!: create_request_prepared close_request_prepared contribute_prepared mint_prepared
       buy_prepared gift_prepared list_prepared equip_prepared with_art_prepared own_art_prepared)

text \<open>The command as a whole.\<close>

lemma command_refused:
  assumes "command h actor action w = (Inl e, w')"
  shows "ticked w w'"
  using assms prepare_prepared [of w actor "user_number (u_id actor)" action]
  by (auto simp: command_def Let_def and_then_Inl prepared_def split: sum.splits prod.splits)

lemma command_wf:
  assumes wf: "wf_commerce (seq w) (ch_get h w)" and r: "command h actor action w = (Inr n, w')"
  shows "wf_commerce (seq w') (ch_get h w') \<and> seq w' = n \<and> seq w < n"
proof -
  from r obtain app w1 w2 where p: "prepare h actor (user_number (u_id actor)) action w = (Inr app, w1)"
    and s: "ch_sequence h w1 = (n, w2)" and w': "w' = ch_put h (app n (ch_get h w2)) w2"
    by (auto simp: command_def Let_def guard_simps case_prod_eq split: sum.splits)
  have pr: "ch_get h w1 = ch_get h w" "seq w \<le> seq w1"
    and ap: "\<And>n s. wf_commerce n (ch_get h w) \<Longrightarrow> n < s \<Longrightarrow> wf_commerce s (app s (ch_get h w))"
    using prepare_prepared [of w actor "user_number (u_id actor)" action] p by (auto simp: prepared_def)
  have sq: "n = Suc (seq w1)" "seq w2 = n" "ch_get h w2 = ch_get h w1" using sequence_next [OF s] by auto
  have "seq w < n" using pr sq by simp
  then show ?thesis using ap [OF wf] pr sq by (simp add: w')
qed

text \<open>
  A successful purchase happened at exactly the owner, revision and price the buyer named, for a
  payment of that price, and the artwork is then the buyer's, unlisted and not equipped.
\<close>

lemma buy_command:
  assumes r: "command h actor (BuyArt i eo er ep) w = (Inr n, w')"
  shows "\<exists>art seller t w1. find_art (ch_get h w) i = Some art \<and> a_owner art = eo \<and> a_revision art = er
    \<and> a_price art = Some ep \<and> eo \<noteq> user_number (u_id actor) \<and> ch_user h w eo = Some seller
    \<and> ch_pay h actor (u_account seller) ep (''Digital art: '' @ a_title art) None (Some i) w = (Inr t, w1)
    \<and> find_art (ch_get h w') i = Some (sold_art (user_number (u_id actor)) n art)"
proof -
  define owner where "owner = user_number (u_id actor)"
  from r obtain art app w1 w2 where fa: "find_art (ch_get h w) i = Some art"
    and b: "buy_art h actor owner art eo er ep w = (Inr app, w1)"
    and s: "ch_sequence h w1 = (n, w2)" and w': "w' = ch_put h (app n (ch_get h w2)) w2"
    by (auto simp: command_def Let_def guard_simps case_prod_eq with_art_def owner_def split: sum.splits option.splits)
  from b obtain t and seller :: user where c: "a_owner art = eo" "a_revision art = er" "a_price art = Some ep" "eo \<noteq> owner"
    and us: "ch_user h w eo = Some seller"
    and p: "ch_pay h actor (u_account seller) ep (''Digital art: '' @ a_title art) None (Some (a_id art)) w = (Inr t, w1)"
    and app: "app = (\<lambda>sequence. set_art (a_id art) (sold_art owner sequence))"
    by (auto simp: buy_art_def guard_simps case_prod_eq commerce_active_def split: option.splits sum.splits if_splits)
  have id: "a_id art = i" using fa by (auto simp: find_art_def dest: find_Some_prop)
  have "ch_get h w2 = ch_get h w" using sequence_next [OF s] pay_keeps [OF p] by simp
  then have "find_art (ch_get h w') i = Some (sold_art owner n art)"
    using fa unfolding w' app id find_art_def set_art_def
    by (simp add: find_upd_first sold_art_def)
  then show ?thesis using fa c us p id by (auto simp: owner_def)
qed

end

end
