(* ===== verification/Sha256.thy ===== *)
theory Sha256
  imports JsString "HOL-Library.Word"
begin

text \<open>
  \<open>api/sha256.ts\<close> over 32-bit words: the additions of at most five numbers below \<open>2 ^ 32\<close> are exact
  in doubles and \<open>>>> 0\<close> takes them modulo \<open>2 ^ 32\<close>, and the bitwise operators work modulo
  \<open>2 ^ 32\<close> whatever the sign, so word arithmetic is the program's. The typed arrays are lists updated
  by index; the schedule array \<open>w\<close> lives across blocks, as in the program. The second half states
  the standard's definition (FIPS 180-4) and proves that the program computes it.
\<close>

unbundle bit_operations_syntax

type_synonym byte = "8 word"
type_synonym word32 = "32 word"

section \<open>The program\<close>

definition K :: "word32 list" where
  "K =
     [0x428a2f98, 0x71374491, 0xb5c0fbcf, 0xe9b5dba5, 0x3956c25b, 0x59f111f1]
   @ [0x923f82a4, 0xab1c5ed5, 0xd807aa98, 0x12835b01, 0x243185be, 0x550c7dc3]
   @ [0x72be5d74, 0x80deb1fe, 0x9bdc06a7, 0xc19bf174, 0xe49b69c1, 0xefbe4786]
   @ [0x0fc19dc6, 0x240ca1cc, 0x2de92c6f, 0x4a7484aa, 0x5cb0a9dc, 0x76f988da]
   @ [0x983e5152, 0xa831c66d, 0xb00327c8, 0xbf597fc7, 0xc6e00bf3, 0xd5a79147]
   @ [0x06ca6351, 0x14292967, 0x27b70a85, 0x2e1b2138, 0x4d2c6dfc, 0x53380d13]
   @ [0x650a7354, 0x766a0abb, 0x81c2c92e, 0x92722c85, 0xa2bfe8a1, 0xa81a664b]
   @ [0xc24b8b70, 0xc76c51a3, 0xd192e819, 0xd6990624, 0xf40e3585, 0x106aa070]
   @ [0x19a4c116, 0x1e376c08, 0x2748774c, 0x34b0bcb5, 0x391c0cb3, 0x4ed8aa4a]
   @ [0x5b9cca4f, 0x682e6ff3, 0x748f82ee, 0x78a5636f, 0x84c87814, 0x8cc70208]
   @ [0x90befffa, 0xa4506ceb, 0xbef9a3f7, 0xc67178f2]"

definition initial_h :: "word32 list" where
  "initial_h = [0x6a09e667, 0xbb67ae85, 0x3c6ef372, 0xa54ff53a, 0x510e527f, 0x9b05688c,
    0x1f83d9ab, 0x5be0cd19]"

definition rotr :: "word32 \<Rightarrow> nat \<Rightarrow> word32" where
  "rotr x n = drop_bit n x OR push_bit (32 - n) x"

text \<open>\<open>DataView.getUint32\<close> and \<open>setUint32\<close>, big-endian.\<close>

definition get_u32 :: "byte list \<Rightarrow> nat \<Rightarrow> word32" where
  "get_u32 bs i = push_bit 24 (ucast (bs ! i)) OR push_bit 16 (ucast (bs ! (i + 1)))
     OR push_bit 8 (ucast (bs ! (i + 2))) OR ucast (bs ! (i + 3))"

definition u32_bytes :: "word32 \<Rightarrow> byte list" where
  "u32_bytes x = [ucast (drop_bit 24 x), ucast (drop_bit 16 x), ucast (drop_bit 8 x), ucast x]"

definition set_u32 :: "nat \<Rightarrow> word32 \<Rightarrow> byte list \<Rightarrow> byte list" where
  "set_u32 i x bs = bs[i := u32_bytes x ! 0, i + 1 := u32_bytes x ! 1,
     i + 2 := u32_bytes x ! 2, i + 3 := u32_bytes x ! 3]"

text \<open>
  The buffer has \<open>((n + 8) >> 6 + 1) << 6\<close> bytes: the input, \<open>0x80\<close>, zeros, the length in bits.
  Both shifts take their operand to a signed 32-bit integer and give one. A negative size, or a
  size below that of the input copied into it, is a \<open>RangeError\<close>: \<open>None\<close>.
\<close>

definition to_int32 :: "int \<Rightarrow> int" where
  "to_int32 x = (x + 2147483648) mod 4294967296 - 2147483648"

definition padded_length :: "nat \<Rightarrow> int" where
  "padded_length n = to_int32 ((to_int32 (int n + 8) div 64 + 1) * 64)"

definition with_pad :: "byte list \<Rightarrow> byte list option" where
  "with_pad input = (let n = length input; bits = n * 8; size = padded_length n; len = nat size;
       buf = (input @ replicate (len - n) 0)[n := 0x80] in
     if size < 0 \<or> len < n then None
     else Some (set_u32 (len - 8) (of_nat (bits div 4294967296)) (set_u32 (len - 4) (of_nat bits) buf)))"

definition load_block :: "byte list \<Rightarrow> nat \<Rightarrow> word32 list \<Rightarrow> word32 list" where
  "load_block buf offset w = foldl (\<lambda>w i. w[i := get_u32 buf (offset + i * 4)]) w [0..<16]"

definition extend_step :: "word32 list \<Rightarrow> nat \<Rightarrow> word32 list" where
  "extend_step w i =
     (let s0 = rotr (w ! (i - 15)) 7 XOR rotr (w ! (i - 15)) 18 XOR drop_bit 3 (w ! (i - 15));
          s1 = rotr (w ! (i - 2)) 17 XOR rotr (w ! (i - 2)) 19 XOR drop_bit 10 (w ! (i - 2))
      in w[i := w ! (i - 16) + s0 + w ! (i - 7) + s1])"

definition extend_schedule :: "word32 list \<Rightarrow> word32 list" where
  "extend_schedule w = foldl extend_step w [16..<64]"

type_synonym working = "word32 \<times> word32 \<times> word32 \<times> word32 \<times> word32 \<times> word32 \<times> word32 \<times> word32"

fun round_step :: "word32 list \<Rightarrow> working \<Rightarrow> nat \<Rightarrow> working" where
  "round_step w (a, b, c, d, e, f, g, hh) i =
     (let S1 = rotr e 6 XOR rotr e 11 XOR rotr e 25;
          ch = (e AND f) XOR (NOT e AND g);
          temp1 = hh + S1 + ch + K ! i + w ! i;
          S0 = rotr a 2 XOR rotr a 13 XOR rotr a 22;
          maj = (a AND b) XOR (a AND c) XOR (b AND c);
          temp2 = S0 + maj
      in (temp1 + temp2, a, b, c, d + temp1, e, f, g))"

fun add_working :: "word32 list \<Rightarrow> working \<Rightarrow> word32 list" where
  "add_working h (a, b, c, d, e, f, g, hh) =
     [h ! 0 + a, h ! 1 + b, h ! 2 + c, h ! 3 + d, h ! 4 + e, h ! 5 + f, h ! 6 + g, h ! 7 + hh]"

definition block_step :: "byte list \<Rightarrow> word32 list \<times> word32 list \<Rightarrow> nat \<Rightarrow> word32 list \<times> word32 list" where
  "block_step buf hw offset = (case hw of (h, w) \<Rightarrow>
     let w' = extend_schedule (load_block buf offset w) in
     (add_working h (foldl (round_step w') (h ! 0, h ! 1, h ! 2, h ! 3, h ! 4, h ! 5, h ! 6, h ! 7) [0..<64]), w'))"

definition block_offsets :: "nat \<Rightarrow> nat list" where
  "block_offsets len = map (\<lambda>k. k * 64) [0..<len div 64]"

definition sha256 :: "byte list \<Rightarrow> byte list option" where
  "sha256 input = (case with_pad input of None \<Rightarrow> None | Some buf \<Rightarrow>
     Some (concat (map u32_bytes (fst (foldl (block_step buf) (initial_h, replicate 64 0) (block_offsets (length buf)))))))"

text \<open>
  What the callers read: they hash texts of at most a few hundred bytes, far below the size from
  which \<open>sha256\<close> throws.
\<close>

definition digest_sha256 :: "byte list \<Rightarrow> byte list" where
  "digest_sha256 input = (case sha256 input of Some digest \<Rightarrow> digest | None \<Rightarrow> [])"

section \<open>Hexadecimal digests\<close>

definition hex_digit :: "nat \<Rightarrow> char" where
  "hex_digit d = char_of (if d < 10 then 48 + d else 87 + d)"

lemma hex_digit_code [code]: "hex_digit d = nat_char (if d < 10 then 48 + d else 87 + d)"
  by (simp only: hex_digit_def nat_char)

definition hex_byte :: "byte \<Rightarrow> string" where
  "hex_byte b = [hex_digit (unat b div 16), hex_digit (unat b mod 16)]"

definition to_hex :: "byte list \<Rightarrow> string" where
  "to_hex bs = concat (map hex_byte bs)"

text \<open>\<open>new TextEncoder().encode(s)\<close>.\<close>

definition utf8_bytes :: "string \<Rightarrow> byte list" where
  "utf8_bytes s = concat (map (\<lambda>c. let n = of_char c :: nat in
     if n < 128 then [of_nat n] else [of_nat (192 + n div 64), of_nat (128 + n mod 64)]) s)"

section \<open>The standard\<close>

definition Sigma0 :: "word32 \<Rightarrow> word32" where
  "Sigma0 x = word_rotr 2 x XOR word_rotr 13 x XOR word_rotr 22 x"

definition Sigma1 :: "word32 \<Rightarrow> word32" where
  "Sigma1 x = word_rotr 6 x XOR word_rotr 11 x XOR word_rotr 25 x"

definition sigma0 :: "word32 \<Rightarrow> word32" where
  "sigma0 x = word_rotr 7 x XOR word_rotr 18 x XOR drop_bit 3 x"

definition sigma1 :: "word32 \<Rightarrow> word32" where
  "sigma1 x = word_rotr 17 x XOR word_rotr 19 x XOR drop_bit 10 x"

fun message_schedule :: "word32 list \<Rightarrow> nat \<Rightarrow> word32" where
  "message_schedule m t = (if t < 16 then m ! t
     else sigma1 (message_schedule m (t - 2)) + message_schedule m (t - 7)
        + sigma0 (message_schedule m (t - 15)) + message_schedule m (t - 16))"

declare message_schedule.simps [simp del]

fun fips_round :: "(nat \<Rightarrow> word32) \<Rightarrow> working \<Rightarrow> nat \<Rightarrow> working" where
  "fips_round W (a, b, c, d, e, f, g, h) t =
     (let T1 = h + Sigma1 e + ((e AND f) XOR (NOT e AND g)) + K ! t + W t;
          T2 = Sigma0 a + ((a AND b) XOR (a AND c) XOR (b AND c))
      in (T1 + T2, a, b, c, d + T1, e, f, g))"

definition fips_block :: "word32 list \<Rightarrow> word32 list \<Rightarrow> word32 list" where
  "fips_block h m = add_working h (foldl (fips_round (message_schedule m))
     (h ! 0, h ! 1, h ! 2, h ! 3, h ! 4, h ! 5, h ! 6, h ! 7) [0..<64])"

text \<open>Padding: a one bit, the fewest zeros that fill the block, the length as 64 bits.\<close>

definition fips_zeros :: "nat \<Rightarrow> nat" where
  "fips_zeros n = (119 - n mod 64) mod 64"

definition be64 :: "nat \<Rightarrow> byte list" where
  "be64 n = map (\<lambda>k. of_nat (n div 256 ^ k)) (rev [0..<8])"

definition fips_padded :: "byte list \<Rightarrow> byte list" where
  "fips_padded msg = msg @ [0x80] @ replicate (fips_zeros (length msg)) 0 @ be64 (8 * length msg)"

fun fips_blocks :: "nat \<Rightarrow> byte list \<Rightarrow> word32 list list" where
  "fips_blocks n bs = map (\<lambda>k. map (\<lambda>i. get_u32 bs (k * 64 + i * 4)) [0..<16]) [0..<n]"

definition fips_sha256 :: "byte list \<Rightarrow> byte list" where
  "fips_sha256 msg = (let bs = fips_padded msg in
     concat (map u32_bytes (foldl fips_block initial_h (fips_blocks (length bs div 64) bs))))"

section \<open>The program computes the standard\<close>

lemma rotr_word_rotr:
  assumes "0 < n" and "n < 32"
  shows "rotr x n = word_rotr n x"
proof (rule bit_word_eqI)
  fix i :: nat assume "i < LENGTH(32)"
  then have i: "i < 32" by simp
  show "bit (rotr x n) i \<longleftrightarrow> bit (word_rotr n x) i"
  proof (cases "i + n < 32")
    case True
    then have "\<not> 32 - n \<le> i" by simp
    with True i show ?thesis
      by (simp add: rotr_def bit_or_iff bit_drop_bit_eq bit_push_bit_iff bit_word_rotr_iff add.commute)
  next
    case False
    have "(i + n) mod 32 = i + n - 32" using False i assms by (simp add: mod_if)
    moreover have "i - (32 - n) = i + n - 32" using assms by simp
    moreover have "32 - n \<le> i" using False by simp
    moreover have "\<not> bit x (n + i)" using False by (simp add: bit_word.abs_eq impossible_bit)
    ultimately show ?thesis
      using False i assms
      by (simp add: rotr_def bit_or_iff bit_drop_bit_eq bit_push_bit_iff bit_word_rotr_iff)
  qed
qed

lemma foldl_update_map:
  "i \<le> j \<Longrightarrow> j \<le> length w \<Longrightarrow>
    foldl (\<lambda>w k. w[k := f k]) w [i..<j] = take i w @ map f [i..<j] @ drop j w"
proof (induction "j - i" arbitrary: j)
  case (Suc n)
  then obtain j' where j: "j = Suc j'" "i \<le> j'" by (metis Suc_diff_le diff_is_0_eq' le_SucE nat_le_linear old.nat.exhaust zero_neq_one diff_Suc_Suc diff_zero not_less_eq_eq Suc_n_not_le_n)
  with Suc have "foldl (\<lambda>w k. w[k := f k]) w [i..<j'] = take i w @ map f [i..<j'] @ drop j' w"
    by simp
  then show ?case using Suc.prems j
    by (simp add: list_update_append Cons_nth_drop_Suc [symmetric])
qed simp

text \<open>The schedule array after loading and extending a block is the standard's schedule.\<close>

lemma load_block_eq:
  "length w = 64 \<Longrightarrow> load_block buf offset w = map (\<lambda>i. get_u32 buf (offset + i * 4)) [0..<16] @ drop 16 w"
  unfolding load_block_def by (subst foldl_update_map) auto

lemma extend_schedule_eq:
  assumes "length w = 64" and "n \<le> 64" "16 \<le> n"
  shows "foldl extend_step w [16..<n] =
    map (message_schedule (take 16 w)) [0..<n] @ drop n w"
  using assms(3,2)
proof (induction n rule: dec_induct)
  case base
  have "map (message_schedule (take 16 w)) [0..<16] = take 16 w"
    using assms(1) by (intro nth_equalityI) (auto simp: message_schedule.simps)
  then show ?case by simp
next
  case (step n)
  define ms where "ms = message_schedule (take 16 w)"
  define v where "v = map ms [0..<n] @ drop n w"
  have v: "foldl extend_step w [16..<n] = v" using step by (simp add: v_def ms_def)
  have len: "length v = 64" using assms(1) step by (simp add: v_def)
  have nth: "v ! k = ms k" if "k < n" for k using that by (simp add: v_def nth_append)
  have "ms n = sigma1 (ms (n - 2)) + ms (n - 7) + sigma0 (ms (n - 15)) + ms (n - 16)"
    using step(1) by (simp add: ms_def message_schedule.simps [of _ n])
  then have "extend_step v n = v[n := ms n]"
    using step(1)
    by (simp add: extend_step_def Let_def nth sigma0_def sigma1_def rotr_word_rotr ac_simps)
  also have "\<dots> = map ms [0..<Suc n] @ drop (Suc n) w"
    using assms(1) step(2,4) by (simp add: v_def list_update_append Cons_nth_drop_Suc [symmetric])
  finally show ?case using step(1) v by (simp add: ms_def)
qed

lemma round_step_eq:
  assumes "\<And>t. t < 64 \<Longrightarrow> w ! t = W t" and "t < 64"
  shows "round_step w x t = fips_round W x t"
  using assms by (cases "(w, x, t)" rule: round_step.cases)
    (simp add: Let_def rotr_word_rotr Sigma0_def Sigma1_def)

lemma foldl_cong_set: "(\<And>x t. t \<in> set ts \<Longrightarrow> f x t = g x t) \<Longrightarrow> foldl f a ts = foldl g a ts"
  by (induction ts arbitrary: a) auto

lemma block_step_eq:
  assumes "length w = 64"
  shows "\<exists>w'. length w' = 64 \<and> block_step buf (h, w) offset =
    (fips_block h (map (\<lambda>i. get_u32 buf (offset + i * 4)) [0..<16]), w')"
proof -
  define m where "m = map (\<lambda>i. get_u32 buf (offset + i * 4)) [0..<16]"
  define w1 where "w1 = load_block buf offset w"
  have w1: "w1 = m @ drop 16 w" unfolding w1_def m_def by (rule load_block_eq [OF assms])
  then have l: "length w1 = 64" "take 16 w1 = m" using assms by (simp_all add: m_def)
  define w2 where "w2 = extend_schedule w1"
  have w2: "w2 = map (message_schedule m) [0..<64]"
    unfolding w2_def extend_schedule_def using extend_schedule_eq [of w1 64] l by simp
  have "foldl (round_step w2) x [0..<64] = foldl (fips_round (message_schedule m)) x [0..<64]" for x
    by (rule foldl_cong_set) (rule round_step_eq; simp add: w2)
  then show ?thesis
    by (intro exI [of _ w2])
       (simp add: block_step_def Let_def fips_block_def w1_def [symmetric] w2_def [symmetric] m_def [symmetric],
        simp add: w2)
qed

lemma blocks_eq:
  "length w = 64 \<Longrightarrow> fst (foldl (block_step buf) (h, w) (map (\<lambda>k. k * 64) ks)) =
    foldl fips_block h (map (\<lambda>k. map (\<lambda>i. get_u32 buf (k * 64 + i * 4)) [0..<16]) ks)"
proof (induction ks arbitrary: h w)
  case (Cons k ks)
  from block_step_eq [OF Cons.prems, of buf h "k * 64"] obtain w' where
    "length w' = 64" "block_step buf (h, w) (k * 64) =
      (fips_block h (map (\<lambda>i. get_u32 buf (k * 64 + i * 4)) [0..<16]), w')" by blast
  with Cons.IH [of w'] show ?case by simp
qed simp

text \<open>The padding: the buffer the program fills by index is the standard's padded message.\<close>

lemma to_int32_id: "- 2147483648 \<le> x \<Longrightarrow> x < 2147483648 \<Longrightarrow> to_int32 x = x"
  by (simp add: to_int32_def)

lemma padded_length_small:
  assumes "n < 2147483576"
  shows "padded_length n = ((int n + 8) div 64 + 1) * 64"
proof -
  have "(int n + 8) div 64 < 33554431" using assms by linarith
  then have "((int n + 8) div 64 + 1) * 64 < 2147483648" "0 \<le> (int n + 8) div 64" by (auto simp: algebra_simps)
  then show ?thesis using assms by (simp add: padded_length_def to_int32_id)
qed

lemma padded_length_eq:
  assumes "n < 2147483576"
  shows "padded_length n = int (n + 9 + fips_zeros n)"
proof -
  define q r where "q = n div 64" and "r = n mod 64"
  have n: "n = q * 64 + r" and r: "r < 64" by (simp_all add: q_def r_def)
  have p: "padded_length n = int (((n + 8) div 64 + 1) * 64)"
    using padded_length_small [OF assms] by (simp add: zdiv_int)
  show ?thesis
  proof (cases "r \<le> 55")
    case True
    have "(n + 8) div 64 = q" using True n by (intro div_nat_eqI) auto
    moreover have "(119 - r) mod 64 = 55 - r"
      using True mod_add_self2 [of "55 - r" 64] by simp
    ultimately show ?thesis using True n unfolding p by (simp add: fips_zeros_def r_def [symmetric])
  next
    case False
    have "(n + 8) div 64 = q + 1" using False n r by (intro div_nat_eqI) auto
    moreover have "(119 - r) mod 64 = 119 - r" using False by simp
    ultimately show ?thesis using False n r unfolding p by (simp add: fips_zeros_def r_def [symmetric])
  qed
qed

text \<open>From 72 bytes below \<open>2 ^ 31\<close> on, the size is negative or too small for the input.\<close>

lemma padded_length_large:
  assumes "2147483576 \<le> n"
  shows "padded_length n < 0 \<or> nat (padded_length n) < n"
proof (cases "n < 2147483648")
  case False
  have "padded_length n < 2147483648" by (simp add: padded_length_def to_int32_def)
  then have "nat (padded_length n) < 2147483648" by linarith
  with False show ?thesis by simp
next
  case True
  show ?thesis
  proof (cases "n < 2147483640")
    case lt: True
    have "(int n + 8) div 64 = 33554431" using assms lt by (intro int_div_pos_eq [where r = "(int n + 8) - 2147483584"]) auto
    then show ?thesis using lt by (simp add: padded_length_def to_int32_id) (simp add: to_int32_def)
  next
    case ge: False
    have "(int n + 8 - 2147483648) mod 4294967296 = int n + 8 - 2147483648"
      using True ge by (intro mod_pos_pos_trivial) auto
    then have "(int n + 8 + 2147483648) mod 4294967296 = int n + 8 - 2147483648"
      using minus_mod_self2 [of "int n + 8 + 2147483648" 4294967296] by simp
    then have t: "to_int32 (int n + 8) = int n + 8 - 4294967296" by (simp add: to_int32_def)
    have "(int n + 8 - 4294967296) div 64 = - 33554432"
      using True ge by (intro int_div_pos_eq [where r = "int n + 8 - 2147483648"]) auto
    then show ?thesis by (simp add: padded_length_def t) (simp add: to_int32_def)
  qed
qed

lemma length_be64 [simp]: "length (be64 n) = 8"
  by (simp add: be64_def)

lemma length_fips_padded: "length (fips_padded msg) = length msg + 9 + fips_zeros (length msg)"
  by (simp add: fips_padded_def)

lemma byte_of_u32: "(ucast (drop_bit (8 * k) (of_nat n :: word32)) :: byte) = of_nat (n div 256 ^ k)" if "k < 4"
proof (rule bit_word_eqI)
  fix i :: nat assume "i < LENGTH(8)"
  then have i: "i < 8" by simp
  have d: "n div 256 ^ k = drop_bit (8 * k) n"
    by (simp add: drop_bit_eq_div power_mult)
  show "bit (ucast (drop_bit (8 * k) (of_nat n :: word32)) :: byte) i = bit (of_nat (n div 256 ^ k) :: byte) i"
    unfolding d using i that by (simp add: bit_simps bit_of_nat_iff_bit possible_bit_def)
qed

lemma rev_upts: "rev [0..<4] = [3, 2, 1, 0 :: nat]" "rev [0..<8] = [7, 6, 5, 4, 3, 2, 1, 0 :: nat]"
  by code_simp+

lemma u32_bytes_of_nat:
  "u32_bytes (of_nat n) = map (\<lambda>k. of_nat (n div 256 ^ k)) (rev [0..<4])"
  using byte_of_u32 [of 3 n] byte_of_u32 [of 2 n] byte_of_u32 [of 1 n] byte_of_u32 [of 0 n]
  by (simp add: u32_bytes_def rev_upts)

lemma be64_split: "be64 n = u32_bytes (of_nat (n div 4294967296)) @ u32_bytes (of_nat n)"
  by (simp add: be64_def u32_bytes_of_nat rev_upts div_mult2_eq [symmetric])

lemma set_u32_append:
  "set_u32 (length p) x (p @ [a, b, c, d] @ q) = p @ u32_bytes x @ q"
  by (simp add: set_u32_def u32_bytes_def list_update_append)

lemma with_pad_eq:
  assumes "length msg < 2147483576"
  shows "with_pad msg = Some (fips_padded msg)"
proof -
  define n z len where "n = length msg" and "z = fips_zeros (length msg)" and "len = nat (padded_length (length msg))"
  define pre where "pre = msg @ [0x80] @ replicate z 0"
  have size: "padded_length n = int (n + 9 + z)" using padded_length_eq [OF assms] by (simp add: n_def z_def)
  then have len: "len = length pre + 8" "len = n + 9 + z" by (simp_all add: len_def pre_def n_def)
  have "replicate (len - n) (0 :: byte) = 0 # replicate (z + 8) 0"
    by (simp add: len(2) flip: replicate_Suc)
  then have "(msg @ replicate (len - n) 0)[n := 0x80] = msg @ [0x80] @ replicate (z + 8) 0"
    by (simp add: n_def list_update_append)
  also have "\<dots> = pre @ [0, 0, 0, 0] @ [0, 0, 0, 0]"
    unfolding replicate_add by (simp add: pre_def eval_nat_numeral)
  finally have buf: "(msg @ replicate (len - n) 0)[n := 0x80] = pre @ [0, 0, 0, 0] @ [0, 0, 0, 0]" .
  have lo: "set_u32 (len - 4) x (pre @ [0, 0, 0, 0] @ [0, 0, 0, 0]) = pre @ [0, 0, 0, 0] @ u32_bytes x" for x
    using set_u32_append [of "pre @ [0, 0, 0, 0]" x 0 0 0 0 "[]"]
    by (simp add: len(1) eval_nat_numeral)
  have hi: "set_u32 (len - 8) y (pre @ [0, 0, 0, 0] @ r) = pre @ u32_bytes y @ r" for y r
    using set_u32_append [of pre y 0 0 0 0 r] by (simp add: len(1))
  have fits: "\<not> (padded_length n < 0 \<or> len < n)" by (simp add: size len(2))
  have l: "nat (padded_length n) = len" by (simp add: len_def n_def)
  have "with_pad msg = Some (pre @ u32_bytes (of_nat (n * 8 div 4294967296)) @ u32_bytes (of_nat (n * 8)))"
    unfolding with_pad_def Let_def n_def [symmetric] l buf lo hi if_not_P [OF fits] by (rule refl)
  also have "\<dots> = Some (pre @ be64 (n * 8))" by (simp only: be64_split)
  finally show ?thesis by (simp add: fips_padded_def pre_def n_def z_def mult.commute)
qed

lemma with_pad_None: "2147483576 \<le> length msg \<Longrightarrow> with_pad msg = None"
  using padded_length_large [of "length msg"] by (auto simp: with_pad_def Let_def)

lemma sha256_eq: "length msg < 2147483576 \<Longrightarrow> sha256 msg = Some (fips_sha256 msg)"
  unfolding sha256_def fips_sha256_def Let_def block_offsets_def
  by (simp add: with_pad_eq, subst blocks_eq) simp_all

lemma length_add_working [simp]: "length (add_working h x) = 8"
  by (cases "(h, x)" rule: add_working.cases) simp

lemma fips_sha256_length: "length (fips_sha256 msg) = 32"
proof -
  have "length (foldl fips_block h ms) = 8" if "length h = 8" for h ms
    using that by (induction ms arbitrary: h) (auto simp: fips_block_def)
  then have "length (concat (map u32_bytes (foldl fips_block initial_h ms))) = 32" for ms
    by (simp add: length_concat comp_def u32_bytes_def initial_h_def sum_list_triv)
  then show ?thesis by (simp add: fips_sha256_def Let_def)
qed

text \<open>A digest in hexadecimal: 64 lower-case digits, and distinct digests have distinct texts.\<close>

lemma to_hex_length: "length (to_hex bs) = 2 * length bs"
  by (induction bs) (auto simp: to_hex_def hex_byte_def)

end
