(* ===== verification/LedgerState.thy ===== *)
theory LedgerState
  imports LendingSafety LottoHost CommerceSafety Sha256
begin

text \<open>
  \<open>demo/ledger.ts\<close>, the state of \<open>DemoLedger\<close> and its read methods. One record holds the class's
  fields, with the books of its three collaborators (\<open>lending\<close>, \<open>lotto\<close>, \<open>commerce\<close>) as fields. The
  wall clock is the sequence of its readings (\<open>wall k\<close> is the \<open>k\<close>-th value of
  \<open>Math.floor(Date.now()/1000)\<close>, with no assumption on it) and the number of readings so far. A
  balance is a fold over postings in journal order, rounded at every addition, as the program does it.
\<close>

section \<open>State\<close>

record nickle =
  nk_amount :: num
  nk_serial :: string
  nk_issuer :: string

record ledger =
  wall :: "nat \<Rightarrow> int"
  ticks :: nat
  live_clock :: bool
  clock :: int
  decimals :: nat
  money_epoch :: nat
  revision :: nat
  epoch_exponents :: "int list"
  users :: "user list"
  listings :: "listing list"
  offers :: "offer list"
  quotes :: "quote list"
  transactions :: "transaction list"
  usd_balances :: "string \<rightharpoonup> num"
  next_txn :: nat
  next_id :: nat
  nickles :: "(string \<times> nickle) list"
  next_nickle :: nat
  household :: string
  provisioned :: bool
  refund_amounts :: "string \<rightharpoonup> num"
  lending_book :: lending
  lotto_draws :: "draw list"
  commerce_book :: commerce

definition SYSTEM_ISSUANCE :: string where "SYSTEM_ISSUANCE = ''account:system-issuance''"
definition USD_ISSUANCE :: string where "USD_ISSUANCE = ''account:usd-issuance''"
definition NICKLE_RESERVE :: string where "NICKLE_RESERVE = ''account:nickle-reserve''"
definition GOOD_DEED :: string where "GOOD_DEED = ''good_deed''"

text \<open>\<open>new DemoLedger()\<close>; the demo's clock starts 400 days back.\<close>

definition new_ledger :: "(nat \<Rightarrow> int) \<Rightarrow> ledger" where
  "new_ledger readings =
     \<lparr>wall = readings, ticks = 1, live_clock = False, clock = readings 0 - 60 * 60 * 24 * 400,
      decimals = 4, money_epoch = 0, revision = 0, epoch_exponents = [0],
      users = [], listings = [], offers = [], quotes = [], transactions = [], usd_balances = Map.empty,
      next_txn = 1, next_id = 1, nickles = [], next_nickle = 1,
      household = ''The Demo House'', provisioned = False, refund_amounts = Map.empty,
      lending_book = new_lending, lotto_draws = [], commerce_book = new_commerce\<rparr>"

section \<open>The clock\<close>

definition now :: "ledger \<Rightarrow> int \<times> ledger" where
  "now w = (if live_clock w then (wall w (ticks w), w\<lparr>ticks := Suc (ticks w)\<rparr>)
            else (clock w + 1, w\<lparr>clock := clock w + 1\<rparr>))"

definition start_live :: "ledger \<Rightarrow> ledger" where
  "start_live w = w\<lparr>live_clock := True\<rparr>"

definition advance :: "int \<Rightarrow> ledger \<Rightarrow> ledger" where
  "advance seconds w = w\<lparr>clock := clock w + seconds\<rparr>"

definition advance_to :: "int \<Rightarrow> ledger \<Rightarrow> ledger" where
  "advance_to t w = w\<lparr>clock := max (clock w) t\<rparr>"

section \<open>Balances\<close>

definition is_usd :: "string \<Rightarrow> bool" where
  "is_usd account \<longleftrightarrow> ends_with ''-usd'' account \<or> account = USD_ISSUANCE"

text \<open>
  The exponent of a transaction's epoch. Every transaction's epoch is an index of the list (part of
  the invariant \<open>wf_ledger\<close>), so the default is never read.
\<close>

definition exponent_of :: "int list \<Rightarrow> transaction \<Rightarrow> int" where
  "exponent_of es t = (let e = (case t_money_epoch t of None \<Rightarrow> 0 | Some e \<Rightarrow> e) in
     if e < length es then es ! e else 0)"

definition current_posting :: "int \<Rightarrow> posting \<Rightarrow> posting" where
  "current_posting e p = p\<lparr>p_amount := (if is_usd (p_account p) then p_amount p
                                       else js_mul (p_amount p) (js_pow10 e))\<rparr>"

definition current_postings_at :: "int list \<Rightarrow> transaction \<Rightarrow> posting list" where
  "current_postings_at es t = map (current_posting (exponent_of es t)) (t_postings t)"

definition current_postings :: "ledger \<Rightarrow> transaction \<Rightarrow> posting list" where
  "current_postings w t = current_postings_at (epoch_exponents w) t"

definition amounts_of :: "string \<Rightarrow> posting list \<Rightarrow> num list" where
  "amounts_of account ps = map p_amount (filter (\<lambda>p. p_account p = account) ps)"

definition journal_amounts :: "string \<Rightarrow> int list \<Rightarrow> transaction list \<Rightarrow> num list" where
  "journal_amounts account es ts = concat (map (\<lambda>t. amounts_of account (current_postings_at es t)) ts)"

definition balance_of :: "ledger \<Rightarrow> string \<Rightarrow> num" where
  "balance_of w account = js_sum (journal_amounts account (epoch_exponents w) (transactions w))"

definition balanced :: "ledger \<Rightarrow> bool" where
  "balanced w \<longleftrightarrow> js_sum (concat (map (\<lambda>t. map p_amount (t_postings t)) (transactions w))) = 0"

definition usd_of :: "ledger \<Rightarrow> string \<Rightarrow> num" where
  "usd_of w account = (case usd_balances w account of Some n \<Rightarrow> n | None \<Rightarrow> 0)"

section \<open>Looking things up\<close>

definition user_by_id :: "ledger \<Rightarrow> string \<Rightarrow> user option" where
  "user_by_id w i = find (\<lambda>u. u_id u = i) (users w)"

definition user_by_name :: "ledger \<Rightarrow> string \<Rightarrow> user option" where
  "user_by_name w n = find (\<lambda>u. to_lower (username u) = to_lower n) (users w)"

definition user_by_account :: "ledger \<Rightarrow> string \<Rightarrow> user option" where
  "user_by_account w a = find (\<lambda>u. u_account u = a) (users w)"

definition name_of :: "ledger \<Rightarrow> string \<Rightarrow> string" where
  "name_of w account = (case user_by_account w account of Some u \<Rightarrow> display_name u | None \<Rightarrow> account)"

definition txn_by_id :: "ledger \<Rightarrow> string \<Rightarrow> transaction option" where
  "txn_by_id w i = find (\<lambda>t. t_id t = i) (transactions w)"

definition listing_by_id :: "ledger \<Rightarrow> string \<Rightarrow> listing res" where
  "listing_by_id w i = (case find (\<lambda>l. l_id l = i) (listings w) of
     None \<Rightarrow> Inl (DemoError 404 ''not_found'' ''No such listing.'') | Some l \<Rightarrow> Inr l)"

definition offer_by_id :: "ledger \<Rightarrow> string \<Rightarrow> offer res" where
  "offer_by_id w i = (case find (\<lambda>x. o_id x = i) (offers w) of
     None \<Rightarrow> Inl (DemoError 404 ''not_found'' ''No such offer.'') | Some x \<Rightarrow> Inr x)"

text \<open>Writing back an object changed in place.\<close>

definition put_user :: "user \<Rightarrow> ledger \<Rightarrow> ledger" where
  "put_user u w = w\<lparr>users := upd_first (\<lambda>x. u_id x = u_id u) (\<lambda>_. u) (users w)\<rparr>"

definition put_listing :: "listing \<Rightarrow> ledger \<Rightarrow> ledger" where
  "put_listing l w = w\<lparr>listings := upd_first (\<lambda>x. l_id x = l_id l) (\<lambda>_. l) (listings w)\<rparr>"

definition put_offer :: "offer \<Rightarrow> ledger \<Rightarrow> ledger" where
  "put_offer x w = w\<lparr>offers := upd_first (\<lambda>y. o_id y = o_id x) (\<lambda>_. x) (offers w)\<rparr>"

definition put_quote :: "quote \<Rightarrow> ledger \<Rightarrow> ledger" where
  "put_quote q w = w\<lparr>quotes := upd_first (\<lambda>y. q_id y = q_id q) (\<lambda>_. q) (quotes w)\<rparr>"

definition put_txn :: "transaction \<Rightarrow> ledger \<Rightarrow> ledger" where
  "put_txn t w = w\<lparr>transactions := upd_first (\<lambda>y. t_id y = t_id t) (\<lambda>_. t) (transactions w)\<rparr>"

section \<open>Reading\<close>

definition original_amount :: "transaction \<Rightarrow> num" where
  "original_amount t = js_sum (map (\<lambda>p. max 0 (p_amount p)) (t_postings t))"

definition refunded :: "ledger \<Rightarrow> transaction \<Rightarrow> num" where
  "refunded w t = js_sum (map (\<lambda>r. case refund_amounts w (t_id r) of Some n \<Rightarrow> n | None \<Rightarrow> 0)
                             (filter (\<lambda>r. t_reverses r = Some (t_id t)) (transactions w)))"

definition posting_name :: "ledger \<Rightarrow> string \<Rightarrow> string" where
  "posting_name w account =
     (if account = SYSTEM_ISSUANCE then ''Issuance''
      else if account = USD_ISSUANCE then ''USD recorded''
      else if account = NICKLE_RESERVE then ''Nana-nickle reserve''
      else case user_by_account w (strip_tail ''-usd'' account) of
        Some u \<Rightarrow> display_name u | None \<Rightarrow> account)"

definition named :: "ledger \<Rightarrow> transaction list \<Rightarrow> transaction_view list" where
  "named w ts = map (\<lambda>t. transaction.extend
      (t\<lparr>t_postings := map (\<lambda>p. p\<lparr>p_name := posting_name w (p_account p)\<rparr>) (current_postings w t)\<rparr>)
      \<lparr>tv_original_postings = t_postings t, tv_current_money_epoch = money_epoch w,
       tv_refunded = refunded w t,
       tv_reversed_by = (if refunded w t \<ge> original_amount t \<and> original_amount t > 0
         then map_option t_id (at_last (filter (\<lambda>r. t_reverses r = Some (t_id t)) (transactions w)))
         else None)\<rparr>) ts"

definition circulation :: "ledger \<Rightarrow> num" where
  "circulation w = - balance_of w SYSTEM_ISSUANCE"

definition status :: "ledger \<Rightarrow> status_view" where
  "status w = \<lparr>st_decimals = decimals w, st_money_epoch = money_epoch w, st_sequence = revision w,
     st_provisioned = provisioned w, st_household = household w, st_users = length (users w),
     st_transactions = length (transactions w),
     st_active_listings = length (filter (\<lambda>l. l_status l = ListingActive) (listings w)),
     st_circulation = circulation w, st_journal_used = length (transactions w) * 48,
     st_journal_capacity = 0, st_ledger_balanced = balanced w\<rparr>"

definition view :: "ledger \<Rightarrow> user \<Rightarrow> user option \<Rightarrow> user_view" where
  "view w u viewer = \<lparr>uv_id = u_id u, uv_username = username u, uv_display_name = display_name u,
     uv_role = u_role u, uv_status = u_status u, uv_account = u_account u, uv_created_at = u_created_at u,
     uv_bio = (if truthy_str (bio u) then bio u else None),
     uv_balance = (if viewer \<noteq> None then Some (balance_of w (u_account u)) else None),
     uv_usd_cents = (if viewer \<noteq> None then Some (usd_of w (u_account u)) else None)\<rparr>"

definition all_users :: "ledger \<Rightarrow> user option \<Rightarrow> user_view list" where
  "all_users w viewer = map (\<lambda>u. view w u viewer) (users w)"

text \<open>
  Paging. A cursor is the (non-negative) numbers of its colon-separated text; \<open>limit\<close> is \<open>None\<close> when it is not
  finite. \<open>ordinal\<close> is the number at the end of a transaction's identifier.
\<close>

definition ordinal :: "transaction \<Rightarrow> nat" where
  "ordinal t = id_number (t_id t)"

record history_page =
  hp_account :: string
  hp_balance :: num
  hp_transactions :: "transaction_view list"
  hp_next :: "(nat \<times> nat \<times> nat) option"

definition page_size :: "nat option \<Rightarrow> nat" where
  "page_size limit = max 1 (min 100 (case limit of Some n \<Rightarrow> n | None \<Rightarrow> 50))"

definition history_rows :: "ledger \<Rightarrow> string \<Rightarrow> nat \<Rightarrow> nat \<Rightarrow> transaction list" where
  "history_rows w account upper before = rev (filter
     (\<lambda>t. ordinal t \<le> upper \<and> ordinal t < before
        \<and> (\<exists>p \<in> set (t_postings t). p_account p = account \<or> p_account p = account @ ''-usd''))
     (transactions w))"

definition history :: "ledger \<Rightarrow> string \<Rightarrow> nat option \<Rightarrow> (nat \<times> nat \<times> nat) option \<Rightarrow> history_page res" where
  "history w account limit cursor =
     (case (case cursor of Some c \<Rightarrow> c | None \<Rightarrow> (money_epoch w, next_txn w - 1, next_txn w)) of
        (epoch, upper, before) \<Rightarrow>
        if epoch \<noteq> money_epoch w \<or> upper \<ge> next_txn w
        then Inl (DemoError 409 ''stale_request'' ''The ledger changed. Reload its history.'')
        else let rows = history_rows w account upper before; txns = take (page_size limit) rows in
          Inr \<lparr>hp_account = account, hp_balance = balance_of w account, hp_transactions = named w txns,
               hp_next = (case at_last txns of
                   Some t \<Rightarrow> if length rows > length txns then Some (epoch, upper, ordinal t) else None
                 | None \<Rightarrow> None)\<rparr>)"

record ledger_page =
  lp_transactions :: "transaction_view list"
  lp_circulation :: num
  lp_upper :: nat
  lp_sequence :: nat
  lp_next :: "(nat \<times> nat \<times> nat \<times> nat) option"

definition ledger_rows :: "ledger \<Rightarrow> nat \<Rightarrow> nat \<Rightarrow> transaction list" where
  "ledger_rows w upper before = rev (filter
     (\<lambda>t. t_kind t \<noteq> Message \<and> ordinal t \<le> upper \<and> ordinal t < before) (transactions w))"

definition ledger_page :: "ledger \<Rightarrow> nat option \<Rightarrow> (nat \<times> nat \<times> nat \<times> nat) option \<Rightarrow> ledger_page res" where
  "ledger_page w limit cursor =
     (case (case cursor of Some c \<Rightarrow> c | None \<Rightarrow> (money_epoch w, next_txn w - 1, next_txn w, 0)) of
        (epoch, upper, before, page) \<Rightarrow>
        if epoch \<noteq> money_epoch w \<or> before < 1 \<or> upper \<ge> next_txn w \<or> limit = None
        then Inl (DemoError 409 ''stale_request'' ''The ledger changed. Reload its history.'')
        else let rows = ledger_rows w upper before; txns = take (page_size limit) rows in
          Inr \<lparr>lp_transactions = named w txns, lp_circulation = circulation w, lp_upper = upper,
               lp_sequence = revision w,
               lp_next = (case at_last txns of
                   Some t \<Rightarrow> if length rows > length txns then Some (epoch, upper, ordinal t, page + 1) else None
                 | None \<Rightarrow> None)\<rparr>)"

text \<open>The plain journal view: the last \<open>limit\<close> movements, newest first.\<close>

definition ledger_view :: "ledger \<Rightarrow> nat \<Rightarrow> transaction_view list \<times> num" where
  "ledger_view w limit =
     (let ts = filter (\<lambda>t. t_kind t \<noteq> Message) (transactions w) in
      (named w (rev (if limit = 0 then ts else slice_last limit ts)), circulation w))"

section \<open>Guards\<close>

definition require_nana :: "user \<Rightarrow> exn option" where
  "require_nana u = throw_if (u_role u \<noteq> Nana) (DemoError 403 ''forbidden'' ''Only Nana can do that.'')"

definition require_active :: "user \<Rightarrow> exn option" where
  "require_active u = throw_if (u_status u \<noteq> UserActive) (DemoError 403 ''disabled'' ''That account is disabled.'')"

definition require_amount :: "num \<Rightarrow> exn option" where
  "require_amount n = first_err
     [throw_if (\<not> is_safe n \<or> n \<le> 0) (DemoError 400 ''bad_request'' ''Amounts must be positive integer minor units.''),
      throw_if (n > max_money) (DemoError 400 ''bad_request'' ''That amount exceeds the transaction limit.'')]"

definition require_user_account :: "ledger \<Rightarrow> string \<Rightarrow> exn option" where
  "require_user_account w account =
     (if account = SYSTEM_ISSUANCE
      then Some (DemoError 400 ''system_account'' ''That is not a spendable account.'')
      else case user_by_account w account of
        None \<Rightarrow> Some (DemoError 404 ''not_found'' ''No such account.'')
      | Some owner \<Rightarrow> throw_if (u_status owner \<noteq> UserActive) (DemoError 403 ''disabled'' ''That account is disabled.''))"

lemma require_amount_None: "require_amount n = None \<longleftrightarrow> is_safe n \<and> 0 < n \<and> n \<le> max_money"
  by (auto simp: require_amount_def guard_simps)

lemma require_user_account_None: "require_user_account w a = None \<longleftrightarrow>
    a \<noteq> SYSTEM_ISSUANCE \<and> (\<exists>u. user_by_account w a = Some u \<and> u_status u = UserActive)"
  by (auto simp: require_user_account_def guard_simps split: option.splits)

end
