(* ===== verification/LedgerCore.thy ===== *)
theory LedgerCore
  imports LedgerState
begin

text \<open>
  \<open>demo/ledger.ts\<close>, the writes that move money: \<open>append\<close>, through which every coin moves, and
  the operations that call it directly (transfer, issue, retire, the dollar record, bearer vouchers),
  with membership. An operation is an \<open>act\<close> over the ledger record.
\<close>

section \<open>Appending a transaction\<close>

record append_opts =
  op_allow_overdraft :: bool
  op_reference :: "string option"
  op_reverses :: "string option"
  op_economic_kind :: "economic_kind option"
  op_thing :: "string option"
  op_thing_name :: "string option"
  op_quantity_milli :: "num option"
  op_unit :: "economic_unit option"
  op_gift_request :: "nat option"
  op_art :: "nat option"
  op_refund_units :: "num option"

definition no_opts :: append_opts where
  "no_opts = \<lparr>op_allow_overdraft = False, op_reference = None, op_reverses = None,
     op_economic_kind = None, op_thing = None, op_thing_name = None, op_quantity_milli = None,
     op_unit = None, op_gift_request = None, op_art = None, op_refund_units = None\<rparr>"

definition posting :: "string \<Rightarrow> num \<Rightarrow> posting" where
  "posting account amount = \<lparr>p_account = account, p_name = '''', p_amount = amount\<rparr>"

definition overdraws :: "ledger \<Rightarrow> posting \<Rightarrow> bool" where
  "overdraws w p \<longleftrightarrow> p_account p \<noteq> SYSTEM_ISSUANCE \<and> p_amount p < 0
     \<and> js_add (balance_of w (p_account p)) (p_amount p) < 0"

definition unbalanced :: "posting list \<Rightarrow> bool" where
  "unbalanced ps \<longleftrightarrow> js_sum (map p_amount ps) \<noteq> 0"

definition txn_id :: "nat \<Rightarrow> string" where
  "txn_id n = ''txn'' @ CHR ''-'' # show_nat n"

definition usd_txn_id :: "nat \<Rightarrow> string" where
  "usd_txn_id n = ''usd-txn'' @ CHR ''-'' # show_nat n"

definition bare_txn ::
  "ledger \<Rightarrow> transaction_kind \<Rightarrow> string \<Rightarrow> string \<Rightarrow> posting list \<Rightarrow> append_opts \<Rightarrow> int \<Rightarrow> transaction" where
  "bare_txn w kind actor description ps opts created =
     \<lparr>t_fulfillment = None, t_id = txn_id (next_txn w), t_kind = kind, t_created_at = created,
      t_actor = actor, t_description = description, t_reference = op_reference opts,
      t_reverses = op_reverses opts, t_economic_kind = op_economic_kind opts, t_thing = op_thing opts,
      t_thing_name = op_thing_name opts, t_quantity_milli = op_quantity_milli opts, t_unit = op_unit opts,
      t_postings = ps, t_money_epoch = Some (money_epoch w), t_decimals = Some (decimals w),
      t_gift_request = op_gift_request opts, t_art = op_art opts\<rparr>"

definition original_of :: "ledger \<Rightarrow> append_opts \<Rightarrow> transaction option" where
  "original_of w opts = (case op_reverses opts of
     None \<Rightarrow> None | Some r \<Rightarrow> if r = [] then None else txn_by_id w r)"

text \<open>The delivery record: who the actor is shown as, and its first entry.\<close>

definition actor_account :: "ledger \<Rightarrow> string \<Rightarrow> string" where
  "actor_account w actor = (case user_by_id w actor of Some u \<Rightarrow> u_account u | None \<Rightarrow> actor)"

definition actor_name :: "ledger \<Rightarrow> string \<Rightarrow> string" where
  "actor_name w actor = (case user_by_id w actor of Some u \<Rightarrow> display_name u | None \<Rightarrow> actor)"

definition delivery_update :: "ledger \<Rightarrow> string \<Rightarrow> transaction \<Rightarrow> fulfillment_status \<Rightarrow> fulfillment_update" where
  "delivery_update w actor txn s = \<lparr>fu_id = t_id txn, fu_at = t_created_at txn,
     fu_actor = actor_account w actor, fu_actor_name = actor_name w actor, fu_status = s, fu_reason = ''''\<rparr>"

text \<open>A refund of everything that is left marks the original's delivery as reversed.\<close>

definition fully_refunds :: "ledger \<Rightarrow> transaction \<Rightarrow> append_opts \<Rightarrow> bool" where
  "fully_refunds w original opts \<longleftrightarrow>
     js_add (refunded w original)
       (case op_refund_units opts of Some n \<Rightarrow> n | None \<Rightarrow> original_amount original) = original_amount original"

definition reverse_delivery :: "ledger \<Rightarrow> string \<Rightarrow> transaction \<Rightarrow> fulfillment \<Rightarrow> fulfillment" where
  "reverse_delivery w actor txn f = f\<lparr>f_status := FulfillmentReversed,
     f_updates := slice_last 4 (f_updates f @ [delivery_update w actor txn FulfillmentReversed])\<rparr>"

definition is_delivery :: "transaction_kind \<Rightarrow> append_opts \<Rightarrow> bool" where
  "is_delivery kind opts \<longleftrightarrow> \<not> truthy_nat (op_art opts) \<and> kind \<noteq> Reversal
     \<and> (kind = Purchase \<or> op_economic_kind opts = Some Labor \<or> op_economic_kind opts = Some Good)"

definition party_name :: "ledger \<Rightarrow> posting \<Rightarrow> string" where
  "party_name w p = (case user_by_account w (p_account p) of Some u \<Rightarrow> display_name u | None \<Rightarrow> p_name p)"

definition delivery_kind :: "ledger \<Rightarrow> append_opts \<Rightarrow> fulfillment_kind" where
  "delivery_kind w opts =
     (let kind = (case find (\<lambda>l. Some (l_id l) = op_reference opts) (listings w) of
                    Some l \<Rightarrow> l_kind l | None \<Rightarrow> None) in
      if kind = Some ''currency'' then Cash
      else if op_economic_kind opts = Some Labor \<or> kind = Some ''service'' then Work else Goods)"

definition new_delivery ::
  "ledger \<Rightarrow> string \<Rightarrow> string \<Rightarrow> posting list \<Rightarrow> append_opts \<Rightarrow> transaction \<Rightarrow> fulfillment option" where
  "new_delivery w actor description ps opts txn =
     (case (find (\<lambda>p. p_amount p > 0) ps, find (\<lambda>p. p_amount p < 0) ps) of
        (Some provider, Some recipient) \<Rightarrow> Some
          \<lparr>f_transaction = t_id txn, f_provider = p_account provider, f_recipient = p_account recipient,
           f_provider_name = party_name w provider, f_recipient_name = party_name w recipient,
           f_description = description, f_kind = delivery_kind w opts, f_status = Todo,
           f_updates = [delivery_update w actor txn Todo]\<rparr>
      | _ \<Rightarrow> None)"

definition with_delivery ::
  "transaction_kind \<Rightarrow> string \<Rightarrow> string \<Rightarrow> posting list \<Rightarrow> append_opts \<Rightarrow> transaction \<Rightarrow> ledger \<Rightarrow> transaction \<times> ledger" where
  "with_delivery kind actor description ps opts txn w =
     (let fresh = (if is_delivery kind opts
                   then txn\<lparr>t_fulfillment := new_delivery w actor description ps opts txn\<rparr> else txn) in
      case original_of w opts of
        None \<Rightarrow> (fresh, w)
      | Some original \<Rightarrow> (case t_fulfillment original of
            None \<Rightarrow> (fresh, w)
          | Some f \<Rightarrow> if fully_refunds w original opts
              then (txn, put_txn (original\<lparr>t_fulfillment := Some (reverse_delivery w actor txn f)\<rparr>) w)
              else (fresh, w)))"

definition push_txn :: "transaction \<Rightarrow> ledger \<Rightarrow> ledger" where
  "push_txn t w = w\<lparr>transactions := transactions w @ [t]\<rparr>"

text \<open>What happens after the push: the refund ledger, the gift request, the counter, the loan book.\<close>

definition record_refund :: "transaction option \<Rightarrow> append_opts \<Rightarrow> transaction \<Rightarrow> (ledger, unit) act" where
  "record_refund original opts txn w =
     (if \<not> truthy_str (op_reverses opts) then (Inr (), w)
      else case op_refund_units opts of
        Some n \<Rightarrow> (Inr (), w\<lparr>refund_amounts := (refund_amounts w)(t_id txn \<mapsto> n)\<rparr>)
      | None \<Rightarrow> (case original of
            None \<Rightarrow> (Inl TypeError, w)
          | Some t \<Rightarrow> (Inr (), w\<lparr>refund_amounts := (refund_amounts w)(t_id txn \<mapsto> original_amount t)\<rparr>)))"

definition refund_gift :: "transaction option \<Rightarrow> posting list \<Rightarrow> (ledger, unit) act" where
  "refund_gift original ps w = (case original of
     None \<Rightarrow> (Inr (), w)
   | Some t \<Rightarrow> if \<not> truthy_nat (t_gift_request t) then (Inr (), w)
       else (case commerce_refunded (the (t_gift_request t)) (js_sum (map (\<lambda>p. max 0 (p_amount p)) ps)) (commerce_book w) of
           Inl e \<Rightarrow> (Inl e, w)
         | Inr c \<Rightarrow> (Inr (), w\<lparr>commerce_book := c\<rparr>)))"

definition is_loan_reference :: "append_opts \<Rightarrow> bool" where
  "is_loan_reference opts \<longleftrightarrow> (case op_reference opts of None \<Rightarrow> False | Some r \<Rightarrow> starts_with ''loan-'' r)"

definition settle_append :: "posting list \<Rightarrow> append_opts \<Rightarrow> transaction \<Rightarrow> ledger \<Rightarrow> ledger" where
  "settle_append ps opts txn w = w\<lparr>revision := Suc (revision w),
     lending_book := cash_changed (map p_account ps) (is_loan_reference opts) (lending_book w)\<rparr>"

definition append_checked ::
  "transaction_kind \<Rightarrow> string \<Rightarrow> string \<Rightarrow> posting list \<Rightarrow> append_opts \<Rightarrow> (ledger, transaction) act" where
  "append_checked kind actor description ps opts w =
     (case now w of (created, w1) \<Rightarrow>
        let original = original_of w opts in
        case with_delivery kind actor description ps opts (bare_txn w kind actor description ps opts created)
               (w1\<lparr>next_txn := Suc (next_txn w1)\<rparr>) of (txn, w2) \<Rightarrow>
          and_then (record_refund original opts txn)
            (\<lambda>_. and_then (refund_gift original ps)
            (\<lambda>_ w. (Inr txn, settle_append ps opts txn w))) (push_txn txn w2))"

definition append_txn ::
  "transaction_kind \<Rightarrow> string \<Rightarrow> string \<Rightarrow> posting list \<Rightarrow> append_opts \<Rightarrow> (ledger, transaction) act" where
  "append_txn kind actor description ps opts w = guarded
     [throw_if (unbalanced ps) (DemoError 500 ''unbalanced'' ''That transaction does not balance.''),
      throw_if (\<not> op_allow_overdraft opts \<and> list_ex (overdraws w) ps)
        (DemoError 400 ''insufficient_funds'' ''There are not enough coins.'')]
     (append_checked kind actor description ps opts) w"

section \<open>Transfers, issuance and retirement\<close>

record economic =
  ec_kind :: economic_kind
  ec_thing :: "string option"
  ec_quantity :: num
  ec_unit :: economic_unit

definition economic_opts :: "economic option \<Rightarrow> append_opts" where
  "economic_opts e = (case e of None \<Rightarrow> no_opts
     | Some e \<Rightarrow> no_opts\<lparr>op_economic_kind := Some (ec_kind e), op_thing := ec_thing e,
         op_quantity_milli := Some (ec_quantity e), op_unit := Some (ec_unit e)\<rparr>)"

definition is_nana_account :: "ledger \<Rightarrow> string \<Rightarrow> bool" where
  "is_nana_account w account = (case user_by_account w account of Some u \<Rightarrow> u_role u = Nana | None \<Rightarrow> False)"

definition transfer :: "user \<Rightarrow> string \<Rightarrow> num \<Rightarrow> string \<Rightarrow> economic option \<Rightarrow> (ledger, transaction) act" where
  "transfer actor recipient amount memo economic w = guarded
     [require_active actor,
      (if amount = 0 then throw_if (trim memo = [] \<or> utf8_length memo > 96)
                            (DemoError 400 ''invalid_input'' ''Write a message of at most 96 bytes.'')
       else require_amount amount),
      throw_if (recipient = u_account actor) (DemoError 400 ''self_deal'' ''You cannot pay yourself.''),
      require_user_account w recipient,
      throw_if ((case economic of Some e \<Rightarrow> ec_kind e = Labor | None \<Rightarrow> False) \<and> is_nana_account w recipient)
        (DemoError 403 ''forbidden'' ''Nana cannot sell labor.'')]
     (append_txn (if amount = 0 then Message else Transfer) (u_id actor) memo
        [posting (u_account actor) (- amount), posting recipient amount] (economic_opts economic)) w"

definition issue :: "user \<Rightarrow> string \<Rightarrow> num \<Rightarrow> string \<Rightarrow> (ledger, transaction) act" where
  "issue actor recipient amount reason w = guarded
     [require_nana actor, require_amount amount, require_user_account w recipient]
     (append_txn Issue (u_id actor) reason
        [posting SYSTEM_ISSUANCE (- amount), posting recipient amount] no_opts) w"

definition retire :: "user \<Rightarrow> string \<Rightarrow> num \<Rightarrow> string \<Rightarrow> (ledger, transaction) act" where
  "retire actor payer amount reason w = guarded
     [require_nana actor, require_amount amount, require_user_account w payer]
     (append_txn Retire (u_id actor) reason
        [posting payer (- amount), posting SYSTEM_ISSUANCE amount] no_opts) w"

text \<open>A dollar transaction: no epoch, no decimals, and no refund fields.\<close>

definition usd_txn ::
  "nat \<Rightarrow> transaction_kind \<Rightarrow> int \<Rightarrow> string \<Rightarrow> string \<Rightarrow> string option \<Rightarrow> posting list \<Rightarrow> transaction" where
  "usd_txn n kind created actor description reference ps =
     \<lparr>t_fulfillment = None, t_id = usd_txn_id n, t_kind = kind, t_created_at = created, t_actor = actor,
      t_description = description, t_reference = reference, t_reverses = None, t_economic_kind = None,
      t_thing = None, t_thing_name = None, t_quantity_milli = None, t_unit = None, t_postings = ps,
      t_money_epoch = None, t_decimals = None, t_gift_request = None, t_art = None\<rparr>"

definition issue_usd :: "user \<Rightarrow> string \<Rightarrow> num \<Rightarrow> string \<Rightarrow> (ledger, transaction) act" where
  "issue_usd actor recipient cents reason w = guarded
     [require_active actor, require_nana actor, require_amount cents, require_user_account w recipient]
     (\<lambda>w. case now (w\<lparr>usd_balances := (usd_balances w)(recipient \<mapsto> js_add (usd_of w recipient) cents),
                     next_txn := Suc (next_txn w)\<rparr>) of (created, w1) \<Rightarrow>
        let t = usd_txn (next_txn w) Issue created (u_id actor) reason None
              [\<lparr>p_account = USD_ISSUANCE, p_name = ''USD issuance'', p_amount = - cents\<rparr>,
               \<lparr>p_account = recipient @ ''-usd'', p_name = name_of w recipient, p_amount = cents\<rparr>]
        in (Inr t, (push_txn t w1)\<lparr>revision := Suc (revision w1)\<rparr>)) w"

section \<open>Bearer vouchers\<close>

text \<open>The 32 random bytes of a token are an argument.\<close>

definition TOKEN_PREFIX :: string where "TOKEN_PREFIX = ''DEMO-NN-''"

definition digest_nickle :: "string \<Rightarrow> string" where
  "digest_nickle token = to_hex (digest_sha256 (utf8_bytes token))"

definition is_lower_hex :: "char \<Rightarrow> bool" where
  "is_lower_hex c \<longleftrightarrow> is_digit c \<or> (97 \<le> (of_char c :: nat) \<and> (of_char c :: nat) \<le> 102)"

definition is_token :: "string \<Rightarrow> bool" where
  "is_token s \<longleftrightarrow> starts_with TOKEN_PREFIX s \<and> length s = 72 \<and> list_all is_lower_hex (drop 8 s)"

definition create_nickle ::
  "user \<Rightarrow> num \<Rightarrow> bool \<Rightarrow> byte list \<Rightarrow> (ledger, string \<times> num \<times> string) act" where
  "create_nickle actor amount fresh_money random w =
     (let token = TOKEN_PREFIX @ to_hex random; digest = digest_nickle token;
          serial = ''NN-'' @ show_nat (next_nickle w) in
      guarded
       [require_active actor, require_amount amount, (if fresh_money then require_nana actor else None),
        throw_if (length (nickles w) \<ge> 128)
          (DemoError 409 ''capacity'' ''Redeem outstanding vouchers before creating more.''),
        throw_if (map_of (nickles w) digest \<noteq> None) (DemoError 409 ''collision'' ''Please try again.'')]
       (and_then (append_txn (if fresh_money then Issue else Transfer) (u_id actor) (''Create nana-nickle '' @ serial)
           [posting (if fresh_money then SYSTEM_ISSUANCE else u_account actor) (- amount),
            posting NICKLE_RESERVE amount] (no_opts\<lparr>op_reference := Some (''nickle:'' @ serial)\<rparr>))
         (\<lambda>_ w. (Inr (token, amount, serial),
            w\<lparr>nickles := AList.update digest \<lparr>nk_amount = amount, nk_serial = serial, nk_issuer = u_id actor\<rparr> (nickles w),
              next_nickle := Suc (next_nickle w)\<rparr>))) w)"

definition UNKNOWN_VOUCHER :: exn where
  "UNKNOWN_VOUCHER = DemoError 400 ''invalid_voucher'' ''Unknown or already redeemed voucher.''"

definition redeem_nickle :: "user \<Rightarrow> string \<Rightarrow> (ledger, transaction) act" where
  "redeem_nickle actor token w =
     (let digest = digest_nickle token in
      guarded [require_active actor, throw_if (\<not> is_token token) UNKNOWN_VOUCHER]
       (\<lambda>w. case map_of (nickles w) digest of
          None \<Rightarrow> (Inl UNKNOWN_VOUCHER, w)
        | Some v \<Rightarrow> guarded
            [throw_if (nk_issuer v = u_id actor) (DemoError 403 ''self_redemption''
               ''You cannot redeem a voucher you issued. Give it to someone else.'')]
            (and_then (append_txn Transfer (u_id actor) (''Redeem nana-nickle '' @ nk_serial v)
                [posting NICKLE_RESERVE (- nk_amount v), posting (u_account actor) (nk_amount v)]
                (no_opts\<lparr>op_reference := Some (''nickle:'' @ nk_serial v)\<rparr>))
              (\<lambda>t w. (Inr t, w\<lparr>nickles := AList.delete digest (nickles w)\<rparr>))) w) w)"

section \<open>Members\<close>

definition account_of :: "string \<Rightarrow> string" where
  "account_of i = ''account-'' @ i"

definition add_user :: "string \<Rightarrow> string \<Rightarrow> string \<Rightarrow> role \<Rightarrow> (ledger, user) act" where
  "add_user name shown pass role w = guarded
     [throw_if (user_by_name w name \<noteq> None)
        (DemoError 409 ''username_taken'' (''There is already a '' @ name @ ''.''))]
     (\<lambda>w. let i = ''user-'' @ show_nat (next_id w) in
        case now (w\<lparr>next_id := Suc (next_id w)\<rparr>) of (created, w1) \<Rightarrow>
          let u = \<lparr>u_id = i, username = name, display_name = (if shown = [] then name else shown),
                   u_role = role, u_status = UserActive, u_account = account_of i,
                   u_created_at = created, bio = None, password = pass\<rparr>
          in (Inr u, w1\<lparr>users := users w1 @ [u]\<rparr>)) w"

definition provision :: "string \<Rightarrow> string \<Rightarrow> string \<Rightarrow> string \<Rightarrow> (ledger, user_view) act" where
  "provision name shown pass house w = guarded
     [throw_if (provisioned w) (DemoError 409 ''already_provisioned'' ''This household already exists.'')]
     (and_then (\<lambda>w. add_user name shown pass Nana (w\<lparr>household := (if house = [] then household w else house)\<rparr>))
       (\<lambda>u w. let w' = w\<lparr>provisioned := True\<rparr> in (Inr (view w' u (Some u)), w'))) w"

definition NO_MEMBER :: exn where "NO_MEMBER = DemoError 404 ''not_found'' ''No such member.''"

definition with_user :: "string \<Rightarrow> (user \<Rightarrow> (ledger, 'a) act) \<Rightarrow> (ledger, 'a) act" where
  "with_user i k w = (case user_by_id w i of None \<Rightarrow> (Inl NO_MEMBER, w) | Some u \<Rightarrow> k u w)"

definition save_user :: "user \<Rightarrow> user \<Rightarrow> (ledger, user_view) act" where
  "save_user actor u w = (let w' = put_user u w in (Inr (view w' u (Some actor)), w'))"

definition set_user_status :: "user \<Rightarrow> string \<Rightarrow> user_status \<Rightarrow> (ledger, user_view) act" where
  "set_user_status actor i s = guarded [require_nana actor] (with_user i (\<lambda>u. guarded
     [throw_if (u_id u = u_id actor) (DemoError 400 ''bad_request'' ''Nana cannot disable herself.'')]
     (save_user actor (u\<lparr>u_status := s\<rparr>))))"

definition set_user_bio :: "user \<Rightarrow> string \<Rightarrow> string \<Rightarrow> (ledger, user_view) act" where
  "set_user_bio actor i text = with_user i (\<lambda>u. guarded
     [throw_if (u_id actor \<noteq> u_id u) (DemoError 403 ''forbidden'' ''Only you can write your profile.''),
      throw_if (utf8_length text > 96 \<or> has_control text)
        (DemoError 400 ''bad_request'' ''Keep it to one line of at most 96 bytes.'')]
     (save_user actor (u\<lparr>bio := Some text\<rparr>)))"

definition set_user_password :: "user \<Rightarrow> string \<Rightarrow> string \<Rightarrow> (ledger, user_view) act" where
  "set_user_password actor i pass = with_user i (\<lambda>u. guarded
     [throw_if (u_role actor \<noteq> Nana \<and> u_id actor \<noteq> u_id u)
        (DemoError 403 ''forbidden'' ''You can only change your own password.''),
      throw_if (length pass < 4) (DemoError 400 ''bad_request'' ''The password must be at least 4 characters.'')]
     (save_user actor (u\<lparr>password := pass\<rparr>)))"

end
