(* ===== verification/LedgerMarket.thy ===== *)
theory LedgerMarket
  imports LedgerCore
begin

text \<open>
  \<open>demo/ledger.ts\<close>, the marketplace: listings, things, purchases, and the offers that negotiate
  them. Paying and closing are one operation: the payment is appended first and what follows it
  cannot fail.
\<close>

section \<open>Listings\<close>

record listing_input =
  li_title :: string
  li_description :: string
  li_price :: num
  li_side :: "listing_side option"
  li_kind :: "string option"
  li_currency :: "string option"
  li_minor_units :: "num option"
  li_economic_kind :: "economic_kind option"
  li_thing :: "string option"
  li_quantity_milli :: "num option"
  li_unit :: "economic_unit option"
  li_standard :: "bool option"

definition listing_refusals :: "user \<Rightarrow> listing_input \<Rightarrow> exn option list" where
  "listing_refusals actor i =
     [require_active actor, require_amount (li_price i),
      throw_if (trim (li_title i) = []) (DemoError 400 ''bad_request'' ''A listing needs a title.''),
      throw_if (li_side i \<noteq> Some Buy \<and> li_economic_kind i = Some Labor \<and> u_role actor = Nana)
        (DemoError 403 ''forbidden'' ''Nana cannot sell labor.''),
      throw_if (li_kind i = Some GOOD_DEED
          \<and> (u_role actor \<noteq> Nana \<or> li_side i \<noteq> Some Buy \<or> truthy_str (li_currency i) \<or> truthy_num (li_minor_units i)))
        (DemoError 403 ''forbidden'' ''Only Nana posts good deeds, as a reward she pays.'')]"

definition make_listing :: "user \<Rightarrow> listing_input \<Rightarrow> nat \<Rightarrow> int \<Rightarrow> int \<Rightarrow> listing" where
  "make_listing actor i n created updated =
     \<lparr>l_id = ''listing-'' @ show_nat n, l_seller = u_account actor, l_seller_name = display_name actor,
      l_title = trim (li_title i), l_description = trim (li_description i), l_price = li_price i,
      l_status = ListingActive, l_created_at = created, l_updated_at = updated,
      l_buyer = None, l_buyer_name = None, l_sold_tx = None,
      l_kind = li_kind i, l_currency = li_currency i, l_minor_units = li_minor_units i,
      l_economic_kind = li_economic_kind i,
      l_thing = (case li_thing i of Some t \<Rightarrow> Some t
        | None \<Rightarrow> if li_economic_kind i \<noteq> None then Some (''thing-demo-'' @ to_lower (trim (li_title i))) else None),
      l_quantity_milli = li_quantity_milli i, l_unit = li_unit i, l_standard = li_standard i,
      l_side = Some (case li_side i of Some s \<Rightarrow> s | None \<Rightarrow> Sell)\<rparr>"

definition create_listing :: "user \<Rightarrow> listing_input \<Rightarrow> (ledger, listing) act" where
  "create_listing actor i = guarded (listing_refusals actor i)
     (\<lambda>w. case now (w\<lparr>next_id := Suc (next_id w)\<rparr>) of (created, w1) \<Rightarrow>
       (case now w1 of (updated, w2) \<Rightarrow>
          let l = make_listing actor i (next_id w) created updated in
          (Inr l, w2\<lparr>listings := listings w2 @ [l]\<rparr>)))"

definition newest_first :: "('a \<Rightarrow> int) \<Rightarrow> 'a list \<Rightarrow> 'a list" where
  "newest_first key xs = sort_key (\<lambda>x. - key x) xs"

definition all_listings :: "listing_status option \<Rightarrow> ledger \<Rightarrow> listing list" where
  "all_listings s w = newest_first l_created_at
     (case s of None \<Rightarrow> listings w | Some s \<Rightarrow> filter (\<lambda>l. l_status l = s) (listings w))"

definition thing_of :: "(string \<times> thing) list \<Rightarrow> listing \<Rightarrow> (string \<times> thing) list" where
  "thing_of things l = (case (l_thing l, l_economic_kind l, l_unit l) of
     (Some i, Some k, Some u) \<Rightarrow> if i = [] then things else
       let previous = map_of things i in
       AList.update i \<lparr>th_id = i, th_name = l_title l, th_economic_kind = k, th_unit = u,
         th_standard = ((case previous of Some p \<Rightarrow> th_standard p | None \<Rightarrow> False) \<or> l_standard l = Some True),
         th_updated_at = max (case previous of Some p \<Rightarrow> th_updated_at p | None \<Rightarrow> 0) (l_updated_at l)\<rparr> things
   | _ \<Rightarrow> things)"

definition all_things :: "ledger \<Rightarrow> thing list" where
  "all_things w = newest_first th_updated_at (map snd (foldl thing_of [] (listings w)))"

definition LISTING_CLOSED :: exn where
  "LISTING_CLOSED = DemoError 409 ''listing_closed'' ''That listing is already closed.''"

definition with_listing :: "string \<Rightarrow> (listing \<Rightarrow> (ledger, 'a) act) \<Rightarrow> (ledger, 'a) act" where
  "with_listing i k w = (case listing_by_id w i of Inl e \<Rightarrow> (Inl e, w) | Inr l \<Rightarrow> k l w)"

definition cancel_listing :: "user \<Rightarrow> string \<Rightarrow> (ledger, listing) act" where
  "cancel_listing actor i = with_listing i (\<lambda>l. guarded
     [throw_if (l_seller l \<noteq> u_account actor \<and> u_role actor \<noteq> Nana)
        (DemoError 403 ''forbidden'' ''That is not yours to cancel.''),
      throw_if (l_status l \<noteq> ListingActive) LISTING_CLOSED]
     (\<lambda>w. case now w of (t, w1) \<Rightarrow>
        let l' = l\<lparr>l_status := ListingCancelled, l_updated_at := t\<rparr> in (Inr l', put_listing l' w1)))"

text \<open>The payment for a listing carries what the listing says it is for.\<close>

definition listing_opts :: "listing \<Rightarrow> append_opts" where
  "listing_opts l = no_opts\<lparr>op_reference := Some (l_id l), op_economic_kind := l_economic_kind l,
     op_thing := l_thing l, op_thing_name := Some (l_title l), op_quantity_milli := l_quantity_milli l,
     op_unit := l_unit l\<rparr>"

definition sell_to :: "listing \<Rightarrow> string \<Rightarrow> string option \<Rightarrow> string \<Rightarrow> (ledger, listing) act" where
  "sell_to l buyer name tx w = (case now w of (t, w1) \<Rightarrow>
     let l' = l\<lparr>l_status := Sold, l_buyer := Some buyer, l_buyer_name := name, l_sold_tx := Some tx,
                l_updated_at := t\<rparr> in (Inr l', put_listing l' w1))"

definition purchase :: "user \<Rightarrow> string \<Rightarrow> (ledger, listing \<times> transaction) act" where
  "purchase actor i = guarded [require_active actor] (with_listing i (\<lambda>l w. guarded
     [throw_if (l_status l \<noteq> ListingActive) LISTING_CLOSED,
      throw_if (l_seller l = u_account actor) (DemoError 400 ''self_deal'' ''You cannot buy your own listing.''),
      throw_if (l_kind l = Some GOOD_DEED)
        (DemoError 403 ''forbidden'' ''Claim a good deed with an offer; Nana accepts it.''),
      throw_if (l_economic_kind l = Some Labor \<and> is_nana_account w (l_seller l))
        (DemoError 403 ''forbidden'' ''Nana cannot sell labor.'')]
     (and_then (append_txn Purchase (u_id actor) (l_title l)
         [posting (u_account actor) (- l_price l), posting (l_seller l) (l_price l)] (listing_opts l))
       (\<lambda>txn. and_then (sell_to l (u_account actor) (Some (display_name actor)) (t_id txn))
         (\<lambda>l' w. (Inr (l', txn), w)))) w))"

section \<open>Offers\<close>

definition has_open_offer :: "ledger \<Rightarrow> string \<Rightarrow> string \<Rightarrow> bool" where
  "has_open_offer w listing_id account \<longleftrightarrow>
     list_ex (\<lambda>x. o_listing x = listing_id \<and> o_offerer x = account \<and> o_status x = OfferOpen) (offers w)"

definition make_offer :: "user \<Rightarrow> string \<Rightarrow> num \<Rightarrow> string \<Rightarrow> (ledger, offer) act" where
  "make_offer actor listing_id amount message = guarded [require_active actor, require_amount amount]
     (with_listing listing_id (\<lambda>l w. guarded
       [throw_if (l_status l \<noteq> ListingActive) LISTING_CLOSED,
        throw_if (l_seller l = u_account actor) (DemoError 400 ''self_deal'' ''You cannot offer on your own listing.''),
        throw_if (has_open_offer w listing_id (u_account actor))
          (DemoError 409 ''conflict'' ''You already have an open offer on this listing.'')]
       (\<lambda>w. case now (w\<lparr>next_id := Suc (next_id w)\<rparr>) of (created, w1) \<Rightarrow> (case now w1 of (updated, w2) \<Rightarrow>
          let x = \<lparr>o_id = ''offer-'' @ show_nat (next_id w), o_listing = l_id l, o_listing_title = l_title l,
                   o_listing_owner = l_seller l, o_listing_owner_name = name_of w (l_seller l),
                   o_listing_side = (case l_side l of Some s \<Rightarrow> s | None \<Rightarrow> Sell),
                   o_offerer = u_account actor, o_offerer_name = display_name actor, o_amount = amount,
                   o_message = message, o_status = OfferOpen, o_created_at = created, o_updated_at = updated,
                   o_settled_tx = None\<rparr>
          in (Inr x, w2\<lparr>offers := offers w2 @ [x]\<rparr>))) w))"

definition offers_for :: "user \<Rightarrow> ledger \<Rightarrow> offer list" where
  "offers_for actor w =
     (let mine = map l_id (filter (\<lambda>l. l_seller l = u_account actor) (listings w)) in
      newest_first o_created_at
        (filter (\<lambda>x. o_offerer x = u_account actor \<or> o_listing x \<in> set mine) (offers w)))"

definition outstanding_offers :: "user \<Rightarrow> string \<Rightarrow> ledger \<Rightarrow> offer list res" where
  "outstanding_offers viewer i w = (case user_by_id w i of
     None \<Rightarrow> Inl NO_MEMBER
   | Some subject \<Rightarrow>
       let owned = map l_id (filter (\<lambda>l. l_seller l = u_account viewer) (listings w));
           active = map l_id (filter (\<lambda>l. l_status l = ListingActive) (listings w)) in
       Inr (newest_first o_created_at (map
         (\<lambda>x. if u_role viewer = Nana \<or> o_offerer x = u_account viewer \<or> o_listing x \<in> set owned
              then x else x\<lparr>o_message := ''''\<rparr>)
         (filter (\<lambda>x. o_offerer x = u_account subject \<and> o_status x = OfferOpen \<and> o_listing x \<in> set active)
            (offers w)))))"

definition OFFER_CLOSED :: exn where
  "OFFER_CLOSED = DemoError 409 ''offer_closed'' ''That offer is no longer open.''"

definition with_offer :: "string \<Rightarrow> (offer \<Rightarrow> (ledger, 'a) act) \<Rightarrow> (ledger, 'a) act" where
  "with_offer i k w = (case offer_by_id w i of Inl e \<Rightarrow> (Inl e, w) | Inr x \<Rightarrow> k x w)"

definition close_offer :: "offer \<Rightarrow> offer_status \<Rightarrow> string option \<Rightarrow> (ledger, offer) act" where
  "close_offer x s tx w = (case now w of (t, w1) \<Rightarrow>
     let x' = x\<lparr>o_status := s, o_settled_tx := tx, o_updated_at := t\<rparr> in (Inr x', put_offer x' w1))"

definition is_rival :: "string \<Rightarrow> string \<Rightarrow> offer \<Rightarrow> bool" where
  "is_rival listing_id i x \<longleftrightarrow> o_listing x = listing_id \<and> o_status x = OfferOpen \<and> o_id x \<noteq> i"

text \<open>Every other open offer on a sold listing is closed, with a clock reading each.\<close>

fun close_rivals :: "string \<Rightarrow> string \<Rightarrow> offer list \<Rightarrow> ledger \<Rightarrow> offer list \<times> ledger" where
  "close_rivals listing_id i [] w = ([], w)"
| "close_rivals listing_id i (x # xs) w =
     (if is_rival listing_id i x
      then (case now w of (t, w1) \<Rightarrow> (case close_rivals listing_id i xs w1 of (ys, w2) \<Rightarrow>
              (x\<lparr>o_status := NotSelected, o_updated_at := t\<rparr> # ys, w2)))
      else (case close_rivals listing_id i xs w of (ys, w1) \<Rightarrow> (x # ys, w1)))"

definition offer_payer :: "listing \<Rightarrow> offer \<Rightarrow> string" where
  "offer_payer l x = (if l_kind l = Some GOOD_DEED then SYSTEM_ISSUANCE
     else if l_side l = Some Buy then l_seller l else o_offerer x)"

definition offer_payee :: "listing \<Rightarrow> offer \<Rightarrow> string" where
  "offer_payee l x = (if l_side l = Some Buy then o_offerer x else l_seller l)"

definition touch_listing :: "listing \<Rightarrow> (ledger, listing) act" where
  "touch_listing l w = (case now w of (t, w1) \<Rightarrow>
     let l' = l\<lparr>l_updated_at := t\<rparr> in (Inr l', put_listing l' w1))"

text \<open>What acceptance does once the money has moved.\<close>

definition settle_offer :: "listing \<Rightarrow> offer \<Rightarrow> transaction \<Rightarrow> (ledger, offer \<times> transaction \<times> listing) act" where
  "settle_offer l x txn = and_then (close_offer x Accepted (Some (t_id txn)))
     (\<lambda>x'. if l_kind l = Some GOOD_DEED
       then and_then (touch_listing l) (\<lambda>l' w. (Inr (x', txn, l'), w))
       else (\<lambda>w. let buyer = (if l_side l = Some Buy then l_seller l else o_offerer x) in
         and_then (sell_to l buyer (map_option display_name (user_by_account w buyer)) (t_id txn))
           (\<lambda>l' w. case close_rivals (l_id l) (o_id x) (offers w) w of (xs, w') \<Rightarrow>
              (Inr (x', txn, l'), w'\<lparr>offers := xs\<rparr>)) w))"

definition accept_offer :: "user \<Rightarrow> string \<Rightarrow> (ledger, offer \<times> transaction \<times> listing) act" where
  "accept_offer actor i = with_offer i (\<lambda>x. with_listing (o_listing x) (\<lambda>l w. guarded
     [throw_if (l_seller l \<noteq> u_account actor)
        (DemoError 403 ''forbidden'' ''Only the person who posted it can accept.''),
      throw_if (o_status x \<noteq> OfferOpen) OFFER_CLOSED,
      throw_if (l_economic_kind l = Some Labor \<and> is_nana_account w (offer_payee l x))
        (DemoError 403 ''forbidden'' ''Nana cannot sell labor.'')]
     (and_then (append_txn (if l_kind l = Some GOOD_DEED then Issue else Purchase) (u_id actor) (l_title l)
         [posting (offer_payer l x) (- o_amount x), posting (offer_payee l x) (o_amount x)] (listing_opts l))
       (settle_offer l x)) w))"

definition decline_offer :: "user \<Rightarrow> string \<Rightarrow> (ledger, offer) act" where
  "decline_offer actor i = with_offer i (\<lambda>x. with_listing (o_listing x) (\<lambda>l. guarded
     [throw_if (l_seller l \<noteq> u_account actor)
        (DemoError 403 ''forbidden'' ''Only the person who posted it can decline.''),
      throw_if (o_status x \<noteq> OfferOpen) OFFER_CLOSED]
     (close_offer x Declined (o_settled_tx x))))"

definition withdraw_offer :: "user \<Rightarrow> string \<Rightarrow> (ledger, offer) act" where
  "withdraw_offer actor i = with_offer i (\<lambda>x. guarded
     [throw_if (o_offerer x \<noteq> u_account actor) (DemoError 403 ''forbidden'' ''That is not your offer.''),
      throw_if (o_status x \<noteq> OfferOpen) OFFER_CLOSED]
     (close_offer x Withdrawn (o_settled_tx x)))"

end
