(* ===== verification/LedgerForex.thy ===== *)
theory LedgerForex
  imports LedgerCore
begin

text \<open>
  \<open>demo/ledger.ts\<close>, foreign exchange: quotes of coins against recorded dollars. Taking a quote
  moves dollars first, in the dollar map, then coins through \<open>append\<close>, then records the dollar side
  as a transaction of its own.
\<close>

definition quote_key :: "quote \<Rightarrow> num" where
  "quote_key q = (if q_side q = Ask then q_cents_per_coin q else - q_cents_per_coin q)"

text \<open>Asks before bids, each side with the best rate first.\<close>

definition all_quotes :: "ledger \<Rightarrow> quote list" where
  "all_quotes w = sort_key quote_key (filter (\<lambda>q. q_side q = Ask) (quotes w))
     @ sort_key quote_key (filter (\<lambda>q. q_side q = Bid) (quotes w))"

definition quote_total :: "num \<Rightarrow> num \<Rightarrow> int res" where
  "quote_total cents_per_coin coins = (case to_bigint cents_per_coin of Inl e \<Rightarrow> Inl e
     | Inr c \<Rightarrow> (case to_bigint coins of Inl e \<Rightarrow> Inl e | Inr n \<Rightarrow> Inr (c * n)))"

definition quote_bad :: "int \<Rightarrow> int \<Rightarrow> bool" where
  "quote_bad tot scale \<longleftrightarrow> big_mod tot scale \<noteq> 0 \<or> big_div tot scale \<le> 0
     \<or> big_div tot scale > 1000000000000000"

definition post_quote :: "user \<Rightarrow> quote_side \<Rightarrow> num \<Rightarrow> num \<Rightarrow> (ledger, quote) act" where
  "post_quote actor side cents_per_coin coins w = guarded
     [require_active actor, require_amount cents_per_coin, require_amount coins]
     (\<lambda>w. case quote_total cents_per_coin coins of Inl e \<Rightarrow> (Inl e, w) | Inr tot \<Rightarrow>
        let scale = 10 ^ decimals w in guarded
        [throw_if (quote_bad tot scale)
           (DemoError 400 ''bad_request'' ''That exchange rate or quantity is invalid.'')]
        (\<lambda>w. case now w of (created, w1) \<Rightarrow>
           let q = \<lparr>q_id = ''quote-'' @ show_nat (next_id w1), q_maker = u_account actor,
                    q_maker_name = display_name actor, q_side = side, q_cents_per_coin = cents_per_coin,
                    q_coins = coins, q_cents = of_bigint (big_div tot scale), q_status = QuoteOpen,
                    q_created_at = created, q_updated_at = created, q_live = True,
                    q_taker = None, q_taker_name = None, q_coin_tx = None, q_cash_tx = None\<rparr>
           in (Inr q, w1\<lparr>next_id := Suc (next_id w1), quotes := quotes w1 @ [q]\<rparr>)) w) w"

definition find_quote :: "ledger \<Rightarrow> string \<Rightarrow> quote option" where
  "find_quote w i = find (\<lambda>q. q_id q = i) (quotes w)"

definition coin_seller :: "user \<Rightarrow> quote \<Rightarrow> string" where
  "coin_seller actor q = (if q_side q = Ask then q_maker q else u_account actor)"

definition coin_buyer :: "user \<Rightarrow> quote \<Rightarrow> string" where
  "coin_buyer actor q = (if q_side q = Ask then u_account actor else q_maker q)"

definition move_usd :: "string \<Rightarrow> string \<Rightarrow> num \<Rightarrow> ledger \<Rightarrow> ledger" where
  "move_usd payer payee cents w =
     (let w1 = w\<lparr>usd_balances := (usd_balances w)(payer \<mapsto> js_sub (usd_of w payer) cents)\<rparr> in
      w1\<lparr>usd_balances := (usd_balances w1)(payee \<mapsto> js_add (usd_of w1 payee) cents)\<rparr>)"

record trade_result =
  tr_quote :: quote
  tr_coin :: transaction_view
  tr_cash :: transaction

definition fill_quote :: "user \<Rightarrow> quote \<Rightarrow> transaction \<Rightarrow> (ledger, trade_result) act" where
  "fill_quote actor q coin w =
     (let payer = coin_buyer actor q; payee = coin_seller actor q;
          cash = usd_txn (next_txn w) Transfer (t_created_at coin) (u_id actor) ''Exchange'' (Some (q_id q))
            [\<lparr>p_account = payer @ ''-usd'', p_name = name_of w payer, p_amount = - q_cents q\<rparr>,
             \<lparr>p_account = payee @ ''-usd'', p_name = name_of w payee, p_amount = q_cents q\<rparr>];
          q' = q\<lparr>q_status := Filled, q_live := False, q_taker := Some (u_account actor),
                 q_taker_name := Some (display_name actor), q_updated_at := t_created_at coin,
                 q_coin_tx := Some (t_id coin), q_cash_tx := Some (t_id cash)\<rparr>;
          w' = put_quote q' (push_txn cash (w\<lparr>next_txn := Suc (next_txn w)\<rparr>))
      in (Inr \<lparr>tr_quote = q', tr_coin = named w' [coin] ! 0, tr_cash = cash\<rparr>, w'))"

definition NO_QUOTE :: exn where "NO_QUOTE = DemoError 404 ''not_found'' ''No such exchange rate.''"

definition take_quote :: "user \<Rightarrow> string \<Rightarrow> (ledger, trade_result) act" where
  "take_quote actor i = guarded [require_active actor] (\<lambda>w. case find_quote w i of
     None \<Rightarrow> (Inl NO_QUOTE, w)
   | Some q \<Rightarrow> guarded
       [throw_if (\<not> q_live q \<or> q_status q \<noteq> QuoteOpen)
          (DemoError 409 ''quote_closed'' ''That rate is no longer open.''),
        throw_if (q_maker q = u_account actor) (DemoError 400 ''self_deal'' ''You cannot take your own rate.''),
        throw_if (balance_of w (coin_seller actor q) < q_coins q)
          (DemoError 400 ''insufficient_funds'' ''The coin seller no longer has enough coins.''),
        throw_if (usd_of w (coin_buyer actor q) < q_cents q)
          (DemoError 400 ''insufficient_funds'' ''The buyer no longer has enough dollars.'')]
       (\<lambda>w. and_then (append_txn Transfer (u_id actor) ''Exchange''
            [posting (coin_seller actor q) (- q_coins q), posting (coin_buyer actor q) (q_coins q)]
            (no_opts\<lparr>op_reference := Some (q_id q)\<rparr>))
          (fill_quote actor q) (move_usd (coin_buyer actor q) (coin_seller actor q) (q_cents q) w)) w)"

definition cancel_quote :: "user \<Rightarrow> string \<Rightarrow> (ledger, quote) act" where
  "cancel_quote actor i w = (case find_quote w i of
     None \<Rightarrow> (Inl NO_QUOTE, w)
   | Some q \<Rightarrow> guarded
       [throw_if (q_maker q \<noteq> u_account actor \<and> u_role actor \<noteq> Nana)
          (DemoError 403 ''forbidden'' ''That rate is not yours to withdraw.''),
        throw_if (q_status q \<noteq> QuoteOpen) (DemoError 409 ''quote_closed'' ''That rate is no longer open.'')]
       (\<lambda>w. case now w of (t, w1) \<Rightarrow>
          let q' = q\<lparr>q_status := QuoteCancelled, q_live := False, q_updated_at := t\<rparr> in
          (Inr q', put_quote q' w1)) w)"

end
