(* ===== verification/LedgerRefund.thy ===== *)
theory LedgerRefund
  imports LedgerCore
begin

text \<open>
  \<open>demo/ledger.ts\<close>, corrections: \<open>reverse\<close> appends the mirror image of a payment, \<open>refund\<close> returns
  part of it, and deliveries (\<open>fulfillments\<close>) go from to-do to done or disputed.
\<close>

section \<open>Reversal\<close>

definition reference_starts :: "string list \<Rightarrow> transaction \<Rightarrow> bool" where
  "reference_starts starts t \<longleftrightarrow> (case t_reference t of None \<Rightarrow> False
     | Some r \<Rightarrow> list_ex (\<lambda>p. starts_with p r) starts)"

definition has_usd :: "transaction \<Rightarrow> bool" where
  "has_usd t \<longleftrightarrow> list_ex (\<lambda>p. is_usd (p_account p)) (t_postings t)"

definition received_by :: "transaction \<Rightarrow> string option" where
  "received_by t = map_option p_account (find (\<lambda>p. p_amount p > 0) (t_postings t))"

definition paid_by :: "transaction \<Rightarrow> string option" where
  "paid_by t = map_option p_account (find (\<lambda>p. p_amount p < 0) (t_postings t))"

definition is_reversed :: "ledger \<Rightarrow> string \<Rightarrow> bool" where
  "is_reversed w i \<longleftrightarrow> list_ex (\<lambda>t. t_reverses t = Some i) (transactions w)"

definition reverse_refusals :: "user \<Rightarrow> transaction \<Rightarrow> ledger \<Rightarrow> exn option list" where
  "reverse_refusals actor t w =
     [throw_if (truthy_nat (t_art t) \<or> has_usd t \<or> refunded w t > 0) (DemoError 409 ''conflict''
        ''This payment needs its linked settlement or has already been refunded.''),
      throw_if (t_kind t = Message \<or> reference_starts [''nickle:'', ''loan-'', ''lotto-''] t)
        (DemoError 409 ''voucher_transaction''
          ''Bearer voucher transfers cannot be reversed independently of their voucher.''),
      throw_if (u_role actor \<noteq> Nana \<and> (received_by t \<noteq> Some (u_account actor)
          \<or> paid_by t = Some SYSTEM_ISSUANCE \<or> reference_starts [''quote-''] t))
        (DemoError 403 ''forbidden'' ''You can only refund money you received.''),
      throw_if (is_reversed w (t_id t)) (DemoError 409 ''already_reversed'' ''That has already been reversed.''),
      throw_if (t_kind t = Reversal) (DemoError 400 ''bad_request'' ''A correction cannot itself be reversed.'')]"

definition correction_opts :: "transaction \<Rightarrow> append_opts" where
  "correction_opts t = no_opts\<lparr>op_reverses := Some (t_id t), op_economic_kind := t_economic_kind t,
     op_thing := t_thing t, op_thing_name := t_thing_name t, op_quantity_milli := t_quantity_milli t,
     op_unit := t_unit t, op_gift_request := t_gift_request t\<rparr>"

definition negate_posting :: "posting \<Rightarrow> posting" where
  "negate_posting p = p\<lparr>p_amount := - p_amount p\<rparr>"

definition reverse_txn :: "user \<Rightarrow> string \<Rightarrow> string \<Rightarrow> (ledger, transaction) act" where
  "reverse_txn actor i reason = guarded [require_active actor] (\<lambda>w. case txn_by_id w i of
     None \<Rightarrow> (Inl (DemoError 404 ''not_found'' ''No such transaction.''), w)
   | Some t \<Rightarrow> guarded (reverse_refusals actor t w)
       (append_txn Reversal (u_id actor) reason (map negate_posting (current_postings w t))
         ((correction_opts t)\<lparr>op_allow_overdraft := (u_role actor = Nana), op_reference := t_reference t\<rparr>)) w)"

section \<open>Partial refunds\<close>

definition refund_refusals :: "user \<Rightarrow> transaction \<Rightarrow> posting \<Rightarrow> posting \<Rightarrow> num \<Rightarrow> num \<Rightarrow> ledger \<Rightarrow> exn option list" where
  "refund_refusals actor t recipient payer amount cash w =
     [throw_if (u_role actor \<noteq> Nana \<and> u_account actor \<noteq> p_account recipient)
        (DemoError 403 ''forbidden'' ''Only the recipient or Nana can refund.''),
      require_user_account w (p_account payer), require_user_account w (p_account recipient),
      throw_if (amount > js_sub (original_amount t) (refunded w t))
        (DemoError 409 ''conflict'' ''Refund exceeds the remaining payment.''),
      require_amount cash]"

definition refund_cash :: "ledger \<Rightarrow> transaction \<Rightarrow> num \<Rightarrow> num" where
  "refund_cash w t amount = js_mul amount (js_pow10 (exponent_of (epoch_exponents w) t))"

definition not_refundable :: "transaction \<Rightarrow> bool" where
  "not_refundable t \<longleftrightarrow> t_kind t \<notin> {Transfer, Purchase} \<or> truthy_nat (t_art t) \<or> has_usd t
     \<or> reference_starts [''quote-'', ''loan-'', ''lotto-'', ''nickle:''] t"

definition refund_parties ::
  "user \<Rightarrow> transaction \<Rightarrow> posting \<Rightarrow> posting \<Rightarrow> num \<Rightarrow> string \<Rightarrow> (ledger, transaction) act" where
  "refund_parties actor t recipient payer amount reason w =
     (let cash = refund_cash w t amount in
      guarded (refund_refusals actor t recipient payer amount cash w)
       (append_txn Reversal (u_id actor) reason
         [recipient\<lparr>p_amount := - cash\<rparr>, payer\<lparr>p_amount := cash\<rparr>]
         ((correction_opts t)\<lparr>op_refund_units := Some amount\<rparr>)) w)"

definition refund :: "user \<Rightarrow> string \<Rightarrow> num \<Rightarrow> string \<Rightarrow> (ledger, transaction) act" where
  "refund actor i amount reason = guarded [require_active actor, require_amount amount] (\<lambda>w.
     case txn_by_id w i of
       None \<Rightarrow> (Inl (DemoError 404 ''not_found'' ''No such transaction.''), w)
     | Some t \<Rightarrow> guarded [throw_if (not_refundable t)
           (DemoError 409 ''conflict'' ''This payment requires its linked settlement.'')]
         (\<lambda>w. case (find (\<lambda>p. p_amount p > 0) (t_postings t), find (\<lambda>p. p_amount p < 0) (t_postings t)) of
            (Some recipient, Some payer) \<Rightarrow> refund_parties actor t recipient payer amount reason w
          | _ \<Rightarrow> (Inl TypeError, w)) w)"

section \<open>Deliveries\<close>

definition fulfillments :: "user \<Rightarrow> ledger \<Rightarrow> fulfillment list res" where
  "fulfillments actor w = (case require_active actor of Some e \<Rightarrow> Inl e
     | None \<Rightarrow> Inr (filter (\<lambda>f. u_role actor = Nana \<or> f_provider f = u_account actor \<or> f_recipient f = u_account actor)
         (List.map_filter t_fulfillment (transactions w))))"

definition delivery_of :: "ledger \<Rightarrow> string \<Rightarrow> (transaction \<times> fulfillment) option" where
  "delivery_of w i = (case txn_by_id w i of None \<Rightarrow> None
     | Some t \<Rightarrow> map_option (\<lambda>f. (t, f)) (t_fulfillment t))"

fun action_allowed :: "fulfillment_action \<Rightarrow> fulfillment_status \<Rightarrow> bool" where
  "action_allowed Complete s = (s = Todo)"
| "action_allowed Dispute s = (s = Todo \<or> s = Done)"
| "action_allowed WithdrawDispute s = (s = Disputed)"

definition fulfillment_refusals :: "user \<Rightarrow> fulfillment \<Rightarrow> fulfillment_action \<Rightarrow> string \<Rightarrow> exn option list" where
  "fulfillment_refusals actor f action reason =
     [throw_if (has_control reason \<or> utf8_length reason > 96 \<or> (action = Dispute \<and> trim reason = []))
        (DemoError 400 ''invalid_input'' ''Enter a dispute reason of at most 96 bytes.''),
      throw_if (\<not> (u_account actor = f_recipient f \<or> (action = Complete \<and> u_account actor = f_provider f)))
        (DemoError 403 ''forbidden'' ''Only the responsible participant can do that.''),
      throw_if (\<not> action_allowed action (f_status f))
        (DemoError 409 ''conflict'' ''The fulfillment status has changed.'')]"

definition set_fulfillment :: "user \<Rightarrow> string \<Rightarrow> fulfillment_action \<Rightarrow> string \<Rightarrow> (ledger, fulfillment) act" where
  "set_fulfillment actor i action reason = guarded [require_active actor] (\<lambda>w. case delivery_of w i of
     None \<Rightarrow> (Inl (DemoError 404 ''not_found'' ''No delivery for this transaction.''), w)
   | Some (t, f) \<Rightarrow> guarded (fulfillment_refusals actor f action reason)
       (\<lambda>w. case now (w\<lparr>revision := Suc (revision w)\<rparr>) of (t_now, w1) \<Rightarrow>
          let s = (if action = Dispute then Disputed else Done);
              update = \<lparr>fu_id = ''fulfillment-'' @ show_nat (Suc (revision w)), fu_at = t_now,
                        fu_actor = u_account actor, fu_actor_name = display_name actor,
                        fu_status = s, fu_reason = reason\<rparr>;
              f' = f\<lparr>f_status := s, f_updates := slice_last 4 (f_updates f @ [update])\<rparr>
          in (Inr f', put_txn (t\<lparr>t_fulfillment := Some f'\<rparr>) w1)) w)"

end
