(* ===== verification/LedgerReform.thy ===== *)
theory LedgerReform
  imports LedgerMarket LedgerForex LedgerRefund
begin

text \<open>
  \<open>demo/ledger.ts\<close>, the currency reform: every stored amount is multiplied by a power of ten, in
  \<open>bigint\<close> arithmetic, and the reform is refused unless every one of them converts exactly. The
  converted values are collected first; only then, and only when it is not a preview, are they
  written. The journal is not rewritten: its epochs' exponents are.
\<close>

definition reform_convert :: "int \<Rightarrow> int \<Rightarrow> num \<Rightarrow> num res" where
  "reform_convert e limit value =
     (case to_bigint value of Inl x \<Rightarrow> Inl x | Inr n \<Rightarrow>
       let factor = 10 ^ nat \<bar>e\<bar> in
       if e < 0 \<and> big_mod n factor \<noteq> 0
       then Inl (DemoError 409 ''inexact_reform'' ''The reform would lose fractions.'')
       else let v = (if e < 0 then big_div n factor else n * factor) in
         if v > limit \<or> v < - limit then Inl (PlainError ''Reform exceeds amount limit.'')
         else Inr (of_bigint v))"

abbreviation (input) money_limit :: int where "money_limit \<equiv> 1000000000000000"
abbreviation (input) safe_limit :: int where "safe_limit \<equiv> 9007199254740991"

definition reform_listing :: "int \<Rightarrow> listing \<Rightarrow> listing res" where
  "reform_listing e l = (case reform_convert e money_limit (l_price l) of Inl x \<Rightarrow> Inl x
     | Inr v \<Rightarrow> Inr (l\<lparr>l_price := v\<rparr>))"

definition reform_offer :: "int \<Rightarrow> offer \<Rightarrow> offer res" where
  "reform_offer e x = (case reform_convert e money_limit (o_amount x) of Inl y \<Rightarrow> Inl y
     | Inr v \<Rightarrow> Inr (x\<lparr>o_amount := v\<rparr>))"

definition reform_quote :: "int \<Rightarrow> int \<Rightarrow> quote \<Rightarrow> quote res" where
  "reform_quote e pw q = (case reform_convert e money_limit (q_coins q) of Inl x \<Rightarrow> Inl x
     | Inr coins \<Rightarrow> (case reform_convert pw money_limit (q_cents_per_coin q) of Inl x \<Rightarrow> Inl x
        | Inr rate \<Rightarrow> Inr (q\<lparr>q_coins := coins, q_cents_per_coin := rate\<rparr>)))"

definition reform_nickle :: "int \<Rightarrow> string \<times> nickle \<Rightarrow> (string \<times> nickle) res" where
  "reform_nickle e kv = (case reform_convert e money_limit (nk_amount (snd kv)) of Inl x \<Rightarrow> Inl x
     | Inr v \<Rightarrow> Inr (fst kv, (snd kv)\<lparr>nk_amount := v\<rparr>))"

text \<open>The amounts that are checked to convert but not stored: the journal's and the balances.\<close>

definition journal_coin_amounts :: "ledger \<Rightarrow> num list" where
  "journal_coin_amounts w = concat (map (\<lambda>t. map p_amount
     (filter (\<lambda>p. \<not> is_usd (p_account p)) (current_postings w t))) (transactions w))"

record reform_plan =
  pl_listings :: "listing list"
  pl_offers :: "offer list"
  pl_quotes :: "quote list"
  pl_nickles :: "(string \<times> nickle) list"
  pl_circulation :: num
  pl_lending :: lending
  pl_draws :: "draw list"
  pl_commerce :: commerce

definition plan_reform :: "int \<Rightarrow> int \<Rightarrow> ledger \<Rightarrow> reform_plan res" where
  "plan_reform e pw w =
     (case map_res (reform_convert e money_limit) (journal_coin_amounts w) of Inl x \<Rightarrow> Inl x | Inr _ \<Rightarrow>
     (case map_res (reform_listing e) (listings w) of Inl x \<Rightarrow> Inl x | Inr ls \<Rightarrow>
     (case map_res (reform_offer e) (offers w) of Inl x \<Rightarrow> Inl x | Inr os \<Rightarrow>
     (case map_res (reform_quote e pw) (quotes w) of Inl x \<Rightarrow> Inl x | Inr qs \<Rightarrow>
     (case map_res (reform_nickle e) (nickles w) of Inl x \<Rightarrow> Inl x | Inr ns \<Rightarrow>
     (case map_res (\<lambda>u. reform_convert e safe_limit (balance_of w (u_account u))) (users w) of Inl x \<Rightarrow> Inl x | Inr _ \<Rightarrow>
     (case reform_convert e safe_limit (circulation w) of Inl x \<Rightarrow> Inl x | Inr c \<Rightarrow>
     (case lending_reform e (lending_book w) of Inl x \<Rightarrow> Inl x | Inr lb \<Rightarrow>
     (case lotto_reform (reform_convert e money_limit) (lotto_draws w) of Inl x \<Rightarrow> Inl x | Inr ds \<Rightarrow>
     (case commerce_reform (reform_convert e money_limit) (commerce_book w) of Inl x \<Rightarrow> Inl x | Inr cb \<Rightarrow>
        Inr \<lparr>pl_listings = ls, pl_offers = os, pl_quotes = qs, pl_nickles = ns, pl_circulation = c,
             pl_lending = lb, pl_draws = ds, pl_commerce = cb\<rparr>))))))))))"

definition apply_reform :: "int \<Rightarrow> nat \<Rightarrow> reform_plan \<Rightarrow> ledger \<Rightarrow> ledger" where
  "apply_reform e new_decimals pl w =
     w\<lparr>listings := pl_listings pl, offers := pl_offers pl, quotes := pl_quotes pl, nickles := pl_nickles pl,
       lending_book := pl_lending pl, lotto_draws := pl_draws pl, commerce_book := pl_commerce pl,
       epoch_exponents := map (\<lambda>x. x + e) (epoch_exponents w) @ [0],
       decimals := new_decimals, money_epoch := Suc (money_epoch w), revision := Suc (revision w)\<rparr>"

definition reform_input_bad :: "ledger \<Rightarrow> reform_input \<Rightarrow> bool" where
  "reform_input_bad w i \<longleftrightarrow> \<not> is_integer (ri_decimals i) \<or> ri_decimals i < 0 \<or> ri_decimals i > 8
     \<or> \<not> is_integer (ri_power i) \<or> \<bar>ri_power i\<bar> > 12
     \<or> (ri_decimals i = of_nat (decimals w) \<and> ri_power i = 0)"

definition reform_exponent :: "ledger \<Rightarrow> reform_input \<Rightarrow> int" where
  "reform_exponent w i = \<lfloor>ri_decimals i\<rfloor> - int (decimals w) - \<lfloor>ri_power i\<rfloor>"

definition reform_refusals :: "user \<Rightarrow> reform_input \<Rightarrow> ledger \<Rightarrow> exn option list" where
  "reform_refusals actor i w =
     [throw_if (u_role actor \<noteq> Nana \<or> u_status actor \<noteq> UserActive)
        (DemoError 403 ''forbidden'' ''Only Nana can reform currency.''),
      throw_if (ri_expected_epoch i \<noteq> money_epoch w \<or> ri_expected_sequence i \<noteq> revision w)
        (DemoError 409 ''conflict'' ''The ledger changed. Preview again.''),
      throw_if (reform_input_bad w i) (PlainError ''Invalid reform.'')]"

definition reform :: "user \<Rightarrow> reform_input \<Rightarrow> (ledger, reform_result) act" where
  "reform actor i w = guarded (reform_refusals actor i w)
     (\<lambda>w. case plan_reform (reform_exponent w i) \<lfloor>ri_power i\<rfloor> w of
        Inl x \<Rightarrow> (Inl x, w)
      | Inr pl \<Rightarrow>
          let w' = (if ri_preview i then w
                    else apply_reform (reform_exponent w i) (nat \<lfloor>ri_decimals i\<rfloor>) pl w) in
          (Inr \<lparr>rr_decimals = nat \<lfloor>ri_decimals i\<rfloor>, rr_money_epoch = money_epoch w', rr_sequence = revision w',
                rr_circulation = pl_circulation pl, rr_preview = ri_preview i\<rparr>, w')) w"

end
