(* ===== verification/LedgerHosts.thy ===== *)
theory LedgerHosts
  imports LedgerReform
begin

text \<open>
  \<open>demo/ledger.ts\<close>, the three host objects the ledger hands to its lending, lottery and commerce
  books, as the records those components are written over, and the ledger's methods that drive them.
\<close>

definition lending_post :: "string \<Rightarrow> string \<Rightarrow> num \<Rightarrow> nat \<Rightarrow> bool \<Rightarrow> (ledger, unit) act" where
  "lending_post src dst amount loan is_interest = and_then
     (append_txn Transfer ''system'' (if is_interest then ''Loan interest'' else ''Loan principal'')
        [posting src (- amount), posting dst amount]
        (no_opts\<lparr>op_reference := Some (''loan-'' @ show_nat loan),
                op_economic_kind := Some (if is_interest then Interest else LoanPrincipal)\<rparr>))
     (\<lambda>_ w. (Inr (), w))"

definition lending_host :: "ledger lending_host" where
  "lending_host = \<lparr>lh_balance = balance_of, lh_user = user_by_account, lh_post = lending_post,
     lh_get = lending_book, lh_put = (\<lambda>b w. w\<lparr>lending_book := b\<rparr>)\<rparr>"

definition lotto_post :: "nat \<Rightarrow> string \<Rightarrow> posting list \<Rightarrow> (ledger, unit) act" where
  "lotto_post i memo ps = and_then
     (append_txn Transfer ''system'' memo ps
        (no_opts\<lparr>op_reference := Some (''lotto-'' @ show_nat i),
                op_economic_kind := Some (if memo = ''Lotto interest'' then Interest else OtherKind)\<rparr>))
     (\<lambda>_ w. (Inr (), w))"

definition lotto_host :: "ledger lotto_host" where
  "lotto_host = \<lparr>oh_balance = balance_of, oh_name = name_of, oh_post = lotto_post,
     oh_get = lotto_draws, oh_put = (\<lambda>ds w. w\<lparr>lotto_draws := ds\<rparr>)\<rparr>"

definition commerce_user :: "ledger \<Rightarrow> nat \<Rightarrow> user option" where
  "commerce_user w i = user_by_id w (''user-'' @ show_nat i)"

definition commerce_sequence :: "ledger \<Rightarrow> nat \<times> ledger" where
  "commerce_sequence w = (Suc (revision w), w\<lparr>revision := Suc (revision w)\<rparr>)"

definition commerce_pay ::
  "user \<Rightarrow> string \<Rightarrow> num \<Rightarrow> string \<Rightarrow> nat option \<Rightarrow> nat option \<Rightarrow> (ledger, transaction) act" where
  "commerce_pay actor recipient amount memo gift art w = (case user_by_id w (u_id actor) of
     None \<Rightarrow> (Inl TypeError, w)
   | Some user \<Rightarrow> guarded
       [require_active user, require_user_account w recipient, require_amount amount]
       (append_txn (if truthy_nat art then Purchase else Transfer) (u_id user) memo
         [posting (u_account user) (- amount), posting recipient amount]
         (no_opts\<lparr>op_gift_request := gift, op_art := art,
            op_economic_kind := Some (if truthy_nat art then Good else Gift),
            op_quantity_milli := Some 1000, op_unit := Some Each\<rparr>)) w)"

definition commerce_host :: "ledger commerce_host" where
  "commerce_host = \<lparr>ch_user = commerce_user, ch_now = now, ch_sequence = commerce_sequence,
     ch_pay = commerce_pay, ch_get = commerce_book, ch_put = (\<lambda>c w. w\<lparr>commerce_book := c\<rparr>)\<rparr>"

text \<open>
  \<open>tickLoans\<close>: one reading of the wall clock, at most four loan actions, then the draws that are due.
\<close>

definition tick_loans :: "nat list \<Rightarrow> ledger \<Rightarrow> ((exn + unit) \<times> ledger) option" where
  "tick_loans rnd w =
     (let t = wall w (ticks w) in
      case loan_tick lending_host t (w\<lparr>ticks := Suc (ticks w)\<rparr>) of (done_, w1) \<Rightarrow>
        lotto_tick lotto_host t rnd (w1\<lparr>revision := revision w + done_\<rparr>))"

end
