(* ===== verification/LedgerAppend.thy ===== *)
theory LedgerAppend
  imports LedgerHosts
begin

text \<open>
  What \<open>append\<close> does, stated once for every operation that calls it: which fields it touches, that a
  refusal leaves no trace, how it moves each balance, and that it keeps the books balanced. The part
  of a transaction that money depends on is everything but its delivery record, \<open>bare\<close>.
\<close>

section \<open>The invariant of the journal\<close>

definition bare :: "transaction \<Rightarrow> transaction" where
  "bare t = t\<lparr>t_fulfillment := None\<rparr>"

definition epoch_of :: "transaction \<Rightarrow> nat" where
  "epoch_of t = (case t_money_epoch t of None \<Rightarrow> 0 | Some e \<Rightarrow> e)"

definition wf_txn :: "nat \<Rightarrow> transaction \<Rightarrow> bool" where
  "wf_txn epoch t \<longleftrightarrow> epoch_of t \<le> epoch \<and> js_sum (map p_amount (t_postings t)) = 0
     \<and> (\<forall>p \<in> set (t_postings t). is_double (p_amount p))"

definition wf_money :: "ledger \<Rightarrow> bool" where
  "wf_money w \<longleftrightarrow> length (epoch_exponents w) = Suc (money_epoch w)
     \<and> epoch_exponents w ! money_epoch w = 0 \<and> (\<forall>t \<in> set (transactions w). wf_txn (money_epoch w) t)"

definition known_id :: "nat \<Rightarrow> string \<Rightarrow> bool" where
  "known_id n i \<longleftrightarrow> (\<exists>k < n. i = txn_id k \<or> i = usd_txn_id k)"

definition wf_ids :: "ledger \<Rightarrow> bool" where
  "wf_ids w \<longleftrightarrow> distinct (map t_id (transactions w)) \<and> (\<forall>t \<in> set (transactions w). known_id (next_txn w) (t_id t))"

definition wf_gifts :: "ledger \<Rightarrow> bool" where
  "wf_gifts w \<longleftrightarrow> (\<forall>t \<in> set (transactions w). truthy_nat (t_gift_request t) \<longrightarrow>
     find_request (commerce_book w) (the (t_gift_request t)) \<noteq> None)"

lemma bare_simps [simp]:
  "t_id (bare t) = t_id t" "t_postings (bare t) = t_postings t" "t_money_epoch (bare t) = t_money_epoch t"
  "t_kind (bare t) = t_kind t" "t_reverses (bare t) = t_reverses t" "t_gift_request (bare t) = t_gift_request t"
  "t_reference (bare t) = t_reference t" "t_art (bare t) = t_art t" "bare (bare t) = bare t"
  "bare (t\<lparr>t_fulfillment := f\<rparr>) = bare t" "t_created_at (bare t) = t_created_at t"
  by (simp_all add: bare_def)

lemma wf_txn_bare [simp]: "wf_txn e (bare t) = wf_txn e t"
  by (simp add: wf_txn_def epoch_of_def)

lemma txn_id_inject [simp]: "txn_id m = txn_id n \<longleftrightarrow> m = n" "usd_txn_id m = usd_txn_id n \<longleftrightarrow> m = n"
  by (simp_all add: txn_id_def usd_txn_id_def)

lemma txn_id_usd [simp]: "txn_id m \<noteq> usd_txn_id n" "usd_txn_id n \<noteq> txn_id m"
  by (simp_all add: txn_id_def usd_txn_id_def)

lemma txn_id_nonempty [simp]: "txn_id n \<noteq> []" "usd_txn_id n \<noteq> []"
  by (simp_all add: txn_id_def usd_txn_id_def)

lemma known_id_mono: "known_id n i \<Longrightarrow> n \<le> m \<Longrightarrow> known_id m i"
  by (auto simp: known_id_def intro: less_le_trans)

lemma fresh_txn_id: "\<not> known_id n (txn_id n)" "\<not> known_id n (usd_txn_id n)"
  by (auto simp: known_id_def)

text \<open>Functions of the journal's bare transactions.\<close>

lemma exponent_of_bare [simp]: "exponent_of es (bare t) = exponent_of es t"
  by (simp add: exponent_of_def)

lemma journal_amounts_bare: "journal_amounts a es (map bare ts) = journal_amounts a es ts"
  by (simp add: journal_amounts_def current_postings_at_def comp_def)

lemma map_bare_cong:
  assumes "map bare ts = map bare us" "\<And>t. f (bare t) = f t"
  shows "map f ts = map f us"
proof -
  have "map f xs = map f (map bare xs)" for xs by (simp add: assms(2))
  then show ?thesis using assms(1) by metis
qed

lemma map_bare_eqD:
  assumes "map bare ts = map bare us"
  shows "journal_amounts a es ts = journal_amounts a es us" "map t_id ts = map t_id us"
    "map t_postings ts = map t_postings us"
proof -
  show "journal_amounts a es ts = journal_amounts a es us" using assms journal_amounts_bare by metis
  show "map t_id ts = map t_id us" "map t_postings ts = map t_postings us"
    by (rule map_bare_cong [OF assms], simp)+
qed

lemma set_bare_iff: "map bare ts = map bare us \<Longrightarrow> (\<And>t. P (bare t) = P t) \<Longrightarrow>
    (\<forall>t \<in> set ts. P t) = (\<forall>t \<in> set us. P t)"
  by (metis (no_types, lifting) in_set_conv_nth length_map nth_map)

lemma map_bare_put_txn: "txn_by_id w i = Some t \<Longrightarrow>
    map bare (transactions (put_txn (t\<lparr>t_fulfillment := f\<rparr>) w)) = map bare (transactions w)"
proof -
  assume a: "txn_by_id w i = Some t"
  have "find (\<lambda>x. t_id x = i) ts = Some t \<Longrightarrow>
      map bare (upd_first (\<lambda>y. t_id y = t_id t) (\<lambda>_. t\<lparr>t_fulfillment := f\<rparr>) ts) = map bare ts" for ts
    by (induction ts) (auto split: if_splits dest: find_Some_prop)
  then show ?thesis using a by (simp add: put_txn_def txn_by_id_def)
qed

section \<open>The fields \<open>append\<close> leaves alone\<close>

definition same_books :: "ledger \<Rightarrow> ledger \<Rightarrow> bool" where
  "same_books w w' \<longleftrightarrow> users w' = users w \<and> listings w' = listings w \<and> offers w' = offers w
     \<and> quotes w' = quotes w \<and> usd_balances w' = usd_balances w \<and> epoch_exponents w' = epoch_exponents w
     \<and> money_epoch w' = money_epoch w \<and> decimals w' = decimals w \<and> nickles w' = nickles w
     \<and> lotto_draws w' = lotto_draws w \<and> next_id w' = next_id w \<and> next_nickle w' = next_nickle w
     \<and> provisioned w' = provisioned w \<and> household w' = household w"

lemma same_books_refl [simp]: "same_books w w"
  by (simp add: same_books_def)

lemma same_books_trans: "same_books w w' \<Longrightarrow> same_books w' w'' \<Longrightarrow> same_books w w''"
  by (simp add: same_books_def)

definition ticked :: "ledger \<Rightarrow> ledger \<Rightarrow> bool" where
  "ticked w w' \<longleftrightarrow> (\<exists>x y. w' = w\<lparr>ticks := x, clock := y\<rparr>)"

lemma ticked_refl [simp]: "ticked w w"
  unfolding ticked_def by (rule exI [of _ "ticks w"], rule exI [of _ "clock w"]) simp

lemma ticked_trans: "ticked w w' \<Longrightarrow> ticked w' w'' \<Longrightarrow> ticked w w''"
  by (auto simp: ticked_def) blast

lemma now_ticked: "now w = (t, w') \<Longrightarrow> ticked w w'"
  by (cases w) (auto simp: now_def ticked_def split: if_splits)

lemma ticked_frame:
  assumes "ticked w w'"
  shows "same_books w w'" "transactions w' = transactions w" "refund_amounts w' = refund_amounts w"
    "commerce_book w' = commerce_book w" "lending_book w' = lending_book w" "revision w' = revision w"
    "next_txn w' = next_txn w"
proof -
  from assms obtain x y where w': "w' = w\<lparr>ticks := x, clock := y\<rparr>" by (auto simp: ticked_def)
  show "same_books w w'" "transactions w' = transactions w" "refund_amounts w' = refund_amounts w"
    "commerce_book w' = commerce_book w" "lending_book w' = lending_book w" "revision w' = revision w"
    "next_txn w' = next_txn w"
    unfolding w' by (simp_all add: same_books_def)
qed

section \<open>The steps of \<open>append\<close>\<close>

lemma with_delivery_frame:
  assumes "with_delivery k a d ps opts txn w = (txn', w')"
  shows "bare txn' = bare txn \<and> map bare (transactions w') = map bare (transactions w) \<and> same_books w w'
    \<and> refund_amounts w' = refund_amounts w \<and> commerce_book w' = commerce_book w
    \<and> lending_book w' = lending_book w \<and> revision w' = revision w \<and> next_txn w' = next_txn w"
proof -
  have put: "map bare (transactions (put_txn (t\<lparr>t_fulfillment := f\<rparr>) w)) = map bare (transactions w)"
    if "original_of w opts = Some t" for t f
    using that by (auto simp: original_of_def intro: map_bare_put_txn split: option.splits if_splits)
  have "w' = w \<or> (\<exists>t f. original_of w opts = Some t \<and> w' = put_txn (t\<lparr>t_fulfillment := f\<rparr>) w)"
    and "bare txn' = bare txn"
    using assms unfolding with_delivery_def Let_def by (auto split: option.splits if_splits)
  then show ?thesis using put by (auto simp: same_books_def put_txn_def)
qed

lemma record_refund_frame:
  "record_refund original opts txn w = (Inr u, w') \<Longrightarrow> same_books w w' \<and> transactions w' = transactions w
    \<and> commerce_book w' = commerce_book w \<and> lending_book w' = lending_book w
    \<and> revision w' = revision w \<and> next_txn w' = next_txn w
    \<and> refund_amounts w' = (if truthy_str (op_reverses opts) then (refund_amounts w)(t_id txn \<mapsto>
          (case op_refund_units opts of Some n \<Rightarrow> n | None \<Rightarrow> original_amount (the original))) else refund_amounts w)"
  by (auto simp: record_refund_def same_books_def split: if_splits option.splits)

lemma refund_gift_frame:
  "refund_gift original ps w = (Inr u, w') \<Longrightarrow> same_books w w' \<and> transactions w' = transactions w
    \<and> refund_amounts w' = refund_amounts w \<and> lending_book w' = lending_book w
    \<and> revision w' = revision w \<and> next_txn w' = next_txn w
    \<and> (commerce_book w' = commerce_book w \<or>
         (original \<noteq> None \<and> (\<exists>i n. commerce_refunded i n (commerce_book w) = Inr (commerce_book w'))))"
  by (auto simp: refund_gift_def same_books_def split: if_splits option.splits sum.splits)

text \<open>One successful \<open>append\<close>, field by field.\<close>

lemma append_done:
  assumes "append_txn k a d ps opts w = (Inr t, w')"
  shows "\<not> unbalanced ps \<and> (op_allow_overdraft opts \<or> \<not> list_ex (overdraws w) ps)
    \<and> same_books w w' \<and> map bare (transactions w') = map bare (transactions w) @ [bare t]
    \<and> (\<exists>created. bare t = bare_txn w k a d ps opts created)
    \<and> next_txn w' = Suc (next_txn w) \<and> revision w' = Suc (revision w)
    \<and> lending_book w' = cash_changed (map p_account ps) (is_loan_reference opts) (lending_book w)
    \<and> (commerce_book w' = commerce_book w \<or> (op_reverses opts \<noteq> None
         \<and> (\<exists>i n. commerce_refunded i n (commerce_book w) = Inr (commerce_book w'))))
    \<and> refund_amounts w' = (if truthy_str (op_reverses opts) then (refund_amounts w)(t_id t \<mapsto>
          (case op_refund_units opts of Some n \<Rightarrow> n | None \<Rightarrow> original_amount (the (original_of w opts))))
        else refund_amounts w)"
proof -
  obtain created w1 where n: "now w = (created, w1)" by fastforce
  define w2 where "w2 = w1\<lparr>next_txn := Suc (next_txn w1)\<rparr>"
  obtain txn w3 where wd: "with_delivery k a d ps opts (bare_txn w k a d ps opts created) w2 = (txn, w3)" by fastforce
  from assms obtain w4 w5 where
    c: "\<not> unbalanced ps" "op_allow_overdraft opts \<or> \<not> list_ex (overdraws w) ps"
    and r: "record_refund (original_of w opts) opts txn (push_txn txn w3) = (Inr (), w4)"
    and g: "refund_gift (original_of w opts) ps w4 = (Inr (), w5)"
    and t: "t = txn" and w': "w' = settle_append ps opts txn w5"
    by (auto simp: append_txn_def append_checked_def Let_def guard_simps n w2_def [symmetric] wd)
  note f1 = ticked_frame [OF now_ticked [OF n]]
  note f3 = with_delivery_frame [OF wd]
  note f4 = record_refund_frame [OF r]
  note f5 = refund_gift_frame [OF g]
  have s2: "same_books w w2" using f1(1) by (simp add: w2_def same_books_def)
  have b: "bare (bare_txn w k a d ps opts created) = bare_txn w k a d ps opts created"
    by (simp add: bare_def bare_txn_def)
  have "same_books w w3" using same_books_trans [OF s2] f3 by blast
  then have s: "same_books w w'" using f4 f5 by (auto simp: w' same_books_def settle_append_def push_txn_def)
  have rest: "map bare (transactions w') = map bare (transactions w) @ [bare t]"
    "next_txn w' = Suc (next_txn w)" "revision w' = Suc (revision w)"
    "lending_book w' = cash_changed (map p_account ps) (is_loan_reference opts) (lending_book w)"
    using f1 f3 f4 f5 by (simp_all add: w' w2_def settle_append_def push_txn_def t)
  have cb: "commerce_book w' = commerce_book w \<or> (op_reverses opts \<noteq> None
      \<and> (\<exists>i n. commerce_refunded i n (commerce_book w) = Inr (commerce_book w')))"
    using f1 f3 f4 f5 by (auto simp: w' w2_def settle_append_def push_txn_def original_of_def split: option.splits)
  have ra: "refund_amounts w' = (if truthy_str (op_reverses opts) then (refund_amounts w)(t_id t \<mapsto>
          (case op_refund_units opts of Some n \<Rightarrow> n | None \<Rightarrow> original_amount (the (original_of w opts))))
        else refund_amounts w)"
    using f1 f3 f4 f5 by (simp add: w' w2_def settle_append_def push_txn_def t)
  have bt: "bare t = bare_txn w k a d ps opts created" using f3 b by (simp add: t)
  show ?thesis using c s rest cb ra bt by blast
qed

text \<open>A refused \<open>append\<close> leaves no trace, unless it names a payment that does not exist.\<close>

definition refundable :: "ledger \<Rightarrow> append_opts \<Rightarrow> bool" where
  "refundable w opts \<longleftrightarrow> op_reverses opts = None \<or>
     (\<exists>t. original_of w opts = Some t \<and> (truthy_nat (t_gift_request t) \<longrightarrow>
        find_request (commerce_book w) (the (t_gift_request t)) \<noteq> None))"

lemma append_checked_returns:
  assumes "refundable w opts"
  shows "\<exists>t w'. append_checked k a d ps opts w = (Inr t, w')"
proof -
  obtain created w1 where n: "now w = (created, w1)" by fastforce
  define w2 where "w2 = w1\<lparr>next_txn := Suc (next_txn w1)\<rparr>"
  obtain txn w3 where wd: "with_delivery k a d ps opts (bare_txn w k a d ps opts created) w2 = (txn, w3)" by fastforce
  note f1 = ticked_frame [OF now_ticked [OF n]] and f3 = with_delivery_frame [OF wd]
  have "\<exists>w4. record_refund (original_of w opts) opts txn (push_txn txn w3) = (Inr (), w4)"
    using assms by (auto simp: record_refund_def refundable_def truthy_str_def split: option.splits)
  then obtain w4 where r: "record_refund (original_of w opts) opts txn (push_txn txn w3) = (Inr (), w4)" by blast
  have cb: "commerce_book w4 = commerce_book w"
    using record_refund_frame [OF r] f1 f3 by (simp add: push_txn_def w2_def)
  have "original_of w opts = None \<or> (\<exists>t. original_of w opts = Some t \<and> (truthy_nat (t_gift_request t) \<longrightarrow>
        find_request (commerce_book w) (the (t_gift_request t)) \<noteq> None))"
    using assms by (auto simp: refundable_def original_of_def)
  then have "\<exists>w5. refund_gift (original_of w opts) ps w4 = (Inr (), w5)"
    by (auto simp: refund_gift_def commerce_refunded_def cb split: option.splits)
  then obtain w5 where g: "refund_gift (original_of w opts) ps w4 = (Inr (), w5)" by blast
  show ?thesis
    by (simp add: append_checked_def n w2_def [symmetric] wd Let_def and_then_def r g)
qed

lemma append_refused:
  assumes "refundable w opts" and "append_txn k a d ps opts w = (Inl e, w')"
  shows "w' = w \<and> (e = DemoError 500 ''unbalanced'' ''That transaction does not balance.''
    \<or> e = DemoError 400 ''insufficient_funds'' ''There are not enough coins.'')"
  using assms append_checked_returns [OF assms(1), of k a d ps]
  by (auto simp: append_txn_def guarded_Inl throw_if_def split: if_splits)

lemma append_returns:
  assumes "refundable w opts" "\<not> unbalanced ps" "op_allow_overdraft opts \<or> \<not> list_ex (overdraws w) ps"
  shows "\<exists>t w'. append_txn k a d ps opts w = (Inr t, w')"
  using assms append_checked_returns [OF assms(1), of k a d ps]
  by (auto simp: append_txn_def guarded_def throw_if_def)

lemma refundable_plain [simp]: "op_reverses opts = None \<Longrightarrow> refundable w opts"
  by (simp add: refundable_def)

section \<open>What an appended transaction does to balances\<close>

lemma current_now:
  assumes "wf_money w" "t_money_epoch t = Some (money_epoch w)" "\<forall>p \<in> set (t_postings t). is_double (p_amount p)"
  shows "current_postings_at (epoch_exponents w) t = t_postings t"
proof -
  have "exponent_of (epoch_exponents w) t = 0" using assms(1,2) by (simp add: exponent_of_def wf_money_def)
  then show ?thesis
    using assms(3) by (auto simp: current_postings_at_def current_posting_def intro!: map_idI)
qed

lemma journal_amounts_append: "journal_amounts a es (ts @ us) = journal_amounts a es ts @ journal_amounts a es us"
  by (simp add: journal_amounts_def)

lemma append_balance:
  assumes wf: "wf_money w" and r: "append_txn k u d ps opts w = (Inr t, w')"
    and dbl: "\<forall>p \<in> set ps. is_double (p_amount p)"
  shows "balance_of w' a = js_sum_from (balance_of w a) (amounts_of a ps)"
proof -
  from append_done [OF r] obtain created where
    s: "same_books w w'" and m: "map bare (transactions w') = map bare (transactions w @ [t])"
    and b: "bare t = bare_txn w k u d ps opts created" by auto
  have "journal_amounts a (epoch_exponents w) (transactions w') =
      journal_amounts a (epoch_exponents w) (transactions w) @ journal_amounts a (epoch_exponents w) [t]"
    using map_bare_eqD(1) [OF m] journal_amounts_append by metis
  moreover have "journal_amounts a (epoch_exponents w) [t] = journal_amounts a (epoch_exponents w) [bare t]"
    using journal_amounts_bare [of a "epoch_exponents w" "[t]"] by (simp only: list.map)
  moreover have "journal_amounts a (epoch_exponents w) [bare t] = amounts_of a ps"
    using current_now [OF wf, of "bare t"] dbl by (simp add: b journal_amounts_def bare_txn_def)
  moreover have "epoch_exponents w' = epoch_exponents w" using s by (simp add: same_books_def)
  ultimately show ?thesis by (simp add: balance_of_def)
qed

lemma append_wf_money:
  assumes wf: "wf_money w" and r: "append_txn k u d ps opts w = (Inr t, w')"
    and dbl: "\<forall>p \<in> set ps. is_double (p_amount p)"
  shows "wf_money w'"
proof -
  from append_done [OF r] obtain created where
    s: "same_books w w'" and m: "map bare (transactions w') = map bare (transactions w @ [t])"
    and b: "bare t = bare_txn w k u d ps opts created" and bal: "\<not> unbalanced ps" by auto
  have "wf_txn (money_epoch w) (bare t)"
    using bal dbl unfolding b by (simp add: wf_txn_def epoch_of_def bare_txn_def unbalanced_def)
  then have "\<forall>x \<in> set (transactions w @ [t]). wf_txn (money_epoch w) x"
    using wf by (simp add: wf_money_def)
  then have "\<forall>x \<in> set (transactions w'). wf_txn (money_epoch w) x"
    using set_bare_iff [OF m, of "wf_txn (money_epoch w)"] by simp
  then show ?thesis using wf s by (simp add: wf_money_def same_books_def)
qed

lemma append_wf_ids:
  assumes wf: "wf_ids w" and r: "append_txn k u d ps opts w = (Inr t, w')"
  shows "wf_ids w' \<and> t_id t = txn_id (next_txn w)"
proof -
  from append_done [OF r] obtain created where
    m: "map bare (transactions w') = map bare (transactions w @ [t])" and n: "next_txn w' = Suc (next_txn w)"
    and b: "bare t = bare_txn w k u d ps opts created" by auto
  have "t_id (bare t) = txn_id (next_txn w)" unfolding b by (simp add: bare_txn_def)
  then have i: "t_id t = txn_id (next_txn w)" by simp
  have ids: "map t_id (transactions w') = map t_id (transactions w) @ [t_id t]"
    using map_bare_eqD(2) [OF m] by simp
  have "txn_id (next_txn w) \<notin> t_id ` set (transactions w)"
    using wf fresh_txn_id(1) unfolding wf_ids_def by (metis imageE)
  moreover have "\<forall>j \<in> set (map t_id (transactions w')). known_id (Suc (next_txn w)) j"
    using wf unfolding ids i by (auto simp: wf_ids_def known_id_def intro: less_SucI)
  then have "\<forall>x \<in> set (transactions w'). known_id (Suc (next_txn w)) (t_id x)" by simp
  ultimately show ?thesis using wf n ids i by (simp add: wf_ids_def)
qed

lemma find_request_ids: "find_request c j \<noteq> None \<longleftrightarrow> j \<in> set (map g_id (cm_requests c))"
  unfolding find_request_def find_None_prop by auto

lemma find_request_refunded:
  "commerce_refunded i n c = Inr c' \<Longrightarrow> find_request c' j \<noteq> None \<longleftrightarrow> find_request c j \<noteq> None"
  using find_request_ids [of c' j] find_request_ids [of c j]
  by (auto simp: commerce_refunded_def set_request_def map_upd_first_id simp del: set_map split: option.splits)

lemma append_wf_gifts:
  assumes wf: "wf_gifts w" and r: "append_txn k u d ps opts w = (Inr t, w')"
    and g: "truthy_nat (op_gift_request opts) \<Longrightarrow> find_request (commerce_book w) (the (op_gift_request opts)) \<noteq> None"
  shows "wf_gifts w'"
proof -
  from append_done [OF r] obtain created where
    m: "map bare (transactions w') = map bare (transactions w @ [t])"
    and b: "bare t = bare_txn w k u d ps opts created"
    and c: "commerce_book w' = commerce_book w \<or> (\<exists>i n. commerce_refunded i n (commerce_book w) = Inr (commerce_book w'))"
    by auto
  have same: "find_request (commerce_book w') j \<noteq> None \<longleftrightarrow> find_request (commerce_book w) j \<noteq> None" for j
    using c find_request_refunded by metis
  have "t_gift_request (bare t) = op_gift_request opts" unfolding b by (simp add: bare_txn_def)
  then have gt: "t_gift_request t = op_gift_request opts" by simp
  have "\<forall>x \<in> set (transactions w @ [t]). truthy_nat (t_gift_request x) \<longrightarrow>
      find_request (commerce_book w') (the (t_gift_request x)) \<noteq> None"
    using wf g gt unfolding same wf_gifts_def by auto
  then show ?thesis
    using set_bare_iff [OF m, of "\<lambda>x. truthy_nat (t_gift_request x) \<longrightarrow>
      find_request (commerce_book w') (the (t_gift_request x)) \<noteq> None"] by (simp add: wf_gifts_def)
qed

text \<open>
  The books balance: every journal entry sums to zero from zero, so the running total is zero after
  each one, however large the intermediate sums are.
\<close>

lemma journal_balances:
  "\<forall>t \<in> set ts. js_sum (map p_amount (t_postings t)) = 0 \<Longrightarrow>
    js_sum (concat (map (\<lambda>t. map p_amount (t_postings t)) ts)) = 0"
  by (induction ts) auto

lemma wf_money_balanced: "wf_money w \<Longrightarrow> balanced w"
  unfolding balanced_def by (rule journal_balances) (simp add: wf_money_def wf_txn_def)

section \<open>Whole numbers\<close>

lemma fl_is_integer:
  assumes "is_integer x"
  shows "is_integer (fl x)"
proof (cases "\<bar>x\<bar> \<le> 9007199254740992")
  case True
  then show ?thesis using assms fl_integer by simp
next
  case False
  then have x: "x \<noteq> 0" "9007199254740992 \<le> \<bar>x\<bar>" by auto
  define e where "e = ilog2 \<bar>x\<bar>"
  have "\<bar>x\<bar> < 2 powi (e + 1)" using ilog2_bounds [of "\<bar>x\<bar>"] x(1) by (simp add: e_def)
  then have "(2 :: rat) powi 53 < 2 powi (e + 1)" using x(2) by (simp add: power_int_def)
  then have "53 < e + 1" by (rule powi2_less_imp)
  then have "2 powi (e - 52) = rat_of_int (2 ^ nat (e - 52))" by (simp add: power_int_def)
  then have "fl x = of_int (rne (x / 2 powi (e - 52)) * 2 ^ nat (e - 52))"
    using x(1) by (simp add: fl_def e_def Let_def)
  then show ?thesis by (simp only: is_integer_of_int)
qed

lemma is_integer_js_sum: "is_integer a \<Longrightarrow> \<forall>x \<in> set xs. is_integer x \<Longrightarrow> is_integer (js_sum_from a xs)"
  by (induction xs arbitrary: a) (auto simp: js_add_def fl_is_integer is_integer_add)

text \<open>
  The invariant the books rely on: balanced entries at the current scale, and whole balances (which
  every operation keeps, a reform whose factor is not exact in doubles apart).
\<close>

definition books_ok :: "ledger \<Rightarrow> bool" where
  "books_ok w \<longleftrightarrow> wf_money w \<and> (\<forall>a. is_integer (balance_of w a))"

lemma append_books_ok:
  assumes ok: "books_ok w" and r: "append_txn k u d ps opts w = (Inr t, w')"
    and ints: "\<forall>p \<in> set ps. is_double (p_amount p) \<and> is_integer (p_amount p)"
  shows "books_ok w'"
proof -
  have "wf_money w'" using append_wf_money [OF _ r] ok ints by (simp add: books_ok_def)
  moreover have "is_integer (balance_of w' a)" for a
    using append_balance [OF _ r] ok ints unfolding books_ok_def
    by (auto simp: amounts_of_def intro!: is_integer_js_sum)
  ultimately show ?thesis by (simp add: books_ok_def)
qed

text \<open>A payment from one account to another.\<close>

definition payment_of :: "string \<Rightarrow> string \<Rightarrow> num \<Rightarrow> posting list" where
  "payment_of src dst amount = [posting src (- amount), posting dst amount]"

lemma posting_simps [simp]: "p_account (posting a x) = a" "p_amount (posting a x) = x"
  by (simp_all add: posting_def)

lemma js_add_minus_self: "js_add (- x) x = 0"
  by (simp add: js_add_def)

lemma payment_balanced: "is_double amount \<Longrightarrow> \<not> unbalanced (payment_of src dst amount)"
  by (simp add: unbalanced_def payment_of_def js_add_minus_self)

lemma payment_balance:
  assumes wf: "wf_money w" and r: "append_txn k u d (payment_of src dst amount) opts w = (Inr t, w')"
    and dbl: "is_double amount" and ne: "src \<noteq> dst"
  shows "balance_of w' src = js_sub (balance_of w src) amount" "balance_of w' dst = js_add (balance_of w dst) amount"
    and "a \<noteq> src \<Longrightarrow> a \<noteq> dst \<Longrightarrow> balance_of w' a = balance_of w a"
  using append_balance [OF wf r] dbl ne
  by (auto simp: payment_of_def amounts_of_def js_sub_def js_add_def)

text \<open>
  No overdraft: an account that pays through \<open>append\<close> without the overdraft option, the issuance
  account apart, is not left below zero.
\<close>

lemma payment_no_overdraft:
  assumes wf: "wf_money w" and r: "append_txn k u d (payment_of src dst amount) opts w = (Inr t, w')"
    and dbl: "is_double amount" and pos: "0 < amount" and ne: "src \<noteq> dst" and sys: "src \<noteq> SYSTEM_ISSUANCE"
    and opt: "\<not> op_allow_overdraft opts"
  shows "0 \<le> balance_of w' src"
proof -
  have "\<not> overdraws w (posting src (- amount))"
    using append_done [OF r] opt by (simp add: payment_of_def)
  then have "0 \<le> js_add (balance_of w src) (- amount)" using pos sys by (simp add: overdraws_def)
  then show ?thesis using payment_balance(1) [OF wf r dbl ne] by (simp add: js_sub_def js_add_def)
qed

lemma payment_pays:
  assumes "refundable w opts" "is_double amount" "0 \<le> amount"
    and "amount \<le> balance_of w src \<or> src = SYSTEM_ISSUANCE \<or> op_allow_overdraft opts"
  shows "\<exists>t w'. append_txn k u d (payment_of src dst amount) opts w = (Inr t, w')"
  using assms payment_balanced [of amount src dst]
  by (intro append_returns) (auto simp: payment_of_def overdraws_def js_add_def)

end
