(* ===== verification/LedgerBooks.thy ===== *)
theory LedgerBooks
  imports LedgerAppend
begin

text \<open>
  The ledger keeps the contracts its three books rely on: interpretations of \<open>lending_client\<close>,
  \<open>lotto_client\<close> and \<open>commerce_client\<close> on the ledger's own definitions. Through them every lemma of
  those components holds of the ledger.
\<close>

lemma cash_changed_book: "le_loans (cash_changed as f b) = le_loans b \<and> le_next_id (cash_changed as f b) = le_next_id b"
  unfolding cash_changed_def by (induction as arbitrary: b) auto

definition loan_append :: "string \<Rightarrow> string \<Rightarrow> num \<Rightarrow> nat \<Rightarrow> bool \<Rightarrow> (ledger, transaction) act" where
  "loan_append s d a i f = append_txn Transfer ''system'' (if f then ''Loan interest'' else ''Loan principal'')
     (payment_of s d a) (no_opts\<lparr>op_reference := Some (''loan-'' @ show_nat i),
        op_economic_kind := Some (if f then Interest else LoanPrincipal)\<rparr>)"

lemma lending_post_append:
  "lending_post s d a i f w = (Inl e, w') \<longleftrightarrow> loan_append s d a i f w = (Inl e, w')"
  "lending_post s d a i f w = (Inr u, w') \<longleftrightarrow> (\<exists>t. loan_append s d a i f w = (Inr t, w'))"
  by (auto simp: lending_post_def loan_append_def payment_of_def and_then_Inl guard_simps)

lemma lending_put_frame [simp]:
  "balance_of (w\<lparr>lending_book := b\<rparr>) = balance_of w" "user_by_account (w\<lparr>lending_book := b\<rparr>) = user_by_account w"
  "wf_money (w\<lparr>lending_book := b\<rparr>) = wf_money w" "books_ok (w\<lparr>lending_book := b\<rparr>) = books_ok w"
  by (auto simp: balance_of_def user_by_account_def wf_money_def books_ok_def fun_eq_iff)

lemma lotto_put_frame [simp]:
  "balance_of (w\<lparr>lotto_draws := b\<rparr>) = balance_of w" "name_of (w\<lparr>lotto_draws := b\<rparr>) = name_of w"
  "wf_money (w\<lparr>lotto_draws := b\<rparr>) = wf_money w" "books_ok (w\<lparr>lotto_draws := b\<rparr>) = books_ok w"
  by (auto simp: balance_of_def name_of_def user_by_account_def wf_money_def books_ok_def fun_eq_iff)

lemma no_opts_simps [simp]: "op_reverses no_opts = None" "\<not> op_allow_overdraft no_opts"
  "op_gift_request no_opts = None" "op_art no_opts = None" "op_reference no_opts = None"
  by (simp_all add: no_opts_def)

interpretation lend: lending_client lending_host books_ok
proof
  fix w s d a i f e w' u x
  show "lh_get lending_host (lh_put lending_host b w) = b" for b by (simp add: lending_host_def)
  show "lh_balance lending_host (lh_put lending_host b w) = lh_balance lending_host w" for b
    by (simp add: lending_host_def)
  show "lh_user lending_host (lh_put lending_host b w) = lh_user lending_host w" for b
    by (simp add: lending_host_def)
  show "books_ok (lh_put lending_host b w) = books_ok w" for b by (simp add: lending_host_def)
  show "books_ok w \<Longrightarrow> is_integer (lh_balance lending_host w x)" by (simp add: lending_host_def books_ok_def)
  have post: "\<exists>t. loan_append s d a i f w = (Inr t, w')" if "lending_post s d a i f w = (Inr (), w')"
    using that by (simp add: lending_post_append)
  show "lh_post lending_host s d a i f w = (Inl e, w') \<Longrightarrow> w' = w"
    by (auto simp: lending_host_def lending_post_append loan_append_def dest!: append_refused [rotated])
  show "lh_post lending_host s d a i f w = (Inr u, w') \<Longrightarrow>
      le_loans (lh_get lending_host w') = le_loans (lh_get lending_host w)
      \<and> le_next_id (lh_get lending_host w') = le_next_id (lh_get lending_host w)"
    by (auto simp: loan_append_def cash_changed_book lending_host_def dest!: post append_done)
  assume ok: "books_ok w"
  have wf: "wf_money w" using ok by (simp add: books_ok_def)
  note bal = payment_balance [OF wf, of Transfer "''system''"]
  show "lh_post lending_host s d a i f w = (Inr u, w') \<Longrightarrow> is_safe a \<Longrightarrow> books_ok w'"
    using append_books_ok [OF ok] is_safeD [of a] by (auto dest!: post simp: payment_of_def loan_append_def lending_host_def)
  show "lh_post lending_host s d a i f w = (Inr u, w') \<Longrightarrow> s \<noteq> d \<Longrightarrow> is_safe a \<Longrightarrow>
      lh_balance lending_host w' s = js_sub (lh_balance lending_host w s) a"
    using bal(1) is_safeD(4) [of a] by (auto dest!: post simp: lending_host_def loan_append_def)
  show "lh_post lending_host s d a i f w = (Inr u, w') \<Longrightarrow> s \<noteq> d \<Longrightarrow> is_safe a \<Longrightarrow>
      lh_balance lending_host w' d = js_add (lh_balance lending_host w d) a"
    using bal(2) is_safeD(4) [of a] by (auto dest!: post simp: lending_host_def loan_append_def)
  show "lh_post lending_host s d a i f w = (Inr u, w') \<Longrightarrow> is_safe a \<Longrightarrow> x \<noteq> s \<Longrightarrow> x \<noteq> d \<Longrightarrow>
      lh_balance lending_host w' x = lh_balance lending_host w x"
    using append_balance [OF wf] is_safeD(4) [of a]
    by (auto dest!: post simp: lending_host_def payment_of_def amounts_of_def loan_append_def)
  show "is_safe a \<Longrightarrow> 0 < a \<Longrightarrow> a \<le> lh_balance lending_host w s \<Longrightarrow>
      \<exists>w'. lh_post lending_host s d a i f w = (Inr (), w')"
  proof -
    assume "is_safe a" "0 < a" "a \<le> lh_balance lending_host w s"
    then have "\<exists>t w'. loan_append s d a i f w = (Inr t, w')"
      using is_safeD(4) [of a] unfolding loan_append_def by (intro payment_pays) (auto simp: lending_host_def)
    then show "\<exists>w'. lh_post lending_host s d a i f w = (Inr (), w')"
      by (auto simp: lending_host_def lending_post_append)
  qed
qed

interpretation draws: lotto_client lotto_host
proof
  fix w ds i memo ps e w' u
  show "oh_get lotto_host (oh_put lotto_host ds w) = ds" by (simp add: lotto_host_def)
  show "oh_balance lotto_host (oh_put lotto_host ds w) = oh_balance lotto_host w" by (simp add: lotto_host_def)
  show "oh_name lotto_host (oh_put lotto_host ds w) = oh_name lotto_host w" by (simp add: lotto_host_def)
  show "oh_post lotto_host i memo ps w = (Inl e, w') \<Longrightarrow> w' = w"
    by (auto simp: lotto_host_def lotto_post_def and_then_Inl dest!: append_refused [rotated])
  show "oh_post lotto_host i memo ps w = (Inr u, w') \<Longrightarrow> oh_get lotto_host w' = oh_get lotto_host w"
    by (auto simp: lotto_host_def lotto_post_def guard_simps same_books_def dest!: append_done)
qed

interpretation shop: commerce_client commerce_host revision ticked
proof
  fix w w' w'' :: ledger
  fix c t s u a m g k e tx and r :: "string"
  show "ch_get commerce_host (ch_put commerce_host c w) = c" by (simp add: commerce_host_def)
  show "revision (ch_put commerce_host c w) = revision w" by (simp add: commerce_host_def)
  show "ticked w w" by simp
  show "ticked w w' \<Longrightarrow> ticked w' w'' \<Longrightarrow> ticked w w''" by (rule ticked_trans)
  show "ticked w w' \<Longrightarrow> ch_get commerce_host w' = ch_get commerce_host w \<and> revision w' = revision w"
    by (simp add: commerce_host_def ticked_frame)
  show "ch_now commerce_host w = (t, w') \<Longrightarrow> ticked w w'"
    by (simp add: commerce_host_def now_ticked)
  show "ch_sequence commerce_host w = (s, w') \<Longrightarrow>
      s = Suc (revision w) \<and> revision w' = s \<and> ch_get commerce_host w' = ch_get commerce_host w"
    by (auto simp: commerce_host_def commerce_sequence_def)
  show "ch_pay commerce_host u r a m g k w = (Inl e, w') \<Longrightarrow> w' = w"
    by (auto simp: commerce_host_def commerce_pay_def guarded_Inl split: option.splits
        dest!: append_refused [rotated])
  show "ch_pay commerce_host u r a m g k w = (Inr tx, w') \<Longrightarrow>
      ch_get commerce_host w' = ch_get commerce_host w \<and> revision w \<le> revision w'"
    by (auto simp: commerce_host_def commerce_pay_def guard_simps split: option.splits dest!: append_done)
qed

end
