(* ===== verification/LedgerJournal.thy ===== *)
theory LedgerJournal
  imports LedgerBooks
begin

text \<open>
  The journal is append-only and always balances. \<open>grows w w'\<close> says that the journal of \<open>w'\<close> is the
  journal of \<open>w\<close> with balanced entries added at the end, delivery records apart; every method of the
  ledger, refused or not, is shown to grow it. The books reach the ledger only through their host, so
  their methods are covered once, in a locale per book, by what the host's methods do.
\<close>

section \<open>Growing\<close>

definition quote_ok :: "quote \<Rightarrow> bool" where
  "quote_ok q \<longleftrightarrow> is_double (q_cents q) \<and> is_double (q_coins q) \<and> 0 \<le> q_coins q"

definition quotes_ok :: "ledger \<Rightarrow> bool" where
  "quotes_ok w \<longleftrightarrow> (\<forall>q \<in> set (quotes w). quote_ok q)"

definition entries_ok :: "transaction list \<Rightarrow> bool" where
  "entries_ok ts \<longleftrightarrow> (\<forall>t \<in> set ts. js_sum (map p_amount (t_postings t)) = 0)"

text \<open>
  \<open>numbered m n us\<close>: the entries' identifiers are distinct, and their numbers go up from \<open>m\<close> to
  below \<open>n\<close> in the order of the journal.
\<close>

definition numbered :: "nat \<Rightarrow> nat \<Rightarrow> transaction list \<Rightarrow> bool" where
  "numbered m n us \<longleftrightarrow> m \<le> n \<and> distinct (map t_id us)
     \<and> (\<forall>u \<in> set us. \<exists>k. m \<le> k \<and> k < n \<and> (t_id u = txn_id k \<or> t_id u = usd_txn_id k))
     \<and> (\<forall>u \<in> set us. m \<le> ordinal u \<and> ordinal u < n) \<and> sorted_wrt (<) (map ordinal us)"

lemma numbered_Nil [simp]: "numbered m n [] \<longleftrightarrow> m \<le> n"
  by (simp add: numbered_def)

lemma ordinal_ids: "t_id t = txn_id m \<or> t_id t = usd_txn_id m \<Longrightarrow> ordinal t = m"
  using id_number_counter [of "''txn''" m] id_number_counter [of "''usd-txn''" m]
  by (auto simp: ordinal_def txn_id_def usd_txn_id_def)

lemma numbered_one: "t_id t = txn_id m \<or> t_id t = usd_txn_id m \<Longrightarrow> numbered m (Suc m) [t]"
  using ordinal_ids [of t m] by (auto simp: numbered_def)

lemma numbered_append: "numbered m n us \<Longrightarrow> numbered n p vs \<Longrightarrow> numbered m p (us @ vs)"
proof -
  assume u: "numbered m n us" and v: "numbered n p vs"
  have "t_id x \<noteq> t_id y" if "x \<in> set us" "y \<in> set vs" for x y
  proof -
    have "ordinal x < ordinal y" using u v that unfolding numbered_def by (meson less_le_trans)
    then show ?thesis by (auto simp: ordinal_def)
  qed
  moreover have "sorted_wrt (<) (map ordinal (us @ vs))"
    using u v unfolding numbered_def map_append sorted_wrt_append by (auto intro: less_le_trans)
  ultimately show ?thesis
    using u v unfolding numbered_def by (fastforce dest: order_trans less_le_trans)
qed

definition grows :: "ledger \<Rightarrow> ledger \<Rightarrow> bool" where
  "grows w w' \<longleftrightarrow> (quotes_ok w \<longrightarrow> quotes_ok w' \<and>
     (\<exists>us. map bare (transactions w') = map bare (transactions w) @ us \<and> entries_ok us
        \<and> numbered (next_txn w) (next_txn w') us))"

lemma entries_ok_append [simp]: "entries_ok [] " "entries_ok (us @ vs) \<longleftrightarrow> entries_ok us \<and> entries_ok vs"
  by (auto simp: entries_ok_def)

lemma grows_refl [simp]: "grows w w"
  by (auto simp: grows_def)

lemma grows_trans: "grows w w' \<Longrightarrow> grows w' w'' \<Longrightarrow> grows w w''"
  unfolding grows_def using numbered_append by fastforce

lemma grows_same: "map bare (transactions w') = map bare (transactions w) \<Longrightarrow> quotes w' = quotes w \<Longrightarrow>
    next_txn w' = next_txn w \<Longrightarrow> grows w w'"
  by (auto simp: grows_def quotes_ok_def)

lemma grows_push: "js_sum (map p_amount (t_postings t)) = 0 \<Longrightarrow>
    map bare (transactions w') = map bare (transactions w) @ [bare t] \<Longrightarrow> quotes w' = quotes w \<Longrightarrow>
    t_id t = txn_id (next_txn w) \<or> t_id t = usd_txn_id (next_txn w) \<Longrightarrow> next_txn w' = Suc (next_txn w) \<Longrightarrow>
    grows w w'"
  using numbered_one [of "bare t" "next_txn w"] by (auto simp: grows_def entries_ok_def quotes_ok_def)

lemma ticked_grows: "ticked w w' \<Longrightarrow> grows w w'"
  using ticked_frame [of w w'] by (intro grows_same) (auto simp: same_books_def)

lemma now_grows: "now w = (t, w') \<Longrightarrow> grows w w'"
  by (rule ticked_grows [OF now_ticked])

lemma now_snd_grows [simp]: "grows w (snd (now w))"
  by (cases "now w") (simp add: now_grows)

lemma append_grows: "grows w (snd (append_txn k a d ps opts w))"
proof (cases "unbalanced ps \<or> (\<not> op_allow_overdraft opts \<and> list_ex (overdraws w) ps)")
  case True
  then have "snd (append_txn k a d ps opts w) = w" by (auto simp: append_txn_def guarded_def throw_if_def)
  then show ?thesis by simp
next
  case False
  obtain created w1 where n: "now w = (created, w1)" by fastforce
  define w2 where "w2 = w1\<lparr>next_txn := Suc (next_txn w1)\<rparr>"
  obtain txn w3 where wd: "with_delivery k a d ps opts (bare_txn w k a d ps opts created) w2 = (txn, w3)" by fastforce
  define w4 where "w4 = push_txn txn w3"
  note f1 = ticked_frame [OF now_ticked [OF n]] and f3 = with_delivery_frame [OF wd]
  have e: "snd (append_txn k a d ps opts w) = snd (and_then (record_refund (original_of w opts) opts txn)
      (\<lambda>_. and_then (refund_gift (original_of w opts) ps) (\<lambda>_ w. (Inr txn, settle_append ps opts txn w))) w4)"
    using False
    by (auto simp: append_txn_def guarded_def throw_if_def append_checked_def n wd w2_def [symmetric] w4_def Let_def)
  have "bare txn = bare_txn w k a d ps opts created" using f3 by (simp add: bare_def bare_txn_def)
  then have "t_postings (bare txn) = ps" "t_id (bare txn) = txn_id (next_txn w)" by (simp_all add: bare_txn_def)
  then have p: "t_postings txn = ps" "t_id txn = txn_id (next_txn w)" by simp_all
  have "grows w w4"
    using f1 f3 False by (intro grows_push [of txn])
      (auto simp: w4_def w2_def push_txn_def p unbalanced_def same_books_def)
  moreover have "grows w4 (snd (and_then (record_refund (original_of w opts) opts txn)
      (\<lambda>_. and_then (refund_gift (original_of w opts) ps) (\<lambda>_ w. (Inr txn, settle_append ps opts txn w))) w4))"
    by (intro grows_same)
       (auto simp: and_then_def record_refund_def refund_gift_def settle_append_def
          split: prod.splits sum.splits option.splits if_splits)
  ultimately show ?thesis unfolding e by (rule grows_trans)
qed

lemma grows_guarded: "grows w v \<Longrightarrow> grows w (snd (k v)) \<Longrightarrow> grows w (snd (guarded gs k v))"
  by (rule snd_guarded)

lemma grows_and_then: "grows w (snd (m v)) \<Longrightarrow>
    (\<And>a v'. m v = (Inr a, v') \<Longrightarrow> grows w v' \<Longrightarrow> grows w (snd (f a v'))) \<Longrightarrow> grows w (snd (and_then m f v))"
  by (rule snd_and_then)

lemma append_then_grows:
  assumes "grows w0 w" and "\<And>t w'. append_txn k a d ps opts w = (Inr t, w') \<Longrightarrow> grows w0 w' \<Longrightarrow> grows w0 (snd (f t w'))"
  shows "grows w0 (snd (and_then (append_txn k a d ps opts) f w))"
  using grows_trans [OF assms(1) append_grows] assms(2) by (rule snd_and_then)

section \<open>The books, through their hosts\<close>

locale lending_frame =
  fixes h :: "'w lending_host" and R :: "'w \<Rightarrow> 'w \<Rightarrow> bool"
  assumes R_refl [simp]: "R w w"
    and R_trans: "R w w' \<Longrightarrow> R w' w'' \<Longrightarrow> R w w''"
    and R_put: "R w (lh_put h b w)"
    and R_post: "lh_post h s d a i f w = (r, w') \<Longrightarrow> R w w'"
begin

lemma end_guarded: "R w v \<Longrightarrow> R w (snd (k v)) \<Longrightarrow> R w (snd (guarded gs k v))"
  by (rule snd_guarded)

lemma end_and_then: "R w (snd (m v)) \<Longrightarrow> (\<And>a v'. m v = (Inr a, v') \<Longrightarrow> R w v' \<Longrightarrow> R w (snd (f a v'))) \<Longrightarrow>
    R w (snd (and_then m f v))"
  by (rule snd_and_then)

lemma R_set: "R w (set_loan h l w)"
  by (simp add: set_loan_def Let_def R_put)

lemma start_R: "loan_start h l at_t w = (r, w') \<Longrightarrow> R w w'"
  unfolding loan_start_def Let_def
  by (auto split: option.splits prod.splits sum.splits intro: R_trans [OF R_post R_set] R_post)

lemma offer_R: "loan_offer h u i at_t request responding w = (r, w') \<Longrightarrow> R w w'"
  unfolding loan_offer_def Let_def
  by (auto split: sum.splits option.splits if_splits intro: R_set R_put)

lemma accept_R: "loan_accept h u i at_t w = (r, w') \<Longrightarrow> R w w'"
  unfolding loan_accept_def Let_def
  by (auto split: sum.splits option.splits if_splits prod.splits intro: R_set start_R)

lemma close_R: "loan_close h u i at_t w = (r, w') \<Longrightarrow> R w w'"
  unfolding loan_close_def Let_def by (auto split: option.splits if_splits intro: R_set)

lemma post_nonzero_R: "R w v \<Longrightarrow> R w (snd (post_nonzero h s d a i f v))"
  by (cases "lh_post h s d a i f v") (auto simp: post_nonzero_def intro: R_trans [OF _ R_post])

lemma then_set: "R w v \<Longrightarrow> R w (set_loan h l v)"
  using R_trans R_set by blast

lemma settle_pay_R: "R w (snd (settle_pay h l at_t amount w))"
  unfolding settle_pay_def Let_def
  by (intro end_guarded end_and_then R_refl post_nonzero_R) (auto intro: then_set)

lemma settle_R: "loan_settle h l at_t amount w = (r, w') \<Longrightarrow> R w w'"
  using settle_pay_R by (auto simp: loan_settle_def split: sum.splits) (metis snd_conv)

lemma repay_R: "loan_repay h u i amount at_t w = (r, w') \<Longrightarrow> R w w'"
  unfolding loan_repay_def by (auto split: option.splits if_splits prod.splits sum.splits intro: settle_R)

lemma tick_step_R: "tick_step h at_t i w = (b, w') \<Longrightarrow> R w w'"
  unfolding tick_step_def by (auto split: option.splits if_splits prod.splits sum.splits intro: settle_R start_R)

lemma tick_R: "loan_tick h at_t w = (n, w') \<Longrightarrow> R w w'"
proof -
  have "tick_loop h at_t is k w = (n, w') \<Longrightarrow> R w w'" for "is" k
  proof (induction "is" arbitrary: k w)
    case (Cons i "is")
    then show ?case by (auto split: if_splits prod.splits intro: R_trans [OF tick_step_R])
  qed simp
  then show "loan_tick h at_t w = (n, w') \<Longrightarrow> R w w'" by (simp add: loan_tick_def)
qed

end

locale lotto_frame =
  fixes h :: "'w lotto_host" and R :: "'w \<Rightarrow> 'w \<Rightarrow> bool"
  assumes R_refl [simp]: "R w w"
    and R_trans: "R w w' \<Longrightarrow> R w' w'' \<Longrightarrow> R w w''"
    and R_put: "R w (oh_put h ds w)"
    and R_post: "R w (snd (oh_post h i memo ps w))"
begin

lemma end_guarded: "R w v \<Longrightarrow> R w (snd (k v)) \<Longrightarrow> R w (snd (guarded gs k v))"
  by (rule snd_guarded)

lemma end_and_then: "R w (snd (m v)) \<Longrightarrow> (\<And>a v'. m v = (Inr a, v') \<Longrightarrow> R w v' \<Longrightarrow> R w (snd (f a v'))) \<Longrightarrow>
    R w (snd (and_then m f v))"
  by (rule snd_and_then)

lemma then_post: "R w v \<Longrightarrow> R w (snd (oh_post h i memo ps v))"
  using R_trans R_post by blast

lemma then_put: "R w v \<Longrightarrow> R w (put_draw h d v)"
  using R_trans R_put unfolding put_draw_def by blast

lemma R_put_draw: "R w (put_draw h d w)"
  by (simp add: put_draw_def R_put)

lemma buy_R: "R w (snd (lotto_buy h u i count at_t w))"
  unfolding lotto_buy_def lotto_buy_draw_def Let_def
  by (intro end_guarded R_refl)
     (auto split: option.splits sum.splits intro!: end_guarded end_and_then then_post then_put)

lemma pay_R: "R w (snd (lotto_pay h d winner w))"
  unfolding lotto_pay_def Let_def
  by (intro end_and_then R_post) (auto intro: then_post then_put)

lemma turn_R: "settle_turn h at_t force k rnd w = Some (r, rnd', w') \<Longrightarrow> R w w'"
  unfolding settle_turn_def Let_def using pay_R
  by (auto split: prod.splits if_splits option.splits intro: R_put_draw) (metis R_put_draw R_trans snd_conv)

lemma settle_R: "lotto_settle h at_t force rnd w = Some (r, w') \<Longrightarrow> R w w'"
proof -
  have "settle_loop h at_t force ks rnd w = Some (r, w') \<Longrightarrow> R w w'" for ks
  proof (induction ks arbitrary: rnd w)
    case (Cons k ks)
    then show ?case by (auto split: option.splits prod.splits sum.splits intro: turn_R R_trans [OF turn_R])
  qed simp
  then show "lotto_settle h at_t force rnd w = Some (r, w') \<Longrightarrow> R w w'" by (simp add: lotto_settle_def)
qed

lemma resolve_R: "lotto_resolve_now h u at_t rnd w = Some (r, w') \<Longrightarrow> R w w'"
  unfolding lotto_resolve_now_def Let_def
  by (auto split: option.splits prod.splits sum.splits intro: settle_R)

end

locale commerce_frame =
  fixes h :: "'w commerce_host" and R :: "'w \<Rightarrow> 'w \<Rightarrow> bool"
  assumes R_refl [simp]: "R w w"
    and R_trans: "R w w' \<Longrightarrow> R w' w'' \<Longrightarrow> R w w''"
    and R_put: "R w (ch_put h c w)"
    and R_now: "ch_now h w = (t, w') \<Longrightarrow> R w w'"
    and R_sequence: "ch_sequence h w = (n, w') \<Longrightarrow> R w w'"
    and R_pay: "R w (snd (ch_pay h u a x m g k w))"
begin

lemma end_guarded: "R w v \<Longrightarrow> R w (snd (k v)) \<Longrightarrow> R w (snd (guarded gs k v))"
  by (rule snd_guarded)

lemma end_and_then: "R w (snd (m v)) \<Longrightarrow> (\<And>a v'. m v = (Inr a, v') \<Longrightarrow> R w v' \<Longrightarrow> R w (snd (f a v'))) \<Longrightarrow>
    R w (snd (and_then m f v))"
  by (rule snd_and_then)

lemma then_pay: "R w v \<Longrightarrow> R w (snd (ch_pay h u a x m g k v))"
  using R_trans R_pay by blast

lemma then_now: "R w v \<Longrightarrow> ch_now h v = (t, v') \<Longrightarrow> R w v'"
  using R_trans R_now by blast

lemma deadline_R: "R w (snd (check_deadline h d w))"
  by (auto simp: check_deadline_def split: option.splits prod.splits dest: R_now)

lemma prepare_R: "R w (snd (prepare h u owner action w))"
proof (cases action)
  case (CreateRequest x1 x2 x3 x4)
  then show ?thesis
    by (auto simp: create_request_def intro!: end_guarded end_and_then deadline_R
        split: prod.splits intro: then_now)
next
  case (Contribute i amount memo)
  then show ?thesis
    by (auto simp: contribute_def contribute_to_def request_unavailable_def intro!: end_guarded end_and_then then_pay
        dest: R_now split: option.splits prod.splits sum.splits if_splits)
next
  case (MintArt x1 x2 x3 x4)
  then show ?thesis by (auto simp: mint_art_def intro!: end_guarded split: prod.splits dest: R_now)
next
  case (BuyArt x1 x2 x3 x4)
  then show ?thesis
    by (auto simp: with_art_def buy_art_def intro!: end_guarded end_and_then then_pay split: option.splits sum.splits)
qed (auto simp: close_request_def with_art_def own_art_def list_art_def gift_art_def equip_art_def
      intro!: end_guarded split: option.splits sum.splits)

lemma sequence_put: "R w v \<Longrightarrow> R w (snd (case ch_sequence h v of (n, v') \<Rightarrow> (Inr n, ch_put h (f n v') v')))"
  by (cases "ch_sequence h v") (auto intro: R_trans [OF _ R_put] R_trans [OF _ R_sequence])

lemma command_R: "R w (snd (command h u action w))"
proof (cases "commerce_active h w (user_number (u_id u))")
  case (Inr v)
  then show ?thesis
    unfolding command_def Let_def by simp (intro end_and_then prepare_R sequence_put)
qed (simp add: command_def Let_def)

end

interpretation lend_frame: lending_frame lending_host grows
proof
  show "grows w w" for w by simp
  show "grows w w' \<Longrightarrow> grows w' w'' \<Longrightarrow> grows w w''" for w w' w'' by (rule grows_trans)
  fix w s d a i f r w' b
  show "grows w (lh_put lending_host b w)" by (rule grows_same) (simp_all add: lending_host_def)
  show "lh_post lending_host s d a i f w = (r, w') \<Longrightarrow> grows w w'"
  proof -
    assume "lh_post lending_host s d a i f w = (r, w')"
    then have "w' = snd (lending_post s d a i f w)" by (simp add: lending_host_def)
    moreover have "grows w (snd (lending_post s d a i f w))"
      unfolding lending_post_def by (rule append_then_grows) simp_all
    ultimately show "grows w w'" by simp
  qed
qed

interpretation draws_frame: lotto_frame lotto_host grows
proof
  show "grows w w" for w by simp
  show "grows w w' \<Longrightarrow> grows w' w'' \<Longrightarrow> grows w w''" for w w' w'' by (rule grows_trans)
  fix w ds i memo ps
  show "grows w (oh_put lotto_host ds w)" by (rule grows_same) (simp_all add: lotto_host_def)
  show "grows w (snd (oh_post lotto_host i memo ps w))"
    by (simp add: lotto_host_def lotto_post_def append_then_grows)
qed

interpretation shop_frame: commerce_frame commerce_host grows
proof
  show "grows w w" for w by simp
  show "grows w w' \<Longrightarrow> grows w' w'' \<Longrightarrow> grows w w''" for w w' w'' by (rule grows_trans)
  fix w w' c t n u a x m g k
  show "grows w (ch_put commerce_host c w)" by (rule grows_same) (simp_all add: commerce_host_def)
  show "ch_now commerce_host w = (t, w') \<Longrightarrow> grows w w'" by (simp add: commerce_host_def now_grows)
  show "ch_sequence commerce_host w = (n, w') \<Longrightarrow> grows w w'"
    by (rule grows_same) (auto simp: commerce_host_def commerce_sequence_def)
  show "grows w (snd (ch_pay commerce_host u a x m g k w))"
  proof (cases "user_by_id w (u_id u)")
    case (Some v)
    then show ?thesis
      unfolding commerce_host_def commerce_pay_def
      by simp (intro conjI impI grows_guarded append_grows grows_refl)
  qed (simp add: commerce_host_def commerce_pay_def)
qed

end
