(* ===== verification/LedgerRun.thy ===== *)
theory LedgerRun
  imports LedgerJournal
begin

text \<open>
  The ledger as a state machine. \<open>op\<close> has a constructor for every method of \<open>DemoLedger\<close> (and of
  its books) that changes state, and for the three things its callers do to it directly (read the
  wall clock, advance the revision, set the decimals of an empty ledger); \<open>run\<close> is the state the method leaves behind, refused or not, and
  \<open>reachable\<close> is every ledger some sequence of calls leads to from \<open>new DemoLedger()\<close>. Every call
  grows the journal, so the books balance in every reachable ledger.
\<close>

datatype op =
    StartLive | Advance int | AdvanceTo int
  | Provision string string string string | AddUser string string string role
  | SetStatus user string user_status | SetBio user string string | SetPassword user string string
  | TransferOp user string num string "economic option"
  | IssueOp user string num string | RetireOp user string num string | IssueUsd user string num string
  | CreateNickle user num bool "byte list" | RedeemNickle user string
  | CreateListing user listing_input | CancelListing user string | PurchaseOp user string
  | MakeOffer user string num string | AcceptOffer user string | DeclineOffer user string
  | WithdrawOffer user string
  | PostQuote user quote_side num num | TakeQuote user string | CancelQuote user string
  | ReverseOp user string string | RefundOp user string num string
  | SetFulfillment user string fulfillment_action string
  | ReformOp user reform_input
  | OfferLoan user loan_offer_input int bool "nat option" | AcceptLoan user nat int
  | CloseLoan user nat int | RepayLoan user nat num int
  | CreateLotto user lotto_terms int | BuyTickets user nat num int | ResolveLottos user int "nat list"
  | CommerceOp user commerce_action
  | TickLoans "nat list" | TickLottos int "nat list"
  | ReadClock | NextRevision | SetDecimals nat

fun run :: "op \<Rightarrow> ledger \<Rightarrow> ledger option" where
  "run StartLive w = Some (start_live w)"
| "run (Advance s) w = Some (advance s w)"
| "run (AdvanceTo t) w = Some (advance_to t w)"
| "run (Provision n d p h) w = Some (snd (provision n d p h w))"
| "run (AddUser n d p r) w = Some (snd (add_user n d p r w))"
| "run (SetStatus u i s) w = Some (snd (set_user_status u i s w))"
| "run (SetBio u i s) w = Some (snd (set_user_bio u i s w))"
| "run (SetPassword u i s) w = Some (snd (set_user_password u i s w))"
| "run (TransferOp u a x m e) w = Some (snd (transfer u a x m e w))"
| "run (IssueOp u a x m) w = Some (snd (issue u a x m w))"
| "run (RetireOp u a x m) w = Some (snd (retire u a x m w))"
| "run (IssueUsd u a x m) w = Some (snd (issue_usd u a x m w))"
| "run (CreateNickle u x f bs) w = Some (snd (create_nickle u x f bs w))"
| "run (RedeemNickle u t) w = Some (snd (redeem_nickle u t w))"
| "run (CreateListing u i) w = Some (snd (create_listing u i w))"
| "run (CancelListing u i) w = Some (snd (cancel_listing u i w))"
| "run (PurchaseOp u i) w = Some (snd (purchase u i w))"
| "run (MakeOffer u i x m) w = Some (snd (make_offer u i x m w))"
| "run (AcceptOffer u i) w = Some (snd (accept_offer u i w))"
| "run (DeclineOffer u i) w = Some (snd (decline_offer u i w))"
| "run (WithdrawOffer u i) w = Some (snd (withdraw_offer u i w))"
| "run (PostQuote u s c n) w = Some (snd (post_quote u s c n w))"
| "run (TakeQuote u i) w = Some (snd (take_quote u i w))"
| "run (CancelQuote u i) w = Some (snd (cancel_quote u i w))"
| "run (ReverseOp u i m) w = Some (snd (reverse_txn u i m w))"
| "run (RefundOp u i x m) w = Some (snd (refund u i x m w))"
| "run (SetFulfillment u i a m) w = Some (snd (set_fulfillment u i a m w))"
| "run (ReformOp u i) w = Some (snd (reform u i w))"
| "run (OfferLoan u i t b r) w = Some (snd (loan_offer lending_host u i t b r w))"
| "run (AcceptLoan u i t) w = Some (snd (loan_accept lending_host u i t w))"
| "run (CloseLoan u i t) w = Some (snd (loan_close lending_host u i t w))"
| "run (RepayLoan u i x t) w = Some (snd (loan_repay lending_host u i x t w))"
| "run (CreateLotto u terms t) w =
     Some (w\<lparr>lotto_draws := snd (lotto_create u terms t (lotto_draws w))\<rparr>)"
| "run (BuyTickets u i n t) w = Some (snd (lotto_buy lotto_host u i n t w))"
| "run (ResolveLottos u t rnd) w = map_option snd (lotto_resolve_now lotto_host u t rnd w)"
| "run (CommerceOp u a) w = Some (snd (command commerce_host u a w))"
| "run (TickLoans rnd) w = map_option snd (tick_loans rnd w)"
| "run (TickLottos t rnd) w = map_option snd (lotto_tick lotto_host t rnd w)"
| "run ReadClock w = Some (w\<lparr>ticks := Suc (ticks w)\<rparr>)"
| "run NextRevision w = Some (w\<lparr>revision := Suc (revision w)\<rparr>)"
| "run (SetDecimals n) w = Some (w\<lparr>decimals := n\<rparr>)"

inductive reachable :: "ledger \<Rightarrow> bool" where
  start: "reachable (new_ledger readings)"
| step: "reachable w \<Longrightarrow> run x w = Some w' \<Longrightarrow> reachable w'"

section \<open>Every method grows the journal\<close>

named_theorems grows_methods "that a method of the ledger grows its journal"

lemma now_fields: "now w = (t, w') \<Longrightarrow> transactions w' = transactions w \<and> quotes w' = quotes w
    \<and> offers w' = offers w \<and> listings w' = listings w \<and> users w' = users w \<and> next_id w' = next_id w
    \<and> next_txn w' = next_txn w"
  by (auto simp: now_def split: if_splits)

lemma grows_field: "map bare (transactions w') = map bare (transactions w) \<Longrightarrow> quotes w' = quotes w \<Longrightarrow>
    next_txn w' = next_txn w \<Longrightarrow> grows w0 w \<Longrightarrow> grows w0 w'"
  using grows_trans grows_same by blast

lemma grows_save [simp]: "grows w (snd (save_user u v w))"
  by (rule grows_same) (simp_all add: save_user_def Let_def put_user_def)

lemma grows_add_user [grows_methods]: "grows w (snd (add_user n d p r w))"
  unfolding add_user_def Let_def
  by (intro grows_guarded grows_refl) (auto split: prod.splits dest!: now_fields intro!: grows_same)

lemma grows_provision [grows_methods]: "grows w (snd (provision n d p h w))"
proof -
  have "grows w (snd (add_user n d p Nana (w\<lparr>household := x\<rparr>)))" for x
    by (rule grows_trans [OF _ grows_add_user]) (simp add: grows_same)
  then show ?thesis
    unfolding provision_def Let_def
    by (intro grows_guarded grows_and_then grows_refl) (auto elim!: grows_field [rotated 3])
qed

lemma grows_members [grows_methods]:
  "grows w (snd (set_user_status u i s w))" "grows w (snd (set_user_bio u i t w))"
  "grows w (snd (set_user_password u i t w))"
  by (auto simp: set_user_status_def set_user_bio_def set_user_password_def with_user_def
      intro!: grows_guarded split: option.splits)

lemma grows_money [grows_methods]:
  "grows w (snd (transfer u a x m e w))" "grows w (snd (issue u a x m w))" "grows w (snd (retire u a x m w))"
  unfolding transfer_def issue_def retire_def by (intro grows_guarded grows_refl append_grows)+


lemma usd_pair: "is_double x \<Longrightarrow> js_add (js_add 0 (- x)) x = 0"
  by (simp add: js_add_minus_self)

lemma grows_now_push: "now v = (c, w1) \<Longrightarrow> transactions v = transactions w \<Longrightarrow> quotes v = quotes w \<Longrightarrow>
    js_sum (map p_amount (t_postings t)) = 0 \<Longrightarrow> transactions w2 = transactions w1 @ [t] \<Longrightarrow>
    quotes w2 = quotes w1 \<Longrightarrow> t_id t = txn_id (next_txn w) \<or> t_id t = usd_txn_id (next_txn w) \<Longrightarrow>
    next_txn v = Suc (next_txn w) \<Longrightarrow> next_txn w2 = next_txn w1 \<Longrightarrow> grows w w2"
  using now_fields [of v c w1] by (intro grows_push [of t]) auto

lemma grows_now_same: "now v = (c, w1) \<Longrightarrow> transactions v = transactions w \<Longrightarrow> quotes v = quotes w \<Longrightarrow>
    transactions w2 = transactions w1 \<Longrightarrow> quotes w2 = quotes w1 \<Longrightarrow> next_txn v = next_txn w \<Longrightarrow>
    next_txn w2 = next_txn w1 \<Longrightarrow> grows w w2"
  using now_fields [of v c w1] by (intro grows_same) auto

lemma grows_issue_usd [grows_methods]: "grows w (snd (issue_usd u a x m w))"
proof (cases "is_safe x")
  case True
  then have x: "js_add (js_add 0 (- x)) x = 0" using usd_pair is_safeD(4) by blast
  show ?thesis
    unfolding issue_usd_def Let_def
    by (intro grows_guarded grows_refl, split prod.splits, intro allI impI)
       (rule grows_now_push, assumption, auto simp: push_txn_def usd_txn_def x)
next
  case False
  then have "first_err [require_active u, require_nana u, require_amount x, require_user_account w a] \<noteq> None"
    by (simp add: guard_simps require_amount_None)
  then show ?thesis by (auto simp: issue_usd_def guarded_def split: option.splits)
qed

lemma grows_create_nickle [grows_methods]: "grows w (snd (create_nickle u x f bs w))"
  unfolding create_nickle_def Let_def
  by (intro grows_guarded append_then_grows grows_refl) (auto elim!: grows_field [rotated 3])

lemma grows_redeem_nickle [grows_methods]: "grows w (snd (redeem_nickle u t w))"
proof -
  have "grows w (snd (case map_of (nickles w) dg of None \<Rightarrow> (Inl e, w) | Some v \<Rightarrow> guarded (gs v)
      (and_then (append_txn k a (d v) (ps v) (os v)) (\<lambda>t w. (Inr t, w\<lparr>nickles := AList.delete dg (nickles w)\<rparr>))) w))"
    for dg gs e k a d ps os
    by (cases "map_of (nickles w) dg")
       (auto intro!: grows_guarded append_then_grows elim!: grows_field [rotated 3])
  then show ?thesis unfolding redeem_nickle_def Let_def by (intro grows_guarded grows_refl)
qed

lemma grows_with_listing: "(\<And>l. listing_by_id w i = Inr l \<Longrightarrow> grows w (snd (k l w))) \<Longrightarrow> grows w (snd (with_listing i k w))"
  by (cases "listing_by_id w i") (auto simp: with_listing_def)

lemma grows_with_offer: "(\<And>x. offer_by_id w i = Inr x \<Longrightarrow> grows w (snd (k x w))) \<Longrightarrow> grows w (snd (with_offer i k w))"
  by (cases "offer_by_id w i") (auto simp: with_offer_def)

lemma grows_two_readings: "transactions v = transactions w \<Longrightarrow> quotes v = quotes w \<Longrightarrow>
    next_txn v = next_txn w \<Longrightarrow> (\<And>c d w2. transactions (f c d w2) = transactions w2 \<and> quotes (f c d w2) = quotes w2
      \<and> next_txn (f c d w2) = next_txn w2) \<Longrightarrow>
    grows w (snd (case now v of (c, w1) \<Rightarrow> (case now w1 of (d, w2) \<Rightarrow> (Inr (g c d), f c d w2))))"
  by (cases "now v"; cases "now (snd (now v))") (auto dest!: now_fields intro!: grows_same)

lemma grows_create_listing [grows_methods]: "grows w (snd (create_listing u li w))"
  unfolding create_listing_def Let_def
  by (intro grows_guarded grows_refl grows_two_readings) auto

lemma grows_cancel_listing [grows_methods]: "grows w (snd (cancel_listing u i w))"
  unfolding cancel_listing_def Let_def
  by (intro grows_with_listing grows_guarded grows_refl, split prod.splits)
     (auto simp: put_listing_def elim!: grows_now_same)

lemma grows_sell: "grows w (snd (sell_to l b n tx w))"
  by (auto simp: sell_to_def Let_def put_listing_def split: prod.splits elim!: grows_now_same)

lemma grows_close_offer: "grows w (snd (close_offer x s tx w))"
  by (auto simp: close_offer_def Let_def put_offer_def split: prod.splits elim!: grows_now_same)

lemma grows_touch: "grows w (snd (touch_listing l w))"
  by (auto simp: touch_listing_def Let_def put_listing_def split: prod.splits elim!: grows_now_same)

lemma rivals_fields: "close_rivals l i xs w = (ys, w') \<Longrightarrow> transactions w' = transactions w \<and> quotes w' = quotes w
    \<and> offers w' = offers w \<and> listings w' = listings w \<and> users w' = users w \<and> next_txn w' = next_txn w"
  by (induction xs arbitrary: w ys) (auto split: if_splits prod.splits dest!: now_fields)

lemma grows_purchase [grows_methods]: "grows w (snd (purchase u i w))"
  unfolding purchase_def
  by (intro grows_guarded grows_refl grows_with_listing append_then_grows grows_and_then)
     (auto intro: grows_trans [OF _ grows_sell])

lemma grows_make_offer [grows_methods]: "grows w (snd (make_offer u i x m w))"
  unfolding make_offer_def Let_def
  by (intro grows_guarded grows_refl grows_with_listing grows_two_readings) auto

lemma grows_rivals: "grows w0 w \<Longrightarrow> close_rivals l i xs w = (ys, w') \<Longrightarrow> grows w0 (w'\<lparr>offers := ys\<rparr>)"
  using rivals_fields [of l i xs w ys w'] by (auto intro: grows_field [of _ w w0])

lemma grows_settle_offer:
  assumes "grows w0 w"
  shows "grows w0 (snd (settle_offer l x t w))"
proof -
  have sell: "grows w0 (snd (and_then (sell_to l b n tx) (\<lambda>l' w. case close_rivals (l_id l) (o_id x) (offers w) w of
      (xs, w') \<Rightarrow> (Inr (g l'), w'\<lparr>offers := xs\<rparr>)) v))" if "grows w0 v" for b n tx g v
    using that by (intro grows_and_then grows_trans [OF _ grows_sell], assumption)
      (auto split: prod.splits intro: grows_rivals)
  have touch: "grows w0 (snd (and_then (touch_listing l) (\<lambda>l' w. (Inr (g l'), w)) v))" if "grows w0 v" for g v
    using that by (intro grows_and_then grows_trans [OF _ grows_touch], assumption) simp
  show ?thesis
    unfolding settle_offer_def Let_def
    by (rule grows_and_then, rule grows_trans [OF assms grows_close_offer], split if_split)
       (intro conjI impI sell touch)
qed

lemma grows_offers [grows_methods]:
  "grows w (snd (accept_offer u i w))" "grows w (snd (decline_offer u i w))" "grows w (snd (withdraw_offer u i w))"
  unfolding accept_offer_def decline_offer_def withdraw_offer_def
  by (intro grows_with_offer grows_with_listing grows_guarded grows_refl append_then_grows grows_settle_offer
        grows_close_offer, assumption?)+

section \<open>Exchange\<close>

lemma quotes_put: "quotes_ok w \<Longrightarrow> quote_ok q \<Longrightarrow> quotes w' = quotes (put_quote q w) \<Longrightarrow> quotes_ok w'"
  by (auto simp: quotes_ok_def put_quote_def elim!: in_upd_firstE)

lemma grows_put_quote: "quote_ok q \<Longrightarrow> map bare (transactions w') = map bare (transactions w) \<Longrightarrow>
    quotes w' = quotes (put_quote q w) \<Longrightarrow> next_txn w' = next_txn w \<Longrightarrow> grows w w'"
  unfolding grows_def using quotes_put [of w q w'] by auto

lemma grows_add_quote: "now w = (t, w1) \<Longrightarrow> quotes w' = quotes w1 @ [q] \<Longrightarrow> transactions w' = transactions w1 \<Longrightarrow>
    quote_ok q \<Longrightarrow> next_txn w' = next_txn w1 \<Longrightarrow> grows w w'"
  using now_fields [of w t w1] by (auto simp: grows_def quotes_ok_def)

lemma grows_post_quote [grows_methods]: "grows w (snd (post_quote u s c n w))"
proof (cases "first_err [require_active u, require_amount c, require_amount n]")
  case None
  then have n: "is_double n" "0 \<le> n" by (auto simp: guard_simps require_amount_None dest: is_safeD)
  show ?thesis
  proof (cases "quote_total c n")
    case (Inr tot)
    show ?thesis
      unfolding post_quote_def Let_def Inr sum.case
      by (intro grows_guarded grows_refl, split prod.splits, intro allI impI)
         (rule grows_add_quote, assumption, auto simp: quote_ok_def of_bigint_def is_double_fl n)
  qed (auto simp: post_quote_def intro!: grows_guarded)
qed (simp add: post_quote_def guarded_def)

lemma find_quote_ok: "quotes_ok w \<Longrightarrow> find_quote w i = Some q \<Longrightarrow> quote_ok q"
  by (auto simp: quotes_ok_def find_quote_def dest: find_Some_prop)

lemma grows_if_quotes: "(quotes_ok w \<Longrightarrow> grows w w') \<Longrightarrow> grows w w'"
  unfolding grows_def by blast

lemma grows_fill_quote:
  assumes "quote_ok q"
  shows "grows w (snd (fill_quote u q t w))"
proof -
  have "grows w (put_quote q' (push_txn c (w\<lparr>next_txn := n\<rparr>)))"
    if "quote_ok q'" "js_sum (map p_amount (t_postings c)) = 0" "t_id c = usd_txn_id (next_txn w)" "n = Suc (next_txn w)" for q' c n
  proof (rule grows_trans [of _ "push_txn c (w\<lparr>next_txn := n\<rparr>)"])
    show "grows w (push_txn c (w\<lparr>next_txn := n\<rparr>))"
      using that by (intro grows_push [of c]) (simp_all add: push_txn_def)
    show "grows (push_txn c (w\<lparr>next_txn := n\<rparr>)) (put_quote q' (push_txn c (w\<lparr>next_txn := n\<rparr>)))"
      by (intro grows_put_quote [OF that(1)]) (simp_all add: put_quote_def)
  qed
  then show ?thesis
    using assms by (simp add: fill_quote_def Let_def usd_txn_def js_add_minus_self quote_ok_def)
qed

lemma grows_take_quote [grows_methods]: "grows w (snd (take_quote u i w))"
proof (rule grows_if_quotes, cases "find_quote w i")
  case (Some q)
  assume "quotes_ok w"
  then have d: "quote_ok q" using Some by (rule find_quote_ok)
  have m: "grows w (move_usd a b c w)" for a b c
    by (rule grows_same) (simp_all add: move_usd_def Let_def)
  have f: "grows w (snd (fill_quote u q t v))" if "grows w v" for t v
    using that grows_fill_quote [OF d] by (rule grows_trans)
  show "grows w (snd (take_quote u i w))"
    unfolding take_quote_def
    by (rule grows_guarded [OF grows_refl], unfold Some option.case, rule grows_guarded [OF grows_refl])
       (rule append_then_grows [OF m f])
qed (auto simp: take_quote_def intro!: grows_guarded)

lemma grows_closed_quote: "now w = (t, w1) \<Longrightarrow> quote_ok q \<Longrightarrow> grows w (put_quote q w1)"
  by (rule grows_put_quote [of q]) (auto simp: put_quote_def dest: now_fields)

lemma grows_cancel_quote [grows_methods]: "grows w (snd (cancel_quote u i w))"
proof (rule grows_if_quotes, cases "find_quote w i")
  case (Some q)
  assume "quotes_ok w"
  then have "quote_ok q" using Some by (rule find_quote_ok)
  then have "quote_ok (q\<lparr>q_status := s, q_live := b, q_updated_at := t\<rparr>)" for s b t by (simp add: quote_ok_def)
  then show "grows w (snd (cancel_quote u i w))"
    unfolding cancel_quote_def Let_def Some option.case
    by (intro grows_guarded grows_refl, split prod.splits) (auto intro: grows_closed_quote)
qed (simp add: cancel_quote_def)

section \<open>Corrections, reform and the books\<close>

lemma grows_reverse [grows_methods]: "grows w (snd (reverse_txn u i m w))"
  unfolding reverse_txn_def
  by (intro grows_guarded grows_refl, cases "txn_by_id w i")
     (auto intro!: grows_guarded append_grows)

lemma grows_refund [grows_methods]: "grows w (snd (refund u i x m w))"
proof -
  have "grows w (snd (refund_parties u t a b x m w))" for t a b
    unfolding refund_parties_def Let_def by (intro grows_guarded grows_refl append_grows)
  then show ?thesis
    unfolding refund_def
    by (intro grows_guarded grows_refl, cases "txn_by_id w i")
       (auto intro!: grows_guarded split: option.splits)
qed

lemma delivery_of_txn: "delivery_of w i = Some (t, f) \<Longrightarrow> txn_by_id w i = Some t \<and> t_fulfillment t = Some f"
  by (auto simp: delivery_of_def split: option.splits)

lemma grows_put_delivery: "txn_by_id w i = Some t \<Longrightarrow> now (w\<lparr>revision := n\<rparr>) = (c, w1) \<Longrightarrow>
    grows w (put_txn (t\<lparr>t_fulfillment := f\<rparr>) w1)"
proof -
  assume t: "txn_by_id w i = Some t" and n: "now (w\<lparr>revision := n\<rparr>) = (c, w1)"
  have f: "transactions w1 = transactions w" "quotes w1 = quotes w" "next_txn w1 = next_txn w" using now_fields [OF n] by auto
  then have "txn_by_id w1 i = Some t" using t by (simp add: txn_by_id_def)
  from map_bare_put_txn [OF this] show ?thesis using f by (intro grows_same) (auto simp: put_txn_def)
qed

lemma grows_set_fulfillment [grows_methods]: "grows w (snd (set_fulfillment u i a m w))"
  unfolding set_fulfillment_def Let_def
  by (intro grows_guarded grows_refl, cases "delivery_of w i")
     (auto intro!: grows_guarded split: prod.splits dest!: delivery_of_txn intro: grows_put_delivery)

lemma reform_convert_double: "reform_convert e m x = Inr y \<Longrightarrow> is_double y \<and> (0 \<le> x \<longrightarrow> 0 \<le> y)"
  by (auto simp: reform_convert_def to_bigint_Inr of_bigint_def is_double_fl big_div_nonneg Let_def
      pos_imp_zdiv_nonneg_iff split: sum.splits if_splits)

lemma reform_quotes_ok:
  assumes "map_res (reform_quote e pw) qs = Inr qs'" and "\<forall>q \<in> set qs. quote_ok q"
  shows "\<forall>q \<in> set qs'. quote_ok q"
proof
  fix q assume "q \<in> set qs'"
  then obtain k where k: "k < length qs'" "qs' ! k = q" by (auto simp: in_set_conv_nth)
  then have "k < length qs" "reform_quote e pw (qs ! k) = Inr q" using map_res_Inr [OF assms(1)] by auto
  moreover have "quote_ok q0 \<Longrightarrow> quote_ok q'" if "reform_quote e pw q0 = Inr q'" for q0 q'
    using that by (auto simp: reform_quote_def quote_ok_def split: sum.splits dest: reform_convert_double)
  ultimately show "quote_ok q" using assms(2) by fastforce
qed

lemma plan_quotes: "plan_reform e pw w = Inr pl \<Longrightarrow> map_res (reform_quote e pw) (quotes w) = Inr (pl_quotes pl)"
  by (auto simp: plan_reform_def split: sum.splits)

lemma grows_reform [grows_methods]: "grows w (snd (reform u i w))"
proof -
  have "grows w (apply_reform e d pl w)" if "plan_reform e pw w = Inr pl" for e d pw pl
    using reform_quotes_ok [OF plan_quotes [OF that]]
    by (auto simp: grows_def quotes_ok_def apply_reform_def)
  then show ?thesis
    unfolding reform_def by (intro grows_guarded grows_refl) (auto simp: Let_def split: sum.splits)
qed

lemma grows_loans [grows_methods]:
  "grows w (snd (loan_offer lending_host u i t b r w))" "grows w (snd (loan_accept lending_host u j t w))"
  "grows w (snd (loan_close lending_host u j t w))" "grows w (snd (loan_repay lending_host u j x t w))"
  using lend_frame.offer_R lend_frame.accept_R lend_frame.close_R lend_frame.repay_R
  by (metis prod.collapse)+

lemma grows_tick_loans [grows_methods]: "tick_loans rnd w = Some (r, w') \<Longrightarrow> grows w w'"
proof -
  assume a: "tick_loans rnd w = Some (r, w')"
  define v where "v = w\<lparr>ticks := Suc (ticks w)\<rparr>"
  obtain n w1 where t: "loan_tick lending_host (wall w (ticks w)) v = (n, w1)" by fastforce
  have s: "lotto_settle lotto_host (wall w (ticks w)) False rnd (w1\<lparr>revision := revision w + n\<rparr>) = Some (r, w')"
    using a t by (simp add: tick_loans_def v_def Let_def lotto_tick_def)
  have "grows w v" "grows w1 (w1\<lparr>revision := revision w + n\<rparr>)" by (auto simp: v_def intro!: grows_same)
  then show ?thesis
    using grows_trans lend_frame.tick_R [OF t] draws_frame.settle_R [OF s] by blast
qed

lemma grows_lottos [grows_methods]:
  "grows w (w\<lparr>lotto_draws := ds\<rparr>)" "grows w (snd (lotto_buy lotto_host u i n t w))"
  "lotto_resolve_now lotto_host u t rnd w = Some (r, w') \<Longrightarrow> grows w w'"
  "lotto_tick lotto_host t rnd w = Some (r', w') \<Longrightarrow> grows w w'"
  using draws_frame.buy_R draws_frame.resolve_R draws_frame.settle_R by (auto intro: grows_same simp: lotto_tick_def)

lemma grows_commerce [grows_methods]: "grows w (snd (command commerce_host u a w))"
  by (rule shop_frame.command_R)

lemma grows_clock: "grows w (start_live w)" "grows w (advance s w)" "grows w (advance_to t w)"
  "grows w (w\<lparr>ticks := k\<rparr>)" "grows w (w\<lparr>revision := n\<rparr>)" "grows w (w\<lparr>decimals := d\<rparr>)"
  by (auto simp: start_live_def advance_def advance_to_def intro!: grows_same)

section \<open>Every reachable ledger\<close>

lemma run_grows: "run x w = Some w' \<Longrightarrow> grows w w'"
  by (cases x) (auto simp: grows_methods grows_clock)

lemma reachable_quotes: "reachable w \<Longrightarrow> quotes_ok w \<and> entries_ok (transactions w)
    \<and> numbered 1 (next_txn w) (map bare (transactions w))"
proof (induction rule: reachable.induct)
  case (start readings)
  then show ?case by (simp add: new_ledger_def quotes_ok_def entries_ok_def)
next
  case (step w x w')
  obtain us where us: "map bare (transactions w') = map bare (transactions w) @ us" "entries_ok us" "quotes_ok w'"
      "numbered (next_txn w) (next_txn w') us"
    using run_grows [OF step.hyps(2)] step.IH by (auto simp: grows_def)
  have "entries_ok (map bare (transactions w'))" using us step.IH by (auto simp: entries_ok_def)
  then have "entries_ok (transactions w')" by (simp add: entries_ok_def)
  moreover have "numbered 1 (next_txn w') (map bare (transactions w) @ us)"
    using step.IH us(4) by (blast intro: numbered_append)
  ultimately show ?case using us by simp
qed

lemma reachable_ids: "reachable w \<Longrightarrow> wf_ids w"
proof -
  assume "reachable w"
  then have n: "numbered 1 (next_txn w) (map bare (transactions w))" using reachable_quotes by blast
  have "map t_id (map bare (transactions w)) = map t_id (transactions w)" by simp
  with n show "wf_ids w" unfolding wf_ids_def numbered_def known_id_def by (metis (no_types, lifting) bare_simps(1) imageI list.set_map)
qed

lemma reachable_ordinals: "reachable w \<Longrightarrow> sorted_wrt (<) (map ordinal (transactions w))
    \<and> (\<forall>t \<in> set (transactions w). 1 \<le> ordinal t \<and> ordinal t < next_txn w)"
proof -
  assume "reachable w"
  then have n: "numbered 1 (next_txn w) (map bare (transactions w))" using reachable_quotes by blast
  have o: "ordinal (bare t) = ordinal t" for t by (simp add: ordinal_def)
  have m: "map ordinal (map bare (transactions w)) = map ordinal (transactions w)" by (simp add: o)
  from n have "sorted_wrt (<) (map ordinal (map bare (transactions w)))"
    and "\<forall>u \<in> set (map bare (transactions w)). 1 \<le> ordinal u \<and> ordinal u < next_txn w"
    unfolding numbered_def by blast+
  then show ?thesis unfolding m by (simp add: o)
qed

lemma entries_balanced: "entries_ok (transactions w) \<Longrightarrow> balanced w"
proof -
  have "\<forall>t \<in> set ts. js_sum (map p_amount (t_postings t)) = 0 \<Longrightarrow>
      js_sum (concat (map (\<lambda>t. map p_amount (t_postings t)) ts)) = 0" for ts :: "transaction list"
    by (induction ts) simp_all
  then show "entries_ok (transactions w) \<Longrightarrow> balanced w" by (simp add: balanced_def entries_ok_def)
qed

lemma reachable_balanced: "reachable w \<Longrightarrow> balanced w"
  using reachable_quotes entries_balanced by blast

lemma reachable_append_only: "reachable w \<Longrightarrow> run x w = Some w' \<Longrightarrow>
    \<exists>us. map bare (transactions w') = map bare (transactions w) @ us \<and> entries_ok us"
  using reachable_quotes [of w] run_grows [of x w w'] by (auto simp: grows_def)

inductive_cases reachable_stepE: "reachable w"

end
