(* ===== verification/LedgerSafety.thy ===== *)
theory LedgerSafety
  imports LedgerRun
begin

text \<open>
  What the ledger's methods promise one by one: a refusal leaves no trace, a voucher is spent at most
  once, refunds never exceed the payment, a reversal mirrors it, an exchange conserves dollars, tickets
  are paid for, and a reform is all or nothing and exact, the loans included.
\<close>

section \<open>A refusal leaves no trace\<close>

text \<open>\<open>traceless w p\<close>: the outcome \<open>p\<close> of an operation on \<open>w\<close> is either a result or \<open>w\<close> itself.\<close>

definition traceless :: "'w \<Rightarrow> 'a res \<times> 'w \<Rightarrow> bool" where
  "traceless w p \<longleftrightarrow> (\<forall>e. fst p = Inl e \<longrightarrow> snd p = w)"

named_theorems traceless_intros "that an operation leaves no trace when it is refused"

lemma traceless_Pair [simp]: "traceless w (Inr a, v)" "traceless w (Inl e, w)"
  by (simp_all add: traceless_def)

lemma tracelessD: "traceless w p \<Longrightarrow> p = (Inl e, w') \<Longrightarrow> w' = w"
  by (simp add: traceless_def)

lemma traceless_guarded [traceless_intros]: "traceless w (k w) \<Longrightarrow> traceless w (guarded gs k w)"
  by (auto simp: traceless_def guarded_def split: option.splits)

lemma traceless_and_then [traceless_intros]:
  "traceless w (m w) \<Longrightarrow> (\<And>a v. m w = (Inr a, v) \<Longrightarrow> \<exists>b v'. f a v = (Inr b, v')) \<Longrightarrow> traceless w (and_then m f w)"
  by (cases "m w"; cases "fst (m w)") (fastforce simp: traceless_def and_then_def)+

lemma traceless_append: "refundable w opts \<Longrightarrow> traceless w (append_txn k a d ps opts w)"
  using append_refused [of w opts k a d ps] by (cases "append_txn k a d ps opts w") (auto simp: traceless_def)

lemma plain_opts [simp]: "op_reverses (economic_opts e) = None" "op_reverses (listing_opts l) = None"
  by (simp_all add: economic_opts_def listing_opts_def no_opts_def split: option.splits)

lemma traceless_plain [traceless_intros]: "op_reverses opts = None \<Longrightarrow> traceless w (append_txn k a d ps opts w)"
  by (rule traceless_append) simp

lemma traceless_with_listing [traceless_intros]:
  "(\<And>l. listing_by_id w i = Inr l \<Longrightarrow> traceless w (k l w)) \<Longrightarrow> traceless w (with_listing i k w)"
  by (cases "listing_by_id w i") (auto simp: with_listing_def)

lemma traceless_with_offer [traceless_intros]:
  "(\<And>x. offer_by_id w i = Inr x \<Longrightarrow> traceless w (k x w)) \<Longrightarrow> traceless w (with_offer i k w)"
  by (cases "offer_by_id w i") (auto simp: with_offer_def)

lemma traceless_with_user [traceless_intros]:
  "(\<And>u. user_by_id w i = Some u \<Longrightarrow> traceless w (k u w)) \<Longrightarrow> traceless w (with_user i k w)"
  by (cases "user_by_id w i") (auto simp: with_user_def)

lemma traceless_now [simp]: "traceless w (case now v of (t, v') \<Rightarrow> (Inr (f t v'), g t v'))"
  by (simp add: traceless_def split: prod.splits)

lemma transfer_traceless: "traceless w (transfer u a x m e w)"
  unfolding transfer_def by (intro traceless_intros) simp

lemma issue_traceless: "traceless w (issue u a x m w)"
  unfolding issue_def by (intro traceless_intros) simp

lemma retire_traceless: "traceless w (retire u a x m w)"
  unfolding retire_def by (intro traceless_intros) simp

lemma issue_usd_traceless: "traceless w (issue_usd u a x m w)"
  unfolding issue_usd_def Let_def by (intro traceless_intros) simp

lemma create_nickle_traceless: "traceless w (create_nickle u x f bs w)"
  unfolding create_nickle_def Let_def by (intro traceless_intros) simp_all

lemma redeem_nickle_traceless: "traceless w (redeem_nickle u t w)"
proof -
  have "traceless w (case map_of (nickles w) (digest_nickle t) of None \<Rightarrow> (Inl e, w)
      | Some v \<Rightarrow> guarded (gs v) (and_then (append_txn k a (d v) (ps v) (no_opts\<lparr>op_reference := r v\<rparr>))
          (\<lambda>t w. (Inr t, f v w))) w)" for e gs k a d ps r f
    by (cases "map_of (nickles w) (digest_nickle t)") (auto intro!: traceless_intros)
  then show ?thesis unfolding redeem_nickle_def Let_def by (intro traceless_guarded)
qed

lemma now_returns: "\<exists>b v'. (case now v of (t, v1) \<Rightarrow> (Inr (f t v1), g t v1)) = (Inr b, v')"
  by (auto split: prod.splits)

lemma purchase_traceless: "traceless w (purchase u i w)"
  unfolding purchase_def sell_to_def Let_def
  by (intro traceless_intros) (auto simp: and_then_def split: prod.splits)

lemma make_offer_traceless: "traceless w (make_offer u i x m w)"
  unfolding make_offer_def Let_def by (intro traceless_intros) (simp split: prod.splits)

lemma settle_offer_returns: "\<exists>b v'. settle_offer l x t w = (Inr b, v')"
  by (auto simp: settle_offer_def close_offer_def touch_listing_def sell_to_def and_then_def Let_def split: prod.splits)

lemma accept_offer_traceless: "traceless w (accept_offer u i w)"
  unfolding accept_offer_def by (intro traceless_intros settle_offer_returns) simp

lemma offer_moves_traceless: "traceless w (decline_offer u i w)" "traceless w (withdraw_offer u i w)"
  "traceless w (create_listing u li w)" "traceless w (cancel_listing u i w)"
  unfolding decline_offer_def withdraw_offer_def close_offer_def create_listing_def cancel_listing_def Let_def
  by (intro traceless_intros, simp split: prod.splits)+

lemma members_traceless: "traceless w (set_user_status u i s w)" "traceless w (set_user_bio u i t w)"
  "traceless w (set_user_password u i p w)" "traceless w (add_user n d p r w)"
  unfolding set_user_status_def set_user_bio_def set_user_password_def save_user_def add_user_def Let_def
  by (intro traceless_intros, simp)+

text \<open>Corrections name the payment they undo; its gift request still exists.\<close>

lemma txn_by_id_id: "txn_by_id w i = Some t \<Longrightarrow> t_id t = i \<and> t \<in> set (transactions w)"
  by (auto simp: txn_by_id_def dest: find_Some_prop)

lemma correction_refundable: "wf_gifts w \<Longrightarrow> txn_by_id w i = Some t \<Longrightarrow> i \<noteq> [] \<Longrightarrow>
    op_reverses opts = Some (t_id t) \<Longrightarrow> refundable w opts"
  using txn_by_id_id [of w i t] by (auto simp: refundable_def original_of_def wf_gifts_def)

lemma wf_ids_nonempty: "wf_ids w \<Longrightarrow> txn_by_id w i = Some t \<Longrightarrow> i \<noteq> []"
  using txn_by_id_id [of w i t] by (auto simp: wf_ids_def known_id_def)

lemma correction_opts_reverses [simp]: "op_reverses (correction_opts t) = Some (t_id t)"
  by (simp add: correction_opts_def no_opts_def)

lemma reverse_traceless: "wf_ids w \<Longrightarrow> wf_gifts w \<Longrightarrow> traceless w (reverse_txn u i m w)"
proof (cases "txn_by_id w i")
  case (Some t)
  assume "wf_ids w" "wf_gifts w"
  then have "refundable w ((correction_opts t)\<lparr>op_allow_overdraft := b, op_reference := r\<rparr>)" for b r
    using Some wf_ids_nonempty by (intro correction_refundable) auto
  then show ?thesis
    unfolding reverse_txn_def by (intro traceless_guarded) (simp add: Some traceless_guarded traceless_append)
qed (simp add: reverse_txn_def traceless_guarded)

lemma refund_traceless: "wf_ids w \<Longrightarrow> wf_gifts w \<Longrightarrow> traceless w (refund u i x m w)"
proof (cases "txn_by_id w i")
  case (Some t)
  assume "wf_ids w" "wf_gifts w"
  then have "refundable w ((correction_opts t)\<lparr>op_refund_units := n\<rparr>)" for n
    using Some wf_ids_nonempty by (intro correction_refundable) auto
  then have "traceless w (refund_parties u t a b x m w)" for a b
    unfolding refund_parties_def Let_def by (intro traceless_guarded traceless_append)
  then show ?thesis
    unfolding refund_def by (intro traceless_guarded) (auto simp: Some intro!: traceless_guarded split: option.splits)
qed (simp add: refund_def traceless_guarded)

section \<open>Exchange\<close>

lemma quote_append:
  assumes q: "quote_ok q" and b: "\<not> balance_of w seller < q_coins q"
  shows "\<exists>t w'. append_txn k a d [posting seller (- q_coins q), posting buyer (q_coins q)] (no_opts\<lparr>op_reference := r\<rparr>) w
    = (Inr t, w')"
  using payment_pays [of w "no_opts\<lparr>op_reference := r\<rparr>" "q_coins q" seller k a d buyer] assms
  by (simp add: quote_ok_def payment_of_def)

lemma balance_move_usd [simp]: "balance_of (move_usd a b c w) x = balance_of w x"
  by (simp add: move_usd_def Let_def balance_of_def)

lemma take_quote_traceless:
  assumes "quotes_ok w"
  shows "traceless w (take_quote u i w)"
proof (cases "find_quote w i")
  case (Some q)
  have q: "quote_ok q" using assms Some by (rule find_quote_ok)
  define s b where "s = coin_seller u q" and "b = coin_buyer u q"
  have "traceless w (guarded [g1, g2, throw_if (balance_of w s < q_coins q) e, g4]
      (\<lambda>w. and_then (append_txn Transfer a d [posting s (- q_coins q), posting b (q_coins q)] (no_opts\<lparr>op_reference := r\<rparr>))
          (fill_quote u q) (move_usd b s c w)) w)" for g1 g2 e g4 a d r c
  proof (cases "balance_of w s < q_coins q")
    case True
    then show ?thesis by (cases g1; cases g2) (simp_all add: guarded_def throw_if_def)
  next
    case False
    then obtain t v where "append_txn Transfer a d [posting s (- q_coins q), posting b (q_coins q)]
        (no_opts\<lparr>op_reference := r\<rparr>) (move_usd b s c w) = (Inr t, v)"
      using quote_append [OF q, of "move_usd b s c w" s] by fastforce
    then show ?thesis by (intro traceless_guarded) (simp add: and_then_def fill_quote_def Let_def)
  qed
  then show ?thesis unfolding take_quote_def s_def b_def by (intro traceless_guarded) (simp add: Some)
qed (simp add: take_quote_def traceless_guarded)

section \<open>Refunds\<close>

definition refunds_of :: "(string \<rightharpoonup> num) \<Rightarrow> string \<Rightarrow> transaction list \<Rightarrow> num list" where
  "refunds_of amounts i ts = map (\<lambda>r. case amounts (t_id r) of Some n \<Rightarrow> n | None \<Rightarrow> 0)
     (filter (\<lambda>r. t_reverses r = Some i) ts)"

lemma refunded_eq: "refunded w t = js_sum (refunds_of (refund_amounts w) (t_id t) (transactions w))"
  by (simp add: refunded_def refunds_of_def)

lemma refunds_of_bare: "refunds_of f i (map bare ts) = refunds_of f i ts"
  by (induction ts) (auto simp: refunds_of_def)

lemma refunds_of_append: "refunds_of f i (ts @ us) = refunds_of f i ts @ refunds_of f i us"
  by (simp add: refunds_of_def)

lemma refunds_of_other: "\<forall>t \<in> set ts. t_id t \<noteq> k \<Longrightarrow> refunds_of (f(k \<mapsto> x)) i ts = refunds_of f i ts"
  by (auto simp: refunds_of_def)

lemma bare_txn_fields: "bare t = bare_txn w k a d ps opts c \<Longrightarrow>
    t_id t = txn_id (next_txn w) \<and> t_reverses t = op_reverses opts \<and> t_postings t = ps \<and> t_kind t = k"
proof -
  assume b: "bare t = bare_txn w k a d ps opts c"
  have "t_id (bare t) = txn_id (next_txn w)" "t_reverses (bare t) = op_reverses opts" "t_postings (bare t) = ps"
      "t_kind (bare t) = k"
    unfolding b by (simp_all add: bare_txn_def)
  then show ?thesis by simp
qed

lemma refund_recorded:
  assumes ids: "wf_ids w" and r: "append_txn k a d ps opts w = (Inr t', w')"
    and o: "op_reverses opts = Some (t_id t)" "op_refund_units opts = Some x" "t_id t \<noteq> []"
  shows "refunded w' t = js_add (refunded w t) x"
proof -
  note d = append_done [OF r]
  then obtain c where b: "bare t' = bare_txn w k a d ps opts c" by blast
  note f = bare_txn_fields [OF b]
  have "truthy_str (op_reverses opts)" using o by (simp add: truthy_str_def)
  then have ra: "refund_amounts w' = (refund_amounts w)(t_id t' \<mapsto> x)" using d o by simp
  have fresh: "\<forall>u \<in> set (transactions w). t_id u \<noteq> t_id t'"
    using ids fresh_txn_id(1) [of "next_txn w"] f by (auto simp: wf_ids_def)
  define i where "i = t_id t"
  have new: "refunds_of (refund_amounts w') i [bare t'] = [x]" using f o by (simp add: refunds_of_def ra i_def)
  have "refunds_of (refund_amounts w') i (transactions w') = refunds_of (refund_amounts w') i (map bare (transactions w'))"
    by (simp only: refunds_of_bare)
  also have "\<dots> = refunds_of (refund_amounts w') i (map bare (transactions w) @ [bare t'])" using d by simp
  also have "\<dots> = refunds_of (refund_amounts w) i (transactions w) @ [x]"
    unfolding refunds_of_append refunds_of_bare new unfolding ra refunds_of_other [OF fresh] ..
  finally show ?thesis by (simp add: refunded_eq i_def)
qed

text \<open>
  A refund returns at most what is left of the payment, and what is left shrinks by exactly that.
\<close>

lemma refund_parties_bound:
  assumes ids: "wf_ids w" and t: "txn_by_id w i = Some t" and safe: "is_safe (original_amount t)"
    and int: "is_integer (refunded w t)" "0 \<le> refunded w t" and x: "is_safe x" "0 < x"
    and r: "refund_parties u t a b x m w = (Inr t', w')"
  shows "refunded w' t = refunded w t + x \<and> refunded w' t \<le> original_amount t"
proof -
  have le: "x \<le> js_sub (original_amount t) (refunded w t)"
    and ap: "\<exists>k a d ps. append_txn k a d ps ((correction_opts t)\<lparr>op_refund_units := Some x\<rparr>) w = (Inr t', w')"
    using r by (auto simp: refund_parties_def Let_def guard_simps refund_refusals_def not_less)
  have o: "is_integer (original_amount t)" "\<bar>original_amount t\<bar> \<le> 9007199254740991" "is_integer x" "\<bar>x\<bar> \<le> 9007199254740991"
    using safe x by (auto dest: is_safeD)
  have "0 < js_sub (original_amount t) (refunded w t)" using le x(2) by linarith
  then have "0 < original_amount t - refunded w t" by (simp add: js_sub_def)
  then have le2: "x \<le> original_amount t - refunded w t"
    using le o int by (simp add: js_sub_exact is_integer_diff)
  have "t_id t \<noteq> []" using wf_ids_nonempty [OF ids t] txn_by_id_id [OF t] by simp
  then have "refunded w' t = js_add (refunded w t) x"
    using ap refund_recorded [OF ids] by (auto simp: correction_opts_def no_opts_def)
  moreover have "js_add (refunded w t) x = refunded w t + x"
    using le2 o int x(2) by (intro js_add_exact is_integer_add) auto
  ultimately show ?thesis using le2 by simp
qed

lemma refund_cases:
  assumes "refund u i x m w = (Inr t', w')"
  obtains t a b where "txn_by_id w i = Some t" "is_safe x" "0 < x" "t_kind t \<in> {Transfer, Purchase}"
    "refund_parties u t a b x m w = (Inr t', w')"
  using assms by (auto simp: refund_def guard_simps require_amount_None not_refundable_def split: option.splits)

lemma refund_bound:
  assumes "wf_ids w" and "refund u i x m w = (Inr t', w')" and "txn_by_id w i = Some t"
    and "is_safe (original_amount t)" "is_integer (refunded w t)" "0 \<le> refunded w t"
  shows "refunded w' t = refunded w t + x \<and> refunded w' t \<le> original_amount t"
  using assms refund_parties_bound by (elim refund_cases) (metis option.inject)

section \<open>Reversal\<close>

lemma reverse_mirror:
  assumes r: "reverse_txn u i m w = (Inr t', w')" and ids: "wf_ids w"
  shows "\<exists>t. txn_by_id w i = Some t \<and> t_kind t \<noteq> Reversal \<and> t_kind t' = Reversal \<and> t_reverses t' = Some i
    \<and> t_postings t' = map negate_posting (current_postings w t)
    \<and> map bare (transactions w') = map bare (transactions w) @ [bare t'] \<and> is_reversed w' i"
proof -
  from r obtain t where t: "txn_by_id w i = Some t" "t_kind t \<noteq> Reversal"
    and ap0: "append_txn Reversal (u_id u) m (map negate_posting (current_postings w t))
      ((correction_opts t)\<lparr>op_allow_overdraft := (u_role u = Nana), op_reference := t_reference t\<rparr>) w = (Inr t', w')"
    unfolding reverse_txn_def reverse_refusals_def by (auto simp only: guard_simps split: option.splits)
  define opts where "opts = (correction_opts t)\<lparr>op_allow_overdraft := (u_role u = Nana), op_reference := t_reference t\<rparr>"
  have ap: "append_txn Reversal (u_id u) m (map negate_posting (current_postings w t)) opts w = (Inr t', w')"
    using ap0 by (simp add: opts_def)
  have o: "op_reverses opts = Some i" using txn_by_id_id [OF t(1)] by (simp add: opts_def)
  note d = append_done [OF ap]
  then obtain c where b: "bare t' = bare_txn w Reversal (u_id u) m (map negate_posting (current_postings w t)) opts c" by blast
  have rev: "is_reversed v i = (\<exists>u \<in> set (map bare (transactions v)). t_reverses u = Some i)" for v
    by (auto simp: is_reversed_def list_ex_iff)
  have "is_reversed w' i" unfolding rev using d bare_txn_fields [OF b] o by simp
  then show ?thesis using t o d bare_txn_fields [OF b] by auto
qed

text \<open>A payment is reversed at most once.\<close>

lemma reversed_refuses: "is_reversed w i \<Longrightarrow> wf_ids w \<Longrightarrow> \<exists>e. fst (reverse_txn u i m w) = Inl e"
  by (auto simp: reverse_txn_def guarded_def reverse_refusals_def throw_if_def require_active_def
      split: option.splits dest!: txn_by_id_id)

section \<open>Bearer vouchers\<close>

lemma hex_digit_lower: "d < 16 \<Longrightarrow> is_lower_hex (hex_digit d)"
  by (auto simp: is_lower_hex_def is_digit_def hex_digit_def)

lemma to_hex_lower: "list_all is_lower_hex (to_hex bs)"
proof (induction bs)
  case (Cons b bs)
  have "unat b < 2 ^ LENGTH(8)" by (rule unsigned_less)
  then have "unat b < 256" by simp
  then have "unat b div 16 < 16" "unat b mod 16 < 16" by auto
  then show ?case using Cons hex_digit_lower by (simp add: to_hex_def hex_byte_def)
qed (simp add: to_hex_def)

lemma token_ok: "length bs = 32 \<Longrightarrow> is_token (TOKEN_PREFIX @ to_hex bs)"
  using to_hex_length [of bs] to_hex_lower [of bs]
  by (simp add: is_token_def TOKEN_PREFIX_def starts_with_def)

lemma create_nickle_done:
  assumes "create_nickle a x f bs w = (Inr (tok, y, ser), w')"
  shows "tok = TOKEN_PREFIX @ to_hex bs \<and> y = x \<and> is_safe x \<and> 0 < x
    \<and> map_of (nickles w') (digest_nickle tok) = Some \<lparr>nk_amount = x, nk_serial = ser, nk_issuer = u_id a\<rparr>
    \<and> length (nickles w) < 128 \<and> map_of (nickles w) (digest_nickle tok) = None
    \<and> (\<exists>k d opts t w1 ns n. append_txn k (u_id a) d
          (payment_of (if f then SYSTEM_ISSUANCE else u_account a) NICKLE_RESERVE x) opts w = (Inr t, w1)
        \<and> w' = w1\<lparr>nickles := ns, next_nickle := n\<rparr>)"
proof -
  from assms obtain k d opts t w1 where
    ap: "append_txn k (u_id a) d (payment_of (if f then SYSTEM_ISSUANCE else u_account a) NICKLE_RESERVE x) opts w = (Inr t, w1)"
    and w': "w' = w1\<lparr>nickles := AList.update (digest_nickle tok) \<lparr>nk_amount = x, nk_serial = ser, nk_issuer = u_id a\<rparr> (nickles w1),
      next_nickle := Suc (next_nickle w1)\<rparr>"
    and g: "tok = TOKEN_PREFIX @ to_hex bs" "y = x" "is_safe x" "0 < x" "length (nickles w) < 128"
      "map_of (nickles w) (digest_nickle tok) = None"
    unfolding create_nickle_def Let_def payment_of_def by (auto simp: guard_simps require_amount_None)
  have "map_of (nickles w') (digest_nickle tok) = Some \<lparr>nk_amount = x, nk_serial = ser, nk_issuer = u_id a\<rparr>"
    by (simp add: w' update_conv)
  then show ?thesis using g ap w' by blast
qed

lemma redeem_nickle_done:
  assumes "redeem_nickle b tok w = (Inr t, w')"
  shows "\<exists>v w1. map_of (nickles w) (digest_nickle tok) = Some v \<and> nk_issuer v \<noteq> u_id b
    \<and> append_txn Transfer (u_id b) (''Redeem nana-nickle '' @ nk_serial v)
        (payment_of NICKLE_RESERVE (u_account b) (nk_amount v)) (no_opts\<lparr>op_reference := Some (''nickle:'' @ nk_serial v)\<rparr>) w
        = (Inr t, w1)
    \<and> nickles w' = AList.delete (digest_nickle tok) (nickles w) \<and> (\<forall>a. balance_of w' a = balance_of w1 a)"
proof -
  from assms obtain v w1 where v: "map_of (nickles w) (digest_nickle tok) = Some v" "nk_issuer v \<noteq> u_id b"
    and ap: "append_txn Transfer (u_id b) (''Redeem nana-nickle '' @ nk_serial v)
        (payment_of NICKLE_RESERVE (u_account b) (nk_amount v)) (no_opts\<lparr>op_reference := Some (''nickle:'' @ nk_serial v)\<rparr>) w
        = (Inr t, w1)"
    and w': "w' = w1\<lparr>nickles := AList.delete (digest_nickle tok) (nickles w1)\<rparr>"
    by (auto simp: redeem_nickle_def Let_def guard_simps payment_of_def split: option.splits)
  have "nickles w1 = nickles w" using append_done [OF ap] by (simp add: same_books_def)
  then show ?thesis using v ap by (auto simp: w' balance_of_def)
qed

lemma gone_voucher: "map_of (nickles w) (digest_nickle tok) = None \<Longrightarrow>
    \<exists>e. redeem_nickle b tok w = (Inl e, w)"
  by (auto simp: redeem_nickle_def Let_def guarded_def split: option.splits)

lemma redeemed_once:
  assumes "redeem_nickle b tok w = (Inr t, w')"
  shows "\<exists>e. redeem_nickle c tok w' = (Inl e, w')"
  using redeem_nickle_done [OF assms] by (intro gone_voucher) (auto simp: delete_conv')

text \<open>A voucher created and handed over is worth exactly its amount to whoever redeems it.\<close>

lemma create_then_redeem:
  assumes ok: "books_ok w" and c: "create_nickle a x f bs w = (Inr (tok, y, ser), w')" and bs: "length bs = 32"
    and reserve: "0 \<le> balance_of w NICKLE_RESERVE" and payer: "u_account a \<noteq> NICKLE_RESERVE"
    and b: "u_status b = UserActive" "u_id b \<noteq> u_id a" "u_account b \<noteq> NICKLE_RESERVE"
  shows "\<exists>t w''. redeem_nickle b tok w' = (Inr t, w'') \<and>
    balance_of w'' (u_account b) = js_add (balance_of w' (u_account b)) x"
proof -
  note d = create_nickle_done [OF c]
  define src where "src = (if f then SYSTEM_ISSUANCE else u_account a)"
  obtain k d opts t w1 ns n where ap: "append_txn k (u_id a) d (payment_of src NICKLE_RESERVE x) opts w = (Inr t, w1)"
    and w': "w' = w1\<lparr>nickles := ns, next_nickle := n\<rparr>" using d src_def by blast
  have bal: "balance_of w' b = balance_of w1 b" "wf_money w' = wf_money w1" for b
    by (simp_all add: w' balance_of_def wf_money_def)
  have x: "is_double x" "is_integer x" "0 < x" "\<bar>x\<bar> \<le> 9007199254740991" using d is_safeD [of x] by auto
  have wf: "wf_money w" using ok by (simp add: books_ok_def)
  have ne: "src \<noteq> NICKLE_RESERVE" using payer by (simp add: src_def SYSTEM_ISSUANCE_def NICKLE_RESERVE_def)
  have "balance_of w' NICKLE_RESERVE = js_add (balance_of w NICKLE_RESERVE) x"
    unfolding bal(1) by (rule payment_balance(2) [OF wf ap x(1) ne])
  moreover have "x \<le> js_add (balance_of w NICKLE_RESERVE) x"
    unfolding js_add_def using reserve x by (intro fl_ge_integer) auto
  ultimately have fund: "x \<le> balance_of w' NICKLE_RESERVE" by simp
  define v where "v = \<lparr>nk_amount = x, nk_serial = ser, nk_issuer = u_id a\<rparr>"
  have v: "map_of (nickles w') (digest_nickle tok) = Some v" unfolding v_def using d by blast
  obtain t2 w2 where ap2: "append_txn Transfer (u_id b) (''Redeem nana-nickle '' @ nk_serial v)
      (payment_of NICKLE_RESERVE (u_account b) (nk_amount v)) (no_opts\<lparr>op_reference := Some (''nickle:'' @ nk_serial v)\<rparr>) w'
      = (Inr t2, w2)"
    using payment_pays [of w' "no_opts\<lparr>op_reference := Some (''nickle:'' @ ser)\<rparr>" x NICKLE_RESERVE Transfer
        "u_id b" "''Redeem nana-nickle '' @ ser" "u_account b"] x fund
    by (auto simp: v_def)
  have tok: "is_token tok" using d token_ok [OF bs] by simp
  then have r: "redeem_nickle b tok w' = (Inr t2, w2\<lparr>nickles := AList.delete (digest_nickle tok) (nickles w2)\<rparr>)"
    using tok v ap2 b by (simp add: redeem_nickle_def Let_def guarded_def require_active_def throw_if_def and_then_def
        payment_of_def v_def)
  have "\<forall>p \<in> set (payment_of src NICKLE_RESERVE x). is_double (p_amount p) \<and> is_integer (p_amount p)"
    using x by (simp add: payment_of_def)
  from append_books_ok [OF ok ap this] have "wf_money w1" by (simp add: books_ok_def)
  then have "wf_money w'" by (simp add: bal)
  from payment_balance(2) [OF this ap2] x b(3) have "balance_of w2 (u_account b) = js_add (balance_of w' (u_account b)) x"
    by (simp add: v_def)
  then show ?thesis using r by (auto simp: balance_of_def)
qed

section \<open>Tickets\<close>

text \<open>A ticket purchase that returns is the payment of its price into the pool's account.\<close>

lemma tickets_paid:
  assumes wf: "wf_draws (lotto_draws w)" and ok: "books_ok w" and ne: "u_account u \<noteq> pool_account i"
    and r: "lotto_buy lotto_host u i n t w = (Inr v, w')"
  shows "\<exists>d d'. d \<in> set (lotto_draws w) \<and> lo_id (d_view d) = i \<and> lo_status (d_view d) = LottoOpen
    \<and> of_int t < lt_closes_at (lo_terms (d_view d))
    \<and> lotto_draws w' = upd_first (\<lambda>x. lo_id (d_view x) = i) (\<lambda>_. d') (lotto_draws w) \<and> lo_id (d_view d') = i
    \<and> v = (d_view d')\<lparr>lo_my_tickets := tickets_of d' (u_account u)\<rparr>
    \<and> lo_tickets (d_view d') = lo_tickets (d_view d) + n
    \<and> (\<forall>a. tickets_of d' a = tickets_of d a + (if a = u_account u then n else 0))
    \<and> lo_pool (d_view d') = lo_pool (d_view d) + n * lt_ticket_price (lo_terms (d_view d))
    \<and> n * lt_ticket_price (lo_terms (d_view d)) \<le> balance_of w (u_account u)
    \<and> balance_of w' (u_account u) = js_sub (balance_of w (u_account u)) (n * lt_ticket_price (lo_terms (d_view d)))
    \<and> balance_of w' (pool_account i) = js_add (balance_of w (pool_account i)) (n * lt_ticket_price (lo_terms (d_view d)))
    \<and> (\<forall>a. a \<noteq> u_account u \<longrightarrow> a \<noteq> pool_account i \<longrightarrow> balance_of w' a = balance_of w a)"
proof -
  have g: "oh_get lotto_host = lotto_draws" "oh_balance lotto_host = balance_of" "oh_post lotto_host = lotto_post"
    by (simp_all add: lotto_host_def)
  obtain d d' w1 where d: "d \<in> set (lotto_draws w)" "lo_id (d_view d) = i" "lo_status (d_view d) = LottoOpen"
      "of_int t < lt_closes_at (lo_terms (d_view d))"
      "lotto_draws w' = upd_first (\<lambda>x. lo_id (d_view x) = i) (\<lambda>_. d') (lotto_draws w)" "lo_id (d_view d') = i"
      "v = (d_view d')\<lparr>lo_my_tickets := tickets_of d' (u_account u)\<rparr>"
      "lo_tickets (d_view d') = lo_tickets (d_view d) + n"
      "\<forall>a. tickets_of d' a = tickets_of d a + (if a = u_account u then n else 0)"
      "lo_pool (d_view d') = lo_pool (d_view d) + n * lt_ticket_price (lo_terms (d_view d))"
      "n * lt_ticket_price (lo_terms (d_view d)) \<le> balance_of w (u_account u)"
    and dbl: "is_double (n * lt_ticket_price (lo_terms (d_view d)))"
    and po: "lotto_post i ''Lotto tickets'' (ticket_postings u i (n * lt_ticket_price (lo_terms (d_view d)))) w = (Inr (), w1)"
    and b: "balance_of w' = balance_of w1"
    using draws.buy_done [unfolded g, OF wf r] by blast
  define cost where "cost = n * lt_ticket_price (lo_terms (d_view d))"
  have "is_double cost" using dbl by (simp add: cost_def)
  then have dd: "\<forall>p \<in> set (ticket_postings u i cost). is_double (p_amount p)" by (simp add: ticket_postings_def)
  from po obtain tx k m os where "append_txn k m ''Lotto tickets'' (ticket_postings u i cost) os w = (Inr tx, w1)"
    by (auto simp: lotto_post_def guard_simps cost_def)
  from append_balance [OF _ this dd] ok
  have bal: "balance_of w1 a = js_sum_from (balance_of w a) (amounts_of a (ticket_postings u i cost))" for a
    by (simp add: books_ok_def)
  have "balance_of w' (u_account u) = js_sub (balance_of w (u_account u)) cost"
    "balance_of w' (pool_account i) = js_add (balance_of w (pool_account i)) cost"
    "a \<noteq> u_account u \<Longrightarrow> a \<noteq> pool_account i \<Longrightarrow> balance_of w' a = balance_of w a" for a
    using ne by (auto simp: b bal ticket_postings_def amounts_of_def js_sub_def js_add_def)
  with d show ?thesis unfolding cost_def by blast
qed

section \<open>Currency reform\<close>

text \<open>\<open>rescaled e x y\<close>: \<open>y\<close> is exactly \<open>x\<close> times \<open>10 ^ e\<close>.\<close>

definition rescaled :: "int \<Rightarrow> num \<Rightarrow> num \<Rightarrow> bool" where
  "rescaled e x y \<longleftrightarrow> (if e < 0 then y * 10 ^ nat (- e) = x else y = x * 10 ^ nat e)"

lemma reform_convert_rescaled:
  assumes "reform_convert e m x = Inr y" and "m \<le> 9007199254740992"
  shows "rescaled e x y \<and> \<bar>y\<bar> \<le> of_int m"
proof -
  from assms obtain n v where n: "x = of_int n"
    and v: "v = (if e < 0 then big_div n (10 ^ nat \<bar>e\<bar>) else n * 10 ^ nat \<bar>e\<bar>)"
    and ex: "e < 0 \<longrightarrow> big_mod n (10 ^ nat \<bar>e\<bar>) = 0" and b: "\<not> v > m" "\<not> v < - m" and y: "y = of_bigint v"
    by (auto simp: reform_convert_def to_bigint_Inr Let_def split: sum.splits if_splits)
  have yv: "y = of_int v" using b assms(2) unfolding y by (intro of_bigint_exact) linarith
  have "rescaled e x y"
  proof (cases "e < 0")
    case True
    then have "v * 10 ^ nat (- e) = n" using ex v big_div_mod [of n "10 ^ nat \<bar>e\<bar>"] by simp
    then have "(of_int (v * 10 ^ nat (- e)) :: rat) = of_int n" by simp
    then show ?thesis using True by (simp add: rescaled_def n yv)
  qed (simp add: rescaled_def n yv v)
  moreover have "\<bar>y\<bar> \<le> of_int m" using b unfolding yv by (simp add: abs_le_iff)
  ultimately show ?thesis ..
qed

lemma map_res_all: "map_res f xs = Inr ys \<Longrightarrow> (\<And>x y. f x = Inr y \<Longrightarrow> P x y) \<Longrightarrow> list_all2 P xs ys"
  by (auto simp: list_all2_conv_all_nth dest: map_res_Inr)

text \<open>
  A preview, or a refused reform, changes nothing. A reform that goes through rescales every listing,
  offer, quote and voucher exactly, keeps the dollar side of a quote, and does not touch the journal.
\<close>

lemma reform_all_or_nothing:
  assumes "reform u i w = (r, w')"
  shows "if (\<exists>e. r = Inl e) \<or> ri_preview i then w' = w
    else money_epoch w' = Suc (money_epoch w) \<and> decimals w' = nat \<lfloor>ri_decimals i\<rfloor>
    \<and> epoch_exponents w' = map (\<lambda>x. x + reform_exponent w i) (epoch_exponents w) @ [0] \<and> transactions w' = transactions w
    \<and> lending_reform (reform_exponent w i) (lending_book w) = Inr (lending_book w')
    \<and> list_all2 (\<lambda>x y. y = x\<lparr>l_price := l_price y\<rparr> \<and> rescaled (reform_exponent w i) (l_price x) (l_price y)) (listings w) (listings w')
    \<and> list_all2 (\<lambda>x y. y = x\<lparr>o_amount := o_amount y\<rparr> \<and> rescaled (reform_exponent w i) (o_amount x) (o_amount y)) (offers w) (offers w')
    \<and> list_all2 (\<lambda>x y. q_cents y = q_cents x \<and> rescaled (reform_exponent w i) (q_coins x) (q_coins y)) (quotes w) (quotes w')
    \<and> list_all2 (\<lambda>x y. fst y = fst x \<and> rescaled (reform_exponent w i) (nk_amount (snd x)) (nk_amount (snd y))) (nickles w) (nickles w')"
proof (cases "(\<exists>e. r = Inl e) \<or> ri_preview i")
  case False
  define e where "e = reform_exponent w i"
  from False obtain v where v: "r = Inr v" "\<not> ri_preview i" by (cases r) auto
  from assms [unfolded v(1)] v(2) obtain pl where pl: "plan_reform e \<lfloor>ri_power i\<rfloor> w = Inr pl"
    and w': "w' = apply_reform e (nat \<lfloor>ri_decimals i\<rfloor>) pl w"
    by (auto simp: reform_def guarded_def Let_def e_def split: option.splits sum.splits if_splits)
  from pl have m: "map_res (reform_listing e) (listings w) = Inr (pl_listings pl)"
      "map_res (reform_offer e) (offers w) = Inr (pl_offers pl)"
      "map_res (reform_quote e \<lfloor>ri_power i\<rfloor>) (quotes w) = Inr (pl_quotes pl)"
      "map_res (reform_nickle e) (nickles w) = Inr (pl_nickles pl)" "lending_reform e (lending_book w) = Inr (pl_lending pl)"
    by (auto simp: plan_reform_def split: sum.splits)
  have c: "reform_convert e 1000000000000000 x = Inr y \<Longrightarrow> rescaled e x y" for x y
    using reform_convert_rescaled by simp
  have "list_all2 (\<lambda>x y. y = x\<lparr>l_price := l_price y\<rparr> \<and> rescaled e (l_price x) (l_price y)) (listings w) (pl_listings pl)"
    by (rule map_res_all [OF m(1)]) (auto simp: reform_listing_def split: sum.splits dest: c)
  moreover have "list_all2 (\<lambda>x y. y = x\<lparr>o_amount := o_amount y\<rparr> \<and> rescaled e (o_amount x) (o_amount y)) (offers w) (pl_offers pl)"
    by (rule map_res_all [OF m(2)]) (auto simp: reform_offer_def split: sum.splits dest: c)
  moreover have "list_all2 (\<lambda>x y. q_cents y = q_cents x \<and> rescaled e (q_coins x) (q_coins y)) (quotes w) (pl_quotes pl)"
    by (rule map_res_all [OF m(3)]) (auto simp: reform_quote_def split: sum.splits dest: c)
  moreover have "list_all2 (\<lambda>x y. fst y = fst x \<and> rescaled e (nk_amount (snd x)) (nk_amount (snd y))) (nickles w) (pl_nickles pl)"
    by (rule map_res_all [OF m(4)]) (auto simp: reform_nickle_def split: sum.splits dest: c)
  ultimately show ?thesis using False m(5) unfolding if_not_P [OF False] by (simp add: w' apply_reform_def e_def)
next
  case True
  with assms show ?thesis
    by (auto simp: reform_def guarded_def Let_def split: option.splits sum.splits if_splits)
qed

text \<open>
  The loans of a reformed book: every amount is rescaled, and so is the interest owed together with
  its fraction, as one number counted in units of one over the loan's denominator.
\<close>

definition exact_interest :: "stored_loan \<Rightarrow> num" where
  "exact_interest l = ln_interest l * of_int (accrue_denominator l) + of_int (sl_remainder l)"

definition loan_rescaled :: "int \<Rightarrow> stored_loan \<Rightarrow> stored_loan \<Rightarrow> bool" where
  "loan_rescaled e l l' \<longleftrightarrow> rescaled e (exact_interest l) (exact_interest l')
     \<and> rescaled e (ln_amount l) (ln_amount l') \<and> rescaled e (ln_installment l) (ln_installment l')
     \<and> rescaled e (ln_principal l) (ln_principal l') \<and> rescaled e (sl_principal_due l) (sl_principal_due l')
     \<and> rescaled e (sl_interest_due l) (sl_interest_due l') \<and> rescaled e (sl_attempted_balance l) (sl_attempted_balance l')
     \<and> l' = l\<lparr>ln_amount := ln_amount l', ln_installment := ln_installment l', ln_principal := ln_principal l',
          sl_principal_due := sl_principal_due l', sl_interest_due := sl_interest_due l',
          sl_attempted_balance := sl_attempted_balance l', ln_interest := ln_interest l', sl_remainder := sl_remainder l'\<rparr>"

lemma scaled_rescaled: "scaled e n v \<Longrightarrow> rescaled e (of_int n) (of_int v)"
  by (auto simp: scaled_def rescaled_def)

lemma amount_rescaled: "loan_convert_amount e x = Inr y \<Longrightarrow> rescaled e x y"
  by (metis loan_convert_amount_scaled scaled_rescaled)

lemma reform_loan_exact:
  assumes wf: "wf_loan l" and r: "reform_loan e l = Inr l'"
  shows "loan_rescaled e l l'"
proof -
  define d where "d = accrue_denominator l"
  have d: "0 < d" unfolding d_def by (rule wf_terms_denominator) (use wf in \<open>simp add: wf_loan_def\<close>)
  obtain i acc am ins pr pd idue att where
    i: "ln_interest l = of_int i" and sa: "scaled e (i * d + sl_remainder l) acc"
    and c: "loan_convert_amount e (ln_amount l) = Inr am" "loan_convert_amount e (ln_installment l) = Inr ins"
      "loan_convert_amount e (ln_principal l) = Inr pr" "loan_convert_amount e (sl_principal_due l) = Inr pd"
      "loan_convert_amount e (sl_interest_due l) = Inr idue" "loan_convert_amount e (sl_attempted_balance l) = Inr att"
    and l': "l' = l\<lparr>ln_amount := am, ln_installment := ins, ln_principal := pr,
       sl_principal_due := pd, sl_interest_due := idue, sl_attempted_balance := att,
       ln_interest := of_bigint (big_div acc d), sl_remainder := big_mod acc d\<rparr>"
    and pl: "\<And>p. pr = of_int p \<Longrightarrow> p + big_div acc d \<le> 9007199254740991"
    using reform_loan_parts [OF r] d unfolding d_def by metis
  obtain p1 p2 where p: "ln_principal l = of_int p1" "pr = of_int p2" "scaled e p1 p2"
    by (rule loan_convert_amount_scaled [OF c(3)])
  have "0 \<le> p1" "0 \<le> i" "0 \<le> sl_remainder l" using wf by (auto simp: wf_loan_def wf_debt_def p i)
  then have nn: "0 \<le> p2" "0 \<le> acc" using scaled_nonneg [OF p(3)] scaled_nonneg [OF sa] d by auto
  then have k: "0 \<le> big_div acc d" "big_div acc d \<le> 9007199254740991"
    using pl [OF p(2)] d by (auto simp: big_div_nonneg pos_imp_zdiv_nonneg_iff)
  have "ln_interest l' = of_int (big_div acc d)" "sl_remainder l' = big_mod acc d" "accrue_denominator l' = d"
    using k by (simp_all add: l' of_bigint_exact accrue_denominator_def d_def)
  then have "exact_interest l' = of_int (big_div acc d * d + big_mod acc d)" by (simp add: exact_interest_def)
  then have x': "exact_interest l' = of_int acc" by (simp only: big_div_mod)
  have x: "exact_interest l = of_int (i * d + sl_remainder l)" by (simp add: exact_interest_def i d_def)
  have "rescaled e (exact_interest l) (exact_interest l')" unfolding x x' by (rule scaled_rescaled [OF sa])
  then show ?thesis using c by (auto simp: loan_rescaled_def l' intro: amount_rescaled)
qed

lemma lending_reform_exact:
  assumes wf: "wf_book b" and r: "lending_reform e b = Inr b'"
  shows "wf_book b' \<and> b' = b\<lparr>le_loans := le_loans b'\<rparr> \<and> list_all2 (loan_rescaled e) (le_loans b) (le_loans b')"
proof -
  from r obtain ls where m: "map_res (reform_loan e) (le_loans b) = Inr ls" and b': "b' = b\<lparr>le_loans := ls\<rparr>"
    by (auto simp: lending_reform_def split: sum.splits)
  have "loan_rescaled e (le_loans b ! k) (ls ! k)" if "k < length (le_loans b)" for k
    using map_res_Inr [OF m] that wf by (intro reform_loan_exact) (auto simp: wf_book_def)
  then have "list_all2 (loan_rescaled e) (le_loans b) ls"
    using map_res_Inr [OF m] by (simp add: list_all2_conv_all_nth)
  with lending_reform_wf [OF assms] show ?thesis by (simp add: b')
qed

end
