(* ===== verification/GiftSafety.thy ===== *)
theory GiftSafety
  imports LedgerSafety
begin

text \<open>
  Gift requests are never lost: in every reachable ledger each journal entry that names a gift
  request names one the commerce book still holds. \<open>append\<close> pushes the entry of a reversal or a
  refund before it takes the money off its gift request, so this is what keeps corrections atomic.
  The books are covered once more by the frame locales, interpreted for \<open>gifts_kept\<close>.
\<close>

section \<open>What is kept\<close>

definition request_ids :: "commerce \<Rightarrow> nat set" where
  "request_ids c = set (map g_id (cm_requests c))"

definition gift_of_ok :: "ledger \<Rightarrow> nat option \<Rightarrow> bool" where
  "gift_of_ok w g \<longleftrightarrow> (truthy_nat g \<longrightarrow> the g \<in> request_ids (commerce_book w))"

definition gifts_kept :: "ledger \<Rightarrow> ledger \<Rightarrow> bool" where
  "gifts_kept w w' \<longleftrightarrow> request_ids (commerce_book w) \<subseteq> request_ids (commerce_book w') \<and> (wf_gifts w \<longrightarrow> wf_gifts w')"

definition same_gifts :: "ledger \<Rightarrow> ledger \<Rightarrow> bool" where
  "same_gifts w w' \<longleftrightarrow> map t_gift_request (transactions w') = map t_gift_request (transactions w)
     \<and> request_ids (commerce_book w') = request_ids (commerce_book w)"

lemma find_request_in: "find_request c j \<noteq> None \<longleftrightarrow> j \<in> request_ids c"
  unfolding find_request_ids request_ids_def by (rule refl)

lemma wf_gifts_iff: "wf_gifts w \<longleftrightarrow> (\<forall>g \<in> set (map t_gift_request (transactions w)). gift_of_ok w g)"
  unfolding wf_gifts_def gift_of_ok_def find_request_in by simp

lemma kept_refl [simp]: "gifts_kept w w"
  by (simp add: gifts_kept_def)

lemma kept_trans: "gifts_kept w w' \<Longrightarrow> gifts_kept w' w'' \<Longrightarrow> gifts_kept w w''"
  by (auto simp: gifts_kept_def)

lemma kept_same: "same_gifts w w' \<Longrightarrow> gifts_kept w w'"
  by (simp add: same_gifts_def gifts_kept_def wf_gifts_iff gift_of_ok_def del: set_map)

lemma then_same: "gifts_kept w v \<Longrightarrow> same_gifts v v' \<Longrightarrow> gifts_kept w v'"
  by (rule kept_trans [OF _ kept_same])

lemma same_refl [simp]: "same_gifts w w"
  by (simp add: same_gifts_def)

lemma same_trans: "same_gifts w w' \<Longrightarrow> same_gifts w' w'' \<Longrightarrow> same_gifts w w''"
  by (simp add: same_gifts_def)

lemma kept_push:
  assumes "map t_gift_request (transactions w') = map t_gift_request (transactions w) @ [g]"
    and "commerce_book w' = commerce_book w" and "gift_of_ok w g"
  shows "gifts_kept w w'"
  using assms by (auto simp: gifts_kept_def wf_gifts_iff gift_of_ok_def simp del: set_map)

lemma kept_guarded: "gifts_kept w v \<Longrightarrow> gifts_kept w (snd (k v)) \<Longrightarrow> gifts_kept w (snd (guarded gs k v))"
  by (rule snd_guarded)

lemma kept_and_then: "gifts_kept w (snd (m v)) \<Longrightarrow>
    (\<And>a v'. m v = (Inr a, v') \<Longrightarrow> gifts_kept w v' \<Longrightarrow> gifts_kept w (snd (f a v'))) \<Longrightarrow> gifts_kept w (snd (and_then m f v))"
  by (rule snd_and_then)

lemma same_guarded: "same_gifts w v \<Longrightarrow> same_gifts w (snd (k v)) \<Longrightarrow> same_gifts w (snd (guarded gs k v))"
  by (rule snd_guarded)

lemma same_and_then: "same_gifts w (snd (m v)) \<Longrightarrow>
    (\<And>a v'. m v = (Inr a, v') \<Longrightarrow> same_gifts w v' \<Longrightarrow> same_gifts w (snd (f a v'))) \<Longrightarrow> same_gifts w (snd (and_then m f v))"
  by (rule snd_and_then)

section \<open>Appending\<close>

lemma bare_gifts: "map bare xs = map bare ys \<Longrightarrow> map t_gift_request xs = map t_gift_request ys"
proof -
  have "map t_gift_request zs = map t_gift_request (map bare zs)" for zs by simp
  then show "map bare xs = map bare ys \<Longrightarrow> map t_gift_request xs = map t_gift_request ys" by metis
qed

lemma ticked_same: "ticked w w' \<Longrightarrow> same_gifts w w'"
  using ticked_frame [of w w'] by (simp add: same_gifts_def)

lemma now_same: "now w = (t, w') \<Longrightarrow> same_gifts w w'"
  by (rule ticked_same [OF now_ticked])

lemma refund_gift_ids: "request_ids (commerce_book (snd (refund_gift original ps w))) = request_ids (commerce_book w)
    \<and> transactions (snd (refund_gift original ps w)) = transactions w"
proof -
  have "request_ids c' = request_ids c" if "commerce_refunded i n c = Inr c'" for i n c c'
    using find_request_refunded [OF that] unfolding find_request_in by blast
  then show ?thesis by (auto simp: refund_gift_def split: option.splits sum.splits)
qed

text \<open>What a call of \<open>append\<close>, refused or not, does to the gifts: nothing, or one more entry.\<close>

lemma append_gifts:
  "snd (append_txn k a d ps opts w) = w \<or> (\<exists>v. map t_gift_request (transactions v) = map t_gift_request (transactions w) @ [op_gift_request opts]
     \<and> commerce_book v = commerce_book w \<and> same_gifts v (snd (append_txn k a d ps opts w)))"
proof (cases "unbalanced ps \<or> (\<not> op_allow_overdraft opts \<and> list_ex (overdraws w) ps)")
  case True
  then show ?thesis by (auto simp: append_txn_def guarded_def throw_if_def)
next
  case False
  obtain created w1 where n: "now w = (created, w1)" by fastforce
  define w2 where "w2 = w1\<lparr>next_txn := Suc (next_txn w1)\<rparr>"
  obtain txn w3 where wd: "with_delivery k a d ps opts (bare_txn w k a d ps opts created) w2 = (txn, w3)" by fastforce
  define w4 where "w4 = push_txn txn w3"
  note f1 = ticked_frame [OF now_ticked [OF n]] and f3 = with_delivery_frame [OF wd]
  have e: "snd (append_txn k a d ps opts w) = snd (and_then (record_refund (original_of w opts) opts txn)
      (\<lambda>_. and_then (refund_gift (original_of w opts) ps) (\<lambda>_ w. (Inr txn, settle_append ps opts txn w))) w4)"
    using False
    by (auto simp: append_txn_def guarded_def throw_if_def append_checked_def n wd w2_def [symmetric] w4_def Let_def)
  have "bare txn = bare_txn w k a d ps opts created" using f3 by (simp add: bare_def bare_txn_def)
  then have "t_gift_request (bare txn) = op_gift_request opts" by (simp add: bare_txn_def)
  then have g: "t_gift_request txn = op_gift_request opts" by simp
  have "map t_gift_request (transactions w3) = map t_gift_request (transactions w)"
    using f1 f3 by (intro bare_gifts) (simp add: w2_def)
  then have "map t_gift_request (transactions w4) = map t_gift_request (transactions w) @ [op_gift_request opts]"
    "commerce_book w4 = commerce_book w"
    using f1 f3 by (simp_all add: w4_def w2_def push_txn_def g)
  moreover have "same_gifts w4 (snd (and_then (record_refund (original_of w opts) opts txn)
      (\<lambda>_. and_then (refund_gift (original_of w opts) ps) (\<lambda>_ w. (Inr txn, settle_append ps opts txn w))) w4))"
  proof (rule same_and_then)
    show "same_gifts w4 (snd (record_refund (original_of w opts) opts txn w4))"
      by (auto simp: record_refund_def same_gifts_def split: option.splits)
    show "same_gifts w4 (snd (and_then (refund_gift (original_of w opts) ps) (\<lambda>_ w. (Inr txn, settle_append ps opts txn w)) v))"
      if "same_gifts w4 v" for v
      using that refund_gift_ids [of "original_of w opts" ps v]
      by (intro same_and_then) (simp_all add: same_gifts_def settle_append_def)
  qed
  ultimately show ?thesis unfolding e by blast
qed

lemma append_kept:
  assumes "gift_of_ok w (op_gift_request opts)"
  shows "gifts_kept w (snd (append_txn k a d ps opts w))"
  using append_gifts [of k a d ps opts w]
proof
  assume "\<exists>v. map t_gift_request (transactions v) = map t_gift_request (transactions w) @ [op_gift_request opts]
    \<and> commerce_book v = commerce_book w \<and> same_gifts v (snd (append_txn k a d ps opts w))"
  then obtain v where v: "map t_gift_request (transactions v) = map t_gift_request (transactions w) @ [op_gift_request opts]"
    "commerce_book v = commerce_book w" "same_gifts v (snd (append_txn k a d ps opts w))" by blast
  from kept_push [OF v(1,2) assms] v(3) show ?thesis by (rule then_same)
qed simp

lemma append_ids: "request_ids (commerce_book (snd (append_txn k a d ps opts w))) = request_ids (commerce_book w)"
  using append_gifts [of k a d ps opts w]
  by (elim disjE exE conjE) (simp_all only: same_gifts_def)

lemma no_gift [simp]: "gift_of_ok w None"
  by (simp add: gift_of_ok_def truthy_nat_def)

lemma append_then_kept:
  assumes "gifts_kept w0 w" and "gift_of_ok w (op_gift_request opts)"
    and "\<And>t w'. append_txn k a d ps opts w = (Inr t, w') \<Longrightarrow> gifts_kept w0 w' \<Longrightarrow> gifts_kept w0 (snd (f t w'))"
  shows "gifts_kept w0 (snd (and_then (append_txn k a d ps opts) f w))"
  using kept_trans [OF assms(1) append_kept [OF assms(2)]] assms(3) by (rule snd_and_then)


section \<open>The ledger's own methods\<close>

named_theorems kept_methods "that a method of the ledger keeps its gift requests"

lemma with_listing_kept: "(\<And>l. gifts_kept w (snd (k l w))) \<Longrightarrow> gifts_kept w (snd (with_listing i k w))"
  by (cases "listing_by_id w i") (auto simp: with_listing_def)

lemma with_offer_kept: "(\<And>x. gifts_kept w (snd (k x w))) \<Longrightarrow> gifts_kept w (snd (with_offer i k w))"
  by (cases "offer_by_id w i") (auto simp: with_offer_def)

lemma now_then: "same_gifts w v \<Longrightarrow> (\<And>t v'. now v = (t, v') \<Longrightarrow> same_gifts w v' \<Longrightarrow> gifts_kept w (snd (k t v'))) \<Longrightarrow>
    gifts_kept w (snd (case now v of (t, v') \<Rightarrow> k t v'))"
  by (cases "now v") (auto dest: now_same intro: same_trans)

lemma kept_save [simp]: "gifts_kept w (snd (save_user u v w))"
  by (rule kept_same) (simp add: same_gifts_def save_user_def Let_def put_user_def)

lemma kept_members [kept_methods]:
  "gifts_kept w (snd (set_user_status u i s w))" "gifts_kept w (snd (set_user_bio u i t w))"
  "gifts_kept w (snd (set_user_password u i p w))"
  by (auto simp: set_user_status_def set_user_bio_def set_user_password_def with_user_def
      intro!: kept_guarded split: option.splits)

lemma kept_add_user: "same_gifts w v \<Longrightarrow> gifts_kept w (snd (add_user n d p r v))"
  unfolding add_user_def Let_def
  by (intro kept_guarded now_then kept_same) (simp_all add: same_gifts_def)

lemma kept_add_user_0 [kept_methods]: "gifts_kept w (snd (add_user n d p r w))"
  by (rule kept_add_user) simp

lemma kept_provision [kept_methods]: "gifts_kept w (snd (provision n d p h w))"
  unfolding provision_def Let_def
  by (intro kept_guarded kept_and_then kept_add_user kept_refl) (auto simp: same_gifts_def intro: then_same)

lemma kept_money [kept_methods]:
  "gifts_kept w (snd (transfer u a x m e w))" "gifts_kept w (snd (issue u a x m w))" "gifts_kept w (snd (retire u a x m w))"
  unfolding transfer_def issue_def retire_def
  by (intro kept_guarded kept_refl append_kept; simp add: economic_opts_def split: option.splits)+

lemma kept_now_push:
  assumes "same_gifts w v" and "commerce_book v = commerce_book w" and "now v = (c, v1)" and "transactions w' = transactions v1 @ [t]"
    and "commerce_book w' = commerce_book v1" and "t_gift_request t = None"
  shows "gifts_kept w w'"
  using assms ticked_frame [OF now_ticked [OF assms(3)]]
  by (intro kept_push [of _ _ None]) (simp_all add: same_gifts_def)

lemma kept_issue_usd [kept_methods]: "gifts_kept w (snd (issue_usd u a x m w))"
  unfolding issue_usd_def Let_def
  by (intro kept_guarded kept_refl, split prod.splits, intro allI impI)
     (rule kept_now_push [rotated 2], assumption, auto simp: push_txn_def usd_txn_def same_gifts_def)

lemma kept_nickles [kept_methods]:
  "gifts_kept w (snd (create_nickle u x f bs w))" "gifts_kept w (snd (redeem_nickle u t w))"
proof -
  show "gifts_kept w (snd (create_nickle u x f bs w))"
    unfolding create_nickle_def Let_def
    by (intro kept_guarded kept_refl append_then_kept) (auto simp: same_gifts_def intro: then_same)
  have "gifts_kept w (snd (case map_of (nickles w) dg of None \<Rightarrow> (Inl e, w) | Some v \<Rightarrow> guarded (gs v)
      (and_then (append_txn k a (d v) (ps v) (no_opts\<lparr>op_reference := r v\<rparr>))
        (\<lambda>t w. (Inr t, w\<lparr>nickles := AList.delete dg (nickles w)\<rparr>))) w))"
    for dg gs e k a d ps r
    by (cases "map_of (nickles w) dg")
       (auto simp: same_gifts_def intro!: kept_guarded append_then_kept intro: then_same)
  then show "gifts_kept w (snd (redeem_nickle u t w))"
    unfolding redeem_nickle_def Let_def by (intro kept_guarded kept_refl)
qed

lemma sell_same: "same_gifts w (snd (sell_to l b n tx w))"
  by (auto simp: sell_to_def Let_def put_listing_def same_gifts_def split: prod.splits dest!: now_same)

lemma close_offer_same: "same_gifts w (snd (close_offer x s tx w))"
  by (auto simp: close_offer_def Let_def put_offer_def same_gifts_def split: prod.splits dest!: now_same)

lemma touch_same: "same_gifts w (snd (touch_listing l w))"
  by (auto simp: touch_listing_def Let_def put_listing_def same_gifts_def split: prod.splits dest!: now_same)

lemma rivals_same: "close_rivals l i xs w = (ys, w') \<Longrightarrow> same_gifts w w'"
  by (induction xs arbitrary: w ys) (auto split: if_splits prod.splits dest!: now_same intro: same_trans)

lemma kept_listings [kept_methods]:
  "gifts_kept w (snd (create_listing u li w))" "gifts_kept w (snd (cancel_listing u i w))"
  unfolding create_listing_def cancel_listing_def Let_def
  by (intro with_listing_kept kept_guarded kept_refl now_then kept_same; simp add: same_gifts_def put_listing_def)+

lemma kept_purchase [kept_methods]: "gifts_kept w (snd (purchase u i w))"
  unfolding purchase_def
  by (intro kept_guarded kept_refl with_listing_kept append_then_kept kept_and_then)
     (auto simp: listing_opts_def intro: then_same [OF _ sell_same])

lemma kept_make_offer [kept_methods]: "gifts_kept w (snd (make_offer u i x m w))"
  unfolding make_offer_def Let_def
  by (intro kept_guarded kept_refl with_listing_kept now_then kept_same) (simp_all add: same_gifts_def)

lemma settle_offer_same: "same_gifts w (snd (settle_offer l x t w))"
proof -
  have sell: "same_gifts w (snd (and_then (sell_to l b n tx) (\<lambda>l' w. case close_rivals (l_id l) (o_id x) (offers w) w of
      (xs, w') \<Rightarrow> (Inr (g l'), w'\<lparr>offers := xs\<rparr>)) v))" if "same_gifts w v" for b n tx g v
    using that
    by (intro same_and_then same_trans [OF _ sell_same], assumption)
      (auto split: prod.splits dest!: rivals_same simp: same_gifts_def)
  have touch: "same_gifts w (snd (and_then (touch_listing l) (\<lambda>l' w. (Inr (g l'), w)) v))" if "same_gifts w v" for g v
    using that by (intro same_and_then same_trans [OF _ touch_same], assumption) simp
  show ?thesis
    unfolding settle_offer_def Let_def
    by (rule same_and_then, rule close_offer_same, split if_split) (intro conjI impI sell touch)
qed

lemma kept_close_offer: "gifts_kept w (snd (close_offer x s tx w))"
  by (rule kept_same [OF close_offer_same])

lemma kept_offers [kept_methods]:
  "gifts_kept w (snd (accept_offer u i w))" "gifts_kept w (snd (decline_offer u i w))" "gifts_kept w (snd (withdraw_offer u i w))"
  unfolding accept_offer_def decline_offer_def withdraw_offer_def
  by (intro with_offer_kept with_listing_kept kept_guarded kept_refl append_then_kept kept_close_offer
        then_same [OF _ settle_offer_same]; simp add: listing_opts_def)+


section \<open>Exchange, corrections and reform\<close>

lemma kept_fill_quote: "gifts_kept w (snd (fill_quote u q t w))"
  unfolding fill_quote_def Let_def
  by (rule kept_push [of _ _ None]) (simp_all add: put_quote_def push_txn_def usd_txn_def)

lemma kept_quotes [kept_methods]:
  "gifts_kept w (snd (post_quote u s c n w))" "gifts_kept w (snd (take_quote u i w))" "gifts_kept w (snd (cancel_quote u i w))"
proof -
  show "gifts_kept w (snd (post_quote u s c n w))"
    unfolding post_quote_def Let_def
    by (intro kept_guarded kept_refl, cases "quote_total c n"; simp)
       (intro kept_guarded kept_refl now_then kept_same; simp add: same_gifts_def)
  have m: "gifts_kept w (move_usd a b c w)" for a b c
    by (rule kept_same) (simp add: move_usd_def Let_def same_gifts_def)
  have f: "gifts_kept w (snd (fill_quote u q t v))" if "gifts_kept w v" for q t v
    using that kept_fill_quote by (rule kept_trans)
  show "gifts_kept w (snd (take_quote u i w))"
    unfolding take_quote_def
    by (intro kept_guarded kept_refl, cases "find_quote w i")
       (auto intro!: kept_guarded append_then_kept [OF m] f)
  show "gifts_kept w (snd (cancel_quote u i w))"
    unfolding cancel_quote_def Let_def
    by (cases "find_quote w i"; simp) (intro kept_guarded kept_refl now_then kept_same; simp add: same_gifts_def put_quote_def)
qed

lemma kept_correction:
  assumes "txn_by_id w i = Some t" and "op_gift_request opts = t_gift_request t"
  shows "gifts_kept w (snd (append_txn k a d ps opts w))"
proof (cases "wf_gifts w")
  case True
  then have "gift_of_ok w (op_gift_request opts)"
    using txn_by_id_id [OF assms(1)] by (simp add: wf_gifts_iff assms(2))
  then show ?thesis by (rule append_kept)
next
  case False
  have "request_ids (commerce_book (snd (append_txn k a d ps opts w))) = request_ids (commerce_book w)"
    by (rule append_ids)
  with False show ?thesis by (simp add: gifts_kept_def)
qed

lemma kept_corrections [kept_methods]: "gifts_kept w (snd (reverse_txn u i m w))" "gifts_kept w (snd (refund u i x m w))"
proof -
  show "gifts_kept w (snd (reverse_txn u i m w))"
    unfolding reverse_txn_def
    by (intro kept_guarded kept_refl, cases "txn_by_id w i")
       (auto intro!: kept_guarded intro: kept_correction simp: correction_opts_def)
  have "gifts_kept w (snd (refund_parties u t a b x m w))" if "txn_by_id w i = Some t" for t a b
    unfolding refund_parties_def Let_def
    using that by (intro kept_guarded kept_refl kept_correction) (simp_all add: correction_opts_def)
  then show "gifts_kept w (snd (refund u i x m w))"
    unfolding refund_def
    by (intro kept_guarded kept_refl, cases "txn_by_id w i") (auto intro!: kept_guarded split: option.splits)
qed

lemma put_txn_gifts: "txn_by_id v i = Some t \<Longrightarrow> same_gifts v (put_txn (t\<lparr>t_fulfillment := f\<rparr>) v)"
  using bare_gifts [OF map_bare_put_txn] by (simp add: same_gifts_def put_txn_def)

lemma kept_put_delivery: "txn_by_id w i = Some t \<Longrightarrow> now (w\<lparr>revision := n\<rparr>) = (c, v) \<Longrightarrow>
    gifts_kept w (put_txn (t\<lparr>t_fulfillment := f\<rparr>) v)"
proof -
  assume t: "txn_by_id w i = Some t" and n: "now (w\<lparr>revision := n\<rparr>) = (c, v)"
  have "same_gifts w (w\<lparr>revision := n\<rparr>)" by (simp add: same_gifts_def)
  then have s: "same_gifts w v" using now_same [OF n] by (rule same_trans)
  have "txn_by_id v i = Some t" using t now_fields [OF n] by (simp add: txn_by_id_def)
  from kept_same [OF same_trans [OF s put_txn_gifts [OF this]]] show ?thesis .
qed

lemma kept_set_fulfillment [kept_methods]: "gifts_kept w (snd (set_fulfillment u i a m w))"
  unfolding set_fulfillment_def Let_def
  by (intro kept_guarded kept_refl, cases "delivery_of w i")
     (auto intro!: kept_guarded split: prod.splits dest!: delivery_of_txn intro: kept_put_delivery)

lemma reform_ids: "commerce_reform convert c = Inr c' \<Longrightarrow> request_ids c' = request_ids c"
proof -
  assume "commerce_reform convert c = Inr c'"
  then have "map_res (reform_request convert) (cm_requests c) = Inr (cm_requests c')"
    by (auto simp: commerce_reform_def split: sum.splits)
  then have "list_all2 (\<lambda>x y. g_id y = g_id x) (cm_requests c) (cm_requests c')"
    by (rule map_res_all) (auto simp: reform_request_def split: sum.splits)
  then have "map g_id (cm_requests c') = map g_id (cm_requests c)"
    by (simp add: list_all2_conv_all_nth list_eq_iff_nth_eq)
  then show "request_ids c' = request_ids c" by (simp add: request_ids_def del: set_map)
qed

lemma kept_reform [kept_methods]: "gifts_kept w (snd (reform u i w))"
proof -
  have "gifts_kept w (apply_reform e d pl w)" if "plan_reform e pw w = Inr pl" for e d pw pl
    using that
    by (intro kept_same) (auto simp: plan_reform_def apply_reform_def same_gifts_def split: sum.splits dest: reform_ids)
  then show ?thesis
    unfolding reform_def by (intro kept_guarded kept_refl) (auto simp: Let_def split: sum.splits)
qed

section \<open>The books\<close>

interpretation lend_gifts: lending_frame lending_host gifts_kept
proof
  show "gifts_kept w w" for w by simp
  show "gifts_kept w w' \<Longrightarrow> gifts_kept w' w'' \<Longrightarrow> gifts_kept w w''" for w w' w'' by (rule kept_trans)
  fix w s d a i f r w' b
  show "gifts_kept w (lh_put lending_host b w)" by (rule kept_same) (simp add: lending_host_def same_gifts_def)
  have "gifts_kept w (snd (lending_post s d a i f w))"
    unfolding lending_post_def by (rule append_then_kept) simp_all
  then show "lh_post lending_host s d a i f w = (r, w') \<Longrightarrow> gifts_kept w w'" by (simp add: lending_host_def)
qed

interpretation draws_gifts: lotto_frame lotto_host gifts_kept
proof
  show "gifts_kept w w" for w by simp
  show "gifts_kept w w' \<Longrightarrow> gifts_kept w' w'' \<Longrightarrow> gifts_kept w w''" for w w' w'' by (rule kept_trans)
  fix w ds i memo ps
  show "gifts_kept w (oh_put lotto_host ds w)" by (rule kept_same) (simp add: lotto_host_def same_gifts_def)
  show "gifts_kept w (snd (oh_post lotto_host i memo ps w))"
    by (simp add: lotto_host_def lotto_post_def append_then_kept)
qed

lemma kept_loans [kept_methods]:
  "gifts_kept w (snd (loan_offer lending_host u i t b r w))" "gifts_kept w (snd (loan_accept lending_host u j t w))"
  "gifts_kept w (snd (loan_close lending_host u j t w))" "gifts_kept w (snd (loan_repay lending_host u j x t w))"
  using lend_gifts.offer_R lend_gifts.accept_R lend_gifts.close_R lend_gifts.repay_R
  by (metis prod.collapse)+

lemma kept_tick_loans [kept_methods]: "tick_loans rnd w = Some (r, w') \<Longrightarrow> gifts_kept w w'"
proof -
  assume a: "tick_loans rnd w = Some (r, w')"
  define v where "v = w\<lparr>ticks := Suc (ticks w)\<rparr>"
  obtain n w1 where t: "loan_tick lending_host (wall w (ticks w)) v = (n, w1)" by fastforce
  have s: "lotto_settle lotto_host (wall w (ticks w)) False rnd (w1\<lparr>revision := revision w + n\<rparr>) = Some (r, w')"
    using a t by (simp add: tick_loans_def v_def Let_def lotto_tick_def)
  have "gifts_kept w v" "gifts_kept w1 (w1\<lparr>revision := revision w + n\<rparr>)"
    by (auto simp: v_def same_gifts_def intro!: kept_same)
  then show ?thesis using kept_trans lend_gifts.tick_R [OF t] draws_gifts.settle_R [OF s] by blast
qed

lemma kept_lottos [kept_methods]:
  "gifts_kept w (w\<lparr>lotto_draws := ds\<rparr>)" "gifts_kept w (snd (lotto_buy lotto_host u i n t w))"
  "lotto_resolve_now lotto_host u t rnd w = Some (r, w') \<Longrightarrow> gifts_kept w w'"
  "lotto_tick lotto_host t rnd w = Some (r', w') \<Longrightarrow> gifts_kept w w'"
  using draws_gifts.buy_R draws_gifts.resolve_R draws_gifts.settle_R
  by (auto intro: kept_same simp: lotto_tick_def same_gifts_def)

text \<open>
  A command pays a request only when the book holds it, and what it writes holds every request there was.
\<close>

definition keeps_requests :: "apply_fun \<Rightarrow> bool" where
  "keeps_requests f \<longleftrightarrow> (\<forall>n c. request_ids c \<subseteq> request_ids (f n c))"

definition prepares :: "ledger \<Rightarrow> apply_fun res \<times> ledger \<Rightarrow> bool" where
  "prepares w p \<longleftrightarrow> gifts_kept w (snd p) \<and> (\<forall>f. fst p = Inr f \<longrightarrow> keeps_requests f)"

lemma prepares_Inl: "same_gifts w v \<Longrightarrow> prepares w (Inl e, v)"
  by (simp add: prepares_def kept_same)

lemma prepares_Inr: "same_gifts w v \<Longrightarrow> keeps_requests f \<Longrightarrow> prepares w (Inr f, v)"
  by (simp add: prepares_def kept_same)

lemma prepares_guarded: "same_gifts w v \<Longrightarrow> prepares w (k v) \<Longrightarrow> prepares w (guarded gs k v)"
  by (auto simp: guarded_def intro: prepares_Inl split: option.splits)

lemma prepares_pay:
  assumes "same_gifts w v" and "gift_of_ok v g" and "keeps_requests f"
  shows "prepares w (and_then (ch_pay commerce_host u a x m g k) (\<lambda>_ w. (Inr f, w)) v)"
proof -
  have "gifts_kept v (snd (commerce_pay u a x m g k v))"
    unfolding commerce_pay_def
    by (cases "user_by_id v (u_id u)") (auto intro!: kept_guarded append_kept simp: assms(2))
  then have "gifts_kept w (snd (commerce_pay u a x m g k v))" using kept_trans [OF kept_same [OF assms(1)]] by blast
  then show ?thesis using assms(3)
    by (cases "commerce_pay u a x m g k v"; cases "fst (commerce_pay u a x m g k v)")
       (auto simp: prepares_def and_then_def commerce_host_def)
qed

lemma commerce_host_gifts [simp]: "ch_get commerce_host = commerce_book" "ch_now commerce_host = now"
  "ch_sequence commerce_host = commerce_sequence" "ch_put commerce_host = (\<lambda>c w. w\<lparr>commerce_book := c\<rparr>)"
  by (simp_all add: commerce_host_def)

lemma keeps_set_art [simp]: "keeps_requests (\<lambda>n. set_art i (f n))" "keeps_requests (\<lambda>n c. set_art i (f n) (g n c)) \<longleftrightarrow> keeps_requests g"
  by (simp_all add: keeps_requests_def set_art_def request_ids_def)

lemma keeps_set_request: "(\<And>n r. g_id (f n r) = g_id r) \<Longrightarrow> keeps_requests (\<lambda>n. set_request i (f n))"
  by (simp add: keeps_requests_def set_request_def request_ids_def map_upd_first_id del: set_map)

lemma prepare_create: "prepares w (create_request commerce_host me t d g dl w)"
proof -
  have k: "keeps_requests (\<lambda>n c. c\<lparr>cm_requests := cm_requests c @ [r n]\<rparr>)" for r
    by (auto simp: keeps_requests_def request_ids_def)
  have c: "same_gifts w (snd (check_deadline commerce_host dl w))"
    by (auto simp: check_deadline_def split: option.splits prod.splits dest: now_same)
  have n: "prepares w (case now v of (created, w') \<Rightarrow> (Inr (\<lambda>n c. c\<lparr>cm_requests := cm_requests c @ [r n created]\<rparr>), w'))"
    if "same_gifts w v" for v r
    by (cases "now v") (use that in \<open>auto intro!: prepares_Inr k intro: same_trans now_same\<close>)
  show ?thesis
    unfolding create_request_def
    by (rule prepares_guarded [OF same_refl], cases "check_deadline commerce_host dl w"; cases "fst (check_deadline commerce_host dl w)")
       (use c in \<open>auto simp: and_then_def intro!: prepares_guarded prepares_Inl n\<close>)
qed

lemma prepare_contribute: "prepares w (contribute commerce_host u me i x m w)"
proof (cases "find_request (commerce_book w) i")
  case (Some r)
  have g: "g_id r = i" "i \<in> request_ids (commerce_book w)"
    using Some find_request_in [of "commerce_book w" i] by (auto simp: find_request_def dest: find_Some_prop)
  have pay: "prepares w (contribute_to commerce_host u r x m v)" if "same_gifts w v" for v
    unfolding contribute_to_def
    using that g by (cases "commerce_active commerce_host v (g_owner r)")
      (auto intro!: prepares_Inl prepares_guarded prepares_pay keeps_set_request simp: gift_of_ok_def same_gifts_def)
  have "same_gifts w (snd (request_unavailable commerce_host me r w))"
    by (auto simp: request_unavailable_def split: option.splits prod.splits dest: now_same)
  then show ?thesis
    unfolding contribute_def
    by (cases "request_unavailable commerce_host me r w") (auto simp: Some intro!: prepares_guarded prepares_Inl pay)
qed (simp add: contribute_def prepares_Inl)

lemma prepare_prepares: "prepares w (prepare commerce_host u me action w)"
proof (cases action)
  case (MintArt x1 x2 x3 x4)
  have k: "keeps_requests (\<lambda>n c. c\<lparr>cm_artworks := as n c\<rparr>)" for as
    by (simp add: keeps_requests_def request_ids_def)
  from MintArt show ?thesis
    by (cases "now w") (auto simp: mint_art_def dest: now_same intro!: prepares_guarded prepares_Inr k)
next
  case (EquipArt i b)
  have k: "keeps_requests (\<lambda>n c. if b then c\<lparr>cm_artworks := as c\<rparr> else c)" for b as
    by (simp add: keeps_requests_def request_ids_def)
  from EquipArt show ?thesis
    by (auto simp: with_art_def own_art_def equip_art_def split: option.splits
        intro!: prepares_guarded prepares_Inl prepares_Inr k)
next
  case (BuyArt x1 x2 x3 x4)
  then show ?thesis
    by (auto simp: with_art_def buy_art_def split: option.splits sum.splits
        intro!: prepares_guarded prepares_Inl prepares_pay)
next
  case (CloseRequest i)
  then show ?thesis
    by (auto simp: close_request_def split: option.splits intro!: prepares_guarded prepares_Inl prepares_Inr keeps_set_request)
qed (auto simp: prepare_create prepare_contribute with_art_def own_art_def list_art_def gift_art_def
      split: option.splits sum.splits intro!: prepares_guarded prepares_Inl prepares_Inr)

lemma kept_command [kept_methods]: "gifts_kept w (snd (command commerce_host u action w))"
proof (cases "commerce_active commerce_host w (user_number (u_id u))")
  case (Inr v)
  obtain r w1 where p: "prepare commerce_host u (user_number (u_id u)) action w = (r, w1)" by fastforce
  have k: "gifts_kept w w1" "\<And>f. r = Inr f \<Longrightarrow> keeps_requests f"
    using prepare_prepares [of w u "user_number (u_id u)" action] p by (simp_all add: prepares_def)
  have put: "gifts_kept w1 (w1\<lparr>revision := n, commerce_book := f n (commerce_book w1)\<rparr>)" if "keeps_requests f" for f n
    using that by (auto simp: gifts_kept_def keeps_requests_def wf_gifts_iff gift_of_ok_def simp del: set_map)
  show ?thesis
    using k put
    by (cases r) (auto simp: command_def Let_def Inr p and_then_def commerce_sequence_def intro: kept_trans)
qed (simp add: command_def)

section \<open>Every reachable ledger\<close>

lemma kept_clock: "gifts_kept w (start_live w)" "gifts_kept w (advance s w)" "gifts_kept w (advance_to t w)"
  "gifts_kept w (w\<lparr>ticks := k\<rparr>)" "gifts_kept w (w\<lparr>revision := n\<rparr>)" "gifts_kept w (w\<lparr>decimals := d\<rparr>)"
  by (auto simp: start_live_def advance_def advance_to_def same_gifts_def intro!: kept_same)

lemma run_kept: "run x w = Some w' \<Longrightarrow> gifts_kept w w'"
  by (cases x) (auto simp: kept_methods kept_clock)

lemma reachable_gifts: "reachable w \<Longrightarrow> wf_gifts w"
proof (induction rule: reachable.induct)
  case (start readings)
  then show ?case by (simp add: wf_gifts_def new_ledger_def)
next
  case (step w x w')
  then show ?case using run_kept [of x w w'] by (simp add: gifts_kept_def)
qed

lemma corrections_traceless: "reachable w \<Longrightarrow>
    traceless w (take_quote u i w) \<and> traceless w (reverse_txn u i m w) \<and> traceless w (refund u i x m w)"
  using reachable_quotes [of w] reachable_ids [of w] reachable_gifts [of w]
  by (intro conjI take_quote_traceless reverse_traceless refund_traceless) simp_all

end
