(* ===== verification/Http.thy ===== *)
theory Http
  imports Models Sha256
begin

text \<open>
  What travels between the page and its server: JSON values, requests, and the text operations both
  ends use on them (\<open>Number(s)\<close>, \<open>split\<close>, \<open>encodeURIComponent\<close>, \<open>URLSearchParams\<close>). A request
  body is either a plain object of fields or one of the API's input objects, which the program
  passes along with a type cast and never inspects.
\<close>

section \<open>JSON\<close>

datatype json =
    JNull
  | JBool bool
  | JNum num
  | JStr string
  | JList "json list"
  | JObj "(string \<times> json) list"

definition truthy_json :: "json option \<Rightarrow> bool" where
  "truthy_json j \<longleftrightarrow> (case j of None \<Rightarrow> False | Some JNull \<Rightarrow> False | Some (JBool b) \<Rightarrow> b
     | Some (JNum x) \<Rightarrow> x \<noteq> 0 | Some (JStr s) \<Rightarrow> s \<noteq> [] | Some (JList _) \<Rightarrow> True | Some (JObj _) \<Rightarrow> True)"

section \<open>Text\<close>

fun split_char :: "char \<Rightarrow> string \<Rightarrow> string list" where
  "split_char c [] = [[]]"
| "split_char c (x # xs) = (if x = c then [] # split_char c xs
     else case split_char c xs of y # ys \<Rightarrow> (x # y) # ys | [] \<Rightarrow> [[x]])"

text \<open>What precedes the first occurrence of \<open>p\<close> (everything, when there is none), and what follows it.\<close>

fun before_first :: "string \<Rightarrow> string \<Rightarrow> string" where
  "before_first p [] = []"
| "before_first p (x # xs) = (if prefix p (x # xs) then [] else x # before_first p xs)"

fun after_first :: "string \<Rightarrow> string \<Rightarrow> string option" where
  "after_first p [] = None"
| "after_first p (x # xs) = (if prefix p (x # xs) then Some (drop (length p) (x # xs)) else after_first p xs)"

text \<open>\<open>s.slice(p.length, -q.length)\<close>.\<close>

definition slice_between :: "string \<Rightarrow> string \<Rightarrow> string \<Rightarrow> string" where
  "slice_between p q s = drop (length p) (take (length s - length q) s)"

lemma split_char_nonempty [simp]: "split_char c s \<noteq> []"
  by (induction s) (auto split: list.splits)

lemma split_char_none: "c \<notin> set s \<Longrightarrow> split_char c s = [s]"
  by (induction s) auto

lemma split_char_append: "c \<notin> set s \<Longrightarrow> split_char c (s @ c # t) = s # split_char c t"
  by (induction s) auto

lemma slice_between_mid [simp]: "slice_between p q (p @ s @ q) = s"
  by (simp add: slice_between_def)

section \<open>Numbers in text\<close>

text \<open>\<open>Number(s)\<close>; \<open>None\<close> is \<open>NaN\<close> or an infinity.\<close>

definition radix_digit :: "nat \<Rightarrow> char \<Rightarrow> nat option" where
  "radix_digit r c = (let n = of_char c :: nat;
       v = (if 48 \<le> n \<and> n \<le> 57 then n - 48 else if 97 \<le> n \<and> n \<le> 102 then n - 87
            else if 65 \<le> n \<and> n \<le> 70 then n - 55 else 99)
     in if v < r then Some v else None)"

fun radix_value :: "nat \<Rightarrow> nat \<Rightarrow> string \<Rightarrow> nat option" where
  "radix_value r a [] = Some a"
| "radix_value r a (c # cs) = (case radix_digit r c of None \<Rightarrow> None | Some d \<Rightarrow> radix_value r (a * r + d) cs)"

definition radix_literal :: "string \<Rightarrow> num option" where
  "radix_literal s = (let r = (if to_lower (take 2 s) = ''0x'' then 16 else if to_lower (take 2 s) = ''0o'' then 8
       else if to_lower (take 2 s) = ''0b'' then 2 else 0) in
     if r = 0 \<or> length s \<le> 2 then None else map_option (\<lambda>n. fl (of_nat n)) (radix_value r 0 (drop 2 s)))"

definition take_sign :: "string \<Rightarrow> int \<times> string" where
  "take_sign s = (if take 1 s = ''-'' then (- 1, drop 1 s) else if take 1 s = ''+'' then (1, drop 1 s) else (1, s))"

definition exponent_part :: "string \<Rightarrow> int option" where
  "exponent_part s = (if s = [] then Some 0
     else if to_lower (take 1 s) = ''e'' then
       (case take_sign (drop 1 s) of (sg, ds) \<Rightarrow>
          if ds \<noteq> [] \<and> list_all is_digit ds then Some (sg * int (parse_digits ds)) else None)
     else None)"

definition decimal_literal :: "string \<Rightarrow> num option" where
  "decimal_literal s = (case take_sign s of (sg, t) \<Rightarrow>
     let whole = takeWhile is_digit t; rest = dropWhile is_digit t;
         frac = (if take 1 rest = ''.'' then takeWhile is_digit (drop 1 rest) else []);
         tail = (if take 1 rest = ''.'' then dropWhile is_digit (drop 1 rest) else rest)
     in if whole @ frac = [] then None
        else map_option (\<lambda>e. fl (of_int sg * of_nat (parse_digits (whole @ frac)) * 10 powi (e - int (length frac))))
               (exponent_part tail))"

definition js_number :: "string \<Rightarrow> num option" where
  "js_number s = (let t = trim s in if t = [] then Some 0
     else case radix_literal t of Some x \<Rightarrow> Some x | None \<Rightarrow> decimal_literal t)"

text \<open>\<open>Number(v)\<close> of a field; a missing field is \<open>undefined\<close>, whose number is \<open>NaN\<close>.\<close>

definition json_number :: "json option \<Rightarrow> num option" where
  "json_number j = (case j of Some JNull \<Rightarrow> Some 0 | Some (JBool b) \<Rightarrow> Some (if b then 1 else 0)
     | Some (JNum x) \<Rightarrow> Some x | Some (JStr s) \<Rightarrow> js_number s | _ \<Rightarrow> None)"

section \<open>URLs\<close>

text \<open>The UTF-8 bytes of a code unit below 256, and a byte as two upper-case hexadecimal digits.\<close>

definition utf8_char :: "char \<Rightarrow> nat list" where
  "utf8_char c = (let n = of_char c :: nat in if n < 128 then [n] else [192 + n div 64, 128 + n mod 64])"

definition upper_hex :: "nat \<Rightarrow> char" where
  "upper_hex d = nat_char (if d < 10 then 48 + d else 55 + d)"

definition percent :: "nat \<Rightarrow> string" where
  "percent b = [CHR ''%'', upper_hex (b div 16), upper_hex (b mod 16)]"

definition is_letter :: "char \<Rightarrow> bool" where
  "is_letter c \<longleftrightarrow> (let n = of_char c :: nat in (97 \<le> n \<and> n \<le> 122) \<or> (65 \<le> n \<and> n \<le> 90))"

definition unreserved :: "char \<Rightarrow> bool" where
  "unreserved c \<longleftrightarrow> is_letter c \<or> is_digit c \<or> c \<in> set ''-_.!~*()'' \<or> c = CHR 0x27"

definition encode_component :: "string \<Rightarrow> string" where
  "encode_component s = concat (map (\<lambda>c. if unreserved c then [c] else concat (map percent (utf8_char c))) s)"

text \<open>
  \<open>URLSearchParams\<close>: pairs separated by \<open>&\<close>, \<open>+\<close> for a space, percent escapes decoded. A UTF-8 pair
  of bytes of a code unit below 256 is put together again; \<open>get\<close> reads the first pair of a name.
\<close>

fun percent_bytes :: "string \<Rightarrow> nat list" where
  "percent_bytes [] = []"
| "percent_bytes (c # cs) = (if c = CHR ''+'' then 32 # percent_bytes cs
     else if c = CHR ''%'' \<and> 2 \<le> length cs \<and> radix_digit 16 (cs ! 0) \<noteq> None \<and> radix_digit 16 (cs ! 1) \<noteq> None
     then (16 * the (radix_digit 16 (cs ! 0)) + the (radix_digit 16 (cs ! 1))) # percent_bytes (drop 2 cs)
     else utf8_char c @ percent_bytes cs)"

fun utf8_text :: "nat list \<Rightarrow> string" where
  "utf8_text [] = []"
| "utf8_text [b] = [nat_char b]"
| "utf8_text (b # c # bs) = (if 194 \<le> b \<and> b \<le> 195 \<and> 128 \<le> c \<and> c \<le> 191
     then nat_char ((b - 192) * 64 + (c - 128)) # utf8_text bs else nat_char b # utf8_text (c # bs))"

definition decode_component :: "string \<Rightarrow> string" where
  "decode_component s = utf8_text (percent_bytes s)"

definition query_pair :: "string \<Rightarrow> string \<times> string" where
  "query_pair s = (decode_component (before_first ''='' s),
     decode_component (case after_first ''='' s of None \<Rightarrow> [] | Some v \<Rightarrow> v))"

definition query_params :: "string \<Rightarrow> (string \<times> string) list" where
  "query_params s = map query_pair (filter (\<lambda>p. p \<noteq> []) (split_char (CHR ''&'') s))"

section \<open>Base64url\<close>

text \<open>\<open>btoa\<close> with \<open>+\<close> and \<open>/\<close> replaced by \<open>-\<close> and \<open>_\<close> and the padding removed.\<close>

definition b64_char :: "nat \<Rightarrow> char" where
  "b64_char d = nat_char (if d < 26 then 65 + d else if d < 52 then 71 + d else if d < 62 then d - 4
     else if d = 62 then 45 else 95)"

fun base64url_bytes :: "nat list \<Rightarrow> string" where
  "base64url_bytes [] = []"
| "base64url_bytes [a] = [b64_char (a div 4), b64_char (a mod 4 * 16)]"
| "base64url_bytes [a, b] = [b64_char (a div 4), b64_char (a mod 4 * 16 + b div 16), b64_char (b mod 16 * 4)]"
| "base64url_bytes (a # b # c # bs) = b64_char (a div 4) # b64_char (a mod 4 * 16 + b div 16)
     # b64_char (b mod 16 * 4 + c div 64) # b64_char (c mod 64) # base64url_bytes bs"

definition base64url :: "byte list \<Rightarrow> string" where
  "base64url bs = base64url_bytes (map unat bs)"

section \<open>Requests\<close>

datatype http_method = GET | POST | PATCH | DELETE

datatype body =
    NoBody
  | Fields "(string \<times> json) list"
  | LoanTerms loan_offer_input
  | LottoTerms lotto_terms
  | ReformBody reform_input
  | Command commerce_action

record request =
  rq_method :: http_method
  rq_url :: string
  rq_auth :: "string option"
  rq_key :: "string option"
  rq_body :: body

definition field :: "body \<Rightarrow> string \<Rightarrow> json option" where
  "field b k = (case b of Fields fs \<Rightarrow> map_of fs k | _ \<Rightarrow> None)"

definition show_method :: "http_method \<Rightarrow> string" where
  "show_method m = (case m of GET \<Rightarrow> ''GET'' | POST \<Rightarrow> ''POST'' | PATCH \<Rightarrow> ''PATCH'' | DELETE \<Rightarrow> ''DELETE'')"

section \<open>Decoding an encoded component\<close>

lemma of_char_less [simp]: "(of_char c :: nat) < 256"
  using range_nat_of_char by (metis atLeastLessThan_iff rangeI)

lemma nat_char_of [simp]: "nat_char (of_char c) = c"
  by (simp flip: nat_char)

lemma of_nat_char: "n < 256 \<Longrightarrow> of_char (nat_char n) = n"
  by (simp flip: nat_char)

lemma nibble: "d < 16 \<Longrightarrow> radix_digit 16 (upper_hex d) = Some d"
  by (cases "d < 10") (simp_all add: upper_hex_def radix_digit_def of_nat_char Let_def)

lemma percent_bytes_percent:
  assumes "b < 256"
  shows "percent_bytes (percent b @ s) = b # percent_bytes s"
proof -
  have "b div 16 < 16" "b mod 16 < 16" using assms by auto
  then show ?thesis by (simp add: percent_def nibble)
qed

lemma utf8_char_bytes: "\<forall>b \<in> set (utf8_char c). b < 256"
proof -
  have "(of_char c :: nat) div 64 < 4" using of_char_less [of c] by linarith
  then show ?thesis by (auto simp: utf8_char_def Let_def)
qed

lemma percent_bytes_encoded:
  "percent_bytes ((if unreserved c then [c] else concat (map percent (utf8_char c))) @ s)
     = utf8_char c @ percent_bytes s"
proof (cases "unreserved c")
  case True
  then have "c \<noteq> CHR ''+'' \<and> c \<noteq> CHR ''%''" by (auto simp: unreserved_def is_letter_def is_digit_def)
  with True show ?thesis by simp
next
  case False
  have "\<forall>b \<in> set bs. b < 256 \<Longrightarrow> percent_bytes (concat (map percent bs) @ s) = bs @ percent_bytes s" for bs
    by (induction bs) (simp_all add: percent_bytes_percent)
  with False utf8_char_bytes show ?thesis by simp
qed

lemma utf8_text_char: "utf8_text (utf8_char c @ bs) = c # utf8_text bs"
proof (cases "(of_char c :: nat) < 128")
  case True
  then show ?thesis by (cases bs) (auto simp: utf8_char_def Let_def)
next
  case False
  let ?n = "of_char c :: nat"
  have "2 \<le> ?n div 64" "?n div 64 < 4" using False of_char_less [of c] by linarith+
  moreover have "?n div 64 * 64 + ?n mod 64 = ?n" by simp
  ultimately show ?thesis using False by (auto simp: utf8_char_def Let_def)
qed

lemma decode_encode [simp]: "decode_component (encode_component s) = s"
proof -
  have "percent_bytes (encode_component s) = concat (map utf8_char s)"
    by (induction s) (simp_all add: encode_component_def percent_bytes_encoded)
  moreover have "utf8_text (concat (map utf8_char s)) = s"
    by (induction s) (simp_all add: utf8_text_char)
  ultimately show ?thesis by (simp add: decode_component_def)
qed

end
