(* ===== verification/Normalization.thy ===== *)
theory Normalization
  imports Http "HOL-Library.AList"
begin

text \<open>
  \<open>api/transaction-normalization.ts\<close>: in every answer of the server, a transaction that carries its
  amounts in the current units shows those, and keeps the original ones beside them. Keeping the
  identity of unchanged branches is an economy that values do not show.
\<close>

definition historical :: "string \<Rightarrow> exn" where
  "historical i = PlainError (''Historical transaction '' @ i
     @ '' cannot be represented exactly in the current currency units.'')"

text \<open>\<open>source\<close> is the object as it came, \<open>result\<close> with its fields visited.\<close>

definition current_units :: "(string \<times> json) list \<Rightarrow> (string \<times> json) list \<Rightarrow> json res" where
  "current_units source result =
     (case (map_of source ''id'', map_of source ''postings'', map_of source ''current_postings'') of
        (Some (JStr i), Some (JList ps), Some current) \<Rightarrow>
          (case current of
             JNull \<Rightarrow> Inl (historical i)
           | JList cs \<Rightarrow> Inr (JObj (AList.update ''postings'' current (AList.update ''original_postings''
               (case map_of source ''original_postings'' of None \<Rightarrow> JList ps | Some JNull \<Rightarrow> JList ps | Some v \<Rightarrow> v) result)))
           | _ \<Rightarrow> Inl (PlainError ''Invalid current transaction postings.''))
      | _ \<Rightarrow> Inr (JObj result))"

lemma map_res_cong [fundef_cong]:
  "xs = ys \<Longrightarrow> (\<And>x. x \<in> set ys \<Longrightarrow> f x = g x) \<Longrightarrow> map_res f xs = map_res g ys"
  by (induction ys arbitrary: xs) (auto split: sum.splits)

fun normalize :: "json \<Rightarrow> json res" where
  "normalize (JList vs) = (case map_res normalize vs of Inl e \<Rightarrow> Inl e | Inr ws \<Rightarrow> Inr (JList ws))"
| "normalize (JObj fs) =
     (case map_res (\<lambda>(k, v). case normalize v of Inl e \<Rightarrow> Inl e | Inr w \<Rightarrow> Inr (k, w)) fs of
        Inl e \<Rightarrow> Inl e | Inr gs \<Rightarrow> current_units fs gs)"
| "normalize (JStr s) = Inr (JStr s)"
| "normalize (JNum x) = Inr (JNum x)"
| "normalize (JBool b) = Inr (JBool b)"
| "normalize JNull = Inr JNull"

lemma normalize_current:
  "normalize (JObj [(''id'', JStr i), (''postings'', JList []), (''current_postings'', JNull)]) = Inl (historical i)"
  by (simp add: current_units_def)

end
