(* ===== verification/Accounts.thy ===== *)
theory Accounts
  imports Http
begin

text \<open>
  What the browser remembers about its server: \<open>api/accounts.ts\<close> (the signed-in accounts and which
  one is active, kept in \<open>sessionStorage\<close> as JSON) and \<open>api/api-base.ts\<close> (the server's address).
  The lemmas: one entry per person with the active one among them, whatever is added, dropped or
  read back; what was written is what is read; a normalised address is normal.
\<close>

section \<open>Accounts\<close>

record stored_account =
  sa_user :: string
  sa_username :: string
  sa_name :: string
  sa_role :: role
  sa_token :: string

record accounts =
  ac_all :: "stored_account list"
  ac_active :: "string option"

definition no_accounts :: accounts where
  "no_accounts = \<lparr>ac_all = [], ac_active = None\<rparr>"

definition active_account :: "accounts \<Rightarrow> stored_account option" where
  "active_account s = find (\<lambda>a. Some (sa_user a) = ac_active s) (ac_all s)"

definition active_token :: "accounts \<Rightarrow> string option" where
  "active_token s = map_option sa_token (active_account s)"

definition has_several :: "accounts \<Rightarrow> bool" where
  "has_several s \<longleftrightarrow> length (ac_all s) > 1"

definition add_account :: "stored_account \<Rightarrow> accounts \<Rightarrow> accounts" where
  "add_account a s = \<lparr>ac_all = filter (\<lambda>x. sa_user x \<noteq> sa_user a) (ac_all s) @ [a], ac_active = Some (sa_user a)\<rparr>"

definition activate_account :: "string \<Rightarrow> accounts \<Rightarrow> accounts" where
  "activate_account i s = (if \<not> list_ex (\<lambda>a. sa_user a = i) (ac_all s) then s else s\<lparr>ac_active := Some i\<rparr>)"

definition last_user :: "stored_account list \<Rightarrow> string option" where
  "last_user xs = map_option sa_user (at_last xs)"

definition remove_account :: "string \<Rightarrow> accounts \<Rightarrow> accounts" where
  "remove_account i s = (let rest = filter (\<lambda>a. sa_user a \<noteq> i) (ac_all s) in
     \<lparr>ac_all = rest, ac_active = (if ac_active s = Some i then last_user rest else ac_active s)\<rparr>)"

definition invalidate_active :: "accounts \<Rightarrow> accounts" where
  "invalidate_active s = (case active_account s of Some a \<Rightarrow> remove_account (sa_user a) s | None \<Rightarrow> s)"

text \<open>\<open>persist\<close> writes this JSON, \<open>read\<close> gets it back, or whatever else was stored (\<open>None\<close> when nothing was, or it does not parse).\<close>

definition account_json :: "stored_account \<Rightarrow> json" where
  "account_json a = JObj [(''userId'', JStr (sa_user a)), (''username'', JStr (sa_username a)),
     (''displayName'', JStr (sa_name a)), (''role'', JStr (if sa_role a = Nana then ''nana'' else ''user'')),
     (''token'', JStr (sa_token a))]"

definition persisted :: "accounts \<Rightarrow> json" where
  "persisted s = JObj [(''v'', JNum 1), (''accounts'', JList (map account_json (ac_all s))),
     (''activeUserId'', case ac_active s of None \<Rightarrow> JNull | Some i \<Rightarrow> JStr i)]"

definition json_get :: "json \<Rightarrow> string \<Rightarrow> json option" where
  "json_get j k = (case j of JObj fs \<Rightarrow> map_of fs k | _ \<Rightarrow> None)"

definition json_text :: "json option \<Rightarrow> string" where
  "json_text j = (case j of Some (JStr s) \<Rightarrow> s | _ \<Rightarrow> [])"

definition read_account :: "json \<Rightarrow> stored_account option" where
  "read_account j = (case (json_get j ''userId'', json_get j ''token'') of
     (Some (JStr i), Some (JStr t)) \<Rightarrow> Some \<lparr>sa_user = i, sa_username = json_text (json_get j ''username''),
        sa_name = json_text (json_get j ''displayName''),
        sa_role = (if json_get j ''role'' = Some (JStr ''nana'') then Nana else Member), sa_token = t\<rparr>
   | _ \<Rightarrow> None)"

definition read_accounts :: "json option \<Rightarrow> accounts" where
  "read_accounts stored = (case stored of None \<Rightarrow> no_accounts
     | Some j \<Rightarrow> (case (json_get j ''v'', json_get j ''accounts'') of
         (Some (JNum v), Some (JList rows)) \<Rightarrow>
           if v \<noteq> 1 then no_accounts
           else let xs = List.map_filter read_account rows in
             \<lparr>ac_all = xs, ac_active = (case json_get j ''activeUserId'' of
                Some (JStr i) \<Rightarrow> if list_ex (\<lambda>a. sa_user a = i) xs then Some i else last_user xs
              | _ \<Rightarrow> last_user xs)\<rparr>
       | _ \<Rightarrow> no_accounts))"

section \<open>The address of the server\<close>

definition SAME_ORIGIN :: string where
  "SAME_ORIGIN = ''/api/v1''"

definition strip_slashes :: "string \<Rightarrow> string" where
  "strip_slashes s = rev (dropWhile (\<lambda>c. c = CHR ''/'') (rev s))"

definition has_scheme :: "string \<Rightarrow> bool" where
  "has_scheme v \<longleftrightarrow> prefix ''http://'' (to_lower v) \<or> prefix ''https://'' (to_lower v)"

definition has_version :: "string \<Rightarrow> bool" where
  "has_version v \<longleftrightarrow> (let ds = rev (takeWhile is_digit (rev v)) in
     ds \<noteq> [] \<and> suffix ''/api/v'' (take (length v - length ds) v))"

definition normalise :: "string \<Rightarrow> string" where
  "normalise raw = (let v = strip_slashes (trim raw) in
     if v = [] then []
     else let w = (if has_scheme v then v else ''http://'' @ v) in
       if has_version w then w else w @ ''/api/v1'')"

record api_base =
  ab_current :: string
  ab_remote :: bool
  ab_stored :: "string option"

definition set_base :: "string \<Rightarrow> api_base" where
  "set_base raw = (let t = trim raw;
     base = (if t = SAME_ORIGIN then SAME_ORIGIN else if normalise t = [] then SAME_ORIGIN else normalise t) in
     \<lparr>ab_current = base, ab_remote = (base \<noteq> SAME_ORIGIN),
      ab_stored = (if base = SAME_ORIGIN then None else Some base)\<rparr>)"

definition reset_base :: api_base where
  "reset_base = set_base SAME_ORIGIN"

text \<open>The starting address: the \<open>?api=\<close> parameter, the remembered choice, the page's meta tag, its own origin.\<close>

definition initial_base :: "string option \<Rightarrow> string option \<Rightarrow> string option \<Rightarrow> string \<times> string option" where
  "initial_base query stored meta = (case query of
     Some q \<Rightarrow> (let base = normalise q in
       if base \<noteq> [] then (base, Some base) else (SAME_ORIGIN, None))
   | None \<Rightarrow> (if truthy_str stored then (the stored, stored)
       else if truthy_str meta then (normalise (the meta), stored) else (SAME_ORIGIN, stored)))"

section \<open>One entry per person\<close>

definition wf_accounts :: "accounts \<Rightarrow> bool" where
  "wf_accounts s \<longleftrightarrow> distinct (map sa_user (ac_all s))
     \<and> (case ac_active s of None \<Rightarrow> ac_all s = [] | Some i \<Rightarrow> i \<in> sa_user ` set (ac_all s))"

lemma last_user_in: "xs \<noteq> [] \<Longrightarrow> \<exists>i. last_user xs = Some i \<and> i \<in> sa_user ` set xs"
  by (simp add: last_user_def at_last_def)

lemma last_user_Nil [simp]: "last_user [] = None"
  by (simp add: last_user_def at_last_def)

lemma wf_add: "wf_accounts s \<Longrightarrow> wf_accounts (add_account a s)"
  by (auto simp: wf_accounts_def add_account_def distinct_map intro: inj_on_subset)

lemma wf_activate: "wf_accounts s \<Longrightarrow> wf_accounts (activate_account i s)"
  by (auto simp: wf_accounts_def activate_account_def list_ex_iff)

lemma wf_remove:
  assumes "wf_accounts s"
  shows "wf_accounts (remove_account i s)"
proof -
  let ?rest = "filter (\<lambda>a. sa_user a \<noteq> i) (ac_all s)"
  have d: "distinct (map sa_user ?rest)"
    using assms by (auto simp: wf_accounts_def distinct_map intro: inj_on_subset)
  show ?thesis
  proof (cases "ac_active s = Some i")
    case True
    with d show ?thesis using last_user_in [of ?rest]
      by (cases "?rest = []") (auto simp: wf_accounts_def remove_account_def Let_def)
  next
    case False
    with d assms show ?thesis
      by (auto simp: wf_accounts_def remove_account_def Let_def split: option.splits)
  qed
qed

lemma wf_invalidate: "wf_accounts s \<Longrightarrow> wf_accounts (invalidate_active s)"
  by (auto simp: invalidate_active_def wf_remove split: option.split)

lemma active_held: "wf_accounts s \<Longrightarrow> ac_all s \<noteq> [] \<Longrightarrow>
    \<exists>a \<in> set (ac_all s). active_account s = Some a \<and> ac_active s = Some (sa_user a)"
proof -
  assume w: "wf_accounts s" and n: "ac_all s \<noteq> []"
  then obtain i where i: "ac_active s = Some i" "i \<in> sa_user ` set (ac_all s)"
    by (auto simp: wf_accounts_def split: option.splits)
  then obtain a where a: "a \<in> set (ac_all s)" "sa_user a = i" by auto
  then have "active_account s = Some a"
    using w find_key_distinct [of sa_user "ac_all s" a] by (simp add: wf_accounts_def active_account_def i)
  with a i show ?thesis by blast
qed

lemma read_account_json [simp]: "read_account (account_json a) = Some a"
  by (cases a) (auto simp: read_account_def account_json_def json_get_def json_text_def intro: role.exhaust)

lemma read_persisted: "wf_accounts s \<Longrightarrow> read_accounts (Some (persisted s)) = s"
proof -
  assume w: "wf_accounts s"
  have m: "List.map_filter read_account (map account_json xs) = xs" for xs
    by (induction xs) (simp_all add: List.map_filter_simps)
  show ?thesis
  proof (cases "ac_active s")
    case None
    with w m show ?thesis by (simp add: wf_accounts_def read_accounts_def persisted_def json_get_def)
  next
    case (Some i)
    with w m show ?thesis
      by (auto simp: wf_accounts_def read_accounts_def persisted_def json_get_def Let_def list_ex_iff image_iff)
  qed
qed

section \<open>Normal addresses\<close>

lemma has_version_suffix: "has_version (w @ ''/api/v1'')"
  by (simp add: has_version_def is_digit_def suffix_def)

lemma has_scheme_append: "has_scheme w \<Longrightarrow> has_scheme (w @ x)"
  by (auto simp: has_scheme_def to_lower_def)

lemma normalise_shape: "normalise raw \<noteq> [] \<Longrightarrow> has_version (normalise raw) \<and> has_scheme (normalise raw)"
proof -
  have "has_scheme (''http://'' @ v)" for v
    by (simp add: has_scheme_def to_lower_def lower_char_def Let_def)
  then show "normalise raw \<noteq> [] \<Longrightarrow> ?thesis"
    by (auto simp: normalise_def Let_def has_version_suffix has_scheme_append split: if_splits)
qed

lemma has_version_last: "has_version v \<Longrightarrow> v \<noteq> [] \<and> is_digit (last v)"
proof -
  assume "has_version v"
  then have "takeWhile is_digit (rev v) \<noteq> []" by (simp add: has_version_def Let_def)
  then show ?thesis by (cases "rev v") (auto split: if_splits simp: rev_eq_Cons_iff)
qed

lemma has_scheme_first: "has_scheme v \<Longrightarrow> v \<noteq> [] \<and> \<not> is_space (hd v)"
proof -
  assume "has_scheme v"
  then have "to_lower v \<noteq> [] \<and> hd (to_lower v) = CHR ''h''"
    by (cases "to_lower v") (auto simp: has_scheme_def)
  then have n: "v \<noteq> []" and h: "lower_char (hd v) = CHR ''h''" by (auto simp: to_lower_def list.map_sel)
  have "\<not> is_space (hd v)"
  proof
    assume "is_space (hd v)"
    then have "lower_char (hd v) = hd v" by (auto simp: is_space_def lower_char_def)
    with h \<open>is_space (hd v)\<close> show False by (simp add: is_space_def)
  qed
  with n show ?thesis by blast
qed

lemma dropWhile_hd: "v \<noteq> [] \<Longrightarrow> \<not> P (hd v) \<Longrightarrow> dropWhile P v = v"
  by (cases v) auto

lemma normal_trimmed:
  assumes "has_version v" and "has_scheme v"
  shows "trim v = v" and "strip_slashes v = v"
proof -
  have l: "rev v \<noteq> []" "is_digit (hd (rev v))" using has_version_last [OF assms(1)] by (simp_all add: hd_rev)
  then have d: "\<not> is_space (hd (rev v))" "hd (rev v) \<noteq> CHR ''/''" by (auto simp: is_digit_def is_space_def)
  note f = has_scheme_first [OF assms(2)]
  show "trim v = v" using f l d(1) by (simp add: trim_def dropWhile_hd)
  show "strip_slashes v = v" using l d(2) by (simp add: strip_slashes_def dropWhile_hd)
qed

lemma normalise_idem: "normalise (normalise raw) = normalise raw"
proof (cases "normalise raw = []")
  case True
  then show ?thesis by (simp add: normalise_def trim_def strip_slashes_def)
next
  case False
  note s = normalise_shape [OF False]
  then show ?thesis using False normal_trimmed [of "normalise raw"]
    by (subst normalise_def) (simp add: Let_def)
qed

end
