(* ===== verification/MoneyText.thy ===== *)
theory MoneyText
  imports Http
begin

text \<open>
  \<open>api/money.ts\<close>: amounts of minor units to decimal text and back, for the \<open>en-US\<close> locale (other
  locales are the browser's \<open>Intl\<close> data), and the service that holds the household's precision. The
  main fact is that what is written is what is read, for every amount and every precision.
\<close>

section \<open>Reading\<close>

datatype 'a input = Value 'a | InputError string | BadPrecision | NotExact

definition plain_decimal :: "string \<Rightarrow> bool" where
  "plain_decimal s \<longleftrightarrow> (let whole = takeWhile is_digit s; rest = dropWhile is_digit s in
     whole \<noteq> [] \<and> (whole = ''0'' \<or> hd whole \<noteq> CHR ''0'')
     \<and> (rest = [] \<or> (hd rest = CHR ''.'' \<and> tl rest \<noteq> [] \<and> list_all is_digit (tl rest))))"

definition you_typed :: "string \<Rightarrow> string" where
  "you_typed text = '' You typed '' @ [CHR 0x22] @ text @ [CHR 0x22] @ ''.''"

definition parse_money :: "string \<Rightarrow> num \<Rightarrow> num input" where
  "parse_money text decimals =
     (if \<not> is_integer decimals \<or> decimals < 0 \<or> decimals > 8 then BadPrecision
      else let d = nat \<lfloor>decimals\<rfloor>; s = trim text in
        if \<not> plain_decimal s
        then InputError (''Type the amount as a plain number, like 12 or 3.50. Leave out commas, spaces, and signs like $ or %.''
               @ you_typed text)
        else let whole = takeWhile is_digit s; fraction = drop 1 (dropWhile is_digit s) in
          if length fraction > d
          then InputError ((if d \<noteq> 0 then ''Use no more than '' @ show_nat d @ '' numbers after the dot.''
                            else ''Use a whole number, with nothing after the dot.'') @ you_typed text)
          else let minor = parse_digits whole * 10 ^ d + parse_digits (pad_end d (CHR ''0'') fraction) in
            if of_nat minor > max_money then InputError ''That number is too big. Try a smaller one.''
            else Value (of_nat minor))"

section \<open>Writing\<close>

text \<open>Groups of three digits, separated by commas.\<close>

fun group_rev :: "string \<Rightarrow> string" where
  "group_rev (a # b # c # d # r) = a # b # c # CHR '','' # group_rev (d # r)"
| "group_rev s = s"

definition group_digits :: "string \<Rightarrow> string" where
  "group_digits s = rev (group_rev (rev s))"

definition strip_zeros :: "string \<Rightarrow> string" where
  "strip_zeros s = rev (dropWhile (\<lambda>c. c = CHR ''0'') (rev s))"

definition amount_text :: "int \<Rightarrow> nat \<Rightarrow> bool \<Rightarrow> string" where
  "amount_text amount decimals grouping =
     (let magnitude = nat \<bar>amount\<bar>; scale = 10 ^ decimals; digits = show_nat (magnitude div scale);
          fraction = strip_zeros (pad_start decimals (CHR ''0'') (show_nat (magnitude mod scale)))
      in (if amount < 0 then ''-'' else []) @ (if grouping then group_digits digits else digits)
         @ (if fraction \<noteq> [] then CHR ''.'' # fraction else []))"

text \<open>A number must be a safe integer; a \<open>bigint\<close> always is.\<close>

definition money_text :: "num \<Rightarrow> nat \<Rightarrow> bool \<Rightarrow> string input" where
  "money_text value decimals grouping =
     (if \<not> is_safe value then NotExact else Value (amount_text \<lfloor>value\<rfloor> decimals grouping))"

section \<open>The service\<close>

record money =
  my_decimals :: nat
  my_epoch :: nat
  my_changed :: bool
  my_source :: string

definition new_money :: money where
  "new_money = \<lparr>my_decimals = 4, my_epoch = 0, my_changed = False, my_source = []\<rparr>"

definition money_update :: "num \<Rightarrow> num \<Rightarrow> string \<Rightarrow> money \<Rightarrow> money option" where
  "money_update decimals epoch source m =
     (if \<not> is_integer decimals \<or> decimals < 0 \<or> decimals > 8 \<or> \<not> is_safe epoch \<or> epoch < 0 then None
      else Some \<lparr>my_decimals = nat \<lfloor>decimals\<rfloor>, my_epoch = nat \<lfloor>epoch\<rfloor>,
        my_changed = (my_source m = source \<and> (my_changed m \<or> epoch \<noteq> of_nat (my_epoch m))),
        my_source = source\<rparr>)"

definition money_parse :: "string \<Rightarrow> money \<Rightarrow> num input" where
  "money_parse value m =
     (if my_changed m then InputError ''NanaCoin money changed size. Reload the page, then try again.''
      else parse_money value (of_nat (my_decimals m)))"

definition money_format :: "num option \<Rightarrow> money \<Rightarrow> string input" where
  "money_format value m = money_text (case value of Some x \<Rightarrow> x | None \<Rightarrow> 0) (my_decimals m) True"

definition money_input :: "num \<Rightarrow> money \<Rightarrow> string input" where
  "money_input value m = money_text value (my_decimals m) False"

definition money_chart :: "num \<Rightarrow> money \<Rightarrow> num" where
  "money_chart value m = js_div value (js_pow10 (int (my_decimals m)))"

section \<open>What is written is what is read\<close>

lemma parse_digits_snoc: "parse_digits (s @ [c]) = parse_digits s * 10 + digit_val c"
  by (simp add: parse_digits_def)

lemma digit_val_0 [simp]: "digit_val (CHR ''0'') = 0"
  by (simp add: digit_val_def)

lemma parse_digits_zeros: "parse_digits (s @ replicate k (CHR ''0'')) = parse_digits s * 10 ^ k"
proof (induction k)
  case (Suc k)
  have "replicate (Suc k) (CHR ''0'') = replicate k (CHR ''0'') @ [CHR ''0'']"
    by (simp add: replicate_append_same)
  then have "parse_digits (s @ replicate (Suc k) (CHR ''0'')) = parse_digits (s @ replicate k (CHR ''0'')) * 10"
    using parse_digits_snoc [of "s @ replicate k (CHR ''0'')"] by simp
  with Suc show ?case by simp
qed simp

lemma parse_digits_leading: "parse_digits (replicate k (CHR ''0'') @ s) = parse_digits s"
  by (induction k) (simp_all add: parse_digits_def)

lemma strip_zeros_pad: "\<exists>k. s = strip_zeros s @ replicate k (CHR ''0'')"
proof -
  let ?z = "takeWhile (\<lambda>c. c = CHR ''0'') (rev s)"
  have "replicate (length ?z) (CHR ''0'') = ?z"
    by (rule replicate_length_same) (auto dest: set_takeWhileD)
  then have "rev (replicate (length ?z) (CHR ''0'')) = rev ?z" by (rule arg_cong)
  then have z: "rev ?z = replicate (length ?z) (CHR ''0'')" by simp
  have "rev (?z @ dropWhile (\<lambda>c. c = CHR ''0'') (rev s)) = s" by simp
  then have "s = strip_zeros s @ rev ?z" by (simp only: strip_zeros_def rev_append)
  then show ?thesis unfolding z by (rule exI)
qed

lemma show_nat_zero [simp]: "show_nat 0 = ''0''"
  by code_simp

lemma pad_strip: "length s = n \<Longrightarrow> pad_end n (CHR ''0'') (strip_zeros s) = s"
proof -
  assume n: "length s = n"
  obtain k where k: "s = strip_zeros s @ replicate k (CHR ''0'')" using strip_zeros_pad by blast
  have "length s = length (strip_zeros s) + k"
    using arg_cong [OF k, of length] by simp
  with n have "k = n - length (strip_zeros s)" by simp
  with k show ?thesis by (simp add: pad_end_def)
qed

lemma show_nat_length: "n < 10 ^ Suc d \<Longrightarrow> length (show_nat n) \<le> Suc d"
proof (induction d arbitrary: n)
  case (Suc d)
  show ?case
  proof (cases "n < 10")
    case False
    have "n div 10 < 10 ^ Suc d" using Suc.prems by (simp add: less_mult_imp_div_less mult.commute)
    then show ?thesis using Suc.IH False by (simp add: show_nat_step)
  qed simp
qed simp

lemma show_nat_first: "show_nat n = ''0'' \<or> hd (show_nat n) \<noteq> CHR ''0''"
proof (induction n rule: show_nat.induct)
  case (1 n)
  show ?case
  proof (cases "n < 10")
    case True
    show ?thesis
    proof (cases "n = 0")
      case False
      have "digit_val (char_of (48 + n)) = n" using True by simp
      with False have "char_of (48 + n) \<noteq> CHR ''0''" by (metis digit_val_0)
      with True show ?thesis by simp
    qed simp
  next
    case False
    have "n div 10 \<noteq> 0" using False by simp
    then have "show_nat (n div 10) \<noteq> ''0''" using show_nat_inject [of "n div 10" 0] unfolding show_nat_zero by simp
    with 1 False show ?thesis by (simp add: show_nat_step hd_append)
  qed
qed

lemma pad_start_length: "length s \<le> n \<Longrightarrow> length (pad_start n (CHR ''0'') s) = n"
  by (simp add: pad_start_def)

lemma fraction_digits:
  assumes "m < 10 ^ d" and "0 < d"
  shows "length (pad_start d (CHR ''0'') (show_nat m)) = d \<and> parse_digits (pad_start d (CHR ''0'') (show_nat m)) = m
    \<and> list_all is_digit (pad_start d (CHR ''0'') (show_nat m))"
proof -
  obtain e where e: "d = Suc e" using assms(2) by (cases d) auto
  have "length (show_nat m) \<le> d" using show_nat_length [of m e] assms(1) by (simp add: e)
  then show ?thesis using show_nat_digits [of m]
    by (auto simp: pad_start_length pad_start_def parse_digits_leading list_all_iff is_digit_def)
qed

lemma takeWhile_digits: "list_all is_digit w \<Longrightarrow> rest = [] \<or> \<not> is_digit (hd rest) \<Longrightarrow>
    takeWhile is_digit (w @ rest) = w \<and> dropWhile is_digit (w @ rest) = rest"
  by (cases rest) (auto simp: list_all_iff takeWhile_append2 dropWhile_append2)

lemma trim_id:
  assumes "s \<noteq> []" and "\<not> is_space (hd s)" and "\<not> is_space (last s)"
  shows "trim s = s"
proof -
  have "dropWhile is_space s = s" using assms(1,2) by (cases s) auto
  moreover have "dropWhile is_space (rev s) = rev s"
    using assms(1,3) by (cases "rev s") (auto simp: rev_eq_Cons_iff)
  ultimately show ?thesis by (simp add: trim_def)
qed

lemma digit_not_space: "is_digit c \<Longrightarrow> \<not> is_space c"
  by (auto simp: is_digit_def is_space_def)

lemma strip_zeros_digits: "list_all is_digit s \<Longrightarrow> list_all is_digit (strip_zeros s)"
  unfolding strip_zeros_def list_all_iff by (auto dest: set_dropWhileD)

text \<open>The text of an amount, taken apart: digits, then nothing or a point and a fraction.\<close>

lemma amount_text_parts:
  fixes n d
  defines "w \<equiv> show_nat (n div 10 ^ d)" and "f \<equiv> strip_zeros (pad_start d (CHR ''0'') (show_nat (n mod 10 ^ d)))"
  shows "amount_text (int n) d False = w @ (if f \<noteq> [] then CHR ''.'' # f else [])"
    and "list_all is_digit f" and "length f \<le> d" and "parse_digits (pad_end d (CHR ''0'') f) = n mod 10 ^ d"
proof -
  show "amount_text (int n) d False = w @ (if f \<noteq> [] then CHR ''.'' # f else [])"
    by (simp add: amount_text_def Let_def w_def f_def)
  have "list_all is_digit f \<and> length f \<le> d \<and> parse_digits (pad_end d (CHR ''0'') f) = n mod 10 ^ d"
  proof (cases "d = 0")
    case True
    then show ?thesis by (simp add: f_def strip_zeros_def pad_start_def pad_end_def parse_digits_def)
  next
    case False
    let ?s = "pad_start d (CHR ''0'') (show_nat (n mod 10 ^ d))"
    have s: "length ?s = d" "parse_digits ?s = n mod 10 ^ d" "list_all is_digit ?s"
      using fraction_digits [of "n mod 10 ^ d" d] False by simp_all
    obtain k where "?s = f @ replicate k (CHR ''0'')" using strip_zeros_pad unfolding f_def by blast
    then have "length ?s = length f + k" by (metis length_append length_replicate)
    with s strip_zeros_digits [OF s(3)] pad_strip [OF s(1)] show ?thesis by (simp add: f_def)
  qed
  then show "list_all is_digit f" "length f \<le> d" "parse_digits (pad_end d (CHR ''0'') f) = n mod 10 ^ d" by simp_all
qed

lemma amount_round_trip:
  assumes "d \<le> 8" and "of_nat n \<le> max_money"
  shows "parse_money (amount_text (int n) d False) (of_nat d) = Value (of_nat n)"
proof -
  define w where "w = show_nat (n div 10 ^ d)"
  define f where "f = strip_zeros (pad_start d (CHR ''0'') (show_nat (n mod 10 ^ d)))"
  define s where "s = amount_text (int n) d False"
  note parts = amount_text_parts [where n = n and d = d, folded w_def f_def s_def]
  let ?r = "if f \<noteq> [] then CHR ''.'' # f else []"
  have wd: "list_all is_digit w" using show_nat_digits by (simp add: w_def list_all_iff)
  have w0: "w \<noteq> []" "w = ''0'' \<or> hd w \<noteq> CHR ''0''" using show_nat_first by (auto simp: w_def)
  have dot: "\<not> is_digit (CHR ''.'')" by (simp add: is_digit_def)
  have tw: "takeWhile is_digit s = w" "dropWhile is_digit s = ?r"
    using takeWhile_digits [OF wd, of ?r] dot by (auto simp: parts(1))
  have "is_digit (hd s)" using wd w0(1) by (cases w) (auto simp: parts(1))
  moreover have "is_digit (last s)"
    using wd w0(1) parts(2) by (auto simp: parts(1) list_all_iff)
  ultimately have t: "trim s = s" using w0(1) by (intro trim_id digit_not_space) (auto simp: parts(1))
  have p: "plain_decimal s" using w0 parts(2) by (auto simp: plain_decimal_def Let_def tw)
  have fr: "drop 1 (dropWhile is_digit s) = f" by (simp add: tw)
  have v: "parse_digits w * 10 ^ d + parse_digits (pad_end d (CHR ''0'') f) = n"
    by (simp only: parts(4) w_def parse_show_nat div_mult_mod_eq)
  have "of_nat d \<le> (8 :: rat)" using assms(1) by simp
  then show ?thesis using assms(2) parts(3) p is_integer_of_int [of "int d"]
    unfolding s_def [symmetric] parse_money_def Let_def t fr tw(1) floor_of_nat nat_int v
    by (simp add: not_less)
qed

end
