(* ===== verification/Client.thy ===== *)
theory Client
  imports Accounts MoneyText
begin

text \<open>
  \<open>api/nanacoin.service.ts\<close>: the API client. A method is the request it sends (or the error it throws
  before sending), in the order of the file; the bearer token is that of the active account, and a
  request that changes something carries a retry key naming the journal generation and the money epoch
  it was made under. The random bytes of a key, \<open>Date.now\<close> and \<open>Date.parse\<close> are arguments.
\<close>

section \<open>State\<close>

record client =
  cl_base :: string
  cl_accounts :: accounts
  cl_money :: money
  cl_generation :: nat
  cl_epoch :: nat
  cl_source :: string

definition new_client :: "string \<Rightarrow> client" where
  "new_client base = \<lparr>cl_base = base, cl_accounts = no_accounts, cl_money = new_money, cl_generation = 0,
     cl_epoch = 0, cl_source = []\<rparr>"

definition authenticated :: "client \<Rightarrow> bool" where
  "authenticated c \<longleftrightarrow> active_token (cl_accounts c) \<noteq> None"

definition remember_generation :: "string \<Rightarrow> num option \<Rightarrow> client \<Rightarrow> client" where
  "remember_generation source value c = (case value of None \<Rightarrow> c
     | Some x \<Rightarrow> if \<not> is_safe x \<or> x < 0 then c
         else c\<lparr>cl_generation := (if cl_source c = source then max (cl_generation c) (nat \<lfloor>x\<rfloor>) else nat \<lfloor>x\<rfloor>),
                cl_source := source\<rparr>)"

text \<open>
  The interceptor that watches every response: \<open>target\<close> is the server's address when the request to
  \<open>url\<close> was sent, \<open>raw\<close> the answer's generation header.
\<close>

definition generation_seen :: "string \<Rightarrow> string \<Rightarrow> string option \<Rightarrow> client \<Rightarrow> client" where
  "generation_seen target url raw c =
     (if cl_base c \<noteq> target \<or> \<not> prefix (target @ ''/'') url then c
      else (case raw of None \<Rightarrow> c | Some h \<Rightarrow> remember_generation target (js_number h) c))"

text \<open>A key for one attempted operation, generated before its first attempt.\<close>

definition new_key :: "client \<Rightarrow> byte list \<Rightarrow> string" where
  "new_key c random = ''g'' @ show_nat (cl_generation c) @ '':m'' @ show_nat (cl_epoch c) @ '':'' @ base64url random"

section \<open>Sending\<close>

definition REFORMED :: exn where
  "REFORMED = PlainError ''The currency was reformed. Reload before making changes.''"

definition bearer_header :: "client \<Rightarrow> string option" where
  "bearer_header c = (case active_token (cl_accounts c) of None \<Rightarrow> None
     | Some t \<Rightarrow> if t = [] then None else Some (''Bearer '' @ t))"

definition send :: "client \<Rightarrow> http_method \<Rightarrow> string \<Rightarrow> body \<Rightarrow> string option \<Rightarrow> request res" where
  "send c m path b key =
     (if truthy_str key \<and> my_changed (cl_money c) then Inl REFORMED
      else Inr \<lparr>rq_method = m, rq_url = cl_base c @ path, rq_auth = bearer_header c,
                rq_key = (if truthy_str key then key else None), rq_body = b\<rparr>)"

definition get_request :: "client \<Rightarrow> string \<Rightarrow> request res" where
  "get_request c path = send c GET path NoBody None"

definition post_request :: "client \<Rightarrow> string \<Rightarrow> body \<Rightarrow> string \<Rightarrow> request res" where
  "post_request c path b key = send c POST path b (Some key)"

definition patch_request :: "client \<Rightarrow> string \<Rightarrow> body \<Rightarrow> string \<Rightarrow> request res" where
  "patch_request c path b key = send c PATCH path b (Some key)"

definition delete_request :: "client \<Rightarrow> string \<Rightarrow> request res" where
  "delete_request c path = send c DELETE path NoBody None"

definition no_fields :: body where "no_fields = Fields []"

definition seg :: "string \<Rightarrow> string" where "seg i = encode_component i"

definition opt_field :: "string \<Rightarrow> json option \<Rightarrow> (string \<times> json) list" where
  "opt_field k v = (case v of None \<Rightarrow> [] | Some j \<Rightarrow> [(k, j)])"

section \<open>Signing in\<close>

text \<open>\<open>redirect\<close> is the page's own address, \<open>verifier\<close> 32 random bytes.\<close>

definition challenge_for :: "byte list \<Rightarrow> string" where
  "challenge_for verifier = base64url (digest_sha256 (utf8_bytes (base64url verifier)))"

definition authorize_request :: "client \<Rightarrow> string \<Rightarrow> string \<Rightarrow> byte list \<Rightarrow> string \<Rightarrow> string \<Rightarrow> request res" where
  "authorize_request c name pass verifier redirect key = post_request c ''/auth/authorize'' (Fields
     [(''username'', JStr name), (''password'', JStr pass), (''code_challenge'', JStr (challenge_for verifier)),
      (''code_challenge_method'', JStr ''S256''), (''redirect_uri'', JStr redirect)]) key"

definition token_request :: "client \<Rightarrow> string \<Rightarrow> byte list \<Rightarrow> string \<Rightarrow> string \<Rightarrow> request res" where
  "token_request c code verifier redirect key = post_request c ''/auth/token'' (Fields
     [(''code'', JStr code), (''code_verifier'', JStr (base64url verifier)), (''redirect_uri'', JStr redirect)]) key"

definition logged_in :: "user_view \<Rightarrow> string \<Rightarrow> client \<Rightarrow> client" where
  "logged_in u token c = c\<lparr>cl_accounts := add_account \<lparr>sa_user = uv_id u, sa_username = uv_username u,
     sa_name = uv_display_name u, sa_role = uv_role u, sa_token = token\<rparr> (cl_accounts c)\<rparr>"

definition logout_request :: "client \<Rightarrow> string \<Rightarrow> request res" where
  "logout_request c key = post_request c ''/auth/logout'' no_fields key"

definition logged_out :: "client \<Rightarrow> client" where
  "logged_out c = c\<lparr>cl_accounts := invalidate_active (cl_accounts c)\<rparr>"

text \<open>\<open>logoutAll\<close>: the requests it sends, one per account held, and the empty store it leaves.\<close>

definition logout_all :: "client \<Rightarrow> string list \<Rightarrow> request res list \<times> client" where
  "logout_all c keys =
     (map (\<lambda>(a, key). logout_request (c\<lparr>cl_accounts := activate_account (sa_user a) (cl_accounts c)\<rparr>) key)
        (zip (ac_all (cl_accounts c)) keys),
      c\<lparr>cl_accounts := no_accounts\<rparr>)"

section \<open>Members\<close>

definition c_status :: "client \<Rightarrow> request" where
  "c_status c = \<lparr>rq_method = GET, rq_url = cl_base c @ ''/status'', rq_auth = None, rq_key = None, rq_body = NoBody\<rparr>"

text \<open>What the status response does to the client; \<open>target\<close> is the address it was asked of.\<close>

definition status_seen :: "string \<Rightarrow> num option \<Rightarrow> nat option \<Rightarrow> num option \<Rightarrow> client \<Rightarrow> client option" where
  "status_seen target generation epoch decimals c =
     (if target \<noteq> cl_base c then Some c
      else let c1 = remember_generation target (Some (case generation of Some g \<Rightarrow> g | None \<Rightarrow> 0)) c;
               e = (case epoch of Some e \<Rightarrow> e | None \<Rightarrow> 0) in
        map_option (\<lambda>m. c1\<lparr>cl_epoch := e, cl_money := m\<rparr>)
          (money_update (case decimals of Some d \<Rightarrow> d | None \<Rightarrow> 4) (of_nat e) target (cl_money c1)))"

definition c_storage :: "client \<Rightarrow> request res" where "c_storage c = get_request c ''/admin/storage''"

definition c_checkpoint :: "client \<Rightarrow> nat \<Rightarrow> nat \<Rightarrow> string \<Rightarrow> request res" where
  "c_checkpoint c generation sequence key = post_request c ''/admin/checkpoint'' (Fields
     [(''expected_generation'', JNum (of_nat generation)), (''expected_sequence'', JNum (of_nat sequence))]) key"

definition c_transport :: "client \<Rightarrow> request res" where "c_transport c = get_request c ''/transport''"

definition c_create_nickle :: "client \<Rightarrow> num \<Rightarrow> bool \<Rightarrow> string \<Rightarrow> request res" where
  "c_create_nickle c amount fresh key = post_request c ''/nickles''
     (Fields [(''amount'', JNum amount), (''fresh_money'', JBool fresh)]) key"

definition c_redeem_nickle :: "client \<Rightarrow> string \<Rightarrow> string \<Rightarrow> request res" where
  "c_redeem_nickle c token key = post_request c ''/nickles/redeem'' (Fields [(''token'', JStr token)]) key"

definition c_require_https :: "client \<Rightarrow> string \<Rightarrow> request res \<times> client" where
  "c_require_https c key = (post_request c ''/admin/transport''
     (Fields [(''confirmation'', JStr ''REQUIRE HTTPS'')]) key, c\<lparr>cl_accounts := no_accounts\<rparr>)"

definition c_reset_economy :: "client \<Rightarrow> nat \<Rightarrow> nat \<Rightarrow> string \<Rightarrow> string \<Rightarrow> request res \<times> client" where
  "c_reset_economy c generation sequence confirmation key = (post_request c ''/admin/reset'' (Fields
     [(''expected_generation'', JNum (of_nat generation)), (''expected_sequence'', JNum (of_nat sequence)),
      (''confirmation'', JStr confirmation)]) key, c\<lparr>cl_accounts := no_accounts\<rparr>)"

definition c_provision :: "client \<Rightarrow> string \<Rightarrow> string \<Rightarrow> string \<Rightarrow> string \<Rightarrow> string \<Rightarrow> request res" where
  "c_provision c name shown pass house key = post_request c ''/provision'' (Fields
     [(''username'', JStr name), (''display_name'', JStr shown), (''password'', JStr pass),
      (''household_name'', JStr house)]) key"

definition c_me :: "client \<Rightarrow> request res" where "c_me c = get_request c ''/me''"

definition c_users :: "client \<Rightarrow> request res" where "c_users c = get_request c ''/users''"

definition c_create_user :: "client \<Rightarrow> string \<Rightarrow> string \<Rightarrow> string \<Rightarrow> bool \<Rightarrow> string \<Rightarrow> bool \<Rightarrow> string \<Rightarrow> request res" where
  "c_create_user c name shown pass grant mastodon as_bot key = post_request c ''/users'' (Fields
     ([(''username'', JStr name), (''display_name'', JStr shown), (''password'', JStr pass), (''grant'', JBool grant)]
      @ (if mastodon \<noteq> [] then [(''mastodon_id'', JStr mastodon)] else [])
      @ (if as_bot then [(''kind'', JStr ''bot'')] else []))) key"

definition user_path :: "string \<Rightarrow> string" where "user_path i = ''/users/'' @ seg i"

definition c_set_status :: "client \<Rightarrow> string \<Rightarrow> user_status \<Rightarrow> string \<Rightarrow> request res" where
  "c_set_status c i s key = patch_request c (user_path i)
     (Fields [(''status'', JStr (if s = UserActive then ''ACTIVE'' else ''DISABLED''))]) key"

definition c_set_password :: "client \<Rightarrow> string \<Rightarrow> string \<Rightarrow> string \<Rightarrow> request res" where
  "c_set_password c i pass key = patch_request c (user_path i) (Fields [(''password'', JStr pass)]) key"

definition c_set_bio :: "client \<Rightarrow> string \<Rightarrow> string \<Rightarrow> string \<Rightarrow> request res" where
  "c_set_bio c i text key = patch_request c (user_path i) (Fields [(''bio'', JStr text)]) key"

definition c_set_mastodon :: "client \<Rightarrow> string \<Rightarrow> string \<Rightarrow> string \<Rightarrow> request res" where
  "c_set_mastodon c i m key = patch_request c (user_path i) (Fields [(''mastodon_id'', JStr m)]) key"

definition c_key_status :: "client \<Rightarrow> request res" where "c_key_status c = get_request c ''/me/api-key''"

definition c_create_key :: "client \<Rightarrow> string \<Rightarrow> bool \<Rightarrow> string \<Rightarrow> request res" where
  "c_create_key c pass read_only key = post_request c ''/me/api-key'' (Fields
     ((''password'', JStr pass) # (if read_only then [(''scope'', JStr ''read'')] else []))) key"

definition c_revoke_key :: "client \<Rightarrow> bool \<Rightarrow> request res" where
  "c_revoke_key c read_only = delete_request c (if read_only then ''/me/api-key?scope=read'' else ''/me/api-key'')"

definition c_bot_key_status :: "client \<Rightarrow> string \<Rightarrow> request res" where
  "c_bot_key_status c i = get_request c (user_path i @ ''/api-key'')"

definition c_create_bot_key :: "client \<Rightarrow> string \<Rightarrow> string \<Rightarrow> request res" where
  "c_create_bot_key c i key = post_request c (user_path i @ ''/api-key'') no_fields key"

definition c_revoke_bot_key :: "client \<Rightarrow> string \<Rightarrow> request res" where
  "c_revoke_bot_key c i = delete_request c (user_path i @ ''/api-key'')"

end
