(* ===== verification/ClientMoney.thy ===== *)
theory ClientMoney
  imports Client
begin

text \<open>
  \<open>api/nanacoin.service.ts\<close>, the requests of the money, market, exchange, offer, commerce, lottery and
  loan methods.
\<close>

section \<open>Money\<close>

definition c_account_history :: "client \<Rightarrow> string \<Rightarrow> nat \<Rightarrow> string option \<Rightarrow> request res" where
  "c_account_history c account limit cursor = get_request c (''/accounts/'' @ seg account @ ''/transactions?limit='' @ show_nat limit
     @ (if truthy_str cursor then ''&cursor='' @ seg (the cursor) else []))"

definition txn_path :: "string \<Rightarrow> string" where "txn_path i = ''/transactions/'' @ seg i"

definition c_transaction :: "client \<Rightarrow> string \<Rightarrow> request res" where
  "c_transaction c i = get_request c (txn_path i)"

definition c_screen_message :: "client \<Rightarrow> string \<Rightarrow> string \<Rightarrow> request res" where
  "c_screen_message c i key = post_request c (txn_path i @ ''/screen'') no_fields key"

definition c_screen_read :: "client \<Rightarrow> string \<Rightarrow> string \<Rightarrow> request res" where
  "c_screen_read c i key = post_request c (txn_path i @ ''/screen/read'') no_fields key"

definition kind_name :: "economic_kind \<Rightarrow> string" where
  "kind_name k = (case k of Labor \<Rightarrow> ''LABOR'' | Good \<Rightarrow> ''GOOD'' | Gift \<Rightarrow> ''GIFT'' | OtherKind \<Rightarrow> ''OTHER''
     | LoanPrincipal \<Rightarrow> ''LOAN_PRINCIPAL'' | Interest \<Rightarrow> ''INTEREST'')"

definition unit_name :: "economic_unit \<Rightarrow> string" where
  "unit_name u = (case u of Each \<Rightarrow> ''EACH'' | Batch \<Rightarrow> ''BATCH'' | Task \<Rightarrow> ''TASK'' | Minute \<Rightarrow> ''MINUTE'' | Hour \<Rightarrow> ''HOUR''
     | Gram \<Rightarrow> ''GRAM'' | Kilogram \<Rightarrow> ''KILOGRAM'' | Milliliter \<Rightarrow> ''MILLILITER'' | Liter \<Rightarrow> ''LITER''
     | Load \<Rightarrow> ''LOAD'' | OtherUnit \<Rightarrow> ''OTHER'')"

record economic_input =
  ei_kind :: economic_kind
  ei_thing :: "string option"
  ei_quantity :: string
  ei_unit :: economic_unit

definition economic_fields :: "economic_input option \<Rightarrow> (string \<times> json) list" where
  "economic_fields e = (case e of None \<Rightarrow> []
     | Some e \<Rightarrow> (''economic_kind'', JStr (kind_name (ei_kind e))) # opt_field ''thing'' (map_option JStr (ei_thing e))
         @ [(''quantity'', JStr (ei_quantity e)), (''unit'', JStr (unit_name (ei_unit e)))])"

definition c_transfer :: "client \<Rightarrow> string \<Rightarrow> num \<Rightarrow> string \<Rightarrow> string \<Rightarrow> economic_input option \<Rightarrow> request res" where
  "c_transfer c recipient amount memo key economic = post_request c ''/transfers''
     (Fields ([(''to'', JStr recipient), (''amount'', JNum amount), (''memo'', JStr memo)] @ economic_fields economic)) key"

definition c_issue :: "client \<Rightarrow> string \<Rightarrow> num \<Rightarrow> string \<Rightarrow> string \<Rightarrow> request res" where
  "c_issue c recipient amount reason key = post_request c ''/admin/issue''
     (Fields [(''to'', JStr recipient), (''amount'', JNum amount), (''reason'', JStr reason)]) key"

definition c_retire :: "client \<Rightarrow> string \<Rightarrow> num \<Rightarrow> string \<Rightarrow> string \<Rightarrow> request res" where
  "c_retire c payer amount reason key = post_request c ''/admin/retire''
     (Fields [(''from'', JStr payer), (''amount'', JNum amount), (''reason'', JStr reason)]) key"

definition c_fulfillments :: "client \<Rightarrow> request res" where "c_fulfillments c = get_request c ''/fulfillments''"

definition action_name :: "fulfillment_action \<Rightarrow> string" where
  "action_name a = (case a of Complete \<Rightarrow> ''COMPLETE'' | Dispute \<Rightarrow> ''DISPUTE'' | WithdrawDispute \<Rightarrow> ''WITHDRAW_DISPUTE'')"

definition c_set_fulfillment :: "client \<Rightarrow> string \<Rightarrow> fulfillment_action \<Rightarrow> string \<Rightarrow> string \<Rightarrow> request res" where
  "c_set_fulfillment c i a reason key = post_request c (txn_path i @ ''/fulfillment'')
     (Fields [(''action'', JStr (action_name a)), (''reason'', JStr reason)]) key"

definition c_reverse :: "client \<Rightarrow> string \<Rightarrow> string \<Rightarrow> string \<Rightarrow> request res" where
  "c_reverse c i reason key = post_request c (txn_path i @ ''/reverse'') (Fields [(''reason'', JStr reason)]) key"

section \<open>The market\<close>

definition c_listings :: "client \<Rightarrow> string option \<Rightarrow> request res" where
  "c_listings c status = get_request c (''/listings'' @ (if truthy_str status then ''?status='' @ seg (the status) else []))"

definition c_things :: "client \<Rightarrow> request res" where "c_things c = get_request c ''/things''"

record new_listing =
  nl_title :: string
  nl_description :: string
  nl_price :: num
  nl_kind :: "string option"
  nl_currency :: "string option"
  nl_minor_units :: "num option"
  nl_side :: "listing_side option"
  nl_economic_kind :: "economic_kind option"
  nl_thing :: "string option"
  nl_quantity :: "string option"
  nl_unit :: "economic_unit option"
  nl_standard :: "bool option"

definition side_name :: "listing_side \<Rightarrow> string" where
  "side_name s = (case s of Sell \<Rightarrow> ''SELL'' | Buy \<Rightarrow> ''BUY'')"

definition c_create_listing :: "client \<Rightarrow> new_listing \<Rightarrow> string \<Rightarrow> request res" where
  "c_create_listing c i key = post_request c ''/listings'' (Fields
     ([(''title'', JStr (nl_title i)), (''description'', JStr (nl_description i)), (''price'', JNum (nl_price i))]
      @ opt_field ''kind'' (map_option JStr (nl_kind i)) @ opt_field ''currency'' (map_option JStr (nl_currency i))
      @ opt_field ''minor_units'' (map_option JNum (nl_minor_units i))
      @ opt_field ''side'' (map_option (\<lambda>s. JStr (side_name s)) (nl_side i))
      @ opt_field ''economic_kind'' (map_option (\<lambda>k. JStr (kind_name k)) (nl_economic_kind i))
      @ opt_field ''thing'' (map_option JStr (nl_thing i)) @ opt_field ''quantity'' (map_option JStr (nl_quantity i))
      @ opt_field ''unit'' (map_option (\<lambda>u. JStr (unit_name u)) (nl_unit i))
      @ opt_field ''standard'' (map_option JBool (nl_standard i)))) key"

definition listing_path :: "string \<Rightarrow> string" where "listing_path i = ''/listings/'' @ seg i"

definition c_update_listing :: "client \<Rightarrow> string \<Rightarrow> string option \<Rightarrow> string option \<Rightarrow> num option \<Rightarrow> string \<Rightarrow> request res" where
  "c_update_listing c i title description price key = patch_request c (listing_path i) (Fields
     (opt_field ''title'' (map_option JStr title) @ opt_field ''description'' (map_option JStr description)
      @ opt_field ''price'' (map_option JNum price))) key"

definition c_purchase :: "client \<Rightarrow> string \<Rightarrow> string \<Rightarrow> request res" where
  "c_purchase c i key = post_request c (listing_path i @ ''/purchase'') no_fields key"

definition c_cancel_listing :: "client \<Rightarrow> string \<Rightarrow> string \<Rightarrow> request res" where
  "c_cancel_listing c i key = post_request c (listing_path i @ ''/cancel'') no_fields key"

section \<open>Foreign exchange\<close>

definition quote_path :: "string \<Rightarrow> string" where "quote_path i = ''/quotes/'' @ seg i"

definition c_quotes :: "client \<Rightarrow> request res" where "c_quotes c = get_request c ''/quotes''"

definition c_post_quote :: "client \<Rightarrow> quote_side \<Rightarrow> num \<Rightarrow> num \<Rightarrow> num option \<Rightarrow> string \<Rightarrow> request res" where
  "c_post_quote c s cents coins expires key = post_request c ''/quotes'' (Fields
     ([(''side'', JStr (if s = Ask then ''ASK'' else ''BID'')), (''cents_per_coin'', JNum cents), (''coins'', JNum coins)]
      @ opt_field ''expires_at'' (map_option JNum expires))) key"

definition c_take_quote :: "client \<Rightarrow> string \<Rightarrow> string \<Rightarrow> request res" where
  "c_take_quote c i key = post_request c (quote_path i @ ''/take'') no_fields key"

definition c_cancel_quote :: "client \<Rightarrow> string \<Rightarrow> string \<Rightarrow> request res" where
  "c_cancel_quote c i key = post_request c (quote_path i @ ''/cancel'') no_fields key"

definition c_issue_usd :: "client \<Rightarrow> string \<Rightarrow> num \<Rightarrow> string \<Rightarrow> string \<Rightarrow> request res" where
  "c_issue_usd c recipient cents reason key = post_request c ''/admin/issue-usd''
     (Fields [(''to'', JStr recipient), (''cents'', JNum cents), (''reason'', JStr reason)]) key"

section \<open>Offers and commerce\<close>

definition offer_path :: "string \<Rightarrow> string" where "offer_path i = ''/offers/'' @ seg i"

definition c_offers :: "client \<Rightarrow> request res" where "c_offers c = get_request c ''/offers''"

definition c_outstanding_offers :: "client \<Rightarrow> string \<Rightarrow> request res" where
  "c_outstanding_offers c i = get_request c (''/offers?member='' @ seg i)"

definition c_offers_for :: "client \<Rightarrow> string \<Rightarrow> request res" where
  "c_offers_for c i = get_request c (listing_path i @ ''/offers'')"

definition c_make_offer :: "client \<Rightarrow> string \<Rightarrow> num \<Rightarrow> string \<Rightarrow> string \<Rightarrow> request res" where
  "c_make_offer c i amount message key = post_request c (listing_path i @ ''/offers'')
     (Fields [(''amount'', JNum amount), (''message'', JStr message)]) key"

definition c_accept_offer :: "client \<Rightarrow> string \<Rightarrow> string \<Rightarrow> request res" where
  "c_accept_offer c i key = post_request c (offer_path i @ ''/accept'') no_fields key"

definition c_unaccept_offer :: "client \<Rightarrow> string \<Rightarrow> string \<Rightarrow> string \<Rightarrow> request res" where
  "c_unaccept_offer c i reason key = post_request c (offer_path i @ ''/unaccept'') (Fields [(''reason'', JStr reason)]) key"

definition c_decline_offer :: "client \<Rightarrow> string \<Rightarrow> string \<Rightarrow> request res" where
  "c_decline_offer c i key = post_request c (offer_path i @ ''/decline'') no_fields key"

definition c_withdraw_offer :: "client \<Rightarrow> string \<Rightarrow> string \<Rightarrow> request res" where
  "c_withdraw_offer c i key = post_request c (offer_path i @ ''/withdraw'') no_fields key"

definition c_minicloud_session :: "client \<Rightarrow> request res" where
  "c_minicloud_session c = get_request c ''/minicloud/session''"

definition c_commerce_book :: "client \<Rightarrow> request res" where "c_commerce_book c = get_request c ''/commerce''"

definition c_commerce :: "client \<Rightarrow> commerce_action \<Rightarrow> string \<Rightarrow> request res" where
  "c_commerce c a key = post_request c ''/commerce/commands'' (Command a) key"

definition c_logs :: "client \<Rightarrow> nat \<Rightarrow> request res" where
  "c_logs c limit = get_request c (''/logs?limit='' @ show_nat limit)"

section \<open>Lotteries, loans and settings\<close>

definition c_lottos :: "client \<Rightarrow> request res" where "c_lottos c = get_request c ''/lottos''"

text \<open>What a lottery or loan book does to the client when its address has not changed meanwhile.\<close>

definition book_seen :: "string \<Rightarrow> num \<Rightarrow> nat \<Rightarrow> client \<Rightarrow> client option" where
  "book_seen source decimals epoch c = (if cl_base c \<noteq> source then Some c
     else map_option (\<lambda>m. c\<lparr>cl_epoch := epoch, cl_money := m\<rparr>)
            (money_update decimals (of_nat epoch) source (cl_money c)))"

definition c_member_lottos :: "client \<Rightarrow> string \<Rightarrow> request res" where
  "c_member_lottos c i = get_request c (''/lottos?member='' @ seg i)"

definition c_member_loans :: "client \<Rightarrow> string \<Rightarrow> request res" where
  "c_member_loans c i = get_request c (''/loans?member='' @ seg i)"

definition c_create_lotto :: "client \<Rightarrow> lotto_terms \<Rightarrow> string \<Rightarrow> request res" where
  "c_create_lotto c t key = post_request c ''/lottos'' (LottoTerms t) key"

definition c_buy_tickets :: "client \<Rightarrow> nat \<Rightarrow> num \<Rightarrow> string \<Rightarrow> request res" where
  "c_buy_tickets c i count key = post_request c (''/lottos/'' @ show_nat i @ ''/tickets'')
     (Fields [(''count'', JNum count)]) key"

definition c_resolve_lottos :: "bool \<Rightarrow> client \<Rightarrow> string \<Rightarrow> request res" where
  "c_resolve_lottos is_demo c key = (if \<not> is_demo then Inl (PlainError ''This action is only available in the demo.'')
     else post_request c ''/demo/lottos/resolve'' no_fields key)"

definition loan_path :: "nat \<Rightarrow> string" where "loan_path i = ''/loans/'' @ show_nat i"

definition c_request_loan :: "client \<Rightarrow> loan_offer_input \<Rightarrow> string \<Rightarrow> request res" where
  "c_request_loan c i key = post_request c ''/loans/request'' (LoanTerms i) key"

definition c_respond_loan :: "client \<Rightarrow> nat \<Rightarrow> loan_offer_input \<Rightarrow> string \<Rightarrow> request res" where
  "c_respond_loan c n i key = post_request c (loan_path n @ ''/offer'') (LoanTerms i) key"

definition c_loans :: "client \<Rightarrow> request res" where "c_loans c = get_request c ''/loans''"

definition c_offer_loan :: "client \<Rightarrow> loan_offer_input \<Rightarrow> string \<Rightarrow> request res" where
  "c_offer_loan c i key = post_request c ''/loans'' (LoanTerms i) key"

definition c_accept_loan :: "client \<Rightarrow> nat \<Rightarrow> string \<Rightarrow> request res" where
  "c_accept_loan c n key = post_request c (loan_path n @ ''/accept'') no_fields key"

definition c_close_loan :: "client \<Rightarrow> nat \<Rightarrow> string \<Rightarrow> request res" where
  "c_close_loan c n key = post_request c (loan_path n @ ''/close'') no_fields key"

definition c_repay_loan :: "client \<Rightarrow> nat \<Rightarrow> num \<Rightarrow> string \<Rightarrow> request res" where
  "c_repay_loan c n amount key = post_request c (loan_path n @ ''/repay'') (Fields [(''amount'', JNum amount)]) key"

definition c_reform :: "client \<Rightarrow> reform_input \<Rightarrow> string \<Rightarrow> request res" where
  "c_reform c i key = post_request c ''/admin/reform'' (ReformBody i) key"

definition c_config :: "client \<Rightarrow> request res" where "c_config c = get_request c ''/admin/config''"

definition c_set_config :: "client \<Rightarrow> (string \<times> json) list \<Rightarrow> string \<Rightarrow> request res" where
  "c_set_config c changes key = patch_request c ''/admin/config'' (Fields changes) key"

definition c_light_settings :: "client \<Rightarrow> request res" where "c_light_settings c = get_request c ''/admin/light''"

definition c_set_light :: "client \<Rightarrow> string \<Rightarrow> string \<Rightarrow> string \<Rightarrow> string \<Rightarrow> request res" where
  "c_set_light c p q r key = post_request c ''/admin/light'' (Fields [(''phrases'', JList [JStr p, JStr q, JStr r])]) key"

definition EMAIL_OFF :: exn where "EMAIL_OFF = PlainError ''Email is disabled in the demo''"

definition c_email_settings :: "bool \<Rightarrow> client \<Rightarrow> request res" where
  "c_email_settings is_demo c = (if is_demo then Inl EMAIL_OFF else get_request c ''/email'')"

definition c_email_action :: "bool \<Rightarrow> client \<Rightarrow> string \<Rightarrow> body \<Rightarrow> request res" where
  "c_email_action is_demo c action b = (if is_demo then Inl EMAIL_OFF else send c POST (''/email/'' @ action) b None)"

end
