(* ===== verification/ClientCalls.thy ===== *)
theory ClientCalls
  imports ClientMoney
begin

text \<open>
  \<open>api/nanacoin.service.ts\<close>, what happens to a request once it is sent: the retries of a busy server,
  the reading of failures, the activity counter of \<open>api/activity.ts\<close>, and \<open>ledger\<close>, the one method
  that sends several requests: it follows the cursors of the journal page by page. A server that keeps
  answering with new cursors and no rows would keep it running, so its loop is a partial function.
\<close>

section \<open>Busy servers\<close>

text \<open>
  \<open>retryAfterMs\<close>: \<open>Retry-After\<close> is seconds or a date; \<open>parse_date\<close> is \<open>Date.parse\<close>, \<open>None\<close> for \<open>NaN\<close>.
\<close>

definition retry_after_ms :: "(string \<Rightarrow> num option) \<Rightarrow> num \<Rightarrow> string option \<Rightarrow> num" where
  "retry_after_ms parse_date t header =
     (let seconds = (case header of None \<Rightarrow> Some 0 | Some h \<Rightarrow> js_number h);
          moment = (if truthy_str header then parse_date (the header) else None) in
      case seconds of
        Some s \<Rightarrow> if 0 \<le> s then min (js_mul (max s (1 / 4)) 1000) 10000
          else (case moment of Some d \<Rightarrow> min (max (js_sub d t) 250) 10000 | None \<Rightarrow> 1000)
      | None \<Rightarrow> (case moment of Some d \<Rightarrow> min (max (js_sub d t) 250) 10000 | None \<Rightarrow> 1000))"

datatype failure =
    Busy num
  | ApiError nat string string

text \<open>\<open>withBackoff\<close>: \<open>run k\<close> is what the \<open>k\<close>-th attempt ends with; also the delays waited.\<close>

definition MAX_ATTEMPTS :: nat where "MAX_ATTEMPTS = 3"

function with_backoff :: "nat \<Rightarrow> (nat \<Rightarrow> failure + 'a) \<Rightarrow> (failure + 'a) \<times> num list" where
  "with_backoff attempt run = (case run attempt of
     Inl (Busy ms) \<Rightarrow> if attempt \<ge> MAX_ATTEMPTS then (Inl (Busy ms), [])
       else (case with_backoff (Suc attempt) run of (r, waits) \<Rightarrow> (r, ms # waits))
   | r \<Rightarrow> (r, []))"
  by auto
termination by (relation "measure (\<lambda>(attempt, run). MAX_ATTEMPTS - attempt)") auto

declare with_backoff.simps [simp del]

section \<open>Failures\<close>

record http_failure =
  hf_status :: nat
  hf_retry_after :: "string option"
  hf_error :: "string option"
  hf_message :: "string option"
  hf_status_text :: string

datatype trouble = TimedOut | Unknown | Http http_failure

definition unreachable_text :: "string \<Rightarrow> string" where
  "unreachable_text label = ''Could not reach NanaCoin at '' @ label @ ''. It may be offline, or the address may be wrong.''"

definition map_error :: "(string \<Rightarrow> num option) \<Rightarrow> num \<Rightarrow> string \<Rightarrow> trouble \<Rightarrow> failure" where
  "map_error parse_date t label e = (case e of
     TimedOut \<Rightarrow> ApiError 0 ''unreachable'' ''NanaCoin did not answer within six seconds.''
   | Unknown \<Rightarrow> ApiError 0 ''unknown'' ''Something went wrong.''
   | Http f \<Rightarrow>
       if hf_status f = 200 then ApiError 200 ''not_nanacoin''
         (label @ '' answered, but it is not a NanaCoin API. Give the address of the board that is.'')
       else if hf_status f = 503 \<and> truthy_str (hf_retry_after f)
       then Busy (retry_after_ms parse_date t (hf_retry_after f))
       else if hf_status f \<in> {0, 502, 503, 504} then ApiError (hf_status f) ''unreachable'' (unreachable_text label)
       else ApiError (hf_status f) (case hf_error f of Some c \<Rightarrow> c | None \<Rightarrow> ''error'')
              (case hf_message f of Some m \<Rightarrow> m | None \<Rightarrow> hf_status_text f))"

text \<open>A 401 forgets the account that made the request.\<close>

definition failed_client :: "trouble \<Rightarrow> client \<Rightarrow> client" where
  "failed_client e c = (case e of Http f \<Rightarrow> if hf_status f = 401 then logged_out c else c | _ \<Rightarrow> c)"

definition is_network :: "failure \<Rightarrow> bool" where
  "is_network f \<longleftrightarrow> (case f of ApiError _ code _ \<Rightarrow> code = ''unreachable'' | Busy _ \<Rightarrow> False)"

definition is_auth_error :: "failure \<Rightarrow> bool" where
  "is_auth_error f \<longleftrightarrow> (case f of ApiError s _ _ \<Rightarrow> s = 401 | Busy _ \<Rightarrow> False)"

section \<open>Activity\<close>

record activity =
  av_count :: nat
  av_failed :: bool

definition activity_begin :: "activity \<Rightarrow> activity" where
  "activity_begin a = a\<lparr>av_count := Suc (av_count a)\<rparr>"

definition activity_end :: "activity \<Rightarrow> activity" where
  "activity_end a = a\<lparr>av_count := av_count a - 1\<rparr>"

definition activity_fail :: "activity \<Rightarrow> activity" where
  "activity_fail a = a\<lparr>av_failed := True\<rparr>"

definition pending :: "activity \<Rightarrow> bool" where
  "pending a \<longleftrightarrow> av_count a > 0"

definition traced_activity :: "bool \<Rightarrow> (failure + 'a) \<Rightarrow> activity \<Rightarrow> activity" where
  "traced_activity quiet r a = (if quiet then a
     else activity_end ((case r of Inl _ \<Rightarrow> activity_fail | Inr _ \<Rightarrow> id) (activity_begin a)))"

section \<open>Following the journal\<close>

record wire_page =
  wp_transactions :: "transaction_view list"
  wp_next :: "string option"
  wp_upper :: nat
  wp_truncated :: bool

definition ledger_path :: "nat \<Rightarrow> string option \<Rightarrow> string" where
  "ledger_path limit cursor = ''/transactions?limit='' @ show_nat limit
     @ (case cursor of None \<Rightarrow> [] | Some k \<Rightarrow> ''&cursor='' @ k)"

definition is_cursor :: "string \<Rightarrow> bool" where
  "is_cursor s \<longleftrightarrow> (let ps = split_char (CHR '':'') s in
     length ps = 4 \<and> list_all (\<lambda>p. p \<noteq> [] \<and> list_all is_digit p) ps)"

definition BAD_CURSOR :: exn where "BAD_CURSOR = PlainError ''Invalid ledger continuation cursor.''"
definition SERVER_CHANGED :: exn where
  "SERVER_CHANGED = PlainError ''The server changed while reading the ledger. Reload and try again.''"
definition LEDGER_CHANGED :: exn where
  "LEDGER_CHANGED = PlainError ''The ledger changed while reading its history. Reload and try again.''"
definition CURRENCY_REFORMED :: exn where
  "CURRENCY_REFORMED = PlainError ''The currency was reformed while reading the ledger. Reload and try again.''"

text \<open>
  The world the loop runs in: \<open>fetch k n cursor\<close> is the answer to its \<open>k\<close>-th request, for \<open>n\<close> rows, and
  \<open>base k\<close> the server's address once that answer is in.
\<close>

record reading =
  rd_wanted :: nat
  rd_first :: wire_page
  rd_seen :: "string list"
  rd_rows :: "transaction_view list"
  rd_page :: wire_page
  rd_count :: nat

definition read_more :: "reading \<Rightarrow> bool" where
  "read_more r \<longleftrightarrow> length (rd_rows r) < rd_wanted r \<and> truthy_str (wp_next (rd_page r))"

definition read_page :: "(nat \<Rightarrow> nat \<Rightarrow> string option \<Rightarrow> wire_page res) \<Rightarrow> (nat \<Rightarrow> string) \<Rightarrow> string \<Rightarrow> reading \<Rightarrow> reading res" where
  "read_page fetch base source r =
     (let cursor = the (wp_next (rd_page r)); k = rd_count r in
      if cursor \<in> set (rd_seen r) \<or> \<not> is_cursor cursor then Inl BAD_CURSOR
      else if base k \<noteq> source then Inl SERVER_CHANGED
      else (case fetch (Suc k) (min (rd_wanted r - length (rd_rows r)) 100) (Some cursor) of
          Inl e \<Rightarrow> Inl e
        | Inr page \<Rightarrow>
            if wp_upper page \<noteq> wp_upper (rd_first r) \<or> base (Suc k) \<noteq> source then Inl LEDGER_CHANGED
            else Inr (r\<lparr>rd_seen := cursor # rd_seen r, rd_rows := rd_rows r @ wp_transactions page,
                        rd_page := page, rd_count := Suc k\<rparr>)))"

partial_function (option) read_loop ::
  "(nat \<Rightarrow> nat \<Rightarrow> string option \<Rightarrow> wire_page res) \<Rightarrow> (nat \<Rightarrow> string) \<Rightarrow> string \<Rightarrow> reading \<Rightarrow> reading res option" where
  "read_loop fetch base source r = (if \<not> read_more r then Some (Inr r)
     else case read_page fetch base source r of Inl e \<Rightarrow> Some (Inl e) | Inr r' \<Rightarrow> read_loop fetch base source r')"

definition wanted_rows :: "num option \<Rightarrow> nat" where
  "wanted_rows limit = nat (max 1 (min 3650 (case limit of Some x \<Rightarrow> \<lfloor>x\<rfloor> | None \<Rightarrow> 100)))"

definition finish_reading :: "reading \<Rightarrow> wire_page res" where
  "finish_reading r =
     (if length (remdups (map tv_current_money_epoch (rd_rows r))) > 1 then Inl CURRENCY_REFORMED
      else Inr \<lparr>wp_transactions = rd_rows r, wp_next = wp_next (rd_page r), wp_upper = wp_upper (rd_first r),
                wp_truncated = (wp_truncated (rd_first r) \<or> wp_truncated (rd_page r))\<rparr>)"

definition read_ledger ::
  "(nat \<Rightarrow> nat \<Rightarrow> string option \<Rightarrow> wire_page res) \<Rightarrow> (nat \<Rightarrow> string) \<Rightarrow> string \<Rightarrow> num option \<Rightarrow> wire_page res option" where
  "read_ledger fetch base source limit =
     (let wanted = wanted_rows limit in
      case fetch 0 (min wanted 100) None of
        Inl e \<Rightarrow> Some (Inl e)
      | Inr page \<Rightarrow> (case read_loop fetch base source \<lparr>rd_wanted = wanted, rd_first = page, rd_seen = [],
            rd_rows = wp_transactions page, rd_page = page, rd_count = 0\<rparr> of
          None \<Rightarrow> None
        | Some (Inl e) \<Rightarrow> Some (Inl e)
        | Some (Inr r) \<Rightarrow> Some (finish_reading r)))"

section \<open>Waiting is bounded\<close>

lemma retry_bounds:
  "250 \<le> retry_after_ms p t h \<and> retry_after_ms p t h \<le> 10000"
proof -
  have e: "250 \<le> js_mul (max s (1 / 4)) 1000" if "0 \<le> s" for s
  proof -
    have "(250 :: rat) \<le> max s (1 / 4) * 1000" by (simp add: max_def)
    then show ?thesis unfolding js_mul_def by (intro fl_ge_integer) simp_all
  qed
  have d: "250 \<le> min (max x 250) 10000 \<and> min (max x 250) 10000 \<le> (10000 :: rat)" for x by auto
  have s: "250 \<le> min (js_mul (max s (1 / 4)) 1000) 10000 \<and> min (js_mul (max s (1 / 4)) 1000) 10000 \<le> 10000"
    if "0 \<le> s" for s using e [OF that] by simp
  show ?thesis using d s unfolding retry_after_ms_def Let_def by (simp split: option.splits)
qed

lemma backoff_waits:
  "with_backoff a run = (r, waits) \<Longrightarrow> length waits \<le> MAX_ATTEMPTS - a
    \<and> (\<forall>i < length waits. run (a + i) = Inl (Busy (waits ! i))) \<and> run (a + length waits) = r"
proof (induction a run arbitrary: r waits rule: with_backoff.induct)
  case (1 a run)
  show ?case
  proof (cases "\<exists>ms. run a = Inl (Busy ms) \<and> a < MAX_ATTEMPTS")
    case True
    then obtain ms where ms: "run a = Inl (Busy ms)" "a < MAX_ATTEMPTS" by blast
    obtain r' ws where w: "with_backoff (Suc a) run = (r', ws)" by fastforce
    have e: "r = r'" "waits = ms # ws"
      using 1(2) ms w by (simp_all add: with_backoff.simps [of a run])
    have "\<not> MAX_ATTEMPTS \<le> a" using ms by simp
    note ih = 1(1) [OF ms(1) _ this w]
    then show ?thesis using ms e
      by (auto simp: nth_Cons split: nat.splits)
  next
    case False
    then have "waits = [] \<and> r = run a"
      using 1(2) by (auto simp: with_backoff.simps [of a run] split: sum.splits failure.splits if_splits)
    then show ?thesis by simp
  qed
qed

lemma traced_settles: "pending (traced_activity quiet r a) = pending a"
  by (simp add: traced_activity_def pending_def activity_begin_def activity_end_def activity_fail_def split: sum.splits)

end
