(* ===== verification/DemoBackend.thy ===== *)
theory DemoBackend
  imports LedgerRun Http
begin

text \<open>
  \<open>demo/demo-backend.ts\<close>: the demo's server, which answers the page's requests from the ledger. Its
  state is the ledger, the login codes and sessions, the retry receipts, and the pretend API keys and
  bots. A handler returns what it answers or throws, with the state it leaves; \<open>None\<close> only while the
  lottery's rejection loop is still drawing. The routes are the file's, in its order: a list of
  conditions with their handlers, of which the first that holds decides.

  Randomness and seeding are arguments: \<open>chance\<close> holds what \<open>Math.random\<close> and
  \<open>crypto.getRandomValues\<close> return during one request, and \<open>seeding\<close> is the script that fills the
  ledger on the first request. An unreadable number is \<open>NaN\<close>: every number a route passes on is
  first tested by a ledger guard that \<open>NaN\<close> and a fraction fail alike, so \<open>NaN\<close> is modelled by
  one half. A field outside the type the API declares for it is outside the model, which raises
  \<open>TypeError\<close>.
\<close>

section \<open>State and answers\<close>

record chance =
  ch_code :: string
  ch_bytes :: "byte list"
  ch_tick :: "nat list"
  ch_draw :: "nat list"

record configuration =
  cf_household_name :: string
  cf_currency :: string
  cf_decimals :: nat
  cf_minor_units_per_coin :: num
  cf_money_epoch :: nat
  cf_initial_grant :: num
  cf_offer_settles_after :: int
  cf_smallest_unit :: string
  cf_usd_decimals :: nat
  cf_maximum_amount_minor :: num
  cf_lending_enabled :: bool
  cf_lending_policy :: string
  cf_rate_basis_points_per_percent :: nat
  cf_savings_lotto_holding_seconds :: int
  cf_terms_policy :: string

record key_state =
  ks_active :: bool
  ks_created_at :: "int option"

datatype answer =
    AStatus status_view
  | AConfiguration configuration
  | APublicLedger "transaction_view list" num
  | ATransport bool bool
  | AUser user_view
  | AMember user_view bool
  | AMembers "(user_view \<times> bool) list"
  | ACode string
  | AToken string user_view
  | ANothing
  | ACommerce commerce
  | ASequence nat
  | ATransaction transaction
  | AResolved nat
  | ALottos "lotto list" nat nat
  | ALotto lotto
  | ALoanBook loan_book
  | ALoan loan
  | AReform reform_result
  | ANickle string num string
  | AKey string int string
  | AKeyStatus key_state key_state
  | AHistory history_page
  | APage ledger_page
  | AFulfillments "fulfillment list"
  | AFulfillment fulfillment
  | AQuotes "quote list"
  | AQuote quote
  | ATrade trade_result
  | AConfig string num string
  | AListings "listing list"
  | AThings "thing list"
  | AListing listing
  | APurchase listing transaction
  | AOffers "offer list"
  | AOffer offer
  | AOfferResult offer transaction listing

type_synonym fingerprint = "http_method \<times> string \<times> body"

record backend =
  be_ledger :: ledger
  be_seeded :: bool
  be_sessions :: "(string \<times> string) list"
  be_codes :: "(string \<times> string) list"
  be_receipts :: "(string \<times> fingerprint \<times> answer) list"
  be_api_keys :: "(string \<times> int) list"
  be_bots :: "string list"

type_synonym handler = "backend \<Rightarrow> ((exn + answer) \<times> backend) option"

definition new_backend :: "(nat \<Rightarrow> int) \<Rightarrow> backend" where
  "new_backend readings = \<lparr>be_ledger = new_ledger readings, be_seeded = False, be_sessions = [], be_codes = [],
     be_receipts = [], be_api_keys = [], be_bots = []\<rparr>"

section \<open>Handlers\<close>

definition fail :: "exn \<Rightarrow> handler" where
  "fail e st = Some (Inl e, st)"

definition answer :: "(ledger \<Rightarrow> answer) \<Rightarrow> handler" where
  "answer f st = Some (Inr (f (be_ledger st)), st)"

definition answer_res :: "('a \<Rightarrow> answer) \<Rightarrow> (ledger \<Rightarrow> 'a res) \<Rightarrow> handler" where
  "answer_res g f st = (case f (be_ledger st) of Inl e \<Rightarrow> Some (Inl e, st) | Inr a \<Rightarrow> Some (Inr (g a), st))"

definition act_on :: "('a \<Rightarrow> answer) \<Rightarrow> (ledger, 'a) act \<Rightarrow> handler" where
  "act_on g m st = (case m (be_ledger st) of
     (Inl e, w) \<Rightarrow> Some (Inl e, st\<lparr>be_ledger := w\<rparr>)
   | (Inr a, w) \<Rightarrow> Some (Inr (g a), st\<lparr>be_ledger := w\<rparr>))"

text \<open>\<open>Math.floor(Date.now()/1000)\<close>, the next reading of the wall clock.\<close>

definition timed :: "(int \<Rightarrow> handler) \<Rightarrow> handler" where
  "timed k st = (let w = be_ledger st in k (wall w (ticks w)) (st\<lparr>be_ledger := w\<lparr>ticks := Suc (ticks w)\<rparr>\<rparr>))"

fun route :: "(bool \<times> handler) list \<Rightarrow> handler \<Rightarrow> handler" where
  "route [] k = k"
| "route ((b, h) # rs) k = (if b then h else route rs k)"

section \<open>Reading a request\<close>

definition NaN :: num where "NaN = 1 / 2"

definition num_field :: "body \<Rightarrow> string \<Rightarrow> num" where
  "num_field b k = (case json_number (field b k) of Some x \<Rightarrow> x | None \<Rightarrow> NaN)"

definition text_field :: "body \<Rightarrow> string \<Rightarrow> string option" where
  "text_field b k = (case field b k of Some (JStr s) \<Rightarrow> Some s | _ \<Rightarrow> None)"

definition text_or :: "string \<Rightarrow> body \<Rightarrow> string \<Rightarrow> string" where
  "text_or d b k = (case text_field b k of Some s \<Rightarrow> s | None \<Rightarrow> d)"

definition with_text :: "body \<Rightarrow> string \<Rightarrow> (string \<Rightarrow> handler) \<Rightarrow> handler" where
  "with_text b k h = (case text_field b k of Some s \<Rightarrow> h s | None \<Rightarrow> fail TypeError)"

definition chosen :: "(string \<times> 'a) list \<Rightarrow> body \<Rightarrow> string \<Rightarrow> 'a option" where
  "chosen names b k = (case text_field b k of Some s \<Rightarrow> map_of names s | None \<Rightarrow> None)"

definition with_choice :: "(string \<times> 'a) list \<Rightarrow> body \<Rightarrow> string \<Rightarrow> ('a \<Rightarrow> handler) \<Rightarrow> handler" where
  "with_choice names b k h = (case chosen names b k of Some x \<Rightarrow> h x | None \<Rightarrow> fail TypeError)"

definition economic_kinds :: "(string \<times> economic_kind) list" where
  "economic_kinds = [(''LABOR'', Labor), (''GOOD'', Good), (''GIFT'', Gift), (''OTHER'', OtherKind),
     (''LOAN_PRINCIPAL'', LoanPrincipal), (''INTEREST'', Interest)]"

definition economic_units :: "(string \<times> economic_unit) list" where
  "economic_units = [(''EACH'', Each), (''BATCH'', Batch), (''TASK'', Task), (''MINUTE'', Minute), (''HOUR'', Hour),
     (''GRAM'', Gram), (''KILOGRAM'', Kilogram), (''MILLILITER'', Milliliter), (''LITER'', Liter),
     (''LOAD'', Load), (''OTHER'', OtherUnit)]"

definition quote_sides :: "(string \<times> quote_side) list" where
  "quote_sides = [(''ASK'', Ask), (''BID'', Bid)]"

definition listing_sides :: "(string \<times> listing_side) list" where
  "listing_sides = [(''SELL'', Sell), (''BUY'', Buy)]"

definition statuses :: "(string \<times> user_status) list" where
  "statuses = [(''ACTIVE'', UserActive), (''DISABLED'', UserDisabled)]"

definition fulfillment_actions :: "(string \<times> fulfillment_action) list" where
  "fulfillment_actions = [(''COMPLETE'', Complete), (''DISPUTE'', Dispute), (''WITHDRAW_DISPUTE'', WithdrawDispute)]"

text \<open>
  \<open>"1.25"\<close> is 1250 thousandths: the fraction is padded to three digits and added to the whole
  part. A JSON number stands for its decimal text of at most three fraction digits.
\<close>

definition quantity_milli :: "json option \<Rightarrow> num" where
  "quantity_milli j = (case j of Some (JStr s) \<Rightarrow>
       (let whole = before_first ''.'' s;
            rest = (case after_first ''.'' s of None \<Rightarrow> [] | Some r \<Rightarrow> before_first ''.'' r);
            fraction = rest @ replicate (3 - length rest) (CHR ''0'') in
        case (js_number whole, js_number fraction) of
          (Some a, Some b) \<Rightarrow> js_add (js_mul a 1000) b | _ \<Rightarrow> NaN)
     | Some (JNum x) \<Rightarrow> js_mul x 1000 | _ \<Rightarrow> NaN)"

definition rq_path :: "request \<Rightarrow> string" where
  "rq_path rq = before_first ''?'' (case after_first ''/api/v1'' (rq_url rq) of
     None \<Rightarrow> [] | Some s \<Rightarrow> before_first ''/api/v1'' s)"

definition rq_query :: "request \<Rightarrow> (string \<times> string) list" where
  "rq_query rq = query_params (case after_first ''?'' (rq_url rq) of None \<Rightarrow> [] | Some s \<Rightarrow> before_first ''?'' s)"

definition query_get :: "request \<Rightarrow> string \<Rightarrow> string option" where
  "query_get rq k = map_of (rq_query rq) k"

text \<open>A page limit: \<open>None\<close> when it is not finite.\<close>

definition limit_of :: "request \<Rightarrow> nat \<Rightarrow> nat option" where
  "limit_of rq d = (case query_get rq ''limit'' of None \<Rightarrow> Some d | Some s \<Rightarrow> map_option (\<lambda>x. nat \<lfloor>x\<rfloor>) (js_number s))"

text \<open>\<open>cursor.split(':').map(Number)\<close>: \<open>None\<close> when a number is missing, not a safe integer, or negative.\<close>

definition cursor_number :: "string \<Rightarrow> nat option" where
  "cursor_number s = (case js_number s of Some x \<Rightarrow> if is_safe x \<and> 0 \<le> x then Some (nat \<lfloor>x\<rfloor>) else None | None \<Rightarrow> None)"

definition STALE :: exn where
  "STALE = DemoError 409 ''stale_request'' ''The ledger changed. Reload its history.''"

definition with_cursor :: "request \<Rightarrow> nat \<Rightarrow> (nat list option \<Rightarrow> handler) \<Rightarrow> handler" where
  "with_cursor rq n k = (case query_get rq ''cursor'' of
     None \<Rightarrow> k None
   | Some c \<Rightarrow> if c = [] then k None
       else let ns = map cursor_number (split_char (CHR '':'') c) in
         if length ns < n \<or> None \<in> set (take n ns) then fail STALE else k (Some (map the (take n ns))))"

definition bearer :: "request \<Rightarrow> string option" where
  "bearer rq = (case rq_auth rq of None \<Rightarrow> None
     | Some h \<Rightarrow> if starts_with ''Bearer '' h then Some (drop 7 h) else None)"

definition session_of :: "request \<Rightarrow> backend \<Rightarrow> string option" where
  "session_of rq st = map_of (be_sessions st) (case bearer rq of Some t \<Rightarrow> t | None \<Rightarrow> [])"

definition NO_SESSION :: exn where
  "NO_SESSION = DemoError 401 ''no_session'' ''Please log in again.''"

definition current :: "request \<Rightarrow> (user \<Rightarrow> handler) \<Rightarrow> handler" where
  "current rq k st =
     (case (case bearer rq of Some t \<Rightarrow> if t = [] then None else map_of (be_sessions st) t | None \<Rightarrow> None) of
        None \<Rightarrow> fail NO_SESSION st
      | Some i \<Rightarrow> (case user_by_id (be_ledger st) i of None \<Rightarrow> fail NO_SESSION st | Some u \<Rightarrow> k u st))"

definition subject :: "string \<Rightarrow> (user \<Rightarrow> handler) \<Rightarrow> handler" where
  "subject i k st = (case user_by_id (be_ledger st) i of
     None \<Rightarrow> fail (DemoError 404 ''not_found'' ''No such member.'') st | Some u \<Rightarrow> k u st)"

definition last_segment :: "string \<Rightarrow> string" where
  "last_segment path = after_last (CHR ''/'') path"

definition segment :: "string \<Rightarrow> nat \<Rightarrow> string" where
  "segment path i = (let ss = split_char (CHR ''/'') path in if i < length ss then ss ! i else [])"

definition id_segment :: "string \<Rightarrow> nat" where
  "id_segment path = (case cursor_number (segment path 2) of Some n \<Rightarrow> n | None \<Rightarrow> 0)"

text \<open>A path with a prefix and a tail, and what lies between them.\<close>

definition framed :: "string \<Rightarrow> string \<Rightarrow> string \<Rightarrow> bool" where
  "framed p q path \<longleftrightarrow> starts_with p path \<and> ends_with q path"

definition framed_rest :: "string \<Rightarrow> string \<Rightarrow> string \<Rightarrow> bool" where
  "framed_rest p q path \<longleftrightarrow> starts_with p path \<and> ends_with q (drop (length p) path)"

text \<open>The patterns \<open>/^\/transactions\/[^/]+\/screen(?:\/read)?$/\<close> and \<open>/^\/lottos\/\d+\/tickets$/\<close>.\<close>

definition is_screen :: "string \<Rightarrow> bool" where
  "is_screen path \<longleftrightarrow> (case split_char (CHR ''/'') path of
     [a, b, c, d] \<Rightarrow> a = [] \<and> b = ''transactions'' \<and> c \<noteq> [] \<and> d = ''screen''
   | [a, b, c, d, e] \<Rightarrow> a = [] \<and> b = ''transactions'' \<and> c \<noteq> [] \<and> d = ''screen'' \<and> e = ''read''
   | _ \<Rightarrow> False)"

definition is_tickets :: "string \<Rightarrow> bool" where
  "is_tickets path \<longleftrightarrow> (case split_char (CHR ''/'') path of
     [a, b, c, d] \<Rightarrow> a = [] \<and> b = ''lottos'' \<and> c \<noteq> [] \<and> list_all is_digit c \<and> d = ''tickets'' | _ \<Rightarrow> False)"

end
