(* ===== verification/DemoRoutes.thy ===== *)
theory DemoRoutes
  imports DemoBackend
begin

text \<open>
  \<open>demo/demo-backend.ts\<close>, \<open>handle\<close>: the routes of the demo's server, and \<open>demoBackend\<close> around it: the
  retry receipts, the check of the key's money epoch, the revision counter, and errors as responses.
\<close>

section \<open>Open endpoints\<close>

definition starting_grant :: "ledger \<Rightarrow> num" where
  "starting_grant w = js_mul 20 (js_pow10 (int (decimals w)))"

definition configuration_of :: "ledger \<Rightarrow> configuration" where
  "configuration_of w = \<lparr>cf_household_name = household w, cf_currency = ''NanaCoin'', cf_decimals = decimals w,
     cf_minor_units_per_coin = js_pow10 (int (decimals w)), cf_money_epoch = money_epoch w,
     cf_initial_grant = starting_grant w, cf_offer_settles_after = 172800,
     cf_smallest_unit = ''Amounts are stored as integer minor units; decimal precision is the household display scale'',
     cf_usd_decimals = 2, cf_maximum_amount_minor = 1000000000000000, cf_lending_enabled = True,
     cf_lending_policy = ''Cash-funded demo lending'', cf_rate_basis_points_per_percent = 100,
     cf_savings_lotto_holding_seconds = 2592000,
     cf_terms_policy = ''Loan and lotto terms are set per agreement. Demo data lives only in this browser tab.''\<rparr>"

definition authorize :: "chance \<Rightarrow> string \<Rightarrow> handler" where
  "authorize rnd name st = (case user_by_name (be_ledger st) name of
     None \<Rightarrow> fail (DemoError 401 ''invalid_credentials'' ''No such member in this household.'') st
   | Some u \<Rightarrow> if u_status u \<noteq> UserActive then fail (DemoError 403 ''disabled'' ''That account is disabled.'') st
       else let code = ''code-'' @ ch_code rnd in
         Some (Inr (ACode code), st\<lparr>be_codes := AList.update code (u_id u) (be_codes st)\<rparr>))"

definition exchange :: "chance \<Rightarrow> string option \<Rightarrow> handler" where
  "exchange rnd code st =
     (case (case code of None \<Rightarrow> None | Some c \<Rightarrow> map_of (be_codes st) c) of
        None \<Rightarrow> fail (DemoError 400 ''invalid_grant'' ''That login has expired.'') st
      | Some i \<Rightarrow>
          let token = ''demo-'' @ ch_code rnd;
              st' = st\<lparr>be_codes := AList.delete (the code) (be_codes st),
                       be_sessions := AList.update token i (be_sessions st)\<rparr>
          in (case user_by_id (be_ledger st) i of
                None \<Rightarrow> fail TypeError st'
              | Some u \<Rightarrow> answer (\<lambda>w. AToken token (view w u (Some u))) st'))"

definition logout :: "request \<Rightarrow> handler" where
  "logout rq st = Some (Inr ANothing, (case bearer rq of
     None \<Rightarrow> st | Some t \<Rightarrow> st\<lparr>be_sessions := AList.delete t (be_sessions st)\<rparr>))"

definition open_routes :: "chance \<Rightarrow> request \<Rightarrow> (bool \<times> handler) list" where
  "open_routes rnd rq = (let path = rq_path rq; m = rq_method rq; b = rq_body rq in
    [(m = POST \<and> is_screen path,
        fail (DemoError 501 ''unavailable'' ''Kitchen screen delivery requires the Rust NanaCoin server.'')),
     (path = ''/status'', answer (\<lambda>w. AStatus (status w))),
     (path = ''/configuration'' \<and> m = GET, answer (\<lambda>w. AConfiguration (configuration_of w))),
     (path = ''/public/ledger'' \<and> m = GET, answer (\<lambda>w. case ledger_view w 100 of (ts, c) \<Rightarrow> APublicLedger ts c)),
     (path = ''/transport'' \<and> m = GET, answer (\<lambda>_. ATransport False False)),
     (path = ''/provision'' \<and> m = POST, with_text b ''username'' (\<lambda>name.
        act_on AUser (provision name (text_or [] b ''display_name'') (text_or [] b ''password'')
          (text_or [] b ''household_name'')))),
     (path = ''/auth/authorize'' \<and> m = POST, with_text b ''username'' (authorize rnd)),
     (path = ''/auth/token'' \<and> m = POST, exchange rnd (text_field b ''code'')),
     (path = ''/auth/logout'' \<and> m = POST, logout rq)])"

section \<open>Commerce, lotteries, loans, reform, vouchers\<close>

definition commerce_act :: "user \<Rightarrow> body \<Rightarrow> handler" where
  "commerce_act me b st = (case b of
     Command a \<Rightarrow> (case command commerce_host me a (be_ledger st) of
         (Inr n, w) \<Rightarrow> Some (Inr (ASequence n), st\<lparr>be_ledger := w\<rparr>)
       | (Inl e, w) \<Rightarrow> Some (Inl (case e of DemoError s c t \<Rightarrow> DemoError s c t
             | _ \<Rightarrow> DemoError 400 ''invalid_input'' (exn_message e)), st\<lparr>be_ledger := w\<rparr>))
   | _ \<Rightarrow> fail (DemoError 400 ''invalid_input'' ''Choose one commerce command.'') st)"

definition resolve :: "chance \<Rightarrow> user \<Rightarrow> int \<Rightarrow> handler" where
  "resolve rnd me t st = (case lotto_resolve_now lotto_host me t (ch_draw rnd) (be_ledger st) of
     None \<Rightarrow> None
   | Some (Inl e, w) \<Rightarrow> Some (Inl e, st\<lparr>be_ledger := w\<rparr>)
   | Some (Inr n, w) \<Rightarrow> Some (Inr (AResolved n), st\<lparr>be_ledger := w\<rparr>))"

definition lottos_of :: "user \<Rightarrow> handler" where
  "lottos_of u = answer (\<lambda>w. ALottos (lotto_book u (lotto_draws w)) (decimals w) (money_epoch w))"

definition with_member :: "request \<Rightarrow> user \<Rightarrow> (user \<Rightarrow> handler) \<Rightarrow> handler" where
  "with_member rq me k = (case query_get rq ''member'' of None \<Rightarrow> k me | Some i \<Rightarrow> subject i k)"

definition create_draw :: "user \<Rightarrow> lotto_terms \<Rightarrow> int \<Rightarrow> (ledger, lotto) act" where
  "create_draw me terms t w = (case lotto_create me terms t (lotto_draws w) of
     (r, ds) \<Rightarrow> (r, w\<lparr>lotto_draws := ds\<rparr>))"

definition with_lotto_terms :: "body \<Rightarrow> (lotto_terms \<Rightarrow> handler) \<Rightarrow> handler" where
  "with_lotto_terms b k = (case b of LottoTerms t \<Rightarrow> k t | _ \<Rightarrow> fail TypeError)"

definition with_loan_terms :: "body \<Rightarrow> (loan_offer_input \<Rightarrow> handler) \<Rightarrow> handler" where
  "with_loan_terms b k = (case b of LoanTerms t \<Rightarrow> k t | _ \<Rightarrow> fail TypeError)"

definition loans_at :: "user \<Rightarrow> int \<Rightarrow> ledger \<Rightarrow> loan_book res" where
  "loans_at me t w = loan_book lending_host me (decimals w) (money_epoch w) (revision w) t w"

definition member_loans :: "user \<Rightarrow> string \<Rightarrow> handler" where
  "member_loans me i = timed (\<lambda>t st. case loans_at me t (be_ledger st) of
     Inl e \<Rightarrow> fail e st
   | Inr b \<Rightarrow> subject i (\<lambda>u. timed (\<lambda>t'. answer (\<lambda>w.
       ALoanBook (b\<lparr>lb_loans := member_book lending_host me u t' w\<rparr>)))) st)"

definition loan_route :: "user \<Rightarrow> body \<Rightarrow> string \<Rightarrow> (bool \<times> handler) list" where
  "loan_route me b path = (let i = id_segment path; verb = segment path 3; on = starts_with ''/loans/'' path in
    [(on \<and> verb = ''offer'', with_loan_terms b (\<lambda>x. timed (\<lambda>t. act_on ALoan (loan_offer lending_host me x t False (Some i))))),
     (on \<and> verb = ''accept'', timed (\<lambda>t. act_on ALoan (loan_accept lending_host me i t))),
     (on \<and> verb = ''close'', timed (\<lambda>t. act_on ALoan (loan_close lending_host me i t))),
     (on \<and> verb = ''repay'', timed (\<lambda>t. act_on ALoan (loan_repay lending_host me i (num_field b ''amount'') t)))])"

definition finance_routes :: "chance \<Rightarrow> request \<Rightarrow> user \<Rightarrow> (bool \<times> handler) list" where
  "finance_routes rnd rq me = (let path = rq_path rq; m = rq_method rq; b = rq_body rq; member = query_get rq ''member'' in
    [(path = ''/commerce'' \<and> m = GET, answer (\<lambda>w. ACommerce (commerce_book w))),
     (path = ''/commerce/commands'' \<and> m = POST, commerce_act me b),
     (framed ''/transactions/'' ''/refund'' path \<and> m = POST, act_on ATransaction
        (refund me (slice_between ''/transactions/'' ''/refund'' path) (num_field b ''amount'') (text_or [] b ''reason''))),
     (path = ''/demo/lottos/resolve'' \<and> m = POST,
        if u_role me \<noteq> Nana \<or> u_status me \<noteq> UserActive
        then fail (DemoError 403 ''forbidden'' ''Only Nana can resolve demo lottos.'') else timed (resolve rnd me)),
     (path = ''/lottos'' \<and> m = GET, with_member rq me lottos_of),
     (path = ''/lottos'' \<and> m = POST, with_lotto_terms b (\<lambda>x. timed (\<lambda>t. act_on ALotto (create_draw me x t)))),
     (is_tickets path \<and> m = POST, timed (\<lambda>t. act_on ALotto
        (lotto_buy lotto_host me (id_segment path) (num_field b ''count'') t))),
     (path = ''/loans'' \<and> m = GET \<and> member \<noteq> None, member_loans me (the member)),
     (path = ''/loans'' \<and> m = GET, timed (\<lambda>t. answer_res ALoanBook (loans_at me t))),
     (path = ''/loans'' \<and> m = POST, with_loan_terms b (\<lambda>x. timed (\<lambda>t.
        act_on ALoan (loan_offer lending_host me x t False None)))),
     (path = ''/loans/request'' \<and> m = POST, with_loan_terms b (\<lambda>x. timed (\<lambda>t.
        act_on ALoan (loan_offer lending_host me x t True None))))]
    @ (if m = POST then loan_route me b path else [])
    @ [(path = ''/admin/reform'' \<and> m = POST, case b of ReformBody i \<Rightarrow> act_on AReform (reform me i) | _ \<Rightarrow> fail TypeError),
     (path = ''/nickles'' \<and> m = POST, act_on (\<lambda>(token, amount, serial). ANickle token amount serial)
        (create_nickle me (num_field b ''amount'') (field b ''fresh_money'' = Some (JBool True)) (ch_bytes rnd))),
     (path = ''/nickles/redeem'' \<and> m = POST, act_on ATransaction (redeem_nickle me (text_or [] b ''token'')))])"

section \<open>Members and their keys\<close>

definition key_name :: "string \<Rightarrow> string \<Rightarrow> string" where
  "key_name i scope = i @ '':'' @ scope"

definition key_state :: "backend \<Rightarrow> string \<Rightarrow> string \<Rightarrow> key_state" where
  "key_state st i scope = (let t = map_of (be_api_keys st) (key_name i scope) in
     \<lparr>ks_active = (t \<noteq> None), ks_created_at = t\<rparr>)"

definition key_status :: "string \<Rightarrow> handler" where
  "key_status i st = Some (Inr (AKeyStatus (key_state st i ''full'') (key_state st i ''read'')), st)"

definition mint_key :: "chance \<Rightarrow> string \<Rightarrow> string \<Rightarrow> handler" where
  "mint_key rnd i scope = timed (\<lambda>t st. Some (Inr (AKey (''nc_'' @ base64url (ch_bytes rnd)) t scope),
     st\<lparr>be_api_keys := AList.update (key_name i scope) t (be_api_keys st)\<rparr>))"

definition drop_key :: "string \<Rightarrow> string \<Rightarrow> handler" where
  "drop_key i scope st = (let st' = st\<lparr>be_api_keys := AList.delete (key_name i scope) (be_api_keys st)\<rparr> in
     key_status i st')"

definition own_key :: "chance \<Rightarrow> request \<Rightarrow> user \<Rightarrow> handler" where
  "own_key rnd rq me = (let m = rq_method rq; b = rq_body rq;
     scope = (if m = POST then if text_field b ''scope'' = Some ''read'' then ''read'' else ''full''
              else case query_get rq ''scope'' of Some s \<Rightarrow> s | None \<Rightarrow> ''full'') in
     if m = POST then
       if text_or [] b ''password'' = [] then fail (DemoError 400 ''invalid_input'' ''Enter your password.'')
       else mint_key rnd (u_id me) scope
     else if m = DELETE then drop_key (u_id me) scope else key_status (u_id me))"

definition bot_key :: "chance \<Rightarrow> request \<Rightarrow> user \<Rightarrow> handler" where
  "bot_key rnd rq me st = (let i = segment (rq_path rq) 2; m = rq_method rq in
     if u_role me \<noteq> Nana then fail (DemoError 403 ''forbidden'' ''Only Nana can make a bot's key.'') st
     else if i \<notin> set (be_bots st) then fail (DemoError 403 ''forbidden'' ''Only a bot member's key is made for it.'') st
     else if m = POST then mint_key rnd i ''full'' st
     else if m = DELETE then drop_key i ''full'' st else key_status i st)"

definition is_bot :: "backend \<Rightarrow> user_view \<Rightarrow> bool" where
  "is_bot st v \<longleftrightarrow> uv_id v \<in> set (be_bots st)"

definition finish_member :: "user \<Rightarrow> user \<Rightarrow> handler" where
  "finish_member me u st = Some (Inr (let v = view (be_ledger st) u (Some me) in AMember v (is_bot st v)), st)"

definition grant_member :: "request \<Rightarrow> user \<Rightarrow> user \<Rightarrow> handler" where
  "grant_member rq me u st =
     (if truthy_json (field (rq_body rq) ''grant'')
      then (case issue me (u_account u) (starting_grant (be_ledger st)) ''Starting allocation'' (be_ledger st) of
          (Inl e, w) \<Rightarrow> Some (Inl e, st\<lparr>be_ledger := w\<rparr>)
        | (Inr _, w) \<Rightarrow> finish_member me u (st\<lparr>be_ledger := w\<rparr>))
      else finish_member me u st)"

definition add_member :: "request \<Rightarrow> user \<Rightarrow> string \<Rightarrow> handler" where
  "add_member rq me name st = (let b = rq_body rq; pass = text_or [] b ''password'' in
     case add_user name (text_or [] b ''display_name'') (if pass = [] then ''demo'' else pass) Member (be_ledger st) of
       (Inl e, w) \<Rightarrow> Some (Inl e, st\<lparr>be_ledger := w\<rparr>)
     | (Inr u, w) \<Rightarrow>
         let st1 = st\<lparr>be_ledger := w\<rparr>;
             st2 = (if text_field b ''kind'' = Some ''bot''
                    then st1\<lparr>be_bots := List.insert (u_id u) (be_bots st1)\<rparr> else st1)
         in grant_member rq me u st2)"

definition create_member :: "request \<Rightarrow> user \<Rightarrow> handler" where
  "create_member rq me =
     (if u_role me \<noteq> Nana then fail (DemoError 403 ''forbidden'' ''Only Nana can add members.'')
      else with_text (rq_body rq) ''username'' (add_member rq me))"

definition patch_member :: "request \<Rightarrow> user \<Rightarrow> handler" where
  "patch_member rq me = (let b = rq_body rq; i = last_segment (rq_path rq) in
     case text_field b ''bio'' of
       Some s \<Rightarrow> act_on AUser (set_user_bio me i s)
     | None \<Rightarrow> (case text_field b ''password'' of
         Some s \<Rightarrow> act_on AUser (set_user_password me i s)
       | None \<Rightarrow> with_choice statuses b ''status'' (\<lambda>s. act_on AUser (set_user_status me i s))))"

definition member_routes :: "chance \<Rightarrow> request \<Rightarrow> user \<Rightarrow> (bool \<times> handler) list" where
  "member_routes rnd rq me = (let path = rq_path rq; m = rq_method rq in
    [(path = ''/me'', \<lambda>st. Some (Inr (let v = view (be_ledger st) me (Some me) in AMember v (is_bot st v)), st)),
     (path = ''/me/api-key'', own_key rnd rq me),
     (framed ''/users/'' ''/api-key'' path, bot_key rnd rq me),
     (path = ''/users'' \<and> m = GET, \<lambda>st. Some (Inr (AMembers (map (\<lambda>v. (v, is_bot st v))
        (all_users (be_ledger st) (Some me)))), st)),
     (path = ''/users'' \<and> m = POST, create_member rq me),
     (starts_with ''/users/'' path \<and> m = PATCH, patch_member rq me)])"

section \<open>Money\<close>

text \<open>
  Any member may read another member's movements; messages stay with their two parties.
\<close>

definition readable :: "user \<Rightarrow> history_page \<Rightarrow> history_page" where
  "readable me p = p\<lparr>hp_transactions := filter (\<lambda>t. t_kind t \<noteq> Message
     \<or> list_ex (\<lambda>q. p_account q = u_account me) (t_postings t)) (hp_transactions p)\<rparr>"

definition three :: "nat list option \<Rightarrow> (nat \<times> nat \<times> nat) option" where
  "three c = map_option (\<lambda>ns. (ns ! 0, ns ! 1, ns ! 2)) c"

definition four :: "nat list option \<Rightarrow> (nat \<times> nat \<times> nat \<times> nat) option" where
  "four c = map_option (\<lambda>ns. (ns ! 0, ns ! 1, ns ! 2, ns ! 3)) c"

definition account_history :: "request \<Rightarrow> user \<Rightarrow> string \<Rightarrow> handler" where
  "account_history rq me account = with_cursor rq 3 (\<lambda>c. answer_res (\<lambda>p. AHistory (readable me p))
     (\<lambda>w. history w account (limit_of rq 50) (three c)))"

definition all_movements :: "request \<Rightarrow> handler" where
  "all_movements rq = with_cursor rq 4 (\<lambda>c. answer_res APage (\<lambda>w. ledger_page w (limit_of rq 100) (four c)))"

definition economic_of :: "body \<Rightarrow> economic option res" where
  "economic_of b = (if \<not> truthy_json (field b ''economic_kind'') then Inr None
     else case (chosen economic_kinds b ''economic_kind'', chosen economic_units b ''unit'') of
       (Some k, Some u) \<Rightarrow> Inr (Some \<lparr>ec_kind = k, ec_thing = text_field b ''thing'',
          ec_quantity = quantity_milli (field b ''quantity''), ec_unit = u\<rparr>)
     | _ \<Rightarrow> Inl TypeError)"

definition transfer_route :: "user \<Rightarrow> body \<Rightarrow> handler" where
  "transfer_route me b = (case economic_of b of Inl e \<Rightarrow> fail e
     | Inr e \<Rightarrow> act_on ATransaction (transfer me (text_or [] b ''to'') (num_field b ''amount'') (text_or [] b ''memo'') e))"

definition money_routes :: "request \<Rightarrow> user \<Rightarrow> (bool \<times> handler) list" where
  "money_routes rq me = (let path = rq_path rq; m = rq_method rq; b = rq_body rq; x = num_field b ''amount'';
      inside = (\<lambda>p q. slice_between p q path); reason = text_or [] b ''reason'' in
    [(framed_rest ''/accounts/'' ''/transactions'' path,
        account_history rq me (inside ''/accounts/'' ''/transactions'')),
     (path = ''/fulfillments'' \<and> m = GET, answer_res AFulfillments (fulfillments me)),
     (framed ''/transactions/'' ''/fulfillment'' path \<and> m = POST,
        with_choice fulfillment_actions b ''action'' (\<lambda>a. act_on AFulfillment
          (set_fulfillment me (inside ''/transactions/'' ''/fulfillment'') a reason))),
     (path = ''/transactions'' \<and> m = GET, all_movements rq),
     (framed ''/transactions/'' ''/reverse'' path \<and> m = POST, with_text b ''reason'' (\<lambda>r.
        act_on ATransaction (reverse_txn me (inside ''/transactions/'' ''/reverse'') r))),
     (path = ''/transfers'' \<and> m = POST, transfer_route me b),
     (path = ''/admin/issue'' \<and> m = POST, act_on ATransaction (issue me (text_or [] b ''to'') x reason)),
     (path = ''/admin/retire'' \<and> m = POST, act_on ATransaction (retire me (text_or [] b ''from'') x reason)),
     (path = ''/admin/issue-usd'' \<and> m = POST, act_on ATransaction
        (issue_usd me (text_or [] b ''to'') (num_field b ''cents'') reason)),
     (path = ''/quotes'' \<and> m = GET, answer (\<lambda>w. AQuotes (all_quotes w))),
     (path = ''/quotes'' \<and> m = POST, with_choice quote_sides b ''side'' (\<lambda>s. act_on AQuote
        (post_quote me s (num_field b ''cents_per_coin'') (num_field b ''coins'')))),
     (framed ''/quotes/'' ''/take'' path \<and> m = POST, act_on ATrade (take_quote me (inside ''/quotes/'' ''/take''))),
     (framed ''/quotes/'' ''/cancel'' path \<and> m = POST, act_on AQuote (cancel_quote me (inside ''/quotes/'' ''/cancel''))),
     (path = ''/admin/config'', answer (\<lambda>w. AConfig (household w) (starting_grant w) ''NanaCoin''))])"

section \<open>The market\<close>

definition listing_of :: "body \<Rightarrow> listing_input option" where
  "listing_of b =
     (let pick = (\<lambda>k. if field b k = None then True else text_field b k \<noteq> None);
          maybe = (\<lambda>k. text_field b k) in
      if text_field b ''title'' = None \<or> \<not> pick ''kind'' \<or> \<not> pick ''currency'' \<or> \<not> pick ''thing''
         \<or> (field b ''side'' \<noteq> None \<and> chosen listing_sides b ''side'' = None)
         \<or> (field b ''economic_kind'' \<noteq> None \<and> chosen economic_kinds b ''economic_kind'' = None)
         \<or> (field b ''unit'' \<noteq> None \<and> chosen economic_units b ''unit'' = None)
      then None
      else Some \<lparr>li_title = text_or [] b ''title'', li_description = text_or [] b ''description'',
        li_price = num_field b ''price'', li_side = chosen listing_sides b ''side'',
        li_kind = maybe ''kind'', li_currency = maybe ''currency'',
        li_minor_units = (if truthy_json (field b ''minor_units'') then Some (num_field b ''minor_units'') else None),
        li_economic_kind = chosen economic_kinds b ''economic_kind'', li_thing = maybe ''thing'',
        li_quantity_milli = (if truthy_json (field b ''quantity'') then Some (quantity_milli (field b ''quantity'')) else None),
        li_unit = chosen economic_units b ''unit'', li_standard = Some (truthy_json (field b ''standard''))\<rparr>)"

definition listing_routes :: "request \<Rightarrow> user \<Rightarrow> (bool \<times> handler) list" where
  "listing_routes rq me = (let path = rq_path rq; m = rq_method rq; b = rq_body rq; on = starts_with ''/listings/'' path;
      inside = (\<lambda>q. slice_between ''/listings/'' q path) in
    [(path = ''/listings'' \<and> m = GET, answer (\<lambda>w. AListings (all_listings None w))),
     (path = ''/things'' \<and> m = GET, answer (\<lambda>w. AThings (all_things w))),
     (path = ''/listings'' \<and> m = POST, case listing_of b of None \<Rightarrow> fail TypeError
        | Some i \<Rightarrow> act_on AListing (create_listing me i)),
     (framed_rest ''/listings/'' ''/purchase'' path \<and> m = POST,
        act_on (\<lambda>(l, t). APurchase l t) (purchase me (inside ''/purchase''))),
     (framed_rest ''/listings/'' ''/cancel'' path \<and> m = POST, act_on AListing (cancel_listing me (inside ''/cancel''))),
     (framed_rest ''/listings/'' ''/offers'' path \<and> m = POST, act_on AOffer
        (make_offer me (inside ''/offers'') (num_field b ''amount'') (text_or [] b ''message''))),
     (framed_rest ''/listings/'' ''/offers'' path, answer (\<lambda>w. AOffers
        (filter (\<lambda>x. o_listing x = inside ''/offers'') (offers_for me w)))),
     (on \<and> m = GET, answer_res AListing (\<lambda>w. listing_by_id w (inside [])))])"

definition offer_routes :: "request \<Rightarrow> user \<Rightarrow> (bool \<times> handler) list" where
  "offer_routes rq me = (let path = rq_path rq; m = rq_method rq; inside = (\<lambda>q. slice_between ''/offers/'' q path) in
    [(path = ''/offers'' \<and> m = GET \<and> query_get rq ''member'' \<noteq> None,
        answer_res AOffers (outstanding_offers me (the (query_get rq ''member'')))),
     (path = ''/offers'' \<and> m = GET, answer (\<lambda>w. AOffers (offers_for me w))),
     (framed_rest ''/offers/'' ''/accept'' path \<and> m = POST,
        act_on (\<lambda>(x, t, l). AOfferResult x t l) (accept_offer me (inside ''/accept''))),
     (framed_rest ''/offers/'' ''/decline'' path \<and> m = POST, act_on AOffer (decline_offer me (inside ''/decline''))),
     (framed_rest ''/offers/'' ''/withdraw'' path \<and> m = POST, act_on AOffer (withdraw_offer me (inside ''/withdraw''))),
     (path = ''/logs'' \<or> path = ''/diag'', fail (DemoError 404 ''not_found'' ''This NanaCoin serves no logs.''))])"

definition no_route :: "request \<Rightarrow> exn" where
  "no_route rq = DemoError 404 ''not_found''
     (''No route for '' @ show_method (rq_method rq) @ '' '' @ rq_path rq @ ''.'')"

definition handle :: "chance \<Rightarrow> request \<Rightarrow> handler" where
  "handle rnd rq = route (open_routes rnd rq) (current rq (\<lambda>me.
     route (finance_routes rnd rq me @ member_routes rnd rq me @ money_routes rq me
            @ listing_routes rq me @ offer_routes rq me)
       (fail (no_route rq))))"

section \<open>The interceptor\<close>

datatype reply = Reply answer | Refused nat string string

definition js_string :: "exn \<Rightarrow> string" where
  "js_string e = (case e of PlainError m \<Rightarrow> ''Error: '' @ m | _ \<Rightarrow> exn_message e)"

definition refusal :: "exn \<Rightarrow> reply" where
  "refusal e = (case e of DemoError s c m \<Rightarrow> Refused s c m | _ \<Rightarrow> Refused 500 ''demo_error'' (js_string e))"

definition is_preview :: "body \<Rightarrow> bool" where
  "is_preview b = (case b of ReformBody i \<Rightarrow> ri_preview i | _ \<Rightarrow> truthy_json (field b ''preview''))"

definition is_mutation :: "request \<Rightarrow> backend \<Rightarrow> bool" where
  "is_mutation rq st \<longleftrightarrow> rq_method rq \<noteq> GET \<and> session_of rq st \<notin> {None, Some []}
     \<and> \<not> starts_with ''/auth/'' (rq_path rq) \<and> \<not> (rq_path rq = ''/admin/reform'' \<and> is_preview (rq_body rq))"

definition identity :: "request \<Rightarrow> backend \<Rightarrow> string" where
  "identity rq st = (case (session_of rq st, rq_key rq) of
     (Some i, Some k) \<Rightarrow> if is_mutation rq st \<and> k \<noteq> [] then i @ '':'' @ k else []
   | _ \<Rightarrow> [])"

definition fingerprint_of :: "request \<Rightarrow> fingerprint" where
  "fingerprint_of rq = (rq_method rq, rq_url rq, rq_body rq)"

text \<open>\<open>Number(key?.split(':')[1]?.slice(1))\<close>.\<close>

definition key_epoch :: "request \<Rightarrow> num option" where
  "key_epoch rq = (case rq_key rq of None \<Rightarrow> None
     | Some k \<Rightarrow> (case split_char (CHR '':'') k of _ # s # _ \<Rightarrow> js_number (drop 1 s) | _ \<Rightarrow> None))"

definition remember :: "string \<Rightarrow> fingerprint \<Rightarrow> answer \<Rightarrow> backend \<Rightarrow> backend" where
  "remember i f a st = (let rs = (if length (be_receipts st) = 4096 then tl (be_receipts st) else be_receipts st) in
     st\<lparr>be_receipts := AList.update i (f, a) rs\<rparr>)"

definition bump :: "backend \<Rightarrow> backend" where
  "bump st = st\<lparr>be_ledger := (be_ledger st)\<lparr>revision := Suc (revision (be_ledger st))\<rparr>\<rparr>"

definition KEY_REUSED :: exn where
  "KEY_REUSED = DemoError 409 ''conflict'' ''This retry key belongs to another request.''"

definition KEY_STALE :: exn where
  "KEY_STALE = DemoError 409 ''stale_request'' ''The currency changed. Reload and review the amount.''"

definition serve_checked :: "chance \<Rightarrow> request \<Rightarrow> backend \<Rightarrow> (reply \<times> backend) option" where
  "serve_checked rnd rq st =
     (let i = identity rq st; prior = (if i = [] then None else map_of (be_receipts st) i) in
      case prior of
        Some (f, a) \<Rightarrow> Some (if f \<noteq> fingerprint_of rq
            then refusal KEY_REUSED else Reply a, st)
      | None \<Rightarrow>
        if is_mutation rq st \<and> key_epoch rq \<noteq> Some (of_nat (money_epoch (be_ledger st)))
        then Some (refusal KEY_STALE, st)
        else (case handle rnd rq st of
            None \<Rightarrow> None
          | Some (Inl e, st') \<Rightarrow> Some (refusal e, st')
          | Some (Inr a, st') \<Rightarrow>
              let st1 = (if is_mutation rq st then bump st' else st') in
              Some (Reply a, if i = [] then st1 else remember i (fingerprint_of rq) a st1)))"

text \<open>
  \<open>demoBackend\<close>. \<open>None\<close> when the request is not for the API (it goes on to the network) or a lottery
  is still drawing.
\<close>

definition is_api :: "request \<Rightarrow> bool" where
  "is_api rq \<longleftrightarrow> after_first ''/api/v1'' (rq_url rq) \<noteq> None"

definition serve ::
  "(ledger \<Rightarrow> ledger) \<Rightarrow> chance \<Rightarrow> request \<Rightarrow> backend \<Rightarrow> (reply \<times> backend) option" where
  "serve seeding rnd rq st =
     (if \<not> is_api rq then None
      else let st0 = (if be_seeded st then st else st\<lparr>be_ledger := seeding (be_ledger st), be_seeded := True\<rparr>) in
        case tick_loans (ch_tick rnd) (be_ledger st0) of
          None \<Rightarrow> None
        | Some (Inl e, w) \<Rightarrow> Some (refusal e, st0\<lparr>be_ledger := w\<rparr>)
        | Some (Inr _, w) \<Rightarrow> serve_checked rnd rq (st0\<lparr>be_ledger := w\<rparr>))"

end
