(* ===== verification/ClientLedger.thy ===== *)
theory ClientLedger
  imports ClientCalls DemoRoutes
begin

text \<open>
  The client's journal reader against the demo's server: as long as the ledger stands still, following
  the cursors ends and gives the newest movements, each exactly once and in order. The pages are those
  of \<open>ledger_page\<close>; the cursor is its text on the wire, read back as the server reads it.
\<close>

section \<open>The server's pages on the wire\<close>

definition cursor_text :: "nat \<times> nat \<times> nat \<times> nat \<Rightarrow> string" where
  "cursor_text c = (case c of (e, u, n, p) \<Rightarrow>
     show_nat e @ '':'' @ show_nat u @ '':'' @ show_nat n @ '':'' @ show_nat p)"

definition wire_of :: "ledger_page \<Rightarrow> wire_page" where
  "wire_of p = \<lparr>wp_transactions = lp_transactions p, wp_next = map_option cursor_text (lp_next p),
     wp_upper = lp_upper p, wp_truncated = False\<rparr>"

definition read_cursor :: "string option \<Rightarrow> (nat \<times> nat \<times> nat \<times> nat) option res" where
  "read_cursor c = (case c of None \<Rightarrow> Inr None
     | Some s \<Rightarrow> if s = [] then Inr None
         else let ns = map cursor_number (split_char (CHR '':'') s) in
           if length ns < 4 \<or> None \<in> set (take 4 ns) then Inl STALE else Inr (four (Some (map the (take 4 ns)))))"

definition demo_page :: "ledger \<Rightarrow> nat \<Rightarrow> string option \<Rightarrow> wire_page res" where
  "demo_page w limit cursor = (case read_cursor cursor of Inl e \<Rightarrow> Inl e
     | Inr c \<Rightarrow> (case ledger_page w (Some limit) c of Inl e \<Rightarrow> Inl e | Inr p \<Rightarrow> Inr (wire_of p)))"

lemma colon_not_digit: "CHR '':'' \<notin> set (show_nat n)"
  using show_nat_digits [of n] by (auto simp: is_digit_def)

lemma cursor_text_nonempty [simp]: "cursor_text c \<noteq> []"
  by (cases c) (simp add: cursor_text_def)

lemma split_cursor: "split_char (CHR '':'') (cursor_text (e, u, n, p)) = [show_nat e, show_nat u, show_nat n, show_nat p]"
proof -
  have s: "split_char (CHR '':'') (show_nat a @ CHR '':'' # t) = show_nat a # split_char (CHR '':'') t" for a t
    by (rule split_char_append [OF colon_not_digit])
  show ?thesis by (simp add: cursor_text_def s split_char_none [OF colon_not_digit])
qed

lemma is_cursor_text [simp]: "is_cursor (cursor_text c)"
  using show_nat_digits by (cases c) (auto simp: is_cursor_def split_cursor list_all_iff)

lemma show_nat_trim: "trim (show_nat n) = show_nat n"
proof (rule trim_id)
  have d: "\<forall>c \<in> set (show_nat n). is_digit c" by (rule show_nat_digits)
  show "\<not> is_space (hd (show_nat n))" using d by (intro digit_not_space) simp
  show "\<not> is_space (last (show_nat n))" using d by (intro digit_not_space) simp
qed simp

lemma radix_of_digits: "list_all is_digit s \<Longrightarrow> radix_literal s = None"
proof -
  assume d: "list_all is_digit s"
  have "to_lower (take 2 s) \<noteq> [CHR ''0'', c]" if "\<not> is_digit c" "\<not> is_digit (CHR ''0'') \<or> True" for c
  proof
    assume e: "to_lower (take 2 s) = [CHR ''0'', c]"
    then obtain a b r where s: "s = a # b # r"
      by (cases s; cases "tl s") (auto simp: to_lower_def)
    with d have "is_digit b" by simp
    then have "lower_char b = b" by (auto simp: lower_char_def is_digit_def Let_def)
    with e s \<open>is_digit b\<close> that show False by (simp add: to_lower_def)
  qed
  from this [of "CHR ''x''"] this [of "CHR ''o''"] this [of "CHR ''b''"] show ?thesis
    by (simp add: radix_literal_def is_digit_def)
qed

lemma js_number_show:
  assumes "int n \<le> 9007199254740991"
  shows "js_number (show_nat n) = Some (of_nat n)"
proof -
  have d: "\<forall>c \<in> set (show_nat n). is_digit c" by (rule show_nat_digits)
  then have la: "list_all is_digit (show_nat n)" by (simp add: list_all_iff)
  obtain c cs where s: "show_nat n = c # cs" by (cases "show_nat n") auto
  have "is_digit c" using d by (simp add: s)
  then have sg: "take_sign (show_nat n) = (1, show_nat n)" by (auto simp: take_sign_def s is_digit_def)
  have tw: "takeWhile is_digit (show_nat n) = show_nat n" "dropWhile is_digit (show_nat n) = []"
    using d by (simp_all add: takeWhile_eq_all_conv dropWhile_eq_Nil_conv)
  have "fl (of_nat n) = of_nat n"
    using fl_of_int [of "int n"] assms by simp
  then have "decimal_literal (show_nat n) = Some (of_nat n)"
    by (simp add: decimal_literal_def sg Let_def tw exponent_part_def)
  then show ?thesis by (simp add: js_number_def show_nat_trim radix_of_digits [OF la] Let_def)
qed

lemma cursor_number_show: "int n \<le> 9007199254740991 \<Longrightarrow> cursor_number (show_nat n) = Some n"
proof -
  assume n: "int n \<le> 9007199254740991"
  then have "(of_int (int n) :: rat) \<le> of_int 9007199254740991" by (simp only: of_int_le_iff)
  then have "is_safe (of_nat n)" using is_integer_of_int [of "int n"] by (simp add: is_safe_def max_safe_def)
  then show ?thesis by (simp add: cursor_number_def js_number_show [OF n])
qed

lemma read_cursor_text:
  assumes "int e \<le> 9007199254740991" "int u \<le> 9007199254740991" "int n \<le> 9007199254740991" "int p \<le> 9007199254740991"
  shows "read_cursor (Some (cursor_text (e, u, n, p))) = Inr (Some (e, u, n, p))"
proof -
  have "cursor_text (e, u, n, p) \<noteq> []" by (simp add: cursor_text_def)
  then show ?thesis using assms
    by (simp add: read_cursor_def split_cursor cursor_number_show four_def Let_def)
qed

lemma cursor_text_inject: "cursor_text c = cursor_text c' \<longleftrightarrow> c = c'"
proof
  assume "cursor_text c = cursor_text c'"
  then have "split_char (CHR '':'') (cursor_text c) = split_char (CHR '':'') (cursor_text c')" by simp
  then show "c = c'" by (cases c; cases c') (simp add: split_cursor)
qed simp

section \<open>One page\<close>

definition movements :: "ledger \<Rightarrow> transaction list" where
  "movements w = rev (filter (\<lambda>t. t_kind t \<noteq> Message) (transactions w))"

definition small_counters :: "ledger \<Rightarrow> bool" where
  "small_counters w \<longleftrightarrow> int (next_txn w) \<le> 9007199254740991 \<and> int (money_epoch w) \<le> 9007199254740991"

text \<open>The bound a cursor carries after \<open>k\<close> rows.\<close>

definition bound_at :: "ledger \<Rightarrow> nat \<Rightarrow> nat" where
  "bound_at w k = (if k = 0 then next_txn w else ordinal (movements w ! (k - 1)))"

text \<open>Where the loop stands after \<open>k\<close> rows and \<open>p\<close> cursors.\<close>

definition at_row :: "ledger \<Rightarrow> nat \<Rightarrow> nat \<Rightarrow> reading \<Rightarrow> bool" where
  "at_row w k p r \<longleftrightarrow> k \<le> length (movements w) \<and> k \<le> rd_wanted r \<and> (k < length (movements w) \<longrightarrow> p \<le> k)
     \<and> rd_rows r = take k (named w (movements w)) \<and> wp_upper (rd_first r) = next_txn w - 1
     \<and> wp_next (rd_page r) = (if k < length (movements w)
         then Some (cursor_text (money_epoch w, next_txn w - 1, bound_at w k, p)) else None)
     \<and> \<not> wp_truncated (rd_first r) \<and> \<not> wp_truncated (rd_page r)
     \<and> (k < length (movements w) \<longrightarrow> (\<forall>c \<in> set (rd_seen r). \<exists>b q. bound_at w k < b
         \<and> c = cursor_text (money_epoch w, next_txn w - 1, b, q)))"

text \<open>A ledger that stands still while it is read, with counters that are exact as doubles.\<close>

locale still_ledger =
  fixes w :: ledger
  assumes w: "reachable w" and small: "small_counters w"
begin

lemma movements_descending: "sorted_wrt (>) (map ordinal (movements w))"
proof -
  have "sorted_wrt (<) (map ordinal (transactions w))" using reachable_ordinals [OF w] by blast
  then have "sorted_wrt (<) (map ordinal (filter P (transactions w)))" for P
    by (simp add: sorted_wrt_map sorted_wrt_filter)
  then show ?thesis by (simp add: movements_def rev_map [symmetric] sorted_wrt_rev)
qed

lemma movements_range: "t \<in> set (movements w) \<Longrightarrow> 1 \<le> ordinal t \<and> ordinal t < next_txn w"
  using reachable_ordinals [OF w] by (auto simp: movements_def)

lemma next_txn_pos: "1 \<le> next_txn w"
  using reachable_quotes [OF w] by (simp add: numbered_def)

lemma movements_less: "j < i \<Longrightarrow> i < length (movements w) \<Longrightarrow> ordinal (movements w ! i) < ordinal (movements w ! j)"
  using movements_descending by (simp add: sorted_wrt_iff_nth_less)

lemma movements_length: "length (movements w) < next_txn w"
proof -
  have d: "distinct (map ordinal (movements w))"
    unfolding distinct_conv_nth using movements_less by (auto simp: linorder_neq_iff)
  have "set (map ordinal (movements w)) \<subseteq> {1..<next_txn w}" using movements_range by auto
  then have "card (set (map ordinal (movements w))) \<le> card {1..<next_txn w}" by (intro card_mono) auto
  then show ?thesis using distinct_card [OF d] next_txn_pos by simp
qed

lemma ledger_rows_bound:
  assumes "k \<le> length (movements w)"
  shows "ledger_rows w (next_txn w - 1) (bound_at w k) = drop k (movements w)"
proof -
  let ?R = "movements w"
  have f: "ledger_rows w (next_txn w - 1) (bound_at w k) = filter (\<lambda>t. ordinal t < bound_at w k) ?R"
  proof -
    have "ordinal t \<le> next_txn w - 1" if "t \<in> set (transactions w)" for t
      using reachable_ordinals [OF w] that by auto
    then have "filter (\<lambda>t. t_kind t \<noteq> Message \<and> ordinal t \<le> next_txn w - 1 \<and> ordinal t < bound_at w k) (transactions w)
        = filter (\<lambda>t. ordinal t < bound_at w k) (filter (\<lambda>t. t_kind t \<noteq> Message) (transactions w))"
      unfolding filter_filter by (intro filter_cong) auto
    then show ?thesis by (simp add: ledger_rows_def movements_def rev_filter)
  qed
  have "filter (\<lambda>t. ordinal t < bound_at w k) ?R
      = filter (\<lambda>t. ordinal t < bound_at w k) (take k ?R) @ filter (\<lambda>t. ordinal t < bound_at w k) (drop k ?R)"
    by (metis append_take_drop_id filter_append)
  also have "filter (\<lambda>t. ordinal t < bound_at w k) (take k ?R) = []"
  proof -
    have "\<not> ordinal t < bound_at w k" if t: "t \<in> set (take k ?R)" for t
    proof -
      obtain i where i: "i < k" "i < length ?R" "t = ?R ! i" using t assms
        unfolding in_set_conv_nth by auto
      then have k: "k \<noteq> 0" "k - 1 < length ?R" "i = k - 1 \<or> i < k - 1" using assms by linarith+
      then show ?thesis using movements_less [of i "k - 1"] by (auto simp: bound_at_def i)
    qed
    then show ?thesis by (simp add: filter_empty_conv)
  qed
  also have "filter (\<lambda>t. ordinal t < bound_at w k) (drop k ?R) = drop k ?R"
  proof -
    have "ordinal t < bound_at w k" if t: "t \<in> set (drop k ?R)" for t
    proof -
      obtain j where j: "j < length ?R - k" "t = ?R ! (k + j)" using t by (auto simp: in_set_conv_nth)
      then have "k + j < length ?R" by linarith
      then have "ordinal t < next_txn w" "k \<noteq> 0 \<Longrightarrow> ordinal t < ordinal (?R ! (k - 1))"
        using movements_less [of "k - 1" "k + j"] movements_range [of t] j by auto
      then show ?thesis by (simp add: bound_at_def)
    qed
    then show ?thesis by (simp add: filter_id_conv)
  qed
  finally show ?thesis using f by simp
qed

lemma bound_pos: "k \<le> length (movements w) \<Longrightarrow> 1 \<le> bound_at w k \<and> bound_at w k \<le> next_txn w"
proof -
  assume k: "k \<le> length (movements w)"
  show ?thesis
  proof (cases "k = 0")
    case False
    then have "movements w ! (k - 1) \<in> set (movements w)" using k by simp
    from movements_range [OF this] False show ?thesis by (simp add: bound_at_def)
  qed (use next_txn_pos in \<open>simp add: bound_at_def\<close>)
qed

text \<open>The page after \<open>k\<close> rows.\<close>

lemma ledger_page_at:
  assumes "k \<le> length (movements w)" and "1 \<le> n" and "n \<le> 100"
  shows "\<exists>s c. ledger_page w (Some n) (Some (money_epoch w, next_txn w - 1, bound_at w k, p))
    = Inr \<lparr>lp_transactions = take n (drop k (named w (movements w))), lp_circulation = c, lp_upper = next_txn w - 1,
        lp_sequence = s, lp_next = (if k + n < length (movements w)
          then Some (money_epoch w, next_txn w - 1, bound_at w (k + n), p + 1) else None)\<rparr>"
proof -
  have ps: "page_size (Some n) = n" using assms by (simp add: page_size_def)
  have nm: "named w (take n (drop k (movements w))) = take n (drop k (named w (movements w)))"
    by (simp add: named_def take_map drop_map)
  have lt: "at_last (take n (drop k (movements w))) =
      (if k < length (movements w) then Some (movements w ! (k + min n (length (movements w) - k) - 1)) else None)"
    using assms(2) by (auto simp: at_last_def last_conv_nth min.commute)
  show ?thesis
    using assms bound_pos [OF assms(1)] next_txn_pos
    unfolding ledger_page_def option.case prod.case Let_def ledger_rows_bound [OF assms(1)] ps lt
    by (auto simp: nm bound_at_def min_def)
qed

lemma counters_small:
  assumes "k \<le> length (movements w)" and "p \<le> k"
  shows "int (money_epoch w) \<le> 9007199254740991" "int (next_txn w - 1) \<le> 9007199254740991"
    "int (bound_at w k) \<le> 9007199254740991" "int p \<le> 9007199254740991"
  using assms small bound_pos [OF assms(1)] movements_length by (auto simp: small_counters_def)

lemma demo_page_at:
  assumes "k \<le> length (movements w)" and "1 \<le> n" and "n \<le> 100" and "p \<le> k"
    and "cursor = Some (cursor_text (money_epoch w, next_txn w - 1, bound_at w k, p)) \<or> (cursor = None \<and> k = 0 \<and> p = 0)"
  shows "demo_page w n cursor = Inr \<lparr>wp_transactions = take n (drop k (named w (movements w))),
    wp_next = (if k + n < length (movements w)
      then Some (cursor_text (money_epoch w, next_txn w - 1, bound_at w (k + n), p + 1)) else None),
    wp_upper = next_txn w - 1, wp_truncated = False\<rparr>"
proof -
  have none: "ledger_page w (Some n) None = ledger_page w (Some n) (Some (money_epoch w, next_txn w - 1, bound_at w 0, 0))"
    by (simp add: ledger_page_def bound_at_def)
  from assms(5) have "demo_page w n cursor = (case ledger_page w (Some n)
      (Some (money_epoch w, next_txn w - 1, bound_at w k, p)) of Inl e \<Rightarrow> Inl e | Inr p \<Rightarrow> Inr (wire_of p))"
    using read_cursor_text [OF counters_small [OF assms(1,4)]] none
    by (auto simp: demo_page_def read_cursor_def)
  moreover obtain s c where "ledger_page w (Some n) (Some (money_epoch w, next_txn w - 1, bound_at w k, p))
    = Inr \<lparr>lp_transactions = take n (drop k (named w (movements w))), lp_circulation = c, lp_upper = next_txn w - 1,
        lp_sequence = s, lp_next = (if k + n < length (movements w)
          then Some (money_epoch w, next_txn w - 1, bound_at w (k + n), p + 1) else None)\<rparr>"
    using ledger_page_at [OF assms(1-3)] by blast
  ultimately show ?thesis by (simp add: wire_of_def)
qed

section \<open>All the pages\<close>

lemma bound_less:
  assumes "k < k'" and "k' \<le> length (movements w)"
  shows "bound_at w k' < bound_at w k"
proof (cases "k = 0")
  case True
  have "movements w ! (k' - 1) \<in> set (movements w)" using assms by simp
  from movements_range [OF this] True assms show ?thesis by (simp add: bound_at_def)
next
  case False
  with assms show ?thesis using movements_less [of "k - 1" "k' - 1"] by (simp add: bound_at_def)
qed

lemma length_named: "length (named w ts) = length ts"
  by (simp add: named_def)

lemma read_page_step:
  assumes r: "at_row w k p r" and more: "k < rd_wanted r" "k < length (movements w)"
  shows "\<exists>k' r'. read_page (\<lambda>_. demo_page w) (\<lambda>_. source) source r = Inr r' \<and> k < k' \<and> at_row w k' (p + 1) r'
    \<and> rd_wanted r' = rd_wanted r"
proof -
  let ?R = "movements w"
  let ?c = "cursor_text (money_epoch w, next_txn w - 1, bound_at w k, p)"
  define n where "n = min (rd_wanted r - k) 100"
  have n: "1 \<le> n" "n \<le> 100" "k + n \<le> rd_wanted r" using more by (auto simp: n_def)
  have k: "k \<le> length ?R" "p \<le> k" and rows: "rd_rows r = take k (named w ?R)"
    and nxt: "wp_next (rd_page r) = Some ?c" using r more by (auto simp: at_row_def)
  have len: "length (rd_rows r) = k" using rows k by (simp add: length_named)
  have "?c \<notin> set (rd_seen r)"
  proof
    assume "?c \<in> set (rd_seen r)"
    then obtain b q where "bound_at w k < b" "?c = cursor_text (money_epoch w, next_txn w - 1, b, q)"
      using r more unfolding at_row_def by blast
    then show False by (simp add: cursor_text_inject)
  qed
  note page = demo_page_at [OF k(1) n(1,2) k(2), of "Some ?c"]
  define k' where "k' = min (k + n) (length ?R)"
  define pg where "pg = \<lparr>wp_transactions = take n (drop k (named w ?R)),
    wp_next = (if k + n < length ?R then Some (cursor_text (money_epoch w, next_txn w - 1, bound_at w (k + n), p + 1)) else None),
    wp_upper = next_txn w - 1, wp_truncated = False\<rparr>"
  define r' where "r' = r\<lparr>rd_seen := ?c # rd_seen r, rd_rows := rd_rows r @ wp_transactions pg, rd_page := pg,
    rd_count := Suc (rd_count r)\<rparr>"
  have "read_page (\<lambda>_. demo_page w) (\<lambda>_. source) source r = Inr r'"
  proof -
    have "demo_page w (min (rd_wanted r - length (rd_rows r)) 100) (Some ?c) = Inr pg"
      using page by (simp add: len n_def [symmetric] pg_def)
    moreover have "wp_upper pg = wp_upper (rd_first r)" using r by (simp add: pg_def at_row_def)
    ultimately show ?thesis using \<open>?c \<notin> set (rd_seen r)\<close>
      unfolding read_page_def Let_def nxt option.sel by (simp add: r'_def)
  qed
  moreover have "k < k'" using n more by (simp add: k'_def)
  moreover have "at_row w k' (p + 1) r'"
  proof -
    have "rd_rows r' = take k' (named w ?R)"
      by (simp add: r'_def pg_def rows k'_def take_add [symmetric] min_def length_named)
    moreover have "\<exists>b q. bound_at w k' < b \<and> c = cursor_text (money_epoch w, next_txn w - 1, b, q)"
      if c: "c \<in> set (rd_seen r')" and "k' < length ?R" for c
    proof (cases "c = ?c")
      case True
      with bound_less [OF \<open>k < k'\<close>] show ?thesis by (auto simp: k'_def)
    next
      case False
      then have "c \<in> set (rd_seen r)" using c by (simp add: r'_def)
      then obtain b q where "bound_at w k < b" "c = cursor_text (money_epoch w, next_txn w - 1, b, q)"
        using r more unfolding at_row_def by blast
      moreover have "bound_at w k' < bound_at w k" using bound_less [OF \<open>k < k'\<close>] by (simp add: k'_def)
      ultimately have "bound_at w k' < b \<and> c = cursor_text (money_epoch w, next_txn w - 1, b, q)" by simp
      then show ?thesis by blast
    qed
    moreover have "p + 1 \<le> k'" using k \<open>k < k'\<close> by simp
    ultimately show ?thesis using r n unfolding at_row_def
      by (auto simp: r'_def pg_def k'_def)
  qed
  moreover have "rd_wanted r' = rd_wanted r" by (simp add: r'_def)
  ultimately show ?thesis by blast
qed

lemma read_loop_done:
  assumes "at_row w k p r"
  shows "\<exists>r' p'. read_loop (\<lambda>_. demo_page w) (\<lambda>_. source) source r = Some (Inr r')
    \<and> at_row w (min (rd_wanted r) (length (movements w))) p' r' \<and> rd_wanted r' = rd_wanted r"
  using assms
proof (induction "rd_wanted r - k" arbitrary: r k p rule: less_induct)
  case less
  have len: "length (rd_rows r) = k" using less.prems by (auto simp: at_row_def length_named)
  show ?case
  proof (cases "k < rd_wanted r \<and> k < length (movements w)")
    case True
    obtain k' r' where s: "read_page (\<lambda>_. demo_page w) (\<lambda>_. source) source r = Inr r'" "k < k'" "at_row w k' (p + 1) r'"
        "rd_wanted r' = rd_wanted r"
      using read_page_step [OF less.prems] True by blast
    have "wp_next (rd_page r) = Some (cursor_text (money_epoch w, next_txn w - 1, bound_at w k, p))"
      using less.prems True by (simp add: at_row_def)
    then have "read_more r" using True by (simp add: read_more_def len truthy_str_def)
    then have "read_loop (\<lambda>_. demo_page w) (\<lambda>_. source) source r = read_loop (\<lambda>_. demo_page w) (\<lambda>_. source) source r'"
      by (subst read_loop.simps) (simp add: s)
    moreover have "rd_wanted r' - k' < rd_wanted r - k" using s(2,4) True by linarith
    ultimately show ?thesis using less.hyps [OF _ s(3)] s(4) by simp
  next
    case False
    then have "wp_next (rd_page r) = None \<or> k = rd_wanted r" using less.prems by (auto simp: at_row_def)
    then have "\<not> read_more r" by (auto simp: read_more_def len truthy_str_def)
    then have "read_loop (\<lambda>_. demo_page w) (\<lambda>_. source) source r = Some (Inr r)" by (subst read_loop.simps) simp
    moreover have "min (rd_wanted r) (length (movements w)) = k" using False less.prems by (auto simp: at_row_def)
    ultimately show ?thesis using less.prems by blast
  qed
qed

lemma read_ledger_complete:
  "\<exists>next. read_ledger (\<lambda>_. demo_page w) (\<lambda>_. source) source limit = Some (Inr
    \<lparr>wp_transactions = take (wanted_rows limit) (named w (movements w)), wp_next = next,
     wp_upper = next_txn w - 1, wp_truncated = False\<rparr>)"
proof -
  define n where "n = wanted_rows limit"
  have n: "1 \<le> n" by (simp add: n_def wanted_rows_def)
  let ?m = "min n 100"
  let ?k = "min ?m (length (movements w))"
  define pg where "pg = \<lparr>wp_transactions = take ?m (named w (movements w)),
    wp_next = (if ?m < length (movements w)
      then Some (cursor_text (money_epoch w, next_txn w - 1, bound_at w ?m, 1)) else None),
    wp_upper = next_txn w - 1, wp_truncated = False\<rparr>"
  define r where "r = \<lparr>rd_wanted = n, rd_first = pg, rd_seen = [], rd_rows = wp_transactions pg, rd_page = pg, rd_count = 0\<rparr>"
  have page: "demo_page w ?m None = Inr pg"
    using demo_page_at [of 0 ?m 0 None] n by (simp add: pg_def)
  have "at_row w ?k 1 r"
    using n by (auto simp: at_row_def r_def pg_def min_def length_named)
  then obtain r' p' where l: "read_loop (\<lambda>_. demo_page w) (\<lambda>_. source) source r = Some (Inr r')"
      and a: "at_row w (min n (length (movements w))) p' r'"
    using read_loop_done [of ?k 1 r source] by (auto simp: r_def)
  have rows: "rd_rows r' = take n (named w (movements w))"
    using a by (simp add: at_row_def min_def length_named)
  have "set (map tv_current_money_epoch (rd_rows r')) \<subseteq> {money_epoch w}"
    by (auto simp: rows named_def transaction.defs dest!: in_set_takeD)
  then have "length (remdups (map tv_current_money_epoch (rd_rows r'))) \<le> 1"
    by (metis card.empty card_insert_disjoint card_mono empty_iff finite.emptyI finite.insertI length_remdups_card_conv One_nat_def)
  then have "finish_reading r' = Inr \<lparr>wp_transactions = rd_rows r', wp_next = wp_next (rd_page r'),
      wp_upper = next_txn w - 1, wp_truncated = False\<rparr>"
    using a by (simp add: finish_reading_def at_row_def)
  then show ?thesis
    unfolding read_ledger_def Let_def n_def [symmetric] page sum.case r_def [symmetric] l option.case rows by blast
qed

end

end
