(* ===== verification/DemoSafety.thy ===== *)
theory DemoSafety
  imports DemoRoutes
begin

text \<open>
  What serving a request does to the server's state. A law is a relation between the state before
  and after a handler; \<open>server_law\<close> says what it takes for every route below the login to obey it, and
  \<open>login_law\<close> adds the three login routes. The interpretations are the three laws the properties use:
  the ledger moves by its own operations only, the receipts are the interceptor's alone, and nothing
  but the login routes touches the sessions.
\<close>

definition obeys :: "(backend \<Rightarrow> backend \<Rightarrow> bool) \<Rightarrow> handler \<Rightarrow> bool" where
  "obeys Q h \<longleftrightarrow> (\<forall>st r st'. h st = Some (r, st') \<longrightarrow> Q st st')"

named_theorems obeys_intros "that a handler obeys a law, from its parts"

lemma obeysD: "obeys Q h \<Longrightarrow> h st = Some (r, st') \<Longrightarrow> Q st st'"
  by (auto simp: obeys_def)

lemma obeys_route: "(\<forall>x \<in> set rs. obeys Q (snd x)) \<Longrightarrow> obeys Q k \<Longrightarrow> obeys Q (route rs k)"
  by (induction rs k rule: route.induct) (auto simp: obeys_def)

locale server_law =
  fixes Q :: "backend \<Rightarrow> backend \<Rightarrow> bool"
  assumes refl: "Q st st"
    and trans: "Q st st1 \<Longrightarrow> Q st1 st2 \<Longrightarrow> Q st st2"
    and moved: "run x (be_ledger st) = Some w \<Longrightarrow> Q st (st\<lparr>be_ledger := w\<rparr>)"
    and keys: "Q st (st\<lparr>be_api_keys := ks\<rparr>)"
    and bots: "Q st (st\<lparr>be_bots := bs\<rparr>)"
begin

lemma obeys_fail [obeys_intros]: "obeys Q (fail e)"
  by (simp add: obeys_def fail_def refl)

lemma obeys_answer [obeys_intros]: "obeys Q (answer f)" "obeys Q (answer_res g fr)"
  by (auto simp: obeys_def answer_def answer_res_def intro: refl split: sum.splits)

lemma obeys_act: "(\<And>w. run x w = Some (snd (m w))) \<Longrightarrow> obeys Q (act_on g m)"
  unfolding obeys_def act_on_def by (auto split: prod.splits sum.splits intro!: moved [of x])

lemma obeys_timed [obeys_intros]:
  assumes "\<And>t. obeys Q (k t)"
  shows "obeys Q (timed k)"
proof -
  have "Q st (st\<lparr>be_ledger := (be_ledger st)\<lparr>ticks := Suc (ticks (be_ledger st))\<rparr>\<rparr>)" for st
    by (rule moved [of ReadClock]) simp
  then show ?thesis using assms trans unfolding obeys_def timed_def Let_def by blast
qed

lemma obeys_acts [obeys_intros]:
  "obeys Q (act_on g1 (provision n d p h))" "obeys Q (act_on g2 (refund u i x r))" "obeys Q (act_on g3 (reform u ri))"
  "obeys Q (act_on g4 (create_nickle u x fr bs))" "obeys Q (act_on g5 (redeem_nickle u tk))"
  "obeys Q (act_on g6 (set_user_bio u i s))" "obeys Q (act_on g7 (set_user_password u i s))"
  "obeys Q (act_on g8 (set_user_status u i us))" "obeys Q (act_on g9 (set_fulfillment u i a r))"
  "obeys Q (act_on g10 (reverse_txn u i r))" "obeys Q (act_on g11 (transfer u a1 x m e))"
  "obeys Q (act_on g12 (issue u a1 x m))" "obeys Q (act_on g13 (retire u a1 x m))"
  "obeys Q (act_on g14 (issue_usd u a1 x m))" "obeys Q (act_on g15 (post_quote u sd c n1))"
  "obeys Q (act_on g16 (take_quote u i))" "obeys Q (act_on g17 (cancel_quote u i))"
  "obeys Q (act_on g18 (create_listing u li))" "obeys Q (act_on g19 (purchase u i))"
  "obeys Q (act_on g20 (cancel_listing u i))" "obeys Q (act_on g21 (make_offer u i x m))"
  "obeys Q (act_on g22 (accept_offer u i))" "obeys Q (act_on g23 (decline_offer u i))"
  "obeys Q (act_on g24 (withdraw_offer u i))" "obeys Q (act_on g25 (loan_offer lending_host u lt t b resp))"
  "obeys Q (act_on g26 (loan_accept lending_host u k t))" "obeys Q (act_on g27 (loan_close lending_host u k t))"
  "obeys Q (act_on g28 (loan_repay lending_host u k x t))" "obeys Q (act_on g29 (lotto_buy lotto_host u k x t))"
  by (rule obeys_act, rule run.simps)+

lemma obeys_create_draw [obeys_intros]: "obeys Q (act_on g (create_draw u terms t))"
  by (rule obeys_act [of "CreateLotto u terms t"]) (auto simp: create_draw_def split: prod.splits)

lemma obeys_text [obeys_intros]: "(\<And>s. obeys Q (h s)) \<Longrightarrow> obeys Q (with_text b k h)"
  "(\<And>x. obeys Q (h2 x)) \<Longrightarrow> obeys Q (with_choice ns b k h2)"
  "(\<And>t. obeys Q (h3 t)) \<Longrightarrow> obeys Q (with_lotto_terms b h3)"
  "(\<And>t. obeys Q (h4 t)) \<Longrightarrow> obeys Q (with_loan_terms b h4)"
  by (auto simp: with_text_def with_choice_def with_lotto_terms_def with_loan_terms_def obeys_fail
      split: option.splits body.splits)

lemma obeys_user [obeys_intros]: "(\<And>u. obeys Q (h u)) \<Longrightarrow> obeys Q (current rq h)"
  "(\<And>u. obeys Q (h u)) \<Longrightarrow> obeys Q (subject i h)"
  unfolding obeys_def current_def subject_def fail_def by (auto intro: refl split: option.splits if_splits)

lemma obeys_member [obeys_intros]: "(\<And>u. obeys Q (h u)) \<Longrightarrow> obeys Q (with_member rq me h)"
  by (auto simp: with_member_def intro: obeys_intros split: option.splits)

lemma obeys_cursor [obeys_intros]: "(\<And>c. obeys Q (h c)) \<Longrightarrow> obeys Q (with_cursor rq n h)"
  by (auto simp: with_cursor_def Let_def obeys_fail split: option.splits)

lemma obeys_commerce [obeys_intros]: "obeys Q (commerce_act me b)"
proof -
  have "Q st (st\<lparr>be_ledger := w\<rparr>)" if "command commerce_host me a (be_ledger st) = (r, w)" for st a r w
    using that by (intro moved [of "CommerceOp me a"]) simp
  then show ?thesis unfolding obeys_def commerce_act_def fail_def
    by (auto intro: refl split: body.splits prod.splits sum.splits)
qed

lemma obeys_resolve [obeys_intros]: "obeys Q (resolve rnd me t)"
proof -
  have "Q st (st\<lparr>be_ledger := w\<rparr>)" if "lotto_resolve_now lotto_host me t (ch_draw rnd) (be_ledger st) = Some (r, w)"
    for st w r using that by (intro moved [of "ResolveLottos me t (ch_draw rnd)"]) simp
  then show ?thesis unfolding obeys_def resolve_def
    by (auto split: option.splits prod.splits sum.splits)
qed

lemma obeys_keys [obeys_intros]: "obeys Q (own_key rnd rq me)" "obeys Q (bot_key rnd rq me)"
proof -
  have m: "obeys Q (mint_key rnd i s)" for i s
    unfolding mint_key_def by (rule obeys_timed) (auto simp: obeys_def intro: keys)
  have d: "obeys Q (drop_key i s)" "obeys Q (key_status i)" for i s
    by (auto simp: obeys_def drop_key_def key_status_def Let_def intro: keys refl)
  show "obeys Q (own_key rnd rq me)" by (simp add: own_key_def Let_def m d obeys_fail)
  show "obeys Q (bot_key rnd rq me)" using m d obeys_fail
    unfolding obeys_def bot_key_def Let_def by (simp split: if_splits)
qed

lemma obeys_create_member [obeys_intros]: "obeys Q (create_member rq me)"
proof -
  have a: "Q st (st\<lparr>be_ledger := w\<rparr>)" if "add_user n d p Member (be_ledger st) = (r, w)" for st n d p r w
    using that by (intro moved [of "AddUser n d p Member"]) simp
  have i: "Q st (st\<lparr>be_ledger := w\<rparr>)" if "issue me x n m (be_ledger st) = (r, w)" for st x n m r w
    using that by (intro moved [of "IssueOp me x n m"]) simp
  have g: "obeys Q (grant_member rq me u)" for u
    unfolding obeys_def grant_member_def finish_member_def by (auto split: prod.splits sum.splits if_splits intro: i refl)
  have s: "Q st st3" if "grant_member rq me u (if c then st1\<lparr>be_bots := f st1\<rparr> else st1) = Some (r, st3)"
      and "Q st st1" for u c st1 f r st st3
    using obeysD [OF g that(1)] trans [OF that(2)] trans [OF that(2) trans [OF bots]] by (auto split: if_splits)
  have "obeys Q (add_member rq me name)" for name
    unfolding obeys_def add_member_def Let_def by (auto split: prod.splits sum.splits intro: a s [OF _ a])
  then show ?thesis by (auto simp: create_member_def intro: obeys_intros)
qed

lemma obeys_parts [obeys_intros]: "obeys Q (patch_member rq me)" "obeys Q (transfer_route me b)"
  "obeys Q (account_history rq me a)" "obeys Q (all_movements rq)" "obeys Q (lottos_of me)"
  by (auto simp: patch_member_def transfer_route_def account_history_def all_movements_def lottos_of_def Let_def
      intro!: obeys_intros split: option.splits sum.splits)

lemma obeys_member_loans [obeys_intros]: "obeys Q (member_loans me i)"
proof -
  have "obeys Q (subject i (\<lambda>u. timed (\<lambda>t'. answer (f u t'))))" for f by (intro obeys_intros)
  then have "obeys Q (\<lambda>st. case loans_at me t (be_ledger st) of Inl e \<Rightarrow> fail e st
     | Inr b \<Rightarrow> subject i (\<lambda>u. timed (\<lambda>t'. answer (\<lambda>w.
         ALoanBook (b\<lparr>lb_loans := member_book lending_host me u t' w\<rparr>)))) st)" for t
    unfolding obeys_def fail_def by (auto intro: refl split: sum.splits)
  then show ?thesis unfolding member_loans_def by (rule obeys_timed)
qed

lemma obeys_tables:
  "\<forall>x \<in> set (finance_routes rnd rq me). obeys Q (snd x)" "\<forall>x \<in> set (member_routes rnd rq me). obeys Q (snd x)"
  "\<forall>x \<in> set (money_routes rq me). obeys Q (snd x)" "\<forall>x \<in> set (listing_routes rq me). obeys Q (snd x)"
  "\<forall>x \<in> set (offer_routes rq me). obeys Q (snd x)"
proof -
  have r: "obeys Q (\<lambda>st. Some (Inr (f st), st))" for f by (simp add: obeys_def refl)
  show "\<forall>x \<in> set (finance_routes rnd rq me). obeys Q (snd x)"
    by (auto simp: finance_routes_def loan_route_def Let_def intro!: obeys_intros split: body.splits)
  show "\<forall>x \<in> set (member_routes rnd rq me). obeys Q (snd x)"
    by (auto simp: member_routes_def Let_def r intro!: obeys_intros)
  show "\<forall>x \<in> set (money_routes rq me). obeys Q (snd x)"
    by (auto simp: money_routes_def Let_def intro!: obeys_intros)
  show "\<forall>x \<in> set (listing_routes rq me). obeys Q (snd x)"
    by (auto simp: listing_routes_def Let_def intro!: obeys_intros split: option.splits)
  show "\<forall>x \<in> set (offer_routes rq me). obeys Q (snd x)"
    by (auto simp: offer_routes_def Let_def intro!: obeys_intros)
qed

lemma obeys_inner: "obeys Q (current rq (\<lambda>me. route (finance_routes rnd rq me @ member_routes rnd rq me
    @ money_routes rq me @ listing_routes rq me @ offer_routes rq me) (fail (no_route rq))))"
proof (intro obeys_user obeys_route obeys_fail)
  fix me
  show "\<forall>x \<in> set (finance_routes rnd rq me @ member_routes rnd rq me @ money_routes rq me @ listing_routes rq me
      @ offer_routes rq me). obeys Q (snd x)"
    unfolding set_append ball_Un by (intro conjI obeys_tables)
qed

lemma obeys_open:
  assumes "\<not> starts_with ''/auth/'' (rq_path rq)"
  shows "obeys Q (handle rnd rq)"
proof -
  have "rq_path rq \<noteq> ''/auth/authorize'' \<and> rq_path rq \<noteq> ''/auth/token'' \<and> rq_path rq \<noteq> ''/auth/logout''"
    using assms by (auto simp: starts_with_def)
  then show ?thesis unfolding handle_def open_routes_def Let_def
    by (auto intro!: obeys_intros obeys_inner)
qed

end

locale login_law = server_law +
  assumes logins: "Q st (st\<lparr>be_codes := cs\<rparr>)" "Q st (st\<lparr>be_sessions := ss\<rparr>)"
begin

lemma obeys_logins [obeys_intros]: "obeys Q (authorize rnd n)" "obeys Q (exchange rnd c)" "obeys Q (logout rq)"
proof -
  show "obeys Q (authorize rnd n)" "obeys Q (logout rq)"
    by (auto simp: obeys_def authorize_def logout_def fail_def Let_def intro: logins refl split: option.splits)
  have "Q st (st\<lparr>be_codes := cs, be_sessions := ss\<rparr>)" for st cs ss
    using trans logins by blast
  then show "obeys Q (exchange rnd c)"
    by (auto simp: obeys_def exchange_def fail_def answer_def Let_def intro: refl split: option.splits)
qed

lemma obeys_handle: "obeys Q (handle rnd rq)"
  unfolding handle_def using obeys_inner
  by (intro obeys_route) (auto simp: open_routes_def Let_def intro!: obeys_intros)

end

section \<open>The three laws\<close>

interpretation moves: login_law "\<lambda>st st'. reachable (be_ledger st) \<longrightarrow> reachable (be_ledger st')"
  by unfold_locales (auto intro: reachable.step)

interpretation receipts: login_law "\<lambda>st st'. be_receipts st' = be_receipts st \<and> be_seeded st' = be_seeded st"
  by unfold_locales auto

interpretation sessions: server_law "\<lambda>st st'. be_sessions st' = be_sessions st \<and> be_codes st' = be_codes st"
  by unfold_locales auto

section \<open>The interceptor\<close>

lemma reach_bump: "reachable w \<Longrightarrow> reachable (w\<lparr>revision := Suc (revision w)\<rparr>)"
  using reachable.step [of w NextRevision] by simp

lemma reach_tick: "reachable w \<Longrightarrow> tick_loans rnd w = Some (r, w') \<Longrightarrow> reachable w'"
  using reachable.step [of w "TickLoans rnd"] by simp

lemma remember_ledger [simp]: "be_ledger (remember i f a st) = be_ledger st"
  by (simp add: remember_def Let_def)

lemma serve_checkedE:
  assumes "serve_checked rnd rq st = Some (r, st')"
  obtains (prior) f a where "identity rq st \<noteq> []" "map_of (be_receipts st) (identity rq st) = Some (f, a)"
      "st' = st" "r = (if f \<noteq> fingerprint_of rq then refusal KEY_REUSED else Reply a)"
  | (stale) "is_mutation rq st" "key_epoch rq \<noteq> Some (of_nat (money_epoch (be_ledger st)))" "st' = st"
      "r = refusal KEY_STALE"
  | (refused) e where "handle rnd rq st = Some (Inl e, st')" "r = refusal e"
  | (answered) a st1 where "handle rnd rq st = Some (Inr a, st1)" "r = Reply a"
      "st' = (if identity rq st = [] then if is_mutation rq st then bump st1 else st1
              else remember (identity rq st) (fingerprint_of rq) a (if is_mutation rq st then bump st1 else st1))"
proof -
  let ?prior = "if identity rq st = [] then None else map_of (be_receipts st) (identity rq st)"
  show ?thesis
  proof (cases ?prior)
    case (Some p)
    then obtain f a where p: "identity rq st \<noteq> []" "map_of (be_receipts st) (identity rq st) = Some (f, a)"
      by (cases p) (simp split: if_splits)
    with assms have "r = (if f \<noteq> fingerprint_of rq then refusal KEY_REUSED else Reply a) \<and> st' = st"
      unfolding serve_checked_def Let_def by simp
    with p show ?thesis using prior by blast
  next
    case None
    note n = assms [unfolded serve_checked_def Let_def None option.case]
    show ?thesis
    proof (cases "is_mutation rq st \<and> key_epoch rq \<noteq> Some (of_nat (money_epoch (be_ledger st)))")
      case True
      from n [unfolded if_P [OF True]] have "r = refusal KEY_STALE" "st' = st" by simp_all
      with True show ?thesis by (intro stale) simp_all
    next
      case False
      note n2 = n [unfolded if_not_P [OF False]]
      show ?thesis
      proof (cases "handle rnd rq st")
        case None
        with n2 show ?thesis by simp
      next
        case (Some p)
        obtain x st1 where p: "p = (x, st1)" by (cases p)
        show ?thesis
        proof (cases x)
          case (Inl e)
          from n2 have "r = refusal e" "st' = st1" by (simp_all add: Some p Inl)
          with Some p Inl show ?thesis by (intro refused [of e]) simp_all
        next
          case (Inr a)
          show ?thesis
          proof (rule answered)
            show "handle rnd rq st = Some (Inr a, st1)" by (simp add: Some p Inr)
            show "r = Reply a" using n2 by (simp add: Some p Inr)
            show "st' = (if identity rq st = [] then if is_mutation rq st then bump st1 else st1
                else remember (identity rq st) (fingerprint_of rq) a (if is_mutation rq st then bump st1 else st1))"
              using n2 by (simp only: Some p Inr option.case prod.case sum.case option.inject prod.inject)
          qed
        qed
      qed
    qed
  qed
qed

lemma bump_fields [simp]: "be_receipts (bump st) = be_receipts st" "be_sessions (bump st) = be_sessions st"
  "be_seeded (bump st) = be_seeded st"
  by (simp_all add: bump_def)

lemma checked_reachable:
  assumes "serve_checked rnd rq st = Some (r, st')" and "reachable (be_ledger st)"
  shows "reachable (be_ledger st')"
  using assms(1)
proof (cases rule: serve_checkedE)
  case (refused e)
  then show ?thesis using obeysD [OF moves.obeys_handle] assms(2) by blast
next
  case (answered a st1)
  then have "reachable (be_ledger st1)" using obeysD [OF moves.obeys_handle] assms(2) by blast
  then show ?thesis using answered(3) by (simp add: bump_def reach_bump)
qed (use assms in auto)

text \<open>Before the request itself: the seeding of the first one, and the loan tick.\<close>

definition seeded :: "(ledger \<Rightarrow> ledger) \<Rightarrow> backend \<Rightarrow> backend" where
  "seeded seeding st = (if be_seeded st then st else st\<lparr>be_ledger := seeding (be_ledger st), be_seeded := True\<rparr>)"

lemma serveE:
  assumes "serve seeding rnd rq st = Some (r, st')"
  obtains (tick) e w where "tick_loans (ch_tick rnd) (be_ledger (seeded seeding st)) = Some (Inl e, w)"
      "r = refusal e" "st' = (seeded seeding st)\<lparr>be_ledger := w\<rparr>"
  | (checked) w where "tick_loans (ch_tick rnd) (be_ledger (seeded seeding st)) = Some (Inr (), w)"
      "serve_checked rnd rq ((seeded seeding st)\<lparr>be_ledger := w\<rparr>) = Some (r, st')"
proof -
  have a: "is_api rq" using assms by (simp add: serve_def split: if_splits)
  note n = assms [unfolded serve_def Let_def seeded_def [symmetric]]
  show ?thesis
  proof (cases "tick_loans (ch_tick rnd) (be_ledger (seeded seeding st))")
    case None
    with n a show ?thesis by simp
  next
    case (Some p)
    obtain x w where p: "p = (x, w)" by (cases p)
    show ?thesis
    proof (cases x)
      case (Inl e)
      with n a Some p tick show ?thesis by simp
    next
      case (Inr u)
      with n a Some p checked show ?thesis by simp
    qed
  qed
qed

lemma seeded_fields [simp]: "be_receipts (seeded g st) = be_receipts st" "be_sessions (seeded g st) = be_sessions st"
  "be_codes (seeded g st) = be_codes st" "be_seeded (seeded g st)"
  by (simp_all add: seeded_def)

lemma seeded_again [simp]: "be_seeded st \<Longrightarrow> seeded g st = st"
  by (simp add: seeded_def)

lemma serve_reachable:
  assumes "serve seeding rnd rq st = Some (r, st')" and "reachable (be_ledger st)"
    and "\<And>w. reachable w \<Longrightarrow> reachable (seeding w)"
  shows "reachable (be_ledger st')"
proof -
  have s: "reachable (be_ledger (seeded seeding st))" using assms by (simp add: seeded_def)
  from assms(1) show ?thesis
  proof (cases rule: serveE)
    case (tick e w)
    then show ?thesis using reach_tick [OF s] by simp
  next
    case (checked w)
    then show ?thesis using reach_tick [OF s] by (intro checked_reachable [OF checked(2)]) simp
  qed
qed

text \<open>Receipts: at most 4096, one per identity.\<close>

definition wf_receipts :: "backend \<Rightarrow> bool" where
  "wf_receipts st \<longleftrightarrow> length (be_receipts st) \<le> 4096 \<and> distinct (map fst (be_receipts st))"

lemma length_update: "length (AList.update k v xs) = (if k \<in> fst ` set xs then length xs else Suc (length xs))"
  by (induction xs) auto

lemma distinct_update: "distinct (map fst xs) \<Longrightarrow> distinct (map fst (AList.update k v xs))"
  by (rule AList.distinct_update)

lemma remember_wf: "wf_receipts st \<Longrightarrow> wf_receipts (remember i f a st)"
  by (cases "be_receipts st") (auto simp: wf_receipts_def remember_def Let_def length_update
      intro: distinct_update)

lemma remember_lookup: "map_of (be_receipts (remember i f a st)) i = Some (f, a)"
  by (simp add: remember_def Let_def update_conv)

lemma checked_wf:
  assumes "serve_checked rnd rq st = Some (r, st')" and "wf_receipts st"
  shows "wf_receipts st'"
  using assms(1)
proof (cases rule: serve_checkedE)
  case (refused e)
  then show ?thesis using obeysD [OF receipts.obeys_handle] assms(2) by (simp add: wf_receipts_def)
next
  case (answered a st1)
  then have "wf_receipts st1" using obeysD [OF receipts.obeys_handle] assms(2) by (simp add: wf_receipts_def)
  moreover from this have "wf_receipts (bump st1)" by (simp add: wf_receipts_def)
  ultimately show ?thesis using answered(3) by (simp add: remember_wf)
qed (use assms in auto)

lemma serve_wf:
  assumes "serve seeding rnd rq st = Some (r, st')" and "wf_receipts st"
  shows "wf_receipts st'"
  using assms(1)
proof (cases rule: serveE)
  case (tick e w)
  with assms(2) show ?thesis by (simp add: wf_receipts_def)
next
  case (checked w)
  then show ?thesis using assms(2) by (intro checked_wf [OF checked(2)]) (simp add: wf_receipts_def)
qed

section \<open>Retries\<close>

lemma refusal_not_reply [simp]: "refusal e \<noteq> Reply a" "Reply a \<noteq> refusal e"
  by (cases e; simp add: refusal_def)+

lemma session_of_cong: "be_sessions st' = be_sessions st \<Longrightarrow> session_of rq st' = session_of rq st"
  by (simp add: session_of_def)

lemma identity_cong: "be_sessions st' = be_sessions st \<Longrightarrow> identity rq st' = identity rq st"
proof -
  assume "be_sessions st' = be_sessions st"
  note s = session_of_cong [OF this]
  then have m: "is_mutation rq st' = is_mutation rq st" by (simp add: is_mutation_def)
  show ?thesis unfolding identity_def s m by (rule refl)
qed

lemma identity_mutation: "identity rq st \<noteq> [] \<Longrightarrow> is_mutation rq st"
  by (auto simp: identity_def split: option.splits if_splits)

lemma remember_sessions [simp]: "be_sessions (remember i f a st) = be_sessions st"
  "be_seeded (remember i f a st) = be_seeded st"
  by (simp_all add: remember_def Let_def)

lemma mutation_keeps_sessions:
  assumes "is_mutation rq st" and "handle rnd rq st = Some (r, st')"
  shows "be_sessions st' = be_sessions st"
proof -
  have "\<not> starts_with ''/auth/'' (rq_path rq)" using assms(1) by (simp add: is_mutation_def)
  from obeysD [OF sessions.obeys_open [OF this] assms(2)] show ?thesis by blast
qed

text \<open>After an answer to a keyed request, its receipt is there and its identity is the same.\<close>

lemma checked_receipt:
  assumes "serve_checked rnd rq st = Some (Reply a, st')" and "identity rq st \<noteq> []"
  shows "map_of (be_receipts st') (identity rq st') = Some (fingerprint_of rq, a) \<and> identity rq st' = identity rq st
    \<and> be_seeded st' = be_seeded st"
  using assms(1)
proof (cases rule: serve_checkedE)
  case (prior f b)
  then show ?thesis by (auto split: if_splits)
next
  case (answered b st1)
  note m = identity_mutation [OF assms(2)]
  have s: "be_sessions st' = be_sessions st" "be_seeded st' = be_seeded st"
    using answered(3) mutation_keeps_sessions [OF m answered(1)] obeysD [OF receipts.obeys_handle answered(1)]
    by simp_all
  have "map_of (be_receipts st') (identity rq st) = Some (fingerprint_of rq, a)"
    using answered(2,3) assms(2) by (simp add: remember_lookup)
  with s show ?thesis by (simp add: identity_cong [of st' st])
qed simp_all

lemma checked_replay:
  assumes "map_of (be_receipts st) (identity rq st) = Some (fingerprint_of rq, a)" and "identity rq st \<noteq> []"
  shows "serve_checked rnd rq st = Some (Reply a, st)"
  unfolding serve_checked_def Let_def using assms by simp

lemma serve_replay:
  assumes "serve g rnd rq st = Some (Reply a, st1)" and "identity rq st \<noteq> []"
    and "tick_loans (ch_tick rnd') (be_ledger st1) = Some (Inr (), w)"
  shows "serve g rnd' rq st1 = Some (Reply a, st1\<lparr>be_ledger := w\<rparr>)"
  using assms(1)
proof (cases rule: serveE)
  case (checked v)
  let ?s = "(seeded g st)\<lparr>be_ledger := v\<rparr>"
  have i: "identity rq ?s = identity rq st" by (rule identity_cong) simp
  with assms(2) have "identity rq ?s \<noteq> []" by simp
  note c = checked_receipt [OF checked(2) this]
  have b: "be_seeded st1" using c by simp
  have a: "is_api rq" using assms(1) by (simp add: serve_def split: if_splits)
  let ?t = "st1\<lparr>be_ledger := w\<rparr>"
  have j: "identity rq ?t = identity rq st1" by (rule identity_cong) simp
  have "serve_checked rnd' rq ?t = Some (Reply a, ?t)"
  proof (rule checked_replay)
    show "map_of (be_receipts ?t) (identity rq ?t) = Some (fingerprint_of rq, a)"
      using conjunct1 [OF c] unfolding j by simp
    show "identity rq ?t \<noteq> []" using c i j assms(2) by simp
  qed
  with a b assms(3) show ?thesis by (simp add: serve_def)
qed simp

section \<open>Requests without a session\<close>

lemma route_none: "\<not> list_ex fst rs \<Longrightarrow> route rs k = k"
  by (induction rs k rule: route.induct) auto

lemma handle_no_session:
  assumes "\<not> list_ex fst (open_routes rnd rq)" and "session_of rq st = None"
  shows "handle rnd rq st = Some (Inl NO_SESSION, st)"
  using assms by (simp add: handle_def route_none current_def session_of_def fail_def split: option.splits)

lemma serve_no_session:
  assumes "\<not> list_ex fst (open_routes rnd rq)" and "session_of rq st = None"
    and "serve g rnd rq st = Some (r, st')"
  shows "(\<exists>e. r = refusal e) \<and> st' = (seeded g st)\<lparr>be_ledger := be_ledger st'\<rparr>
    \<and> (\<exists>x. tick_loans (ch_tick rnd) (be_ledger (seeded g st)) = Some (x, be_ledger st'))"
  using assms(3)
proof (cases rule: serveE)
  case (tick e w)
  then show ?thesis by auto
next
  case (checked w)
  let ?s = "(seeded g st)\<lparr>be_ledger := w\<rparr>"
  have n: "session_of rq ?s = None" using assms(2) session_of_cong [of ?s st rq] by simp
  then have "identity rq ?s = []" "\<not> is_mutation rq ?s" by (simp_all add: identity_def is_mutation_def)
  with checked(2) handle_no_session [OF assms(1) n] have "r = refusal NO_SESSION" "st' = ?s"
    by (simp_all add: serve_checked_def)
  with checked(1) show ?thesis by auto
qed

end
