(* ===== verification/Household.thy ===== *)
theory Household
  imports LedgerSafety
begin

text \<open>
  A small household, built by running the ledger's own methods from \<open>new DemoLedger()\<close>: Nana, two
  members, coins issued to both, a listing and an offer on it, an exchange rate, a loan, a lottery
  with tickets sold, an artwork for sale and a voucher. The theorems of the root theory are applied
  to it, so that none of them speaks of a state the program cannot be in.
\<close>

definition home0 :: ledger where "home0 = new_ledger (\<lambda>_. 0)"
definition home1 :: ledger where "home1 = snd (provision ''nana'' ''Nana'' ''secret'' [] home0)"
definition home2 :: ledger where "home2 = snd (add_user ''ada'' ''Ada'' ''secret'' Member home1)"
definition home3 :: ledger where "home3 = snd (add_user ''bob'' ''Bob'' ''secret'' Member home2)"

definition member :: "string \<Rightarrow> string \<Rightarrow> string \<Rightarrow> role \<Rightarrow> int \<Rightarrow> user" where
  "member i name shown r t = \<lparr>u_id = ''user-'' @ i, username = name, display_name = shown, u_role = r,
     u_status = UserActive, u_account = ''account-user-'' @ i, u_created_at = t, bio = None, password = ''secret''\<rparr>"

definition nana :: user where "nana = member ''1'' ''nana'' ''Nana'' Nana (- 34559999)"
definition ada :: user where "ada = member ''2'' ''ada'' ''Ada'' Member (- 34559998)"
definition bob :: user where "bob = member ''3'' ''bob'' ''Bob'' Member (- 34559997)"

lemma members_home3: "users home3 = [nana, ada, bob]"
  by code_simp

definition home4 :: ledger where "home4 = snd (issue nana (u_account ada) 1000 ''allowance'' home3)"

text \<open>
  The next states are written out, so that later computations start from a value: the lemmas show
  that each is what the call leaves behind. \<open>agree\<close> compares the fields that are not functions.
\<close>

definition agree :: "ledger \<Rightarrow> ledger \<Rightarrow> bool" where
  "agree v w \<longleftrightarrow> ticks v = ticks w \<and> live_clock v = live_clock w \<and> clock v = clock w \<and> decimals v = decimals w
     \<and> money_epoch v = money_epoch w \<and> revision v = revision w \<and> epoch_exponents v = epoch_exponents w
     \<and> users v = users w \<and> listings v = listings w \<and> offers v = offers w \<and> quotes v = quotes w
     \<and> transactions v = transactions w \<and> next_txn v = next_txn w \<and> next_id v = next_id w \<and> nickles v = nickles w
     \<and> next_nickle v = next_nickle w \<and> household v = household w \<and> provisioned v = provisioned w
     \<and> lending_book v = lending_book w \<and> lotto_draws v = lotto_draws w \<and> commerce_book v = commerce_book w"

lemma agree_eq: "agree v w \<Longrightarrow> (\<And>k. wall v k = wall w k) \<Longrightarrow> (\<And>x. usd_balances v x = usd_balances w x) \<Longrightarrow>
    (\<And>x. refund_amounts v x = refund_amounts w x) \<Longrightarrow> v = (w :: ledger)"
  unfolding agree_def by (rule ledger.equality) (auto intro!: ext)

definition issued :: "string \<Rightarrow> int \<Rightarrow> user \<Rightarrow> num \<Rightarrow> string \<Rightarrow> transaction" where
  "issued i t u x memo = \<lparr>t_fulfillment = None, t_id = ''txn-'' @ i, t_kind = Issue, t_created_at = t,
     t_actor = ''user-1'', t_description = memo, t_reference = None, t_reverses = None, t_economic_kind = None,
     t_thing = None, t_thing_name = None, t_quantity_milli = None, t_unit = None,
     t_postings = [posting SYSTEM_ISSUANCE (- x), posting (u_account u) x],
     t_money_epoch = Some 0, t_decimals = Some 4, t_gift_request = None, t_art = None\<rparr>"

definition home5 :: ledger where
  "home5 = home0\<lparr>clock := - 34559995, revision := 2, users := [nana, ada, bob],
     transactions := [issued ''1'' (- 34559996) ada 1000 ''allowance'', issued ''2'' (- 34559995) bob 500 ''allowance''],
     next_txn := 3, next_id := 4, provisioned := True\<rparr>"

lemma home5_run: "snd (issue nana (u_account bob) 500 ''allowance'' home4) = home5"
  by (rule agree_eq) code_simp+

lemma household_reachable: "reachable home0" "reachable home4" "reachable home5"
proof -
  show h0: "reachable home0" unfolding home0_def by (rule reachable.start)
  have h1: "reachable home1" unfolding home1_def by (rule reachable.step [OF h0, of "Provision _ _ _ _"]) simp
  have h2: "reachable home2" unfolding home2_def by (rule reachable.step [OF h1, of "AddUser _ _ _ _"]) simp
  have h3: "reachable home3" unfolding home3_def by (rule reachable.step [OF h2, of "AddUser _ _ _ _"]) simp
  show h4: "reachable home4" unfolding home4_def by (rule reachable.step [OF h3, of "IssueOp _ _ _ _"]) simp
  show "reachable home5"
    unfolding home5_run [symmetric] by (rule reachable.step [OF h4, of "IssueOp _ _ _ _"]) simp
qed

text \<open>An outcome that is a result, as the pair a theorem about the operation speaks of.\<close>

definition returned :: "'a res \<times> 'w \<Rightarrow> bool" where
  "returned p \<longleftrightarrow> (case fst p of Inl _ \<Rightarrow> False | Inr _ \<Rightarrow> True)"

lemma returned_eq: "returned p \<Longrightarrow> p = (Inr (projr (fst p)), snd p)"
  by (cases p) (auto simp: returned_def split: sum.splits)

section \<open>Business\<close>

definition bread :: listing_input where
  "bread = \<lparr>li_title = ''Bread'', li_description = [], li_price = 40, li_side = None, li_kind = None,
     li_currency = None, li_minor_units = None, li_economic_kind = Some Good, li_thing = None,
     li_quantity_milli = Some 1000, li_unit = Some Each, li_standard = None\<rparr>"

text \<open>Ada lists bread, Bob offers for it, Nana buys it.\<close>

definition market1 :: ledger where "market1 = snd (create_listing ada bread home5)"
definition market2 :: ledger where "market2 = snd (make_offer bob ''listing-4'' 35 ''today?'' market1)"
definition market3 :: ledger where "market3 = snd (issue nana (u_account nana) 200 ''float'' market2)"

definition sold_bread :: listing where
  "sold_bread = (make_listing ada bread 4 (- 34559994) (- 34559988))\<lparr>l_status := Sold,
     l_buyer := Some (u_account nana), l_buyer_name := Some ''Nana'', l_sold_tx := Some ''txn-4''\<rparr>"

definition bread_offer :: offer where
  "bread_offer = \<lparr>o_id = ''offer-5'', o_listing = ''listing-4'', o_listing_title = ''Bread'',
     o_listing_owner = u_account ada, o_listing_owner_name = ''Ada'', o_listing_side = Sell,
     o_offerer = u_account bob, o_offerer_name = ''Bob'', o_amount = 35, o_message = ''today?'',
     o_status = OfferOpen, o_created_at = - 34559992, o_updated_at = - 34559991, o_settled_tx = None\<rparr>"

definition bread_delivery :: fulfillment where
  "bread_delivery = \<lparr>f_transaction = ''txn-4'', f_provider = u_account ada, f_recipient = u_account nana,
     f_provider_name = ''Ada'', f_recipient_name = ''Nana'', f_description = ''Bread'', f_kind = Goods, f_status = Todo,
     f_updates = [\<lparr>fu_id = ''txn-4'', fu_at = - 34559989, fu_actor = u_account nana, fu_actor_name = ''Nana'',
       fu_status = Todo, fu_reason = []\<rparr>]\<rparr>"

definition bread_paid :: transaction where
  "bread_paid = (issued ''4'' (- 34559989) ada 40 ''Bread'')\<lparr>t_fulfillment := Some bread_delivery, t_kind := Purchase,
     t_reference := Some ''listing-4'', t_economic_kind := Some Good, t_thing := Some ''thing-demo-bread'',
     t_thing_name := Some ''Bread'', t_quantity_milli := Some 1000, t_unit := Some Each,
     t_postings := [posting (u_account nana) (- 40), posting (u_account ada) 40]\<rparr>"

definition market4 :: ledger where
  "market4 = home5\<lparr>clock := - 34559988, revision := 4, listings := [sold_bread], offers := [bread_offer],
     transactions := transactions home5 @ [issued ''3'' (- 34559990) nana 200 ''float'', bread_paid],
     next_txn := 5, next_id := 6\<rparr>"

lemma market4_run: "snd (purchase nana ''listing-4'' market3) = market4"
  by (rule agree_eq) code_simp+

lemma market_reachable: "reachable market3" "reachable market4"
proof -
  have m1: "reachable market1"
    unfolding market1_def by (rule reachable.step [OF household_reachable(3), of "CreateListing _ _"]) simp
  have m2: "reachable market2" unfolding market2_def by (rule reachable.step [OF m1, of "MakeOffer _ _ _ _"]) simp
  show m3: "reachable market3" unfolding market3_def by (rule reachable.step [OF m2, of "IssueOp _ _ _ _"]) simp
  show "reachable market4"
    unfolding market4_run [symmetric] by (rule reachable.step [OF m3, of "PurchaseOp _ _"]) simp
qed

section \<open>Its books are whole\<close>

text \<open>A sufficient condition that evaluates: no reform yet, and every entry balanced and whole.\<close>

definition whole :: "ledger \<Rightarrow> bool" where
  "whole w \<longleftrightarrow> money_epoch w = 0 \<and> epoch_exponents w = [0]
     \<and> list_all (\<lambda>t. epoch_of t = 0 \<and> js_sum (map p_amount (t_postings t)) = 0
          \<and> list_all (\<lambda>p. is_integer (p_amount p) \<and> \<bar>p_amount p\<bar> \<le> 9007199254740992) (t_postings t)) (transactions w)"

lemma whole_amounts:
  assumes "whole w" and "x \<in> set (journal_amounts a (epoch_exponents w) (transactions w))"
  shows "is_integer x"
proof -
  from assms obtain t p where t: "t \<in> set (transactions w)" "p \<in> set (t_postings t)"
    and x: "x = p_amount (current_posting (exponent_of [0] t) p)"
    by (auto simp: journal_amounts_def amounts_of_def current_postings_at_def whole_def)
  have "exponent_of [0] t = 0" by (simp add: exponent_of_def Let_def)
  moreover have "is_integer (p_amount p)" "\<bar>p_amount p\<bar> \<le> 9007199254740992"
    using assms(1) t by (auto simp: whole_def list_all_iff)
  ultimately show ?thesis by (simp add: x current_posting_def is_double_integer)
qed

lemma whole_money: "whole w \<Longrightarrow> wf_money w"
  unfolding wf_money_def wf_txn_def whole_def list_all_iff using is_double_integer by auto

lemma whole_books: "whole w \<Longrightarrow> books_ok w"
  using whole_amounts [of w] is_integer_js_sum [of 0] whole_money [of w]
  unfolding books_ok_def balance_of_def by (metis is_integer_of_int of_int_0)

lemma household_books: "books_ok home5"
  by (rule whole_books) code_simp

section \<open>A voucher, a reform, a loan\<close>

definition token :: string where "token = TOKEN_PREFIX @ to_hex (replicate 32 7)"

lemma voucher_created: "\<exists>ser w'. create_nickle ada 25 False (replicate 32 7) home5 = (Inr (token, 25, ser), w')"
proof -
  have "25 \<le> balance_of home5 (u_account ada)" by code_simp
  moreover have "is_double 25" using is_safeD(4) [of 25] by simp
  ultimately obtain t v where
    "append_txn Transfer (u_id ada) (''Create nana-nickle '' @ ''NN-'' @ show_nat (next_nickle home5))
      (payment_of (u_account ada) NICKLE_RESERVE 25)
      (no_opts\<lparr>op_reference := Some (''nickle:'' @ ''NN-'' @ show_nat (next_nickle home5))\<rparr>) home5 = (Inr t, v)"
    using payment_pays [of home5 "no_opts\<lparr>op_reference := Some (''nickle:'' @ ''NN-'' @ show_nat (next_nickle home5))\<rparr>"
      25 "u_account ada" Transfer "u_id ada" "''Create nana-nickle '' @ ''NN-'' @ show_nat (next_nickle home5)" NICKLE_RESERVE]
    by auto
  moreover have "nickles home5 = []" "require_active ada = None" "require_amount 25 = None" by code_simp+
  ultimately show ?thesis
    by (simp add: create_nickle_def Let_def guarded_def and_then_def throw_if_def token_def payment_of_def)
qed

lemma voucher_redeemed: "\<exists>w w' t. redeem_nickle bob token w = (Inr t, w')"
proof -
  obtain ser w' where c: "create_nickle ada 25 False (replicate 32 7) home5 = (Inr (token, 25, ser), w')"
    using voucher_created by blast
  have "0 \<le> balance_of home5 NICKLE_RESERVE" by code_simp
  moreover have "u_account ada \<noteq> NICKLE_RESERVE" "u_account bob \<noteq> NICKLE_RESERVE" "u_id bob \<noteq> u_id ada"
    "u_status bob = UserActive" by code_simp+
  ultimately show ?thesis using create_then_redeem [OF household_books c, of bob] by auto
qed

text \<open>One decimal fewer: every amount is divided by ten.\<close>

definition half_power :: reform_input where
  "half_power = \<lparr>ri_decimals = 3, ri_power = 0, ri_expected_epoch = 0, ri_expected_sequence = revision home5,
     ri_preview = False\<rparr>"

definition bob_terms :: loan_offer_input where
  "bob_terms = \<lparr>in_borrower = u_account bob, in_amount = 1000, in_rate_bps = 100, in_rate_days = 7,
     in_payment_days = 7, in_installment = 100, in_credit = False, in_memo = ''roof''\<rparr>"

definition running_loan :: stored_loan where
  "running_loan = (fresh_loan ada bob bob_terms 0 False 1)\<lparr>ln_status := LoanActive, ln_principal := 1000,
     ln_next_due_at := 604800\<rparr>"

definition running_book :: lending where
  "running_book = \<lparr>le_loans = [running_loan], le_next_id = 2, le_blocked = {}\<rparr>"

section \<open>A lottery and an artwork\<close>

definition raffle :: lotto_terms where
  "raffle = \<lparr>lt_kind = Savings, lt_title = ''Raffle'', lt_ticket_price = 10, lt_closes_at = 5000, lt_rate_bps = 500\<rparr>"

definition raffle_draw :: draw where
  "raffle_draw = sold bob 1 40 2 (sold ada 3 30 1 \<lparr>d_view = fresh_lotto nana raffle 1, d_entries = []\<rparr>)"

definition lot1 :: ledger where "lot1 = home5\<lparr>lotto_draws := snd (lotto_create nana raffle 1000 [])\<rparr>"
definition lot2 :: ledger where "lot2 = snd (lotto_buy lotto_host ada 1 3 1000 lot1)"

definition poster :: commerce_action where
  "poster = MintArt ''Poster'' ''CC0'' (replicate 64 (CHR ''a'')) ''https://art.example/poster''"

definition art1 :: ledger where "art1 = snd (command commerce_host ada poster home5)"
definition art2 :: ledger where "art2 = snd (command commerce_host ada (ListArt 3 (Some 60)) art1)"

lemma poster_minted: "command commerce_host ada poster home5 = (Inr 3, art1)"
proof -
  have "case fst (command commerce_host ada poster home5) of Inr n \<Rightarrow> n = 3 | Inl _ \<Rightarrow> False" by code_simp
  then show ?thesis unfolding art1_def by (cases "command commerce_host ada poster home5") (auto split: sum.splits)
qed

lemma lot2_draws: "lotto_draws lot2 = [sold ada 3 30 1 \<lparr>d_view = fresh_lotto nana raffle 1, d_entries = []\<rparr>]"
  by code_simp

lemma lot2_wf: "wf_draws (lotto_draws lot2)"
  unfolding lot2_draws by code_simp

text \<open>The bread was sold to Nana, and Bob's offer for it is accepted afterwards.\<close>

lemma bread_sold: "map (\<lambda>l. (l_status l, l_buyer l)) (listings market4) = [(Sold, Some (u_account nana))]"
  by code_simp

lemma bread_sold_again: "case accept_offer ada ''offer-5'' market4 of
    (Inr _, w) \<Rightarrow> map (\<lambda>l. (l_status l, l_buyer l)) (listings w) = [(Sold, Some (u_account bob))] | _ \<Rightarrow> False"
  by code_simp

end
