(* ===== verification/ClientDemo.thy ===== *)
theory ClientDemo
  imports ClientLedger DemoSafety Household
begin

text \<open>
  The page and the demo's server put together: what a client method sends, routed by the server, is the
  ledger operation of that name with the client's own arguments.
\<close>

section \<open>Signed in\<close>

definition signed_in :: "client \<Rightarrow> backend \<Rightarrow> user \<Rightarrow> bool" where
  "signed_in c st me \<longleftrightarrow> cl_base c = SAME_ORIGIN \<and> (\<exists>t i. active_token (cl_accounts c) = Some t \<and> t \<noteq> []
     \<and> map_of (be_sessions st) t = Some i \<and> user_by_id (be_ledger st) i = Some me)"

lemma bearer_of_client:
  assumes "send c m path b key = Inr rq" and "active_token (cl_accounts c) = Some t" and "t \<noteq> []"
  shows "bearer rq = Some t"
  using assms by (auto simp: send_def bearer_def bearer_header_def starts_with_def split: if_splits)

lemma current_of_client:
  assumes "send c m path b key = Inr rq" and "signed_in c st me"
  shows "current rq k st = k me st"
proof -
  obtain t i where t: "active_token (cl_accounts c) = Some t" "t \<noteq> []" "map_of (be_sessions st) t = Some i"
      "user_by_id (be_ledger st) i = Some me"
    using assms(2) unfolding signed_in_def by blast
  show ?thesis using bearer_of_client [OF assms(1) t(1,2)] t by (simp add: current_def)
qed

lemma after_api: "after_first ''/api/v1'' (SAME_ORIGIN @ path) = Some path"
  by (simp add: SAME_ORIGIN_def)

lemma before_none: "after_first p s = None \<Longrightarrow> before_first p s = s"
  by (induction p s rule: before_first.induct) (auto split: if_splits)

lemma rq_path_client:
  assumes "send c m path b key = Inr rq" and "cl_base c = SAME_ORIGIN"
    and "after_first ''/api/v1'' path = None" and "after_first ''?'' path = None"
  shows "rq_path rq = path" "rq_method rq = m" "rq_body rq = b"
  using assms by (auto simp: send_def rq_path_def after_api before_none split: if_splits)

section \<open>Transfers\<close>

definition economic_arg :: "economic_input \<Rightarrow> economic" where
  "economic_arg e = \<lparr>ec_kind = ei_kind e, ec_thing = ei_thing e,
     ec_quantity = quantity_milli (Some (JStr (ei_quantity e))), ec_unit = ei_unit e\<rparr>"

lemma kind_names: "map_of economic_kinds (kind_name k) = Some k" "kind_name k \<noteq> []"
  by (cases k; simp add: economic_kinds_def kind_name_def)+

lemma unit_names: "map_of economic_units (unit_name u) = Some u"
  by (cases u; simp add: economic_units_def unit_name_def)

lemma transfer_fields:
  assumes "b = Fields ([(''to'', JStr recipient), (''amount'', JNum amount), (''memo'', JStr memo)] @ economic_fields e)"
  shows "text_or [] b ''to'' = recipient" "num_field b ''amount'' = amount" "text_or [] b ''memo'' = memo"
    "economic_of b = Inr (map_option economic_arg e)"
proof -
  show "text_or [] b ''to'' = recipient" "num_field b ''amount'' = amount" "text_or [] b ''memo'' = memo"
    by (simp_all add: assms text_or_def text_field_def field_def num_field_def json_number_def)
  show "economic_of b = Inr (map_option economic_arg e)"
    by (cases e; cases "ei_thing (the e)")
       (simp_all add: assms economic_of_def economic_fields_def opt_field_def field_def text_field_def chosen_def
          truthy_json_def kind_names unit_names economic_arg_def)
qed

lemma route_append: "\<not> list_ex fst rs \<Longrightarrow> route (rs @ ts) k = route ts k"
  by (induction rs k rule: route.induct) auto

lemma handle_transfer:
  assumes "c_transfer c recipient amount memo key e = Inr rq" and "signed_in c st me"
  shows "handle rnd rq st = act_on ATransaction (transfer me recipient amount memo (map_option economic_arg e)) st"
proof -
  note s = assms(1) [unfolded c_transfer_def post_request_def]
  have b: "cl_base c = SAME_ORIGIN" using assms(2) by (simp add: signed_in_def)
  have p: "rq_path rq = ''/transfers''" "rq_method rq = POST" and
    body: "rq_body rq = Fields ([(''to'', JStr recipient), (''amount'', JNum amount), (''memo'', JStr memo)] @ economic_fields e)"
    using rq_path_client [OF s b] by simp_all
  have o: "\<not> list_ex fst (open_routes rnd rq)"
    by (simp add: open_routes_def Let_def p is_screen_def)
  have f: "\<not> list_ex fst (finance_routes rnd rq u)" "\<not> list_ex fst (member_routes rnd rq u)" for u
    by (simp_all add: finance_routes_def member_routes_def loan_route_def Let_def p is_tickets_def framed_def
        starts_with_def segment_def)
  have m: "route (money_routes rq u @ rest) k = transfer_route u (rq_body rq)" for u rest k
    by (simp add: money_routes_def Let_def p framed_def framed_rest_def starts_with_def)
  have "handle rnd rq st = transfer_route me (rq_body rq) st"
    by (simp add: handle_def route_none [OF o] current_of_client [OF s assms(2)] route_append f m)
  then show ?thesis by (simp add: transfer_route_def transfer_fields [OF body])
qed

end
