(* ===== verification/Calendar.thy ===== *)
theory Calendar
  imports JsString
begin

text \<open>
  The proleptic Gregorian calendar of \<open>Date\<close>: the year, month and day of a day counted from 1970-01-01,
  and the day on which a month begins. \<open>utc_day\<close> is \<open>Date.UTC\<close> in whole days, \<open>iso_date\<close> the date part of
  \<open>toISOString\<close>.
\<close>

section \<open>Days\<close>

definition day_of_era :: "int \<Rightarrow> int" where "day_of_era day = (day + 719468) mod 146097"

definition year_of_era :: "int \<Rightarrow> int" where
  "year_of_era day = (let d = day_of_era day in (d - d div 1460 + d div 36524 - d div 146096) div 365)"

definition day_of_year :: "int \<Rightarrow> int" where
  "day_of_year day = (let y = year_of_era day in day_of_era day - (365 * y + y div 4 - y div 100))"

definition month_from_march :: "int \<Rightarrow> int" where "month_from_march day = (5 * day_of_year day + 2) div 153"

definition day_of_month :: "int \<Rightarrow> int" where
  "day_of_month day = day_of_year day - (153 * month_from_march day + 2) div 5 + 1"

text \<open>The years are counted from the first of March: January and February belong to the one that began before.\<close>

definition leap_year :: "int \<Rightarrow> bool" where
  "leap_year y \<longleftrightarrow> y mod 4 = 0 \<and> (y mod 100 \<noteq> 0 \<or> y mod 400 = 0)"

definition civil_month :: "int \<Rightarrow> int" where
  "civil_month day = (if month_from_march day < 10 then month_from_march day + 3 else month_from_march day - 9)"

definition civil_year :: "int \<Rightarrow> int" where
  "civil_year day = year_of_era day + (day + 719468) div 146097 * 400 + (if civil_month day \<le> 2 then 1 else 0)"

text \<open>The day on which month \<open>m\<close> (counted from 0) of a year begins, months beyond the year running on.\<close>

definition month_start :: "int \<Rightarrow> int \<Rightarrow> int" where
  "month_start year m =
     (let y0 = year + m div 12; month = m mod 12 + 1; y = (if month \<le> 2 then y0 - 1 else y0);
          yoe = y mod 400; mp = (if month > 2 then month - 3 else month + 9);
          doy = (153 * mp + 2) div 5 in
      y div 400 * 146097 + (yoe * 365 + yoe div 4 - yoe div 100 + doy) - 719468)"

section \<open>Dates as text\<close>

text \<open>\<open>Date.UTC(y, m, d)\<close>, the month counted from 0: a year from 0 to 99 is one of the twentieth century.\<close>

definition utc_day :: "int \<Rightarrow> int \<Rightarrow> int \<Rightarrow> int" where
  "utc_day y m d = month_start (if 0 \<le> y \<and> y \<le> 99 then 1900 + y else y) m + d - 1"

definition two_digits :: "int \<Rightarrow> string" where
  "two_digits n = pad_start 2 (CHR ''0'') (show_nat (nat n))"

definition iso_year :: "int \<Rightarrow> string" where
  "iso_year y = (if 0 \<le> y \<and> y \<le> 9999 then pad_start 4 (CHR ''0'') (show_nat (nat y))
     else (if y < 0 then ''-'' else ''+'') @ pad_start 6 (CHR ''0'') (show_nat (nat \<bar>y\<bar>)))"

definition iso_date :: "int \<Rightarrow> string" where
  "iso_date day = take 10 (iso_year (civil_year day) @ ''-'' @ two_digits (civil_month day) @ ''-'' @ two_digits (day_of_month day))"

text \<open>\<open>a < b\<close> on strings.\<close>

fun str_less :: "string \<Rightarrow> string \<Rightarrow> bool" where
  "str_less s [] = False"
| "str_less [] (c # t) = True"
| "str_less (b # s) (c # t) = ((of_char b :: nat) < of_char c \<or> (b = c \<and> str_less s t))"

definition str_le :: "string \<Rightarrow> string \<Rightarrow> bool" where
  "str_le s t \<longleftrightarrow> \<not> str_less t s"

end
