(* ===== verification/ChartSeries.thy ===== *)
theory ChartSeries
  imports LedgerState Http Calendar
begin

text \<open>
  \<open>economy/series.ts\<close>: the lines the Economy page draws from a list of transactions. \<open>Date\<close> in local
  time is civil-calendar arithmetic at a fixed offset \<open>zone\<close> (seconds east of UTC; a zone whose offset
  changes within a bucket is outside the model), and \<open>before\<close> is \<open>localeCompare\<close>. A stable sort by a
  tie-break, then by time, is the source's comparison. A line that is rebuilt backwards from what the
  server reports ends there, whatever the window holds.
\<close>

section \<open>Points\<close>

record point =
  pt_at :: int
  pt_value :: num

record series =
  sr_name :: string
  sr_points :: "point list"

datatype bucket = Day | Week | Month | Year

definition point_at :: "int \<times> num \<Rightarrow> point" where
  "point_at p = \<lparr>pt_at = fst p, pt_value = snd p\<rparr>"

definition txn_sequence :: "transaction_view \<Rightarrow> num" where
  "txn_sequence t = (case js_number (after_last (CHR ''-'') (t_id t)) of Some n \<Rightarrow> n | None \<Rightarrow> 0)"

definition by_commit_order :: "transaction_view list \<Rightarrow> transaction_view list" where
  "by_commit_order ts = sort_key t_created_at (sort_key txn_sequence ts)"

definition sorted_points :: "(int \<times> num) list \<Rightarrow> point list" where
  "sorted_points totals = map point_at (sort_key fst totals)"

section \<open>Local calendar\<close>

text \<open>The days since the first of January; the calendar's own years begin in March.\<close>

definition days_into_year :: "int \<Rightarrow> int" where
  "days_into_year day = (if 10 \<le> month_from_march day then day_of_year day - 306
     else day_of_year day + 59 + (if leap_year (year_of_era day) then 1 else 0))"

definition bucket_start :: "int \<Rightarrow> int \<Rightarrow> bucket \<Rightarrow> int" where
  "bucket_start zone t b =
     (let day = (t + zone) div 86400;
          start = (case b of
              Day \<Rightarrow> day
            | Week \<Rightarrow> day - (day + 4 + 6) mod 7
            | Month \<Rightarrow> day - (day_of_month day - 1)
            | Year \<Rightarrow> day - days_into_year day) in
      start * 86400 - zone)"

section \<open>Amounts\<close>

definition positive_sum :: "transaction_view \<Rightarrow> num" where
  "positive_sum t = js_sum (map p_amount (filter (\<lambda>p. p_amount p > 0) (t_postings t)))"

definition account_delta :: "string \<Rightarrow> transaction_view \<Rightarrow> num" where
  "account_delta account t = js_sum (map p_amount (filter (\<lambda>p. p_account p = account) (t_postings t)))"

definition supply_delta :: "transaction_view \<Rightarrow> num" where
  "supply_delta t = foldl (\<lambda>d p. if p_account p = SYSTEM_ISSUANCE then js_sub d (p_amount p) else d) 0 (t_postings t)"

definition add_to :: "int \<Rightarrow> num \<Rightarrow> (int \<times> num) list \<Rightarrow> (int \<times> num) list" where
  "add_to k x totals = AList.update k (js_add (case map_of totals k of Some y \<Rightarrow> y | None \<Rightarrow> 0) x) totals"

section \<open>Activity\<close>

definition gdp_value :: "transaction_view \<Rightarrow> num" where
  "gdp_value t =
     (let included = (t_economic_kind t = Some Labor \<or> t_economic_kind t = Some Good) in
      if included \<and> (t_kind t = Transfer \<or> t_kind t = Purchase) then positive_sum t
      else if included \<and> t_kind t = Reversal then - positive_sum t
      else 0)"

definition gdp_series :: "int \<Rightarrow> transaction_view list \<Rightarrow> bucket \<Rightarrow> series" where
  "gdp_series zone ts b = \<lparr>sr_name = ''GDP'', sr_points = sorted_points (foldl (\<lambda>totals t.
      if gdp_value t = 0 then totals else add_to (bucket_start zone (t_created_at t) b) (gdp_value t) totals) [] ts)\<rparr>"

definition interest_value :: "string option \<Rightarrow> transaction_view \<Rightarrow> num" where
  "interest_value account t =
     (if t_economic_kind t \<noteq> Some Interest \<or> t_kind t \<notin> {Transfer, Reversal, Issue} then 0
      else if truthy_str account then account_delta (the account) t
      else js_mul (if t_kind t = Reversal then - 1 else 1) (positive_sum t))"

definition interest_series :: "int \<Rightarrow> transaction_view list \<Rightarrow> bucket \<Rightarrow> string option \<Rightarrow> series" where
  "interest_series zone ts b account =
     \<lparr>sr_name = (if truthy_str account then ''Net interest income'' else ''Interest paid''),
      sr_points = sorted_points (foldl (\<lambda>totals t. if interest_value account t = 0 then totals
        else add_to (bucket_start zone (t_created_at t) b) (interest_value account t) totals) [] ts)\<rparr>"

section \<open>Employment and gifts\<close>

record employment =
  em_employed :: nat
  em_labor_pool :: nat
  em_rate :: num
  em_labor_payments :: num
  em_average_payment :: num

definition undone :: "transaction_view \<Rightarrow> bool" where
  "undone t \<longleftrightarrow> truthy_str (tv_reversed_by t) \<or> t_kind t = Reversal"

definition payee_of :: "string list \<Rightarrow> transaction_view \<Rightarrow> posting option" where
  "payee_of eligible t = (if t_economic_kind t \<noteq> Some Labor \<or> undone t then None
     else find (\<lambda>p. p_amount p > 0 \<and> p_account p \<in> set eligible) (t_postings t))"

definition employment_snapshot :: "int \<Rightarrow> transaction_view list \<Rightarrow> string list \<Rightarrow> int \<Rightarrow> employment" where
  "employment_snapshot zone ts eligible t =
     (let start = bucket_start zone t Week;
          paid = List.map_filter (payee_of eligible) (filter (\<lambda>t. \<not> t_created_at t < start) ts);
          employed = length (remdups (map p_account paid)); pool = length (remdups eligible);
          payments = js_sum (map p_amount paid) in
      \<lparr>em_employed = employed, em_labor_pool = pool,
       em_rate = (if pool = 0 then 0 else js_div (of_nat employed) (of_nat pool)),
       em_labor_payments = payments,
       em_average_payment = (if paid = [] then 0 else js_div payments (of_nat (length paid)))\<rparr>)"

definition employment_series :: "int \<Rightarrow> transaction_view list \<Rightarrow> string list \<Rightarrow> bucket \<Rightarrow> series" where
  "employment_series zone ts eligible b =
     (let pool = length (remdups eligible);
          earners = foldl (\<lambda>m t. let k = bucket_start zone (t_created_at t) b;
              seen = (case map_of m k of Some xs \<Rightarrow> xs | None \<Rightarrow> []) in
            AList.update k (case payee_of eligible t of None \<Rightarrow> seen | Some p \<Rightarrow> List.insert (p_account p) seen) m) [] ts in
      \<lparr>sr_name = ''Employment rate'', sr_points = map (\<lambda>(k, people). \<lparr>pt_at = k,
         pt_value = (if pool = 0 then 0 else js_div (js_mul (of_nat (length people)) 100) (of_nat pool))\<rparr>)
       (sort_key fst earners)\<rparr>)"

definition gifts_this_week :: "int \<Rightarrow> transaction_view list \<Rightarrow> int \<Rightarrow> num" where
  "gifts_this_week zone ts t = js_sum (map positive_sum
     (filter (\<lambda>x. t_created_at x \<ge> bucket_start zone t Week \<and> t_economic_kind x = Some Gift \<and> \<not> undone x) ts))"

section \<open>Prices\<close>

record observation =
  ob_name :: string
  ob_unit :: economic_unit
  ob_at :: int
  ob_price :: num

record price_change =
  pc_thing :: string
  pc_unit :: economic_unit
  pc_previous :: num
  pc_latest :: num
  pc_percent :: num

definition observed :: "transaction_view \<Rightarrow> bool" where
  "observed t \<longleftrightarrow> t_economic_kind t = Some Good \<and> truthy_str (t_thing t) \<and> truthy_num (t_quantity_milli t) \<and> \<not> undone t"

definition observation_of :: "transaction_view \<Rightarrow> observation" where
  "observation_of t =
     \<lparr>ob_name = (case t_thing_name t of Some n \<Rightarrow> n | None \<Rightarrow> t_description t),
      ob_unit = (case t_unit t of Some u \<Rightarrow> u | None \<Rightarrow> Each), ob_at = t_created_at t,
      ob_price = js_div (js_mul (positive_sum t) 1000) (the (t_quantity_milli t))\<rparr>"

definition by_thing :: "transaction_view list \<Rightarrow> (string \<times> observation list) list" where
  "by_thing ts = foldl (\<lambda>m t. if \<not> observed t then m else let k = the (t_thing t) in
     AList.update k ((case map_of m k of Some xs \<Rightarrow> xs | None \<Rightarrow> []) @ [observation_of t]) m) [] ts"

definition last_change :: "observation list \<Rightarrow> price_change list" where
  "last_change obs = (if length obs < 2 then [] else
     let xs = sort_key ob_at obs; previous = xs ! (length xs - 2); latest = last xs in
     [\<lparr>pc_thing = ob_name latest, pc_unit = ob_unit latest, pc_previous = ob_price previous,
       pc_latest = ob_price latest,
       pc_percent = (if ob_price previous = 0 then 0
         else js_div (js_sub (ob_price latest) (ob_price previous)) (ob_price previous))\<rparr>])"

fun insert_by :: "('a \<Rightarrow> 'a \<Rightarrow> bool) \<Rightarrow> 'a \<Rightarrow> 'a list \<Rightarrow> 'a list" where
  "insert_by before x [] = [x]"
| "insert_by before x (y # ys) = (if before y x then y # insert_by before x ys else x # y # ys)"

definition repeat_price_changes :: "(string \<Rightarrow> string \<Rightarrow> bool) \<Rightarrow> transaction_view list \<Rightarrow> price_change list" where
  "repeat_price_changes before ts =
     foldr (insert_by (\<lambda>a b. before (pc_thing a) (pc_thing b))) (concat (map (last_change \<circ> snd) (by_thing ts))) []"

fun price_steps :: "observation list \<Rightarrow> (int \<times> num) list" where
  "price_steps (a # b # xs) =
     (if ob_price a = 0 then [] else [(ob_at b, js_div (js_mul (js_sub (ob_price b) (ob_price a)) 100) (ob_price a))])
     @ price_steps (b # xs)"
| "price_steps _ = []"

definition inflation_series :: "int \<Rightarrow> transaction_view list \<Rightarrow> bucket \<Rightarrow> series" where
  "inflation_series zone ts b =
     (let steps = concat (map (price_steps \<circ> sort_key ob_at \<circ> snd) (by_thing ts));
          changes = foldl (\<lambda>m (t, x). let k = bucket_start zone t b in
            AList.update k ((case map_of m k of Some xs \<Rightarrow> xs | None \<Rightarrow> []) @ [x]) m) [] steps in
      \<lparr>sr_name = ''Repeat-sale inflation'', sr_points = map (\<lambda>(k, xs). \<lparr>pt_at = k,
         pt_value = js_div (js_sum xs) (of_nat (length xs))\<rparr>) (sort_key fst changes)\<rparr>)"

section \<open>Lines rebuilt from today\<close>

text \<open>The points after each transaction; \<open>skip\<close> leaves out those that change nothing.\<close>

fun running_points :: "bool \<Rightarrow> num \<Rightarrow> (int \<times> num) list \<Rightarrow> point list" where
  "running_points skip x [] = []"
| "running_points skip x ((t, d) # ds) =
     (if skip \<and> d = 0 then running_points skip x ds
      else \<lparr>pt_at = t, pt_value = js_add x d\<rparr> # running_points skip (js_add x d) ds)"

definition line_from :: "bool \<Rightarrow> (int \<times> num) list \<Rightarrow> num \<Rightarrow> point list" where
  "line_from skip ds closing =
     (let opening = foldl js_sub closing (map snd ds) in
      (case ds of [] \<Rightarrow> [] | (t, _) # _ \<Rightarrow> [\<lparr>pt_at = t, pt_value = opening\<rparr>]) @ running_points skip opening ds)"

definition money_supply_series :: "transaction_view list \<Rightarrow> num \<Rightarrow> series" where
  "money_supply_series ts closing = \<lparr>sr_name = ''Money supply'',
     sr_points = line_from True (map (\<lambda>t. (t_created_at t, supply_delta t)) (by_commit_order ts)) closing\<rparr>"

definition balance_series :: "transaction_view list \<Rightarrow> string \<Rightarrow> num \<Rightarrow> string \<Rightarrow> series" where
  "balance_series ts account closing name = \<lparr>sr_name = name,
     sr_points = line_from False (map (\<lambda>t. (t_created_at t, account_delta account t))
       (by_commit_order (filter (\<lambda>t. list_ex (\<lambda>p. p_account p = account) (t_postings t)) ts))) closing\<rparr>"

end
