(* ===== verification/MarketPlan.thy ===== *)
theory MarketPlan
  imports ChartSeries
begin

text \<open>
  \<open>nana/market-maker-plan.ts\<close>: Nana as market maker, a few ladders turned into a checked list of ordinary
  calls. The amounts the source hands to \<open>BigInt\<close> are integers (a fraction throws there); local time is
  at the fixed offset \<open>zone\<close>. The double quotes around a lotto's title are the characters 147 and 148. A
  plan without errors stays within the board's capacity, and every price of the batch at which Nana buys is
  below every price of the batch at which she sells; her open quotes that a batch does not replace are not
  compared with it.
\<close>

section \<open>Input and plan\<close>

definition QUOTE_CAPACITY :: nat where "QUOTE_CAPACITY = 16"
definition LOAN_CAPACITY :: nat where "LOAN_CAPACITY = 32"
definition LOTTO_CAPACITY :: nat where "LOTTO_CAPACITY = 16"
definition QUOTE_RESERVE :: nat where "QUOTE_RESERVE = 4"
definition LOAN_RESERVE :: nat where "LOAN_RESERVE = 8"
definition LOTTO_RESERVE :: nat where "LOTTO_RESERVE = 2"

record price_tier =
  tr_share_bps :: int
  tr_cents :: int

record loan_tier =
  ti_label :: string
  ti_share_bps :: int
  ti_rate_bps :: num

record lotto_series =
  ls_count :: num
  ls_first_close :: num
  ls_kind :: lotto_kind
  ls_ticket_price :: num
  ls_rate_bps :: num
  ls_title :: string

record forex_input =
  fx_bids :: "price_tier list"
  fx_asks :: "price_tier list"
  fx_expires_at :: num
  fx_replace :: bool
  fx_top_up_usd :: bool
  fx_top_up_coins :: bool

record lending_input =
  le_borrowers :: "(string \<times> string) list"
  le_tiers :: "loan_tier list"
  le_payment_days :: int
  le_replace :: bool

record market_input =
  mi_circulation :: int
  mi_scale :: int
  mi_account :: string
  mi_balance :: num
  mi_usd_cents :: num
  mi_now :: int
  mi_quotes :: "quote list"
  mi_loans :: "loan list"
  mi_lottos :: "lotto list"
  mi_forex :: "forex_input option"
  mi_lending :: "lending_input option"
  mi_lotto :: "lotto_series option"

datatype plan_step =
    PlanCancel string string
  | PlanClose string nat
  | PlanIssue string num
  | PlanUsd string num
  | PlanQuote string quote_side int num "num option"
  | PlanLoan string loan_offer_input
  | PlanLotto string lotto_terms

record plan =
  pl_steps :: "plan_step list"
  pl_errors :: "string list"
  pl_warnings :: "string list"
  pl_bid_cents :: num
  pl_ask_coins :: num
  pl_loan_coins :: num
  pl_lottos :: num

section \<open>Amounts\<close>

definition share_of :: "int \<Rightarrow> int \<Rightarrow> int \<Rightarrow> num" where
  "share_of circ bps scale = (let whole = big_div (big_div (max circ 0 * bps) 10000) scale in
     of_bigint ((if whole < 1 then 1 else whole) * scale))"

definition quote_cents :: "num \<Rightarrow> int \<Rightarrow> int \<Rightarrow> num" where
  "quote_cents coins cents scale = of_bigint (big_div (\<lfloor>coins\<rfloor> * cents) scale)"

definition dollars :: "int \<Rightarrow> string" where
  "dollars cents = (if cents < 0 then ''$-'' else ''$'') @ show_nat (nat \<bar>cents\<bar> div 100) @ ''.''
     @ pad_start 2 (CHR ''0'') (show_nat (nat \<bar>cents\<bar> mod 100))"

section \<open>Months\<close>

definition add_months :: "int \<Rightarrow> int \<Rightarrow> int \<Rightarrow> int" where
  "add_months zone t months =
     (let day = (t + zone) div 86400; clock = (t + zone) mod 86400;
          m = civil_month day - 1 + months; first = month_start (civil_year day) m;
          length_of = month_start (civil_year day) (m + 1) - first in
      (first + min (day_of_month day) length_of - 1) * 86400 + clock div 60 * 60 - zone)"

definition month_names :: "string list" where
  "month_names = [''January'', ''February'', ''March'', ''April'', ''May'', ''June'', ''July'', ''August'',
     ''September'', ''October'', ''November'', ''December'']"

definition month_name :: "int \<Rightarrow> int \<Rightarrow> string" where
  "month_name zone t = (let day = (t + zone) div 86400 in
     month_names ! nat (civil_month day - 1) @ '' '' @ show_nat (nat (civil_year day)))"

section \<open>Dollars\<close>

definition tier_coins :: "market_input \<Rightarrow> price_tier \<Rightarrow> num" where
  "tier_coins i t = share_of (mi_circulation i) (tr_share_bps t) (mi_scale i)"

definition bid_cents :: "market_input \<Rightarrow> forex_input \<Rightarrow> num" where
  "bid_cents i f = js_sum (map (\<lambda>t. quote_cents (tier_coins i t) (tr_cents t) (mi_scale i)) (fx_bids f))"

definition ask_coins :: "market_input \<Rightarrow> forex_input \<Rightarrow> num" where
  "ask_coins i f = js_sum (map (tier_coins i) (fx_asks f))"

definition quotes_after :: "market_input \<Rightarrow> forex_input \<Rightarrow> nat" where
  "quotes_after i f = length (filter (\<lambda>q. q_status q = QuoteOpen \<and> \<not> (fx_replace f \<and> q_maker q = mi_account i)) (mi_quotes i))
     + length (fx_bids f) + length (fx_asks f)"

definition best_bid :: "forex_input \<Rightarrow> int" where
  "best_bid f = foldl max 0 (map tr_cents (fx_bids f))"

definition best_ask :: "forex_input \<Rightarrow> int option" where
  "best_ask f = (case map tr_cents (fx_asks f) of [] \<Rightarrow> None | x # xs \<Rightarrow> Some (foldl min x xs))"

definition crossed :: "forex_input \<Rightarrow> bool" where
  "crossed f \<longleftrightarrow> fx_bids f \<noteq> [] \<and> (case best_ask f of None \<Rightarrow> False | Some a \<Rightarrow> best_bid f \<ge> a)"

definition usd_short :: "market_input \<Rightarrow> forex_input \<Rightarrow> num" where
  "usd_short i f = js_sub (bid_cents i f) (mi_usd_cents i)"

definition coin_short :: "market_input \<Rightarrow> forex_input \<Rightarrow> num" where
  "coin_short i f = js_sub (ask_coins i f) (mi_balance i)"

definition forex_errors :: "market_input \<Rightarrow> forex_input \<Rightarrow> string list" where
  "forex_errors i f =
     (if list_ex (\<lambda>t. tr_cents t < 1) (fx_bids f) \<or> list_ex (\<lambda>t. tr_cents t < 1) (fx_asks f)
      then [''Every price must be at least 1 cent.''] else [])
     @ (if crossed f then [''Nana's highest buy price ('' @ dollars (best_bid f)
          @ '') must be lower than her lowest sell price ('' @ dollars (the (best_ask f))
          @ ''). Otherwise anyone could buy from Nana and sell straight back for free money.''] else [])
     @ (if quotes_after i f > QUOTE_CAPACITY then [''The board holds '' @ show_nat QUOTE_CAPACITY
          @ '' open exchange offers. This batch would need '' @ show_nat (quotes_after i f)
          @ ''. Use fewer rungs or replace Nana's old offers.''] else [])
     @ (if usd_short i f > 0 \<and> \<not> fx_top_up_usd f then [''Nana needs '' @ dollars \<lfloor>usd_short i f\<rfloor>
          @ '' more in dollars to back every buy offer. Record the dollars she holds, or shrink the ladder.''] else [])
     @ (if coin_short i f > 0 \<and> \<not> fx_top_up_coins f
        then [''Nana does not hold enough coins to back every sell offer. Issue coins to Nana, or shrink the sell ladder.''] else [])"

fun rising :: "int list \<Rightarrow> nat" where
  "rising (a # b # xs) = (if b > a then 1 else 0) + rising (b # xs)"
| "rising _ = 0"

definition forex_warnings :: "market_input \<Rightarrow> forex_input \<Rightarrow> string list" where
  "forex_warnings i f =
     replicate (rising (map tr_cents (fx_bids f)))
       ''Buy prices usually go down rung by rung, so a big cash-out costs more than a small one.''
     @ (if quotes_after i f \<le> QUOTE_CAPACITY \<and> QUOTE_CAPACITY - quotes_after i f < QUOTE_RESERVE
        then [''Only '' @ show_nat (QUOTE_CAPACITY - quotes_after i f) @ '' exchange slots would be left for everyone else.''] else [])"

definition quote_step :: "market_input \<Rightarrow> forex_input \<Rightarrow> quote_side \<Rightarrow> price_tier \<Rightarrow> plan_step" where
  "quote_step i f side t = PlanQuote
     ((if side = Bid then ''Nana buys coins at '' else ''Nana sells coins at '') @ dollars (tr_cents t) @ '' each'')
     side (tr_cents t) (tier_coins i t) (if fx_expires_at f \<noteq> 0 then Some (fx_expires_at f) else None)"

definition forex_steps :: "market_input \<Rightarrow> forex_input \<Rightarrow> plan_step list" where
  "forex_steps i f =
     (if fx_replace f then map (\<lambda>q. PlanCancel (''Withdraw old '' @ (if q_side q = Bid then ''buy'' else ''sell'')
          @ '' offer at '' @ dollars \<lfloor>q_cents_per_coin q\<rfloor>) (q_id q))
        (filter (\<lambda>q. q_maker q = mi_account i \<and> q_status q = QuoteOpen) (mi_quotes i)) else [])
     @ (if usd_short i f > 0 \<and> fx_top_up_usd f then [PlanUsd (''Record '' @ dollars \<lfloor>usd_short i f\<rfloor>
          @ '' of real dollars Nana is holding'') (usd_short i f)] else [])
     @ (if coin_short i f > 0 \<and> fx_top_up_coins f
        then [PlanIssue ''Issue new coins to Nana so she can back her sell offers'' (coin_short i f)] else [])
     @ map (quote_step i f Bid) (fx_bids f) @ map (quote_step i f Ask) (fx_asks f)"

section \<open>Loans\<close>

definition tier_amount :: "market_input \<Rightarrow> loan_tier \<Rightarrow> num" where
  "tier_amount i t = share_of (mi_circulation i) (ti_share_bps t) (mi_scale i)"

definition loan_step :: "market_input \<Rightarrow> lending_input \<Rightarrow> string \<times> string \<Rightarrow> loan_tier \<Rightarrow> plan_step" where
  "loan_step i l = (\<lambda>(account, name) t.
     let amount = tier_amount i t;
         quarter = js_mul (of_int \<lceil>js_div (js_div amount 4) (of_int (mi_scale i))\<rceil>) (of_int (mi_scale i)) in
     PlanLoan (ti_label t @ '' loan offer to '' @ name)
       \<lparr>in_borrower = account, in_amount = amount, in_rate_bps = ti_rate_bps t, in_rate_days = 30,
        in_payment_days = le_payment_days l, in_installment = min amount quarter, in_credit = False,
        in_memo = ''Nana's standing loan '' @ [char_of (183 :: nat)] @ '' '' @ ti_label t\<rparr>)"

definition loan_coins :: "market_input \<Rightarrow> lending_input \<Rightarrow> num" where
  "loan_coins i l = js_sum (concat (map (\<lambda>_. map (tier_amount i) (le_tiers l)) (le_borrowers l)))"

definition loans_after :: "market_input \<Rightarrow> lending_input \<Rightarrow> nat" where
  "loans_after i l = length (filter (\<lambda>x. ln_status x \<notin> {Paid, LoanDeclined, LoanCancelled}
       \<and> \<not> (le_replace l \<and> ln_lender x = mi_account i \<and> ln_status x = Offered)) (mi_loans i))
     + length (le_borrowers l) * length (le_tiers l)"

definition lending_errors :: "market_input \<Rightarrow> lending_input \<Rightarrow> string list" where
  "lending_errors i l =
     (if le_borrowers l = [] then [''Pick at least one person who can borrow.''] else [])
     @ (if loans_after i l > LOAN_CAPACITY then [''The board holds '' @ show_nat LOAN_CAPACITY
          @ '' open loans. This batch would need '' @ show_nat (loans_after i l) @ ''. Pick fewer people or fewer loan sizes.''] else [])"

fun odd_tiers :: "loan_tier list \<Rightarrow> nat" where
  "odd_tiers (a # b # xs) =
     (if ti_share_bps b > ti_share_bps a \<and> ti_rate_bps b < ti_rate_bps a then 1 else 0) + odd_tiers (b # xs)"
| "odd_tiers _ = 0"

definition lending_warnings :: "market_input \<Rightarrow> lending_input \<Rightarrow> string list" where
  "lending_warnings i l =
     replicate (odd_tiers (le_tiers l)) ''A bigger loan usually costs more interest, not less.''
     @ (if loans_after i l \<le> LOAN_CAPACITY \<and> LOAN_CAPACITY - loans_after i l < LOAN_RESERVE
        then [''Only '' @ show_nat (LOAN_CAPACITY - loans_after i l) @ '' loan slots would be left for everyone else.''] else [])
     @ (if loan_coins i l > mi_balance i
        then [''If every loan offer were accepted at once, Nana would not have enough coins. Loans are checked when accepted, so the last ones would be refused until Nana has the coins.''] else [])"

definition lending_steps :: "market_input \<Rightarrow> lending_input \<Rightarrow> plan_step list" where
  "lending_steps i l =
     (if le_replace l then map (\<lambda>x. PlanClose (''Withdraw old loan offer to '' @ ln_borrower_name x) (ln_id x))
        (filter (\<lambda>x. ln_lender x = mi_account i \<and> ln_status x = Offered) (mi_loans i)) else [])
     @ concat (map (\<lambda>b. map (loan_step i l b) (le_tiers l)) (le_borrowers l))"

section \<open>Lottos\<close>

definition unfinished :: "market_input \<Rightarrow> nat" where
  "unfinished i = length (filter (\<lambda>x. lo_status x \<noteq> LottoSettled) (mi_lottos i))"

definition series_error :: "market_input \<Rightarrow> lotto_series \<Rightarrow> string option" where
  "series_error i s =
     (if \<not> is_integer (ls_count s) \<or> ls_count s < 1 \<or> ls_count s > 12 then Some ''Make between 1 and 12 lottos.''
      else if \<not> is_safe (ls_first_close s) \<or> ls_first_close s \<le> of_int (mi_now i)
      then Some ''Pick a first closing time in the future.'' else None)"

definition lotto_errors :: "market_input \<Rightarrow> lotto_series \<Rightarrow> string list" where
  "lotto_errors i s = (case series_error i s of Some e \<Rightarrow> [e] | None \<Rightarrow>
     (if ls_ticket_price s \<le> 0 then [''A ticket has to cost more than 0.''] else [])
     @ (if ls_kind s \<noteq> Simple \<and> (ls_rate_bps s < 0 \<or> ls_rate_bps s > 10000)
        then [''Interest has to be between 0 and 100 percent.''] else [])
     @ (if unfinished i + nat \<lfloor>ls_count s\<rfloor> > LOTTO_CAPACITY then [''The board holds '' @ show_nat LOTTO_CAPACITY
          @ '' lottos that are not finished. '' @ show_nat (unfinished i) @ '' are running, so at most ''
          @ show_nat (LOTTO_CAPACITY - unfinished i) @ '' more fit.''] else []))"

definition lotto_warnings :: "market_input \<Rightarrow> lotto_series \<Rightarrow> string list" where
  "lotto_warnings i s = (if series_error i s \<noteq> None then [] else
     (let n = unfinished i + nat \<lfloor>ls_count s\<rfloor> in
      if n \<le> LOTTO_CAPACITY \<and> LOTTO_CAPACITY - n < LOTTO_RESERVE
      then [''Only '' @ show_nat (LOTTO_CAPACITY - n) @ '' lotto slots would be left.''] else [])
     @ [''Every lotto in the series opens for tickets right away. The server has no later start date yet, so a child can buy a ticket for next December today.''])"

definition lotto_step :: "int \<Rightarrow> lotto_series \<Rightarrow> nat \<Rightarrow> plan_step" where
  "lotto_step zone s k =
     (let closes = add_months zone \<lfloor>ls_first_close s\<rfloor> (int k);
          named_title = (if trim (ls_title s) = [] then ''Monthly lotto'' else trim (ls_title s));
          title = take 80 (named_title @ '' '' @ [char_of (183 :: nat)] @ '' '' @ month_name zone closes) in
      PlanLotto (''Lotto '' @ [char_of (147 :: nat)] @ title @ [char_of (148 :: nat)])
        \<lparr>lt_kind = ls_kind s, lt_title = title, lt_ticket_price = ls_ticket_price s, lt_closes_at = of_int closes,
         lt_rate_bps = (if ls_kind s = Simple then 0 else ls_rate_bps s)\<rparr>)"

definition lotto_steps :: "int \<Rightarrow> market_input \<Rightarrow> lotto_series \<Rightarrow> plan_step list" where
  "lotto_steps zone i s = (if series_error i s \<noteq> None then [] else map (lotto_step zone s) [0..<nat \<lfloor>ls_count s\<rfloor>])"

section \<open>The plan\<close>

definition part :: "'a option \<Rightarrow> ('a \<Rightarrow> 'b list) \<Rightarrow> 'b list" where
  "part x f = (case x of None \<Rightarrow> [] | Some a \<Rightarrow> f a)"

definition amount_part :: "'a option \<Rightarrow> ('a \<Rightarrow> num) \<Rightarrow> num" where
  "amount_part x f = (case x of None \<Rightarrow> 0 | Some a \<Rightarrow> f a)"

definition plan_market :: "int \<Rightarrow> market_input \<Rightarrow> plan" where
  "plan_market zone i =
     \<lparr>pl_steps = part (mi_forex i) (forex_steps i) @ part (mi_lending i) (lending_steps i) @ part (mi_lotto i) (lotto_steps zone i),
      pl_errors = (if mi_circulation i \<le> 0 then [''There are no coins in circulation yet. Issue some coins first, so the ladders have something to scale to.''] else [])
        @ part (mi_forex i) (forex_errors i) @ part (mi_lending i) (lending_errors i) @ part (mi_lotto i) (lotto_errors i)
        @ (if mi_forex i = None \<and> mi_lending i = None \<and> mi_lotto i = None then [''Turn on at least one kind of offer.''] else []),
      pl_warnings = part (mi_forex i) (forex_warnings i) @ part (mi_lending i) (lending_warnings i) @ part (mi_lotto i) (lotto_warnings i),
      pl_bid_cents = amount_part (mi_forex i) (bid_cents i), pl_ask_coins = amount_part (mi_forex i) (ask_coins i),
      pl_loan_coins = amount_part (mi_lending i) (loan_coins i),
      pl_lottos = amount_part (mi_lotto i) (\<lambda>s. if series_error i s \<noteq> None then 0 else ls_count s)\<rparr>"

section \<open>What a plan without errors promises\<close>

lemma foldl_max_ge: "(\<forall>x \<in> set xs. x \<le> foldl max a xs) \<and> a \<le> foldl max a (xs :: int list)"
  by (induction xs arbitrary: a) (auto intro: order_trans, (meson max.cobounded1 max.cobounded2 order_trans)+)

lemma foldl_min_le: "(\<forall>x \<in> set xs. foldl min a xs \<le> x) \<and> foldl min a xs \<le> (a :: int)"
  by (induction xs arbitrary: a) (auto intro: order_trans, (meson min.cobounded1 min.cobounded2 order_trans)+)

lemma best_bid_ge: "t \<in> set (fx_bids f) \<Longrightarrow> tr_cents t \<le> best_bid f"
  using foldl_max_ge [of "map tr_cents (fx_bids f)" 0] by (auto simp: best_bid_def)

lemma best_ask_le: "t \<in> set (fx_asks f) \<Longrightarrow> \<exists>a. best_ask f = Some a \<and> a \<le> tr_cents t"
proof -
  assume t: "t \<in> set (fx_asks f)"
  then obtain x xs where x: "map tr_cents (fx_asks f) = x # xs" by (cases "map tr_cents (fx_asks f)") auto
  have "tr_cents t \<in> set (x # xs)" using t by (simp add: x [symmetric])
  then show ?thesis using foldl_min_le [of xs x] by (auto simp: best_ask_def x)
qed

lemma uncrossed:
  assumes "\<not> crossed f" and "b \<in> set (fx_bids f)" and "a \<in> set (fx_asks f)"
  shows "tr_cents b < tr_cents a"
proof -
  obtain x where "best_ask f = Some x" "x \<le> tr_cents a" using best_ask_le [OF assms(3)] by blast
  then show ?thesis using assms(1,2) best_bid_ge [OF assms(2)] by (force simp: crossed_def)
qed

lemma plan_forex_ok:
  assumes "pl_errors (plan_market zone i) = []" and "mi_forex i = Some f"
  shows "(\<forall>b \<in> set (fx_bids f). \<forall>a \<in> set (fx_asks f). tr_cents b < tr_cents a)
    \<and> (\<forall>t \<in> set (fx_bids f) \<union> set (fx_asks f). 1 \<le> tr_cents t) \<and> quotes_after i f \<le> QUOTE_CAPACITY
    \<and> (usd_short i f > 0 \<longrightarrow> (\<exists>label. PlanUsd label (usd_short i f) \<in> set (pl_steps (plan_market zone i))))
    \<and> (coin_short i f > 0 \<longrightarrow> (\<exists>label. PlanIssue label (coin_short i f) \<in> set (pl_steps (plan_market zone i))))"
proof -
  have e: "forex_errors i f = []" using assms by (simp add: plan_market_def part_def)
  then have c: "\<not> crossed f" by (simp add: forex_errors_def split: if_splits)
  have p: "\<forall>t \<in> set (fx_bids f) \<union> set (fx_asks f). 1 \<le> tr_cents t"
    using e by (auto simp: forex_errors_def list_ex_iff not_less split: if_splits)
  have q: "quotes_after i f \<le> QUOTE_CAPACITY" using e by (auto simp: forex_errors_def split: if_splits)
  have s: "set (forex_steps i f) \<subseteq> set (pl_steps (plan_market zone i))" using assms(2) by (simp add: plan_market_def part_def)
  have u: "usd_short i f > 0 \<longrightarrow> (\<exists>label. PlanUsd label (usd_short i f) \<in> set (forex_steps i f))"
    using e by (auto simp: forex_errors_def forex_steps_def split: if_splits)
  have k: "coin_short i f > 0 \<longrightarrow> (\<exists>label. PlanIssue label (coin_short i f) \<in> set (forex_steps i f))"
    using e by (auto simp: forex_errors_def forex_steps_def split: if_splits)
  show ?thesis using c uncrossed p q u k s by blast
qed

end
