(* ===== verification/DemoHouse.thy ===== *)
theory DemoHouse
  imports ClientDemo MarketPlan
begin

text \<open>
  The household of theory Household behind the demo's server, with Ada signed in from a page: the states
  and requests to which the theorems about the server and the client are applied.
\<close>

definition quiet_chance :: chance where
  "quiet_chance = \<lparr>ch_code = ''x'', ch_bytes = [], ch_tick = [], ch_draw = []\<rparr>"

definition house_client :: client where
  "house_client = logged_in \<lparr>uv_id = ''user-2'', uv_username = ''ada'', uv_display_name = ''Ada'', uv_role = Member,
     uv_status = UserActive, uv_account = ''account-user-2'', uv_created_at = 0, uv_bio = None, uv_balance = None,
     uv_usd_cents = None\<rparr> ''demo-7'' (new_client SAME_ORIGIN)"

definition house_server :: backend where
  "house_server = \<lparr>be_ledger = home5, be_seeded = True, be_sessions = [(''demo-7'', ''user-2'')], be_codes = [],
     be_receipts = [], be_api_keys = [], be_bots = []\<rparr>"

definition house_key :: string where "house_key = new_key house_client [1, 2, 3]"

definition rent_request :: request where
  "rent_request = projr (c_transfer house_client (u_account bob) 300 ''rent'' house_key None)"

definition stray_request :: request where "stray_request = rent_request\<lparr>rq_auth := None\<rparr>"

definition rent_paid :: "reply \<times> backend" where
  "rent_paid = the (serve (\<lambda>w. w) quiet_chance rent_request house_server)"

definition is_answer :: "reply \<Rightarrow> bool" where
  "is_answer r \<longleftrightarrow> (case r of Reply _ \<Rightarrow> True | Refused _ _ _ \<Rightarrow> False)"

lemma is_answerE: "is_answer r \<Longrightarrow> \<exists>a. r = Reply a"
  by (cases r) (auto simp: is_answer_def)

lemma rent_sent: "c_transfer house_client (u_account bob) 300 ''rent'' house_key None = Inr rent_request"
  by code_simp

text \<open>The server is seeded already, so the script does not matter.\<close>

lemma rent_paid: "serve fill quiet_chance rent_request house_server = Some (fst rent_paid, snd rent_paid)"
proof -
  have "serve (\<lambda>w. w) quiet_chance rent_request house_server \<noteq> None" by code_simp
  moreover have "serve fill quiet_chance rent_request house_server = serve (\<lambda>w. w) quiet_chance rent_request house_server"
    by (simp add: serve_def house_server_def)
  ultimately show ?thesis by (auto simp: rent_paid_def)
qed

lemma rent_answered: "is_answer (fst rent_paid)"
  by code_simp

lemma house_signed_in: "signed_in house_client house_server ada"
  unfolding signed_in_def by (intro conjI exI [of _ "''demo-7''"] exI [of _ "''user-2''"]) code_simp+

text \<open>Nana's ladder of one rung each way on 1500 coins in circulation.\<close>

definition house_ladder :: market_input where
  "house_ladder = \<lparr>mi_circulation = 1500, mi_scale = 1, mi_account = u_account nana, mi_balance = 0, mi_usd_cents = 100,
     mi_now = 0, mi_quotes = [], mi_loans = [], mi_lottos = [],
     mi_forex = Some \<lparr>fx_bids = [\<lparr>tr_share_bps = 200, tr_cents = 20\<rparr>], fx_asks = [\<lparr>tr_share_bps = 100, tr_cents = 30\<rparr>],
       fx_expires_at = 0, fx_replace = False, fx_top_up_usd = True, fx_top_up_coins = True\<rparr>,
     mi_lending = None, mi_lotto = None\<rparr>"

interpretation quiet: still_ledger home5
proof unfold_locales
  show "reachable home5" by (rule household_reachable(3))
  show "small_counters home5" by code_simp
qed

end
