(* ===== verification/Session.thy ===== *)
theory Session
  imports ClientCalls
begin

text \<open>
  \<open>api/session.ts\<close>: who is logged in, what the household looks like, and the reload of both. The
  service's answers are arguments: \<open>world\<close> gives what the \<open>k\<close>-th call answers, sent with the token of the
  account that is active when it is sent, and the readings of \<open>Date.now\<close>. A refused call has the effect
  on the store of accounts that the service gives it (\<open>mapError\<close>). Methods run one after another, each
  to its end; the log and the reload of the pages' own data (\<open>reloadOnLedgerChange\<close>) are left out.
\<close>

section \<open>State\<close>

record summary =
  sm_sequence :: "nat option"
  sm_logs_enabled :: "bool option"
  sm_diag_enabled :: "bool option"

record session =
  ss_accounts :: accounts
  ss_me :: "user_view option"
  ss_household :: "user_view list"
  ss_status :: "summary option"
  ss_listings :: "listing list"
  ss_loading :: bool
  ss_next_check :: int
  ss_watching :: bool
  ss_checking :: bool
  ss_calls :: nat
  ss_ticks :: nat

record world =
  wd_status :: "nat \<Rightarrow> trouble + summary"
  wd_me :: "nat \<Rightarrow> string option \<Rightarrow> trouble + user_view"
  wd_users :: "nat \<Rightarrow> string option \<Rightarrow> trouble + user_view list"
  wd_listings :: "nat \<Rightarrow> string option \<Rightarrow> trouble + listing list"
  wd_login :: "nat \<Rightarrow> trouble + user_view \<times> string"
  wd_logout :: "nat \<Rightarrow> string option \<Rightarrow> trouble + unit"
  wd_time :: "nat \<Rightarrow> int"

definition WATCH_MS :: int where "WATCH_MS = 30000"

definition new_session :: "accounts \<Rightarrow> session" where
  "new_session held = \<lparr>ss_accounts = held, ss_me = None, ss_household = [], ss_status = None, ss_listings = [],
     ss_loading = False, ss_next_check = 0, ss_watching = False, ss_checking = False, ss_calls = 0, ss_ticks = 0\<rparr>"

definition is_nana :: "session \<Rightarrow> bool" where
  "is_nana s \<longleftrightarrow> map_option uv_role (ss_me s) = Some Nana"

definition revision_seen :: "session \<Rightarrow> nat" where
  "revision_seen s = (case ss_status s of None \<Rightarrow> 0
     | Some m \<Rightarrow> (case sm_sequence m of None \<Rightarrow> 0 | Some n \<Rightarrow> n))"

definition logs_available :: "session \<Rightarrow> bool" where
  "logs_available s \<longleftrightarrow> (case ss_status s of None \<Rightarrow> True | Some m \<Rightarrow> sm_logs_enabled m \<noteq> Some False)"

definition diag_available :: "session \<Rightarrow> bool" where
  "diag_available s \<longleftrightarrow> (case ss_status s of None \<Rightarrow> True | Some m \<Rightarrow> sm_diag_enabled m \<noteq> Some False)"

definition own_balance :: "session \<Rightarrow> num" where
  "own_balance s = (case ss_me s of None \<Rightarrow> 0 | Some u \<Rightarrow> (case uv_balance u of None \<Rightarrow> 0 | Some x \<Rightarrow> x))"

definition signed_in_as :: "session \<Rightarrow> bool" where
  "signed_in_as s \<longleftrightarrow> ss_me s \<noteq> None"

definition recipients :: "session \<Rightarrow> user_view list" where
  "recipients s = filter (\<lambda>u. uv_status u = UserActive \<and> Some (uv_id u) \<noteq> map_option uv_id (ss_me s)) (ss_household s)"

definition for_sale :: "session \<Rightarrow> listing list" where
  "for_sale s = filter (\<lambda>l. l_status l = ListingActive) (ss_listings s)"

definition closed_listings :: "session \<Rightarrow> listing list" where
  "closed_listings s = filter (\<lambda>l. l_status l \<noteq> ListingActive) (ss_listings s)"

definition name_for :: "session \<Rightarrow> string \<Rightarrow> string" where
  "name_for s account = (case find (\<lambda>u. uv_account u = account) (ss_household s) of
     None \<Rightarrow> account | Some u \<Rightarrow> uv_display_name u)"

section \<open>Calls\<close>

type_synonym 'a task = "session \<Rightarrow> (trouble + 'a) \<times> session"

definition rejected :: "trouble \<Rightarrow> session \<Rightarrow> session" where
  "rejected e s = (case e of Http f \<Rightarrow>
     if hf_status f = 401 then s\<lparr>ss_accounts := invalidate_active (ss_accounts s)\<rparr> else s | _ \<Rightarrow> s)"

definition settle :: "trouble + 'a \<Rightarrow> session \<Rightarrow> session" where
  "settle r s = (case r of Inl e \<Rightarrow> rejected e s | Inr _ \<Rightarrow> s)"

definition call :: "(nat \<Rightarrow> string option \<Rightarrow> trouble + 'a) \<Rightarrow> 'a task" where
  "call f s = (let r = f (ss_calls s) (active_token (ss_accounts s)) in
     (r, settle r (s\<lparr>ss_calls := Suc (ss_calls s)\<rparr>)))"

definition andthen :: "'a task \<Rightarrow> ('a \<Rightarrow> 'b task) \<Rightarrow> 'b task" where
  "andthen m k s = (case m s of (Inl e, s') \<Rightarrow> (Inl e, s') | (Inr a, s') \<Rightarrow> k a s')"

definition update :: "(session \<Rightarrow> session) \<Rightarrow> unit task" where
  "update f s = (Inr (), f s)"

definition finally_do :: "(session \<Rightarrow> session) \<Rightarrow> 'a task \<Rightarrow> 'a task" where
  "finally_do f m s = (case m s of (r, s') \<Rightarrow> (r, f s'))"

definition on_error :: "'a task \<Rightarrow> (trouble \<Rightarrow> 'a task) \<Rightarrow> 'a task" where
  "on_error m h s = (case m s of (Inl e, s') \<Rightarrow> h e s' | (Inr a, s') \<Rightarrow> (Inr a, s'))"

text \<open>
  \<open>Promise.all\<close> of three requests: all three are sent before any is answered, so with one token; each
  answer has its effect, and the first error of the three is thrown.
\<close>

definition call3 ::
  "(nat \<Rightarrow> string option \<Rightarrow> trouble + 'a) \<Rightarrow> (nat \<Rightarrow> string option \<Rightarrow> trouble + 'b) \<Rightarrow>
   (nat \<Rightarrow> string option \<Rightarrow> trouble + 'c) \<Rightarrow> ('a \<times> 'b \<times> 'c) task" where
  "call3 f g h s = (let t = active_token (ss_accounts s); n = ss_calls s;
      x = f n t; y = g (n + 1) t; z = h (n + 2) t;
      s' = settle z (settle y (settle x (s\<lparr>ss_calls := n + 3\<rparr>))) in
     case x of Inl e \<Rightarrow> (Inl e, s') | Inr a \<Rightarrow>
       (case y of Inl e \<Rightarrow> (Inl e, s') | Inr b \<Rightarrow>
          (case z of Inl e \<Rightarrow> (Inl e, s') | Inr c \<Rightarrow> (Inr (a, b, c), s'))))"

definition clear_view :: "session \<Rightarrow> session" where
  "clear_view s = s\<lparr>ss_me := None, ss_household := [], ss_listings := []\<rparr>"

definition set_me :: "user_view option \<Rightarrow> session \<Rightarrow> session" where
  "set_me u s = s\<lparr>ss_me := u\<rparr>"

definition later :: "world \<Rightarrow> session \<Rightarrow> session" where
  "later w s = s\<lparr>ss_next_check := wd_time w (ss_ticks s) + WATCH_MS, ss_ticks := Suc (ss_ticks s)\<rparr>"

section \<open>Methods\<close>

definition load_status :: "world \<Rightarrow> summary task" where
  "load_status w = andthen (call (\<lambda>k _. wd_status w k))
     (\<lambda>m. andthen (update (\<lambda>s. s\<lparr>ss_status := Some m\<rparr>)) (\<lambda>_ s. (Inr m, s)))"

definition refresh :: "world \<Rightarrow> summary option \<Rightarrow> unit task" where
  "refresh w known s =
     (if ss_me s = None then (Inr (), s)
      else finally_do (\<lambda>s. s\<lparr>ss_loading := False\<rparr>)
        (andthen (case known of Some m \<Rightarrow> (\<lambda>s. (Inr m, s)) | None \<Rightarrow> call (\<lambda>k _. wd_status w k)) (\<lambda>m.
         andthen (call3 (wd_me w) (wd_users w) (wd_listings w)) (\<lambda>(u, us, ls).
           update (\<lambda>s. later w (s\<lparr>ss_me := Some u, ss_household := us, ss_listings := ls, ss_status := Some m\<rparr>)))))
        (s\<lparr>ss_loading := True\<rparr>))"

definition load_me :: "world \<Rightarrow> unit task" where
  "load_me w = andthen (call (wd_me w)) (\<lambda>u. andthen (update (set_me (Some u))) (\<lambda>_. refresh w None))"

definition watch :: "session \<Rightarrow> session" where
  "watch s = (if ss_watching s then s else s\<lparr>ss_watching := True\<rparr>)"

definition check_for_changes :: "world \<Rightarrow> bool \<Rightarrow> session \<Rightarrow> session" where
  "check_for_changes w hidden s =
     (if hidden \<or> ss_me s = None \<or> ss_checking s \<or> ss_loading s then s
      else let s1 = s\<lparr>ss_ticks := Suc (ss_ticks s)\<rparr> in
        if wd_time w (ss_ticks s) < ss_next_check s then s1
        else snd (finally_do (\<lambda>s. (later w s)\<lparr>ss_checking := False\<rparr>)
          (on_error (andthen (call (\<lambda>k _. wd_status w k)) (\<lambda>m s.
             if sm_sequence m = None \<or> sm_sequence m \<noteq> Option.bind (ss_status s) sm_sequence
             then refresh w (Some m) s else (Inr (), s)))
           (\<lambda>_ s. (Inr (), s))) (s1\<lparr>ss_checking := True\<rparr>)))"

definition restore :: "world \<Rightarrow> bool task" where
  "restore w s =
     (if active_token (ss_accounts s) = None then (Inr False, s)
      else on_error (andthen (load_me w) (\<lambda>_ s. (Inr True, s))) (\<lambda>_ s. (Inr False, set_me None s)) s)"

definition login_call :: "world \<Rightarrow> user_view task" where
  "login_call w = andthen (call (\<lambda>k _. wd_login w k)) (\<lambda>(u, token).
     andthen (update (\<lambda>s. s\<lparr>ss_accounts := add_account \<lparr>sa_user = uv_id u, sa_username = uv_username u,
        sa_name = uv_display_name u, sa_role = uv_role u, sa_token = token\<rparr> (ss_accounts s)\<rparr>)) (\<lambda>_ s. (Inr u, s)))"

definition login :: "world \<Rightarrow> unit task" where
  "login w = andthen (login_call w) (\<lambda>u. andthen (update (set_me (Some u))) (\<lambda>_. refresh w None))"

definition fall_back :: "world \<Rightarrow> string option \<Rightarrow> session \<Rightarrow> session" where
  "fall_back w previous s = (case previous of None \<Rightarrow> s
     | Some i \<Rightarrow> if i \<in> sa_user ` set (ac_all (ss_accounts s))
         then snd (on_error (load_me w) (\<lambda>_ s. (Inr (), set_me None s))
                (s\<lparr>ss_accounts := activate_account i (ss_accounts s)\<rparr>))
         else s)"

definition switch_to :: "world \<Rightarrow> string \<Rightarrow> unit task" where
  "switch_to w i s =
     (let previous = map_option sa_user (active_account (ss_accounts s)) in
      if previous = Some i then (Inr (), s)
      else on_error (load_me w) (\<lambda>e s. (Inl e, fall_back w previous s))
        (clear_view (s\<lparr>ss_accounts := activate_account i (ss_accounts s)\<rparr>)))"

text \<open>The service's \<open>logout\<close> and \<open>logoutAll\<close>.\<close>

definition logout_call :: "world \<Rightarrow> unit task" where
  "logout_call w = finally_do (\<lambda>s. s\<lparr>ss_accounts := invalidate_active (ss_accounts s)\<rparr>) (call (wd_logout w))"

fun logout_each :: "world \<Rightarrow> string list \<Rightarrow> session \<Rightarrow> session" where
  "logout_each w [] s = s"
| "logout_each w (i # is) s =
     logout_each w is (snd (call (wd_logout w) (s\<lparr>ss_accounts := activate_account i (ss_accounts s)\<rparr>)))"

definition logout_all_session :: "world \<Rightarrow> session \<Rightarrow> session" where
  "logout_all_session w s =
     clear_view ((logout_each w (map sa_user (ac_all (ss_accounts s))) s)\<lparr>ss_accounts := no_accounts\<rparr>)"

definition logout_session :: "world \<Rightarrow> session \<Rightarrow> session" where
  "logout_session w s =
     (let s1 = clear_view (snd (logout_call w s)) in
      if active_account (ss_accounts s1) = None then s1
      else snd (on_error (load_me w) (\<lambda>_ s. (Inr (), set_me None s)) s1))"

end
