(* ===== verification/ClientLog.thy ===== *)
theory ClientLog
  imports Http MoneyText
begin

text \<open>
  \<open>api/log.ts\<close>: the page's own log, a ring of the last 200 entries, and the redaction every detail
  goes through before it is kept. Printing to the console is not modelled. The lemmas: the ring is
  bounded and holds consecutive entries, and no secret field survives redaction at any depth.
\<close>

section \<open>Redaction\<close>

definition SECRET_KEYS :: "string list" where
  "SECRET_KEYS = [''password'', ''token'', ''access_token'', ''refresh_token'', ''authorization'', ''code_verifier'',
     ''code_challenge'', ''verifier'', ''secret'', ''pin'']"

definition contains_text :: "string \<Rightarrow> string \<Rightarrow> bool" where
  "contains_text p s \<longleftrightarrow> after_first p s \<noteq> None"

definition is_secret :: "string \<Rightarrow> bool" where
  "is_secret key \<longleftrightarrow> list_ex (\<lambda>s. contains_text s (to_lower key)) SECRET_KEYS"

definition REDACTED :: json where
  "REDACTED = JStr ''[redacted]''"

function redact :: "nat \<Rightarrow> json \<Rightarrow> json" where
  "redact depth v = (if depth > 4 then JStr ''[deep]''
     else case v of
       JList vs \<Rightarrow> JList (map (redact (Suc depth)) (take 20 vs))
     | JObj fs \<Rightarrow> JObj (map (\<lambda>(k, x). (k, if is_secret k then if x = JNull then x else REDACTED
                                        else redact (Suc depth) x)) fs)
     | _ \<Rightarrow> v)"
  by auto
termination by (relation "measure (\<lambda>(depth, v). 5 - depth)") auto

declare redact.simps [simp del]

section \<open>The ring\<close>

datatype log_level = Debug | Info | Warn | Error

record log_entry =
  le_seq :: nat
  le_at :: nat
  le_level :: log_level
  le_scope :: string
  le_message :: string
  le_detail :: "json option"

record log =
  lg_entries :: "log_entry list"
  lg_seq :: nat
  lg_revision :: nat

definition CAPACITY :: nat where "CAPACITY = 200"

definition new_log :: log where
  "new_log = \<lparr>lg_entries = [], lg_seq = 0, lg_revision = 0\<rparr>"

definition log_add :: "nat \<Rightarrow> log_level \<Rightarrow> string \<Rightarrow> string \<Rightarrow> json option \<Rightarrow> log \<Rightarrow> log" where
  "log_add t level scope message detail l =
     (let entry = \<lparr>le_seq = Suc (lg_seq l), le_at = t, le_level = level, le_scope = scope, le_message = message,
                   le_detail = map_option (redact 0) detail\<rparr>;
          entries = lg_entries l @ [entry] in
      \<lparr>lg_entries = (if length entries > CAPACITY then tl entries else entries), lg_seq = Suc (lg_seq l),
       lg_revision = Suc (lg_revision l)\<rparr>)"

definition log_recent :: "nat \<Rightarrow> log \<Rightarrow> log_entry list" where
  "log_recent limit l = rev (if limit = 0 then lg_entries l else slice_last limit (lg_entries l))"

definition log_clear :: "log \<Rightarrow> log" where
  "log_clear l = l\<lparr>lg_entries := [], lg_revision := Suc (lg_revision l)\<rparr>"

text \<open>
  The log as text; \<open>stringify\<close> is \<open>JSON.stringify\<close>. The time is the clock part of the ISO form of a
  timestamp in milliseconds.
\<close>

definition level_name :: "log_level \<Rightarrow> string" where
  "level_name l = (case l of Debug \<Rightarrow> ''debug'' | Info \<Rightarrow> ''info'' | Warn \<Rightarrow> ''warn'' | Error \<Rightarrow> ''error'')"

definition clock_text :: "nat \<Rightarrow> string" where
  "clock_text t = (let s = t div 1000 in
     pad_start 2 (CHR ''0'') (show_nat (s div 3600 mod 24)) @ '':'' @ pad_start 2 (CHR ''0'') (show_nat (s div 60 mod 60)) @ '':''
     @ pad_start 2 (CHR ''0'') (show_nat (s mod 60)) @ ''.'' @ pad_start 3 (CHR ''0'') (show_nat (t mod 1000)))"

definition entry_text :: "(json \<Rightarrow> string) \<Rightarrow> log_entry \<Rightarrow> string" where
  "entry_text stringify e = clock_text (le_at e) @ '' '' @ pad_end 5 (CHR '' '') (level_name (le_level e)) @ '' ''
     @ pad_end 8 (CHR '' '') (le_scope e) @ '' '' @ le_message e
     @ (case le_detail e of None \<Rightarrow> [] | Some d \<Rightarrow> '' '' @ stringify d)"

fun join_lines :: "string list \<Rightarrow> string" where
  "join_lines [] = []"
| "join_lines [s] = s"
| "join_lines (s # t # ss) = s @ [CHR 0x0A] @ join_lines (t # ss)"

definition log_text :: "(json \<Rightarrow> string) \<Rightarrow> log \<Rightarrow> string" where
  "log_text stringify l = join_lines (map (entry_text stringify) (lg_entries l))"

section \<open>No secret survives\<close>

inductive clean :: "json \<Rightarrow> bool" where
  plain: "\<forall>vs. v \<noteq> JList vs \<Longrightarrow> \<forall>fs. v \<noteq> JObj fs \<Longrightarrow> clean v"
| rows: "\<forall>v \<in> set vs. clean v \<Longrightarrow> clean (JList vs)"
| fields: "\<forall>(k, v) \<in> set fs. clean v \<and> (is_secret k \<longrightarrow> v = JNull \<or> v = REDACTED) \<Longrightarrow> clean (JObj fs)"

inductive_simps clean_simps [simp]: "clean (JStr s)" "clean JNull" "clean (JList vs)" "clean (JObj fs)"

lemma redact_clean: "clean (redact depth v)"
proof (induction depth v rule: redact.induct)
  case (1 depth v)
  show ?case
  proof (cases "depth > 4")
    case True
    then show ?thesis by (simp add: redact.simps [of depth v])
  next
    case False
    show ?thesis
    proof (cases v)
      case (JList vs)
      with 1 False show ?thesis
        by (auto simp: redact.simps [of depth "JList vs"])
    next
      case (JObj fs)
      with 1 False show ?thesis
        by (auto simp: redact.simps [of depth "JObj fs"] REDACTED_def split: if_splits)
    qed (use False in \<open>(subst redact.simps, simp add: clean.plain)+\<close>)
  qed
qed

fun json_depth :: "json \<Rightarrow> nat" where
  "json_depth (JList vs) = Suc (Max (insert 0 (set (map json_depth vs))))"
| "json_depth (JObj fs) = Suc (Max (insert 0 (set (map (\<lambda>(k, v). json_depth v) fs))))"
| "json_depth v = 0"

lemma json_depth_le:
  "json_depth (JList vs) \<le> Suc n \<longleftrightarrow> (\<forall>v \<in> set vs. json_depth v \<le> n)"
  "json_depth (JObj fs) \<le> Suc n \<longleftrightarrow> (\<forall>(k, v) \<in> set fs. json_depth v \<le> n)"
  by auto

lemma redact_depth: "json_depth (redact depth v) \<le> 5 - depth"
proof (induction depth v rule: redact.induct)
  case (1 depth v)
  show ?case
  proof (cases "depth > 4")
    case True
    then show ?thesis by (simp add: redact.simps [of depth v])
  next
    case False
    then have n: "5 - depth = Suc (5 - Suc depth)" by simp
    show ?thesis
    proof (cases v)
      case (JList vs)
      have "\<forall>x \<in> set (take 20 vs). json_depth (redact (Suc depth) x) \<le> 5 - Suc depth"
        using 1(1) [OF False JList] by blast
      with JList False show ?thesis
        unfolding n by (subst redact.simps) (simp add: json_depth_le del: json_depth.simps diff_Suc_Suc)
    next
      case (JObj fs)
      have "\<forall>(k, x) \<in> set fs. \<not> is_secret k \<longrightarrow> json_depth (redact (Suc depth) x) \<le> 5 - Suc depth"
        using 1(2) [OF False JObj] by auto
      with JObj False show ?thesis
        unfolding n by (subst redact.simps) (auto simp: json_depth_le REDACTED_def simp del: json_depth.simps(1,2) diff_Suc_Suc)
    qed (subst redact.simps, simp)+
  qed
qed

section \<open>The ring is bounded and consecutive\<close>

definition wf_log :: "log \<Rightarrow> bool" where
  "wf_log l \<longleftrightarrow> length (lg_entries l) \<le> CAPACITY
     \<and> map le_seq (lg_entries l) = [Suc (lg_seq l) - length (lg_entries l)..<Suc (lg_seq l)]
     \<and> length (lg_entries l) \<le> lg_seq l
     \<and> (\<forall>e \<in> set (lg_entries l). \<forall>d. le_detail e = Some d \<longrightarrow> clean d)"

lemma wf_log_new: "wf_log new_log"
  by (simp add: wf_log_def new_log_def)

lemma wf_log_add:
  assumes "wf_log l"
  shows "wf_log (log_add t level scope message detail l)"
proof -
  let ?e = "\<lparr>le_seq = Suc (lg_seq l), le_at = t, le_level = level, le_scope = scope, le_message = message,
    le_detail = map_option (redact 0) detail\<rparr>"
  let ?es = "lg_entries l @ [?e]"
  let ?n = "length (lg_entries l)"
  have s: "map le_seq ?es = [Suc (lg_seq l) - ?n..<Suc (Suc (lg_seq l))]"
    using assms by (simp add: wf_log_def)
  have c: "\<forall>e \<in> set ?es. \<forall>d. le_detail e = Some d \<longrightarrow> clean d"
    using assms redact_clean by (auto simp: wf_log_def)
  show ?thesis
  proof (cases "length ?es > CAPACITY")
    case True
    then have n: "?n = CAPACITY" using assms by (simp add: wf_log_def)
    have "map le_seq (tl ?es) = tl (map le_seq ?es)" by (simp only: map_tl)
    also have "\<dots> = [Suc (Suc (lg_seq l) - ?n)..<Suc (Suc (lg_seq l))]"
      unfolding s using assms by (subst upt_conv_Cons) (auto simp: wf_log_def)
    finally have t: "map le_seq (tl ?es) = [Suc (Suc (lg_seq l)) - ?n..<Suc (Suc (lg_seq l))]"
      using assms by (simp add: wf_log_def Suc_diff_le)
    have "\<forall>e \<in> set (tl ?es). \<forall>d. le_detail e = Some d \<longrightarrow> clean d"
      using c by (meson list.set_sel(2) append_is_Nil_conv not_Cons_self2)
    with True t n assms show ?thesis
      by (simp add: wf_log_def log_add_def Let_def)
  next
    case False
    with s c assms show ?thesis by (simp add: wf_log_def log_add_def Let_def Suc_diff_le)
  qed
qed

lemma wf_log_clear: "wf_log l \<Longrightarrow> wf_log (log_clear l)"
  by (simp add: wf_log_def log_clear_def)

end
