(* ===== verification/Pages.thy ===== *)
theory Pages
  imports Session ClientLog
begin

text \<open>
  What the pages share: \<open>ui/toasts.ts\<close> (messages that come and go), \<open>ui/dialog.ts\<close> with
  \<open>ui/dialog-host.ts\<close> (asking the person something; a promise is a number, and what it was resolved with is
  kept), \<open>api/guards.ts\<close> and \<open>pages/message-caps.ts\<close>. The words of a question, and timers that dismiss a
  message, are left out: dismissing is an operation of its own. A page's handler is a function of what it
  acts on: the page's fields, and a world \<open>'w\<close> that the service's calls move.
\<close>

section \<open>Problems\<close>

text \<open>What a handler can catch: an answer of the service, a text the person typed, any other error.\<close>

datatype problem =
    Failed failure
  | Bad_input string
  | Thrown exn

type_synonym ('w, 'a) call = "'w \<Rightarrow> (problem + 'a) \<times> 'w"

definition of_input :: "'a input \<Rightarrow> problem + 'a" where
  "of_input i = (case i of Value x \<Rightarrow> Inr x | InputError m \<Rightarrow> Inl (Bad_input m)
     | BadPrecision \<Rightarrow> Inl (Thrown (PlainError ''Invalid currency precision.''))
     | NotExact \<Rightarrow> Inl (Thrown (PlainError ''Money must be an exact integer.'')))"

definition is_status :: "nat \<Rightarrow> problem \<Rightarrow> bool" where
  "is_status n p \<longleftrightarrow> (case p of Failed (ApiError s _ _) \<Rightarrow> s = n | _ \<Rightarrow> False)"

section \<open>Toasts\<close>

record toast =
  to_id :: nat
  to_text :: string
  to_error :: bool

record toasts =
  tz_items :: "toast list"
  tz_next :: nat

definition no_toasts :: toasts where "no_toasts = \<lparr>tz_items = [], tz_next = 1\<rparr>"

definition toast_push :: "string \<Rightarrow> bool \<Rightarrow> toasts \<Rightarrow> toasts" where
  "toast_push text bad z = \<lparr>tz_items = tz_items z @ [\<lparr>to_id = tz_next z, to_text = text, to_error = bad\<rparr>],
     tz_next = Suc (tz_next z)\<rparr>"

definition toast_ok :: "string \<Rightarrow> toasts \<Rightarrow> toasts" where "toast_ok text = toast_push text False"
definition toast_error :: "string \<Rightarrow> toasts \<Rightarrow> toasts" where "toast_error text = toast_push text True"

definition problem_text :: "problem \<Rightarrow> string" where
  "problem_text p = (case p of
     Failed (Busy _) \<Rightarrow> ''NanaCoin is busy right now. Try again in a moment.''
   | Bad_input m \<Rightarrow> m
   | Failed (ApiError _ _ m) \<Rightarrow> m
   | Thrown _ \<Rightarrow> ''Something went wrong.'')"

definition toast_problem :: "problem \<Rightarrow> toasts \<Rightarrow> toasts" where
  "toast_problem p = toast_push (problem_text p) True"

definition toast_dismiss :: "nat \<Rightarrow> toasts \<Rightarrow> toasts" where
  "toast_dismiss i z = z\<lparr>tz_items := filter (\<lambda>t. to_id t \<noteq> i) (tz_items z)\<rparr>"

definition wf_toasts :: "toasts \<Rightarrow> bool" where
  "wf_toasts z \<longleftrightarrow> distinct (map to_id (tz_items z)) \<and> (\<forall>t \<in> set (tz_items z). to_id t < tz_next z)"

lemma toasts_wf:
  "wf_toasts no_toasts" "wf_toasts z \<Longrightarrow> wf_toasts (toast_push text bad z)" "wf_toasts z \<Longrightarrow> wf_toasts (toast_dismiss i z)"
  by (auto simp: wf_toasts_def no_toasts_def toast_push_def toast_dismiss_def distinct_map_filter less_Suc_eq)

section \<open>Dialogs\<close>

datatype dialog_kind = Confirm | Plain_text | Password | Number | Offer_form

record question =
  qn_kind :: dialog_kind
  qn_required :: bool
  qn_min :: "num option"
  qn_max :: "num option"

datatype dialog_answer = Text string | Offer_answer num string

text \<open>\<open>dl_results\<close>: the promises resolved so far and with what; \<open>None\<close> when the person cancelled.\<close>

record dialogs =
  dl_current :: "(nat \<times> question) option"
  dl_next :: nat
  dl_results :: "(nat \<times> dialog_answer option) list"

definition no_dialogs :: dialogs where "no_dialogs = \<lparr>dl_current = None, dl_next = 0, dl_results = []\<rparr>"

definition dialog_settle :: "dialog_answer option \<Rightarrow> dialogs \<Rightarrow> dialogs" where
  "dialog_settle a d = (case dl_current d of None \<Rightarrow> d
     | Some (i, _) \<Rightarrow> d\<lparr>dl_current := None, dl_results := dl_results d @ [(i, a)]\<rparr>)"

definition dialog_open :: "question \<Rightarrow> dialogs \<Rightarrow> nat \<times> dialogs" where
  "dialog_open q d = (let rs = (case dl_current d of None \<Rightarrow> [] | Some (i, _) \<Rightarrow> [(i, None)]) in
     (dl_next d, \<lparr>dl_current = Some (dl_next d, q), dl_next = Suc (dl_next d), dl_results = dl_results d @ rs\<rparr>))"

text \<open>\<open>onSubmit\<close>: the error shown, or what the open question is settled with. The bounds of a number are whole.\<close>

definition submit_number :: "question \<Rightarrow> string \<Rightarrow> string option" where
  "submit_number q text = (case js_number text of
     None \<Rightarrow> Some ''Enter a whole number greater than zero.''
   | Some n \<Rightarrow>
       if \<not> is_integer n \<or> n \<le> 0 then Some ''Enter a whole number greater than zero.''
       else if \<exists>b \<in> set_option (qn_min q). n < b then Some (''Must be at least '' @ show_nat (nat \<lfloor>the (qn_min q)\<rfloor>) @ ''.'')
       else if \<exists>b \<in> set_option (qn_max q). n > b then Some (''Must be at most '' @ show_nat (nat \<lfloor>the (qn_max q)\<rfloor>) @ ''.'')
       else None)"

definition submit_offer :: "string \<Rightarrow> string \<Rightarrow> money \<Rightarrow> string + dialog_answer" where
  "submit_offer text note m = (case money_parse (trim text) m of
     Value x \<Rightarrow>
       if x < 0 then Inl ''Can't do negative prices.''
       else if \<not> is_integer x \<or> x = 0 then Inl ''Enter a positive amount in NC.''
       else Inr (Offer_answer x (trim note))
   | InputError e \<Rightarrow> Inl e
   | BadPrecision \<Rightarrow> Inl ''Invalid currency precision.''
   | NotExact \<Rightarrow> Inl ''Money must be an exact integer.'')"

definition submit_dialog :: "question \<Rightarrow> string \<Rightarrow> string \<Rightarrow> money \<Rightarrow> string + dialog_answer" where
  "submit_dialog q text note m = (case qn_kind q of
     Confirm \<Rightarrow> Inr (Text ''yes'')
   | Offer_form \<Rightarrow> submit_offer text note m
   | k \<Rightarrow>
       if qn_required q \<and> trim text = [] then Inl ''This cannot be empty.''
       else if k = Number then (case submit_number q (trim text) of Some e \<Rightarrow> Inl e | None \<Rightarrow> Inr (Text (trim text)))
       else Inr (Text (trim text)))"

definition press_submit :: "string \<Rightarrow> string \<Rightarrow> money \<Rightarrow> dialogs \<Rightarrow> string \<times> dialogs" where
  "press_submit text note m d = (case dl_current d of None \<Rightarrow> ([], d)
     | Some (_, q) \<Rightarrow> (case submit_dialog q text note m of Inl e \<Rightarrow> (e, d) | Inr a \<Rightarrow> ([], dialog_settle (Some a) d)))"

text \<open>Every question that was asked has one answer, except the one on the screen, which has none yet.\<close>

definition dialogs_wf :: "dialogs \<Rightarrow> bool" where
  "dialogs_wf d \<longleftrightarrow> distinct (map fst (dl_results d))
     \<and> (\<forall>i. i \<in> fst ` set (dl_results d) \<longleftrightarrow> i < dl_next d \<and> i \<notin> fst ` set_option (dl_current d))
     \<and> (\<forall>c \<in> set_option (dl_current d). fst c < dl_next d)"

lemma dialogs_steps:
  "dialogs_wf no_dialogs" "dialogs_wf d \<Longrightarrow> dialogs_wf (dialog_settle a d)" "dialogs_wf d \<Longrightarrow> dialogs_wf (snd (dialog_open q d))"
  by (auto simp: dialogs_wf_def no_dialogs_def dialog_settle_def dialog_open_def Let_def less_Suc_eq split: option.splits)

lemma press_wf: "dialogs_wf d \<Longrightarrow> dialogs_wf (snd (press_submit text note m d))"
  by (auto simp: press_submit_def dialogs_steps split: option.splits sum.splits)

section \<open>Guards\<close>

text \<open>Where a route sends the visitor: \<open>None\<close> lets them in.\<close>

definition nana_only :: "session \<Rightarrow> string option" where
  "nana_only s = (if is_nana s then None else Some ''/market'')"

definition signed_in_guard :: "session \<Rightarrow> string option" where
  "signed_in_guard s = (if signed_in_as s then None else Some ''/market'')"

section \<open>All capitals\<close>

text \<open>\<open>toLocaleUpperCase\<close> on one character: the sharp s becomes two letters; the micro sign and the small y
  with diaeresis, whose capitals are outside Latin-1, are outside the model.\<close>

definition upper_char :: "char \<Rightarrow> string" where
  "upper_char c = (let n = of_char c :: nat in
     if (97 \<le> n \<and> n \<le> 122) \<or> (224 \<le> n \<and> n \<le> 254 \<and> n \<noteq> 247) then [char_of (n - 32)]
     else if n = 223 then ''SS'' else [c])"

definition to_upper :: "string \<Rightarrow> string" where "to_upper s = concat (map upper_char s)"

definition toggle_caps :: "string \<Rightarrow> bool \<Rightarrow> bool \<Rightarrow> string \<Rightarrow> string \<times> string" where
  "toggle_caps text was_on turn_on saved =
     (if turn_on \<and> \<not> was_on then (to_upper text, text)
      else if \<not> turn_on \<and> was_on then (saved, saved)
      else (text, saved))"

lemma caps_undo: "toggle_caps text False True saved = (t, s) \<Longrightarrow> fst (toggle_caps t True False s) = text"
  by (simp add: toggle_caps_def)

section \<open>Amounts typed\<close>

text \<open>What the money service reads is a whole number of minor units within the transaction limit.\<close>

lemma parsed_amount:
  assumes "money_parse s m = Value x"
  shows "is_integer x" "0 \<le> x" "x \<le> max_money"
proof -
  obtain n :: nat where n: "x = of_nat n" "of_nat n \<le> max_money"
    using assms by (auto simp: money_parse_def parse_money_def Let_def not_less simp del: of_nat_add of_nat_mult of_nat_power split: if_splits)
  have "x = of_int (int n)" by (simp add: n)
  then show "is_integer x" unfolding is_integer_iff by blast
  show "0 \<le> x" "x \<le> max_money" using n by simp_all
qed

section \<open>Numbers as text\<close>

text \<open>\<open>Math.round\<close>; an integer printed; hundredths of an integer printed (\<open>n / 100\<close>); \<open>toFixed(2)\<close> of a double.\<close>

definition js_round :: "num \<Rightarrow> int" where "js_round x = \<lfloor>x + 1 / 2\<rfloor>"

definition show_int :: "int \<Rightarrow> string" where
  "show_int n = (if n < 0 then ''-'' else []) @ show_nat (nat \<bar>n\<bar>)"

definition hundredths_text :: "int \<Rightarrow> string" where
  "hundredths_text n = amount_text n 2 False"

definition to_fixed2 :: "num \<Rightarrow> string" where
  "to_fixed2 x = (let n = nat \<lfloor>\<bar>x\<bar> * 100 + 1 / 2\<rfloor> in
     (if x < 0 then ''-'' else []) @ show_nat (n div 100) @ ''.'' @ pad_start 2 (CHR ''0'') (show_nat (n mod 100)))"

definition dollars :: "num \<Rightarrow> string" where
  "dollars cents = ''$'' @ to_fixed2 (js_div cents 100)"

end
