(* ===== verification/Keyed.thy ===== *)
theory Keyed
  imports Pages
begin

text \<open>
  What \<open>pages/gift-requests.ts\<close>, \<open>pages/art.ts\<close>, \<open>pages/loans.ts\<close> and \<open>pages/lotto.ts\<close> do alike: an operation
  is sent with a retry key that is kept, under what identifies the operation, until an answer arrives. The
  locale \<open>keyed\<close> is what such a page relies on: \<open>carried w\<close> are the operations the server has carried out, each
  with its key; \<open>seen\<close> the keys handed out; \<open>room\<close> for how many more calls the server remembers keys.
\<close>

section \<open>One operation\<close>

record 'i keyed_page =
  kp_keys :: "('i \<times> string) list"
  kp_busy :: bool
  kp_toasts :: toasts
  kp_reloads :: nat

definition kp_say :: "(toasts \<Rightarrow> toasts) \<Rightarrow> ('i, 'z) keyed_page_scheme \<Rightarrow> ('i, 'z) keyed_page_scheme" where
  "kp_say t p = p\<lparr>kp_toasts := t (kp_toasts p)\<rparr>"

definition kp_reload :: "('i, 'z) keyed_page_scheme \<Rightarrow> ('i, 'z) keyed_page_scheme" where
  "kp_reload p = p\<lparr>kp_reloads := Suc (kp_reloads p)\<rparr>"

definition new_keyed_page :: "'i keyed_page" where
  "new_keyed_page = \<lparr>kp_keys = [], kp_busy = False, kp_toasts = no_toasts, kp_reloads = 0\<rparr>"

text \<open>The key of an operation: the one kept for it, else a new one, kept.\<close>

definition key_for :: "('w \<Rightarrow> string \<times> 'w) \<Rightarrow> 'i \<Rightarrow> ('i, 'z) keyed_page_scheme \<Rightarrow> 'w \<Rightarrow> string \<times> ('i, 'z) keyed_page_scheme \<times> 'w" where
  "key_for draw i p w = (case map_of (kp_keys p) i of
     Some k \<Rightarrow> (k, p, w)
   | None \<Rightarrow> (case draw w of (k, w1) \<Rightarrow> (k, p\<lparr>kp_keys := AList.update i k (kp_keys p)\<rparr>, w1)))"

definition forget_key :: "'i \<Rightarrow> ('i, 'z) keyed_page_scheme \<Rightarrow> ('i, 'z) keyed_page_scheme" where
  "forget_key i p = p\<lparr>kp_keys := AList.delete i (kp_keys p)\<rparr>"

text \<open>
  The private method \<open>run\<close> of the pages: \<open>answered\<close> is what the page does to itself when the answer is there,
  \<open>finished\<close> once the session is refreshed as well, \<open>failed\<close> when either throws.
\<close>

definition keyed_run ::
  "('w \<Rightarrow> string \<times> 'w) \<Rightarrow> (string \<Rightarrow> ('w, 'r) call) \<Rightarrow> ('w, unit) call \<Rightarrow> 'i
     \<Rightarrow> (('i, 'z) keyed_page_scheme \<Rightarrow> ('i, 'z) keyed_page_scheme) \<Rightarrow> (('i, 'z) keyed_page_scheme \<Rightarrow> ('i, 'z) keyed_page_scheme)
     \<Rightarrow> (('i, 'z) keyed_page_scheme \<Rightarrow> ('i, 'z) keyed_page_scheme)
     \<Rightarrow> ('i, 'z) keyed_page_scheme \<Rightarrow> 'w \<Rightarrow> ('i, 'z) keyed_page_scheme \<times> 'w" where
  "keyed_run draw action reload i answered finished failed p w =
     (case key_for draw i p w of (k, p1, w1) \<Rightarrow> (case action k w1 of
        (Inl e, w2) \<Rightarrow> (failed (kp_say (toast_problem e) p1), w2)
      | (Inr _, w2) \<Rightarrow> (case reload w2 of
          (Inl e, w3) \<Rightarrow> (failed (kp_say (toast_problem e) (answered (forget_key i p1))), w3)
        | (Inr _, w3) \<Rightarrow> (finished (answered (forget_key i p1)), w3))))"

text \<open>What those may touch: everything but the keys.\<close>

definition keeps_keys :: "(('i, 'z) keyed_page_scheme \<Rightarrow> ('i, 'z) keyed_page_scheme) \<Rightarrow> bool" where
  "keeps_keys f \<longleftrightarrow> (\<forall>p. kp_keys (f p) = kp_keys p)"

lemma keeps_keys [intro]:
  "keeps_keys id" "keeps_keys (\<lambda>p. p)" "keeps_keys kp_reload" "keeps_keys (kp_say t)"
  "keeps_keys f \<Longrightarrow> keeps_keys g \<Longrightarrow> keeps_keys (\<lambda>p. f (g p))"
  by (simp_all add: keeps_keys_def kp_reload_def kp_say_def)

lemma kp_say_keys [simp]: "kp_keys (kp_say t p) = kp_keys p"
  by (simp add: kp_say_def)

section \<open>The contract\<close>

locale keyed =
  fixes call :: "'o \<Rightarrow> string \<Rightarrow> ('w, 'r) call" and draw :: "'w \<Rightarrow> string \<times> 'w"
    and carried :: "'w \<Rightarrow> (string \<times> 'o) list" and seen :: "'w \<Rightarrow> string set"
    and room :: "'w \<Rightarrow> nat" and good :: "'w \<Rightarrow> bool" and suits :: "'o \<Rightarrow> bool"
  assumes call_keeps: "good w \<Longrightarrow> 0 < room w \<Longrightarrow> k \<in> seen w \<Longrightarrow> suits x \<Longrightarrow> call x k w = (r, w') \<Longrightarrow>
      good w' \<and> room w \<le> Suc (room w') \<and> seen w' = seen w"
    and call_once: "good w \<Longrightarrow> 0 < room w \<Longrightarrow> k \<in> seen w \<Longrightarrow> suits x \<Longrightarrow> call x k w = (r, w') \<Longrightarrow>
      carried w' = carried w \<or> (k \<notin> fst ` set (carried w) \<and> carried w' = carried w @ [(k, x)])"
    and call_answered: "good w \<Longrightarrow> 0 < room w \<Longrightarrow> k \<in> seen w \<Longrightarrow> suits x \<Longrightarrow> call x k w = (Inr u, w') \<Longrightarrow>
      (k, x) \<in> set (carried w')"
    and draw_fresh: "good w \<Longrightarrow> draw w = (k, w') \<Longrightarrow>
      good w' \<and> room w' = room w \<and> carried w' = carried w \<and> k \<noteq> [] \<and> k \<notin> seen w \<and> seen w' = insert k (seen w)"
    and carried_seen: "good w \<Longrightarrow> fst ` set (carried w) \<subseteq> seen w"

text \<open>A call that neither carries out such operations nor hands out keys.\<close>

definition calm :: "('w \<Rightarrow> bool) \<Rightarrow> ('w \<Rightarrow> (string \<times> 'o) list) \<Rightarrow> ('w \<Rightarrow> string set) \<Rightarrow> ('w \<Rightarrow> nat) \<Rightarrow> ('w, 'a) call \<Rightarrow> bool" where
  "calm good carried seen room c \<longleftrightarrow> (\<forall>w r w'. good w \<longrightarrow> c w = (r, w') \<longrightarrow>
     good w' \<and> carried w' = carried w \<and> seen w' = seen w \<and> room w' = room w)"

text \<open>
  A page at work: presses of its buttons, in any order, each with the operation that its identity stands for,
  and anything else that leaves the keys alone. The trace says of each press whether it was answered.
\<close>

inductive page_runs ::
  "('w \<Rightarrow> nat) \<Rightarrow> ('w \<Rightarrow> string \<times> 'w) \<Rightarrow> ('i \<Rightarrow> string \<Rightarrow> ('w, 'r) call) \<Rightarrow> ('w, unit) call
     \<Rightarrow> 'w \<Rightarrow> ('i \<times> bool) list \<Rightarrow> ('i, 'z) keyed_page_scheme \<Rightarrow> 'w \<Rightarrow> bool"
  for room draw action reload w0 where
  start: "kp_keys p = [] \<Longrightarrow> page_runs room draw action reload w0 [] p w0"
| edit: "page_runs room draw action reload w0 tr p w \<Longrightarrow> kp_keys q = kp_keys p \<Longrightarrow> page_runs room draw action reload w0 tr q w"
| press: "page_runs room draw action reload w0 tr p w \<Longrightarrow> 0 < room w
    \<Longrightarrow> keeps_keys answered \<Longrightarrow> keeps_keys finished \<Longrightarrow> keeps_keys failed
    \<Longrightarrow> keyed_run draw (action i) reload i answered finished failed p w = (q, w')
    \<Longrightarrow> page_runs room draw action reload w0 (tr @ [(i, map_of (kp_keys q) i = None)]) q w'"

text \<open>How often an operation was answered; whether the key of its pending press is among those carried out.\<close>

definition answers :: "('i \<times> bool) list \<Rightarrow> 'i \<Rightarrow> nat" where
  "answers tr i = count_list tr (i, True)"

definition pending_done :: "(string \<times> 'o) list \<Rightarrow> ('i \<times> string) list \<Rightarrow> 'i \<Rightarrow> nat" where
  "pending_done done ks i = (case map_of ks i of Some k \<Rightarrow> if k \<in> fst ` set done then 1 else 0 | None \<Rightarrow> 0)"

text \<open>Two operations never share a key, and a key that was used was used for the operation it is kept for.\<close>

definition keys_ok :: "('i \<Rightarrow> 'o) \<Rightarrow> string set \<Rightarrow> (string \<times> 'o) list \<Rightarrow> ('i \<times> string) list \<Rightarrow> bool" where
  "keys_ok f keys done ks \<longleftrightarrow>
     (\<forall>i k. map_of ks i = Some k \<longrightarrow> k \<in> keys \<and> (\<forall>x. (k, x) \<in> set done \<longrightarrow> x = f i))
     \<and> (\<forall>i j k. map_of ks i = Some k \<longrightarrow> map_of ks j = Some k \<longrightarrow> i = j)"

lemma pending_done_Some: "map_of ks i = Some k \<Longrightarrow> pending_done done ks i = (if k \<in> fst ` set done then 1 else 0)"
  by (simp add: pending_done_def)

context keyed
begin

text \<open>Getting the key, and then calling with it.\<close>

lemma key_for_ok:
  assumes g: "good w" and ok: "keys_ok f (seen w) (carried w) (kp_keys p)" and k: "key_for draw i p w = (k, p1, w1)"
  shows "good w1 \<and> room w1 = room w \<and> carried w1 = carried w \<and> k \<in> seen w1 \<and> map_of (kp_keys p1) i = Some k
    \<and> keys_ok f (seen w1) (carried w1) (kp_keys p1) \<and> (\<forall>j. j \<noteq> i \<longrightarrow> map_of (kp_keys p1) j = map_of (kp_keys p) j)
    \<and> pending_done (carried w1) (kp_keys p1) i = pending_done (carried w) (kp_keys p) i"
proof (cases "map_of (kp_keys p) i")
  case (Some a)
  with k have "k = a" "p1 = p" "w1 = w" by (simp_all add: key_for_def)
  with Some g ok show ?thesis by (simp add: keys_ok_def)
next
  case None
  obtain a v where d: "draw w = (a, v)" by fastforce
  with None k have e: "k = a" "w1 = v" "p1 = p\<lparr>kp_keys := AList.update i a (kp_keys p)\<rparr>" by (auto simp: key_for_def)
  have f: "good v" "room v = room w" "carried v = carried w" "a \<notin> seen w" "seen v = insert a (seen w)"
    using draw_fresh [OF g d] by simp_all
  have new: "a \<notin> fst ` set (carried w)" using carried_seen [OF g] f(4) by blast
  then have "(a, x) \<notin> set (carried w)" for x by (metis fst_conv image_eqI)
  moreover have "a \<noteq> k'" if "map_of (kp_keys p) j = Some k'" for j k' using ok that f(4) unfolding keys_ok_def by blast
  ultimately have "keys_ok f (seen v) (carried v) (AList.update i a (kp_keys p))"
    using ok unfolding keys_ok_def f(3,5) by (auto simp: update_conv')
  with f e new None show ?thesis by (simp add: update_conv' pending_done_def)
qed

lemma keyed_run_step:
  assumes g: "good w" and ok: "keys_ok f (seen w) (carried w) (kp_keys p)" and r: "0 < room w"
    and s: "suits (f i)" and c: "calm good carried seen room reload"
    and kk: "keeps_keys answered" "keeps_keys finished" "keeps_keys failed"
    and n: "keyed_run draw (call (f i)) reload i answered finished failed p w = (q, w')"
  shows "good w' \<and> keys_ok f (seen w') (carried w') (kp_keys q) \<and> (\<forall>j. j \<noteq> i \<longrightarrow> map_of (kp_keys q) j = map_of (kp_keys p) j)
    \<and> (\<exists>new. carried w' = carried w @ new \<and> (new = [] \<or> (\<exists>k. new = [(k, f i)] \<and> (\<forall>j. j \<noteq> i \<longrightarrow> map_of (kp_keys q) j \<noteq> Some k)))
        \<and> length new + pending_done (carried w) (kp_keys p) i
          = pending_done (carried w') (kp_keys q) i + (if map_of (kp_keys q) i = None then 1 else 0))"
proof -
  obtain k p1 w1 where k: "key_for draw i p w = (k, p1, w1)" by (metis prod_cases3)
  note key = key_for_ok [OF g ok k]
  obtain a w2 where a: "call (f i) k w1 = (a, w2)" by fastforce
  have pre: "good w1" "0 < room w1" "k \<in> seen w1" using key r by simp_all
  note keep = call_keeps [OF pre s a] and once = call_once [OF pre s a]
  define keys where "keys = (case a of Inl _ \<Rightarrow> kp_keys p1 | Inr _ \<Rightarrow> AList.delete i (kp_keys p1))"
  have q: "kp_keys q = keys \<and> good w' \<and> carried w' = carried w2 \<and> seen w' = seen w2"
  proof (cases a)
    case (Inl e)
    then show ?thesis using n kk keep by (auto simp: keyed_run_def k a keys_def keeps_keys_def)
  next
    case (Inr u)
    obtain x w3 where x: "reload w2 = (x, w3)" by fastforce
    then have "good w3 \<and> carried w3 = carried w2 \<and> seen w3 = seen w2" using c keep unfolding calm_def by blast
    then show ?thesis using n kk Inr by (auto simp: keyed_run_def k a x keys_def keeps_keys_def forget_key_def split: sum.splits)
  qed
  have before: "pending_done (carried w) (kp_keys p) i = (if k \<in> fst ` set (carried w) then 1 else 0)"
    using key pending_done_Some [of "kp_keys p1" i k "carried w1"] by metis
  obtain new where new: "carried w2 = carried w @ new" "new = [] \<or> (new = [(k, f i)] \<and> k \<notin> fst ` set (carried w))"
    using once key by auto
  have others: "map_of keys j = map_of (kp_keys p) j \<and> map_of keys j \<noteq> Some k" if "j \<noteq> i" for j
    using key that unfolding keys_def keys_ok_def by (auto simp: delete_conv' split: sum.splits)
  have sub: "map_of (kp_keys p1) j = Some k'" if "map_of keys j = Some k'" for j k'
    using that by (auto simp: keys_def delete_conv' split: sum.splits if_splits)
  have mine: "j = i" if "map_of (kp_keys p1) j = Some k" for j using key that unfolding keys_ok_def by blast
  have "keys_ok f (seen w2) (carried w2) keys"
    unfolding keys_ok_def
  proof (intro conjI allI impI)
    fix j k' assume j: "map_of keys j = Some k'"
    have "k' \<in> seen w1" and old: "\<And>x. (k', x) \<in> set (carried w) \<Longrightarrow> x = f j"
      using key sub [OF j] unfolding keys_ok_def by auto
    then show "k' \<in> seen w2" using keep by simp
    show "x = f j" if "(k', x) \<in> set (carried w2)" for x
      using that new old mine sub [OF j] by auto
    show "j = j'" if "map_of keys j' = Some k'" for j'
      using key sub [OF j] sub [OF that] unfolding keys_ok_def by blast
  qed
  moreover have "length new + pending_done (carried w) (kp_keys p) i
      = pending_done (carried w2) keys i + (if map_of keys i = None then 1 else 0)"
  proof (cases a)
    case (Inl e)
    then have "keys = kp_keys p1" by (simp add: keys_def)
    with key new before show ?thesis by (auto simp: pending_done_Some)
  next
    case (Inr u)
    have "k \<in> fst ` set (carried w2)" using call_answered [OF pre s] a Inr by (metis fst_conv image_eqI)
    moreover have "map_of keys i = None" by (simp add: keys_def Inr delete_conv')
    ultimately show ?thesis using new before by (auto simp: pending_done_def)
  qed
  moreover have "new = [] \<or> (\<exists>k. new = [(k, f i)] \<and> (\<forall>j. j \<noteq> i \<longrightarrow> map_of keys j \<noteq> Some k))"
    using new(2) others by blast
  ultimately show ?thesis using q new(1) others by (intro conjI exI [of _ new]) simp_all
qed


text \<open>
  Over a whole run of the page: every operation was carried out once for each answered press, and once more
  only if a press of it is still waiting for its answer.
\<close>

lemma page_runs_counted:
  assumes "page_runs room draw (\<lambda>i. call (f i)) reload w0 tr p w" and "good w0"
    and "calm good carried seen room reload" and "inj f" and "\<forall>i. suits (f i)"
  shows "good w \<and> keys_ok f (seen w) (carried w) (kp_keys p)
    \<and> (\<exists>new. carried w = carried w0 @ new
        \<and> (\<forall>i. count_list (map snd new) (f i) = answers tr i + pending_done (carried w) (kp_keys p) i))"
  using assms
proof (induction rule: page_runs.induct)
  case (start p)
  then show ?case by (simp add: keys_ok_def answers_def pending_done_def)
next
  case (edit tr p w q)
  then show ?case by simp
next
  case (press tr p w answered finished failed i q w')
  then obtain new where ok: "good w" "keys_ok f (seen w) (carried w) (kp_keys p)" and new: "carried w = carried w0 @ new"
    and count: "\<And>i. count_list (map snd new) (f i) = answers tr i + pending_done (carried w) (kp_keys p) i" by blast
  from keyed_run_step [OF ok(1,2) press.hyps(2) _ press.prems(2) press.hyps(3-6)] press.prems
  obtain more where step: "good w'" "keys_ok f (seen w') (carried w') (kp_keys q)"
      "\<And>j. j \<noteq> i \<Longrightarrow> map_of (kp_keys q) j = map_of (kp_keys p) j"
    and more: "carried w' = carried w @ more" "more = [] \<or> (\<exists>k. more = [(k, f i)] \<and> (\<forall>j. j \<noteq> i \<longrightarrow> map_of (kp_keys q) j \<noteq> Some k))"
    and sum: "length more + pending_done (carried w) (kp_keys p) i
      = pending_done (carried w') (kp_keys q) i + (if map_of (kp_keys q) i = None then 1 else 0)" by auto
  let ?tr = "tr @ [(i, map_of (kp_keys q) i = None)]"
  have "count_list (map snd (new @ more)) (f j) = answers ?tr j + pending_done (carried w') (kp_keys q) j" for j
  proof (cases "j = i")
    case True
    have "count_list (map snd more) (f i) = length more" using more(2) by auto
    then show ?thesis using count [of i] sum True by (cases "map_of (kp_keys q) i") (simp_all add: answers_def)
  next
    case False
    then have "f i \<noteq> f j" using press.prems(3) by (auto dest: injD)
    then have "count_list (map snd more) (f j) = 0" using more(2) by auto
    moreover have "pending_done (carried w') (kp_keys q) j = pending_done (carried w) (kp_keys p) j"
      using step(3) [OF False] more False by (auto simp: pending_done_def split: option.splits)
    ultimately show ?thesis using count [of j] False by (simp add: answers_def)
  qed
  with step new more(1) show ?case by (intro conjI exI [of _ "new @ more"]) simp_all
qed

end

end
