(* ===== verification/KeyedNet.thy ===== *)
theory KeyedNet
  imports Keyed ClientDemo
begin

text \<open>
  The keyed operations of a page as they really travel: the client's POST, a network that may lose a request
  or an answer, and the demo's server. What the server has carried out is read off its retry receipts. The
  page holds one account; a 401 ends its session. The theory's end is the interpretation of \<open>keyed\<close>: the
  server's receipts give the pages what they rely on, as long as they are not full.
\<close>

section \<open>The network\<close>

datatype delivery = Delivered | Request_lost | Answer_lost

record net =
  nt_client :: client
  nt_server :: backend
  nt_delivery :: "nat \<Rightarrow> delivery"
  nt_chance :: "nat \<Rightarrow> chance"
  nt_random :: "nat \<Rightarrow> byte list"
  nt_sent :: nat
  nt_drawn :: nat

definition LOST :: problem where
  "LOST = Failed (ApiError 0 ''unreachable'' ''NanaCoin did not answer within six seconds.'')"

text \<open>The demo's server never asks for a retry, so the service's backoff sends each request once.\<close>

definition net_call :: "(ledger \<Rightarrow> ledger) \<Rightarrow> request res \<Rightarrow> (net, answer) call" where
  "net_call fill sent n = (case sent of
     Inl x \<Rightarrow> (Inl (Thrown x), n)
   | Inr rq \<Rightarrow>
       let i = nt_sent n; n1 = n\<lparr>nt_sent := Suc i\<rparr> in
       if nt_delivery n i = Request_lost then (Inl LOST, n1)
       else case serve fill (nt_chance n i) rq (nt_server n) of
         None \<Rightarrow> (Inl LOST, n1)
       | Some (reply, st) \<Rightarrow>
           let n2 = n1\<lparr>nt_server := st\<rparr> in
           if nt_delivery n i = Answer_lost then (Inl LOST, n2)
           else case reply of
             Reply a \<Rightarrow> (Inr a, n2)
           | Refused s c m \<Rightarrow> (Inl (Failed (ApiError s c m)),
               if s = 401 then n2\<lparr>nt_client := logged_out (nt_client n)\<rparr> else n2))"

definition net_key :: "net \<Rightarrow> nat \<Rightarrow> string" where
  "net_key n i = new_key (nt_client n) (nt_random n i)"

definition net_draw :: "net \<Rightarrow> string \<times> net" where
  "net_draw n = (net_key n (nt_drawn n), n\<lparr>nt_drawn := Suc (nt_drawn n)\<rparr>)"

text \<open>The client's two kinds of request: an operation is a path and a body, posted with its key.\<close>

type_synonym posting_op = "string \<times> body"

definition net_post :: "(ledger \<Rightarrow> ledger) \<Rightarrow> posting_op \<Rightarrow> string \<Rightarrow> (net, answer) call" where
  "net_post fill x k n = net_call fill (post_request (nt_client n) (fst x) (snd x) k) n"

definition net_get :: "(ledger \<Rightarrow> ledger) \<Rightarrow> string \<Rightarrow> (net, unit) call" where
  "net_get fill path n = (case net_call fill (get_request (nt_client n) path) n of
     (Inl e, n') \<Rightarrow> (Inl e, n') | (Inr _, n') \<Rightarrow> (Inr (), n'))"

text \<open>The paths of the operations: plain, for members only, and always a mutation.\<close>

definition plain_path :: "string \<Rightarrow> bool" where
  "plain_path path \<longleftrightarrow> after_first ''/api/v1'' path = None \<and> after_first ''?'' path = None \<and> \<not> starts_with ''/auth/'' path"

definition net_suits :: "posting_op \<Rightarrow> bool" where
  "net_suits x \<longleftrightarrow> plain_path (fst x) \<and> \<not> is_screen (fst x) \<and> fst x \<notin> {''/status'', ''/provision'', ''/admin/reform''}"

section \<open>What was carried out\<close>

definition receipt_op :: "string \<Rightarrow> string \<times> fingerprint \<times> answer \<Rightarrow> (string \<times> posting_op) option" where
  "receipt_op uid r = (case r of (i, (m, u, b), a) \<Rightarrow>
     if prefix (uid @ '':'') i \<and> length uid + 1 < length i \<and> m = POST \<and> prefix SAME_ORIGIN u
     then Some (drop (length uid + 1) i, drop (length SAME_ORIGIN) u, b) else None)"

definition net_done :: "string \<Rightarrow> net \<Rightarrow> (string \<times> posting_op) list" where
  "net_done uid n = List.map_filter (receipt_op uid) (be_receipts (nt_server n))"

definition net_seen :: "string \<Rightarrow> net \<Rightarrow> string set" where
  "net_seen uid n = net_key n ` {..<nt_drawn n} \<union> fst ` set (net_done uid n)"

definition net_room :: "net \<Rightarrow> nat" where
  "net_room n = 4096 - length (be_receipts (nt_server n))"

text \<open>The page is signed in as \<open>uid\<close>, with this one account, or not at all; its random keys do not repeat.\<close>

definition client_good :: "string \<Rightarrow> net \<Rightarrow> bool" where
  "client_good uid n \<longleftrightarrow> cl_base (nt_client n) = SAME_ORIGIN \<and> length (ac_all (cl_accounts (nt_client n))) \<le> 1
     \<and> (case active_token (cl_accounts (nt_client n)) of None \<Rightarrow> True
         | Some t \<Rightarrow> t \<noteq> [] \<and> map_of (be_sessions (nt_server n)) t = Some uid)
     \<and> map_of (be_sessions (nt_server n)) [] = None"

definition net_good :: "string \<Rightarrow> net \<Rightarrow> bool" where
  "net_good uid n \<longleftrightarrow> uid \<noteq> [] \<and> client_good uid n \<and> wf_receipts (nt_server n)
     \<and> inj (net_key n) \<and> (\<forall>i \<ge> nt_drawn n. net_key n i \<notin> fst ` set (net_done uid n))"

section \<open>A request on the wire\<close>

lemma sent_request:
  assumes "send c m path b key = Inr rq" and "cl_base c = SAME_ORIGIN" and "plain_path path"
  shows "rq_path rq = path" "rq_method rq = m" "rq_url rq = SAME_ORIGIN @ path" "rq_body rq = b" "rq_auth rq = bearer_header c"
    "rq_key rq = (if truthy_str key then key else None)"
proof -
  show "rq_path rq = path" "rq_method rq = m" "rq_body rq = b"
    using rq_path_client [OF assms(1,2)] assms(3) by (simp_all add: plain_path_def)
  show "rq_url rq = SAME_ORIGIN @ path" "rq_auth rq = bearer_header c" "rq_key rq = (if truthy_str key then key else None)"
    using assms(1,2) by (auto simp: send_def split: if_splits)
qed

lemma suits_not_open: "net_suits x \<Longrightarrow> rq_path rq = fst x \<Longrightarrow> rq_method rq = POST \<Longrightarrow> \<not> list_ex fst (open_routes rnd rq)"
  by (auto simp: open_routes_def Let_def net_suits_def plain_path_def starts_with_def)

lemma plain_keeps_sessions:
  assumes "\<not> starts_with ''/auth/'' (rq_path rq)" and "handle rnd rq st = Some (r, st')"
  shows "be_sessions st' = be_sessions st \<and> be_receipts st' = be_receipts st"
  using obeysD [OF sessions.obeys_open [OF assms(1)] assms(2)] obeysD [OF receipts.obeys_handle assms(2)] by simp

lemma update_new: "k \<notin> fst ` set xs \<Longrightarrow> AList.update k v xs = xs @ [(k, v)]"
  by (induction xs) auto

text \<open>What serving a request does to sessions and receipts: one without a key, and one with.\<close>

lemma serve_unkeyed:
  assumes s: "serve fill rnd rq st = Some (r, st')" and path: "\<not> starts_with ''/auth/'' (rq_path rq)" and key: "rq_key rq = None"
  shows "be_sessions st' = be_sessions st \<and> be_receipts st' = be_receipts st"
  using s
proof (cases rule: serveE)
  case (tick e w)
  then show ?thesis by simp
next
  case (checked w)
  let ?s = "(seeded fill st)\<lparr>be_ledger := w\<rparr>"
  have i: "identity rq ?s = []" using key by (simp add: identity_def split: option.splits)
  from checked(2) show ?thesis
  proof (cases rule: serve_checkedE)
    case (prior f a)
    then show ?thesis by simp
  next
    case stale
    then show ?thesis by simp
  next
    case (refused e)
    then show ?thesis using plain_keeps_sessions [OF path refused(1)] by simp
  next
    case (answered a st1)
    then show ?thesis using plain_keeps_sessions [OF path answered(1)] i by (auto simp: remember_def bump_def)
  qed
qed

lemma serve_keyed:
  assumes s: "serve fill rnd rq st = Some (r, st')" and path: "net_suits x" "rq_path rq = fst x" "rq_method rq = POST"
    and key: "rq_key rq = Some k" "k \<noteq> []" and uid: "session_of rq st = Some uid" "uid \<noteq> []"
    and room: "length (be_receipts st) < 4096"
  shows "be_sessions st' = be_sessions st \<and>
    (let i = uid @ '':'' @ k in
     (be_receipts st' = be_receipts st \<and> (\<forall>a. r = Reply a \<longrightarrow> map_of (be_receipts st) i = Some (fingerprint_of rq, a)))
     \<or> (\<exists>a. i \<notin> fst ` set (be_receipts st) \<and> be_receipts st' = be_receipts st @ [(i, fingerprint_of rq, a)]))"
  using s
proof (cases rule: serveE)
  case (tick e w)
  then show ?thesis by simp
next
  case (checked w)
  let ?s = "(seeded fill st)\<lparr>be_ledger := w\<rparr>"
  have u: "session_of rq ?s = Some uid" using uid(1) session_of_cong [of ?s st rq] by simp
  have mut: "is_mutation rq ?s" using u uid(2) path by (auto simp: is_mutation_def net_suits_def plain_path_def)
  have i: "identity rq ?s = uid @ '':'' @ k" using u key mut by (simp add: identity_def)
  show ?thesis
  proof (cases "map_of (be_receipts st) (uid @ '':'' @ k)")
    case (Some p)
    obtain f a where p: "p = (f, a)" by (cases p)
    have "r = (if f \<noteq> fingerprint_of rq then refusal KEY_REUSED else Reply a) \<and> st' = ?s"
    proof -
      have "(if identity rq ?s = [] then None else map_of (be_receipts ?s) (identity rq ?s)) = Some (f, a)"
        using Some p i by simp
      note checked(2) [unfolded serve_checked_def Let_def this option.case prod.case]
      then show ?thesis by simp
    qed
    with Some p show ?thesis by (auto simp: Let_def)
  next
    case None
    then have new: "uid @ '':'' @ k \<notin> fst ` set (be_receipts st)" by (simp add: map_of_eq_None_iff)
    from checked(2) show ?thesis
    proof (cases rule: serve_checkedE)
      case (prior f a)
      with None show ?thesis by (simp add: i)
    next
      case stale
      then show ?thesis by simp
    next
      case (refused e)
      have "be_sessions st' = be_sessions st" using mutation_keeps_sessions [OF mut refused(1)] by simp
      moreover have "be_receipts st' = be_receipts st" using obeysD [OF receipts.obeys_handle refused(1)] by simp
      ultimately show ?thesis using refused(2) by simp
    next
      case (answered a st1)
      have keeps: "be_sessions st1 = be_sessions st" "be_receipts st1 = be_receipts st"
        using mutation_keeps_sessions [OF mut answered(1)] obeysD [OF receipts.obeys_handle answered(1)] by simp_all
      have "st' = remember (uid @ '':'' @ k) (fingerprint_of rq) a (bump st1)" using answered(3) mut i by simp
      then have "be_sessions st' = be_sessions st"
        "be_receipts st' = be_receipts st @ [(uid @ '':'' @ k, fingerprint_of rq, a)]"
        using keeps room update_new [OF new] by (simp_all add: remember_def Let_def)
      with new show ?thesis by (auto simp: Let_def)
    qed
  qed
qed


section \<open>The laws of \<open>keyed\<close>\<close>

lemma in_map_filter: "x \<in> set xs \<Longrightarrow> f x = Some y \<Longrightarrow> y \<in> set (List.map_filter f xs)"
  by (force simp: List.map_filter_def)

lemma map_filter_append: "List.map_filter f (xs @ ys) = List.map_filter f xs @ List.map_filter f ys"
  by (simp add: List.map_filter_def)

lemma map_filter_one: "f x = Some y \<Longrightarrow> List.map_filter f [x] = [y]"
  by (simp add: List.map_filter_def)

lemma receipt_mine:
  "receipt_op uid (uid @ '':'' @ k, (POST, SAME_ORIGIN @ path, b), a) = (if k = [] then None else Some (k, path, b))"
  by (simp add: receipt_op_def)

lemma in_done:
  assumes "k \<in> fst ` set (net_done uid n)"
  shows "uid @ '':'' @ k \<in> fst ` set (be_receipts (nt_server n))" "k \<noteq> []"
proof -
  obtain x y where x: "x \<in> set (be_receipts (nt_server n))" "receipt_op uid x = Some (k, y)"
    using assms unfolding net_done_def List.map_filter_def by auto
  obtain i m u b a where c: "x = (i, (m, u, b), a)" by (cases x) auto
  from x(2) have "fst x = uid @ '':'' @ k" "k \<noteq> []"
    by (auto simp: c receipt_op_def prefix_def split: if_splits)
  with x(1) show "uid @ '':'' @ k \<in> fst ` set (be_receipts (nt_server n))" "k \<noteq> []" by (metis image_eqI)+
qed

text \<open>What a call leaves of the network: server and client move as far as the law allows; \<open>new\<close> are its receipts.\<close>

definition moved :: "(string \<times> fingerprint \<times> answer) list \<Rightarrow> net \<Rightarrow> net \<Rightarrow> bool" where
  "moved new n n' \<longleftrightarrow> nt_random n' = nt_random n \<and> nt_drawn n' = nt_drawn n
     \<and> (nt_client n' = nt_client n \<or> nt_client n' = logged_out (nt_client n))
     \<and> be_sessions (nt_server n') = be_sessions (nt_server n)
     \<and> be_receipts (nt_server n') = be_receipts (nt_server n) @ new"

text \<open>A call reaches the server or not, and its answer arrives or not.\<close>

lemma net_callE:
  assumes "net_call fill sent n = (r, n')"
  obtains (stopped) "moved [] n n'" "\<And>u. r \<noteq> Inr u"
  | (served) rq q st where "sent = Inr rq" "serve fill (nt_chance n (nt_sent n)) rq (nt_server n) = Some (q, st)"
      "nt_server n' = st" "nt_random n' = nt_random n" "nt_drawn n' = nt_drawn n"
      "nt_client n' = nt_client n \<or> nt_client n' = logged_out (nt_client n)" "\<And>u. r = Inr u \<Longrightarrow> q = Reply u"
proof (cases sent)
  case (Inl e)
  with assms stopped show ?thesis by (auto simp: net_call_def moved_def)
next
  case (Inr rq)
  note run = assms [unfolded net_call_def Inr sum.case Let_def]
  show ?thesis
  proof (cases "nt_delivery n (nt_sent n) = Request_lost \<or> serve fill (nt_chance n (nt_sent n)) rq (nt_server n) = None")
    case True
    with run stopped show ?thesis by (auto simp: moved_def split: if_splits)
  next
    case False
    then obtain q st where s: "serve fill (nt_chance n (nt_sent n)) rq (nt_server n) = Some (q, st)" by auto
    show ?thesis by (rule served [OF Inr s]) (use run False s in \<open>auto split: if_splits reply.splits\<close>)
  qed
qed

lemma session_of_page:
  assumes "client_good uid n" and "rq_auth rq = bearer_header (nt_client n)"
  shows "session_of rq (nt_server n) = (case active_token (cl_accounts (nt_client n)) of None \<Rightarrow> None | Some t \<Rightarrow> Some uid)"
  using assms by (auto simp: session_of_def client_good_def bearer_def bearer_header_def starts_with_def split: option.splits)

lemma net_post_moved:
  assumes g: "net_good uid n" "0 < net_room n" and k: "k \<noteq> []" and x: "net_suits x" and c: "net_post fill x k n = (r, n')"
  shows "\<exists>new. moved new n n' \<and> (new = [] \<or> (\<exists>a. new = [(uid @ '':'' @ k, (POST, SAME_ORIGIN @ fst x, snd x), a)]
      \<and> uid @ '':'' @ k \<notin> fst ` set (be_receipts (nt_server n))))
    \<and> (\<forall>u. r = Inr u \<longrightarrow> (k, x) \<in> set (net_done uid n'))"
  using c [unfolded net_post_def]
proof (cases rule: net_callE)
  case stopped
  then show ?thesis by blast
next
  case (served rq q st)
  have base: "cl_base (nt_client n) = SAME_ORIGIN" "uid \<noteq> []" "client_good uid n"
    using g(1) by (simp_all add: net_good_def client_good_def)
  have plain: "plain_path (fst x)" using x by (simp add: net_suits_def)
  note rq = sent_request [OF served(1) [unfolded post_request_def] base(1) plain]
  have fp: "fingerprint_of rq = (POST, SAME_ORIGIN @ fst x, snd x)" by (simp add: fingerprint_of_def rq)
  have key: "rq_key rq = Some k" using rq(6) k by (simp add: truthy_str_def)
  note who = session_of_page [OF base(3) rq(5)]
  show ?thesis
  proof (cases "session_of rq (nt_server n)")
    case None
    from serve_no_session [OF suits_not_open [OF x rq(1,2)] None served(2)]
    obtain err where err: "q = refusal err" "st = (seeded fill (nt_server n))\<lparr>be_ledger := be_ledger st\<rparr>" by blast
    have "be_sessions st = be_sessions (nt_server n)" "be_receipts st = be_receipts (nt_server n)" by (subst err(2), simp)+
    moreover have "r \<noteq> Inr u" for u using served(7) [of u] err(1) by (auto simp: refusal_def split: exn.splits)
    ultimately show ?thesis using served by (auto simp: moved_def)
  next
    case (Some i)
    then have "session_of rq (nt_server n) = Some uid" using who by (auto split: option.splits)
    from serve_keyed [OF served(2) x rq(1,2) key k this base(2)] g(2)
    have sess: "be_sessions st = be_sessions (nt_server n)" and
      step: "(be_receipts st = be_receipts (nt_server n)
         \<and> (\<forall>a. q = Reply a \<longrightarrow> map_of (be_receipts (nt_server n)) (uid @ '':'' @ k) = Some (fingerprint_of rq, a)))
       \<or> (\<exists>a. uid @ '':'' @ k \<notin> fst ` set (be_receipts (nt_server n))
          \<and> be_receipts st = be_receipts (nt_server n) @ [(uid @ '':'' @ k, fingerprint_of rq, a)])"
      by (simp_all add: net_room_def Let_def)
    have mine: "receipt_op uid (uid @ '':'' @ k, fingerprint_of rq, a) = Some (k, x)" for a
      unfolding fp receipt_mine using k by simp
    from step show ?thesis
    proof
      assume old: "be_receipts st = be_receipts (nt_server n)
         \<and> (\<forall>a. q = Reply a \<longrightarrow> map_of (be_receipts (nt_server n)) (uid @ '':'' @ k) = Some (fingerprint_of rq, a))"
      have "(k, x) \<in> set (net_done uid n')" if "r = Inr u" for u
      proof -
        have "(uid @ '':'' @ k, fingerprint_of rq, u) \<in> set (be_receipts (nt_server n'))"
          using old served(3) served(7) [OF that] map_of_SomeD by fastforce
        from in_map_filter [where f = "receipt_op uid", OF this mine] show ?thesis by (simp only: net_done_def)
      qed
      with old sess served show ?thesis by (auto simp: moved_def)
    next
      assume "\<exists>a. uid @ '':'' @ k \<notin> fst ` set (be_receipts (nt_server n))
          \<and> be_receipts st = be_receipts (nt_server n) @ [(uid @ '':'' @ k, fingerprint_of rq, a)]"
      then obtain a where a: "uid @ '':'' @ k \<notin> fst ` set (be_receipts (nt_server n))"
        "be_receipts st = be_receipts (nt_server n) @ [(uid @ '':'' @ k, fingerprint_of rq, a)]" by blast
      then have "(k, x) \<in> set (net_done uid n')"
        using served(3) mine by (simp add: net_done_def map_filter_append map_filter_one)
      with a sess served fp show ?thesis
        by (intro exI [of _ "[(uid @ '':'' @ k, fingerprint_of rq, a)]"]) (simp add: moved_def)
    qed
  qed
qed

lemma net_get_moved:
  assumes g: "net_good uid n" and path: "after_first ''/api/v1'' path = None" "\<not> starts_with ''/auth/'' (before_first ''?'' path)"
    and c: "net_get fill path n = (r, n')"
  shows "moved [] n n'"
proof -
  obtain a where a: "net_call fill (get_request (nt_client n) path) n = (a, n')"
    using c by (auto simp: net_get_def split: prod.splits sum.splits)
  from a show ?thesis
  proof (cases rule: net_callE)
    case (served rq q st)
    have "cl_base (nt_client n) = SAME_ORIGIN" using g by (simp add: net_good_def client_good_def)
    then have rq: "rq_url rq = SAME_ORIGIN @ path" "rq_key rq = None"
      using served(1) by (auto simp: get_request_def send_def truthy_str_def split: if_splits)
    have "rq_path rq = before_first ''?'' path" using path(1) by (simp add: rq_path_def rq(1) after_api before_none)
    then show ?thesis using serve_unkeyed [OF served(2) _ rq(2)] path(2) served by (simp add: moved_def)
  qed
qed

lemma key_moved: "moved new n n' \<Longrightarrow> net_key n' = net_key n"
  by (auto simp: moved_def net_key_def new_key_def logged_out_def fun_eq_iff)

lemma done_moved: "moved new n n' \<Longrightarrow> net_done uid n' = net_done uid n @ List.map_filter (receipt_op uid) new"
  by (simp add: moved_def net_done_def map_filter_append)

lemma logged_out_alone:
  assumes "length (ac_all (cl_accounts c)) \<le> 1"
  shows "cl_base (logged_out c) = cl_base c" "length (ac_all (cl_accounts (logged_out c))) \<le> 1"
    "active_token (cl_accounts (logged_out c)) = None"
proof -
  obtain xs i where c: "cl_accounts c = \<lparr>ac_all = xs, ac_active = i\<rparr>" by (cases "cl_accounts c")
  show "cl_base (logged_out c) = cl_base c" by (simp add: logged_out_def)
  show "length (ac_all (cl_accounts (logged_out c))) \<le> 1" "active_token (cl_accounts (logged_out c)) = None"
    using assms by (cases xs; auto simp: c logged_out_def invalidate_active_def active_account_def active_token_def
        remove_account_def)+
qed

lemma client_moved:
  assumes "client_good uid n" and "moved new n n'"
  shows "client_good uid n'"
proof -
  have c: "nt_client n' = nt_client n \<or> nt_client n' = logged_out (nt_client n)"
    and b: "be_sessions (nt_server n') = be_sessions (nt_server n)" using assms(2) unfolding moved_def by blast+
  have len: "length (ac_all (cl_accounts (nt_client n))) \<le> 1" using assms(1) by (simp add: client_good_def)
  from c show ?thesis
  proof
    assume "nt_client n' = nt_client n"
    with assms(1) b show ?thesis by (simp add: client_good_def cong: option.case_cong)
  next
    assume "nt_client n' = logged_out (nt_client n)"
    with assms(1) b logged_out_alone [OF len] show ?thesis by (simp add: client_good_def)
  qed
qed

text \<open>A call that brings at most the receipt of an operation with a key already handed out.\<close>

lemma good_moved:
  assumes g: "net_good uid n" and m: "moved new n n'" and room: "new = [] \<or> 0 < net_room n"
    and new: "new = [] \<or> (\<exists>k f a. new = [(uid @ '':'' @ k, f, a)] \<and> uid @ '':'' @ k \<notin> fst ` set (be_receipts (nt_server n))
      \<and> k \<in> net_seen uid n)"
  shows "net_good uid n' \<and> net_room n \<le> Suc (net_room n') \<and> net_seen uid n' = net_seen uid n"
proof -
  have mine: "fst ` set (List.map_filter (receipt_op uid) new) \<subseteq> net_seen uid n"
    using new by (auto simp: List.map_filter_def receipt_op_def split: if_splits)
  have drawn: "nt_drawn n' = nt_drawn n" using m by (simp add: moved_def)
  have seen: "net_seen uid n' = net_seen uid n"
    using mine by (auto simp: net_seen_def key_moved [OF m] drawn done_moved [OF m])
  have fresh: "net_key n' i \<notin> fst ` set (net_done uid n')" if i: "nt_drawn n' \<le> i" for i
  proof -
    have inj: "inj (net_key n)" and old: "net_key n i \<notin> fst ` set (net_done uid n)"
      using g i drawn by (simp_all add: net_good_def)
    have "net_key n i \<notin> net_key n ` {..<nt_drawn n}" using inj i drawn by (auto dest: injD)
    with old have "net_key n i \<notin> net_seen uid n" by (simp add: net_seen_def)
    with old mine show ?thesis by (auto simp: key_moved [OF m] done_moved [OF m])
  qed
  have "wf_receipts (nt_server n')"
    using m g room new by (elim disjE exE conjE) (simp_all add: net_good_def wf_receipts_def moved_def net_room_def)
  moreover have "inj (net_key n')" using key_moved [OF m] g by (simp add: net_good_def)
  moreover have "client_good uid n'" using client_moved [OF _ m] g by (simp add: net_good_def)
  ultimately have "net_good uid n'" using g fresh by (simp add: net_good_def)
  moreover have "net_room n \<le> Suc (net_room n')" using m new by (auto simp: moved_def net_room_def)
  ultimately show ?thesis using seen by simp
qed

lemma seen_nonempty: "k \<in> net_seen uid n \<Longrightarrow> k \<noteq> []"
  using in_done(2) [of k uid n] by (auto simp: net_seen_def net_key_def new_key_def)

interpretation posts: keyed "net_post fill" net_draw "net_done uid" "net_seen uid" net_room "net_good uid" net_suits
  for fill uid
proof unfold_locales
  fix w k x r w'
  assume a: "net_good uid w" "0 < net_room w" "k \<in> net_seen uid w" "net_suits x" "net_post fill x k w = (r, w')"
  from net_post_moved [OF a(1,2) seen_nonempty [OF a(3)] a(4,5)]
  obtain new where m: "moved new w w'" and new: "new = [] \<or> (\<exists>a. new = [(uid @ '':'' @ k, (POST, SAME_ORIGIN @ fst x, snd x), a)]
      \<and> uid @ '':'' @ k \<notin> fst ` set (be_receipts (nt_server w)))"
    by blast
  show "net_good uid w' \<and> net_room w \<le> Suc (net_room w') \<and> net_seen uid w' = net_seen uid w"
    by (rule good_moved [OF a(1) m]) (use new a(2,3) in blast)+
  show "net_done uid w' = net_done uid w \<or> (k \<notin> fst ` set (net_done uid w) \<and> net_done uid w' = net_done uid w @ [(k, x)])"
    using new
  proof (elim disjE exE conjE)
    assume "new = []"
    then show ?thesis using done_moved [OF m] by (simp add: List.map_filter_def)
  next
    fix a assume n: "new = [(uid @ '':'' @ k, (POST, SAME_ORIGIN @ fst x, snd x), a)]" "uid @ '':'' @ k \<notin> fst ` set (be_receipts (nt_server w))"
    have "receipt_op uid (uid @ '':'' @ k, (POST, SAME_ORIGIN @ fst x, snd x), a) = Some (k, x)"
      unfolding receipt_mine using seen_nonempty [OF a(3)] by simp
    then show ?thesis using done_moved [OF m] n in_done(1) [of k uid w] by (auto simp: map_filter_one)
  qed
next
  fix w k x u w'
  assume a: "net_good uid w" "0 < net_room w" "k \<in> net_seen uid w" "net_suits x" "net_post fill x k w = (Inr u, w')"
  show "(k, x) \<in> set (net_done uid w')"
    using net_post_moved [OF a(1,2) seen_nonempty [OF a(3)] a(4,5)] by blast
next
  fix w k w'
  assume g: "net_good uid w" and d: "net_draw w = (k, w')"
  have w': "w' = w\<lparr>nt_drawn := Suc (nt_drawn w)\<rparr>" and k: "k = net_key w (nt_drawn w)"
    using d by (auto simp: net_draw_def)
  have keys: "net_key w' = net_key w" "net_done uid w' = net_done uid w"
    by (simp_all add: w' net_key_def net_done_def fun_eq_iff)
  have "k \<notin> net_seen uid w"
    using g by (auto simp: k net_seen_def net_good_def dest: injD)
  moreover have "net_seen uid w' = insert k (net_seen uid w)"
    unfolding net_seen_def keys by (simp add: w' k lessThan_Suc)
  moreover have "net_good uid w'" "net_room w' = net_room w"
    using g keys by (simp_all add: net_good_def client_good_def w' net_room_def cong: option.case_cong)
  moreover have "k \<noteq> []" by (simp add: k net_key_def new_key_def)
  ultimately show "net_good uid w' \<and> net_room w' = net_room w \<and> net_done uid w' = net_done uid w \<and> k \<noteq> []
      \<and> k \<notin> net_seen uid w \<and> net_seen uid w' = insert k (net_seen uid w)" using keys by simp
qed (simp add: net_seen_def)

text \<open>Reading is calm.\<close>

lemma net_get_calm:
  assumes "after_first ''/api/v1'' path = None" "\<not> starts_with ''/auth/'' (before_first ''?'' path)"
  shows "calm (net_good uid) (net_done uid) (net_seen uid) net_room (net_get fill path)"
  unfolding calm_def
proof (intro allI impI)
  fix w r w' assume a: "net_good uid w" "net_get fill path w = (r, w')"
  note m = net_get_moved [OF a(1) assms a(2)]
  show "net_good uid w' \<and> net_done uid w' = net_done uid w \<and> net_seen uid w' = net_seen uid w \<and> net_room w' = net_room w"
    using good_moved [OF a(1) m] done_moved [OF m] m by (simp add: List.map_filter_def moved_def net_room_def)
qed

end
