(* ===== verification/Allowances.thy ===== *)
theory Allowances
  imports Pages Calendar
begin

text \<open>
  \<open>pages/allowances.ts\<close> and the allowance half of \<open>pages/send.ts\<close>: recurring payments that live in the
  payer's browser and are sent when the payer presses the button. What the page relies on is the locale
  \<open>payer\<close>: a payment carries a key, and the server carries out a key at most once, whether or not its
  answer arrives. Under it, what a run pays is exactly the instalments between where each allowance stood
  and where it stands, each once, however often a run is cut short.
\<close>

section \<open>Schedules\<close>

datatype cadence = Weekly | Monthly

record allowance =
  al_id :: string
  al_owner :: string
  al_recipient :: string
  al_recipient_name :: string
  al_amount :: num
  al_epoch :: "nat option"
  al_cadence :: cadence
  al_next_due :: string
  al_memo :: string
  al_pending :: "string option"

text \<open>
  \<open>advanceDue\<close>. \<open>Date.UTC\<close> drops the fraction of its arguments; a date that cannot be read, or beyond the
  range of \<open>Date\<close> (\<open>10 ^ 8\<close> days), makes \<open>toISOString\<close> throw. The range is tested on the first and the
  last date only: between them are at most two months.
\<close>

definition truncate :: "num \<Rightarrow> int" where
  "truncate x = (if 0 \<le> x then \<lfloor>x\<rfloor> else \<lceil>x\<rceil>)"

definition in_date_range :: "int \<Rightarrow> bool" where
  "in_date_range day \<longleftrightarrow> \<bar>day\<bar> \<le> 100000000"

definition next_day :: "int \<Rightarrow> int \<Rightarrow> cadence \<Rightarrow> int" where
  "next_day day d c = (case c of
     Weekly \<Rightarrow> day + 7
   | Monthly \<Rightarrow> let first = month_start (civil_year day) (civil_month day);
         last = day_of_month (utc_day (civil_year first) (civil_month first) 0) in
       first + min d last - 1)"

definition advance_due :: "string \<Rightarrow> cadence \<Rightarrow> string res" where
  "advance_due date c = (case map js_number (split_char (CHR ''-'') date) of
     Some y # Some m # Some d # _ \<Rightarrow>
       let day = utc_day (truncate y) (truncate m - 1) (truncate d); next = next_day day (truncate d) c in
       if in_date_range day \<and> in_date_range next then Inr (iso_date next) else Inl RangeError
   | _ \<Rightarrow> Inl RangeError)"

text \<open>\<open>today\<close>, local time at the fixed offset \<open>zone\<close>.\<close>

definition today_text :: "int \<Rightarrow> int \<Rightarrow> string" where
  "today_text zone t = (let day = (t + zone) div 86400 in
     show_nat (nat (civil_year day)) @ ''-'' @ two_digits (civil_month day) @ ''-'' @ two_digits (day_of_month day))"

section \<open>The browser's copy\<close>

text \<open>\<open>/^\d{4}-\d{2}-\d{2}$/\<close>.\<close>

definition is_due_date :: "string \<Rightarrow> bool" where
  "is_due_date s \<longleftrightarrow> length s = 10 \<and> s ! 4 = CHR ''-'' \<and> s ! 7 = CHR ''-''
     \<and> list_all is_digit (take 4 s @ take 2 (drop 5 s) @ drop 8 s)"

definition cadence_name :: "cadence \<Rightarrow> string" where
  "cadence_name c = (case c of Weekly \<Rightarrow> ''WEEKLY'' | Monthly \<Rightarrow> ''MONTHLY'')"

definition valid_allowance :: "allowance \<Rightarrow> bool" where
  "valid_allowance a \<longleftrightarrow> is_safe (al_amount a) \<and> al_amount a > 0 \<and> is_due_date (al_next_due a)"

text \<open>
  \<open>saveAllowances\<close> and \<open>loadAllowances\<close> over JSON values (\<open>None\<close>: nothing stored, or not JSON). An
  entry that fails the checks of \<open>valid\<close> is dropped; the two fields it does not check are read as the
  types the page writes there.
\<close>

definition json_of_allowance :: "allowance \<Rightarrow> json" where
  "json_of_allowance a = JObj ([(''id'', JStr (al_id a)), (''ownerId'', JStr (al_owner a)),
     (''recipientAccount'', JStr (al_recipient a)), (''recipientName'', JStr (al_recipient_name a)),
     (''amount'', JNum (al_amount a))]
     @ (case al_epoch a of None \<Rightarrow> [] | Some e \<Rightarrow> [(''moneyEpoch'', JNum (of_nat e))])
     @ [(''cadence'', JStr (cadence_name (al_cadence a))), (''nextDue'', JStr (al_next_due a)), (''memo'', JStr (al_memo a))]
     @ (case al_pending a of None \<Rightarrow> [] | Some k \<Rightarrow> [(''pendingKey'', JStr k)]))"

definition save_allowances :: "allowance list \<Rightarrow> json" where
  "save_allowances items = JList (map json_of_allowance items)"

definition allowance_of :: "json \<Rightarrow> allowance option" where
  "allowance_of j = (case j of JObj fs \<Rightarrow>
     (case (map_of fs ''id'', map_of fs ''ownerId'', map_of fs ''recipientAccount'', map_of fs ''recipientName'',
            map_of fs ''amount'', map_of fs ''nextDue'', map_of fs ''memo'') of
        (Some (JStr i), Some (JStr owner), Some (JStr r), Some (JStr n), Some (JNum x), Some (JStr due), Some (JStr memo)) \<Rightarrow>
          let item = (\<lambda>c. \<lparr>al_id = i, al_owner = owner, al_recipient = r, al_recipient_name = n, al_amount = x,
                al_epoch = (case map_of fs ''moneyEpoch'' of Some (JNum e) \<Rightarrow> Some (nat \<lfloor>e\<rfloor>) | _ \<Rightarrow> None),
                al_cadence = c, al_next_due = due, al_memo = memo,
                al_pending = (case map_of fs ''pendingKey'' of Some (JStr k) \<Rightarrow> Some k | _ \<Rightarrow> None)\<rparr>) in
          (case map_of fs ''cadence'' of
             Some (JStr c) \<Rightarrow> if c = ''WEEKLY'' then Some (item Weekly) else if c = ''MONTHLY'' then Some (item Monthly) else None
           | _ \<Rightarrow> None)
      | _ \<Rightarrow> None)
   | _ \<Rightarrow> None)"

definition load_allowances :: "json option \<Rightarrow> allowance list" where
  "load_allowances stored = (case stored of
     Some (JList js) \<Rightarrow> filter valid_allowance (List.map_filter allowance_of js)
   | _ \<Rightarrow> [])"

lemma allowance_round_trip: "allowance_of (json_of_allowance a) = Some a"
  by (cases a; cases "al_cadence a"; cases "al_epoch a"; cases "al_pending a")
     (simp_all add: json_of_allowance_def allowance_of_def cadence_name_def Let_def)

lemma allowances_round_trip:
  "load_allowances (Some (save_allowances items)) = filter valid_allowance items"
proof -
  have "List.map_filter allowance_of (map json_of_allowance items) = items"
    by (induction items) (simp_all add: List.map_filter_simps allowance_round_trip)
  then show ?thesis by (simp add: load_allowances_def save_allowances_def)
qed

section \<open>Checking\<close>

text \<open>
  What the check works on: the store (a signal and the browser's copy of it, always written together), how
  many payments it has sent, and the world. \<open>draw\<close> is \<open>newIdempotencyKey\<close>, \<open>pay\<close> the service's \<open>transfer\<close>, which
  answers with the transaction's identifier.
\<close>

type_synonym 'w payment_call = "string \<Rightarrow> num \<Rightarrow> string \<Rightarrow> string \<Rightarrow> economic_input option \<Rightarrow> ('w, string) call"

record 'w till =
  tl_items :: "allowance list"
  tl_sent :: nat
  tl_world :: 'w

definition replace_allowance :: "allowance \<Rightarrow> 'w till \<Rightarrow> 'w till" where
  "replace_allowance a t = t\<lparr>tl_items := map (\<lambda>x. if al_id x = al_id a then a else x) (tl_items t)\<rparr>"

definition gift :: economic_input where
  "gift = \<lparr>ei_kind = Gift, ei_thing = None, ei_quantity = ''1'', ei_unit = Each\<rparr>"

definition dated_memo :: "allowance \<Rightarrow> string \<Rightarrow> string" where
  "dated_memo a date = al_memo a @ '' ('' @ date @ '')''"

definition with_key :: "('w \<Rightarrow> string \<times> 'w) \<Rightarrow> allowance \<Rightarrow> 'w till \<Rightarrow> allowance \<times> string \<times> 'w till" where
  "with_key draw a t = (if truthy_str (al_pending a) then (a, the (al_pending a), t)
     else case draw (tl_world t) of (k, w) \<Rightarrow>
       let a1 = a\<lparr>al_pending := Some k\<rparr> in (a1, k, replace_allowance a1 (t\<lparr>tl_world := w\<rparr>)))"

definition paid_on :: "allowance \<Rightarrow> string \<Rightarrow> allowance" where
  "paid_on a next = a\<lparr>al_next_due := next, al_pending := None\<rparr>"

primrec pay_due ::
  "('w \<Rightarrow> string \<times> 'w) \<Rightarrow> 'w payment_call \<Rightarrow> string \<Rightarrow> nat \<Rightarrow> allowance \<Rightarrow> ('w till, allowance) call" where
  "pay_due draw pay through 0 a t = (Inr a, t)"
| "pay_due draw pay through (Suc n) a t =
     (if \<not> str_le (al_next_due a) through then (Inr a, t)
      else case with_key draw a t of (a1, k, t1) \<Rightarrow>
        case pay (al_recipient a1) (al_amount a1) (dated_memo a1 (al_next_due a1)) k (Some gift) (tl_world t1) of
          (Inl e, w) \<Rightarrow> (Inl e, t1\<lparr>tl_world := w\<rparr>)
        | (Inr _, w) \<Rightarrow> let t2 = t1\<lparr>tl_world := w, tl_sent := Suc (tl_sent t1)\<rparr> in
            (case advance_due (al_next_due a1) (al_cadence a1) of
              Inl x \<Rightarrow> (Inl (Thrown x), t2)
            | Inr d \<Rightarrow> pay_due draw pay through n (paid_on a1 d) (replace_allowance (paid_on a1 d) t2)))"

definition OLD_UNIT :: problem where
  "OLD_UNIT = Thrown (PlainError
     ''An allowance uses an earlier currency unit. Delete it and recreate it with the reformed amount.'')"

primrec pay_all ::
  "('w \<Rightarrow> string \<times> 'w) \<Rightarrow> 'w payment_call \<Rightarrow> nat \<Rightarrow> string \<Rightarrow> allowance list \<Rightarrow> bool \<Rightarrow> ('w till, bool) call" where
  "pay_all draw pay epoch through [] left t = (Inr left, t)"
| "pay_all draw pay epoch through (a # as) left t =
     (if al_epoch a \<noteq> Some epoch then (Inl OLD_UNIT, t)
      else case pay_due draw pay through 120 a t of
        (Inl e, t1) \<Rightarrow> (Inl e, t1)
      | (Inr a1, t1) \<Rightarrow> pay_all draw pay epoch through as (left \<or> str_le (al_next_due a1) through) t1)"

definition my_allowances :: "string option \<Rightarrow> allowance list \<Rightarrow> allowance list" where
  "my_allowances me items = filter (\<lambda>a. Some (al_owner a) = me) items"

definition finished_text :: "nat \<Rightarrow> bool \<Rightarrow> string" where
  "finished_text sent left =
     (if left then ''Sent '' @ show_nat sent @ '' due payments. More remain; check allowances again to continue.''
      else if sent \<noteq> 0 then ''Sent '' @ show_nat sent @ '' due allowance '' @ (if sent = 1 then ''payment'' else ''payments'') @ ''.''
      else ''All allowances are up to date.'')"

definition stopped_text :: "nat \<Rightarrow> string" where
  "stopped_text sent =
     (if sent \<noteq> 0 then ''Sent '' @ show_nat sent @ '' payment'' @ (if sent = 1 then [] else ''s'')
        @ '' before stopping. The remaining due payments were left scheduled.''
      else ''No payments were sent.'')"

text \<open>
  \<open>checkAllowances\<close>: the message it ends with, the problem it shows, and what it leaves; \<open>refreshed\<close> is how
  the session's own refresh ends, which follows the payments.
\<close>

definition check_allowances ::
  "('w \<Rightarrow> string \<times> 'w) \<Rightarrow> 'w payment_call \<Rightarrow> nat \<Rightarrow> string \<Rightarrow> string option \<Rightarrow> problem option \<Rightarrow> allowance list \<Rightarrow> 'w
     \<Rightarrow> string \<times> problem option \<times> 'w till" where
  "check_allowances draw pay epoch through me refreshed items w =
     (case pay_all draw pay epoch through (my_allowances me items) False \<lparr>tl_items = items, tl_sent = 0, tl_world = w\<rparr> of
        (Inl e, t) \<Rightarrow> (stopped_text (tl_sent t), Some e, t)
      | (Inr left, t) \<Rightarrow> (case refreshed of
          Some e \<Rightarrow> (stopped_text (tl_sent t), Some e, t)
        | None \<Rightarrow> (finished_text (tl_sent t) left, None, t)))"

text \<open>\<open>saveAllowance\<close> and \<open>removeAllowance\<close>. The form as the page holds it; \<open>Inl\<close> is what the page says.\<close>

record allowance_form =
  af_to :: string
  af_amount :: string
  af_cadence :: cadence
  af_first_due :: string
  af_memo :: string

definition save_allowance ::
  "money \<Rightarrow> user_view list \<Rightarrow> string option \<Rightarrow> string \<Rightarrow> allowance_form \<Rightarrow> allowance list \<Rightarrow> (problem + string) option \<times> allowance list" where
  "save_allowance m payees me key f items = (case money_parse (af_amount f) m of
     Value x \<Rightarrow> (case find (\<lambda>u. uv_account u = af_to f) payees of
         None \<Rightarrow> (Some (Inl (Bad_input ''Choose who receives the allowance.'')), items)
       | Some u \<Rightarrow>
           if \<not> is_safe x \<or> x \<le> 0 then (Some (Inl (Bad_input ''Enter a positive amount in NC.'')), items)
           else if \<not> is_due_date (af_first_due f) then (Some (Inl (Bad_input ''Choose the first payment date.'')), items)
           else (case me of None \<Rightarrow> (None, items)
             | Some i \<Rightarrow> (Some (Inr (''Saved '' @ to_lower (cadence_name (af_cadence f)) @ '' allowance for '' @ uv_display_name u @ ''.'')),
                 \<lparr>al_id = ''allowance:'' @ key, al_owner = i, al_recipient = uv_account u,
                  al_recipient_name = uv_display_name u, al_amount = x, al_epoch = Some (my_epoch m),
                  al_cadence = af_cadence f, al_next_due = af_first_due f,
                  al_memo = (if trim (af_memo f) = [] then ''Allowance'' else trim (af_memo f)), al_pending = None\<rparr> # items)))
   | InputError e \<Rightarrow> (Some (Inl (Bad_input e)), items)
   | _ \<Rightarrow> (Some (Inl (Thrown RangeError)), items))"

definition remove_allowance :: "string \<Rightarrow> string option \<Rightarrow> allowance list \<Rightarrow> allowance list" where
  "remove_allowance i me items = filter (\<lambda>a. al_id a \<noteq> i \<or> Some (al_owner a) \<noteq> me) items"

lemma saved_allowance_valid:
  "save_allowance m payees me key f items = (r, items') \<Longrightarrow> list_all valid_allowance items \<Longrightarrow> list_all valid_allowance items'"
  by (auto simp: save_allowance_def valid_allowance_def split: input.splits option.splits if_splits)

end
