(* ===== verification/AllowanceSafety.thy ===== *)
theory AllowanceSafety
  imports Allowances
begin

text \<open>
  What the pages that send money rely on, and what it gives them. The locale \<open>payer\<close>: \<open>carried w\<close> are the
  payments the server has carried out for this payer, each with its key, in order; a payment is carried out
  at most once per key, and an answer means that it was. A call may fail with or without having been carried
  out. \<open>seen\<close> are the keys handed out, \<open>room\<close> how many more calls the server's memory of keys is good for.
\<close>

type_synonym payment = "string \<times> num \<times> string \<times> economic_input option"

locale payer =
  fixes pay :: "'w payment_call" and draw :: "'w \<Rightarrow> string \<times> 'w"
    and carried :: "'w \<Rightarrow> (string \<times> payment) list" and seen :: "'w \<Rightarrow> string set"
    and room :: "'w \<Rightarrow> nat" and good :: "'w \<Rightarrow> bool"
  assumes pay_keeps: "good w \<Longrightarrow> 0 < room w \<Longrightarrow> k \<in> seen w \<Longrightarrow> pay to x memo k e w = (r, w') \<Longrightarrow>
      good w' \<and> room w \<le> Suc (room w') \<and> seen w' = seen w"
    and pay_once: "good w \<Longrightarrow> 0 < room w \<Longrightarrow> k \<in> seen w \<Longrightarrow> pay to x memo k e w = (r, w') \<Longrightarrow>
      carried w' = carried w \<or> (k \<notin> fst ` set (carried w) \<and> carried w' = carried w @ [(k, to, x, memo, e)])"
    and pay_answered: "good w \<Longrightarrow> 0 < room w \<Longrightarrow> k \<in> seen w \<Longrightarrow> pay to x memo k e w = (Inr u, w') \<Longrightarrow>
      (k, to, x, memo, e) \<in> set (carried w')"
    and draw_fresh: "good w \<Longrightarrow> draw w = (k, w') \<Longrightarrow>
      good w' \<and> room w' = room w \<and> carried w' = carried w \<and> k \<noteq> [] \<and> k \<notin> seen w \<and> seen w' = insert k (seen w)"
    and carried_seen: "good w \<Longrightarrow> fst ` set (carried w) \<subseteq> seen w"

section \<open>Where an allowance stands\<close>

text \<open>
  The instalment of a date; the date after it; the first date that is still unpaid: the next one due, unless
  the payment for it was carried out and only its answer is missing.
\<close>

definition instalment :: "allowance \<Rightarrow> string \<Rightarrow> payment" where
  "instalment a date = (al_recipient a, al_amount a, dated_memo a date, Some gift)"

definition date_after :: "cadence \<Rightarrow> string \<Rightarrow> string" where
  "date_after c date = (case advance_due date c of Inl _ \<Rightarrow> date | Inr d \<Rightarrow> d)"

definition unpaid_from :: "(string \<times> payment) list \<Rightarrow> allowance \<Rightarrow> string" where
  "unpaid_from done a = (if truthy_str (al_pending a) \<and> the (al_pending a) \<in> fst ` set done
     then date_after (al_cadence a) (al_next_due a) else al_next_due a)"

definition later_date :: "allowance \<Rightarrow> nat \<Rightarrow> string \<Rightarrow> string" where
  "later_date a n date = (date_after (al_cadence a) ^^ n) date"

definition instalments :: "allowance \<Rightarrow> string \<Rightarrow> nat \<Rightarrow> payment list" where
  "instalments a from n = map (\<lambda>i. instalment a (later_date a i from)) [0..<n]"

lemma instalments_0 [simp]: "instalments a from 0 = []" "later_date a 0 from = from"
  by (simp_all add: instalments_def later_date_def)

lemma instalments_Suc: "instalments a from (Suc n) = instalment a from # instalments a (date_after (al_cadence a) from) n"
proof -
  have "map (\<lambda>i. instalment a (later_date a i from)) (map Suc [0..<n])
      = map (\<lambda>i. instalment a (later_date a i (date_after (al_cadence a) from))) [0..<n]"
    by (simp add: later_date_def funpow_swap1)
  then show ?thesis by (simp add: instalments_def upt_conv_Cons map_Suc_upt del: upt_Suc)
qed

lemma later_date_Suc: "later_date a (Suc n) from = later_date a n (date_after (al_cadence a) from)"
  by (simp add: later_date_def funpow_swap1)

text \<open>The same allowance, perhaps with another date due and another key.\<close>

definition same_terms :: "allowance \<Rightarrow> allowance \<Rightarrow> bool" where
  "same_terms a b \<longleftrightarrow> (\<exists>d k. b = a\<lparr>al_next_due := d, al_pending := k\<rparr>)"

lemma same_terms_fields:
  assumes "same_terms a b"
  shows "al_id b = al_id a" "al_owner b = al_owner a" "instalments b from n = instalments a from n"
    "later_date b n from = later_date a n from" "al_epoch b = al_epoch a" "al_cadence b = al_cadence a"
  using assms by (auto simp: same_terms_def instalments_def instalment_def later_date_def dated_memo_def)

lemma same_terms_refl [simp]: "same_terms a a" "same_terms a (a\<lparr>al_pending := k\<rparr>)" "same_terms a (paid_on a d)"
proof -
  have "a = a\<lparr>al_next_due := al_next_due a, al_pending := al_pending a\<rparr>"
    "a\<lparr>al_pending := k\<rparr> = a\<lparr>al_next_due := al_next_due a, al_pending := k\<rparr>" by simp_all
  then show "same_terms a a" "same_terms a (a\<lparr>al_pending := k\<rparr>)" "same_terms a (paid_on a d)"
    unfolding same_terms_def paid_on_def by blast+
qed

lemma same_terms_trans: "same_terms a b \<Longrightarrow> same_terms b c \<Longrightarrow> same_terms a c"
  unfolding same_terms_def by (elim exE, hypsubst) (rule exI, rule exI, simp)

definition put_allowance :: "allowance \<Rightarrow> allowance list \<Rightarrow> allowance list" where
  "put_allowance a xs = map (\<lambda>x. if al_id x = al_id a then a else x) xs"

lemma put_put: "al_id b = al_id a \<Longrightarrow> put_allowance b (put_allowance a xs) = put_allowance b xs"
  by (simp add: put_allowance_def cong: map_cong)

lemma put_same: "(\<And>x. x \<in> set xs \<Longrightarrow> al_id x = al_id a \<Longrightarrow> x = a) \<Longrightarrow> put_allowance a xs = xs"
  unfolding put_allowance_def by (rule map_idI) auto

definition own_keys :: "allowance \<Rightarrow> string set" where
  "own_keys a = {k. al_pending a = Some k \<and> k \<noteq> []}"

lemma later_date_add: "later_date a (m + n) from = later_date a n (later_date a m from)"
  by (simp add: later_date_def funpow_add add.commute [of m n])

lemma instalments_add: "instalments a from (m + n) = instalments a from m @ instalments a (later_date a m from) n"
  by (induction m arbitrary: "from") (simp_all add: instalments_Suc later_date_Suc)

text \<open>A key an allowance holds was handed out, and if it was used, then for the instalment now due.\<close>

definition key_held :: "string set \<Rightarrow> (string \<times> payment) list \<Rightarrow> allowance \<Rightarrow> bool" where
  "key_held keys done a \<longleftrightarrow> (\<forall>k \<in> own_keys a. k \<in> keys \<and> (\<forall>p. (k, p) \<in> set done \<longrightarrow> p = instalment a (al_next_due a)))"

definition list_ready :: "string set \<Rightarrow> (string \<times> payment) list \<Rightarrow> allowance list \<Rightarrow> bool" where
  "list_ready keys done as \<longleftrightarrow> distinct (map al_id as) \<and> (\<forall>a \<in> set as. key_held keys done a)
     \<and> (\<forall>a \<in> set as. \<forall>b \<in> set as. a \<noteq> b \<longrightarrow> own_keys a \<inter> own_keys b = {})"

text \<open>
  Where an allowance ends after a run and how many of its instalments were paid, and the instalments that
  a list of such outcomes says were paid; \<open>done\<close> are the payments carried out before the run.
\<close>

definition ended ::
  "(string \<times> payment) list \<Rightarrow> (string \<times> payment) list \<Rightarrow> allowance list \<Rightarrow> allowance \<Rightarrow> nat \<times> allowance \<Rightarrow> bool" where
  "ended done done' items' a nb \<longleftrightarrow> (case nb of (n, b) \<Rightarrow> b \<in> set items' \<and> same_terms a b
     \<and> unpaid_from done' b = later_date a n (unpaid_from done a))"

definition paid_instalments :: "(string \<times> payment) list \<Rightarrow> allowance list \<Rightarrow> (nat \<times> allowance) list \<Rightarrow> payment list" where
  "paid_instalments done as nbs = concat (map2 (\<lambda>a (n, b). instalments a (unpaid_from done a) n) as nbs)"

section \<open>One allowance\<close>

context payer
begin

abbreviation held_key :: "'w \<Rightarrow> allowance \<Rightarrow> bool" where
  "held_key w \<equiv> key_held (seen w) (carried w)"

text \<open>
  What a run leaves of an allowance: its terms, its instalments paid in order from where it stood to where it
  stands, with keys that are new or the one it held.
\<close>

definition advanced :: "nat \<Rightarrow> allowance \<Rightarrow> 'w \<Rightarrow> allowance \<Rightarrow> 'w \<Rightarrow> bool" where
  "advanced n a w a' w' \<longleftrightarrow> same_terms a a' \<and> good w' \<and> seen w \<subseteq> seen w' \<and> held_key w' a'
     \<and> (\<exists>new. carried w' = carried w @ new \<and> map snd new = instalments a (unpaid_from (carried w) a) n
          \<and> fst ` set new \<subseteq> (seen w' - seen w) \<union> own_keys a)
     \<and> unpaid_from (carried w') a' = later_date a n (unpaid_from (carried w) a)
     \<and> own_keys a' \<subseteq> (seen w' - seen w) \<union> own_keys a"

lemma advanced_refl: "good w \<Longrightarrow> held_key w a \<Longrightarrow> advanced 0 a w a w"
  by (auto simp: advanced_def)

lemma advanced_trans:
  assumes "advanced m a w b v" and "advanced n b v c u"
  shows "advanced (m + n) a w c u"
proof -
  obtain xs where xs: "carried v = carried w @ xs" "map snd xs = instalments a (unpaid_from (carried w) a) m"
      "fst ` set xs \<subseteq> (seen v - seen w) \<union> own_keys a" using assms(1) unfolding advanced_def by blast
  obtain ys where ys: "carried u = carried v @ ys" "map snd ys = instalments b (unpaid_from (carried v) b) n"
      "fst ` set ys \<subseteq> (seen u - seen v) \<union> own_keys b" using assms(2) unfolding advanced_def by blast
  have f: "same_terms a b" "unpaid_from (carried v) b = later_date a m (unpaid_from (carried w) a)" "seen w \<subseteq> seen v"
      "own_keys b \<subseteq> (seen v - seen w) \<union> own_keys a" using assms(1) by (auto simp: advanced_def)
  have g: "same_terms b c" "unpaid_from (carried u) c = later_date b n (unpaid_from (carried v) b)" "seen v \<subseteq> seen u"
      "own_keys c \<subseteq> (seen u - seen v) \<union> own_keys b" "good u" "held_key u c" using assms(2) by (auto simp: advanced_def)
  have "map snd (xs @ ys) = instalments a (unpaid_from (carried w) a) (m + n)"
    using xs(2) ys(2) same_terms_fields [OF f(1)] f(2) by (simp add: instalments_add)
  moreover have "carried u = carried w @ (xs @ ys)" using xs(1) ys(1) by simp
  moreover have "fst ` set (xs @ ys) \<subseteq> (seen u - seen w) \<union> own_keys a" using xs(3) ys(3) f(3,4) g(3)
    by (simp add: image_Un) blast
  ultimately show ?thesis
    unfolding advanced_def using same_terms_trans [OF f(1) g(1)] f g same_terms_fields [OF f(1)] later_date_add by auto
qed

lemma with_key_spec:
  assumes "with_key draw a t = (a1, k, t1)" and "good (tl_world t)" and "held_key (tl_world t) a"
    and "\<And>x. x \<in> set (tl_items t) \<Longrightarrow> al_id x = al_id a \<Longrightarrow> x = a"
  shows "advanced 0 a (tl_world t) a1 (tl_world t1) \<and> al_pending a1 = Some k \<and> k \<noteq> [] \<and> al_next_due a1 = al_next_due a
    \<and> room (tl_world t1) = room (tl_world t) \<and> tl_items t1 = put_allowance a1 (tl_items t) \<and> tl_sent t1 = tl_sent t"
proof (cases "truthy_str (al_pending a)")
  case True
  then obtain k' where k': "al_pending a = Some k'" "k' \<noteq> []" by (auto simp: truthy_str_def split: option.splits)
  with True assms(1) have "a1 = a" "k = k'" "t1 = t" by (simp_all add: with_key_def)
  with k' show ?thesis using assms(2,3) put_same [OF assms(4)] advanced_refl by simp
next
  case False
  obtain w where d: "draw (tl_world t) = (k, w)" and a1: "a1 = a\<lparr>al_pending := Some k\<rparr>"
      and t1: "t1 = replace_allowance a1 (t\<lparr>tl_world := w\<rparr>)"
    using assms(1) False by (auto simp: with_key_def Let_def split: prod.splits)
  note n = draw_fresh [OF assms(2) d]
  have "k \<notin> fst ` set (carried w)" using n carried_seen [OF assms(2)] by auto
  then have "advanced 0 a (tl_world t) a1 w"
    using n False by (auto simp: advanced_def a1 key_held_def own_keys_def unpaid_from_def rev_image_eqI)
  then show ?thesis using n by (simp add: t1 a1 replace_allowance_def put_allowance_def)
qed

lemma pay_spec:
  assumes a: "al_pending a = Some k" "k \<noteq> []" and w: "good w" "held_key w a" "0 < room w"
    and p: "pay (al_recipient a) (al_amount a) (dated_memo a (al_next_due a)) k (Some gift) w = (r, v)"
  shows "\<exists>m \<le> 1. advanced m a w a v" and "room w \<le> Suc (room v)"
    and "r = Inr u \<Longrightarrow> k \<in> fst ` set (carried v)"
proof -
  have k: "k \<in> seen w" using a w(2) by (auto simp: key_held_def own_keys_def)
  note keeps = pay_keeps [OF w(1,3) k p]
  show "room w \<le> Suc (room v)" using keeps by simp
  show "k \<in> fst ` set (carried v)" if "r = Inr u"
  proof -
    have "(k, al_recipient a, al_amount a, dated_memo a (al_next_due a), Some gift) \<in> set (carried v)"
      using p that by (intro pay_answered [OF w(1,3) k, of _ _ _ _ u]) simp
    then show ?thesis by (rule rev_image_eqI) simp
  qed
  from pay_once [OF w(1,3) k p] show "\<exists>m \<le> 1. advanced m a w a v"
  proof
    assume c: "carried v = carried w"
    then have "held_key v a" using w(2) keeps by (simp add: key_held_def)
    then have "advanced 0 a w a v" using keeps c by (auto simp: advanced_def)
    then show ?thesis by blast
  next
    assume c: "k \<notin> fst ` set (carried w)
      \<and> carried v = carried w @ [(k, al_recipient a, al_amount a, dated_memo a (al_next_due a), Some gift)]"
    then have i: "carried v = carried w @ [(k, instalment a (al_next_due a))]" by (simp add: instalment_def)
    have "held_key v a" using w(2) keeps c i a by (auto simp: key_held_def own_keys_def rev_image_eqI)
    moreover have "unpaid_from (carried w) a = al_next_due a" "unpaid_from (carried v) a = date_after (al_cadence a) (al_next_due a)"
      using c i a by (simp_all add: unpaid_from_def truthy_str_def)
    ultimately have "advanced 1 a w a v"
      using keeps a by (auto simp: advanced_def i instalments_Suc later_date_Suc own_keys_def)
    then show ?thesis by blast
  qed
qed

lemma paid_spec:
  assumes "al_pending a = Some k" "k \<noteq> []" "k \<in> fst ` set (carried w)" "good w"
    and "advance_due (al_next_due a) (al_cadence a) = Inr d"
  shows "advanced 0 a w (paid_on a d) w"
proof -
  have "own_keys (paid_on a d) = {}" "unpaid_from (carried w) (paid_on a d) = d"
    by (simp_all add: own_keys_def unpaid_from_def truthy_str_def paid_on_def)
  moreover have "unpaid_from (carried w) a = d"
    using assms by (simp add: unpaid_from_def truthy_str_def date_after_def)
  ultimately show ?thesis using assms(4) by (simp add: advanced_def key_held_def)
qed

lemma pay_due_spec:
  assumes "pay_due draw pay through n a t = (r, t')" and "good (tl_world t)" and "held_key (tl_world t) a"
    and "n \<le> room (tl_world t)" and "\<And>x. x \<in> set (tl_items t) \<Longrightarrow> al_id x = al_id a \<Longrightarrow> x = a"
  shows "\<exists>m a'. advanced m a (tl_world t) a' (tl_world t') \<and> tl_items t' = put_allowance a' (tl_items t)
    \<and> room (tl_world t) \<le> n + room (tl_world t') \<and> (\<forall>b. r = Inr b \<longrightarrow> b = a')"
  using assms
proof (induction n arbitrary: a t)
  case 0
  have "advanced 0 a (tl_world t) a (tl_world t)" by (rule advanced_refl [OF 0(2,3)])
  with 0(1) put_same [OF 0(5)] show ?case by (intro exI [of _ 0] exI [of _ a]) auto
next
  case (Suc n)
  show ?case
  proof (cases "str_le (al_next_due a) through")
    case False
    have "advanced 0 a (tl_world t) a (tl_world t)" by (rule advanced_refl [OF Suc.prems(2,3)])
    with False Suc.prems(1) put_same [OF Suc.prems(5)] show ?thesis by (intro exI [of _ 0] exI [of _ a]) auto
  next
    case True
    obtain a1 k t1 where k: "with_key draw a t = (a1, k, t1)" by (metis prod_cases3)
    obtain q v where p: "pay (al_recipient a1) (al_amount a1) (dated_memo a1 (al_next_due a1)) k (Some gift) (tl_world t1) = (q, v)"
      by (metis surj_pair)
    note w = with_key_spec [OF k Suc.prems(2,3,5)]
    have w1: "good (tl_world t1)" "held_key (tl_world t1) a1" "0 < room (tl_world t1)"
      using w Suc.prems(4) by (auto simp: advanced_def)
    have ak: "al_pending a1 = Some k" "k \<noteq> []" using w by simp_all
    from pay_spec(1) [OF ak w1 p] obtain m where m: "advanced m a1 (tl_world t1) a1 v" by blast
    note rm = pay_spec(2) [OF ak w1 p]
    have am: "advanced m a (tl_world t) a1 v" using advanced_trans [OF conjunct1 [OF w] m] by simp
    note run = Suc.prems(1) [unfolded pay_due.simps k prod.case p] True
    have put: "tl_items t1 = put_allowance a1 (tl_items t)" "room (tl_world t1) = room (tl_world t)" using w by simp_all
    have rv: "room (tl_world t) \<le> Suc (room v)" using rm put(2) by simp
    have stop: ?thesis if "r = Inl e" "tl_items t' = tl_items t1" "tl_world t' = v" for e
      using am put(1) rv that by (intro exI [of _ m] exI [of _ a1]) simp
    show ?thesis
    proof (cases q)
      case (Inl e)
      with run have "r = Inl e" "t' = t1\<lparr>tl_world := v\<rparr>" by auto
      then show ?thesis by (intro stop [of e]) simp_all
    next
      case (Inr u)
      show ?thesis
      proof (cases "advance_due (al_next_due a1) (al_cadence a1)")
        case (Inl x)
        with run Inr have "r = Inl (Thrown x)" "t' = t1\<lparr>tl_world := v, tl_sent := Suc (tl_sent t1)\<rparr>"
          by (auto simp: Let_def)
        then show ?thesis by (intro stop [of "Thrown x"]) simp_all
      next
        case a2: (Inr d)
        let ?t2 = "replace_allowance (paid_on a1 d) (t1\<lparr>tl_world := v, tl_sent := Suc (tl_sent t1)\<rparr>)"
        have kc: "k \<in> fst ` set (carried v)" by (rule pay_spec(3) [OF ak w1 p Inr])
        have gv: "good v" using m by (simp add: advanced_def)
        have ad: "advanced m a (tl_world t) (paid_on a1 d) v"
          using advanced_trans [OF am paid_spec [OF ak kc gv a2]] by simp
        have rest: "pay_due draw pay through n (paid_on a1 d) ?t2 = (r, t')"
          using run Inr a2 by (simp add: Let_def)
        have t2: "tl_world ?t2 = v" "tl_items ?t2 = put_allowance (paid_on a1 d) (tl_items t)"
        proof -
          have "tl_items ?t2 = put_allowance (paid_on a1 d) (tl_items t1)"
            by (simp add: replace_allowance_def put_allowance_def)
          then show "tl_items ?t2 = put_allowance (paid_on a1 d) (tl_items t)"
            using put(1) put_put [of "paid_on a1 d" a1 "tl_items t"] by (simp add: paid_on_def)
        qed (simp add: replace_allowance_def)
        have u: "x = paid_on a1 d" if "x \<in> set (tl_items ?t2)" "al_id x = al_id (paid_on a1 d)" for x
          using that unfolding t2 by (auto simp: put_allowance_def split: if_splits)
        have h: "held_key v (paid_on a1 d)" using ad by (simp add: advanced_def)
        have "n \<le> room v" using rm put(2) Suc.prems(4) by simp
        from Suc.IH [OF rest, unfolded t2(1), OF gv h this u]
        obtain m' a' where i: "advanced m' (paid_on a1 d) v a' (tl_world t')" "tl_items t' = put_allowance a' (tl_items ?t2)"
            "room v \<le> n + room (tl_world t')" "\<forall>b. r = Inr b \<longrightarrow> b = a'" by blast
        have id: "al_id a' = al_id (paid_on a1 d)" using i(1) same_terms_fields(1) by (auto simp: advanced_def)
        have "tl_items t' = put_allowance a' (tl_items t)" using i(2) put_put [OF id] t2(2) by simp
        with advanced_trans [OF ad i(1)] i(3,4) rv show ?thesis
          by (intro exI [of _ "m + m'"] exI [of _ a']) simp
      qed
    qed
  qed
qed

text \<open>A payment for one allowance leaves the others where they stood.\<close>

lemma unpaid_frame:
  assumes "carried v = carried w @ new" and "own_keys a \<inter> fst ` set new = {}"
  shows "unpaid_from (carried v) a = unpaid_from (carried w) a"
proof (cases "truthy_str (al_pending a)")
  case True
  then have "the (al_pending a) \<in> own_keys a" by (auto simp: truthy_str_def own_keys_def split: option.splits)
  with assms(2) have "the (al_pending a) \<notin> fst ` set new" by blast
  then show ?thesis by (simp add: unpaid_from_def assms(1) image_Un)
qed (simp add: unpaid_from_def)

lemma held_frame:
  assumes "carried v = carried w @ new" and "own_keys a \<inter> fst ` set new = {}" and "seen w \<subseteq> seen v" and "held_key w a"
  shows "held_key v a"
  using assms unfolding key_held_def by (fastforce intro: rev_image_eqI)

section \<open>The whole list\<close>

abbreviation outcome :: "'w \<Rightarrow> 'w till \<Rightarrow> allowance \<Rightarrow> nat \<times> allowance \<Rightarrow> bool" where
  "outcome w t' \<equiv> ended (carried w) (carried (tl_world t')) (tl_items t')"

abbreviation all_instalments :: "'w \<Rightarrow> allowance list \<Rightarrow> (nat \<times> allowance) list \<Rightarrow> payment list" where
  "all_instalments w \<equiv> paid_instalments (carried w)"

abbreviation ready :: "'w \<Rightarrow> allowance list \<Rightarrow> bool" where
  "ready w as \<equiv> good w \<and> list_ready (seen w) (carried w) as"

lemma untouched:
  assumes "set as \<subseteq> set (tl_items t')" and "\<forall>a \<in> set as. unpaid_from (carried (tl_world t')) a = unpaid_from (carried w) a"
  shows "list_all2 (outcome w t') as (map (\<lambda>a. (0, a)) as) \<and> all_instalments w as (map (\<lambda>a. (0, a)) as) = []"
  using assms by (induction as) (auto simp: ended_def paid_instalments_def)

lemma pay_all_left: "pay_all draw pay epoch through as left t = (Inr False, t') \<Longrightarrow> \<not> left"
  by (induction as arbitrary: left t) (auto split: if_splits prod.splits sum.splits)

lemma all_instalments_cong:
  assumes "\<And>a. a \<in> set as \<Longrightarrow> unpaid_from (carried v) a = unpaid_from (carried w) a"
  shows "all_instalments v as nbs = all_instalments w as nbs"
  unfolding paid_instalments_def
  by (intro arg_cong [where f = concat] map_cong refl) (auto dest!: set_zip_leftD simp: assms)

lemma pay_all_spec:
  assumes "pay_all draw pay epoch through as left t = (r, t')" and "ready (tl_world t) as"
    and "set as \<subseteq> set (tl_items t)" and "distinct (map al_id (tl_items t))" and "120 * length as \<le> room (tl_world t)"
  shows "\<exists>nbs new. list_all2 (outcome (tl_world t) t') as nbs \<and> carried (tl_world t') = carried (tl_world t) @ new
    \<and> map snd new = all_instalments (tl_world t) as nbs \<and> map al_id (tl_items t') = map al_id (tl_items t)
    \<and> (\<forall>x \<in> set (tl_items t). al_id x \<notin> al_id ` set as \<longrightarrow> x \<in> set (tl_items t'))
    \<and> fst ` set new \<subseteq> (seen (tl_world t') - seen (tl_world t)) \<union> \<Union> (own_keys ` set as)
    \<and> seen (tl_world t) \<subseteq> seen (tl_world t')
    \<and> (r = Inr False \<longrightarrow> (\<forall>nb \<in> set nbs. \<not> str_le (al_next_due (snd nb)) through))"
  using assms
proof (induction as arbitrary: left t)
  case Nil
  then show ?case by (auto simp: paid_instalments_def)
next
  case (Cons a as)
  let ?w = "tl_world t"
  have g: "good ?w" "held_key ?w a" "ready ?w as" "al_id a \<notin> al_id ` set as"
    using Cons.prems(2) by (auto simp: list_ready_def)
  have keys: "own_keys b \<inter> own_keys a = {}" "own_keys b \<subseteq> seen ?w" if "b \<in> set as" for b
    using that Cons.prems(2) g(4) by (auto simp: list_ready_def key_held_def)
  show ?case
  proof (cases "al_epoch a = Some epoch")
    case False
    then have t': "t' = t" "r \<noteq> Inr False" using Cons.prems(1) by auto
    from untouched [of "a # as" t ?w] Cons.prems(3) t'(2) show ?thesis unfolding t'(1)
      by (intro exI [of _ "map (\<lambda>a. (0, a)) (a # as)"] exI [of _ "[]"]) auto
  next
    case True
    obtain q t1 where p: "pay_due draw pay through 120 a t = (q, t1)" by (metis surj_pair)
    have unique: "x = a" if "x \<in> set (tl_items t)" "al_id x = al_id a" for x
      using that Cons.prems(3,4) by (auto simp: distinct_map dest: inj_onD)
    have "120 \<le> room ?w" using Cons.prems(5) by simp
    from pay_due_spec [OF p g(1,2) this unique] obtain m a' where m: "advanced m a ?w a' (tl_world t1)"
        "tl_items t1 = put_allowance a' (tl_items t)" "room ?w \<le> 120 + room (tl_world t1)" "\<forall>b. q = Inr b \<longrightarrow> b = a'"
      by blast
    let ?v = "tl_world t1"
    obtain xs where xs: "carried ?v = carried ?w @ xs" "map snd xs = instalments a (unpaid_from (carried ?w) a) m"
        "fst ` set xs \<subseteq> (seen ?v - seen ?w) \<union> own_keys a" using m(1) unfolding advanced_def by blast
    have f: "same_terms a a'" "good ?v" "seen ?w \<subseteq> seen ?v" "held_key ?v a'"
        "unpaid_from (carried ?v) a' = later_date a m (unpaid_from (carried ?w) a)"
        "own_keys a' \<subseteq> (seen ?v - seen ?w) \<union> own_keys a" using m(1) by (auto simp: advanced_def)
    have id: "al_id a' = al_id a" by (rule same_terms_fields(1) [OF f(1)])
    have apart: "own_keys b \<inter> fst ` set xs = {}" if "b \<in> set as" for b using keys [OF that] xs(3) by blast
    note same = unpaid_frame [OF xs(1) apart]
    have items: "set as \<subseteq> set (tl_items t1)" "a' \<in> set (tl_items t1)" "map al_id (tl_items t1) = map al_id (tl_items t)"
      using Cons.prems(3) g(4) id by (auto simp: m(2) put_allowance_def image_iff cong: map_cong)
    have keep: "x \<in> set (tl_items t1)" if "x \<in> set (tl_items t)" "al_id x \<noteq> al_id a" for x
      using that id by (auto simp: m(2) put_allowance_def image_iff)
    have ready: "ready ?v as"
      using g(3) f(2) held_frame [OF xs(1) apart f(3)] by (auto simp: list_ready_def)
    show ?thesis
    proof (cases q)
      case (Inl e)
      then have t': "t' = t1" using Cons.prems(1) True p by simp
      let ?nbs = "(m, a') # map (\<lambda>a. (0, a)) as"
      have "list_all2 (outcome ?w t1) (a # as) ?nbs \<and> all_instalments ?w (a # as) ?nbs = map snd xs"
        using untouched [of as t1 ?w] items(1,2) same f(1,5) xs(2) by (simp add: ended_def paid_instalments_def)
      moreover have "r \<noteq> Inr False" using Cons.prems(1) True p Inl by auto
      ultimately show ?thesis unfolding t' using xs(1,3) items(3) keep f(3)
        by (intro exI [of _ ?nbs] exI [of _ xs]) auto
    next
      case (Inr b)
      have b: "b = a'" using m(4) Inr by simp
      have run: "pay_all draw pay epoch through as (left \<or> str_le (al_next_due a') through) t1 = (r, t')"
        using Cons.prems(1) True p Inr b by simp
      have settled: "r = Inr False \<longrightarrow> \<not> str_le (al_next_due a') through" using run pay_all_left by blast
      have roomy: "120 * length as \<le> room ?v" using Cons.prems(5) m(3) by simp
      have "distinct (map al_id (tl_items t1))" using Cons.prems(4) items(3) by simp
      from Cons.IH [OF run ready items(1) this roomy] obtain nbs ys where i: "list_all2 (outcome ?v t') as nbs" "carried (tl_world t') = carried ?v @ ys"
          "map snd ys = all_instalments ?v as nbs" "map al_id (tl_items t') = map al_id (tl_items t1)"
          "\<forall>x \<in> set (tl_items t1). al_id x \<notin> al_id ` set as \<longrightarrow> x \<in> set (tl_items t')"
          "fst ` set ys \<subseteq> (seen (tl_world t') - seen ?v) \<union> \<Union> (own_keys ` set as)" "seen ?v \<subseteq> seen (tl_world t')"
          "r = Inr False \<longrightarrow> (\<forall>nb \<in> set nbs. \<not> str_le (al_next_due (snd nb)) through)"
        by (elim exE conjE)
      have a'_there: "a' \<in> set (tl_items t')" using i(5) items(2) id g(4) by auto
      have "own_keys a' \<inter> fst ` set ys = {}"
      proof -
        have "own_keys a' \<subseteq> seen ?v" using f(4) by (auto simp: key_held_def)
        moreover have "own_keys a' \<inter> \<Union> (own_keys ` set as) = {}" using f(6) keys by blast
        ultimately show ?thesis using i(6) by blast
      qed
      from unpaid_frame [OF i(2) this] f(5)
      have stands: "unpaid_from (carried (tl_world t')) a' = later_date a m (unpaid_from (carried ?w) a)" by simp
      have out: "list_all2 (outcome ?w t') as nbs"
        using i(1) by (rule list.rel_mono_strong) (auto simp: ended_def same)
      have "all_instalments ?w (a # as) ((m, a') # nbs) = map snd (xs @ ys)"
        using xs(2) i(3) all_instalments_cong [of as ?v ?w nbs] same by (simp add: paid_instalments_def)
      moreover have "fst ` set (xs @ ys) \<subseteq> (seen (tl_world t') - seen ?w) \<union> \<Union> (own_keys ` set (a # as))"
      proof -
        let ?K = "(seen (tl_world t') - seen ?w) \<union> \<Union> (own_keys ` set (a # as))"
        have "(seen ?v - seen ?w) \<union> own_keys a \<subseteq> ?K" using i(7) by auto
        with xs(3) have "fst ` set xs \<subseteq> ?K" by (rule subset_trans)
        moreover have "(seen (tl_world t') - seen ?v) \<union> \<Union> (own_keys ` set as) \<subseteq> ?K" using f(3) by auto
        with i(6) have "fst ` set ys \<subseteq> ?K" by (rule subset_trans)
        ultimately show ?thesis by (simp only: set_append image_Un Un_subset_iff simp_thms)
      qed
      moreover have "list_all2 (outcome ?w t') (a # as) ((m, a') # nbs)"
        using a'_there stands f(1) out by (simp add: ended_def)
      ultimately show ?thesis
        using xs(1) i(2,4,5,7,8) items(3) keep f(3) settled
        by (intro exI [of _ "(m, a') # nbs"] exI [of _ "xs @ ys"]) auto
    qed
  qed
qed

text \<open>
  A run of the check, whole or cut short: every allowance of the payer ends up later by some number of
  instalments, and those are what the server carried out, each once. A run that says all is up to date leaves
  nothing due.
\<close>

lemma check_pays_once:
  assumes "check_allowances draw pay epoch through me refreshed items w = (msg, p, t')"
    and "ready w (my_allowances me items)" and "distinct (map al_id items)"
    and "120 * length (my_allowances me items) \<le> room w"
  shows "\<exists>nbs. list_all2 (outcome w t') (my_allowances me items) nbs
    \<and> map snd (carried (tl_world t')) = map snd (carried w) @ all_instalments w (my_allowances me items) nbs
    \<and> (msg = finished_text (tl_sent t') False \<longrightarrow> p = None \<longrightarrow> (\<forall>nb \<in> set nbs. \<not> str_le (al_next_due (snd nb)) through))"
proof -
  obtain r where r: "pay_all draw pay epoch through (my_allowances me items) False
      \<lparr>tl_items = items, tl_sent = 0, tl_world = w\<rparr> = (r, t')"
    using assms(1) by (auto simp: check_allowances_def split: prod.splits sum.splits option.splits)
  have settled: "r = Inr False" if "msg = finished_text (tl_sent t') False" "p = None"
    using assms(1) r that by (auto simp: check_allowances_def finished_text_def split: sum.splits option.splits if_splits)
  have "set (my_allowances me items) \<subseteq> set items" by (auto simp: my_allowances_def)
  with pay_all_spec [OF r] assms(2-4) obtain nbs new where
    "list_all2 (outcome w t') (my_allowances me items) nbs" "carried (tl_world t') = carried w @ new"
    "map snd new = all_instalments w (my_allowances me items) nbs"
    "r = Inr False \<longrightarrow> (\<forall>nb \<in> set nbs. \<not> str_le (al_next_due (snd nb)) through)" by auto
  with settled show ?thesis by (intro exI [of _ nbs]) simp
qed

end

end
