(* ===== verification/Quantities.thy ===== *)
theory Quantities
  imports MoneyText DemoBackend
begin

text \<open>
  \<open>catalog/economics.ts\<close>: what a standard catalogue entry is, and the quantities of things traded, counted in
  thousandths and written with at most three decimals. A quantity the page accepts is read by the server as
  exactly the thousandths it says, and what the page writes it accepts again.
\<close>

section \<open>The catalogue\<close>

record catalog_item =
  ci_code :: nat
  ci_cat :: nat
  ci_name :: string
  ci_currency :: "string option"

definition catalog_economics :: "catalog_item \<Rightarrow> economic_kind \<times> economic_unit" where
  "catalog_economics i =
     (if ci_cat i \<in> {1, 3, 4, 7, 8} then (Labor, Task)
      else if ci_cat i = 2 then
        (if ci_code i = 202 \<or> ci_code i = 203 \<or> ci_code i \<ge> 224
         then (Good, if ci_code i = 202 \<or> ci_code i = 203 then Batch else Each) else (Labor, Task))
      else if ci_cat i = 6 \<and> ci_code i \<notin> {621, 622, 623} then (Good, Each)
      else if ci_cat i = 10 \<and> ci_code i \<le> 1005 then (Gift, Each)
      else (OtherKind, Each))"

section \<open>Quantities\<close>

text \<open>A quantity is a whole number of thousandths; a missing one, and zero, read as one.\<close>

definition format_quantity :: "nat \<Rightarrow> string" where
  "format_quantity milli = (if milli = 0 then ''1''
     else let whole = show_nat (milli div 1000);
              fraction = strip_zeros (pad_start 3 (CHR ''0'') (show_nat (milli mod 1000))) in
       if fraction \<noteq> [] then whole @ ''.'' @ fraction else whole)"

definition quantity_shape :: "string \<Rightarrow> bool" where
  "quantity_shape s \<longleftrightarrow> plain_decimal s \<and> length (drop 1 (dropWhile is_digit s)) \<le> 3"

definition quantity_value :: "string \<Rightarrow> num option" where
  "quantity_value s = (let whole = before_first ''.'' s;
       fraction = (case after_first ''.'' s of None \<Rightarrow> [] | Some r \<Rightarrow> before_first ''.'' r) in
     case (js_number whole, js_number (pad_end 3 (CHR ''0'') fraction)) of
       (Some a, Some b) \<Rightarrow> Some (js_add (js_mul a 1000) b) | _ \<Rightarrow> None)"

definition valid_quantity :: "string \<Rightarrow> bool" where
  "valid_quantity s \<longleftrightarrow> quantity_shape s
     \<and> (case quantity_value s of None \<Rightarrow> False | Some m \<Rightarrow> is_safe m \<and> m \<ge> 1 \<and> m \<le> 1000000000)"

text \<open>The thousandths a quantity of that shape says.\<close>

definition thousandths :: "string \<Rightarrow> nat" where
  "thousandths s = parse_digits (takeWhile is_digit s) * 1000
     + parse_digits (pad_end 3 (CHR ''0'') (drop 1 (dropWhile is_digit s)))"

section \<open>The page and the server read the same\<close>

lemma server_reads_value: "quantity_value s = Some m \<Longrightarrow> quantity_milli (Some (JStr s)) = m"
  by (auto simp: quantity_value_def quantity_milli_def pad_end_def Let_def split: option.splits)

lemma before_first_none: "c \<notin> set w \<Longrightarrow> before_first [c] w = w \<and> after_first [c] w = None"
  by (induction w) auto

lemma before_first_at: "c \<notin> set w \<Longrightarrow> before_first [c] (w @ c # r) = w \<and> after_first [c] (w @ c # r) = Some r"
  by (induction w) auto

lemma js_number_digits:
  assumes "w \<noteq> []" and "list_all is_digit w"
  shows "js_number w = Some (fl (of_nat (parse_digits w)))"
proof -
  have d: "is_digit (hd w)" "is_digit (last w)" using assms by (auto simp: list_all_iff)
  then have t: "trim w = w" using assms(1) by (intro trim_id digit_not_space)
  have "to_lower (take 2 w) \<noteq> ''0x'' \<and> to_lower (take 2 w) \<noteq> ''0o'' \<and> to_lower (take 2 w) \<noteq> ''0b''"
  proof (cases w)
    case (Cons c cs)
    show ?thesis
    proof (cases cs)
      case (Cons e es)
      with \<open>w = c # cs\<close> assms(2) have "is_digit e" by simp
      then have "lower_char e \<notin> {CHR ''x'', CHR ''o'', CHR ''b''}" by (simp add: is_digit_def lower_char_def) auto
      with \<open>w = c # cs\<close> Cons show ?thesis by (simp add: to_lower_def)
    qed (simp add: \<open>w = c # cs\<close> to_lower_def)
  qed (use assms(1) in simp)
  then have r: "radix_literal w = None" by (simp add: radix_literal_def Let_def)
  have "take 1 w \<noteq> ''-'' \<and> take 1 w \<noteq> ''+''" using assms(1) d(1) by (cases w) (auto simp: is_digit_def)
  then have s: "take_sign w = (1, w)" by (simp add: take_sign_def)
  have tw: "takeWhile is_digit w = w" "dropWhile is_digit w = []" using assms(2) by (auto simp: list_all_iff takeWhile_eq_all_conv)
  then have "decimal_literal w = Some (fl (of_nat (parse_digits w)))"
    using assms(1) unfolding decimal_literal_def s prod.case Let_def tw by (simp add: exponent_part_def)
  then show ?thesis using assms(1) by (simp add: js_number_def t r)
qed

lemma fl_of_nat: "n \<le> 9007199254740992 \<Longrightarrow> fl (of_nat n) = of_nat n"
  using fl_of_int [of "int n"] by simp

lemma quantity_shapeE:
  assumes "quantity_shape s"
  obtains w f where "w \<noteq> []" "list_all is_digit w" "list_all is_digit f" "length f \<le> 3"
    "s = w @ (if f = [] then [] else CHR ''.'' # f)" "w = takeWhile is_digit s" "f = drop 1 (dropWhile is_digit s)"
proof -
  define r where "r = dropWhile is_digit s"
  let ?w = "takeWhile is_digit s" and ?r = r
  have "?w \<noteq> []" "length (drop 1 ?r) \<le> 3" and r: "?r = [] \<or> (hd ?r = CHR ''.'' \<and> tl ?r \<noteq> [] \<and> list_all is_digit (tl ?r))"
    using assms by (auto simp: quantity_shape_def plain_decimal_def Let_def r_def)
  moreover have "list_all is_digit ?w" by (auto simp: list_all_iff dest: set_takeWhileD)
  moreover have "list_all is_digit (drop 1 ?r)" using r
    by (elim disjE conjE) (simp_all add: drop_Suc)
  moreover have "?r = (if drop 1 ?r = [] then [] else CHR ''.'' # drop 1 ?r)" using r by (cases ?r) auto
  then have "s = ?w @ (if drop 1 ?r = [] then [] else CHR ''.'' # drop 1 ?r)"
    using takeWhile_dropWhile_id [of is_digit s] unfolding r_def by metis
  ultimately show ?thesis using that unfolding r_def by blast
qed

lemma parse_digits_less: "parse_digits s < 10 ^ length s" if "list_all is_digit s"
  using that
proof (induction s rule: rev_induct)
  case (snoc c s)
  then have "digit_val c \<le> 9" by (auto simp: is_digit_def digit_val_def)
  with snoc show ?case by (simp add: parse_digits_snoc)
qed (simp add: parse_digits_def)

lemma quantity_value_exact:
  assumes "quantity_shape s" and "parse_digits (takeWhile is_digit s) \<le> 10 ^ 12"
  shows "quantity_value s = Some (of_nat (thousandths s))"
proof -
  obtain w f where wf: "w \<noteq> []" "list_all is_digit w" "list_all is_digit f" "length f \<le> 3"
      "s = w @ (if f = [] then [] else CHR ''.'' # f)" "w = takeWhile is_digit s" "f = drop 1 (dropWhile is_digit s)"
    using quantity_shapeE [OF assms(1)] by blast
  let ?g = "pad_end 3 (CHR ''0'') f"
  have dot: "CHR ''.'' \<notin> set w" "CHR ''.'' \<notin> set f" using wf(2,3) by (auto simp: list_all_iff is_digit_def)
  have b: "before_first ''.'' s = w" "(case after_first ''.'' s of None \<Rightarrow> [] | Some r \<Rightarrow> before_first ''.'' r) = f"
    using before_first_none [OF dot(1)] before_first_at [OF dot(1), of f] before_first_none [OF dot(2)]
    by (auto simp: wf(5))
  have g: "list_all is_digit ?g" "length ?g = 3" using wf(3,4) by (auto simp: pad_end_def list_all_iff is_digit_def)
  then have "?g \<noteq> []" by auto
  note n = js_number_digits [OF wf(1,2)] js_number_digits [OF this g(1)]
  have small: "parse_digits w \<le> 10 ^ 12" "parse_digits ?g < 1000"
    using assms(2) wf(6) parse_digits_less [OF g(1)] g(2) by simp_all
  have w: "fl (of_nat (parse_digits w)) = of_nat (parse_digits w)" and f: "fl (of_nat (parse_digits ?g)) = of_nat (parse_digits ?g)"
    using small by (simp_all add: fl_of_nat)
  have "js_mul (of_nat (parse_digits w)) 1000 = of_nat (parse_digits w * 1000)"
    using small(1) fl_of_nat [of "parse_digits w * 1000"] by (simp add: js_mul_def)
  moreover have "js_add (of_nat (parse_digits w * 1000)) (of_nat (parse_digits ?g)) = of_nat (parse_digits w * 1000 + parse_digits ?g)"
    using small fl_of_nat [of "parse_digits w * 1000 + parse_digits ?g"] by (simp add: js_add_def)
  ultimately have "js_add (js_mul (fl (of_nat (parse_digits w))) 1000) (fl (of_nat (parse_digits ?g)))
      = of_nat (parse_digits w * 1000 + parse_digits ?g)" unfolding w f by simp
  then show ?thesis using wf(6,7) n by (simp add: quantity_value_def b thousandths_def)
qed

lemma valid_quantity_small:
  assumes "valid_quantity s"
  shows "parse_digits (takeWhile is_digit s) \<le> 10 ^ 12"
proof (rule ccontr)
  assume "\<not> parse_digits (takeWhile is_digit s) \<le> 10 ^ 12"
  then have big: "(1000000000000 :: rat) \<le> of_nat (parse_digits (takeWhile is_digit s))"
  proof -
    have "(10 ^ 12 :: nat) \<le> parse_digits (takeWhile is_digit s)" using \<open>\<not> _\<close> by simp
    from of_nat_mono [OF this, where 'a = rat] show ?thesis by simp
  qed
  have shape: "quantity_shape s" using assms by (simp add: valid_quantity_def)
  obtain w f where wf: "w \<noteq> []" "list_all is_digit w" "list_all is_digit f" "length f \<le> 3"
      "s = w @ (if f = [] then [] else CHR ''.'' # f)" "w = takeWhile is_digit s"
    using quantity_shapeE [OF shape] by blast
  have dot: "CHR ''.'' \<notin> set w" using wf(2) by (auto simp: list_all_iff is_digit_def)
  have b: "before_first ''.'' s = w"
    using before_first_none [OF dot] before_first_at [OF dot, of f] by (simp add: wf(5))
  obtain m where m: "quantity_value s = Some m" "m \<le> 1000000000" using assms by (auto simp: valid_quantity_def split: option.splits)
  let ?g = "pad_end 3 (CHR ''0'') f"
  have dotf: "CHR ''.'' \<notin> set f" using wf(3) by (auto simp: list_all_iff is_digit_def)
  have a: "(case after_first ''.'' s of None \<Rightarrow> [] | Some r \<Rightarrow> before_first ''.'' r) = f"
    using before_first_none [OF dot] before_first_at [OF dot, of f] before_first_none [OF dotf] by (auto simp: wf(5))
  have g: "list_all is_digit ?g" "length ?g = 3" using wf(3,4) by (auto simp: pad_end_def list_all_iff is_digit_def)
  then have "?g \<noteq> []" by auto
  define x where "x = fl (of_nat (parse_digits ?g))"
  have x: "m = js_add (js_mul (fl (of_nat (parse_digits w))) 1000) x" "0 \<le> x"
    using m(1) js_number_digits [OF wf(1,2)] js_number_digits [OF \<open>?g \<noteq> []\<close> g(1)]
    by (simp_all add: quantity_value_def b a x_def)
  have "1000000000000 \<le> fl (of_nat (parse_digits w))" using big wf(6) by (intro fl_ge_integer) simp_all
  then have "1000000000000 \<le> js_mul (fl (of_nat (parse_digits w))) 1000"
    unfolding js_mul_def by (intro fl_ge_integer) simp_all
  then have "1000000000000 \<le> m" unfolding x(1) js_add_def using x(2) by (intro fl_ge_integer) simp_all
  with m(2) show False by simp
qed

lemma quantity_agrees:
  assumes "valid_quantity s"
  shows "quantity_milli (Some (JStr s)) = of_nat (thousandths s) \<and> 1 \<le> thousandths s \<and> thousandths s \<le> 1000000000"
proof -
  have "quantity_shape s" using assms by (simp add: valid_quantity_def)
  from quantity_value_exact [OF this valid_quantity_small [OF assms]]
  have v: "quantity_value s = Some (of_nat (thousandths s))" .
  then have "(1 :: rat) \<le> of_nat (thousandths s) \<and> of_nat (thousandths s) \<le> (1000000000 :: rat)"
    using assms by (simp add: valid_quantity_def)
  then show ?thesis using server_reads_value [OF v] by (simp add: of_nat_le_numeral_iff)
qed

lemma quantity_round_trip:
  assumes "1 \<le> m" and "m \<le> 1000000000"
  shows "valid_quantity (format_quantity m) \<and> thousandths (format_quantity m) = m"
proof -
  note parts = amount_text_parts [where n = m and d = 3]
  let ?w = "show_nat (m div 10 ^ 3)" and ?f = "strip_zeros (pad_start 3 (CHR ''0'') (show_nat (m mod 10 ^ 3)))"
  define s where "s = format_quantity m"
  have s: "s = ?w @ (if ?f \<noteq> [] then CHR ''.'' # ?f else [])" using assms(1) by (simp add: s_def format_quantity_def Let_def)
  have wd: "list_all is_digit ?w" using show_nat_digits by (simp add: list_all_iff)
  have w0: "?w \<noteq> []" "?w = ''0'' \<or> hd ?w \<noteq> CHR ''0''" using show_nat_first by auto
  have dot: "\<not> is_digit (CHR ''.'')" by (simp add: is_digit_def)
  have tw: "takeWhile is_digit s = ?w" "dropWhile is_digit s = (if ?f \<noteq> [] then CHR ''.'' # ?f else [])"
    using takeWhile_digits [OF wd, of "if ?f \<noteq> [] then CHR ''.'' # ?f else []"] dot unfolding s by auto
  have shape: "quantity_shape s"
    using w0 parts(2,3) by (auto simp: quantity_shape_def plain_decimal_def Let_def tw)
  have f: "drop 1 (dropWhile is_digit s) = ?f" by (simp add: tw)
  have th: "thousandths s = m"
    unfolding thousandths_def f tw(1) parts(4) by simp
  have "parse_digits (takeWhile is_digit s) \<le> 10 ^ 12" using assms(2) by (simp add: tw)
  from quantity_value_exact [OF shape this] have "quantity_value s = Some (of_nat m)" by (simp add: th)
  moreover have "is_safe (of_nat m)" using assms(2) by (simp add: is_safe_def max_safe_def is_integer_def of_nat_le_numeral_iff)
  ultimately show ?thesis using assms shape th unfolding s_def [symmetric] by (simp add: valid_quantity_def)
qed

end
