(* ===== verification/SendPage.thy ===== *)
theory SendPage
  imports AllowanceSafety Quantities
begin

text \<open>
  \<open>pages/send.ts\<close>, the payment half: the form, what it refuses, the question it asks before a payment that
  looks like one just made, and the sending itself. What the form says is the payment's identity; until the
  server has answered, the page keeps the identity's retry key, so pressing the button again cannot pay twice.
\<close>

section \<open>Recent payments\<close>

record recent_send =
  rs_id :: string
  rs_description :: string
  rs_recipient :: string
  rs_account :: string
  rs_amount :: num
  rs_created_at :: int

definition recent_of :: "string \<Rightarrow> transaction_view \<Rightarrow> recent_send option" where
  "recent_of account t =
     (if t_kind t \<noteq> Transfer \<or> truthy_str (t_reference t) \<or> truthy_str (tv_reversed_by t) then None
      else let delta = js_sum (map p_amount (filter (\<lambda>p. p_account p = account) (t_postings t))) in
        case find (\<lambda>p. p_account p \<noteq> account) (t_postings t) of
          None \<Rightarrow> None
        | Some p \<Rightarrow> if delta \<ge> 0 then None
            else Some \<lparr>rs_id = t_id t, rs_description = t_description t, rs_recipient = p_name p,
                       rs_account = p_account p, rs_amount = - delta, rs_created_at = t_created_at t\<rparr>)"

definition recent_sends :: "string option \<Rightarrow> transaction_view list \<Rightarrow> recent_send list" where
  "recent_sends account ts = (if truthy_str account then take 5 (List.map_filter (recent_of (the account)) ts) else [])"

section \<open>The form\<close>

type_synonym send_identity = "string \<times> num \<times> string \<times> economic_input option"

record send_page =
  sp_to :: string
  sp_amount :: string
  sp_memo :: string
  sp_dm :: bool
  sp_screen :: bool
  sp_kind :: "economic_kind option"
  sp_quantity :: string
  sp_unit :: economic_unit
  sp_caps :: bool
  sp_busy :: bool
  sp_keys :: "(send_identity \<times> string) list"
  sp_toasts :: toasts

text \<open>Repeating a past payment fills the form in and stops; the query's parameters are a suggestion.\<close>

definition open_send_page :: "user_view list \<Rightarrow> string option \<Rightarrow> string option \<Rightarrow> string option \<Rightarrow> send_page" where
  "open_send_page payees to amount memo =
     \<lparr>sp_to = (if truthy_str to \<and> list_ex (\<lambda>u. uv_account u = the to) payees then the to else []),
      sp_amount = (if truthy_str amount then the amount else []), sp_memo = (case memo of Some m \<Rightarrow> m | None \<Rightarrow> []),
      sp_dm = False, sp_screen = False, sp_kind = None, sp_quantity = ''1'', sp_unit = Each, sp_caps = False,
      sp_busy = False, sp_keys = [], sp_toasts = no_toasts\<rparr>"

definition form_amount :: "money \<Rightarrow> send_page \<Rightarrow> problem + num" where
  "form_amount m p = of_input (money_parse (if sp_amount p = [] then ''0'' else sp_amount p) m)"

definition is_payment :: "money \<Rightarrow> send_page \<Rightarrow> bool" where
  "is_payment m p = (case form_amount m p of Inr x \<Rightarrow> x > 0 | Inl _ \<Rightarrow> False)"

definition form_recipient :: "user_view list \<Rightarrow> send_page \<Rightarrow> user_view option" where
  "form_recipient payees p = find (\<lambda>u. uv_account u = sp_to p) payees"

definition form_economic :: "send_page \<Rightarrow> num \<Rightarrow> economic_input option" where
  "form_economic p amount = (if amount > 0
     then map_option (\<lambda>k. \<lparr>ei_kind = k, ei_thing = None, ei_quantity = sp_quantity p, ei_unit = sp_unit p\<rparr>) (sp_kind p)
     else None)"

text \<open>
  What the page refuses to send, in its order. \<open>registered\<close> says whether a member has a Mastodon ID,
  \<open>linked\<close> whether the sender's account is linked.
\<close>

definition form_refusal :: "user_view list \<Rightarrow> (user_view \<Rightarrow> bool) \<Rightarrow> bool \<Rightarrow> send_page \<Rightarrow> num \<Rightarrow> string option" where
  "form_refusal payees registered linked p amount =
     (let memo = trim (sp_memo p) in
      if amount = 0 \<and> memo = [] then Some ''Write a message first.''
      else if utf8_length memo > 96 then Some ''Keep the message within 96 bytes; some characters use more than one.''
      else if amount > 0 \<and> (sp_kind p = None \<or> \<not> valid_quantity (sp_quantity p))
      then Some ''Choose an exchange kind and a positive quantity with at most three decimal places.''
      else if sp_dm p \<and> memo = [] then Some ''Write a message for the Mastodon copy.''
      else if sp_dm p \<and> (\<not> (\<exists>u \<in> set_option (form_recipient payees p). registered u) \<or> \<not> linked)
      then Some ''A Mastodon copy needs a connected account and a registered recipient. Uncheck it to send through NanaCoin only.''
      else None)"

definition form_identity :: "send_page \<Rightarrow> num \<Rightarrow> send_identity" where
  "form_identity p amount = (sp_to p, amount, trim (sp_memo p), form_economic p amount)"

text \<open>The recent payment that a new one would repeat; asked about only when no attempt of it is under way.\<close>

definition duplicate_of :: "recent_send list \<Rightarrow> send_page \<Rightarrow> num \<Rightarrow> recent_send option" where
  "duplicate_of recent p amount =
     (if amount > 0 \<and> map_of (sp_keys p) (form_identity p amount) = None
      then find (\<lambda>s. rs_account s = sp_to p \<and> rs_amount s = amount \<and> trim (rs_description s) = trim (sp_memo p)) recent
      else None)"

section \<open>Sending\<close>

text \<open>The services a send uses; a copy that fails afterwards does not undo the payment.\<close>

record 'w sending =
  sd_pay :: "'w payment_call"
  sd_draw :: "'w \<Rightarrow> string \<times> 'w"
  sd_screen :: "string \<Rightarrow> ('w, unit) call"
  sd_dm :: "string \<Rightarrow> string \<Rightarrow> ('w, unit) call"
  sd_refresh :: "('w, unit) call"

definition problem_message :: "string \<Rightarrow> problem \<Rightarrow> string" where
  "problem_message other p = (case p of
     Failed (ApiError _ _ m) \<Rightarrow> m | Bad_input m \<Rightarrow> m | Thrown (PlainError m) \<Rightarrow> m
   | Failed (Busy _) \<Rightarrow> ''NanaCoin is busy.'' | _ \<Rightarrow> other)"

definition cleared :: "send_page \<Rightarrow> send_page" where
  "cleared p = p\<lparr>sp_amount := [], sp_memo := [], sp_dm := False, sp_screen := False, sp_caps := False, sp_kind := None,
     sp_quantity := ''1'', sp_unit := Each\<rparr>"

definition say :: "(toasts \<Rightarrow> toasts) \<Rightarrow> send_page \<Rightarrow> send_page" where
  "say f p = p\<lparr>sp_toasts := f (sp_toasts p)\<rparr>"

definition send_copy :: "bool \<Rightarrow> ('w, unit) call \<Rightarrow> string \<Rightarrow> string \<Rightarrow> send_page \<Rightarrow> 'w \<Rightarrow> send_page \<times> 'w" where
  "send_copy wanted act text other p w = (if \<not> wanted then (p, w)
     else case act w of (Inr _, w') \<Rightarrow> (p, w')
     | (Inl e, w') \<Rightarrow> (say (toast_error (text @ problem_message other e)) p, w'))"

definition after_sent ::
  "'w sending \<Rightarrow> bool \<Rightarrow> bool \<Rightarrow> string \<Rightarrow> string \<Rightarrow> string \<Rightarrow> send_page \<Rightarrow> 'w \<Rightarrow> send_page \<times> 'w" where
  "after_sent s wants_screen wants_dm account memo txn p w =
     (case send_copy wants_screen (sd_screen s txn)
          ''Saved in NanaCoin, but the kitchen screen copy was not queued: '' ''screen error'' p w of (p1, w1) \<Rightarrow>
      case send_copy wants_dm (sd_dm s account memo)
          ''Saved in NanaCoin, but the Mastodon copy failed: '' ''Mastodon error'' p1 w1 of (p2, w2) \<Rightarrow>
      case sd_refresh s w2 of (Inr _, w3) \<Rightarrow> (p2, w3) | (Inl e, w3) \<Rightarrow> (say (toast_problem e) p2, w3))"

text \<open>The payment itself, once the form is accepted and the question, if any, answered.\<close>

definition send_now :: "user_view list \<Rightarrow> 'w sending \<Rightarrow> num \<Rightarrow> send_page \<Rightarrow> 'w \<Rightarrow> send_page \<times> 'w" where
  "send_now payees s amount p w =
     (let i = form_identity p amount; memo = trim (sp_memo p);
          recipient = form_recipient payees p; wants_dm = (sp_dm p \<and> recipient \<noteq> None);
          wants_screen = (amount = 0 \<and> sp_screen p);
          (k, w1) = (case map_of (sp_keys p) i of Some k \<Rightarrow> (k, w) | None \<Rightarrow> sd_draw s w);
          p1 = p\<lparr>sp_keys := AList.update i k (sp_keys p)\<rparr> in
      case sd_pay s (sp_to p) amount memo k (form_economic p amount) w1 of
        (Inl e, w2) \<Rightarrow> (say (toast_problem e) p1, w2)
      | (Inr txn, w2) \<Rightarrow>
          let p2 = cleared (p1\<lparr>sp_keys := AList.delete i (sp_keys p1)\<rparr>) in
          after_sent s wants_screen wants_dm (sp_to p) memo txn
            (say (toast_ok (if amount = 0 then ''Message saved in NanaCoin Mail.'' else ''Coins sent.'')) p2) w2)"

text \<open>\<open>send\<close>; \<open>confirmed\<close> is the answer to the question about a repeated payment, should it be asked.\<close>

definition press_send ::
  "money \<Rightarrow> user_view list \<Rightarrow> (user_view \<Rightarrow> bool) \<Rightarrow> bool \<Rightarrow> recent_send list \<Rightarrow> bool \<Rightarrow> 'w sending
     \<Rightarrow> send_page \<Rightarrow> 'w \<Rightarrow> send_page \<times> 'w" where
  "press_send m payees registered linked recent confirmed s p w =
     (if sp_busy p then (p, w)
      else if sp_to p = [] then (say (toast_error ''Choose a recipient.'') p, w)
      else case form_amount m p of
        Inl e \<Rightarrow> (say (toast_problem e) p, w)
      | Inr amount \<Rightarrow>
          (case form_refusal payees registered linked p amount of
            Some e \<Rightarrow> (say (toast_error e) p, w)
          | None \<Rightarrow>
              if duplicate_of recent p amount \<noteq> None \<and> \<not> confirmed then (p, w)
              else send_now payees s amount p w))"

text \<open>\<open>setAllCaps\<close>, with the draft it saves.\<close>

definition set_all_caps :: "bool \<Rightarrow> send_page \<times> string \<Rightarrow> send_page \<times> string" where
  "set_all_caps on ps = (case ps of (p, saved) \<Rightarrow> case toggle_caps (sp_memo p) (sp_caps p) on saved of
     (text, saved') \<Rightarrow> (p\<lparr>sp_memo := text, sp_caps := on\<rparr>, saved'))"

section \<open>The same form sent again\<close>

text \<open>The button is pressed until a press succeeds; each press sees the recent payments and the answer of its moment.\<close>

fun keep_pressing ::
  "money \<Rightarrow> user_view list \<Rightarrow> (user_view \<Rightarrow> bool) \<Rightarrow> bool \<Rightarrow> 'w sending \<Rightarrow> (recent_send list \<times> bool) list
     \<Rightarrow> send_page \<Rightarrow> 'w \<Rightarrow> bool \<times> send_page \<times> 'w" where
  "keep_pressing m payees registered linked s [] p w = (False, p, w)"
| "keep_pressing m payees registered linked s ((recent, confirmed) # rest) p w =
     (case form_amount m p of Inl _ \<Rightarrow> (False, p, w) | Inr amount \<Rightarrow>
      case press_send m payees registered linked recent confirmed s p w of (p', w') \<Rightarrow>
        if map_of (sp_keys p') (form_identity p amount) = None then (True, p', w')
        else keep_pressing m payees registered linked s rest p' w')"

definition quiet :: "('w \<Rightarrow> 'c) \<Rightarrow> 'w sending \<Rightarrow> bool" where
  "quiet carried s \<longleftrightarrow> (\<forall>txn w. carried (snd (sd_screen s txn w)) = carried w)
     \<and> (\<forall>to text w. carried (snd (sd_dm s to text w)) = carried w) \<and> (\<forall>w. carried (snd (sd_refresh s w)) = carried w)"

lemma after_sent_quiet:
  assumes "quiet carried s" and "after_sent s b1 b2 a memo txn p w = (p', w')"
  shows "carried w' = carried w \<and> sp_keys p' = sp_keys p"
proof -
  have c: "carried v = carried u" if "sd_screen s txn u = (r, v)" for u r v
    using assms(1) that unfolding quiet_def by (metis snd_conv)
  have d: "carried v = carried u" if "sd_dm s a memo u = (r, v)" for u r v
    using assms(1) that unfolding quiet_def by (metis snd_conv)
  have e: "carried v = carried u" if "sd_refresh s u = (r, v)" for u r v
    using assms(1) that unfolding quiet_def by (metis snd_conv)
  show ?thesis using assms(2)
    by (auto simp: after_sent_def send_copy_def say_def split: prod.splits sum.splits if_splits dest!: c d e)
qed

text \<open>A form that is accepted as it stands: complete, not refused, and not sending.\<close>

definition acceptable :: "money \<Rightarrow> user_view list \<Rightarrow> (user_view \<Rightarrow> bool) \<Rightarrow> bool \<Rightarrow> num \<Rightarrow> send_page \<Rightarrow> bool" where
  "acceptable m payees registered linked amount p \<longleftrightarrow> \<not> sp_busy p \<and> sp_to p \<noteq> [] \<and> form_amount m p = Inr amount
     \<and> form_refusal payees registered linked p amount = None"

lemma press_acceptable:
  assumes "acceptable m payees registered linked amount p"
    and "confirmed \<or> duplicate_of recent p amount = None"
  shows "press_send m payees registered linked recent confirmed s p w = send_now payees s amount p w"
  using assms by (auto simp: press_send_def acceptable_def)

text \<open>While a press fails the form stays as it is.\<close>

definition same_form :: "send_page \<Rightarrow> send_page \<Rightarrow> bool" where
  "same_form p q \<longleftrightarrow> q = p\<lparr>sp_keys := sp_keys q, sp_toasts := sp_toasts q\<rparr>"

lemma same_form_acceptable:
  assumes "same_form p q"
  shows "acceptable m payees registered linked amount q = acceptable m payees registered linked amount p"
    and "form_identity q amount = form_identity p amount" and "form_amount m q = form_amount m p"
proof -
  obtain ks ts where q: "q = p\<lparr>sp_keys := ks, sp_toasts := ts\<rparr>" using assms unfolding same_form_def by blast
  show "form_identity q amount = form_identity p amount" "form_amount m q = form_amount m p"
    by (simp_all add: q form_identity_def form_economic_def form_amount_def)
  have "form_refusal payees registered linked q amount = form_refusal payees registered linked p amount"
    by (simp add: q form_refusal_def form_recipient_def cong: if_cong)
  then show "acceptable m payees registered linked amount q = acceptable m payees registered linked amount p"
    by (simp add: acceptable_def form_amount_def q)
qed

context payer
begin

definition attempt :: "(string \<times> payment) list \<Rightarrow> payment \<Rightarrow> send_page \<Rightarrow> 'w \<Rightarrow> bool" where
  "attempt base i p w \<longleftrightarrow> good w \<and> fst ` set base \<subseteq> seen w
     \<and> (case map_of (sp_keys p) i of None \<Rightarrow> carried w = base
        | Some k \<Rightarrow> k \<in> seen w \<and> k \<notin> fst ` set base \<and> (carried w = base \<or> carried w = base @ [(k, i)]))"

lemma send_now_step:
  assumes a: "attempt base (form_identity p x) p w" and r: "0 < room w"
    and s: "sd_pay s = pay" "sd_draw s = draw" "quiet carried s"
    and n: "send_now payees s x p w = (p', w')"
  shows "if map_of (sp_keys p') (form_identity p x) = None
    then \<exists>k. carried w' = base @ [(k, form_identity p x)]
    else same_form p p' \<and> attempt base (form_identity p x) p' w' \<and> room w \<le> Suc (room w')"
proof -
  define i where "i = form_identity p x"
  obtain k w1 where kw: "(case map_of (sp_keys p) i of Some k \<Rightarrow> (k, w) | None \<Rightarrow> draw w) = (k, w1)" by fastforce
  have g: "good w1" "fst ` set base \<subseteq> seen w1" "k \<in> seen w1" "k \<notin> fst ` set base"
      "carried w1 = base \<or> carried w1 = base @ [(k, i)]" "room w1 = room w"
  proof -
    note at' = a [folded i_def, unfolded attempt_def]
    have "good w1 \<and> fst ` set base \<subseteq> seen w1 \<and> k \<in> seen w1 \<and> k \<notin> fst ` set base
      \<and> (carried w1 = base \<or> carried w1 = base @ [(k, i)]) \<and> room w1 = room w"
    proof (cases "map_of (sp_keys p) i")
      case None
      then have "draw w = (k, w1)" "good w" "carried w = base" "fst ` set base \<subseteq> seen w" using kw at' by simp_all
      from draw_fresh [OF this(2,1)] this(3,4) show ?thesis by blast
    next
      case (Some k')
      then show ?thesis using kw at' by simp
    qed
    then show "good w1" "fst ` set base \<subseteq> seen w1" "k \<in> seen w1" "k \<notin> fst ` set base"
      "carried w1 = base \<or> carried w1 = base @ [(k, i)]" "room w1 = room w" by simp_all
  qed
  obtain res w2 where py: "pay (sp_to p) x (trim (sp_memo p)) k (form_economic p x) w1 = (res, w2)" by fastforce
  note run = n [unfolded send_now_def, folded i_def, unfolded Let_def s(2) kw prod.case s(1) py]
  have r1: "0 < room w1" using g r by simp
  note keeps = pay_keeps [OF g(1) r1 g(3) py] and once = pay_once [OF g(1) r1 g(3) py]
  have c2: "carried w2 = base \<or> carried w2 = base @ [(k, i)]" using once g(5) by (auto simp: i_def form_identity_def)
  show ?thesis
  proof (cases res)
    case (Inl e)
    have "p' = say (toast_problem e) (p\<lparr>sp_keys := AList.update i k (sp_keys p)\<rparr>)" "w' = w2"
      using run by (simp_all add: Inl)
    then show ?thesis using keeps g c2
      by (simp add: i_def [symmetric] say_def same_form_def attempt_def update_conv')
  next
    case (Inr txn)
    have "(k, i) \<in> set (carried w2)"
      using pay_answered [OF g(1) r1 g(3), of _ _ _ _ txn w2] py Inr by (simp add: i_def form_identity_def)
    then have c: "carried w2 = base @ [(k, i)]" using c2 g(4) by (auto simp: rev_image_eqI)
    obtain q b1 b2 where "after_sent s b1 b2 (sp_to p) (trim (sp_memo p)) txn q w2 = (p', w')"
        "sp_keys q = AList.delete i (AList.update i k (sp_keys p))"
      using run by (auto simp: Inr Let_def say_def cleared_def)
    with after_sent_quiet [OF s(3)] c show ?thesis by (auto simp: i_def [symmetric] delete_conv')
  qed
qed

theorem pressing_pays_once:
  assumes "attempt base (form_identity p x) p w" and "length presses \<le> room w"
    and s: "sd_pay s = pay" "sd_draw s = draw" "quiet carried s"
    and "acceptable m payees registered linked x p"
    and "map_of (sp_keys p) (form_identity p x) \<noteq> None
      \<or> (\<forall>(recent, confirmed) \<in> set presses. confirmed \<or> duplicate_of recent p x = None)"
    and "keep_pressing m payees registered linked s presses p w = (sent, p', w')"
  shows "if sent then \<exists>k. carried w' = base @ [(k, form_identity p x)]
    else carried w' = base \<or> (\<exists>k. carried w' = base @ [(k, form_identity p x)])"
  using assms(1,2,6-)
proof (induction presses arbitrary: p w)
  case Nil
  then show ?case by (auto simp: attempt_def split: option.splits)
next
  case (Cons a presses)
  obtain recent confirmed where [simp]: "a = (recent, confirmed)" by fastforce
  have "confirmed \<or> duplicate_of recent p x = None" using Cons.prems(4) by (auto simp: duplicate_of_def)
  note press = press_acceptable [OF Cons.prems(3) this]
  have amount: "form_amount m p = Inr x" using Cons.prems(3) by (simp add: acceptable_def)
  obtain p1 w1 where n: "send_now payees s x p w = (p1, w1)" by fastforce
  have r: "0 < room w" using Cons.prems(2) by simp
  note step = send_now_step [OF Cons.prems(1) r s n]
  show ?case
  proof (cases "map_of (sp_keys p1) (form_identity p x) = None")
    case True
    then show ?thesis using step Cons.prems(5) by (auto simp: amount press n)
  next
    case False
    then have f: "same_form p p1" "attempt base (form_identity p x) p1 w1" "length presses \<le> room w1"
      using step Cons.prems(2) by auto
    note same = same_form_acceptable [OF f(1)]
    show ?thesis
      using Cons.IH [of p1 w1] f(2,3) Cons.prems(3,5) False
      by (cases sent) (simp_all add: same amount press n)
  qed
qed

end

end
