(* ===== verification/PaymentNet.thy ===== *)
theory PaymentNet
  imports KeyedNet SendPage
begin

text \<open>
  The payments of the send page and of its allowances on the wire of theory KeyedNet: the client's \<open>transfer\<close>
  is one of the posted operations, so the server's receipts say which payments were carried out. The theory's
  end is the interpretation of \<open>payer\<close>.
\<close>

section \<open>Payments among the operations\<close>

definition net_transfer :: "(ledger \<Rightarrow> ledger) \<Rightarrow> net payment_call" where
  "net_transfer fill to x memo k e n = (case net_call fill (c_transfer (nt_client n) to x memo k e) n of
     (Inl p, n') \<Rightarrow> (Inl p, n')
   | (Inr a, n') \<Rightarrow> (Inr (case a of ATransaction t \<Rightarrow> t_id t | _ \<Rightarrow> []), n'))"

definition transfer_op :: "string \<Rightarrow> num \<Rightarrow> string \<Rightarrow> economic_input option \<Rightarrow> posting_op" where
  "transfer_op to x memo e = (''/transfers'',
     Fields ([(''to'', JStr to), (''amount'', JNum x), (''memo'', JStr memo)] @ economic_fields e))"

definition sent_economic :: "body \<Rightarrow> economic_input option" where
  "sent_economic b = (case text_field b ''economic_kind'' of None \<Rightarrow> None
     | Some s \<Rightarrow> Some \<lparr>ei_kind = the (map_of economic_kinds s), ei_thing = text_field b ''thing'',
         ei_quantity = text_or [] b ''quantity'', ei_unit = the (map_of economic_units (text_or [] b ''unit''))\<rparr>)"

definition sent_payment :: "posting_op \<Rightarrow> payment option" where
  "sent_payment x = (case x of (path, b) \<Rightarrow> if path = ''/transfers''
     then Some (text_or [] b ''to'', num_field b ''amount'', text_or [] b ''memo'', sent_economic b) else None)"

definition net_carried :: "string \<Rightarrow> net \<Rightarrow> (string \<times> payment) list" where
  "net_carried uid n = List.map_filter (\<lambda>(k, x). map_option (Pair k) (sent_payment x)) (net_done uid n)"

lemma net_transfer_post:
  "net_transfer fill to x memo k e n = (case net_post fill (transfer_op to x memo e) k n of
     (Inl p, n') \<Rightarrow> (Inl p, n') | (Inr a, n') \<Rightarrow> (Inr (case a of ATransaction t \<Rightarrow> t_id t | _ \<Rightarrow> []), n'))"
  by (simp add: net_transfer_def net_post_def c_transfer_def transfer_op_def)

lemma sent_transfer: "sent_payment (transfer_op to x memo e) = Some (to, x, memo, e)"
proof -
  let ?b = "snd (transfer_op to x memo e)"
  have b: "?b = Fields ([(''to'', JStr to), (''amount'', JNum x), (''memo'', JStr memo)] @ economic_fields e)"
    by (simp add: transfer_op_def)
  have "sent_economic ?b = e"
    unfolding b by (cases e; cases "ei_thing (the e)")
      (simp_all add: sent_economic_def economic_fields_def opt_field_def field_def text_field_def text_or_def
        kind_names unit_names)
  moreover have "fst (transfer_op to x memo e) = ''/transfers''" by (simp add: transfer_op_def)
  ultimately show ?thesis
    using transfer_fields [OF b] by (cases "transfer_op to x memo e") (simp add: sent_payment_def)
qed

lemma transfer_suits: "net_suits (transfer_op to x memo e)"
  by (simp add: net_suits_def plain_path_def transfer_op_def is_screen_def starts_with_def)

lemma carried_in: "(k, to, x, memo, e) \<in> set (net_carried uid n)" if "(k, transfer_op to x memo e) \<in> set (net_done uid n)"
  using in_map_filter [OF that, of "\<lambda>(k, x). map_option (Pair k) (sent_payment x)"] by (simp add: net_carried_def sent_transfer)

lemma carried_keys: "fst ` set (net_carried uid n) \<subseteq> fst ` set (net_done uid n)"
  by (force simp: net_carried_def List.map_filter_def)

section \<open>The laws of \<open>payer\<close>\<close>

interpretation wire: payer "net_transfer fill" net_draw "net_carried uid" "net_seen uid" net_room "net_good uid"
  for fill uid
proof unfold_locales
  fix w k to x memo e r w'
  assume a: "net_good uid w" "0 < net_room w" "k \<in> net_seen uid w" "net_transfer fill to x memo k e w = (r, w')"
  obtain q where q: "net_post fill (transfer_op to x memo e) k w = (q, w')"
    using a(4) by (auto simp: net_transfer_post split: prod.splits sum.splits)
  show "net_good uid w' \<and> net_room w \<le> Suc (net_room w') \<and> net_seen uid w' = net_seen uid w"
    by (rule posts.call_keeps [OF a(1-3) transfer_suits q])
  show "net_carried uid w' = net_carried uid w
      \<or> (k \<notin> fst ` set (net_carried uid w) \<and> net_carried uid w' = net_carried uid w @ [(k, to, x, memo, e)])"
    using posts.call_once [OF a(1-3) transfer_suits q] carried_keys [of uid w]
    by (auto simp: net_carried_def map_filter_append map_filter_one sent_transfer)
next
  fix w k to x memo e u w'
  assume a: "net_good uid w" "0 < net_room w" "k \<in> net_seen uid w" "net_transfer fill to x memo k e w = (Inr u, w')"
  obtain q where "net_post fill (transfer_op to x memo e) k w = (Inr q, w')"
    using a(4) by (auto simp: net_transfer_post split: prod.splits sum.splits)
  from carried_in [OF posts.call_answered [OF a(1-3) transfer_suits this]]
  show "(k, to, x, memo, e) \<in> set (net_carried uid w')" .
next
  fix w k w'
  assume "net_good uid w" and "net_draw w = (k, w')"
  from posts.draw_fresh [OF this]
  show "net_good uid w' \<and> net_room w' = net_room w \<and> net_carried uid w' = net_carried uid w \<and> k \<noteq> []
      \<and> k \<notin> net_seen uid w \<and> net_seen uid w' = insert k (net_seen uid w)" by (simp add: net_carried_def)
next
  fix w
  show "net_good uid w \<Longrightarrow> fst ` set (net_carried uid w) \<subseteq> net_seen uid w"
    using posts.carried_seen [of uid w] carried_keys [of uid w] by blast
qed

end
