(* ===== verification/CommercePages.thy ===== *)
theory CommercePages
  imports Keyed Commerce Calendar
begin

text \<open>
  \<open>pages/gift-requests.ts\<close> and \<open>pages/art.ts\<close> over the service's \<open>commerce\<close> call, with the members' names of
  \<open>people/people.ts\<close>. A date box holds a date or nothing; local
  time is a fixed offset. Fetching and hashing pictures, and the files of minicloud, are left out.
\<close>

section \<open>Members\<close>

definition user_id_of :: "nat \<Rightarrow> string" where "user_id_of n = ''user-'' @ show_nat n"

definition member_number :: "user_view option \<Rightarrow> nat option" where
  "member_number u = map_option (\<lambda>u. user_number (uv_id u)) u"

definition member_name :: "user_view list \<Rightarrow> nat \<Rightarrow> string" where
  "member_name household n = (case find (\<lambda>u. uv_id u = user_id_of n) household of
     Some u \<Rightarrow> uv_display_name u | None \<Rightarrow> ''Member '' @ show_nat n)"

section \<open>Gift requests\<close>

datatype gift_state = Gift_open | Gift_ended | Gift_closed

definition gift_state :: "gift_request \<Rightarrow> int \<Rightarrow> gift_state" where
  "gift_state r now = (if g_closed r then Gift_closed
     else case g_deadline r of None \<Rightarrow> Gift_open | Some d \<Rightarrow> if d \<le> of_int now then Gift_ended else Gift_open)"

text \<open>The local end of the chosen day; \<open>zone\<close> is what local time is ahead of UTC, in seconds.\<close>

definition deadline_from_date :: "int \<Rightarrow> string \<Rightarrow> num option" where
  "deadline_from_date zone date = (if date = [] then None
     else case map js_number (split_char (CHR ''-'') date) of
       [Some y, Some m, Some d] \<Rightarrow> Some (of_int (utc_day \<lfloor>y\<rfloor> (\<lfloor>m\<rfloor> - 1) \<lfloor>d\<rfloor> * 86400 + 86399 - zone))
     | _ \<Rightarrow> None)"

datatype gift_view = Open_gifts | My_gifts | Closed_gifts | New_gift

record gift_page = "commerce_action keyed_page" +
  gp_view :: gift_view
  gp_title :: string
  gp_description :: string
  gp_target :: string
  gp_deadline :: string
  gp_gifts :: "(nat \<times> string) list"
  gp_notes :: "(nat \<times> string) list"

definition newest_requests :: "gift_request list \<Rightarrow> gift_request list" where
  "newest_requests rs = sort_key (\<lambda>r. - g_created_at r) rs"

definition is_my_request :: "user_view option \<Rightarrow> gift_request \<Rightarrow> bool" where
  "is_my_request me r \<longleftrightarrow> member_number me = Some (g_owner r)"

definition gift_progress :: "gift_request \<Rightarrow> int" where
  "gift_progress r = (case g_target r of
     Some t \<Rightarrow> if t \<noteq> 0 then min 100 \<lfloor>js_div (js_mul (g_received r) 100) t\<rfloor> else 0 | None \<Rightarrow> 0)"

definition gifts_in :: "user_view option \<Rightarrow> string option \<Rightarrow> int \<Rightarrow> gift_request list \<Rightarrow> gift_view \<Rightarrow> gift_request list" where
  "gifts_in me selected now rs v = filter (\<lambda>r. case v of
       My_gifts \<Rightarrow> is_my_request me r | Open_gifts \<Rightarrow> gift_state r now = Gift_open
     | Closed_gifts \<Rightarrow> gift_state r now \<noteq> Gift_open | New_gift \<Rightarrow> False)
     (filter (\<lambda>r. \<not> truthy_str selected \<or> Some (show_nat (g_id r)) = selected) (newest_requests rs))"

definition gift_count :: "user_view option \<Rightarrow> string option \<Rightarrow> int \<Rightarrow> gift_request list \<Rightarrow> gift_view \<Rightarrow> nat" where
  "gift_count me selected now rs v = (if v = New_gift then length rs else length (gifts_in me selected now rs v))"

text \<open>What the form of a new request asks the board for, and what a gift does.\<close>

definition new_request :: "int \<Rightarrow> int \<Rightarrow> money \<Rightarrow> gift_page \<Rightarrow> problem + commerce_action" where
  "new_request zone now m p =
     (let title = trim (gp_title p); description = trim (gp_description p) in
      if title = [] then Inl (Bad_input ''Say what the gift is for.'')
      else if utf8_length title > 80 \<or> utf8_length description > 96
      then Inl (Bad_input ''Keep the title within 80 bytes and details within 96; some characters use more than one.'')
      else case (if trim (gp_target p) = [] then Inr None
                 else (case of_input (money_parse (gp_target p) m) of Inl e \<Rightarrow> Inl e | Inr x \<Rightarrow> Inr (Some x))) of
        Inl e \<Rightarrow> Inl e
      | Inr target \<Rightarrow>
          let deadline = deadline_from_date zone (gp_deadline p) in
          if \<exists>x \<in> set_option target. x \<le> 0 then Inl (Bad_input ''A target must be more than zero, or left empty.'')
          else if \<exists>d \<in> set_option deadline. d \<le> of_int now then Inl (Bad_input ''Choose a last day that has not passed.'')
          else Inr (CreateRequest title description target deadline))"

definition box_of :: "(nat \<times> string) list \<Rightarrow> nat \<Rightarrow> string" where
  "box_of xs i = (case map_of xs i of Some s \<Rightarrow> s | None \<Rightarrow> [])"

definition new_gift :: "money \<Rightarrow> gift_request \<Rightarrow> gift_page \<Rightarrow> problem + commerce_action" where
  "new_gift m r p = (case of_input (money_parse (box_of (gp_gifts p) (g_id r)) m) of
     Inl e \<Rightarrow> Inl e
   | Inr amount \<Rightarrow>
       let memo = trim (box_of (gp_notes p) (g_id r)) in
       if amount \<le> 0 then Inl (Bad_input ''Enter an amount to give.'')
       else if utf8_length memo > 96 then Inl (Bad_input ''Keep the note within 96 bytes.'')
       else Inr (Contribute (g_id r) amount memo))"

text \<open>The services; the identity of an operation, a JSON text in the source, is the command itself.\<close>

record ('w, 'r) commerce_calls =
  cc_commerce :: "commerce_action \<Rightarrow> string \<Rightarrow> ('w, 'r) call"
  cc_draw :: "'w \<Rightarrow> string \<times> 'w"
  cc_refresh :: "('w, unit) call"

definition gift_run ::
  "('w, 'r) commerce_calls \<Rightarrow> commerce_action \<Rightarrow> string \<Rightarrow> (gift_page \<Rightarrow> gift_page) \<Rightarrow> gift_page \<Rightarrow> 'w \<Rightarrow> gift_page \<times> 'w" where
  "gift_run x a text reset p w = keyed_run (cc_draw x) (cc_commerce x a) (cc_refresh x) a
     (\<lambda>p. kp_reload (kp_say (toast_ok text) (reset p))) id id p w"

definition cleared_request :: "gift_page \<Rightarrow> gift_page" where
  "cleared_request p = p\<lparr>gp_title := [], gp_description := [], gp_target := [], gp_deadline := [], gp_view := My_gifts\<rparr>"

definition cleared_gift :: "nat \<Rightarrow> gift_page \<Rightarrow> gift_page" where
  "cleared_gift i p = p\<lparr>gp_gifts := AList.delete i (gp_gifts p), gp_notes := AList.delete i (gp_notes p)\<rparr>"

definition press_request :: "int \<Rightarrow> int \<Rightarrow> money \<Rightarrow> ('w, 'r) commerce_calls \<Rightarrow> gift_page \<Rightarrow> 'w \<Rightarrow> gift_page \<times> 'w" where
  "press_request zone now m x p w = (if kp_busy p then (p, w) else case new_request zone now m p of
     Inl e \<Rightarrow> (kp_say (toast_problem e) p, w)
   | Inr a \<Rightarrow> gift_run x a ''Gift request posted.'' cleared_request p w)"

definition press_give :: "money \<Rightarrow> ('w, 'r) commerce_calls \<Rightarrow> bool \<Rightarrow> gift_request \<Rightarrow> gift_page \<Rightarrow> 'w \<Rightarrow> gift_page \<times> 'w" where
  "press_give m x confirmed r p w = (if kp_busy p then (p, w) else case new_gift m r p of
     Inl e \<Rightarrow> (kp_say (toast_problem e) p, w)
   | Inr a \<Rightarrow> if confirmed then gift_run x a ''Gift sent. Thank you!'' (cleared_gift (g_id r)) p w else (p, w))"

definition press_close :: "('w, 'r) commerce_calls \<Rightarrow> bool \<Rightarrow> gift_request \<Rightarrow> gift_page \<Rightarrow> 'w \<Rightarrow> gift_page \<times> 'w" where
  "press_close x confirmed r p w = (if kp_busy p \<or> \<not> confirmed then (p, w)
     else gift_run x (CloseRequest (g_id r)) ''Request closed.'' id p w)"

text \<open>Every press on the page is a step of a page at work.\<close>

definition gift_runs :: "('w \<Rightarrow> nat) \<Rightarrow> ('w, 'r) commerce_calls \<Rightarrow> 'w \<Rightarrow> (commerce_action \<times> bool) list \<Rightarrow> gift_page \<Rightarrow> 'w \<Rightarrow> bool" where
  "gift_runs room x w0 tr p w \<longleftrightarrow> page_runs room (cc_draw x) (cc_commerce x) (cc_refresh x) w0 tr p w"

lemma gift_resets: "keeps_keys cleared_request" "keeps_keys (cleared_gift i)"
  by (simp_all add: keeps_keys_def cleared_request_def cleared_gift_def)

lemma gift_run_runs:
  assumes "gift_runs room x w0 tr p w" and "0 < room w" and "keeps_keys reset" and "gift_run x a text reset p w = (q, w')"
  shows "gift_runs room x w0 (tr @ [(a, map_of (kp_keys q) a = None)]) q w'"
  unfolding gift_runs_def
proof (rule page_runs.press)
  show "keyed_run (cc_draw x) (cc_commerce x a) (cc_refresh x) a
     (\<lambda>p. kp_reload (kp_say (toast_ok text) (reset p))) id id p w = (q, w')" using assms(4) by (simp add: gift_run_def)
  show "keeps_keys (\<lambda>p. kp_reload (kp_say (toast_ok text) (reset p)))" using assms(3) by (simp add: keeps_keys_def kp_reload_def)
qed (use assms in \<open>auto simp: gift_runs_def\<close>)

lemma gift_say: "gift_runs room x w0 tr p w \<Longrightarrow> gift_runs room x w0 tr (kp_say t p) w"
  unfolding gift_runs_def by (rule page_runs.edit) simp_all

lemma gift_press_runs:
  assumes "gift_runs room x w0 tr p w" and "0 < room w"
    and "press_request zone now m x p w = (q, w') \<or> press_give m x confirmed r p w = (q, w') \<or> press_close x confirmed r p w = (q, w')"
  shows "\<exists>tr'. gift_runs room x w0 (tr @ tr') q w'"
proof -
  have id: "keeps_keys (id :: gift_page \<Rightarrow> gift_page)" by (rule keeps_keys)
  from assms(3) consider (same) "(q, w') = (p, w)" | (said) t where "(q, w') = (kp_say t p, w)"
    | (ran) a msg reset where "keeps_keys reset" "gift_run x a msg reset p w = (q, w')"
    using gift_resets id by (auto simp: press_request_def press_give_def press_close_def split: if_splits sum.splits) blast+
  then show ?thesis
  proof cases
    case same
    then show ?thesis using assms(1) by (intro exI [of _ "[]"]) simp
  next
    case said
    then show ?thesis using gift_say [OF assms(1)] by (intro exI [of _ "[]"]) simp
  next
    case ran
    then show ?thesis using gift_run_runs [OF assms(1,2)] by blast
  qed
qed

text \<open>A gift can be given where the page offers it: the book would not turn it away for its state or its owner.\<close>

lemma gift_offered:
  assumes "request_unavailable h owner r w = (bad, w')" and "\<And>v. fst (ch_now h v) = now"
  shows "bad \<longleftrightarrow> gift_state r now \<noteq> Gift_open \<or> g_owner r = owner"
  using assms by (auto simp: request_unavailable_def gift_state_def split: if_splits option.splits prod.splits)
    (metis fst_conv)+

section \<open>Art\<close>

definition DEFAULT_LICENSE :: string where
  "DEFAULT_LICENSE = ''Personal profile display; artist retains copyright''"

definition mint_problem :: "string \<Rightarrow> string \<Rightarrow> string \<Rightarrow> string \<Rightarrow> string option" where
  "mint_problem title license locator sha =
     (if trim title = [] \<or> utf8_length title > 80 then Some ''Give the art a title of at most 80 bytes.''
      else if trim license = [] \<or> utf8_length license > 96 then Some ''Say what owners may do with it, in at most 96 bytes.''
      else if \<not> starts_with ''https://'' locator \<or> utf8_length locator > 192
      then Some ''The picture needs an https:// address of at most 192 bytes.''
      else if \<not> is_digest sha
      then Some ''The SHA-256 digest is 64 hexadecimal characters. Compute it from the picture.''
      else None)"

text \<open>The identities of the operations: those on an edition name the revision that was on the screen.\<close>

datatype art_op =
    Mint_op string string string string
  | List_op nat nat "num option"
  | Buy_op nat nat
  | Give_op nat nat nat
  | Equip_op nat nat bool

datatype art_view = All_art | Art_on_sale | My_art | Make_art

record art_page = "art_op keyed_page" +
  ap_view :: art_view
  ap_title :: string
  ap_license :: string
  ap_locator :: string
  ap_sha :: string
  ap_prices :: "(nat \<times> string) list"
  ap_recipients :: "(nat \<times> nat) list"

definition is_my_art :: "user_view option \<Rightarrow> artwork \<Rightarrow> bool" where
  "is_my_art me a \<longleftrightarrow> member_number me = Some (a_owner a)"

definition art_in :: "user_view option \<Rightarrow> string option \<Rightarrow> artwork list \<Rightarrow> art_view \<Rightarrow> artwork list" where
  "art_in me selected as v = filter (\<lambda>a. case v of
       My_art \<Rightarrow> is_my_art me a | Art_on_sale \<Rightarrow> a_price a \<noteq> None | All_art \<Rightarrow> True | Make_art \<Rightarrow> False)
     (filter (\<lambda>a. \<not> truthy_str selected \<or> Some (show_nat (a_id a)) = selected) (sort_key (\<lambda>a. - int (a_id a)) as))"

definition art_run ::
  "('w, 'r) commerce_calls \<Rightarrow> art_op \<Rightarrow> commerce_action \<Rightarrow> string \<Rightarrow> (art_page \<Rightarrow> art_page) \<Rightarrow> art_page \<Rightarrow> 'w \<Rightarrow> art_page \<times> 'w" where
  "art_run x i a text reset p w = (if kp_busy p then (p, w)
     else keyed_run (cc_draw x) (cc_commerce x a) (cc_refresh x) i
       (\<lambda>p. kp_reload (kp_say (toast_ok text) (reset p))) id kp_reload p w)"

definition cleared_mint :: "art_page \<Rightarrow> art_page" where
  "cleared_mint p = p\<lparr>ap_title := [], ap_license := DEFAULT_LICENSE, ap_locator := [], ap_sha := [], ap_view := My_art\<rparr>"

definition press_mint :: "('w, 'r) commerce_calls \<Rightarrow> art_page \<Rightarrow> 'w \<Rightarrow> art_page \<times> 'w" where
  "press_mint x p w =
     (let title = trim (ap_title p); license = trim (ap_license p); locator = trim (ap_locator p);
          sha = to_lower (trim (ap_sha p)) in
      case mint_problem title license locator sha of
        Some e \<Rightarrow> (kp_say (toast_error e) p, w)
      | None \<Rightarrow> art_run x (Mint_op title license locator sha) (MintArt title license sha locator) ''Edition registered.'' cleared_mint p w)"

definition press_list :: "('w, 'r) commerce_calls \<Rightarrow> artwork \<Rightarrow> num option \<Rightarrow> art_page \<Rightarrow> 'w \<Rightarrow> art_page \<times> 'w" where
  "press_list x a price p w = art_run x (List_op (a_id a) (a_revision a) price) (ListArt (a_id a) price)
     (if price = None then ''Taken off sale.'' else ''Put on sale.'')
     (\<lambda>p. p\<lparr>ap_prices := AList.delete (a_id a) (ap_prices p)\<rparr>) p w"

definition press_sell :: "money \<Rightarrow> ('w, 'r) commerce_calls \<Rightarrow> artwork \<Rightarrow> art_page \<Rightarrow> 'w \<Rightarrow> art_page \<times> 'w" where
  "press_sell m x a p w = (case of_input (money_parse (box_of (ap_prices p) (a_id a)) m) of
     Inl e \<Rightarrow> (kp_say (toast_problem e) p, w)
   | Inr price \<Rightarrow> if price \<le> 0 then (kp_say (toast_error ''Enter a price above zero.'') p, w) else press_list x a (Some price) p w)"

definition press_buy_art :: "('w, 'r) commerce_calls \<Rightarrow> bool \<Rightarrow> artwork \<Rightarrow> art_page \<Rightarrow> 'w \<Rightarrow> art_page \<times> 'w" where
  "press_buy_art x confirmed a p w = (case a_price a of None \<Rightarrow> (p, w)
     | Some price \<Rightarrow> if \<not> confirmed then (p, w)
         else art_run x (Buy_op (a_id a) (a_revision a)) (BuyArt (a_id a) (a_owner a) (a_revision a) price)
           (''It'' @ [CHR 146] @ ''s yours.'') id p w)"

definition press_give_art :: "('w, 'r) commerce_calls \<Rightarrow> bool \<Rightarrow> artwork \<Rightarrow> art_page \<Rightarrow> 'w \<Rightarrow> art_page \<times> 'w" where
  "press_give_art x confirmed a p w = (case map_of (ap_recipients p) (a_id a) of
     None \<Rightarrow> (kp_say (toast_error ''Choose who receives it.'') p, w)
   | Some to \<Rightarrow> if \<not> confirmed then (p, w)
       else art_run x (Give_op (a_id a) (a_revision a) to) (GiftArt (a_id a) to) ''Given.''
         (\<lambda>p. p\<lparr>ap_recipients := AList.delete (a_id a) (ap_recipients p)\<rparr>) p w)"

definition press_equip :: "('w, 'r) commerce_calls \<Rightarrow> artwork \<Rightarrow> bool \<Rightarrow> art_page \<Rightarrow> 'w \<Rightarrow> art_page \<times> 'w" where
  "press_equip x a equipped p w = art_run x (Equip_op (a_id a) (a_revision a) equipped) (EquipArt (a_id a) equipped)
     (if equipped then ''Now on your profile.'' else ''Removed from your profile.'') id p w"

lemma trim_nonspace: "\<not> is_space c \<Longrightarrow> trim (c # s) \<noteq> []"
  by (simp add: trim_def dropWhile_eq_Nil_conv)

text \<open>What the form lets through, the book registers, while it has room and no text has control characters.\<close>

lemma mint_accepted:
  assumes "mint_problem title license locator sha = None"
    and "\<not> has_control title" "\<not> has_control license" "\<not> has_control locator" and "length (cm_artworks (ch_get h w)) < 64"
  shows "\<exists>app w'. mint_art h owner title license sha locator w = (Inr app, w')"
proof -
  have "trim locator \<noteq> []"
    using assms(1) trim_nonspace [of "CHR ''h''"]
    by (cases locator) (auto simp: mint_problem_def starts_with_def is_space_def split: if_splits)
  with assms show ?thesis
    by (auto simp: mint_problem_def mint_art_def guarded_def text_err_def throw_if_def split: if_splits prod.splits)
qed

text \<open>A page sends the price and the revision of the edition that it shows, and a changed edition is refused.\<close>

lemma stale_art_refused:
  assumes "find_art (ch_get h w) (a_id a) = Some b" and "a_price a = Some price"
    and "a_owner b \<noteq> a_owner a \<or> a_revision b \<noteq> a_revision a \<or> a_price b \<noteq> a_price a"
  shows "\<exists>e. prepare h actor owner (BuyArt (a_id a) (a_owner a) (a_revision a) price) w = (Inl e, w)"
  using assms by (cases "a_price b") (auto simp: with_art_def buy_art_def guarded_def throw_if_def)

end
