(* ===== verification/LottoPage.thy ===== *)
theory LottoPage
  imports Keyed LottoSafety ClientMoney
begin

text \<open>
  \<open>pages/lotto.ts\<close> over the service's calls, and the lotto half of \<open>pages/account-commitments.ts\<close>. How a
  browser reads a date-and-time box is an argument, \<open>instant\<close> (milliseconds, or none), as is how it prints one.
  What the form lets through are terms the ledger accepts; the gain or loss the pages show is what the draw paid
  out, less what the tickets cost.
\<close>

section \<open>The form of a new draw\<close>

record lotto_draft =
  ld_title :: string
  ld_kind :: lotto_kind
  ld_price :: string
  ld_closes :: string
  ld_rate :: string

datatype lotto_field = Title_box | Price_box | Closes_box | Rate_box

type_synonym lotto_problems = "(lotto_field \<times> string) list"

definition without_suffix :: "string \<Rightarrow> string \<Rightarrow> string" where
  "without_suffix t s = (if ends_with t (to_lower s)
     then rev (dropWhile is_space (drop (length t) (rev s))) else s)"

definition percent_text :: "string \<Rightarrow> string" where "percent_text s = without_suffix ''%'' (trim s)"

definition title_problem :: "lotto_draft \<Rightarrow> string option" where
  "title_problem d = (if trim (ld_title d) = [] then Some (''Give the lotto a name, like '' @ [CHR 0x22] @ ''Summer Savings'' @ [CHR 0x22] @ ''.'') else None)"

text \<open>A box's problem, or the number it stands for.\<close>

definition price_box :: "lotto_draft \<Rightarrow> nat \<Rightarrow> string + num" where
  "price_box d decimals = (let price = without_suffix ''nc'' (trim (ld_price d)) in
     if price = [] then Inl ''Type how much one ticket costs, like 1.''
     else case parse_money price (of_nat decimals) of
       InputError m \<Rightarrow> Inl m
     | BadPrecision \<Rightarrow> Inl ''Type the ticket price as a plain number, like 1 or 2.50.''
     | NotExact \<Rightarrow> Inl ''Type the ticket price as a plain number, like 1 or 2.50.''
     | Value x \<Rightarrow> if x \<le> 0 then Inl ''A ticket has to cost more than 0. Try 1.''
         else if x > max_money then Inl ''That price is too big. Try a smaller number.'' else Inr x)"

definition closes_box :: "(string \<Rightarrow> num option) \<Rightarrow> (num \<Rightarrow> string) \<Rightarrow> int \<Rightarrow> lotto_draft \<Rightarrow> string + num" where
  "closes_box instant printed now d =
     (let missing = ''Pick the day and the time when ticket sales stop. Fill in both the date and the time.'' in
      case instant (ld_closes d) of None \<Rightarrow> Inl missing
      | Some ms \<Rightarrow> let closes = of_int \<lfloor>js_div ms 1000\<rfloor> in
          if ld_closes d = [] \<or> \<not> is_safe closes then Inl missing
          else if closes \<le> js_div (of_int now) 1000
          then Inl (''That time has already passed. You picked '' @ printed (js_mul closes 1000) @ ''. Pick a time later than now.'')
          else Inr closes)"

definition long_fraction :: "string \<Rightarrow> bool" where
  "long_fraction s \<longleftrightarrow> (case dropWhile is_digit s of [] \<Rightarrow> False
     | c # r \<Rightarrow> is_digit (hd s) \<and> (c = CHR ''.'' \<or> c = CHR '','') \<and> 3 \<le> length r \<and> list_all is_digit r)"

definition rate_box :: "lotto_draft \<Rightarrow> string + num" where
  "rate_box d = (if ld_kind d = Simple then Inr 0
     else let raw = trim (ld_rate d); rate = percent_text raw in
       if rate = [] then Inl ''Type the interest as a percent. For ten percent, type 10.''
       else case parse_money rate 2 of
         Value x \<Rightarrow> if x > 10000 then Inl (''Interest can be 100 at most. For ten percent, type 10.'' @ you_typed raw) else Inr x
       | _ \<Rightarrow> Inl ((if long_fraction rate then ''Use no more than 2 numbers after the dot, like 2.25.''
              else ''Interest has to be a number from 0 to 100. For ten percent, type 10.'') @ you_typed raw))"

definition box_problem :: "lotto_field \<Rightarrow> string + 'a \<Rightarrow> lotto_problems" where
  "box_problem f b = (case b of Inl m \<Rightarrow> [(f, m)] | Inr _ \<Rightarrow> [])"

definition check_lotto ::
  "(string \<Rightarrow> num option) \<Rightarrow> (num \<Rightarrow> string) \<Rightarrow> int \<Rightarrow> nat \<Rightarrow> lotto_draft \<Rightarrow> lotto_terms option \<times> lotto_problems" where
  "check_lotto instant printed now decimals d =
     (let price = price_box d decimals; closes = closes_box instant printed now d; rate = rate_box d;
          problems = (case title_problem d of Some m \<Rightarrow> [(Title_box, m)] | None \<Rightarrow> [])
            @ box_problem Price_box price @ box_problem Closes_box closes @ box_problem Rate_box rate in
      case (problems, price, closes, rate) of
        ([], Inr p, Inr c, Inr r) \<Rightarrow>
          (Some \<lparr>lt_kind = ld_kind d, lt_title = trim (ld_title d), lt_ticket_price = p, lt_closes_at = c, lt_rate_bps = r\<rparr>, [])
      | _ \<Rightarrow> (None, problems))"

definition rate_hint :: "string \<Rightarrow> string" where
  "rate_hint s = (let help = ''Type 10 for ten percent. The % sign is optional.'' in
     case parse_money (percent_text s) 2 of
       Value bps \<Rightarrow> if bps > 10000 then help
         else let pct = amount_text \<lfloor>bps\<rfloor> 2 True;
                  meaning = pct @ ''% means Nana adds '' @ pct @ '' NC for every 100 NC in the pool.'' in
           if 0 < bps \<and> bps < 100
           then let guess = amount_text (\<lfloor>bps\<rfloor> * 100) 2 True in meaning @ '' Did you mean '' @ guess @ ''%? Then type '' @ guess @ ''.''
           else meaning
     | _ \<Rightarrow> help)"

section \<open>The handlers\<close>

datatype lotto_op = Create_op lotto_terms | Tickets_op nat num

record lotto_page = "lotto_op keyed_page" +
  tp_draft :: lotto_draft
  tp_problems :: lotto_problems

definition new_lotto_page :: lotto_page where
  "new_lotto_page = keyed_page.extend new_keyed_page (lotto_page.fields
     \<lparr>ld_title = [], ld_kind = Simple, ld_price = ''1'', ld_closes = [], ld_rate = ''1''\<rparr> [])"

record ('w, 'r) lotto_calls =
  tc_create :: "lotto_terms \<Rightarrow> string \<Rightarrow> ('w, 'r) call"
  tc_buy :: "nat \<Rightarrow> num \<Rightarrow> string \<Rightarrow> ('w, 'r) call"
  tc_draw :: "'w \<Rightarrow> string \<times> 'w"
  tc_refresh :: "('w, unit) call"

definition fix_box :: "lotto_field \<Rightarrow> lotto_page \<Rightarrow> lotto_page" where
  "fix_box f p = p\<lparr>tp_problems := filter (\<lambda>x. fst x \<noteq> f) (tp_problems p)\<rparr>"

definition lotto_call :: "('w, 'r) lotto_calls \<Rightarrow> lotto_op \<Rightarrow> string \<Rightarrow> ('w, 'r) call" where
  "lotto_call x i = (case i of Create_op t \<Rightarrow> tc_create x t | Tickets_op n count \<Rightarrow> tc_buy x n count)"

definition lotto_run :: "('w, 'r) lotto_calls \<Rightarrow> lotto_op \<Rightarrow> lotto_page \<Rightarrow> 'w \<Rightarrow> lotto_page \<times> 'w" where
  "lotto_run x i p w = (if kp_busy p then (p, w)
     else keyed_run (tc_draw x) (lotto_call x i) (tc_refresh x) i kp_reload (kp_say (toast_ok ''Lotto updated.'')) id p w)"

definition press_create ::
  "(string \<Rightarrow> num option) \<Rightarrow> (num \<Rightarrow> string) \<Rightarrow> int \<Rightarrow> money \<Rightarrow> ('w, 'r) lotto_calls \<Rightarrow> lotto_page \<Rightarrow> 'w \<Rightarrow> lotto_page \<times> 'w" where
  "press_create instant printed now m x p w =
     (if my_changed m
      then (kp_say (toast_problem (Bad_input ''NanaCoin money changed size. Reload the page, then try again.'')) p, w)
      else case check_lotto instant printed now (my_decimals m) (tp_draft p) of (terms, problems) \<Rightarrow>
        let p1 = p\<lparr>tp_problems := problems\<rparr> in
        case terms of None \<Rightarrow> (p1, w) | Some t \<Rightarrow> lotto_run x (Create_op t) p1 w)"

text \<open>\<open>typed\<close> is what the first dialog was answered with, \<open>sure\<close> whether the second was confirmed.\<close>

definition tickets_bad :: "lotto \<Rightarrow> num option \<Rightarrow> bool" where
  "tickets_bad l count \<longleftrightarrow> (case count of None \<Rightarrow> True
     | Some n \<Rightarrow> \<not> is_integer n \<or> n < 1 \<or> n > 4294967295 \<or> \<not> is_safe (js_mul n (lt_ticket_price (lo_terms l))))"

definition press_tickets :: "('w, 'r) lotto_calls \<Rightarrow> string option \<Rightarrow> bool \<Rightarrow> lotto \<Rightarrow> lotto_page \<Rightarrow> 'w \<Rightarrow> lotto_page \<times> 'w" where
  "press_tickets x typed sure l p w = (case typed of None \<Rightarrow> (p, w)
     | Some s \<Rightarrow> if tickets_bad l (js_number s)
         then (kp_say (toast_error (''Type how many tickets you want as a whole number, like 1 or 5.'' @ you_typed s)) p, w)
         else if sure then lotto_run x (Tickets_op (lo_id l) (the (js_number s))) p w else (p, w))"

section \<open>What the pages show\<close>

definition visible_lottos :: "string option \<Rightarrow> lotto list \<Rightarrow> lotto list" where
  "visible_lottos selected ls = filter (\<lambda>l. \<not> truthy_str selected \<or> Some (show_nat (lo_id l)) = selected) ls"

definition lotto_label :: "lotto_kind \<Rightarrow> string" where
  "lotto_label k = (case k of Simple \<Rightarrow> ''Simple lotto'' | Delayed \<Rightarrow> ''Delayed lotto'' | Savings \<Rightarrow> ''Savings lotto'')"

definition principal_shown :: "string option \<Rightarrow> lotto \<Rightarrow> num" where
  "principal_shown me l = (if lt_kind (lo_terms l) = Savings then js_mul (lo_my_tickets l) (lt_ticket_price (lo_terms l))
     else if lo_winner l = me then lo_pool l else 0)"

definition lotto_outcome :: "lotto \<Rightarrow> string \<Rightarrow> string \<times> num" where
  "lotto_outcome l account =
     (let cost = js_mul (lo_my_tickets l) (lt_ticket_price (lo_terms l)); won = (lo_winner l = Some account);
          saved = (lt_kind (lo_terms l) = Savings) in
      if lo_status l \<noteq> LottoSettled then (if lo_status l = Paying then ''Payment in progress'' else ''Upcoming draw'', 0)
      else (if won then ''Won'' else if saved then ''Principal returned '' @ [char_of (183 :: nat)] @ '' no interest win'' else ''No win'',
        js_sub (js_add (if saved then cost else if won then lo_pool l else 0) (if won then lo_interest l else 0)) cost))"

definition upcoming_lottos :: "lotto list \<Rightarrow> lotto list" where
  "upcoming_lottos ls = sort_key lo_due_at (filter (\<lambda>l. 0 < lo_my_tickets l \<and> lo_status l \<noteq> LottoSettled) ls)"

definition lotto_results :: "lotto list \<Rightarrow> lotto list" where
  "lotto_results ls = sort_key (\<lambda>l. - lo_due_at l) (filter (\<lambda>l. 0 < lo_my_tickets l \<and> lo_status l = LottoSettled) ls)"

definition lotto_count :: "lotto list \<Rightarrow> nat" where
  "lotto_count ls = length (filter (\<lambda>l. 0 < lo_my_tickets l) ls)"

section \<open>What the form lets through\<close>

lemma check_lotto_Some:
  assumes "check_lotto instant printed now decimals d = (Some t, ps)"
  obtains p c r where "title_problem d = None" "price_box d decimals = Inr p" "closes_box instant printed now d = Inr c"
    "rate_box d = Inr r" "ps = []" "t = \<lparr>lt_kind = ld_kind d, lt_title = trim (ld_title d), lt_ticket_price = p,
      lt_closes_at = c, lt_rate_bps = r\<rparr>"
  using assms by (auto simp: check_lotto_def Let_def box_problem_def split: option.splits sum.splits list.splits)

lemma price_box_ok: "price_box d n = Inr p \<Longrightarrow> is_safe p \<and> 0 < p"
proof -
  assume "price_box d n = Inr p"
  then obtain s where s: "parse_money s (of_nat n) = Value p" "0 < p"
    by (auto simp: price_box_def Let_def not_le split: if_splits input.splits)
  then have "money_parse s (new_money\<lparr>my_decimals := n\<rparr>) = Value p" by (simp add: money_parse_def new_money_def)
  from parsed_amount [OF this] s(2) max_money_safe show ?thesis by (auto simp: is_safe_def)
qed

lemma rate_box_ok: "rate_box d = Inr r \<Longrightarrow> is_integer r \<and> 0 \<le> r \<and> r \<le> 10000 \<and> (ld_kind d = Simple \<longrightarrow> r = 0)"
proof -
  assume a: "rate_box d = Inr r"
  show ?thesis
  proof (cases "ld_kind d = Simple")
    case True
    with a show ?thesis by (simp add: rate_box_def is_integer_def)
  next
    case False
    then obtain s where s: "parse_money s 2 = Value r" "r \<le> 10000"
      using a by (auto simp: rate_box_def Let_def not_less split: if_splits input.splits)
    then have "money_parse s (new_money\<lparr>my_decimals := 2\<rparr>) = Value r" by (simp add: money_parse_def new_money_def)
    from parsed_amount [OF this] s(2) False show ?thesis by simp
  qed
qed

lemma trim_shorter: "length (trim s) \<le> length s"
proof -
  have "length (dropWhile is_space t) \<le> length t" for t by (induction t) auto
  then show ?thesis unfolding trim_def by (metis length_rev order_trans)
qed

lemma lotto_form_ok:
  assumes c: "check_lotto instant printed now decimals d = (Some t, ps)"
    and l: "length (ld_title d) \<le> 80" and s: "of_int s \<le> js_div (of_int now) 1000"
  shows "\<not> lotto_terms_bad t s"
proof -
  from c obtain p cl r where b: "title_problem d = None" "price_box d decimals = Inr p" "closes_box instant printed now d = Inr cl"
    "rate_box d = Inr r" "t = \<lparr>lt_kind = ld_kind d, lt_title = trim (ld_title d), lt_ticket_price = p, lt_closes_at = cl, lt_rate_bps = r\<rparr>"
    by (rule check_lotto_Some)
  have "is_safe cl" "of_int s < cl"
    using b(3) s by (auto simp: closes_box_def Let_def split: option.splits if_splits)
  moreover have "trim (trim (ld_title d)) \<noteq> []" using b(1) by (simp add: title_problem_def split: if_splits)
  ultimately show ?thesis
    using price_box_ok [OF b(2)] rate_box_ok [OF b(4)] trim_shorter [of "ld_title d"] l b(5) by (auto simp: lotto_terms_bad_def)
qed

section \<open>What a player is shown is what a player was paid\<close>

lemma tickets_cost:
  assumes wf: "wf_draw d" and a: "a \<in> fst ` set (d_entries d)"
  shows "js_mul (tickets_of d a) (lt_ticket_price (lo_terms (d_view d))) = tickets_of d a * lt_ticket_price (lo_terms (d_view d))
    \<and> is_integer (tickets_of d a * lt_ticket_price (lo_terms (d_view d)))
    \<and> 0 \<le> tickets_of d a * lt_ticket_price (lo_terms (d_view d))
    \<and> tickets_of d a * lt_ticket_price (lo_terms (d_view d)) \<le> lo_pool (d_view d)"
proof -
  note w = wf [unfolded wf_draw_def Let_def]
  let ?p = "lt_ticket_price (lo_terms (d_view d))"
  obtain c where c: "map_of (d_entries d) a = Some c" using a by (metis map_of_eq_None_iff not_None_eq)
  then have m: "c \<in> set (map snd (d_entries d))" by (force dest: map_of_SomeD)
  have "\<And>y. y \<in> set (map snd (d_entries d)) \<Longrightarrow> 0 \<le> y" using w by (auto simp: count_ok_def)
  with m have "c \<le> sum_list (map snd (d_entries d))" by (intro member_le_sum_list) auto
  then have le: "c \<le> lo_tickets (d_view d)" using w by simp
  have pp: "is_integer ?p" "0 < ?p" using w by (auto simp: is_safe_def)
  have cc: "is_integer c" "1 \<le> c" using w m by (auto simp: count_ok_def)
  have cost: "is_integer (c * ?p)" "0 \<le> c * ?p" "c * ?p \<le> lo_pool (d_view d)"
    using pp cc le w by (simp_all add: is_integer_mult mult_right_mono)
  have "lo_pool (d_view d) \<le> 9007199254740991" using w by (auto simp: is_safe_def max_safe_def)
  then have "js_mul c ?p = c * ?p" using cost by (intro js_mul_exact) simp_all
  with cost c show ?thesis by (simp add: tickets_of_def)
qed

lemma outcome_is_paid:
  assumes wf: "wf_draw d" and a: "a \<in> fst ` set (d_entries d)"
    and fresh: "pool_account (lo_id (d_view d)) \<notin> fst ` set (d_entries d)" "v \<noteq> pool_account (lo_id (d_view d))"
    and s: "lo_status (d_view d) = LottoSettled" "lo_winner (d_view d) = Some v"
  shows "snd (lotto_outcome ((d_view d)\<lparr>lo_my_tickets := tickets_of d a\<rparr>) a)
    = (case map_of (payout_totals d v) a of Some x \<Rightarrow> x | None \<Rightarrow> 0) + (if a = v then lo_interest (d_view d) else 0)
      - tickets_of d a * lt_ticket_price (lo_terms (d_view d))"
proof -
  note w = wf [unfolded wf_draw_def Let_def]
  let ?l = "d_view d"
  define cost where "cost = tickets_of d a * lt_ticket_price (lo_terms ?l)"
  note cost = tickets_cost [OF wf a, folded cost_def]
  have i: "is_integer (lo_interest ?l)" "0 \<le> lo_interest ?l" "lo_pool ?l + lo_interest ?l \<le> 9007199254740991"
    using w by (auto simp: is_safe_def max_safe_def)
  have pool: "is_integer (lo_pool ?l)"
  proof -
    have "is_safe (lo_pool ?l + lo_interest ?l)" using w by blast
    from is_integer_diff [OF is_safeD(1) [OF this] i(1)] show ?thesis by simp
  qed
  have net: "js_sub (js_add x y) cost = x + y - cost"
    if "is_integer x" "0 \<le> x" "x \<le> lo_pool ?l" "is_integer y" "0 \<le> y" "y \<le> lo_interest ?l" for x y
  proof -
    have "js_add x y = x + y" using that i by (intro js_add_exact is_integer_add) auto
    moreover have "js_sub (x + y) cost = x + y - cost" using that i cost by (intro js_sub_exact is_integer_diff is_integer_add) auto
    ultimately show ?thesis by simp
  qed
  have pos: "0 < lo_tickets ?l"
  proof -
    obtain c where "c \<in> set (map snd (d_entries d))" using a by force
    moreover have "\<And>y. y \<in> set (map snd (d_entries d)) \<Longrightarrow> 1 \<le> y" using w by (auto simp: count_ok_def)
    ultimately have "1 \<le> sum_list (map snd (d_entries d))"
      using member_le_sum_list [of c "map snd (d_entries d)"] by fastforce
    then show ?thesis using w by simp
  qed
  have other: "pool_account (lo_id ?l) \<noteq> a" using a fresh(1) by blast
  have "map_of (map (\<lambda>(x, c). (x, c * lt_ticket_price (lo_terms ?l))) (d_entries d)) a = Some cost"
  proof -
    obtain c where "map_of (d_entries d) a = Some c" using a by (metis map_of_eq_None_iff not_None_eq)
    then show ?thesis by (simp add: map_of_map cost_def tickets_of_def)
  qed
  then have got: "(case map_of (payout_totals d v) a of Some x \<Rightarrow> x | None \<Rightarrow> 0)
      = (if lt_kind (lo_terms ?l) = Savings then cost else if v = a then lo_pool ?l else 0)"
    using other by (simp add: payout_totals_eq [OF wf pos fresh])
  have z: "is_integer 0" by (simp add: is_integer_def)
  show ?thesis
    unfolding got cost_def [symmetric]
    using s cost pool i z by (auto simp: lotto_outcome_def Let_def cost_def [symmetric] net)
qed

end
