(* ===== verification/PageNet.thy ===== *)
theory PageNet
  imports KeyedNet CommercePages LottoPage
begin

text \<open>
  The gift and the lotto page on the wire of theory KeyedNet: their calls are the service's own, and their
  operations are among those whose keys the server remembers. So each operation of a page is carried out once
  for each answered press of its button, whatever was lost in between.
\<close>

section \<open>Gifts\<close>

definition gift_wire :: "(ledger \<Rightarrow> ledger) \<Rightarrow> (net, answer) commerce_calls" where
  "gift_wire fill = \<lparr>cc_commerce = (\<lambda>a k n. net_call fill (c_commerce (nt_client n) a k) n), cc_draw = net_draw,
     cc_refresh = net_get fill ''/me''\<rparr>"

definition commerce_op :: "commerce_action \<Rightarrow> posting_op" where
  "commerce_op a = (''/commerce/commands'', Command a)"

lemma gift_wire_posts: "cc_commerce (gift_wire fill) a = net_post fill (commerce_op a)"
  by (simp add: fun_eq_iff gift_wire_def net_post_def c_commerce_def commerce_op_def)

lemma commerce_op_suits: "net_suits (commerce_op a)" "inj commerce_op"
  by (simp_all add: net_suits_def plain_path_def commerce_op_def is_screen_def starts_with_def inj_def)

lemma me_calm: "calm (net_good uid) (net_done uid) (net_seen uid) net_room (net_get fill ''/me'')"
  by (rule net_get_calm) (code_simp, simp add: starts_with_def)

lemma gifts_counted:
  assumes "gift_runs net_room (gift_wire fill) n0 tr p n" and "net_good uid n0"
  shows "\<exists>new. net_done uid n = net_done uid n0 @ new
    \<and> (\<forall>a. count_list (map snd new) (commerce_op a) = answers tr a + pending_done (net_done uid n) (kp_keys p) a)"
proof -
  have "page_runs net_room net_draw (\<lambda>a. net_post fill (commerce_op a)) (net_get fill ''/me'') n0 tr p n"
    using assms(1) unfolding gift_runs_def gift_wire_posts by (simp add: gift_wire_def)
  from posts.page_runs_counted [OF this assms(2) me_calm commerce_op_suits(2)] commerce_op_suits(1) show ?thesis by blast
qed

section \<open>Draws and tickets\<close>

definition lotto_wire :: "(ledger \<Rightarrow> ledger) \<Rightarrow> (net, answer) lotto_calls" where
  "lotto_wire fill = \<lparr>tc_create = (\<lambda>t k n. net_call fill (c_create_lotto (nt_client n) t k) n),
     tc_buy = (\<lambda>i count k n. net_call fill (c_buy_tickets (nt_client n) i count k) n), tc_draw = net_draw,
     tc_refresh = net_get fill ''/me''\<rparr>"

definition lotto_posting :: "lotto_op \<Rightarrow> posting_op" where
  "lotto_posting x = (case x of Create_op t \<Rightarrow> (''/lottos'', LottoTerms t)
     | Tickets_op i count \<Rightarrow> (''/lottos/'' @ show_nat i @ ''/tickets'', Fields [(''count'', JNum count)]))"

lemma lotto_wire_posts: "lotto_call (lotto_wire fill) x = net_post fill (lotto_posting x)"
  by (cases x) (simp_all add: fun_eq_iff lotto_call_def lotto_wire_def net_post_def c_create_lotto_def c_buy_tickets_def lotto_posting_def)

lemma lotto_posting_inj: "inj lotto_posting"
proof (rule injI)
  fix x y assume "lotto_posting x = lotto_posting y"
  then show "x = y" by (cases x; cases y) (auto simp: lotto_posting_def show_nat_inject)
qed

lemma after_first_digits:
  "list_all is_digit w \<Longrightarrow> \<not> is_digit c \<Longrightarrow> after_first (c # p) (w @ s) = after_first (c # p) s"
  by (induction w) auto

lemma after_slash_digits: "after_first (CHR ''/'' # CHR ''a'' # p) (CHR ''/'' # show_nat i @ s) = after_first (CHR ''/'' # CHR ''a'' # p) s"
proof -
  have d: "list_all is_digit (show_nat i)" "show_nat i \<noteq> []" using show_nat_digits [of i] by (simp_all add: list_all_iff)
  have n: "\<not> is_digit (CHR ''/'')" "\<not> is_digit (CHR ''a'')" by code_simp+
  obtain x xs where x: "show_nat i = x # xs" using d(2) by (cases "show_nat i") auto
  then have "x \<noteq> CHR ''a''" using d(1) n(2) by auto
  then show ?thesis using after_first_digits [OF d(1) n(1)] x by simp
qed

lemma tickets_path:
  "plain_path (''/lottos/'' @ show_nat i @ ''/tickets'')" "\<not> is_screen (''/lottos/'' @ show_nat i @ ''/tickets'')"
proof -
  have q: "\<not> is_digit (CHR ''?'')" "\<not> is_digit (CHR ''/'')" by code_simp+
  have d: "list_all is_digit (show_nat i)" using show_nat_digits [of i] by (simp add: list_all_iff)
  show "plain_path (''/lottos/'' @ show_nat i @ ''/tickets'')"
    using after_slash_digits [of "''pi/v1''" i "''/tickets''"] after_first_digits [OF d q(1), of "[]" "''/tickets''"]
    by (simp add: plain_path_def starts_with_def)
  have "CHR ''/'' \<notin> set (show_nat i)" using show_nat_digits [of i] q(2) by (auto simp: list_all_iff)
  then have "split_char (CHR ''/'') (show_nat i @ CHR ''/'' # ''tickets'') = show_nat i # split_char (CHR ''/'') ''tickets''"
    by (rule split_char_append)
  then show "\<not> is_screen (''/lottos/'' @ show_nat i @ ''/tickets'')" by (simp add: is_screen_def)
qed

lemma lotto_posting_suits: "net_suits (lotto_posting x)"
  using tickets_path by (cases x) (simp_all add: net_suits_def lotto_posting_def plain_path_def is_screen_def starts_with_def)

definition lotto_runs :: "('w \<Rightarrow> nat) \<Rightarrow> ('w, 'r) lotto_calls \<Rightarrow> 'w \<Rightarrow> (lotto_op \<times> bool) list \<Rightarrow> lotto_page \<Rightarrow> 'w \<Rightarrow> bool" where
  "lotto_runs room x w0 tr p w \<longleftrightarrow> page_runs room (tc_draw x) (lotto_call x) (tc_refresh x) w0 tr p w"

lemma lotto_run_runs:
  assumes "lotto_runs room x w0 tr p w" and "0 < room w" and "lotto_run x i p w = (q, w')"
  shows "\<exists>tr'. lotto_runs room x w0 (tr @ tr') q w'"
proof (cases "kp_busy p")
  case True
  then show ?thesis using assms by (intro exI [of _ "[]"]) (simp add: lotto_run_def)
next
  case False
  have "lotto_runs room x w0 (tr @ [(i, map_of (kp_keys q) i = None)]) q w'"
    unfolding lotto_runs_def
  proof (rule page_runs.press)
    show "keyed_run (tc_draw x) (lotto_call x i) (tc_refresh x) i kp_reload (kp_say (toast_ok ''Lotto updated.'')) id p w = (q, w')"
      using assms(3) False by (simp add: lotto_run_def)
  qed (use assms in \<open>auto simp: lotto_runs_def\<close>)
  then show ?thesis by blast
qed

lemma lotto_edit: "lotto_runs room x w0 tr p w \<Longrightarrow> kp_keys q = kp_keys p \<Longrightarrow> lotto_runs room x w0 tr q w"
  unfolding lotto_runs_def by (rule page_runs.edit)

lemma lotto_press_runs:
  assumes r: "lotto_runs room x w0 tr p w" "0 < room w"
    and "press_tickets x typed sure l p w = (q, w') \<or> press_create instant printed t0 m x p w = (q, w')"
  shows "\<exists>tr'. lotto_runs room x w0 (tr @ tr') q w'"
proof -
  from assms(3) consider (edited) "kp_keys q = kp_keys p" "w' = w" | (ran) i p1 where "kp_keys p1 = kp_keys p" "lotto_run x i p1 w = (q, w')"
  proof
    assume "press_tickets x typed sure l p w = (q, w')"
    then show ?thesis using that by (auto simp: press_tickets_def split: option.splits if_splits)
  next
    assume a: "press_create instant printed t0 m x p w = (q, w')"
    show ?thesis
    proof (cases "check_lotto instant printed t0 (my_decimals m) (tp_draft p)")
      case (Pair terms problems)
      with a that(1) that(2) [of "p\<lparr>tp_problems := problems\<rparr>"] show ?thesis
        by (auto simp: press_create_def Let_def split: option.splits if_splits)
    qed
  qed
  then show ?thesis
  proof cases
    case edited
    then show ?thesis using lotto_edit [OF r(1)] by (intro exI [of _ "[]"]) simp
  next
    case ran
    show ?thesis by (rule lotto_run_runs [OF lotto_edit [OF r(1) ran(1)] r(2) ran(2)])
  qed
qed

lemma tickets_counted:
  assumes "lotto_runs net_room (lotto_wire fill) n0 tr p n" and "net_good uid n0"
  shows "\<exists>new. net_done uid n = net_done uid n0 @ new
    \<and> (\<forall>x. count_list (map snd new) (lotto_posting x) = answers tr x + pending_done (net_done uid n) (kp_keys p) x)"
proof -
  have "page_runs net_room net_draw (\<lambda>x. net_post fill (lotto_posting x)) (net_get fill ''/me'') n0 tr p n"
    using assms(1) unfolding lotto_runs_def lotto_wire_posts by (simp add: lotto_wire_def)
  from posts.page_runs_counted [OF this assms(2) me_calm lotto_posting_inj] lotto_posting_suits show ?thesis by blast
qed

end
