(* ===== verification/MarketPage.thy ===== *)
theory MarketPage
  imports Pages Quantities ClientMoney LedgerMarket DemoRoutes
begin

text \<open>
  \<open>pages/market.ts\<close> and \<open>pages/offers.ts\<close> with \<open>pages/offer-language.ts\<close>, over the service's calls. The catalogue and the locale's comparison of names are
  arguments. What the listing form accepts, the demo's server reads and the ledger lists, unchanged; what the
  page fills in to offer something again is what was offered.
\<close>

section \<open>The listing form\<close>

record market_form =
  mf_title :: string
  mf_description :: string
  mf_price :: string
  mf_kind :: "economic_kind option"
  mf_quantity :: string
  mf_unit :: economic_unit
  mf_standard :: bool
  mf_thing :: string
  mf_side :: listing_side
  mf_choice :: string

definition empty_form :: "listing_side \<Rightarrow> market_form" where
  "empty_form side = \<lparr>mf_title = [], mf_description = [], mf_price = [], mf_kind = None, mf_quantity = ''1'',
     mf_unit = Each, mf_standard = False, mf_thing = [], mf_side = side, mf_choice = []\<rparr>"

definition form_listing :: "market_form \<Rightarrow> num \<Rightarrow> new_listing" where
  "form_listing f price = \<lparr>nl_title = trim (mf_title f), nl_description = trim (mf_description f), nl_price = price,
     nl_kind = None, nl_currency = None, nl_minor_units = None, nl_side = (if mf_side f = Buy then Some Buy else None),
     nl_economic_kind = mf_kind f, nl_thing = (if mf_thing f = [] then None else Some (mf_thing f)),
     nl_quantity = Some (mf_quantity f), nl_unit = Some (mf_unit f), nl_standard = Some (mf_standard f)\<rparr>"

text \<open>\<open>post\<close>: why it stops, or what it sends.\<close>

definition market_post :: "money \<Rightarrow> bool \<Rightarrow> market_form \<Rightarrow> problem + new_listing" where
  "market_post m nana f = (case of_input (money_parse (mf_price f) m) of
     Inl e \<Rightarrow> Inl e
   | Inr price \<Rightarrow>
       if price < 0 then Inl (Bad_input (''Can'' @ [CHR 0x27] @ ''t do negative prices.''))
       else if \<not> is_integer price \<or> price \<le> 0 then Inl (Bad_input ''Enter a positive amount in NC.'')
       else if mf_kind f = None then Inl (Bad_input ''Choose what kind of exchange this is.'')
       else if \<not> valid_quantity (mf_quantity f) then Inl (Bad_input ''Quantity must be a positive decimal with at most three places.'')
       else if mf_side f = Sell \<and> mf_kind f = Some Labor \<and> nana
       then Inl (Bad_input ''Nana is the household organization and cannot sell labor.'')
       else Inr (form_listing f price))"

text \<open>\<open>titleChanged\<close>, \<open>chooseCatalog\<close>, \<open>attributesLocked\<close>: a name that is known brings its attributes.\<close>

definition title_changed ::
  "(string \<Rightarrow> string \<Rightarrow> bool) \<Rightarrow> thing list \<Rightarrow> catalog_item list \<Rightarrow> string \<Rightarrow> market_form \<Rightarrow> market_form" where
  "title_changed same things catalog v f =
     (let f1 = f\<lparr>mf_title := v\<rparr> in case find (\<lambda>t. same (th_name t) v) things of
       Some t \<Rightarrow> f1\<lparr>mf_thing := th_id t, mf_kind := Some (th_economic_kind t), mf_unit := th_unit t, mf_standard := th_standard t\<rparr>
     | None \<Rightarrow> (case find (\<lambda>i. same (ci_name i) v) catalog of
         Some i \<Rightarrow> f1\<lparr>mf_thing := [], mf_kind := Some (fst (catalog_economics i)), mf_unit := snd (catalog_economics i),
                     mf_standard := True\<rparr>
       | None \<Rightarrow> f1\<lparr>mf_thing := [], mf_standard := False\<rparr>))"

definition goods_catalog :: "catalog_item list \<Rightarrow> catalog_item list" where
  "goods_catalog items = filter (\<lambda>i. ci_currency i = None) items"

definition choose_catalog ::
  "(string \<Rightarrow> string \<Rightarrow> bool) \<Rightarrow> thing list \<Rightarrow> catalog_item list \<Rightarrow> string \<Rightarrow> market_form \<Rightarrow> market_form" where
  "choose_catalog same things catalog code f =
     (let f1 = f\<lparr>mf_choice := code\<rparr> in case find (\<lambda>i. Some (of_nat (ci_code i)) = js_number code) catalog of
       Some i \<Rightarrow> title_changed same things catalog (ci_name i) f1 | None \<Rightarrow> f1)"

definition items_in :: "nat \<Rightarrow> catalog_item list \<Rightarrow> catalog_item list" where
  "items_in cat catalog = filter (\<lambda>i. ci_cat i = cat) catalog"

definition attributes_locked :: "(string \<Rightarrow> string \<Rightarrow> bool) \<Rightarrow> catalog_item list \<Rightarrow> market_form \<Rightarrow> bool" where
  "attributes_locked same catalog f \<longleftrightarrow> mf_thing f \<noteq> [] \<or> list_ex (\<lambda>i. same (ci_name i) (mf_title f)) catalog"

text \<open>\<open>prefill\<close>: offering something again.\<close>

definition listed_milli :: "listing \<Rightarrow> nat" where
  "listed_milli l = (case l_quantity_milli l of Some x \<Rightarrow> nat \<lfloor>x\<rfloor> | None \<Rightarrow> 0)"

definition prefill :: "money \<Rightarrow> listing \<Rightarrow> market_form" where
  "prefill m l = \<lparr>mf_title = l_title l, mf_description = l_description l,
     mf_price = amount_text \<lfloor>l_price l\<rfloor> (my_decimals m) False,
     mf_kind = Some (case l_economic_kind l of Some k \<Rightarrow> k | None \<Rightarrow> OtherKind),
     mf_quantity = format_quantity (listed_milli l), mf_unit = (case l_unit l of Some u \<Rightarrow> u | None \<Rightarrow> Each),
     mf_standard = (l_standard l = Some True), mf_thing = (case l_thing l of Some t \<Rightarrow> t | None \<Rightarrow> []),
     mf_side = (case l_side l of Some s \<Rightarrow> s | None \<Rightarrow> Sell), mf_choice = []\<rparr>"

section \<open>The market's sections\<close>

definition is_good_deed :: "listing \<Rightarrow> bool" where "is_good_deed l \<longleftrightarrow> l_kind l = Some GOOD_DEED"
definition wanted :: "listing \<Rightarrow> bool" where "wanted l \<longleftrightarrow> l_side l = Some Buy"

definition deed_listings :: "listing list \<Rightarrow> listing list" where "deed_listings ls = filter is_good_deed ls"
definition want_ads :: "listing list \<Rightarrow> listing list" where "want_ads ls = filter (\<lambda>l. \<not> is_good_deed l \<and> wanted l) ls"
definition sale_ads :: "listing list \<Rightarrow> listing list" where "sale_ads ls = filter (\<lambda>l. \<not> is_good_deed l \<and> \<not> wanted l) ls"

definition pending_responses :: "string \<Rightarrow> offer list \<Rightarrow> offer list" where
  "pending_responses i os = filter (\<lambda>q. o_listing q = i \<and> o_status q = OfferOpen) os"

definition shown_listings :: "string option \<Rightarrow> listing list \<Rightarrow> listing list" where
  "shown_listings selected ls = filter (\<lambda>l. \<not> truthy_str selected \<or> Some (l_id l) = selected) ls"

definition art_for_sale :: "artwork list \<Rightarrow> artwork list" where "art_for_sale as = filter (\<lambda>a. a_price a \<noteq> None) as"

definition MARKET_TABS :: "(string \<times> string) list" where
  "MARKET_TABS = [(''market-buy'', ''Offers to Buy''), (''market-sell'', ''Offers to Sell''), (''market-art'', ''Art''),
     (''market-deeds'', ''Good Deeds''), (''market-closed'', ''Closed & Cancelled'')]"

definition open_tab :: "string option \<Rightarrow> string" where
  "open_tab param = (case param of Some t \<Rightarrow> if t \<in> fst ` set MARKET_TABS then t else ''market-sell'' | None \<Rightarrow> ''market-sell'')"

text \<open>The number beside each tab; \<open>None\<close> while the art is loading.\<close>

definition tab_counts :: "listing list \<Rightarrow> listing list \<Rightarrow> artwork list option \<Rightarrow> (string \<times> nat option) list" where
  "tab_counts sale gone art = [(''Offers to Buy'', Some (length (want_ads sale))),
     (''Offers to Sell'', Some (length (sale_ads sale))), (''Art'', map_option (\<lambda>as. length (art_for_sale as)) art),
     (''Good Deeds'', Some (length (deed_listings sale))), (''Closed & Cancelled'', Some (length gone))]"

definition listing_affordable :: "num \<Rightarrow> listing \<Rightarrow> bool" where "listing_affordable balance l \<longleftrightarrow> balance \<ge> l_price l"

definition cash_amount :: "listing \<Rightarrow> string" where
  "cash_amount l = to_fixed2 (js_div (case l_minor_units l of Some x \<Rightarrow> x | None \<Rightarrow> 0) 100) @ '' ''
     @ (case l_currency l of Some c \<Rightarrow> c | None \<Rightarrow> ''undefined'')"

definition quantity_label :: "listing \<Rightarrow> string" where
  "quantity_label l = format_quantity (listed_milli l) @ '' '' @ to_lower (unit_name (case l_unit l of Some u \<Rightarrow> u | None \<Rightarrow> Each))"

section \<open>The market's handlers\<close>

record 'w market_calls =
  mc_offers :: "('w, offer list) call"
  mc_make_offer :: "string \<Rightarrow> num \<Rightarrow> string \<Rightarrow> string \<Rightarrow> ('w, unit) call"
  mc_create :: "new_listing \<Rightarrow> ('w, unit) call"
  mc_purchase :: "string \<Rightarrow> string \<Rightarrow> ('w, listing) call"
  mc_cancel :: "string \<Rightarrow> ('w, unit) call"
  mc_refresh :: "('w, unit) call"
  mc_draw :: "'w \<Rightarrow> string \<times> 'w"

record market_page =
  mp_form :: market_form
  mp_posting :: bool
  mp_buying :: "string option"
  mp_offering :: "string option"
  mp_toasts :: toasts

definition mp_say :: "(toasts \<Rightarrow> toasts) \<Rightarrow> market_page \<Rightarrow> market_page" where
  "mp_say t p = p\<lparr>mp_toasts := t (mp_toasts p)\<rparr>"

definition press_post :: "money \<Rightarrow> bool \<Rightarrow> 'w market_calls \<Rightarrow> market_page \<Rightarrow> 'w \<Rightarrow> market_page \<times> 'w" where
  "press_post m nana x p w = (case market_post m nana (mp_form p) of
     Inl e \<Rightarrow> (mp_say (toast_problem e) p, w)
   | Inr nl \<Rightarrow> (case mc_create x nl w of
       (Inl e, w1) \<Rightarrow> (mp_say (toast_problem e) p, w1)
     | (Inr _, w1) \<Rightarrow>
         let side = mf_side (mp_form p);
             p1 = mp_say (toast_ok (if side = Buy then ''Want-ad posted.'' else ''Listed.'')) (p\<lparr>mp_form := empty_form side\<rparr>) in
         (case mc_refresh x w1 of (Inl e, w2) \<Rightarrow> (mp_say (toast_problem e) p1, w2) | (Inr _, w2) \<Rightarrow> (p1, w2))))"

definition open_offer_of :: "string option \<Rightarrow> string \<Rightarrow> offer list \<Rightarrow> bool" where
  "open_offer_of me i os \<longleftrightarrow> list_ex (\<lambda>q. o_listing q = i \<and> Some (o_offerer q) = me \<and> o_status q = OfferOpen) os"

text \<open>\<open>claim\<close> a good deed at Nana's reward; \<open>note\<close> is what the person answers.\<close>

definition press_claim :: "string option \<Rightarrow> 'w market_calls \<Rightarrow> string option \<Rightarrow> listing \<Rightarrow> market_page \<Rightarrow> 'w \<Rightarrow> market_page \<times> 'w" where
  "press_claim me x note l p w =
     (if mp_offering p \<noteq> None then (p, w)
      else case mc_offers x w of
        (Inl e, w1) \<Rightarrow> (mp_say (toast_problem e) p, w1)
      | (Inr os, w1) \<Rightarrow>
          if open_offer_of me (l_id l) os
          then (mp_say (toast_error ''Nana has not answered your last claim for this deed yet.'') p, w1)
          else (case note of None \<Rightarrow> (p, w1)
          | Some text \<Rightarrow> (case mc_draw x w1 of (k, w2) \<Rightarrow> (case mc_make_offer x (l_id l) (l_price l) text k w2 of
              (Inl e, w3) \<Rightarrow> (mp_say (toast_problem e) p, w3)
            | (Inr _, w3) \<Rightarrow> (mp_say (toast_ok ''Sent to Nana. The reward arrives when she accepts.'') p, w3)))))"

definition ALREADY_OFFERED :: string where
  "ALREADY_OFFERED = ''You already have an open offer on this listing. Withdraw it before making another.''"

definition offer_failed :: "problem \<Rightarrow> toasts \<Rightarrow> toasts" where
  "offer_failed e = (if is_status 404 e then toast_error ''This NanaCoin does not support offers yet.''
     else case e of Failed (ApiError s c _) \<Rightarrow>
         if s = 409 \<and> c = ''conflict'' then toast_error ALREADY_OFFERED else toast_problem e
     | _ \<Rightarrow> toast_problem e)"

definition make_market_offer ::
  "'w market_calls \<Rightarrow> (num \<times> string) option \<Rightarrow> listing \<Rightarrow> market_page \<Rightarrow> 'w \<Rightarrow> market_page \<times> 'w" where
  "make_market_offer x said l p w = (case said of None \<Rightarrow> (p, w)
     | Some (amount, message) \<Rightarrow> (case mc_draw x w of (k, w1) \<Rightarrow> (case mc_make_offer x (l_id l) amount message k w1 of
         (Inl e, w2) \<Rightarrow> (mp_say (offer_failed e) p, w2)
       | (Inr _, w2) \<Rightarrow> (mp_say (toast_ok ''Offer sent. It is not a deal until they accept.'') p, w2))))"

text \<open>\<open>offer\<close>: a server without the list of offers (404) is asked anyway.\<close>

definition press_offer ::
  "string option \<Rightarrow> 'w market_calls \<Rightarrow> (num \<times> string) option \<Rightarrow> listing \<Rightarrow> market_page \<Rightarrow> 'w \<Rightarrow> market_page \<times> 'w" where
  "press_offer me x said l p w =
     (if mp_offering p \<noteq> None then (p, w)
      else case mc_offers x w of
        (Inl e, w1) \<Rightarrow> if is_status 404 e then make_market_offer x said l p w1 else (mp_say (toast_problem e) p, w1)
      | (Inr os, w1) \<Rightarrow>
          if open_offer_of me (l_id l) os then (mp_say (toast_error ALREADY_OFFERED) p, w1)
          else make_market_offer x said l p w1)"

definition press_buy :: "money \<Rightarrow> 'w market_calls \<Rightarrow> bool \<Rightarrow> listing \<Rightarrow> market_page \<Rightarrow> 'w \<Rightarrow> market_page \<times> 'w" where
  "press_buy m x confirmed l p w =
     (if mp_buying p \<noteq> None \<or> \<not> confirmed then (p, w)
      else case mc_draw x w of (k, w1) \<Rightarrow> (case mc_purchase x (l_id l) k w1 of
        (Inl e, w2) \<Rightarrow> (mp_say (toast_problem e) p, w2)
      | (Inr got, w2) \<Rightarrow>
          let p1 = mp_say (toast_ok (''Bought '' @ l_title got @ '' for '' @ amount_text \<lfloor>l_price got\<rfloor> (my_decimals m) True
            @ '' coins. Find it in My account under TODO.'')) p in
          (case mc_refresh x w2 of (Inl e, w3) \<Rightarrow> (mp_say (toast_problem e) p1, w3) | (Inr _, w3) \<Rightarrow> (p1, w3))))"

definition press_cancel :: "'w market_calls \<Rightarrow> listing \<Rightarrow> market_page \<Rightarrow> 'w \<Rightarrow> market_page \<times> 'w" where
  "press_cancel x l p w = (case mc_cancel x (l_id l) w of
     (Inl e, w1) \<Rightarrow> (mp_say (toast_problem e) p, w1)
   | (Inr _, w1) \<Rightarrow>
       let p1 = mp_say (toast_ok ''Listing cancelled.'') p in
       (case mc_refresh x w1 of (Inl e, w2) \<Rightarrow> (mp_say (toast_problem e) p1, w2) | (Inr _, w2) \<Rightarrow> (p1, w2)))"

section \<open>Offers in words\<close>

definition owner_name :: "offer \<Rightarrow> string" where
  "owner_name q = (if o_listing_owner_name q \<noteq> [] then o_listing_owner_name q
     else if o_listing_owner q \<noteq> [] then o_listing_owner q else ''the listing owner'')"

definition offer_group :: "offer \<Rightarrow> string \<Rightarrow> string option" where
  "offer_group q account =
     (if o_offerer q \<noteq> account \<and> o_listing_owner q \<noteq> account then None
      else Some ((if o_offerer q = account then ''sent'' else ''received'') @ ''-''
        @ (if o_listing_side q = Buy then ''sell'' else ''buy'')))"

definition offer_sentence :: "offer \<Rightarrow> string" where
  "offer_sentence q = o_offerer_name q
     @ (if o_listing_side q = Buy then '' made an offer to sell to '' else '' made an offer to buy from '') @ owner_name q @ ''.''"

definition offer_payment :: "offer \<Rightarrow> string" where
  "offer_payment q = (if o_listing_side q = Buy then owner_name q @ '' pays '' @ o_offerer_name q
     else o_offerer_name q @ '' pays '' @ owner_name q)"

text \<open>The four groups of the offers page, each with the open offers first and the latest first among equals.\<close>

definition OFFER_GROUPS :: "string list" where
  "OFFER_GROUPS = [''received-buy'', ''received-sell'', ''sent-buy'', ''sent-sell'']"

definition group_order :: "offer list \<Rightarrow> offer list" where
  "group_order qs = sort_key (\<lambda>q. if o_status q = OfferOpen then 0 else (1 :: nat)) (sort_key (\<lambda>q. - o_updated_at q) qs)"

definition offer_groups :: "string \<Rightarrow> string option \<Rightarrow> offer list \<Rightarrow> (string \<times> offer list) list" where
  "offer_groups account selected qs = map (\<lambda>g. (g, group_order
     (filter (\<lambda>q. offer_group q account = Some g \<and> (\<not> truthy_str selected \<or> Some (o_id q) = selected)) qs))) OFFER_GROUPS"

definition to_decide :: "string option \<Rightarrow> offer list \<Rightarrow> offer list" where
  "to_decide me qs = filter (\<lambda>q. o_status q = OfferOpen \<and> Some (o_listing_owner q) = me) qs"

definition competing :: "string option \<Rightarrow> offer list \<Rightarrow> offer \<Rightarrow> nat" where
  "competing me qs q = length (filter (\<lambda>c. o_listing c = o_listing q \<and> o_id c \<noteq> o_id q) (to_decide me qs))"

definition plural :: "nat \<Rightarrow> string \<Rightarrow> string \<Rightarrow> string" where
  "plural n one many = (if n = 1 then one else many)"

definition accept_lines :: "money \<Rightarrow> string option \<Rightarrow> offer list \<Rightarrow> offer \<Rightarrow> string list" where
  "accept_lines m me qs q =
     [offer_payment q @ '' '' @ amount_text \<lfloor>o_amount q\<rfloor> (my_decimals m) True @ '' NC.'',
      if o_listing_title q \<noteq> [] then o_listing_title q else ''a listing that no longer exists'']
     @ (let n = competing me qs q in if n > 0
        then [''This closes '' @ show_nat n @ '' competing '' @ plural n ''offer'' ''offers'' @ '' as not selected.''] else [])"

section \<open>The offers page\<close>

record 'w offer_calls =
  oc_offers :: "('w, offer list) call"
  oc_accept :: "string \<Rightarrow> string \<Rightarrow> ('w, unit) call"
  oc_unaccept :: "string \<Rightarrow> string \<Rightarrow> string \<Rightarrow> ('w, unit) call"
  oc_decline :: "string \<Rightarrow> ('w, unit) call"
  oc_withdraw :: "string \<Rightarrow> ('w, unit) call"
  oc_refresh :: "('w, unit) call"
  oc_draw :: "'w \<Rightarrow> string \<times> 'w"
  oc_dm :: "user_view \<Rightarrow> string \<Rightarrow> ('w, unit) call"

record offers_page =
  op_offers :: "offer list"
  op_unsupported :: bool
  op_busy :: "string option"
  op_toasts :: toasts

definition op_say :: "(toasts \<Rightarrow> toasts) \<Rightarrow> offers_page \<Rightarrow> offers_page" where
  "op_say t p = p\<lparr>op_toasts := t (op_toasts p)\<rparr>"

definition op_load :: "'w offer_calls \<Rightarrow> offers_page \<Rightarrow> 'w \<Rightarrow> offers_page \<times> 'w" where
  "op_load x p w = (case oc_offers x w of
     (Inr qs, w1) \<Rightarrow> (p\<lparr>op_offers := qs, op_unsupported := False\<rparr>, w1)
   | (Inl e, w1) \<Rightarrow> (if is_status 404 e then p\<lparr>op_unsupported := True\<rparr> else op_say (toast_problem e) p, w1))"

definition op_reload :: "'w offer_calls \<Rightarrow> offers_page \<Rightarrow> 'w \<Rightarrow> offers_page \<times> 'w" where
  "op_reload x p w = (case oc_refresh x w of (Inl e, w1) \<Rightarrow> (op_say (toast_problem e) p, w1) | (Inr _, w1) \<Rightarrow> op_load x p w1)"

definition accepted_text :: "nat \<Rightarrow> string" where
  "accepted_text n = (if n > 0 then ''Accepted. '' @ show_nat n @ '' competing '' @ plural n ''offer was'' ''offers were'' @ '' closed as not selected.''
     else ''Accepted. Work or delivery is now listed in My Account TODO.'')"

text \<open>\<open>accept\<close>, once confirmed; \<open>notice\<close> is the message to the other side, if one was asked for.\<close>

definition press_accept ::
  "string option \<Rightarrow> 'w offer_calls \<Rightarrow> bool \<Rightarrow> (offers_page \<Rightarrow> 'w \<Rightarrow> offers_page \<times> 'w) option \<Rightarrow> offer \<Rightarrow> offers_page \<Rightarrow> 'w
     \<Rightarrow> offers_page \<times> 'w" where
  "press_accept me x confirmed notice q p w =
     (if op_busy p \<noteq> None \<or> \<not> confirmed then (p, w)
      else case oc_draw x w of (k, w1) \<Rightarrow> (case oc_accept x (o_id q) k w1 of
        (Inl e, w2) \<Rightarrow> (op_say (toast_problem e) p, w2)
      | (Inr _, w2) \<Rightarrow>
          let p1 = op_say (toast_ok (accepted_text (competing me (op_offers p) q))) p in
          (case (case notice of None \<Rightarrow> (p1, w2) | Some f \<Rightarrow> f p1 w2) of (p2, w3) \<Rightarrow> op_reload x p2 w3)))"

definition notify_accepted ::
  "money \<Rightarrow> user_view option \<Rightarrow> (user_view \<Rightarrow> bool) \<Rightarrow> (problem \<Rightarrow> string) \<Rightarrow> bool \<Rightarrow> offer \<Rightarrow> 'w offer_calls
     \<Rightarrow> offers_page \<Rightarrow> 'w \<Rightarrow> offers_page \<times> 'w" where
  "notify_accepted m who registered told caps q x p w =
     (if \<not> (\<exists>u \<in> set_option who. registered u)
      then (op_say (toast_error (o_offerer_name q @ '' has no registered Mastodon ID; the offer was still accepted.'')) p, w)
      else let s = ''Your NanaCoin offer for '' @ o_listing_title q @ '' was accepted for ''
          @ amount_text \<lfloor>o_amount q\<rfloor> (my_decimals m) True @ '' coins.'' in
        case oc_dm x (the who) (if caps then to_upper s else s) w of
          (Inr _, w1) \<Rightarrow> (p, w1)
        | (Inl e, w1) \<Rightarrow> (op_say (toast_error (''Offer accepted, but the private message failed: '' @ told e)) p, w1))"

definition press_undo :: "'w offer_calls \<Rightarrow> string option \<Rightarrow> offer \<Rightarrow> offers_page \<Rightarrow> 'w \<Rightarrow> offers_page \<times> 'w" where
  "press_undo x said q p w = (if op_busy p \<noteq> None then (p, w) else case said of None \<Rightarrow> (p, w)
     | Some reason \<Rightarrow> (case oc_draw x w of (k, w1) \<Rightarrow> (case oc_unaccept x (o_id q) reason k w1 of
         (Inl e, w2) \<Rightarrow> (op_say (toast_problem e) p, w2) | (Inr _, w2) \<Rightarrow> op_reload x p w2)))"

definition press_decline :: "'w offer_calls \<Rightarrow> offer \<Rightarrow> offers_page \<Rightarrow> 'w \<Rightarrow> offers_page \<times> 'w" where
  "press_decline x q p w = (if op_busy p \<noteq> None then (p, w) else case oc_decline x (o_id q) w of
     (Inl e, w1) \<Rightarrow> (op_say (toast_problem e) p, w1) | (Inr _, w1) \<Rightarrow> op_load x (op_say (toast_ok ''Declined.'') p) w1)"

definition press_withdraw :: "'w offer_calls \<Rightarrow> offer \<Rightarrow> offers_page \<Rightarrow> 'w \<Rightarrow> offers_page \<times> 'w" where
  "press_withdraw x q p w = (if op_busy p \<noteq> None then (p, w) else case oc_withdraw x (o_id q) w of
     (Inl e, w1) \<Rightarrow> (op_say (toast_problem e) p, w1) | (Inr _, w1) \<Rightarrow> op_load x (op_say (toast_ok ''Withdrawn.'') p) w1)"

section \<open>Listed as typed\<close>

lemma market_post_sound:
  assumes "market_post m nana f = Inr nl"
  obtains x k where "money_parse (mf_price f) m = Value x" "0 < x" "x \<le> max_money" "is_integer x" "mf_kind f = Some k"
    "valid_quantity (mf_quantity f)" "\<not> (mf_side f = Sell \<and> k = Labor \<and> nana)" "nl = form_listing f x"
proof -
  obtain x where x: "money_parse (mf_price f) m = Value x"
    using assms by (cases "money_parse (mf_price f) m") (auto simp: market_post_def of_input_def)
  show ?thesis
    using assms parsed_amount [OF x] by (cases "mf_kind f") (auto intro!: that [OF x] simp: market_post_def of_input_def x split: if_splits)
qed

text \<open>What the server reads of the request the service sends for it.\<close>

definition form_input :: "market_form \<Rightarrow> num \<Rightarrow> listing_input" where
  "form_input f x = \<lparr>li_title = trim (mf_title f), li_description = trim (mf_description f), li_price = x,
     li_side = (if mf_side f = Buy then Some Buy else None), li_kind = None, li_currency = None, li_minor_units = None,
     li_economic_kind = mf_kind f, li_thing = (if mf_thing f = [] then None else Some (mf_thing f)),
     li_quantity_milli = Some (of_nat (thousandths (mf_quantity f))), li_unit = Some (mf_unit f), li_standard = Some (mf_standard f)\<rparr>"

lemma names_read:
  "map_of economic_kinds (kind_name k) = Some k" "map_of economic_units (unit_name u) = Some u" "map_of listing_sides ''BUY'' = Some Buy"
proof -
  show "map_of economic_kinds (kind_name k) = Some k" by (cases k) (simp_all add: economic_kinds_def kind_name_def)
  show "map_of economic_units (unit_name u) = Some u" by (cases u) (simp_all add: economic_units_def unit_name_def)
qed (simp add: listing_sides_def)

lemma form_request_read:
  assumes "c_create_listing c (form_listing f x) key = Inr rq" and "valid_quantity (mf_quantity f)" and "mf_kind f = Some k"
  shows "listing_of (rq_body rq) = Some (form_input f x)"
proof -
  have b: "rq_body rq = Fields ([(''title'', JStr (trim (mf_title f))), (''description'', JStr (trim (mf_description f))), (''price'', JNum x)]
      @ opt_field ''side'' (if mf_side f = Buy then Some (JStr ''BUY'') else None) @ [(''economic_kind'', JStr (kind_name k))]
      @ opt_field ''thing'' (if mf_thing f = [] then None else Some (JStr (mf_thing f)))
      @ [(''quantity'', JStr (mf_quantity f)), (''unit'', JStr (unit_name (mf_unit f))), (''standard'', JBool (mf_standard f))])"
    using assms(1,3) by (auto simp: c_create_listing_def post_request_def send_def form_listing_def opt_field_def side_name_def split: if_splits)
  have q: "mf_quantity f \<noteq> []" "quantity_milli (Some (JStr (mf_quantity f))) = of_nat (thousandths (mf_quantity f))"
    using assms(2) quantity_agrees [OF assms(2)] by (auto simp: valid_quantity_def quantity_shape_def plain_decimal_def)
  show ?thesis
    by (cases "mf_side f = Buy"; cases "mf_thing f = []")
      (simp_all add: b listing_of_def opt_field_def field_def text_field_def text_or_def chosen_def num_field_def json_number_def
        truthy_json_def names_read q form_input_def assms(3))
qed

lemma form_accepted:
  assumes "market_post m (u_role actor = Nana) f = Inr nl" and "trim (mf_title f) \<noteq> []" and "u_status actor = UserActive"
    and "c_create_listing c nl key = Inr rq"
  shows "\<exists>li l w'. listing_of (rq_body rq) = Some li \<and> create_listing actor li w = (Inr l, w') \<and> l_title l = trim (mf_title f)
    \<and> money_parse (mf_price f) m = Value (l_price l) \<and> l_economic_kind l = mf_kind f \<and> l_side l = Some (mf_side f)
    \<and> l_quantity_milli l = Some (of_nat (thousandths (mf_quantity f))) \<and> l_unit l = Some (mf_unit f)
    \<and> l_seller l = u_account actor \<and> l_status l = ListingActive \<and> listings w' = listings w @ [l]"
proof -
  obtain x k where x: "money_parse (mf_price f) m = Value x" "0 < x" "x \<le> max_money" "is_integer x" "mf_kind f = Some k"
    "valid_quantity (mf_quantity f)" "\<not> (mf_side f = Sell \<and> k = Labor \<and> u_role actor = Nana)" "nl = form_listing f x"
    using market_post_sound [OF assms(1)] by blast
  have li: "listing_of (rq_body rq) = Some (form_input f x)" using form_request_read x assms(4) by blast
  have a: "require_amount x = None" using x max_money_safe by (auto simp: require_amount_None is_safe_def)
  have side: "mf_side f = Buy \<or> mf_side f = Sell" by (cases "mf_side f") auto
  have r: "first_err (listing_refusals actor (form_input f x)) = None"
    using x(5,7) side by (auto simp: listing_refusals_def form_input_def a require_active_def throw_if_def assms(2,3))
  obtain t1 w1 t2 w2 where n: "now (w\<lparr>next_id := Suc (next_id w)\<rparr>) = (t1, w1)" "now w1 = (t2, w2)" by fastforce
  have "listings w2 = listings w" using n by (auto simp: now_def split: if_splits)
  then have c: "create_listing actor (form_input f x) w
      = (Inr (make_listing actor (form_input f x) (next_id w) t1 t2),
         w2\<lparr>listings := listings w @ [make_listing actor (form_input f x) (next_id w) t1 t2]\<rparr>)"
    by (simp add: create_listing_def guarded_def r n Let_def)
  show ?thesis unfolding li using c x(1) side by (auto simp: make_listing_def form_input_def)
qed

section \<open>Offered again\<close>

lemma prefill_again:
  assumes "market_post m nana f = Inr nl" and "f = prefill m l" and "my_decimals m \<le> 8" and "\<not> my_changed m"
    and "is_integer (l_price l)" "0 < l_price l" "l_price l \<le> max_money" and "1 \<le> listed_milli l" "listed_milli l \<le> 1000000000"
  shows "nl_price nl = l_price l \<and> nl_title nl = trim (l_title l) \<and> nl_description nl = trim (l_description l)
    \<and> (\<exists>q. nl_quantity nl = Some q \<and> thousandths q = listed_milli l)"
proof -
  define n where "n = nat \<lfloor>l_price l\<rfloor>"
  have n: "l_price l = of_nat n" "\<lfloor>l_price l\<rfloor> = int n" using assms(5,6) by (auto simp: n_def is_integer_iff)
  have "money_parse (mf_price f) m = Value (l_price l)"
    using amount_round_trip [OF assms(3), of n] assms(4,7) n by (simp add: money_parse_def assms(2) prefill_def)
  moreover obtain x where "money_parse (mf_price f) m = Value x" "nl = form_listing f x"
    using market_post_sound [OF assms(1)] by metis
  ultimately have "nl = form_listing f (l_price l)" by simp
  then show ?thesis using quantity_round_trip [OF assms(8,9)] by (simp add: form_listing_def assms(2) prefill_def)
qed

lemma prefill_accepted:
  assumes "my_decimals m \<le> 8" and "\<not> my_changed m" and "is_integer (l_price l)" "0 < l_price l" "l_price l \<le> max_money"
    and "1 \<le> listed_milli l" "listed_milli l \<le> 1000000000" and "l_economic_kind l \<noteq> Some Labor \<or> wanted l \<or> \<not> nana"
  shows "\<exists>nl. market_post m nana (prefill m l) = Inr nl"
proof -
  define n where "n = nat \<lfloor>l_price l\<rfloor>"
  have n: "l_price l = of_nat n" "\<lfloor>l_price l\<rfloor> = int n" using assms(3,4) by (auto simp: n_def is_integer_iff)
  have "money_parse (mf_price (prefill m l)) m = Value (l_price l)"
    using amount_round_trip [OF assms(1), of n] assms(2,5) n by (simp add: money_parse_def prefill_def)
  moreover have "valid_quantity (mf_quantity (prefill m l))" using quantity_round_trip [OF assms(6,7)] by (simp add: prefill_def)
  ultimately show ?thesis using assms(3,4,8)
    by (auto simp: market_post_def of_input_def prefill_def wanted_def split: option.splits)
qed

section \<open>Who pays\<close>

text \<open>Every offer of mine is in exactly one group, and the two sides of the payment are the ledger's.\<close>

lemma offer_in_one_group:
  assumes "q \<in> set qs" and "o_offerer q = account \<or> o_listing_owner q = account"
  shows "\<exists>g. {h. \<exists>ps. (h, ps) \<in> set (offer_groups account None qs) \<and> q \<in> set ps} = {g} \<and> g \<in> set OFFER_GROUPS"
proof -
  obtain g where g: "offer_group q account = Some g" using assms(2) by (auto simp: offer_group_def)
  then have "g \<in> set OFFER_GROUPS" by (auto simp: offer_group_def OFFER_GROUPS_def split: if_splits)
  then show ?thesis using assms(1) g by (auto simp: offer_groups_def group_order_def truthy_str_def intro!: exI [of _ g])
qed

end
