(* ===== verification/Seed.thy ===== *)
theory Seed
  imports DemoRoutes ChartSeries
begin

text \<open>
  \<open>demo/seed.ts\<close>: the script that fills the demo's ledger on the first request, statement by statement: a
  year of a household, a market, offers, rates, a reform to four decimals, art, good deeds, draws and
  loans. A script returns what it computed or throws, with the ledger it leaves; \<open>None\<close> while a
  lottery is still drawing (\<open>rnd\<close> feeds its random numbers). \<open>zone\<close> is the browser's offset from UTC.
  The right single quote of one title is written as the character 146.
\<close>

section \<open>Scripts\<close>

type_synonym 'a script = "ledger \<Rightarrow> ((exn + 'a) \<times> ledger) option"

definition done_with :: "'a \<Rightarrow> 'a script" where "done_with a w = Some (Inr a, w)"

definition act :: "(ledger, 'a) act \<Rightarrow> 'a script" where "act m w = Some (m w)"

definition step :: "(ledger \<Rightarrow> ledger) \<Rightarrow> unit script" where "step f w = Some (Inr (), f w)"

definition peek :: "(ledger \<Rightarrow> 'a) \<Rightarrow> 'a script" where "peek f w = Some (Inr (f w), w)"

text \<open>A value the source asserts to be there; without it, its first use is a TypeError.\<close>

definition present :: "(ledger \<Rightarrow> 'a option) \<Rightarrow> 'a script" where
  "present f w = (case f w of None \<Rightarrow> Some (Inl TypeError, w) | Some a \<Rightarrow> Some (Inr a, w))"

definition bind :: "'a script \<Rightarrow> ('a \<Rightarrow> 'b script) \<Rightarrow> 'b script" where
  "bind m k w = (case m w of None \<Rightarrow> None | Some (Inl e, w') \<Rightarrow> Some (Inl e, w') | Some (Inr a, w') \<Rightarrow> k a w')"

definition thn :: "'a script \<Rightarrow> 'b script \<Rightarrow> 'b script" where
  "thn m n = bind m (\<lambda>_. n)"

fun fold_script :: "('s \<Rightarrow> 'a \<Rightarrow> 's script) \<Rightarrow> 's \<Rightarrow> 'a list \<Rightarrow> 's script" where
  "fold_script f s [] = done_with s"
| "fold_script f s (x # xs) = bind (f s x) (\<lambda>s'. fold_script f s' xs)"

fun map_script :: "('a \<Rightarrow> 'b script) \<Rightarrow> 'a list \<Rightarrow> 'b list script" where
  "map_script f [] = done_with []"
| "map_script f (x # xs) = bind (f x) (\<lambda>y. bind (map_script f xs) (\<lambda>ys. done_with (y # ys)))"

fun all_of :: "unit script list \<Rightarrow> unit script" where
  "all_of [] = done_with ()"
| "all_of (m # ms) = thn m (all_of ms)"

text \<open>A call whose result the script does not use.\<close>

definition just :: "(ledger, 'a) act \<Rightarrow> unit script" where "just m = bind (act m) (\<lambda>_. done_with ())"

definition reading :: "int script" where
  "reading w = Some (Inr (wall w (ticks w)), w\<lparr>ticks := Suc (ticks w)\<rparr>)"

definition wait :: "int \<Rightarrow> unit script" where "wait s = step (advance s)"

section \<open>Words\<close>

definition eco :: "economic_kind \<Rightarrow> string option \<Rightarrow> economic_unit \<Rightarrow> economic option" where
  "eco k thing u = Some \<lparr>ec_kind = k, ec_thing = thing, ec_quantity = 1000, ec_unit = u\<rparr>"

definition thing_named :: "string \<Rightarrow> string option" where
  "thing_named d = Some (''thing-demo-'' @ map (\<lambda>c. if c = CHR '' '' then CHR ''-'' else c) (to_lower d))"

definition chores :: "string list" where
  "chores = [''Do the dishes'', ''Take out the trash'', ''Vacuum the stairs'', ''Walk the dog'', ''Fold the laundry'',
     ''Water the houseplants'', ''Clean the bathroom'']"

definition treats :: "string list" where
  "treats = [''Peanut butter cookies'', ''A bowl of ice cream'', ''One hour of Switch time'', ''Pick the movie'',
     ''Stay up half an hour late'']"

definition holds_text :: "string \<Rightarrow> string \<Rightarrow> bool" where
  "holds_text p s \<longleftrightarrow> after_first p s \<noteq> None"

definition cookie_thing :: "string option" where "cookie_thing = Some ''thing-demo-peanut-butter-cookies''"

record family =
  fa_nana :: user
  fa_dad :: user
  fa_mom :: user
  fa_sam :: user
  fa_ivy :: user

section \<open>Opening balances\<close>

definition seed_family :: "family script" where
  "seed_family = thn (step (\<lambda>w. w\<lparr>decimals := 0\<rparr>)) (thn (act (provision ''nana'' ''Nana'' ''demo'' ''The Demo House''))
     (bind (present (\<lambda>w. user_by_name w ''nana'')) (\<lambda>nana.
      bind (act (add_user ''dad'' ''Dad'' ''demo'' Member)) (\<lambda>dad.
      bind (act (add_user ''mom'' ''Mom'' ''demo'' Member)) (\<lambda>mom.
      bind (act (add_user ''sam'' ''Sam'' ''demo'' Member)) (\<lambda>sam.
      bind (act (add_user ''ivy'' ''Ivy'' ''demo'' Member)) (\<lambda>ivy.
      done_with \<lparr>fa_nana = nana, fa_dad = dad, fa_mom = mom, fa_sam = sam, fa_ivy = ivy\<rparr>)))))))"

definition seed_floats :: "family \<Rightarrow> unit script" where
  "seed_floats f = (let nana = fa_nana f in all_of
     [just (issue nana (u_account nana) 1000 ''Central-bank warchest''),
      just (issue_usd nana (u_account nana) 10000 ''Foreign currency reserve: $100''),
      just (issue nana (u_account (fa_dad f)) 500 ''Monthly household float''),
      just (issue nana (u_account (fa_mom f)) 500 ''Monthly household float''),
      just (issue_usd nana (u_account (fa_dad f)) 10000 ''Household cash float''),
      just (issue_usd nana (u_account (fa_mom f)) 10000 ''Household cash float''),
      wait DAY,
      just (issue nana (u_account (fa_sam f)) 25 ''Starting allowance''),
      just (issue nana (u_account (fa_ivy f)) 25 ''Starting allowance'')])"

section \<open>A year of a household\<close>

definition seed_month :: "family \<Rightarrow> nat \<Rightarrow> unit script" where
  "seed_month f month = all_of
     [just (transfer (fa_dad f) (u_account (fa_sam f)) (of_nat (12 + month mod 3)) ''Monthly yard work''
        (eco Labor (Some ''thing-demo-monthly-yard-work'') Task)),
      just (transfer (fa_sam f) (u_account (fa_mom f)) (of_nat (5 + month div 3)) ''Peanut butter cookies''
        (eco Good cookie_thing Batch)),
      wait (30 * DAY)]"

text \<open>\<open>chore\<close> and \<open>treat\<close> count on through all weeks.\<close>

definition seed_chore :: "nat \<Rightarrow> user \<Rightarrow> nat \<Rightarrow> user \<Rightarrow> nat script" where
  "seed_chore week parent chore child =
     (let description = chores ! (chore mod length chores); chore' = Suc chore in
      thn (just (transfer parent (u_account child) (of_nat (5 + (week + chore') mod 3 * 2)) description
             (eco Labor (thing_named description) Task)))
        (thn (wait (3600 * 6)) (done_with chore')))"

definition seed_chores :: "family \<Rightarrow> nat \<Rightarrow> nat \<Rightarrow> nat script" where
  "seed_chores f week chore = fold_script (\<lambda>n parent. thn (wait DAY)
     (fold_script (seed_chore week parent) n [fa_sam f, fa_ivy f])) chore [fa_dad f, fa_mom f]"

definition seed_treat :: "family \<Rightarrow> nat \<Rightarrow> nat \<Rightarrow> user \<Rightarrow> nat script" where
  "seed_treat f week treat child =
     (if (week + length (username child)) mod 3 = 0 then done_with treat
      else let recipient = (if week mod 2 = 0 then fa_dad f else fa_mom f);
               description = treats ! (treat mod length treats); treat' = Suc treat;
               cookies = holds_text ''cookies'' description;
               good = (cookies \<or> holds_text ''ice cream'' description) in
        thn (just (transfer child (u_account recipient) (of_nat (3 + treat' mod 4 * 3)) description
               (eco (if good then Good else OtherKind) (thing_named description) (if good \<and> cookies then Batch else Each))))
          (thn (wait DAY) (done_with treat')))"

definition seed_birthday :: "family \<Rightarrow> unit script" where
  "seed_birthday f = all_of
     [wait DAY,
      just (issue (fa_nana f) (u_account (fa_sam f)) 30 ''Birthday''),
      just (transfer (fa_dad f) (u_account (fa_sam f)) 12 ''Birthday gift'' (eco Gift None Each))]"

definition seed_week :: "family \<Rightarrow> nat \<times> nat \<Rightarrow> nat \<Rightarrow> (nat \<times> nat) script" where
  "seed_week f = (\<lambda>(chore, treat) week.
     bind (seed_chores f week chore) (\<lambda>chore'.
     thn (wait (2 * DAY))
     (bind (fold_script (seed_treat f week) treat [fa_sam f, fa_ivy f]) (\<lambda>treat'.
      thn (if week = 3 then seed_birthday f else done_with ())
        (thn (wait DAY) (done_with (chore', treat')))))))"

definition seed_mistake :: "family \<Rightarrow> unit script" where
  "seed_mistake f =
     bind (act (transfer (fa_dad f) (u_account (fa_ivy f)) 40 ''Meant to send 4'' (eco OtherKind None Each))) (\<lambda>wrong.
     thn (wait 600) (just (reverse_txn (fa_nana f) (t_id wrong) ''Wrong amount - meant 4, not 40'')))"

section \<open>The market\<close>

definition seed_item ::
  "string \<Rightarrow> string \<Rightarrow> num \<Rightarrow> listing_side option \<Rightarrow> economic_kind \<Rightarrow> string option \<Rightarrow> economic_unit \<Rightarrow> bool \<Rightarrow> listing_input" where
  "seed_item title description price side k thing u standard =
     \<lparr>li_title = title, li_description = description, li_price = price, li_side = side, li_kind = None,
      li_currency = None, li_minor_units = None, li_economic_kind = Some k, li_thing = thing,
      li_quantity_milli = Some 1000, li_unit = Some u, li_standard = Some standard\<rparr>"

definition cookies_for :: "num \<Rightarrow> listing_input" where
  "cookies_for price = seed_item ''Peanut butter cookies'' ''One batch'' price None Good cookie_thing Batch True"

definition sold_to :: "user \<Rightarrow> listing_input \<Rightarrow> user \<Rightarrow> unit script" where
  "sold_to seller item buyer = bind (act (create_listing seller item)) (\<lambda>l. just (purchase buyer (l_id l)))"

definition seed_listings :: "family \<Rightarrow> unit script" where
  "seed_listings f = all_of
     [wait DAY,
      just (create_listing (fa_sam f) (seed_item ''One hour of Switch time''
        ''Uninterrupted, and I will not ask for it back'' 12 None OtherKind None Hour True)),
      just (create_listing (fa_ivy f) (seed_item ''Old LEGO set'' ''All the pieces, mostly'' 30 None Good None Each True)),
      wait DAY,
      just (create_listing (fa_mom f) (seed_item ''Peanut butter cookies'' ''A whole batch, by Saturday'' 25 (Some Buy)
        Good cookie_thing Batch True)),
      just (create_listing (fa_nana f) (seed_item ''Wash the car'' ''Inside and out, before Sunday'' 40 (Some Buy)
        Labor None Task True)),
      wait DAY,
      sold_to (fa_mom f) (cookies_for 6) (fa_sam f),
      wait DAY,
      sold_to (fa_mom f) (cookies_for 9) (fa_ivy f),
      wait DAY,
      sold_to (fa_ivy f) (seed_item ''A friendship bracelet'' ''Made it myself'' 8 None Good None Each False) (fa_sam f)]"

definition offer_on :: "string \<Rightarrow> user \<Rightarrow> num \<Rightarrow> string \<Rightarrow> unit script" where
  "offer_on word u price message =
     bind (present (\<lambda>w. find (\<lambda>l. holds_text word (l_title l)) (all_listings (Some ListingActive) w)))
       (\<lambda>l. just (make_offer u (l_id l) price message))"

definition seed_offers :: "family \<Rightarrow> unit script" where
  "seed_offers f = all_of
     [wait DAY,
      offer_on ''cookies'' (fa_sam f) 20 ''I can do it Saturday morning'',
      offer_on ''Switch'' (fa_ivy f) 9 ''Would you take 9?'',
      bind (act (post_quote (fa_sam f) Ask 25 4)) (\<lambda>q. just (take_quote (fa_dad f) (q_id q))),
      just (post_quote (fa_dad f) Bid 20 10),
      just (post_quote (fa_sam f) Ask 30 8)]"

definition seed_this_week :: "int \<Rightarrow> family \<Rightarrow> unit script" where
  "seed_this_week zone f = bind reading (\<lambda>t. all_of
     [step (advance_to (max (bucket_start zone t Week) (t - 3600))),
      just (transfer (fa_dad f) (u_account (fa_sam f)) 11 ''Tidy the pantry''
        (eco Labor (Some ''thing-demo-tidy-the-pantry'') Task)),
      just (transfer (fa_mom f) (u_account (fa_ivy f)) 13 ''Organize the bookshelf''
        (eco Labor (Some ''thing-demo-organize-the-bookshelf'') Task))])"

section \<open>In four decimals\<close>

definition seed_reform :: "family \<Rightarrow> unit script" where
  "seed_reform f = bind (peek (\<lambda>w. \<lparr>ri_decimals = 4, ri_power = 0, ri_expected_epoch = money_epoch w,
      ri_expected_sequence = revision w, ri_preview = False\<rparr>)) (\<lambda>i. just (reform (fa_nana f) i))"

definition seed_refund :: "family \<Rightarrow> unit script" where
  "seed_refund f =
     bind (act (transfer (fa_dad f) (u_account (fa_mom f)) 120000 ''Art supplies: two sketchbooks''
       (Some \<lparr>ec_kind = Good, ec_thing = Some ''thing-demo-sketchbooks'', ec_quantity = 2000, ec_unit = Each\<rparr>))) (\<lambda>t.
     just (refund (fa_mom f) (t_id t) 40000 ''Partial refund: one damaged sketchbook''))"

definition order :: "user \<Rightarrow> commerce_action \<Rightarrow> nat script" where
  "order u a = act (command commerce_host u a)"

definition license :: string where "license = ''Personal profile display; artist retains copyright''"

definition DEMO_ART_BASE :: string where "DEMO_ART_BASE = ''https://matthewdeanmartin.github.io/nanacoin/art/''"

definition art_piece :: "string \<Rightarrow> string \<Rightarrow> string \<Rightarrow> commerce_action" where
  "art_piece title digest file = MintArt title license digest (DEMO_ART_BASE @ file)"

definition seed_art :: "family \<Rightarrow> unit script" where
  "seed_art f =
     bind (order (fa_ivy f) (CreateRequest ''Help me buy watercolor paints'' ''A gift toward my next art project'' (Some 300000) None)) (\<lambda>req.
     thn (order (fa_dad f) (Contribute req 50000 ''Watercolor fund: a gift from Dad''))
     (thn (order (fa_mom f) (Contribute req 30000 ''Watercolor fund: a gift from Mom''))
     (bind (order (fa_ivy f) (art_piece ''Moonlit garden'' ''934cdf9ed396faa1397f4b21e9df651633568aa034afae1765ce506f5895c861'' ''moonlit-garden.svg'')) (\<lambda>art.
      bind (order (fa_ivy f) (ListArt art (Some 60000))) (\<lambda>listed.
      thn (order (fa_sam f) (BuyArt art 5 listed 60000))
      (thn (order (fa_sam f) (EquipArt art True))
      (bind (order (fa_sam f) (art_piece (''Nana'' @ [char_of (146 :: nat)] @ ''s sunshine badge'')
          ''d4667bd7997ecf8e212e14b8085c1e5d02508e0cd143315ede10b241a80cfab0'' ''sunshine-badge.svg'')) (\<lambda>gift.
       thn (order (fa_sam f) (GiftArt gift 1))
       (thn (order (fa_nana f) (EquipArt gift True))
       (bind (order (fa_ivy f) (art_piece ''Little comet'' ''01281d7bd3ce27aec02078d2eb8f3afd4b7edee919c96aa3689b5d848e9fb6a7'' ''little-comet.svg'')) (\<lambda>comet.
        thn (order (fa_ivy f) (ListArt comet (Some 80000))) (done_with ()))))))))))))"

text \<open>The first eight of the good deeds of \<open>nana/good-deeds.ts\<close>, with their rewards in whole coins.\<close>

definition good_deeds :: "(string \<times> string \<times> num) list" where
  "good_deeds =
     [(''Help a sibling with homework'', ''Sit down together until it makes sense.'', 5),
      (''Call a grandparent just to chat'', ''No asking for anything. Just catching up.'', 3),
      (''Write a thank-you note'', ''On paper, to someone who helped you.'', 3),
      (''Carry groceries for a neighbor'', ''Ask first, then carry them all the way in.'', 4),
      (''Clean up a park or playground'', ''Bring a bag and gloves; fill the bag.'', 8),
      (''Donate outgrown clothes or toys'', ''Sort them, wash them, and drop them off.'', 6),
      (''Read a bedtime story to someone younger'', ''Voices for every character.'', 2),
      (''Make breakfast for the family'', ''And clean up after, which is the real deed.'', 6)]"

definition post_deed :: "family \<Rightarrow> num \<Rightarrow> string \<times> string \<times> num \<Rightarrow> listing script" where
  "post_deed f coin = (\<lambda>(title, description, reward). act (create_listing (fa_nana f)
     \<lparr>li_title = title, li_description = description, li_price = js_mul reward coin, li_side = Some Buy,
      li_kind = Some GOOD_DEED, li_currency = None, li_minor_units = None, li_economic_kind = None, li_thing = None,
      li_quantity_milli = None, li_unit = None, li_standard = None\<rparr>))"

definition deed_titled :: "string \<Rightarrow> listing list \<Rightarrow> listing script" where
  "deed_titled title deeds = present (\<lambda>_. find (\<lambda>d. l_title d = title) deeds)"

definition seed_deeds :: "family \<Rightarrow> unit script" where
  "seed_deeds f = bind (peek (\<lambda>w. js_pow10 (int (decimals w)))) (\<lambda>coin.
     bind (map_script (post_deed f coin) good_deeds) (\<lambda>deeds.
     bind (deed_titled ''Read a bedtime story to someone younger'' deeds) (\<lambda>story.
     bind (act (make_offer (fa_ivy f) (l_id story) (l_price story) ''Read Sam two chapters last night'')) (\<lambda>x.
     thn (just (accept_offer (fa_nana f) (o_id x)))
     (bind (deed_titled ''Help a sibling with homework'' deeds) (\<lambda>homework.
      thn (just (make_offer (fa_sam f) (l_id homework) (l_price homework) ''Helped Ivy with fractions''))
      (thn (just (post_quote (fa_nana f) Bid 20 100000))
      (thn (just (post_quote (fa_nana f) Ask 30 100000)) (step start_live)))))))))"

section \<open>Draws and loans\<close>

definition draw_title :: "lotto_kind \<Rightarrow> string" where
  "draw_title k = (case k of Simple \<Rightarrow> ''Winner takes the pool'' | Delayed \<Rightarrow> ''A prize with interest''
     | Savings \<Rightarrow> ''Save and win interest'')"

definition seed_draw :: "nat list \<Rightarrow> family \<Rightarrow> int \<Rightarrow> lotto_kind \<Rightarrow> unit script" where
  "seed_draw rnd f t k =
     (let past = t - 32 * DAY;
          terms = \<lparr>lt_kind = k, lt_title = ''Recent draw '' @ [char_of (183 :: nat)] @ '' '' @ draw_title k,
            lt_ticket_price = 10000, lt_closes_at = of_int (past + DAY), lt_rate_bps = (if k = Simple then 0 else 500)\<rparr> in
      bind (act (create_draw (fa_nana f) terms past)) (\<lambda>d.
      thn (all_of (map (\<lambda>u. just (lotto_buy lotto_host u (lo_id d) 1 past)) [fa_dad f, fa_mom f, fa_sam f, fa_ivy f]))
      (thn (lotto_tick lotto_host t rnd)
        (just (create_draw (fa_nana f) (terms\<lparr>lt_title := draw_title k, lt_closes_at := of_int (t + DAY)\<rparr>) t)))))"

definition loan_terms :: "user \<Rightarrow> num \<Rightarrow> num \<Rightarrow> int \<Rightarrow> int \<Rightarrow> num \<Rightarrow> bool \<Rightarrow> string \<Rightarrow> loan_offer_input" where
  "loan_terms u amount bps days every installment credit memo = \<lparr>in_borrower = u_account u, in_amount = amount,
     in_rate_bps = bps, in_rate_days = days, in_payment_days = every, in_installment = installment,
     in_credit = credit, in_memo = memo\<rparr>"

definition lend :: "user \<Rightarrow> loan_offer_input \<Rightarrow> int \<Rightarrow> loan script" where
  "lend u i t = act (loan_offer lending_host u i t False None)"

definition seed_loans :: "family \<Rightarrow> int \<Rightarrow> unit script" where
  "seed_loans f t =
     thn (lend (fa_nana f) (loan_terms (fa_sam f) 200000 500 7 7 50000 False ''A little help for your next project'') t)
     (thn (lend (fa_mom f) (loan_terms (fa_ivy f) 150000 0 365 7 30000 True ''An interest-free cushion at zero'') t)
     (bind (lend (fa_nana f) (loan_terms (fa_dad f) 100000 500 365 30 20000 False ''Tools for the garden'') (t - 7 * DAY)) (\<lambda>l.
      thn (just (loan_accept lending_host (fa_dad f) (ln_id l) (t - 7 * DAY)))
        (just (loan_repay lending_host (fa_dad f) (ln_id l) 20000 t)))))"

section \<open>The whole script\<close>

definition seed :: "int \<Rightarrow> (lotto_kind \<Rightarrow> nat list) \<Rightarrow> unit script" where
  "seed zone rnd = bind seed_family (\<lambda>f. all_of
     [seed_floats f,
      all_of (map (seed_month f) [0..<11]),
      thn (fold_script (seed_week f) (0, 0) [0..<8]) (done_with ()),
      seed_mistake f, seed_listings f, seed_offers f, seed_this_week zone f, seed_reform f, seed_refund f,
      seed_art f, seed_deeds f,
      bind reading (\<lambda>t. all_of
        [all_of (map (\<lambda>k. seed_draw (rnd k) f t k) [Simple, Delayed, Savings]),
         seed_loans f t])])"

text \<open>What \<open>serve\<close> needs of it: the ledger a seeding leaves.\<close>

definition seeding :: "int \<Rightarrow> (lotto_kind \<Rightarrow> nat list) \<Rightarrow> ledger \<Rightarrow> ledger" where
  "seeding zone rnd w = (case seed zone rnd w of None \<Rightarrow> w | Some (_, w') \<Rightarrow> w')"

end
