(* ===== verification/GoodDeeds.thy ===== *)
theory GoodDeeds
  imports MarketPage Seed
begin

text \<open>
  \<open>nana/good-deeds.ts\<close> and \<open>pages/good-deeds.ts\<close>: the deeds Nana rewards with new coins. Posting the starter
  set is a run of calls that stops at the first refusal; whatever it got through is not offered again, and from a
  ledger it gets through all of it. The apostrophe is a single code unit.
\<close>

section \<open>The starter set\<close>

type_synonym idea = "string \<times> string \<times> num"

definition GOOD_DEED_IDEAS :: "idea list" where
  "GOOD_DEED_IDEAS =
     [(''Help a sibling with homework'', ''Sit down together until it makes sense.'', 5),
      (''Call a grandparent just to chat'', ''No asking for anything. Just catching up.'', 3),
      (''Write a thank-you note'', ''On paper, to someone who helped you.'', 3),
      (''Carry groceries for a neighbor'', ''Ask first, then carry them all the way in.'', 4),
      (''Clean up a park or playground'', ''Bring a bag and gloves; fill the bag.'', 8),
      (''Donate outgrown clothes or toys'', ''Sort them, wash them, and drop them off.'', 6),
      (''Read a bedtime story to someone younger'', ''Voices for every character.'', 2),
      (''Make breakfast for the family'', ''And clean up after, which is the real deed.'', 6),
      (''Water a neighbor'' @ [char_of (146 :: nat)] @ ''s plants while they are away'', ''Every day they are gone.'', 5),
      (''Teach someone a skill you know'', ''Knots, card tricks, long division: anything.'', 5),
      (''Apologize and make it right'', ''Say what you did, then fix what you can.'', 4),
      (''Let someone else pick the movie'', ''And watch it without complaining.'', 2),
      (''Walk a neighbor'' @ [char_of (146 :: nat)] @ ''s dog'', ''A proper walk, with a bag.'', 4),
      (''Shovel or sweep a neighbor'' @ [char_of (146 :: nat)] @ ''s walk'', ''Snow, leaves, or whatever the season brings.'', 6),
      (''Bake something to share'', ''Lemon bars are traditional.'', 5),
      (''Visit someone who is lonely'', ''An hour of company counts.'', 6),
      (''Fix something broken instead of replacing it'', ''Glue, tape, thread or a screwdriver.'', 4),
      (''Help set up or clean up a family event'', ''Arrive early or stay late.'', 5),
      (''Pick up litter on a walk'', ''At least ten pieces.'', 2),
      (''Make a birthday card by hand'', ''Drawings strongly encouraged.'', 3),
      (''Share your snack'', ''An even split, and the bigger half goes to them.'', 1),
      (''Stand up for someone being teased'', ''Kindly and out loud.'', 8),
      (''Help cook a family dinner'', ''Chopping, stirring and tasting all count.'', 5),
      (''Tidy a shared space you did not mess up'', ''Without being asked.'', 3),
      (''Plant something'', ''A tree, a flower, or herbs on the windowsill.'', 4)]"

definition missing_ideas :: "listing list \<Rightarrow> idea list" where
  "missing_ideas active =
     (let posted = map (\<lambda>l. to_lower (l_title l)) (filter (\<lambda>l. is_good_deed l \<and> l_status l = ListingActive) active) in
      filter (\<lambda>i. to_lower (fst i) \<notin> set posted) GOOD_DEED_IDEAS)"

section \<open>The page\<close>

record 'w deed_calls =
  gd_create :: "new_listing \<Rightarrow> ('w, unit) call"
  gd_accept :: "string \<Rightarrow> string \<Rightarrow> ('w, unit) call"
  gd_decline :: "string \<Rightarrow> ('w, unit) call"
  gd_cancel :: "string \<Rightarrow> ('w, unit) call"
  gd_refresh :: "('w, unit) call"
  gd_draw :: "'w \<Rightarrow> string \<times> 'w"

record deeds_page =
  dp_title :: string
  dp_description :: string
  dp_reward :: string
  dp_busy :: bool
  dp_toasts :: toasts
  dp_reloads :: nat

definition dp_say :: "(toasts \<Rightarrow> toasts) \<Rightarrow> deeds_page \<Rightarrow> deeds_page" where
  "dp_say t p = p\<lparr>dp_toasts := t (dp_toasts p)\<rparr>"

definition deed_listing :: "string \<Rightarrow> string \<Rightarrow> num \<Rightarrow> new_listing" where
  "deed_listing title description price = \<lparr>nl_title = title, nl_description = description, nl_price = price,
     nl_kind = Some GOOD_DEED, nl_currency = None, nl_minor_units = None, nl_side = Some Buy, nl_economic_kind = None,
     nl_thing = None, nl_quantity = None, nl_unit = None, nl_standard = None\<rparr>"

definition post_idea :: "money \<Rightarrow> 'w deed_calls \<Rightarrow> idea \<Rightarrow> ('w, unit) call" where
  "post_idea m x i = gd_create x (deed_listing (fst i) (fst (snd i)) (js_mul (snd (snd i)) (js_pow10 (int (my_decimals m)))))"

text \<open>The claims waiting for an answer, and how often a deed was rewarded.\<close>

definition deed_claims :: "listing list \<Rightarrow> offer list \<Rightarrow> offer list" where
  "deed_claims ls os = (let deeds = set (map l_id (deed_listings ls)) in
     filter (\<lambda>q. o_status q = OfferOpen \<and> o_listing q \<in> deeds) os)"

definition times_rewarded :: "offer list \<Rightarrow> listing \<Rightarrow> nat" where
  "times_rewarded os d = length (filter (\<lambda>q. o_listing q = l_id d \<and> (o_status q = Accepted \<or> o_status q = Settled)) os)"

text \<open>\<open>addStarterSet\<close>: how many of the ideas went through, and what stopped it.\<close>

fun post_ideas :: "(idea \<Rightarrow> ('w, unit) call) \<Rightarrow> idea list \<Rightarrow> nat \<Rightarrow> 'w \<Rightarrow> problem option \<times> nat \<times> 'w" where
  "post_ideas post [] added w = (None, added, w)"
| "post_ideas post (i # is) added w = (case post i w of
     (Inl e, w1) \<Rightarrow> (Some e, added, w1)
   | (Inr _, w1) \<Rightarrow> post_ideas post is (Suc added) w1)"

definition press_starter :: "money \<Rightarrow> 'w deed_calls \<Rightarrow> bool \<Rightarrow> idea list \<Rightarrow> deeds_page \<Rightarrow> 'w \<Rightarrow> deeds_page \<times> 'w" where
  "press_starter m x confirmed ideas p w =
     (if ideas = [] \<or> dp_busy p \<or> \<not> confirmed then (p, w)
      else case post_ideas (post_idea m x) ideas 0 w of (e, added, w1) \<Rightarrow>
        let said = (case e of
            None \<Rightarrow> toast_ok (''Posted '' @ show_nat added @ '' good deeds.'')
          | Some e \<Rightarrow> if is_status 507 e
              then toast_error (''Posted '' @ show_nat added
                @ ''; the board has no more open-listing slots. Remove old listings or deeds to add more.'')
              else toast_problem e) in
        (dp_say said p, snd (gd_refresh x w1)))"

definition one_deed :: "money \<Rightarrow> deeds_page \<Rightarrow> problem + new_listing" where
  "one_deed m p = (let title = trim (dp_title p); description = trim (dp_description p) in
     if title = [] \<or> utf8_length title > 80 \<or> utf8_length description > 96
     then Inl (Bad_input ''Name the deed in at most 80 bytes, with details in at most 96.'')
     else case of_input (money_parse (dp_reward p) m) of
       Inl e \<Rightarrow> Inl e
     | Inr price \<Rightarrow> if price \<le> 0 then Inl (Bad_input ''The reward must be more than zero.'')
         else Inr (deed_listing title description price))"

definition press_one :: "money \<Rightarrow> 'w deed_calls \<Rightarrow> deeds_page \<Rightarrow> 'w \<Rightarrow> deeds_page \<times> 'w" where
  "press_one m x p w = (if dp_busy p then (p, w) else case one_deed m p of
     Inl e \<Rightarrow> (dp_say (toast_problem e) p, w)
   | Inr nl \<Rightarrow> (case gd_create x nl w of
       (Inl e, w1) \<Rightarrow> (dp_say (toast_problem e) p, w1)
     | (Inr _, w1) \<Rightarrow>
         let p1 = dp_say (toast_ok ''Good deed posted.'') (p\<lparr>dp_title := [], dp_description := [], dp_reward := []\<rparr>) in
         (case gd_refresh x w1 of (Inl e, w2) \<Rightarrow> (dp_say (toast_problem e) p1, w2) | (Inr _, w2) \<Rightarrow> (p1, w2))))"

definition deed_act :: "'w deed_calls \<Rightarrow> ('w, unit) call \<Rightarrow> string \<Rightarrow> deeds_page \<Rightarrow> 'w \<Rightarrow> deeds_page \<times> 'w" where
  "deed_act x action finished p w = (if dp_busy p then (p, w) else case action w of (r, w1) \<Rightarrow>
     (let p1 = dp_say (case r of Inl e \<Rightarrow> toast_problem e | Inr _ \<Rightarrow> toast_ok finished) p in
      (p1\<lparr>dp_reloads := Suc (dp_reloads p1)\<rparr>, snd (gd_refresh x w1))))"

definition press_grant :: "'w deed_calls \<Rightarrow> bool \<Rightarrow> offer \<Rightarrow> deeds_page \<Rightarrow> 'w \<Rightarrow> deeds_page \<times> 'w" where
  "press_grant x confirmed q p w = (if dp_busy p \<or> \<not> confirmed then (p, w)
     else deed_act x (\<lambda>w. case gd_draw x w of (k, w1) \<Rightarrow> gd_accept x (o_id q) k w1) ''Reward issued.'' p w)"

definition press_decline_claim :: "'w deed_calls \<Rightarrow> offer \<Rightarrow> deeds_page \<Rightarrow> 'w \<Rightarrow> deeds_page \<times> 'w" where
  "press_decline_claim x q = deed_act x (gd_decline x (o_id q)) ''Claim declined.''"

definition press_remove :: "'w deed_calls \<Rightarrow> bool \<Rightarrow> listing \<Rightarrow> deeds_page \<Rightarrow> 'w \<Rightarrow> deeds_page \<times> 'w" where
  "press_remove x confirmed d p w = (if confirmed then deed_act x (gd_cancel x (l_id d)) ''Good deed removed.'' p w else (p, w))"

section \<open>Never twice\<close>

lemma ideas_distinct: "distinct (map (\<lambda>i. to_lower (fst i)) GOOD_DEED_IDEAS)"
  by code_simp

text \<open>The demo's family starts with the first eight.\<close>

lemma first_deeds: "take 8 GOOD_DEED_IDEAS = good_deeds"
  by (simp add: GOOD_DEED_IDEAS_def good_deeds_def)

text \<open>A listing that is one of these, on the board.\<close>

definition posts_idea :: "idea \<Rightarrow> listing \<Rightarrow> bool" where
  "posts_idea i l \<longleftrightarrow> is_good_deed l \<and> l_status l = ListingActive \<and> l_title l = fst i"

lemma missing_filter:
  "missing_ideas active = filter (\<lambda>i. \<not> list_ex (\<lambda>l. is_good_deed l \<and> l_status l = ListingActive \<and> to_lower (l_title l) = to_lower (fst i)) active)
     GOOD_DEED_IDEAS"
  unfolding missing_ideas_def Let_def by (rule filter_cong) (auto simp: list_ex_iff image_iff)

lemma filter_others:
  assumes "distinct (map f xs)" and "filter P xs = ys @ zs"
  shows "filter (\<lambda>x. P x \<and> f x \<notin> f ` set ys) xs = zs"
proof -
  have d: "distinct (map f (ys @ zs))" using distinct_map_filter [OF assms(1), of P] assms(2) by metis
  have "filter (\<lambda>x. P x \<and> f x \<notin> f ` set ys) xs = filter (\<lambda>x. f x \<notin> f ` set ys) (ys @ zs)"
    by (simp flip: assms(2))
  also have "\<dots> = zs" using d by (auto simp: filter_empty_conv intro!: filter_True)
  finally show ?thesis .
qed

lemma missing_after:
  assumes "list_all2 posts_idea ys ls" and "missing_ideas active = ys @ zs"
  shows "missing_ideas (active @ ls) = zs"
proof -
  have t: "map l_title ls = map fst ys" and on: "\<forall>l \<in> set ls. is_good_deed l \<and> l_status l = ListingActive"
    using assms(1) by (induction rule: list_all2_induct) (auto simp: posts_idea_def)
  have "list_ex (\<lambda>l. is_good_deed l \<and> l_status l = ListingActive \<and> to_lower (l_title l) = s) ls
      \<longleftrightarrow> s \<in> (\<lambda>i. to_lower (fst i)) ` set ys" for s
  proof -
    have "list_ex (\<lambda>l. is_good_deed l \<and> l_status l = ListingActive \<and> to_lower (l_title l) = s) ls
        \<longleftrightarrow> s \<in> to_lower ` set (map l_title ls)" using on by (auto simp: list_ex_iff)
    then show ?thesis by (simp add: t image_image)
  qed
  then show ?thesis
    using filter_others [OF ideas_distinct, of _ ys zs] assms(2) unfolding missing_filter by simp
qed

section \<open>Over the ledger\<close>

text \<open>The service's call for it, as the demo's server carries it out for \<open>actor\<close>.\<close>

definition listed_by :: "client \<Rightarrow> string \<Rightarrow> user \<Rightarrow> new_listing \<Rightarrow> (ledger, unit) call" where
  "listed_by c key actor nl w = (case c_create_listing c nl key of
     Inl e \<Rightarrow> (Inl (Thrown e), w)
   | Inr rq \<Rightarrow> (case listing_of (rq_body rq) of
       None \<Rightarrow> (Inl (Thrown TypeError), w)
     | Some li \<Rightarrow> (case create_listing actor li w of (Inl e, w1) \<Rightarrow> (Inl (Thrown e), w1) | (Inr _, w1) \<Rightarrow> (Inr (), w1))))"

definition good_reward :: "nat \<Rightarrow> idea \<Rightarrow> bool" where
  "good_reward d i \<longleftrightarrow> (let price = js_mul (snd (snd i)) (js_pow10 (int d)) in is_safe price \<and> 0 < price \<and> price \<le> max_money)
     \<and> trim (fst i) = fst i \<and> fst i \<noteq> []"

lemma ideas_good: "d \<le> 8 \<Longrightarrow> list_all (good_reward d) GOOD_DEED_IDEAS"
proof -
  assume "d \<le> 8"
  then have "d \<in> set [0..<9]" by simp
  moreover have "list_all (\<lambda>d. list_all (good_reward d) GOOD_DEED_IDEAS) [0..<9]" by code_simp
  ultimately show ?thesis by (simp add: list_all_iff)
qed

lemma idea_listed:
  assumes "\<not> my_changed (cl_money c)" and "u_role actor = Nana" "u_status actor = UserActive"
    and "gd_create x = listed_by c key actor" and "good_reward (my_decimals m) i"
  shows "\<exists>l w1. post_idea m x i w = (Inr (), w1) \<and> posts_idea i l \<and> listings w1 = listings w @ [l]"
proof -
  let ?price = "js_mul (snd (snd i)) (js_pow10 (int (my_decimals m)))"
  obtain rq where rq: "c_create_listing c (deed_listing (fst i) (fst (snd i)) ?price) key = Inr rq"
    using assms(1) by (auto simp: c_create_listing_def post_request_def send_def)
  then have b: "rq_body rq = Fields [(''title'', JStr (fst i)), (''description'', JStr (fst (snd i))), (''price'', JNum ?price),
      (''kind'', JStr GOOD_DEED), (''side'', JStr ''BUY'')]"
    by (auto simp: c_create_listing_def post_request_def send_def deed_listing_def opt_field_def side_name_def split: if_splits)
  define li where "li = \<lparr>li_title = fst i, li_description = fst (snd i), li_price = ?price, li_side = Some Buy,
    li_kind = Some GOOD_DEED, li_currency = None, li_minor_units = None, li_economic_kind = None, li_thing = None,
    li_quantity_milli = None, li_unit = None, li_standard = Some False\<rparr>"
  have li: "listing_of (rq_body rq) = Some li"
    by (simp add: b listing_of_def field_def text_field_def text_or_def chosen_def num_field_def json_number_def truthy_json_def
        names_read li_def)
  have ok: "is_safe ?price" "0 < ?price" "?price \<le> max_money" "trim (fst i) = fst i" "fst i \<noteq> []"
    using assms(5) by (simp_all add: good_reward_def Let_def)
  then have a: "require_amount ?price = None" by (simp add: require_amount_None)
  have r: "first_err (listing_refusals actor li) = None"
    using ok(4,5) by (simp add: listing_refusals_def li_def a require_active_def throw_if_def assms(2,3) truthy_str_def truthy_num_def)
  obtain t1 w1 t2 w2 where n: "now (w\<lparr>next_id := Suc (next_id w)\<rparr>) = (t1, w1)" "now w1 = (t2, w2)" by fastforce
  have ls: "listings w2 = listings w" using n by (auto simp: now_def split: if_splits)
  have "create_listing actor li w = (Inr (make_listing actor li (next_id w) t1 t2),
      w2\<lparr>listings := listings w @ [make_listing actor li (next_id w) t1 t2]\<rparr>)"
    by (simp add: create_listing_def guarded_def r n Let_def ls)
  moreover have "posts_idea i (make_listing actor li (next_id w) t1 t2)"
    by (simp add: posts_idea_def make_listing_def li_def is_good_deed_def ok(4))
  ultimately show ?thesis by (auto simp: post_idea_def assms(4) listed_by_def rq li)
qed

lemma starter_posted:
  assumes "\<not> my_changed (cl_money c)" and "u_role actor = Nana" "u_status actor = UserActive"
    and "gd_create x = listed_by c key actor" and "list_all (good_reward (my_decimals m)) ideas"
  shows "\<exists>ls w1. post_ideas (post_idea m x) ideas added w = (None, added + length ideas, w1)
    \<and> list_all2 posts_idea ideas ls \<and> listings w1 = listings w @ ls"
  using assms(5)
proof (induction ideas arbitrary: added w)
  case (Cons i ideas)
  have g: "good_reward (my_decimals m) i" "list_all (good_reward (my_decimals m)) ideas" using Cons.prems by simp_all
  obtain l w1 where l: "post_idea m x i w = (Inr (), w1)" "posts_idea i l" "listings w1 = listings w @ [l]"
    using idea_listed [OF assms(1-4) g(1)] by blast
  obtain ls w2 where r: "post_ideas (post_idea m x) ideas (Suc added) w1 = (None, Suc added + length ideas, w2)"
    "list_all2 posts_idea ideas ls" "listings w2 = listings w1 @ ls"
    using Cons.IH [OF g(2)] by blast
  have "post_ideas (post_idea m x) (i # ideas) added w = (None, added + length (i # ideas), w2)" by (simp add: l r)
  moreover have "list_all2 posts_idea (i # ideas) (l # ls)" using l(2) r(2) by simp
  moreover have "listings w2 = listings w @ (l # ls)" by (simp add: l r)
  ultimately show ?case by blast
qed simp

text \<open>The button posts what is missing, after which nothing is.\<close>

lemma starter_complete:
  assumes "\<not> my_changed (cl_money c)" and "u_role actor = Nana" "u_status actor = UserActive"
    and "gd_create x = listed_by c key actor" and "my_decimals m \<le> 8"
  shows "\<exists>ls w1. post_ideas (post_idea m x) (missing_ideas (listings w)) 0 w = (None, length (missing_ideas (listings w)), w1)
    \<and> list_all2 posts_idea (missing_ideas (listings w)) ls \<and> listings w1 = listings w @ ls \<and> missing_ideas (listings w1) = []"
proof -
  have "set (missing_ideas (listings w)) \<subseteq> set GOOD_DEED_IDEAS" by (auto simp: missing_ideas_def Let_def)
  then have "list_all (good_reward (my_decimals m)) (missing_ideas (listings w))"
    using ideas_good [OF assms(5)] unfolding list_all_iff by blast
  then obtain ls w1 where r: "post_ideas (post_idea m x) (missing_ideas (listings w)) 0 w = (None, 0 + length (missing_ideas (listings w)), w1)"
    "list_all2 posts_idea (missing_ideas (listings w)) ls" "listings w1 = listings w @ ls"
    using starter_posted [OF assms(1-4)] by blast
  moreover have "missing_ideas (listings w @ ls) = []" by (rule missing_after [OF r(2)]) simp
  ultimately show ?thesis by (metis add_0)
qed

end
