(* ===== verification/LoansPage.thy ===== *)
theory LoansPage
  imports Keyed Lending ClientMoney
begin

text \<open>
  \<open>pages/loans.ts\<close> over the service's calls, and the loan half of \<open>pages/account-commitments.ts\<close>. The printed
  rates are numbers here. What the form lets through are terms the loan book accepts; an application is filled
  into the form with thousands separators, which the form itself then refuses.
\<close>

section \<open>Rates and lists\<close>

definition annual_loan_percent :: "num \<Rightarrow> int \<Rightarrow> num" where
  "annual_loan_percent rate_bps days = js_div (js_mul (js_div rate_bps 100) 365) (of_int days)"

definition average_rate :: "loan list \<Rightarrow> num option" where
  "average_rate ls = (if ls = [] then None
     else Some (js_div (js_sum (map (\<lambda>l. annual_loan_percent (ln_rate_bps l) (ln_rate_days l)) ls)) (of_nat (length ls))))"

definition average_offer_rate :: "loan list \<Rightarrow> string \<Rightarrow> (loan \<Rightarrow> string) \<Rightarrow> num option" where
  "average_offer_rate ls account direction = average_rate (filter (\<lambda>l. ln_status l = Offered \<and> direction l = account) ls)"

definition offered_rate :: "loan list \<Rightarrow> string \<Rightarrow> num option" where
  "offered_rate ls account = average_offer_rate ls account ln_lender"

definition desired_rate :: "loan list \<Rightarrow> string \<Rightarrow> num option" where
  "desired_rate ls account = average_rate (filter (\<lambda>l. ln_status l = Requested \<and> ln_borrower l = account) ls)"

definition period_text :: "int \<Rightarrow> string" where
  "period_text days = (if days = 1 then ''day'' else if days = 7 then ''week''
     else if days = 365 then ''year (365 days)'' else show_int days @ '' days'')"

datatype loan_tab = Apply_tab | Offer_tab | Wanted_tab

definition visible_loans :: "string option \<Rightarrow> string option \<Rightarrow> loan_tab \<Rightarrow> loan list \<Rightarrow> loan list" where
  "visible_loans me selected tab ls = filter (\<lambda>l.
     let party = Some (ln_borrower l) = me \<or> Some (ln_lender l) = me in
     if truthy_str selected then Some (show_nat (ln_id l)) = selected \<and> (ln_status l = Requested \<or> party)
     else if tab = Wanted_tab then ln_status l = Requested else party) ls"

section \<open>The form\<close>

datatype loan_op = Terms_op loan_offer_input | Accept_op nat | Close_op nat | Repay_op nat num

record loans_page = "loan_op keyed_page" +
  lp_tab :: loan_tab
  lp_responding :: "nat option"
  lp_borrower :: string
  lp_amount :: string
  lp_rate :: string
  lp_rate_days :: int
  lp_payment_days :: int
  lp_installment :: string
  lp_credit :: bool
  lp_memo :: string

definition new_loans_page :: loans_page where
  "new_loans_page = keyed_page.extend new_keyed_page (loans_page.fields Apply_tab None [] ''10'' ''5'' 365 7 ''1'' False [])"

definition select_tab :: "loan_tab \<Rightarrow> loans_page \<Rightarrow> loans_page" where
  "select_tab t p = (if kp_busy p then p
     else p\<lparr>lp_responding := (if t = Offer_tab then lp_responding p else None), lp_tab := t\<rparr>)"

text \<open>\<open>respond\<close> fills the form from an application; \<open>format\<close> groups the digits by thousands.\<close>

definition respond :: "money \<Rightarrow> loan \<Rightarrow> loans_page \<Rightarrow> loans_page" where
  "respond m l p = p\<lparr>lp_responding := Some (ln_id l), lp_borrower := ln_borrower l,
     lp_amount := amount_text \<lfloor>ln_amount l\<rfloor> (my_decimals m) True,
     lp_installment := amount_text \<lfloor>ln_installment l\<rfloor> (my_decimals m) True,
     lp_rate := hundredths_text \<lfloor>ln_rate_bps l\<rfloor>, lp_rate_days := ln_rate_days l,
     lp_payment_days := ln_payment_days l, lp_credit := ln_credit l, lp_memo := ln_memo l, lp_tab := Offer_tab\<rparr>"

definition CHECK_TERMS :: problem where
  "CHECK_TERMS = Thrown (PlainError ''Check the positive amount, principal installment, and nonnegative rate.'')"

definition offer_form :: "money \<Rightarrow> string \<Rightarrow> loans_page \<Rightarrow> problem + loan_offer_input" where
  "offer_form m me p = (case of_input (money_parse (lp_amount p) m) of Inl e \<Rightarrow> Inl e
   | Inr amount \<Rightarrow> (case of_input (parse_money (lp_rate p) 2) of Inl e \<Rightarrow> Inl e
   | Inr rate \<Rightarrow> (case of_input (money_parse (lp_installment p) m) of Inl e \<Rightarrow> Inl e
   | Inr installment \<Rightarrow>
       if amount \<le> 0 \<or> installment \<le> 0 \<or> installment > amount \<or> rate > 4294967295 then Inl CHECK_TERMS
       else Inr \<lparr>in_borrower = (if lp_tab p = Apply_tab then me else lp_borrower p), in_amount = amount, in_rate_bps = rate,
         in_rate_days = lp_rate_days p, in_payment_days = lp_payment_days p, in_installment = installment,
         in_credit = lp_credit p, in_memo = trim (lp_memo p)\<rparr>)))"

definition annual_rate_of_form :: "loans_page \<Rightarrow> num option" where
  "annual_rate_of_form p = (case parse_money (lp_rate p) 2 of
     Value r \<Rightarrow> Some (annual_loan_percent r (lp_rate_days p)) | _ \<Rightarrow> None)"

section \<open>The handlers\<close>

record ('w, 'r) loan_calls =
  lc_request :: "loan_offer_input \<Rightarrow> string \<Rightarrow> ('w, 'r) call"
  lc_respond :: "nat \<Rightarrow> loan_offer_input \<Rightarrow> string \<Rightarrow> ('w, 'r) call"
  lc_offer :: "loan_offer_input \<Rightarrow> string \<Rightarrow> ('w, 'r) call"
  lc_accept :: "nat \<Rightarrow> string \<Rightarrow> ('w, 'r) call"
  lc_close :: "nat \<Rightarrow> string \<Rightarrow> ('w, 'r) call"
  lc_repay :: "nat \<Rightarrow> num \<Rightarrow> string \<Rightarrow> ('w, 'r) call"
  lc_draw :: "'w \<Rightarrow> string \<times> 'w"
  lc_refresh :: "('w, unit) call"

definition loan_run :: "('w, 'r) loan_calls \<Rightarrow> loan_op \<Rightarrow> (string \<Rightarrow> ('w, 'r) call) \<Rightarrow> loans_page \<Rightarrow> 'w \<Rightarrow> loans_page \<times> 'w" where
  "loan_run x i action p w = (if kp_busy p then (p, w)
     else keyed_run (lc_draw x) action (lc_refresh x) i (\<lambda>p. kp_reload (p\<lparr>lp_responding := None\<rparr>))
       (kp_say (toast_ok ''Loan updated.'')) id p w)"

definition terms_call :: "('w, 'r) loan_calls \<Rightarrow> loans_page \<Rightarrow> loan_offer_input \<Rightarrow> string \<Rightarrow> ('w, 'r) call" where
  "terms_call x p i k = (if lp_tab p = Apply_tab then lc_request x i k
     else case lp_responding p of Some n \<Rightarrow> lc_respond x n i k | None \<Rightarrow> lc_offer x i k)"

definition press_terms :: "money \<Rightarrow> string \<Rightarrow> ('w, 'r) loan_calls \<Rightarrow> loans_page \<Rightarrow> 'w \<Rightarrow> loans_page \<times> 'w" where
  "press_terms m me x p w = (case offer_form m me p of
     Inl e \<Rightarrow> (kp_say (toast_problem e) p, w) | Inr i \<Rightarrow> loan_run x (Terms_op i) (terms_call x p i) p w)"

definition press_accept_loan :: "('w, 'r) loan_calls \<Rightarrow> bool \<Rightarrow> loan \<Rightarrow> loans_page \<Rightarrow> 'w \<Rightarrow> loans_page \<times> 'w" where
  "press_accept_loan x confirmed l p w = (if confirmed then loan_run x (Accept_op (ln_id l)) (lc_accept x (ln_id l)) p w else (p, w))"

definition press_close_loan :: "('w, 'r) loan_calls \<Rightarrow> loan \<Rightarrow> loans_page \<Rightarrow> 'w \<Rightarrow> loans_page \<times> 'w" where
  "press_close_loan x l p w = loan_run x (Close_op (ln_id l)) (lc_close x (ln_id l)) p w"

definition press_repay :: "money \<Rightarrow> ('w, 'r) loan_calls \<Rightarrow> string option \<Rightarrow> loan \<Rightarrow> loans_page \<Rightarrow> 'w \<Rightarrow> loans_page \<times> 'w" where
  "press_repay m x said l p w = (case said of None \<Rightarrow> (p, w)
     | Some s \<Rightarrow> (case of_input (money_parse s m) of
         Inl e \<Rightarrow> (kp_say (toast_problem e) p, w)
       | Inr amount \<Rightarrow> if amount \<le> 0 then (kp_say (toast_problem (Thrown (PlainError ''Enter a positive amount.''))) p, w)
           else loan_run x (Repay_op (ln_id l) amount) (lc_repay x (ln_id l) amount) p w))"

section \<open>On the account page\<close>

definition loan_groups :: "string option \<Rightarrow> loan list \<Rightarrow> (string \<times> int \<times> int \<times> loan list) list" where
  "loan_groups me ls = map (\<lambda>(title, own). (title, sum_list (map (\<lambda>l. \<lfloor>ln_principal l\<rfloor>) own),
       sum_list (map (\<lambda>l. \<lfloor>ln_interest l\<rfloor>) own), sort_key (\<lambda>l. - ln_updated_at l) own))
     [(''Loans'' @ [CHR 32, CHR 183, CHR 32] @ ''money lent'', filter (\<lambda>l. Some (ln_lender l) = me) ls),
      (''Debts'' @ [CHR 32, CHR 183, CHR 32] @ ''money borrowed'', filter (\<lambda>l. Some (ln_borrower l) = me) ls)]"

definition loan_count :: "string option \<Rightarrow> loan list \<Rightarrow> nat" where
  "loan_count me ls = length (filter (\<lambda>l. Some (ln_borrower l) = me \<or> Some (ln_lender l) = me) ls)"

section \<open>What the form lets through\<close>

lemma offer_form_sound:
  assumes "offer_form m me p = Inr i"
  obtains x r y where "money_parse (lp_amount p) m = Value x" "parse_money (lp_rate p) 2 = Value r"
    "money_parse (lp_installment p) m = Value y" "in_amount i = x" "in_rate_bps i = r" "in_installment i = y"
    "0 < x" "0 < y" "y \<le> x" "r \<le> 4294967295"
    "in_borrower i = (if lp_tab p = Apply_tab then me else lp_borrower p)" "in_rate_days i = lp_rate_days p"
    "in_payment_days i = lp_payment_days p" "in_credit i = lp_credit p" "in_memo i = trim (lp_memo p)"
proof -
  obtain x where x: "money_parse (lp_amount p) m = Value x"
    using assms by (cases "money_parse (lp_amount p) m") (auto simp: offer_form_def of_input_def)
  obtain r where r: "parse_money (lp_rate p) 2 = Value r"
    using assms by (cases "parse_money (lp_rate p) 2") (auto simp: offer_form_def of_input_def x)
  obtain y where y: "money_parse (lp_installment p) m = Value y"
    using assms by (cases "money_parse (lp_installment p) m") (auto simp: offer_form_def of_input_def x r)
  show ?thesis by (rule that [OF x r y]) (use assms in \<open>auto simp: offer_form_def of_input_def x r y split: if_splits\<close>)
qed

lemma parsed_rate:
  assumes "parse_money s (of_nat d) = Value x"
  shows "is_integer x" "0 \<le> x" "x \<le> max_money"
  using parsed_amount [of s "new_money\<lparr>my_decimals := d\<rparr>" x] assms by (simp_all add: money_parse_def new_money_def)

lemma offer_terms_ok:
  assumes f: "offer_form m (u_account actor) p = Inr i"
    and "lp_rate_days p \<in> {1, 7, 30, 365}" "lp_payment_days p \<in> {1, 7, 30}"
    and "utf8_length (trim (lp_memo p)) \<le> 96" "\<not> has_control (trim (lp_memo p))"
    and "lp_tab p \<noteq> Apply_tab \<longrightarrow> lp_borrower p \<noteq> u_account actor"
  shows "terms_ok actor i (lp_tab p = Apply_tab)"
proof -
  obtain x r y where s: "money_parse (lp_amount p) m = Value x" "parse_money (lp_rate p) 2 = Value r"
    "money_parse (lp_installment p) m = Value y" "in_amount i = x" "in_rate_bps i = r" "in_installment i = y"
    "0 < x" "0 < y" "y \<le> x" "r \<le> 4294967295"
    "in_borrower i = (if lp_tab p = Apply_tab then u_account actor else lp_borrower p)" "in_rate_days i = lp_rate_days p"
    "in_payment_days i = lp_payment_days p" "in_memo i = trim (lp_memo p)"
    using offer_form_sound [OF f] by metis
  have "is_safe x" "is_safe y" "x \<le> max_money"
    using parsed_amount [OF s(1)] parsed_amount [OF s(3)] s(7,8) max_money_safe by (auto simp: is_safe_def)
  moreover have "is_integer r" "0 \<le> r" using parsed_rate [of "lp_rate p" 2 r] s(2) by simp_all
  ultimately show ?thesis using s assms(2-) by (auto simp: terms_ok_def)
qed

section \<open>Answering an application\<close>

text \<open>A grouped text of four digits or more has a comma in it, and a comma is refused.\<close>

lemma group_rev_comma: "4 \<le> length s \<Longrightarrow> CHR '','' \<in> set (group_rev s)"
  by (induction s rule: group_rev.induct) auto

lemma group_short: "length s \<le> 3 \<Longrightarrow> group_digits s = s"
  by (cases "rev s" rule: group_rev.cases) (auto simp: group_digits_def)

lemma in_trim: "c \<in> set s \<Longrightarrow> \<not> is_space c \<Longrightarrow> c \<in> set (trim s)"
proof -
  have d: "c \<in> set (dropWhile is_space t)" if "c \<in> set t" "\<not> is_space c" for t
    using that by (induction t) auto
  show "c \<in> set s \<Longrightarrow> \<not> is_space c \<Longrightarrow> c \<in> set (trim s)" using d [of "rev (dropWhile is_space s)"] d [of s] by (simp add: trim_def)
qed

lemma comma_refused: "CHR '','' \<in> set s \<Longrightarrow> \<not> plain_decimal s"
proof
  assume c: "CHR '','' \<in> set s" and p: "plain_decimal s"
  have "\<not> is_digit (CHR '','')" by code_simp
  then have "CHR '','' \<notin> set (takeWhile is_digit s)" by (auto dest: set_takeWhileD)
  then have "CHR '','' \<in> set (dropWhile is_digit s)" using c by (metis Un_iff set_append takeWhile_dropWhile_id)
  then show False using p \<open>\<not> is_digit (CHR '','')\<close>
    by (cases "dropWhile is_digit s") (auto simp: plain_decimal_def Let_def list_all_iff)
qed

lemma show_nat_long: "1000 \<le> n \<Longrightarrow> 4 \<le> length (show_nat n)"
proof -
  assume "1000 \<le> n"
  then have "\<not> n < 10" "\<not> n div 10 < 10" "\<not> n div 10 div 10 < 10" by simp_all
  then have "length (show_nat n) = 3 + length (show_nat (n div 10 div 10 div 10))"
    using show_nat_step [of n] show_nat_step [of "n div 10"] show_nat_step [of "n div 10 div 10"]
    by (simp del: show_nat.simps)
  moreover have "0 < length (show_nat (n div 10 div 10 div 10))" by simp
  ultimately show ?thesis by linarith
qed

lemma show_nat_short: "n < 1000 \<Longrightarrow> length (show_nat n) \<le> 3"
  using show_nat_length [of n 2] by simp

text \<open>Below a thousand coins the form takes the application as it stands; from there on it refuses it.\<close>

lemma response_as_applied:
  assumes m: "my_decimals m \<le> 8" "\<not> my_changed m" and r: "ln_rate_bps l = of_nat r" "r \<le> 4294967295"
    and a: "ln_amount l = of_nat n" "0 < n" "n < 1000 * 10 ^ my_decimals m"
    and b: "ln_installment l = of_nat k" "0 < k" "k \<le> n"
  shows "offer_form m me (respond m l p) = Inr \<lparr>in_borrower = ln_borrower l, in_amount = ln_amount l,
    in_rate_bps = ln_rate_bps l, in_rate_days = ln_rate_days l, in_payment_days = ln_payment_days l,
    in_installment = ln_installment l, in_credit = ln_credit l, in_memo = trim (ln_memo l)\<rparr>"
proof -
  have plain: "money_parse (amount_text (int j) (my_decimals m) True) m = Value (of_nat j)" if "j < 1000 * 10 ^ my_decimals m" for j
  proof -
    have "j div 10 ^ my_decimals m < 1000" using that by (simp add: less_mult_imp_div_less)
    then have "amount_text (int j) (my_decimals m) True = amount_text (int j) (my_decimals m) False"
      using group_short [OF show_nat_short] by (simp add: amount_text_def Let_def)
    moreover have "j \<le> 1000 * 10 ^ 8" using that m(1) power_increasing [of "my_decimals m" 8 "10 :: nat"] by linarith
    then have "(of_nat j :: rat) \<le> of_nat (1000 * 10 ^ 8)" by (rule of_nat_mono)
    then have "(of_nat j :: rat) \<le> max_money" by (simp add: max_money_def)
    ultimately show ?thesis using amount_round_trip [OF m(1)] m(2) by (simp add: money_parse_def)
  qed
  have "(of_nat r :: rat) \<le> of_nat 4294967295" using r(2) by (rule of_nat_mono)
  then have rate: "(of_nat r :: rat) \<le> 4294967295" "(of_nat r :: rat) \<le> max_money" by (simp_all add: max_money_def)
  then have "parse_money (amount_text (int r) 2 False) 2 = Value (of_nat r)" using amount_round_trip [of 2 r] by simp
  then show ?thesis
    using plain [OF a(3)] plain [of k] a b r rate by (simp add: offer_form_def respond_def of_input_def hundredths_text_def)
qed

lemma response_refused:
  assumes "\<not> my_changed m" "my_decimals m \<le> 8" and "ln_amount l = of_nat n" "1000 * 10 ^ my_decimals m \<le> n"
  shows "\<exists>e. offer_form m me (respond m l p) = Inl (Bad_input e)"
proof -
  let ?s = "amount_text (int n) (my_decimals m) True"
  have "1000 \<le> n div 10 ^ my_decimals m" using assms(4) by (simp add: less_eq_div_iff_mult_less_eq)
  then have "CHR '','' \<in> set (group_digits (show_nat (n div 10 ^ my_decimals m)))"
    using group_rev_comma [of "rev (show_nat (n div 10 ^ my_decimals m))"] show_nat_long by (simp add: group_digits_def)
  then have c: "CHR '','' \<in> set ?s" by (auto simp: amount_text_def Let_def)
  have "CHR '','' \<in> set (trim ?s)" using c by (rule in_trim) (simp add: is_space_def)
  then have "\<not> plain_decimal (trim ?s)" by (rule comma_refused)
  moreover have "is_integer (of_nat (my_decimals m))" by (simp add: is_integer_def)
  ultimately have "\<exists>e. money_parse ?s m = InputError e" using assms(1,2) by (simp add: money_parse_def parse_money_def Let_def)
  then show ?thesis using assms(3) by (auto simp: offer_form_def respond_def of_input_def)
qed

end
