(* ===== verification/ForexPage.thy ===== *)
theory ForexPage
  imports Pages LedgerForex
begin

text \<open>
  \<open>pages/forex.ts\<close>: the exchange page over the service's calls. What the form accepts, the ledger accepts, and at
  the total the form showed before it was sent.
\<close>

section \<open>The book\<close>

definition quote_shown :: "string option \<Rightarrow> quote \<Rightarrow> bool" where
  "quote_shown selected q \<longleftrightarrow> \<not> truthy_str selected \<or> Some (q_id q) = selected"

definition live_asks :: "string option \<Rightarrow> quote list \<Rightarrow> quote list" where
  "live_asks selected qs = sort_key q_cents_per_coin (filter (\<lambda>q. q_live q \<and> q_side q = Ask \<and> quote_shown selected q) qs)"

definition live_bids :: "string option \<Rightarrow> quote list \<Rightarrow> quote list" where
  "live_bids selected qs = sort_key (\<lambda>q. - q_cents_per_coin q) (filter (\<lambda>q. q_live q \<and> q_side q = Bid \<and> quote_shown selected q) qs)"

definition settled_quotes :: "quote list \<Rightarrow> quote list" where
  "settled_quotes qs = filter (\<lambda>q. \<not> q_live q) qs"

definition quote_spread :: "string option \<Rightarrow> quote list \<Rightarrow> (num \<times> num) option" where
  "quote_spread selected qs = (case (live_asks selected qs, live_bids selected qs) of
     (a # _, b # _) \<Rightarrow> Some (q_cents_per_coin a, q_cents_per_coin b) | _ \<Rightarrow> None)"

section \<open>Cents as text\<close>

text \<open>Cents are whole numbers.\<close>

definition dollar_text :: "num \<Rightarrow> string" where
  "dollar_text n = (let a = nat \<lfloor>\<bar>n\<bar>\<rfloor> in
     (if n < 0 then ''-'' else []) @ ''$'' @ show_nat (a div 100) @ ''.'' @ pad_start 2 (CHR ''0'') (show_nat (a mod 100)))"

definition cents_text :: "num \<Rightarrow> string" where
  "cents_text n = (if n < 100 then show_int \<lfloor>n\<rfloor> @ ''c'' else dollar_text n)"

section \<open>The form\<close>

text \<open>\<open>fx_rate\<close> is what \<open>Number\<close> reads from the field: \<open>None\<close> for not a number, 0 for an empty one.\<close>

record forex_page =
  fx_quotes :: "quote list"
  fx_transactions :: "transaction_view list"
  fx_chart_error :: bool
  fx_unsupported :: bool
  fx_posting :: bool
  fx_busy :: "string option"
  fx_side :: quote_side
  fx_coins :: string
  fx_rate :: "num option"
  fx_toasts :: toasts

definition INEXACT :: string where
  "INEXACT = ''Choose an amount whose USD total is an exact, supported number of cents.''"

definition coins_text :: "money \<Rightarrow> num \<Rightarrow> string" where
  "coins_text m x = amount_text \<lfloor>x\<rfloor> (my_decimals m) True"

definition form_total :: "money \<Rightarrow> num \<Rightarrow> num \<Rightarrow> int" where
  "form_total m coins rate = \<lfloor>coins\<rfloor> * \<lfloor>rate\<rfloor>"

definition trade_words :: "money \<Rightarrow> quote_side \<Rightarrow> num \<Rightarrow> int \<Rightarrow> string" where
  "trade_words m side coins cents = (let d = dollar_text (of_int cents) in
     if side = Ask then ''You give '' @ coins_text m coins @ '' NC, you get '' @ d @ ''.''
     else ''You pay '' @ d @ '', you get '' @ coins_text m coins @ '' NC.'')"

definition preview :: "money \<Rightarrow> forex_page \<Rightarrow> string option" where
  "preview m p = (case money_parse (fx_coins p) m of
     Value coins \<Rightarrow>
       (case fx_rate p of None \<Rightarrow> None
       | Some rate \<Rightarrow>
           if \<not> is_integer coins \<or> coins \<le> 0 \<or> \<not> is_safe rate \<or> rate \<le> 0 then None
           else let product = form_total m coins rate; scale = 10 ^ my_decimals m in
             if big_mod product scale \<noteq> 0 \<or> big_div product scale > 1000000000000000 then Some INEXACT
             else Some (trade_words m (fx_side p) coins (big_div product scale)))
   | _ \<Rightarrow> None)"

text \<open>\<open>post\<close>: why it stops before the server, or what it sends.\<close>

definition quote_form :: "money \<Rightarrow> num \<Rightarrow> forex_page \<Rightarrow> problem + quote_side \<times> num \<times> num" where
  "quote_form m balance p = (case of_input (money_parse (fx_coins p) m) of
     Inl e \<Rightarrow> Inl e
   | Inr coins \<Rightarrow>
       if \<not> is_integer coins \<or> coins \<le> 0 then Inl (Bad_input ''Enter a positive amount in NC.'')
       else if (case fx_rate p of None \<Rightarrow> True | Some r \<Rightarrow> \<not> is_safe r \<or> r \<le> 0 \<or> r > 1000000000000000)
       then Inl (Bad_input ''Enter a rate in whole cents.'')
       else let rate = the (fx_rate p); product = form_total m coins rate; scale = 10 ^ my_decimals m in
         if big_mod product scale \<noteq> 0 \<or> big_div product scale \<le> 0 \<or> big_div product scale > 1000000000000000
         then Inl (Bad_input INEXACT)
         else if fx_side p = Ask \<and> coins > balance
         then Inl (Bad_input (''You only have '' @ coins_text m balance @ '' coins to sell.''))
         else Inr (fx_side p, rate, coins))"

section \<open>The handlers\<close>

record 'w forex_calls =
  xc_quotes :: "('w, quote list) call"
  xc_ledger :: "('w, transaction_view list) call"
  xc_post :: "quote_side \<Rightarrow> num \<Rightarrow> num \<Rightarrow> ('w, unit) call"
  xc_take :: "string \<Rightarrow> string \<Rightarrow> ('w, unit) call"
  xc_cancel :: "string \<Rightarrow> ('w, unit) call"
  xc_refresh :: "('w, unit) call"
  xc_draw :: "'w \<Rightarrow> string \<times> 'w"
  xc_dm :: "user_view \<Rightarrow> string \<Rightarrow> ('w, unit) call"

definition fx_say :: "(toasts \<Rightarrow> toasts) \<Rightarrow> forex_page \<Rightarrow> forex_page" where
  "fx_say t p = p\<lparr>fx_toasts := t (fx_toasts p)\<rparr>"

definition fx_load :: "'w forex_calls \<Rightarrow> forex_page \<Rightarrow> 'w \<Rightarrow> forex_page \<times> 'w" where
  "fx_load x p w = (case xc_quotes x w of
     (Inl e, w1) \<Rightarrow> (if is_status 404 e then p\<lparr>fx_unsupported := True\<rparr> else fx_say (toast_problem e) p, w1)
   | (Inr qs, w1) \<Rightarrow>
       let p1 = p\<lparr>fx_quotes := qs, fx_unsupported := False\<rparr> in
       (case xc_ledger x w1 of
         (Inr ts, w2) \<Rightarrow> (p1\<lparr>fx_transactions := ts, fx_chart_error := False\<rparr>, w2)
       | (Inl _, w2) \<Rightarrow> (p1\<lparr>fx_chart_error := True\<rparr>, w2)))"

definition fx_post :: "money \<Rightarrow> num \<Rightarrow> 'w forex_calls \<Rightarrow> forex_page \<Rightarrow> 'w \<Rightarrow> forex_page \<times> 'w" where
  "fx_post m balance x p w =
     (if fx_posting p then (p, w)
      else case quote_form m balance p of
        Inl e \<Rightarrow> (fx_say (toast_problem e) p, w)
      | Inr (side, rate, coins) \<Rightarrow> (case xc_post x side rate coins w of
          (Inl e, w1) \<Rightarrow> (fx_say (toast_problem e) p, w1)
        | (Inr _, w1) \<Rightarrow> fx_load x (fx_say (toast_ok ''Rate posted.'') (p\<lparr>fx_coins := [], fx_rate := Some 0\<rparr>)) w1))"

definition unit_word :: "quote \<Rightarrow> string" where
  "unit_word q = (if q_coins q = 1 then ''coin'' else ''coins'')"

text \<open>The lines of the question before a trade, in the direction this person is going.\<close>

definition take_lines :: "money \<Rightarrow> quote \<Rightarrow> string list" where
  "take_lines m q = (let n = coins_text m (q_coins q) @ '' '' @ unit_word q in
     if q_side q = Ask then [''You pay '' @ dollar_text (q_cents q), ''You get '' @ n, ''From '' @ q_maker_name q]
     else [''You give '' @ n, ''You get '' @ dollar_text (q_cents q), ''To '' @ q_maker_name q])"

definition trade_message :: "money \<Rightarrow> bool \<Rightarrow> quote \<Rightarrow> string" where
  "trade_message m caps q = (let s = ''Your NanaCoin exchange for '' @ coins_text m (q_coins q) @ '' '' @ unit_word q
     @ '' at '' @ cents_text (q_cents_per_coin q) @ '' each was accepted.'' in if caps then to_upper s else s)"

definition fx_notify ::
  "money \<Rightarrow> (string \<Rightarrow> user_view option) \<Rightarrow> (user_view \<Rightarrow> bool) \<Rightarrow> (problem \<Rightarrow> string) \<Rightarrow> bool \<Rightarrow> quote \<Rightarrow> 'w forex_calls
     \<Rightarrow> forex_page \<Rightarrow> 'w \<Rightarrow> forex_page \<times> 'w" where
  "fx_notify m maker registered told caps q x p w = (case maker (q_maker q) of
     Some u \<Rightarrow>
       if \<not> registered u
       then (fx_say (toast_error (q_maker_name q @ '' has no registered Mastodon ID; the exchange still completed.'')) p, w)
       else (case xc_dm x u (trade_message m caps q) w of
         (Inr _, w1) \<Rightarrow> (p, w1)
       | (Inl e, w1) \<Rightarrow> (fx_say (toast_error (''Exchange completed, but the private message failed: '' @ told e)) p, w1))
   | None \<Rightarrow> (fx_say (toast_error (q_maker_name q @ '' has no registered Mastodon ID; the exchange still completed.'')) p, w))"

text \<open>\<open>take\<close>, once the question is answered with yes; \<open>notice\<close> is the message to the maker, if one was asked for.\<close>

definition fx_take ::
  "bool \<Rightarrow> (forex_page \<Rightarrow> 'w \<Rightarrow> forex_page \<times> 'w) option \<Rightarrow> 'w forex_calls \<Rightarrow> quote \<Rightarrow> forex_page \<Rightarrow> 'w \<Rightarrow> forex_page \<times> 'w" where
  "fx_take confirmed notice x q p w =
     (if fx_busy p \<noteq> None \<or> \<not> confirmed then (p, w)
      else case xc_draw x w of (k, w0) \<Rightarrow> (case xc_take x (q_id q) k w0 of
        (Inl e, w1) \<Rightarrow> fx_load x (fx_say (toast_problem e) p) w1
      | (Inr _, w1) \<Rightarrow>
          let p1 = fx_say (toast_ok (if q_side q = Ask then ''Bought.'' else ''Sold.'')) p in
          (case (case notice of None \<Rightarrow> (p1, w1) | Some f \<Rightarrow> f p1 w1) of (p2, w2) \<Rightarrow>
            (case xc_refresh x w2 of
              (Inl e, w3) \<Rightarrow> fx_load x (fx_say (toast_problem e) p2) w3
            | (Inr _, w3) \<Rightarrow> fx_load x p2 w3))))"

definition fx_cancel :: "'w forex_calls \<Rightarrow> quote \<Rightarrow> forex_page \<Rightarrow> 'w \<Rightarrow> forex_page \<times> 'w" where
  "fx_cancel x q p w =
     (if fx_busy p \<noteq> None then (p, w)
      else case xc_cancel x (q_id q) w of
        (Inl e, w1) \<Rightarrow> (fx_say (toast_problem e) p, w1)
      | (Inr _, w1) \<Rightarrow> fx_load x (fx_say (toast_ok ''Withdrawn.'') p) w1)"

section \<open>What the form accepts, the ledger accepts\<close>

lemma quote_form_sound:
  assumes "quote_form m balance p = Inr (side, rate, coins)"
  shows "side = fx_side p" "is_integer coins" "0 < coins" "coins \<le> max_money" "is_safe rate" "0 < rate" "rate \<le> max_money"
    "big_mod (\<lfloor>coins\<rfloor> * \<lfloor>rate\<rfloor>) (10 ^ my_decimals m) = 0" "0 < big_div (\<lfloor>coins\<rfloor> * \<lfloor>rate\<rfloor>) (10 ^ my_decimals m)"
    "big_div (\<lfloor>coins\<rfloor> * \<lfloor>rate\<rfloor>) (10 ^ my_decimals m) \<le> 1000000000000000" "side = Ask \<Longrightarrow> coins \<le> balance"
    "preview m p = Some (trade_words m side coins (big_div (\<lfloor>coins\<rfloor> * \<lfloor>rate\<rfloor>) (10 ^ my_decimals m)))"
proof -
  obtain x where x: "money_parse (fx_coins p) m = Value x"
    using assms by (cases "money_parse (fx_coins p) m") (auto simp: quote_form_def of_input_def)
  note v = parsed_amount [OF x]
  from assms obtain r where r: "fx_rate p = Some r" by (cases "fx_rate p") (auto simp: quote_form_def of_input_def x split: if_splits)
  show "side = fx_side p" "is_integer coins" "0 < coins" "coins \<le> max_money" "is_safe rate" "0 < rate" "rate \<le> max_money"
    "big_mod (\<lfloor>coins\<rfloor> * \<lfloor>rate\<rfloor>) (10 ^ my_decimals m) = 0" "0 < big_div (\<lfloor>coins\<rfloor> * \<lfloor>rate\<rfloor>) (10 ^ my_decimals m)"
    "big_div (\<lfloor>coins\<rfloor> * \<lfloor>rate\<rfloor>) (10 ^ my_decimals m) \<le> 1000000000000000" "side = Ask \<Longrightarrow> coins \<le> balance"
    "preview m p = Some (trade_words m side coins (big_div (\<lfloor>coins\<rfloor> * \<lfloor>rate\<rfloor>) (10 ^ my_decimals m)))"
    using assms v
    by (auto simp: quote_form_def of_input_def x r Let_def form_total_def max_money_def preview_def split: if_splits)
qed

text \<open>The ledger's own reading of the same numbers.\<close>

lemma post_quote_accepts:
  assumes form: "quote_form m balance p = Inr (side, rate, coins)"
    and same: "my_decimals m = decimals w" and active: "u_status actor = UserActive"
  shows "\<exists>q w'. post_quote actor side rate coins w = (Inr q, w') \<and> q_side q = side \<and> q_coins q = coins
    \<and> q_cents q = of_int (big_div (\<lfloor>coins\<rfloor> * \<lfloor>rate\<rfloor>) (10 ^ my_decimals m))"
proof -
  note s = quote_form_sound [OF form]
  have ints: "is_integer rate" using s(5) by (simp add: is_safe_def)
  have amounts: "require_amount rate = None" "require_amount coins = None"
    using s max_money_safe by (auto simp: require_amount_None is_safe_def)
  have total: "quote_total rate coins = Inr (\<lfloor>coins\<rfloor> * \<lfloor>rate\<rfloor>)"
    using s(2) ints by (simp add: quote_total_def to_bigint_def mult.commute)
  have "\<not> quote_bad (\<lfloor>coins\<rfloor> * \<lfloor>rate\<rfloor>) (10 ^ decimals w)" using s(8-10) same by (auto simp: quote_bad_def)
  moreover have "of_bigint (big_div (\<lfloor>coins\<rfloor> * \<lfloor>rate\<rfloor>) (10 ^ decimals w)) = of_int (big_div (\<lfloor>coins\<rfloor> * \<lfloor>rate\<rfloor>) (10 ^ decimals w))"
    using s(9,10) same by (intro of_bigint_exact) simp
  ultimately show ?thesis
    using same by (simp add: post_quote_def guarded_def require_active_def active throw_if_def amounts total Let_def split: prod.splits)
qed

end
