(* ===== verification/FulfillmentPage.thy ===== *)
theory FulfillmentPage
  imports Pages LedgerRefund
begin

text \<open>
  \<open>pages/fulfillment.ts\<close>: what the page says of a delivery, which buttons it offers to whom, and what they do.
  The buttons that change the delivery are exactly the changes the ledger accepts from the person looking at it.
\<close>

section \<open>Words\<close>

definition CHANGED_MIND :: string where
  "CHANGED_MIND = ''I changed my mind. Please give my money back.''"

text \<open>The reason given with the latest dispute; \<open>None\<close> when no update is one.\<close>

definition last_dispute :: "fulfillment \<Rightarrow> string option" where
  "last_dispute f = map_option fu_reason (at_last (filter (\<lambda>u. fu_status u = Disputed) (f_updates f)))"

definition problem_of :: "fulfillment \<Rightarrow> string" where
  "problem_of f = (case last_dispute f of Some r \<Rightarrow> r | None \<Rightarrow> [])"

definition DOT :: string where "DOT = '' '' @ [CHR 0xB7] @ '' ''"

definition item_word :: "fulfillment_kind \<Rightarrow> string" where
  "item_word k = (case k of Work \<Rightarrow> ''Work'' | Cash \<Rightarrow> ''Cash'' | Goods \<Rightarrow> ''Goods'')"

definition fulfillment_label :: "fulfillment \<Rightarrow> string" where
  "fulfillment_label f =
     (let item = item_word (f_kind f); work = (f_kind f = Work) in
      if f_status f = FulfillmentReversed then ''Money given back''
      else if f_status f = Disputed \<and> last_dispute f = Some CHANGED_MIND
      then ''Buyer changed their mind'' @ DOT @ ''asking for the money back''
      else if f_status f = Disputed then ''Disputed'' @ DOT @ to_lower item @ (if work then '' not done'' else '' not delivered'')
      else if f_status f = Todo then ''TODO'' @ DOT @ to_lower item @ (if work then '' to do'' else '' to deliver'')
      else item @ (if work then '' done'' else '' delivered'') @ DOT @ ''claimed'')"

definition activity_text :: "fulfillment_status \<Rightarrow> string" where
  "activity_text s = (case s of Todo \<Rightarrow> ''Work or delivery recorded as outstanding'' | Done \<Rightarrow> ''Recorded as done or delivered''
     | Disputed \<Rightarrow> ''Reported a problem'' | FulfillmentReversed \<Rightarrow> ''Money given back'')"

section \<open>The buttons\<close>

datatype button = Act fulfillment_action string | Changed_mind | Reverse_payment | Give_back

definition kind_choice :: "fulfillment_kind \<Rightarrow> string \<Rightarrow> string \<Rightarrow> string \<Rightarrow> string" where
  "kind_choice k work cash goods = (case k of Work \<Rightarrow> work | Cash \<Rightarrow> cash | Goods \<Rightarrow> goods)"

definition fulfillment_buttons :: "bool \<Rightarrow> string option \<Rightarrow> fulfillment \<Rightarrow> button list" where
  "fulfillment_buttons nana me f =
     (let s = f_status f; seller = (me = Some (f_provider f)); buyer = (me = Some (f_recipient f)); k = f_kind f in
      (if s = Todo \<and> seller
       then [Act Complete (kind_choice k ''Mark work done'' ''Mark cash delivered'' ''Mark goods delivered'')] else [])
      @ (if s = Todo \<and> buyer then [Act Complete ''Record as done''] else [])
      @ (if s = Todo \<and> buyer then [Changed_mind] else [])
      @ (if s \<in> {Todo, Done} \<and> buyer
         then [Act Dispute (kind_choice k ''Work not done'' ''Cash not delivered'' ''Goods not delivered'')] else [])
      @ (if s = Disputed \<and> nana then [Reverse_payment] else [])
      @ (if s = Disputed \<and> buyer then [Act WithdrawDispute (''Withdraw dispute'' @ DOT @ ''mark done'')] else [])
      @ (if s \<in> {Todo, Disputed} \<and> seller then [Give_back] else []))"

definition offered :: "button list \<Rightarrow> fulfillment_action \<Rightarrow> bool" where
  "offered bs a \<longleftrightarrow> list_ex (\<lambda>b. case b of Act a' _ \<Rightarrow> a' = a | _ \<Rightarrow> False) bs"

text \<open>The sentence about writing to Nana, and the one for the seller under a dispute.\<close>

definition ask_nana :: "bool \<Rightarrow> bool \<Rightarrow> fulfillment \<Rightarrow> bool" where
  "ask_nana nana has_nana f \<longleftrightarrow> f_status f \<in> {Todo, Disputed} \<and> \<not> nana \<and> has_nana"

definition dispute_shown :: "fulfillment \<Rightarrow> bool" where
  "dispute_shown f \<longleftrightarrow> f_status f = Disputed \<and> problem_of f \<noteq> []"

section \<open>What they do\<close>

text \<open>The services used; \<open>fc_pending\<close> is the action under way with its retry key.\<close>

record 'w delivery_calls =
  dc_act :: "string \<Rightarrow> fulfillment_action \<Rightarrow> string \<Rightarrow> string \<Rightarrow> ('w, unit) call"
  dc_reverse :: "string \<Rightarrow> string \<Rightarrow> string \<Rightarrow> ('w, unit) call"
  dc_reload :: "('w, unit) call"
  dc_draw :: "'w \<Rightarrow> string \<times> 'w"

record fulfillment_control =
  fc_item :: "fulfillment option"
  fc_busy :: bool
  fc_pending :: "((string \<times> fulfillment_action \<times> string) \<times> string) option"
  fc_changed :: nat
  fc_toasts :: toasts

definition fc_say :: "(toasts \<Rightarrow> toasts) \<Rightarrow> fulfillment_control \<Rightarrow> fulfillment_control" where
  "fc_say t c = c\<lparr>fc_toasts := t (fc_toasts c)\<rparr>"

definition fc_emit :: "fulfillment_control \<Rightarrow> fulfillment_control" where
  "fc_emit c = c\<lparr>fc_changed := Suc (fc_changed c)\<rparr>"

definition bad_reason :: "string \<Rightarrow> bool" where
  "bad_reason r \<longleftrightarrow> r = [] \<or> utf8_length r > 96"

definition send_action ::
  "'w delivery_calls \<Rightarrow> fulfillment \<Rightarrow> fulfillment_action \<Rightarrow> string \<Rightarrow> fulfillment_control \<Rightarrow> 'w \<Rightarrow> fulfillment_control \<times> 'w" where
  "send_action d f action reason c w =
     (let what = (f_transaction f, action, reason);
          (k, w1) = (case fc_pending c of Some (what', k) \<Rightarrow> if what' = what then (k, w) else dc_draw d w | None \<Rightarrow> dc_draw d w);
          c1 = c\<lparr>fc_pending := Some (what, k)\<rparr> in
      case dc_act d (f_transaction f) action reason k w1 of
        (Inr _, w2) \<Rightarrow> (fc_emit (c1\<lparr>fc_pending := None\<rparr>), w2)
      | (Inl e, w2) \<Rightarrow> (fc_say (toast_problem e) c1, w2))"

text \<open>\<open>act\<close>: a dispute without a given reason asks for one; \<open>answer\<close> is what the person says then.\<close>

definition press_act ::
  "'w delivery_calls \<Rightarrow> string \<Rightarrow> fulfillment_action \<Rightarrow> string option \<Rightarrow> string option \<Rightarrow> fulfillment_control \<Rightarrow> 'w
     \<Rightarrow> fulfillment_control \<times> 'w" where
  "press_act d range_dash action given answer c w = (case fc_item c of None \<Rightarrow> (c, w)
   | Some f \<Rightarrow>
       if fc_busy c then (c, w)
       else if action = Dispute \<and> given = None
       then (case answer of None \<Rightarrow> (c, w)
         | Some text \<Rightarrow>
             if bad_reason (trim text) then (fc_say (toast_error (''Enter a reason of 1'' @ range_dash @ ''96 bytes.'')) c, w)
             else send_action d f action (trim text) c w)
       else send_action d f action (case given of Some r \<Rightarrow> r | None \<Rightarrow> []) c w)"

definition press_changed_mind ::
  "'w delivery_calls \<Rightarrow> string \<Rightarrow> bool \<Rightarrow> fulfillment_control \<Rightarrow> 'w \<Rightarrow> fulfillment_control \<times> 'w" where
  "press_changed_mind d range_dash confirmed c w =
     (if fc_item c = None \<or> fc_busy c \<or> \<not> confirmed then (c, w)
      else press_act d range_dash Dispute (Some CHANGED_MIND) None c w)"

text \<open>\<open>refund\<close> and \<open>reverse\<close>, each with a key of its own.\<close>

definition press_give_back ::
  "'w delivery_calls \<Rightarrow> string option \<Rightarrow> fulfillment_control \<Rightarrow> 'w \<Rightarrow> fulfillment_control \<times> 'w" where
  "press_give_back d answer c w = (case (fc_item c, answer) of
     (Some f, Some reason) \<Rightarrow>
       if fc_busy c then (c, w)
       else case dc_draw d w of (k, w1) \<Rightarrow> (case dc_reverse d (f_transaction f) (trim reason) k w1 of
         (Inl e, w2) \<Rightarrow> (fc_say (toast_problem e) c, w2)
       | (Inr _, w2) \<Rightarrow>
           let c1 = fc_say (toast_ok (''Money given back to '' @ f_recipient_name f @ ''.'')) c in
           (case dc_reload d w2 of (Inl e, w3) \<Rightarrow> (fc_say (toast_problem e) c1, w3) | (Inr _, w3) \<Rightarrow> (fc_emit c1, w3)))
   | _ \<Rightarrow> (c, w))"

definition press_reverse ::
  "'w delivery_calls \<Rightarrow> string option \<Rightarrow> fulfillment_control \<Rightarrow> 'w \<Rightarrow> fulfillment_control \<times> 'w" where
  "press_reverse d answer c w = (case (fc_item c, answer) of
     (Some f, Some reason) \<Rightarrow>
       if fc_busy c then (c, w)
       else case dc_draw d w of (k, w1) \<Rightarrow> (case dc_reverse d (f_transaction f) reason k w1 of
         (Inl e, w2) \<Rightarrow> (fc_say (toast_problem e) c, w2)
       | (Inr _, w2) \<Rightarrow> (case dc_reload d w2 of (Inl e, w3) \<Rightarrow> (fc_say (toast_problem e) c, w3) | (Inr _, w3) \<Rightarrow> (fc_emit c, w3)))
   | _ \<Rightarrow> (c, w))"

section \<open>The list of deliveries\<close>

definition still_open :: "fulfillment \<Rightarrow> bool" where
  "still_open f \<longleftrightarrow> f_status f \<in> {Todo, Disputed}"

definition is_party :: "string option \<Rightarrow> fulfillment \<Rightarrow> bool" where
  "is_party me f \<longleftrightarrow> Some (f_provider f) = me \<or> Some (f_recipient f) = me"

definition todo_count :: "bool \<Rightarrow> string option \<Rightarrow> fulfillment list \<Rightarrow> nat" where
  "todo_count nana me book = length (filter (\<lambda>f. (is_party me f \<or> (nana \<and> f_status f = Disputed)) \<and> still_open f) book)"

definition last_update :: "fulfillment \<Rightarrow> int" where
  "last_update f = (case at_last (f_updates f) of Some u \<Rightarrow> fu_at u | None \<Rightarrow> 0)"

definition delivery_groups :: "bool \<Rightarrow> string option \<Rightarrow> fulfillment list \<Rightarrow> (string \<times> fulfillment list) list" where
  "delivery_groups nana me book =
     (let mine = filter (is_party me) book in
      (if nana then [(''Disputes for Nana to review'', filter (\<lambda>f. f_status f = Disputed) book)] else [])
      @ [(''My work & deliveries'', filter (\<lambda>f. Some (f_provider f) = me \<and> still_open f) mine),
         (''Waiting for others'', filter (\<lambda>f. Some (f_recipient f) = me \<and> still_open f) mine),
         (''Completed & reversed'', sort_key (\<lambda>f. - last_update f) (filter (\<lambda>f. \<not> still_open f) mine))])"

section \<open>The buttons are what the ledger accepts\<close>

lemma offered_iff:
  "offered (fulfillment_buttons nana (Some me) f) a \<longleftrightarrow>
     (me = f_recipient f \<or> (a = Complete \<and> me = f_provider f)) \<and> action_allowed a (f_status f)"
  by (cases a; cases "f_status f") (auto simp: offered_def fulfillment_buttons_def Let_def)

text \<open>A reason the ledger accepts with an action.\<close>

definition good_reason :: "fulfillment_action \<Rightarrow> string \<Rightarrow> bool" where
  "good_reason action r \<longleftrightarrow> \<not> has_control r \<and> utf8_length r \<le> 96 \<and> (action = Dispute \<longrightarrow> trim r \<noteq> [])"

lemma refusals_none:
  assumes "good_reason action reason"
  shows "first_err (fulfillment_refusals actor f action reason) = None \<longleftrightarrow>
    (u_account actor = f_recipient f \<or> (action = Complete \<and> u_account actor = f_provider f)) \<and> action_allowed action (f_status f)"
  using assms by (auto simp: fulfillment_refusals_def good_reason_def throw_if_def)

lemma set_fulfillment_accepts:
  assumes "u_status actor = UserActive" and "delivery_of w i = Some (t, f)" and "good_reason action reason"
  shows "(\<exists>f' w'. set_fulfillment actor i action reason w = (Inr f', w')) \<longleftrightarrow>
    offered (fulfillment_buttons nana (Some (u_account actor)) f) action"
proof (cases "first_err (fulfillment_refusals actor f action reason)")
  case None
  then show ?thesis using assms refusals_none [OF assms(3), of actor f]
    by (auto simp: set_fulfillment_def guarded_def require_active_def throw_if_def offered_iff Let_def split: prod.splits)
next
  case (Some e)
  then show ?thesis using assms refusals_none [OF assms(3), of actor f]
    by (auto simp: set_fulfillment_def guarded_def require_active_def throw_if_def offered_iff)
qed

lemma changed_mind_good: "good_reason Dispute CHANGED_MIND"
  by (simp add: good_reason_def CHANGED_MIND_def) code_simp

text \<open>Every delivery of mine is in one group, and only there.\<close>

lemma groups_partition:
  assumes "f \<in> set book" "is_party me f" "f_provider f \<noteq> f_recipient f" "distinct book"
  shows "length (filter (\<lambda>g. f \<in> set (snd g)) (delivery_groups False me book)) = 1"
  using assms by (auto simp: delivery_groups_def is_party_def Let_def)

end
