(* ===== verification/ExportState.thy ===== *)
theory ExportState
  imports Allowances
begin

text \<open>
  \<open>system/export-state.ts\<close> and the handlers of \<open>pages/export-state.ts\<close>: the household's state as one HTML
  document. The JSON text of the state, the locale's dates and the two characters beyond Latin-1 (a dash, an
  arrow) are arguments. The theory ends with what an HTML reader sees in the document: whatever anybody typed,
  no tag in it but the template's own.
\<close>

section \<open>What is exported\<close>

record household_config =
  hc_name :: "string option"
  hc_grant :: "num option"
  hc_currency :: "string option"
  hc_settles :: "num option"

record server_state =
  ss_at :: int
  ss_source :: string
  ss_status :: "status_view option"
  ss_currency :: "string option"
  ss_config :: "household_config option"
  ss_https :: "bool option"
  ss_users :: "user_view list"
  ss_listings :: "listing list"
  ss_things :: "thing list"
  ss_loans :: "loan list"
  ss_lottos :: "lotto list"
  ss_quotes :: "quote list"
  ss_offers :: "offer list"
  ss_fulfillments :: "fulfillment list"
  ss_allowances :: "allowance list"
  ss_missing :: "string list"

text \<open>
  \<open>Formatters\<close>, a member's Mastodon ID, and the two characters. The currency's name is a member of the status
  that \<open>status_view\<close> leaves out.
\<close>

record formatters =
  fm_coins :: "num \<Rightarrow> string"
  fm_date :: "num \<Rightarrow> string"
  fm_handle :: "user_view \<Rightarrow> string option"
  fm_dash :: string
  fm_arrow :: string

section \<open>Words\<close>

definition role_text :: "role \<Rightarrow> string" where
  "role_text r = (case r of Nana \<Rightarrow> ''nana'' | Member \<Rightarrow> ''user'')"

definition user_status_text :: "user_status \<Rightarrow> string" where
  "user_status_text s = (case s of UserActive \<Rightarrow> ''ACTIVE'' | UserDisabled \<Rightarrow> ''DISABLED'')"

definition loan_status_text :: "loan_status \<Rightarrow> string" where
  "loan_status_text s = (case s of Requested \<Rightarrow> ''REQUESTED'' | Offered \<Rightarrow> ''OFFERED'' | Armed \<Rightarrow> ''ARMED''
     | LoanActive \<Rightarrow> ''ACTIVE'' | Paid \<Rightarrow> ''PAID'' | LoanDeclined \<Rightarrow> ''DECLINED'' | LoanCancelled \<Rightarrow> ''CANCELLED'')"

definition lotto_kind_text :: "lotto_kind \<Rightarrow> string" where
  "lotto_kind_text k = (case k of Simple \<Rightarrow> ''SIMPLE'' | Delayed \<Rightarrow> ''DELAYED'' | Savings \<Rightarrow> ''SAVINGS'')"

definition lotto_status_text :: "lotto_status \<Rightarrow> string" where
  "lotto_status_text s = (case s of LottoOpen \<Rightarrow> ''OPEN'' | Waiting \<Rightarrow> ''WAITING'' | Paying \<Rightarrow> ''PAYING'' | LottoSettled \<Rightarrow> ''SETTLED'')"

definition fulfillment_status_text :: "fulfillment_status \<Rightarrow> string" where
  "fulfillment_status_text s = (case s of Todo \<Rightarrow> ''TODO'' | Done \<Rightarrow> ''DONE'' | Disputed \<Rightarrow> ''DISPUTED''
     | FulfillmentReversed \<Rightarrow> ''REVERSED'')"

definition listing_side_text :: "listing_side option \<Rightarrow> string" where
  "listing_side_text s = (case s of Some Buy \<Rightarrow> ''BUY'' | _ \<Rightarrow> ''SELL'')"

section \<open>Markup\<close>

definition APOS :: string where "APOS = [CHR 0x27]"
definition NL :: string where "NL = [CHR 0x0A]"

definition esc_char :: "char \<Rightarrow> string" where
  \<open>esc_char c = (if c = CHR ''&'' then ''&amp;'' else if c = CHR ''<'' then ''&lt;'' else if c = CHR ''>'' then ''&gt;''
     else if c = CHR 0x22 then ''&quot;'' else if c = CHR 0x27 then ''&#39;'' else [c])\<close>

definition esc :: "string \<Rightarrow> string" where
  "esc s = concat (map esc_char s)"

definition usd_cell :: "num option \<Rightarrow> string" where
  "usd_cell cents = (case cents of None \<Rightarrow> [] | Some x \<Rightarrow> dollars x)"

definition cells :: "string \<Rightarrow> string \<Rightarrow> string list \<Rightarrow> string" where
  "cells left right cs = concat (map (\<lambda>c. left @ esc c @ right) cs)"

definition html_table :: "string \<Rightarrow> string list \<Rightarrow> string list list \<Rightarrow> string \<Rightarrow> string" where
  \<open>html_table caption headers rows none =
     (if rows = [] then ''<h3>'' @ esc caption @ ''</h3><p class="muted">'' @ esc none @ ''</p>''
      else ''<table><caption>'' @ esc caption @ ''</caption><thead><tr>'' @ cells ''<th>'' ''</th>'' headers @ ''</tr></thead>''
        @ ''<tbody>'' @ concat (map (\<lambda>r. ''<tr>'' @ cells ''<td>'' ''</td>'' r @ ''</tr>'') rows) @ ''</tbody></table>'')\<close>

text \<open>JSON inside a script element must not be able to close the element.\<close>

definition script_safe :: "string \<Rightarrow> string" where
  "script_safe json = concat (map (\<lambda>c. if c = CHR ''<'' then [CHR 0x5C] @ ''u003c'' else [c]) json)"

fun join_with :: "string \<Rightarrow> string list \<Rightarrow> string" where
  "join_with sep [] = []"
| "join_with sep [s] = s"
| "join_with sep (s # rest) = s @ sep @ join_with sep rest"

section \<open>The tables\<close>

definition opt_or :: "string \<Rightarrow> string option \<Rightarrow> string" where
  "opt_or d x = (case x of Some s \<Rightarrow> s | None \<Rightarrow> d)"

definition export_household :: "server_state \<Rightarrow> string" where
  "export_household s =
     (if truthy_str (Option.bind (ss_config s) hc_name) then the (Option.bind (ss_config s) hc_name)
      else if truthy_str (map_option st_household (ss_status s)) then the (map_option st_household (ss_status s))
      else ''NanaCoin'')"

definition settings_rows :: "formatters \<Rightarrow> server_state \<Rightarrow> string list list" where
  "settings_rows f s =
     [[''Household name'', export_household s],
      [''Currency name'', case Option.bind (ss_config s) hc_currency of Some c \<Rightarrow> c | None \<Rightarrow> opt_or [] (ss_currency s)],
      [''Starting grant for new members'', case Option.bind (ss_config s) hc_grant of None \<Rightarrow> [] | Some g \<Rightarrow> fm_coins f g @ '' coins''],
      [''Offer settlement window'', if truthy_num (Option.bind (ss_config s) hc_settles)
        then show_int (js_round (js_div (the (Option.bind (ss_config s) hc_settles)) 3600)) @ '' hours'' else ''default''],
      [''Decimal places'', case ss_status s of Some v \<Rightarrow> show_nat (st_decimals v) | None \<Rightarrow> []],
      [''HTTPS required for everyone'', case ss_https s of None \<Rightarrow> ''unknown'' | Some b \<Rightarrow> if b then ''Yes'' else ''No'']]"

definition member_row :: "formatters \<Rightarrow> user_view \<Rightarrow> string list" where
  "member_row f u = [uv_display_name u, uv_username u, role_text (uv_role u), user_status_text (uv_status u),
     case uv_balance u of None \<Rightarrow> [] | Some b \<Rightarrow> fm_coins f b, usd_cell (uv_usd_cents u), opt_or [] (fm_handle f u)]"

definition listing_row :: "formatters \<Rightarrow> listing \<Rightarrow> string list" where
  "listing_row f l = [l_title l, l_seller_name l, listing_side_text (l_side l), fm_coins f (l_price l),
     if truthy_str (l_kind l) then the (l_kind l) else (case l_economic_kind l of Some k \<Rightarrow> kind_name k | None \<Rightarrow> []),
     l_description l]"

definition thing_row :: "thing \<Rightarrow> string list" where
  "thing_row t = [th_name t, kind_name (th_economic_kind t), unit_name (th_unit t), if th_standard t then ''yes'' else ''no'']"

definition offer_row :: "formatters \<Rightarrow> offer \<Rightarrow> string list" where
  "offer_row f q = [o_listing_title q, o_offerer_name q, fm_coins f (o_amount q), o_message q]"

definition loan_row :: "formatters \<Rightarrow> loan \<Rightarrow> string list" where
  "loan_row f l = [ln_lender_name l, ln_borrower_name l, loan_status_text (ln_status l), fm_coins f (ln_amount l),
     fm_coins f (ln_principal l), fm_coins f (ln_interest l),
     hundredths_text \<lfloor>ln_rate_bps l\<rfloor> @ ''% per '' @ show_int (ln_rate_days l) @ '' days'',
     fm_coins f (ln_installment l) @ '' every '' @ show_int (ln_payment_days l) @ '' days'', ln_memo l]"

definition lotto_row :: "formatters \<Rightarrow> lotto \<Rightarrow> string list" where
  "lotto_row f l = [lt_title (lo_terms l), lotto_kind_text (lt_kind (lo_terms l)), lotto_status_text (lo_status l),
     fm_coins f (lt_ticket_price (lo_terms l)), show_int \<lfloor>lo_tickets l\<rfloor>, fm_coins f (lo_pool l),
     fm_date f (lt_closes_at (lo_terms l)), hundredths_text \<lfloor>lt_rate_bps (lo_terms l)\<rfloor> @ ''%'']"

definition quote_row :: "formatters \<Rightarrow> quote \<Rightarrow> string list" where
  "quote_row f q = [q_maker_name q, if q_side q = Bid then ''buys coins'' else ''sells coins'', fm_coins f (q_coins q),
     dollars (q_cents_per_coin q), dollars (q_cents q)]"

definition job_row :: "fulfillment \<Rightarrow> string list" where
  "job_row x = [f_description x, f_provider_name x, f_recipient_name x, fulfillment_status_text (f_status x)]"

definition allowance_row :: "formatters \<Rightarrow> allowance \<Rightarrow> string list" where
  "allowance_row f a = [al_recipient_name a, fm_coins f (al_amount a), to_lower (cadence_name (al_cadence a)), al_next_due a, al_memo a]"

section \<open>The sections\<close>

definition settings_section :: "formatters \<Rightarrow> server_state \<Rightarrow> string" where
  \<open>settings_section f s = ''<section><h2>1. Household settings</h2>''
     @ html_table ''Settings'' [''Setting'', ''Value''] (settings_rows f s) ''None.''
     @ ''<p>Set these on the setup screen and under Household '' @ fm_arrow f @ '' Configuration.</p></section>''\<close>

definition members_section :: "formatters \<Rightarrow> server_state \<Rightarrow> string" where
  \<open>members_section f s = ''<section><h2>2. Members</h2>''
     @ html_table ''Everyone in the household'' [''Name'', ''Username'', ''Role'', ''Status'', ''Coins'', ''Dollars'', ''Mastodon'']
         (map (member_row f) (ss_users s)) ''None.''
     @ ''<p><strong>Passwords are not exported</strong> (the board only keeps scrambled copies). Give each person a new password when you add them back.</p>''
     @ ''<p>To restore money: add each member, then issue them their coins and record their dollars from Household '' @ fm_arrow f
     @ '' Issue money. Starting grants are paid automatically, so issue only the difference.</p></section>''\<close>

definition market_section :: "formatters \<Rightarrow> server_state \<Rightarrow> string" where
  \<open>market_section f s = ''<section><h2>3. Things for sale and wanted</h2>''
     @ html_table ''Active listings'' [''Title'', ''Posted by'', ''Side'', ''Price (coins)'', ''Kind'', ''Description'']
         (map (listing_row f) (filter (\<lambda>l. l_status l = ListingActive) (ss_listings s))) ''None.''
     @ html_table ''Catalog of standard things'' [''Name'', ''Kind'', ''Unit'', ''Standard''] (map thing_row (ss_things s)) ''None.''
     @ html_table ''Open offers on listings'' [''Listing'', ''From'', ''Amount (coins)'', ''Message'']
         (map (offer_row f) (filter (\<lambda>q. o_status q = OfferOpen) (ss_offers s))) ''None.''
     @ ''</section>''\<close>

definition promises_section :: "formatters \<Rightarrow> server_state \<Rightarrow> string" where
  \<open>promises_section f s = ''<section><h2>4. Promises still running</h2>''
     @ html_table ''Loans'' [''Lender'', ''Borrower'', ''Status'', ''Amount'', ''Principal left'', ''Interest owed'', ''Rate'', ''Payments'', ''Memo'']
         (map (loan_row f) (filter (\<lambda>l. ln_status l \<in> {Offered, Armed, LoanActive}) (ss_loans s))) ''None.''
     @ html_table ''Lottos'' [''Title'', ''Kind'', ''Status'', ''Ticket'', ''Tickets sold'', ''Pool'', ''Sales close'', ''30-day interest'']
         (map (lotto_row f) (filter (\<lambda>l. lo_status l \<noteq> LottoSettled) (ss_lottos s))) ''None.''
     @ ''<p>A lotto'' @ APOS @ ''s ticket holders are not listed per person by the board. Refund or re-run open lottos by hand.</p>''
     @ html_table ''Dollar exchange offers'' [''Posted by'', ''Side'', ''Coins'', ''Price per coin'', ''Dollars'']
         (map (quote_row f) (filter (\<lambda>q. q_status q = QuoteOpen) (ss_quotes s))) ''None.''
     @ html_table ''Work and deliveries still to do'' [''What'', ''Who does it'', ''For whom'', ''Status'']
         (map job_row (filter (\<lambda>x. f_status x \<in> {Todo, Disputed}) (ss_fulfillments s))) ''None.''
     @ ''</section>''\<close>

definition allowances_section :: "formatters \<Rightarrow> server_state \<Rightarrow> string" where
  \<open>allowances_section f s = ''<section><h2>5. Allowances saved in this browser</h2>''
     @ html_table ''Recurring payments'' [''To'', ''Amount (coins)'', ''How often'', ''Next due'', ''Description'']
         (map (allowance_row f) (ss_allowances s))
         (''None in this browser. Allowances live in the payer'' @ APOS @ ''s browser, so each parent should check their own.'')
     @ ''</section>''\<close>

section \<open>The document\<close>

definition style_lines :: "string list" where
  \<open>style_lines = [''<style>'',
     ''  :root { color-scheme: light dark; --ink:#1f1b16; --bg:#fbf8f3; --line:#d9d0c3; --muted:#6b6258; }'',
     ''  @media (prefers-color-scheme: dark) { :root { --ink:#eee6db; --bg:#1c1915; --line:#3b352d; --muted:#a89f93; } }'',
     ''  body { font: 16px/1.5 system-ui, sans-serif; color: var(--ink); background: var(--bg); margin: 0 auto; max-width: 60rem; padding: 1rem 16px 3rem; }'',
     ''  table { border-collapse: collapse; width: 100%; margin: .5rem 0 1.25rem; display: block; overflow-x: auto; }'',
     ''  caption { text-align: left; font-weight: 700; padding-bottom: .25rem; }'',
     ''  th, td { border-bottom: 1px solid var(--line); padding: .35rem .6rem .35rem 0; text-align: left; vertical-align: top; }'',
     ''  .muted { color: var(--muted); } .warn { border-left: 4px solid #b8562f; padding-left: .75rem; }'',
     ''  @media print { details { display: none; } }'',
     ''</style>'']\<close>

definition head_lines :: "formatters \<Rightarrow> server_state \<Rightarrow> string list" where
  \<open>head_lines f s = [''<!doctype html>'', ''<html lang="en">'', ''<head>'', ''<meta charset="utf-8">'',
     ''<meta name="viewport" content="width=device-width, initial-scale=1">'',
     ''<title>'' @ esc (export_household s) @ '' '' @ fm_dash f @ '' NanaCoin export</title>'']
     @ style_lines @ [''</head>'']\<close>

definition intro_lines :: "formatters \<Rightarrow> server_state \<Rightarrow> string list" where
  \<open>intro_lines f s = [''<body>'', ''<h1>'' @ esc (export_household s) @ '': server state</h1>'',
     ''<p class="muted">Exported '' @ esc (fm_date f (of_int (ss_at s))) @ '' from '' @ esc (ss_source s) @ '' '' @ [CHR 0xB7] @ '' ''
       @ show_nat (length (filter (\<lambda>u. uv_status u = UserActive) (ss_users s))) @ '' active members '' @ [CHR 0xB7] @ '' ''
       @ (case ss_status s of Some v \<Rightarrow> fm_coins f (st_circulation v) @ '' coins in circulation'' | None \<Rightarrow> []) @ ''</p>'',
     ''<p class="warn">This is what you would type in again if the NanaCoin board were wiped or replaced. Keep it somewhere private: it lists everyone''
       @ APOS @ ''s balances. It does not contain passwords or transaction history.</p>'',
     if ss_missing s = [] then []
     else ''<p class="warn">Could not read: '' @ esc (join_with '', '' (ss_missing s)) @ ''. Those parts are missing from this file.</p>'']\<close>

definition export_sections :: "formatters \<Rightarrow> server_state \<Rightarrow> string list" where
  "export_sections f s = [settings_section f s, members_section f s, market_section f s, promises_section f s, allowances_section f s]"

definition data_lines :: "string \<Rightarrow> string list" where
  \<open>data_lines data = [''<details><summary>Machine-readable copy</summary>'',
     ''<p class="muted">The same data as JSON, for a future import tool.</p>'',
     ''<pre>'' @ esc data @ ''</pre>'', ''</details>'',
     ''<script type="application/json" id="nanacoin-export">'' @ data @ ''</script>'',
     ''</body>'', ''</html>'', '''']\<close>

text \<open>\<open>json\<close> is the text of the state, as \<open>JSON.stringify\<close> prints it.\<close>

definition export_html :: "formatters \<Rightarrow> server_state \<Rightarrow> string \<Rightarrow> string" where
  "export_html f s json = join_with NL (head_lines f s @ intro_lines f s @ export_sections f s @ data_lines (script_safe json))"

text \<open>The file's name: what is not a letter or a digit becomes a dash, one of them for a run.\<close>

definition slug_char :: "char \<Rightarrow> bool" where
  "slug_char c \<longleftrightarrow> is_digit c \<or> (let n = of_char c :: nat in 97 \<le> n \<and> n \<le> 122)"

fun dashed :: "bool \<Rightarrow> string \<Rightarrow> string" where
  "dashed after [] = []"
| "dashed after (c # cs) = (if slug_char c then c # dashed False cs
     else if after then dashed True cs else CHR ''-'' # dashed True cs)"

definition slug :: "string \<Rightarrow> string" where
  "slug s = (let d = dashed False (to_lower s); e = (if d \<noteq> [] \<and> hd d = CHR ''-'' then tl d else d);
     t = (if e \<noteq> [] \<and> last e = CHR ''-'' then butlast e else e) in
     if t = [] then ''nanacoin'' else t)"

definition export_file_name :: "string \<Rightarrow> int \<Rightarrow> string" where
  "export_file_name household t = slug household @ ''-export-'' @ iso_date (t div 86400) @ ''.html''"

section \<open>The page\<close>

text \<open>What each read of \<open>gather\<close> ended with (\<open>None\<close>: it failed); \<open>order\<close> is the order in which they ended.\<close>

record gathered =
  gt_status :: "(status_view \<times> string option) option"
  gt_config :: "household_config option"
  gt_transport :: "bool option"
  gt_users :: "user_view list option"
  gt_listings :: "listing list option"
  gt_things :: "thing list option"
  gt_loans :: "loan list option"
  gt_lottos :: "lotto list option"
  gt_quotes :: "quote list option"
  gt_offers :: "offer list option"
  gt_fulfillments :: "fulfillment list option"

definition failed_reads :: "gathered \<Rightarrow> (string \<times> bool) list" where
  "failed_reads g = [(''status'', gt_status g = None), (''settings'', gt_config g = None), (''HTTPS policy'', gt_transport g = None),
     (''members'', gt_users g = None), (''listings'', gt_listings g = None), (''catalog'', gt_things g = None),
     (''loans'', gt_loans g = None), (''lottos'', gt_lottos g = None), (''exchange offers'', gt_quotes g = None),
     (''listing offers'', gt_offers g = None), (''open jobs'', gt_fulfillments g = None)]"

definition list_read :: "'a list option \<Rightarrow> 'a list" where
  "list_read r = (case r of Some xs \<Rightarrow> xs | None \<Rightarrow> [])"

definition gather :: "int \<Rightarrow> string \<Rightarrow> allowance list \<Rightarrow> string list \<Rightarrow> gathered \<Rightarrow> server_state" where
  "gather now_ms source allowances order g =
     \<lparr>ss_at = now_ms div 1000, ss_source = source, ss_status = map_option fst (gt_status g),
      ss_currency = Option.bind (gt_status g) snd, ss_config = gt_config g, ss_https = gt_transport g,
      ss_users = list_read (gt_users g), ss_listings = list_read (gt_listings g), ss_things = list_read (gt_things g),
      ss_loans = list_read (gt_loans g), ss_lottos = list_read (gt_lottos g), ss_quotes = list_read (gt_quotes g),
      ss_offers = list_read (gt_offers g), ss_fulfillments = list_read (gt_fulfillments g), ss_allowances = allowances,
      ss_missing = filter (\<lambda>l. map_of (failed_reads g) l = Some True) order\<rparr>"

text \<open>The amounts the document prints; the money text of one that is not a safe integer throws.\<close>

definition exported_amounts :: "server_state \<Rightarrow> num list" where
  "exported_amounts s =
     List.map_filter id [Option.bind (ss_config s) hc_grant] @ List.map_filter uv_balance (ss_users s)
     @ map l_price (filter (\<lambda>l. l_status l = ListingActive) (ss_listings s))
     @ map o_amount (filter (\<lambda>q. o_status q = OfferOpen) (ss_offers s))
     @ concat (map (\<lambda>l. [ln_amount l, ln_principal l, ln_interest l, ln_installment l])
         (filter (\<lambda>l. ln_status l \<in> {Offered, Armed, LoanActive}) (ss_loans s)))
     @ concat (map (\<lambda>l. [lt_ticket_price (lo_terms l), lo_pool l]) (filter (\<lambda>l. lo_status l \<noteq> LottoSettled) (ss_lottos s)))
     @ map q_coins (filter (\<lambda>q. q_status q = QuoteOpen) (ss_quotes s))
     @ map al_amount (ss_allowances s) @ List.map_filter (map_option st_circulation) [ss_status s]"

definition export_formatters :: "money \<Rightarrow> formatters \<Rightarrow> formatters" where
  "export_formatters m f = f\<lparr>fm_coins := \<lambda>x. amount_text \<lfloor>x\<rfloor> (my_decimals m) True\<rparr>"

definition saved_text :: "server_state \<Rightarrow> string \<Rightarrow> string" where
  "saved_text s name = ''Saved '' @ name @ '': '' @ show_nat (length (ss_users s)) @ '' members, ''
     @ show_nat (length (filter (\<lambda>l. l_status l = ListingActive) (ss_listings s))) @ '' listings, ''
     @ show_nat (length (ss_loans s)) @ '' loans, '' @ show_nat (length (ss_lottos s)) @ '' lottos.''
     @ (if ss_missing s = [] then [] else '' Missing: '' @ join_with '', '' (ss_missing s) @ ''.'')"

text \<open>
  \<open>download\<close>: the file's name and text and the line shown, or what the page says went wrong. The page names the
  file after the household as the document does; its own last resort is the same word in lower case.
\<close>

definition download ::
  "money \<Rightarrow> formatters \<Rightarrow> (server_state \<Rightarrow> string) \<Rightarrow> bool \<Rightarrow> server_state \<Rightarrow> toasts \<Rightarrow> (string \<times> string \<times> string) option \<times> toasts" where
  "download m f json busy s z =
     (if busy then (None, z)
      else if \<not> list_all is_safe (exported_amounts s)
      then (None, toast_problem (Thrown (PlainError ''Money must be an exact integer.'')) z)
      else let name = export_file_name (export_household s) (ss_at s) in
        (Some (name, export_html (export_formatters m f) s (json s), saved_text s name), z))"

section \<open>What a reader of the document sees\<close>

text \<open>The tags of a text: what stands between a \<open><\<close> and the next \<open>></\<close>; \<open>acc\<close> is the tag being read, backwards.\<close>

fun tags_from :: "string option \<Rightarrow> string \<Rightarrow> string list" where
  "tags_from None [] = []"
| "tags_from (Some acc) [] = [rev acc]"
| "tags_from None (c # cs) = (if c = CHR ''<'' then tags_from (Some []) cs else tags_from None cs)"
| "tags_from (Some acc) (c # cs) = (if c = CHR ''>'' then rev acc # tags_from None cs else tags_from (Some (c # acc)) cs)"

definition html_tags :: "string \<Rightarrow> string list" where "html_tags = tags_from None"

text \<open>And what it shows for an escaped text.\<close>

fun unesc :: "string \<Rightarrow> string" where
  "unesc [] = []"
| "unesc (c # cs) = (if c \<noteq> CHR ''&'' then c # unesc cs
     else if prefix ''amp;'' cs then CHR ''&'' # unesc (drop 4 cs)
     else if prefix ''lt;'' cs then CHR ''<'' # unesc (drop 3 cs)
     else if prefix ''gt;'' cs then CHR ''>'' # unesc (drop 3 cs)
     else if prefix ''quot;'' cs then CHR 0x22 # unesc (drop 5 cs)
     else if prefix ''#39;'' cs then CHR 0x27 # unesc (drop 4 cs) else c # unesc cs)"

lemma unesc_esc [simp]: "unesc (esc s) = s"
proof (induction s)
  case (Cons c s)
  then show ?case by (simp add: esc_def esc_char_def)
qed (simp add: esc_def)

text \<open>\<open>TAGS\<close> are those of the template. A fragment is \<open>harmless\<close> when it ends outside a tag and has no other.\<close>

definition TAGS :: "string list" where
  \<open>TAGS = [''!doctype html'', ''html lang="en"'', ''head'', ''meta charset="utf-8"'',
     ''meta name="viewport" content="width=device-width, initial-scale=1"'', ''title'', ''/title'', ''style'', ''/style'', ''/head'',
     ''body'', ''h1'', ''/h1'', ''p'', ''p class="muted"'', ''p class="warn"'', ''/p'', ''section'', ''/section'', ''h2'', ''/h2'', ''h3'', ''/h3'',
     ''table'', ''caption'', ''/caption'', ''thead'', ''tr'', ''th'', ''/th'', ''/tr'', ''/thead'', ''tbody'', ''td'', ''/td'', ''/tbody'', ''/table'',
     ''strong'', ''/strong'', ''details'', ''summary'', ''/summary'', ''pre'', ''/pre'', ''/details'',
     ''script type="application/json" id="nanacoin-export"'', ''/script'', ''/body'', ''/html'']\<close>

definition harmless :: "string \<Rightarrow> bool" where
  "harmless s \<longleftrightarrow> (\<forall>t. tags_from None (s @ t) = tags_from None s @ tags_from None t) \<and> set (tags_from None s) \<subseteq> set TAGS"

named_theorems html_simps "fragments that are harmless"

lemma harmless_Nil [html_simps]: "harmless []"
  by (simp add: harmless_def)

lemma harmless_append [html_simps]: "harmless a \<Longrightarrow> harmless b \<Longrightarrow> harmless (a @ b)"
  by (simp add: harmless_def)

lemma text_no_tags: "CHR ''<'' \<notin> set s \<Longrightarrow> tags_from None (s @ t) = tags_from None t"
  by (induction s) auto

lemma harmless_text: "CHR ''<'' \<notin> set s \<Longrightarrow> harmless s"
  using text_no_tags [of s] text_no_tags [of s "[]"] by (simp add: harmless_def)

text \<open>A literal fragment is checked by reading it.\<close>

fun ends_outside :: "bool \<Rightarrow> string \<Rightarrow> bool" where
  "ends_outside out [] = out"
| "ends_outside True (c # cs) = ends_outside (c \<noteq> CHR ''<'') cs"
| "ends_outside False (c # cs) = ends_outside (c = CHR ''>'') cs"

lemma tags_split:
  "ends_outside (acc = None) s \<Longrightarrow> tags_from acc (s @ t) = tags_from acc s @ tags_from None t"
  by (induction acc s rule: tags_from.induct) (auto split: if_splits)

definition known_fragment :: "string \<Rightarrow> bool" where
  "known_fragment s \<longleftrightarrow> ends_outside True s \<and> list_all (\<lambda>g. g \<in> set TAGS) (html_tags s)"

lemma harmless_fragment: "known_fragment s \<Longrightarrow> harmless s"
  using tags_split [of None s] by (auto simp: harmless_def known_fragment_def html_tags_def list_all_iff)

lemma harmless_esc [html_simps]: "harmless (esc s)"
  by (rule harmless_text) (auto simp: esc_def esc_char_def)

lemma harmless_script [html_simps]: "harmless (script_safe s)"
  by (rule harmless_text) (auto simp: script_safe_def)

lemma harmless_concat [html_simps]: "(\<And>x. x \<in> set xs \<Longrightarrow> harmless (f x)) \<Longrightarrow> harmless (concat (map f xs))"
  by (induction xs) (simp_all add: html_simps)

lemma harmless_join [html_simps]: "(\<And>x. x \<in> set xs \<Longrightarrow> harmless x) \<Longrightarrow> harmless sep \<Longrightarrow> harmless (join_with sep xs)"
  by (induction sep xs rule: join_with.induct) (simp_all add: html_simps)

lemmas harmless_rules = harmless_append harmless_esc harmless_script harmless_concat harmless_join

lemma harmless_table: "harmless (html_table caption headers rows none)"
proof -
  have c: "harmless (cells ''<th>'' ''</th>'' xs)" "harmless (cells ''<td>'' ''</td>'' xs)" for xs
    unfolding cells_def by (rule harmless_rules | (rule harmless_fragment, code_simp))+
  show ?thesis
  proof (cases "rows = []")
    case True
    then show ?thesis unfolding html_table_def if_P [OF True]
      by - (rule harmless_rules | (rule harmless_fragment, code_simp))+
  next
    case False
    then show ?thesis unfolding html_table_def if_not_P [OF False]
      by - (rule c harmless_rules | (rule harmless_fragment, code_simp))+
  qed
qed

text \<open>The two characters and the money texts have no tags in them.\<close>

definition plain_formatters :: "formatters \<Rightarrow> bool" where
  "plain_formatters f \<longleftrightarrow> CHR ''<'' \<notin> set (fm_dash f) \<and> CHR ''<'' \<notin> set (fm_arrow f) \<and> (\<forall>x. CHR ''<'' \<notin> set (fm_coins f x))"

lemma plain_harmless:
  assumes "plain_formatters f"
  shows "harmless (fm_dash f)" "harmless (fm_arrow f)" "harmless (fm_coins f x)"
  using assms by (simp_all add: plain_formatters_def harmless_text)

lemma sections_harmless:
  assumes "plain_formatters f"
  shows "harmless (settings_section f s)" "harmless (members_section f s)" "harmless (market_section f s)"
    "harmless (promises_section f s)" "harmless (allowances_section f s)"
  unfolding settings_section_def members_section_def market_section_def promises_section_def allowances_section_def
  by ((rule harmless_table plain_harmless [OF assms] harmless_append | (rule harmless_fragment, code_simp))+)

lemma digits_plain: "CHR ''<'' \<notin> set (show_nat n)"
  using show_nat_digits [of n] by (auto simp: is_digit_def)

lemma lines_harmless:
  assumes "plain_formatters f" and "x \<in> set (head_lines f s @ intro_lines f s @ data_lines (script_safe json))"
  shows "harmless x"
proof -
  have d: "harmless (show_nat n)" for n by (rule harmless_text [OF digits_plain])
  have e: "list_all harmless []" by simp
  have "list_all harmless (head_lines f s)"
    unfolding head_lines_def style_lines_def list_all_append list.pred_inject
    by (intro conjI; (rule e plain_harmless [OF assms(1)] harmless_append harmless_esc | (rule harmless_fragment, code_simp))+)
  moreover
  have circulation: "harmless (case ss_status s of Some v \<Rightarrow> fm_coins f (st_circulation v) @ '' coins in circulation'' | None \<Rightarrow> [])"
    using assms(1) by (cases "ss_status s") (auto intro!: harmless_text simp: plain_formatters_def)
  have "list_all harmless (intro_lines f s)"
    unfolding intro_lines_def list.pred_inject
    by (cases "ss_missing s = []")
      (simp_all only: if_True if_False simp_thms,
       (intro conjI; (rule circulation d e harmless_append harmless_esc harmless_Nil | (rule harmless_fragment, code_simp))+)+)
  moreover have "list_all harmless (data_lines (script_safe json))"
    unfolding data_lines_def list.pred_inject
    by (intro conjI; (rule e harmless_script harmless_append harmless_esc | (rule harmless_fragment, code_simp))+)
  ultimately show ?thesis using assms(2) by (auto simp: list_all_iff)
qed

lemma export_harmless:
  assumes "plain_formatters f"
  shows "harmless (export_html f s json)"
  unfolding export_html_def
proof (rule harmless_join)
  show "harmless NL" by (rule harmless_text) (simp add: NL_def)
  show "harmless x" if "x \<in> set (head_lines f s @ intro_lines f s @ export_sections f s @ data_lines (script_safe json))" for x
    using that lines_harmless [OF assms, of x s json] sections_harmless [OF assms, of s] by (auto simp: export_sections_def)
qed

section \<open>The downloaded file\<close>

lemma group_rev_set: "set (group_rev s) \<subseteq> insert (CHR '','') (set s)"
  by (induction s rule: group_rev.induct) auto

lemma amount_plain: "CHR ''<'' \<notin> set (amount_text n d b)"
proof -
  have g: "CHR ''<'' \<notin> set (group_digits (show_nat k))" for k
    using group_rev_set [of "rev (show_nat k)"] digits_plain [of k] by (auto simp: group_digits_def)
  have "CHR ''<'' \<notin> set (strip_zeros (pad_start d (CHR ''0'') (show_nat k)))" for k
    using digits_plain [of k] by (auto simp: strip_zeros_def pad_start_def dest: set_dropWhileD)
  with g show ?thesis using digits_plain by (simp add: amount_text_def Let_def)
qed

lemma export_formatters_plain:
  assumes "CHR ''<'' \<notin> set (fm_dash f)" and "CHR ''<'' \<notin> set (fm_arrow f)"
  shows "plain_formatters (export_formatters m f)"
  using assms amount_plain by (simp add: plain_formatters_def export_formatters_def)

lemma dashed_chars: "c \<in> set (dashed b s) \<Longrightarrow> slug_char c \<or> c = CHR ''-''"
  by (induction b s rule: dashed.induct) (auto split: if_splits)

lemma slug_chars: "c \<in> set (slug s) \<Longrightarrow> slug_char c \<or> c = CHR ''-''" and slug_nonempty: "slug s \<noteq> []"
proof -
  have "set (slug s) \<subseteq> set (dashed False (to_lower s)) \<union> set ''nanacoin''"
    by (auto simp: slug_def Let_def dest: in_set_butlastD list.set_sel(2) split: if_splits)
  moreover have "\<forall>c \<in> set ''nanacoin''. slug_char c" by (simp add: slug_char_def is_digit_def)
  ultimately show "c \<in> set (slug s) \<Longrightarrow> slug_char c \<or> c = CHR ''-''" using dashed_chars by blast
  show "slug s \<noteq> []" by (auto simp: slug_def Let_def)
qed

end
