(* ===== verification/Discovery.thy ===== *)
theory Discovery
  imports Pages
begin

text \<open>
  Finding a server: \<open>api/discovery.ts\<close> and the handlers of \<open>pages/connect-form.ts\<close>. The browser's URL parser,
  its \<open>fetch\<close> and the service's status call are arguments. A search probes one address after the other; from
  a page that came over TLS it never probes a plain one; an attempt that fails puts the old address back.
\<close>

section \<open>URLs\<close>

text \<open>The parts of an absolute URL the program reads or sets; \<open>wu_protocol\<close> has its colon, as in the language.\<close>

record web_url =
  wu_protocol :: string
  wu_user :: string
  wu_password :: string
  wu_host :: string
  wu_port :: "nat option"
  wu_path :: string

type_synonym url_parser = "string \<Rightarrow> web_url option"

definition default_port :: "string \<Rightarrow> nat option" where
  "default_port p = (if p = ''https:'' then Some 443 else if p = ''http:'' then Some 80 else None)"

definition with_protocol :: "string \<Rightarrow> web_url \<Rightarrow> web_url" where
  "with_protocol p u = u\<lparr>wu_protocol := p, wu_port := (if wu_port u = default_port p then None else wu_port u)\<rparr>"

definition host_text :: "web_url \<Rightarrow> string" where
  "host_text u = wu_host u @ (case wu_port u of None \<Rightarrow> [] | Some n \<Rightarrow> CHR '':'' # show_nat n)"

definition url_origin :: "web_url \<Rightarrow> string" where
  "url_origin u = wu_protocol u @ ''//'' @ host_text u"

text \<open>\<open>href\<close> of a URL with a plain path and no credentials.\<close>

definition url_href :: "web_url \<Rightarrow> string" where
  "url_href u = url_origin u @ wu_path u"

definition with_scheme :: "string \<Rightarrow> string" where
  "with_scheme raw = (if has_scheme raw then raw else ''https://'' @ raw)"

section \<open>Candidates\<close>

definition KNOWN_HOSTS :: "string list" where
  "KNOWN_HOSTS = [''nanacoin.local'', ''nanacoin-rs.local'', ''nanacoin-api.local'', ''192.168.1.158'', ''192.168.1.157'']"

definition candidate_urls :: "url_parser \<Rightarrow> string \<Rightarrow> string list" where
  "candidate_urls parse raw =
     (if raw = [] \<or> starts_with ''/'' raw then []
      else case parse (with_scheme raw) of None \<Rightarrow> []
      | Some u \<Rightarrow>
          if wu_protocol u \<notin> {''http:'', ''https:''} \<or> wu_user u \<noteq> [] \<or> wu_password u \<noteq> [] then []
          else let s = (with_protocol ''https:'' u)\<lparr>wu_path := ''/api/v1''\<rparr> in [url_href s, url_href (with_protocol ''http:'' s)])"

text \<open>\<open>[...new Set(urls)]\<close>: the first of equal entries stays.\<close>

fun once :: "'a list \<Rightarrow> 'a list" where
  "once [] = []"
| "once (x # xs) = x # filter (\<lambda>y. y \<noteq> x) (once xs)"

definition candidates :: "url_parser \<Rightarrow> string \<Rightarrow> string \<Rightarrow> string list" where
  "candidates parse current meta = once (concat (map (candidate_urls parse) (current # meta # KNOWN_HOSTS)))"

section \<open>The search\<close>

definition is_status_text :: "json option \<Rightarrow> bool" where
  "is_status_text j \<longleftrightarrow> (case j of Some v \<Rightarrow>
       (\<exists>b \<in> {True, False}. json_get v ''provisioned'' = Some (JBool b))
     \<and> (case json_get v ''household'' of Some (JStr _) \<Rightarrow> True | _ \<Rightarrow> False)
     \<and> (case json_get v ''users'' of Some (JNum _) \<Rightarrow> True | _ \<Rightarrow> False)
     \<and> (\<exists>b \<in> {True, False}. json_get v ''ledger_balanced'' = Some (JBool b)) | None \<Rightarrow> False)"

text \<open>A probe ends without an answer (unreachable, TLS, CORS, three seconds) or with one, perhaps not JSON.\<close>

datatype probe = Unanswered | Answered bool "json option"

definition is_nanacoin :: "probe \<Rightarrow> bool" where
  "is_nanacoin p \<longleftrightarrow> (case p of Unanswered \<Rightarrow> False | Answered ok j \<Rightarrow> ok \<and> is_status_text j)"

record 'w prober =
  pb_parse :: url_parser
  pb_secure :: bool
  pb_aborted :: "'w \<Rightarrow> bool"
  pb_fetch :: "string \<Rightarrow> 'w \<Rightarrow> probe \<times> 'w"

text \<open>\<open>find\<close>, with the addresses it probed.\<close>

primrec discover :: "'w prober \<Rightarrow> string list \<Rightarrow> 'w \<Rightarrow> (problem + string option) \<times> string list \<times> 'w" where
  "discover p [] w = (Inr None, [], w)"
| "discover p (b # bs) w =
     (if pb_secure p \<and> pb_parse p b = None then (Inl (Thrown TypeError), [], w)
      else if pb_secure p \<and> wu_protocol (the (pb_parse p b)) \<noteq> ''https:'' then discover p bs w
      else if pb_aborted p w then (Inr None, [], w)
      else case pb_fetch p b w of (r, w1) \<Rightarrow>
        if is_nanacoin r \<and> \<not> pb_aborted p w1 then (Inr (Some b), [b], w1)
        else case discover p bs w1 of (found, probed, w2) \<Rightarrow> (found, b # probed, w2))"

section \<open>The connect form\<close>

datatype diagnosis = Unknown | No_server | Unreadable_server

record connect_form =
  cf_base :: api_base
  cf_busy :: bool
  cf_message :: string
  cf_diagnosis :: diagnosis

definition NOT_FOUND :: string where
  "NOT_FOUND = ''No readable NanaCoin API found. Check power, Wi-Fi, certificate trust and browser network permissions, or enter its address above.''"

text \<open>Each handler also says whether it reported a connection.\<close>

definition search_server :: "'w prober \<Rightarrow> string \<Rightarrow> connect_form \<Rightarrow> 'w \<Rightarrow> bool \<times> connect_form \<times> 'w" where
  "search_server p meta f w =
     (if cf_busy f then (False, f, w)
      else let f1 = f\<lparr>cf_diagnosis := Unknown\<rparr> in
        case discover p (candidates (pb_parse p) (ab_current (cf_base f)) meta) w of (found, probed, w1) \<Rightarrow>
          if pb_aborted p w1 then (False, f1, w1)
          else case found of
            Inr (Some b) \<Rightarrow> (True, f1\<lparr>cf_base := set_base b\<rparr>, w1)
          | Inr None \<Rightarrow> (False, f1\<lparr>cf_message := NOT_FOUND\<rparr>, w1)
          | Inl _ \<Rightarrow> (False, f1, w1))"

text \<open>\<open>tryBase\<close>: the address is tried in place and put back when nothing there answers \<open>status\<close>.\<close>

definition try_base ::
  "(string \<Rightarrow> ('w, unit) call) \<Rightarrow> (string \<Rightarrow> 'w \<Rightarrow> bool \<times> 'w) \<Rightarrow> api_base \<Rightarrow> connect_form \<Rightarrow> 'w
     \<Rightarrow> bool \<times> connect_form \<times> 'w" where
  "try_base status reachable base f w =
     (case status (ab_current base) w of
        (Inr _, w1) \<Rightarrow> (True, f\<lparr>cf_diagnosis := Unknown, cf_base := base\<rparr>, w1)
      | (Inl _, w1) \<Rightarrow> (case reachable (ab_current base) w1 of (there, w2) \<Rightarrow>
          (False, f\<lparr>cf_diagnosis := (if there then Unreadable_server else No_server),
             cf_base := set_base (ab_current (cf_base f))\<rparr>, w2)))"

definition press_connect ::
  "(string \<Rightarrow> ('w, unit) call) \<Rightarrow> (string \<Rightarrow> 'w \<Rightarrow> bool \<times> 'w) \<Rightarrow> string \<Rightarrow> connect_form \<Rightarrow> 'w
     \<Rightarrow> bool \<times> connect_form \<times> 'w" where
  "press_connect status reachable address f w =
     (if cf_busy f \<or> trim address = [] then (False, f, w) else try_base status reachable (set_base (trim address)) f w)"

definition use_this_site ::
  "(string \<Rightarrow> ('w, unit) call) \<Rightarrow> (string \<Rightarrow> 'w \<Rightarrow> bool \<times> 'w) \<Rightarrow> connect_form \<Rightarrow> 'w \<Rightarrow> bool \<times> connect_form \<times> 'w" where
  "use_this_site status reachable f w = (if cf_busy f then (False, f, w) else try_base status reachable reset_base f w)"

section \<open>What a search finds\<close>

lemma once_set [simp]: "set (once xs) = set xs"
  by (induction xs) auto

lemma once_distinct: "distinct (once xs)"
  by (induction xs) auto

text \<open>What the search promises of the addresses it probed and of the one it answers with.\<close>

lemma discover_probes:
  assumes "discover p bs w = (r, probed, w')"
  shows "subseq probed bs" and "\<forall>b \<in> set probed. pb_secure p \<longrightarrow> (\<exists>u. pb_parse p b = Some u \<and> wu_protocol u = ''https:'')"
proof -
  have "subseq probed bs \<and> (\<forall>b \<in> set probed. pb_secure p \<longrightarrow> (\<exists>u. pb_parse p b = Some u \<and> wu_protocol u = ''https:''))"
    using assms by (induction bs arbitrary: r probed w w') (auto split: if_splits prod.splits)
  then show "subseq probed bs" "\<forall>b \<in> set probed. pb_secure p \<longrightarrow> (\<exists>u. pb_parse p b = Some u \<and> wu_protocol u = ''https:'')"
    by blast+
qed

lemma discover_found:
  assumes "discover p bs w = (Inr (Some b), probed, w')"
  shows "(\<exists>w1. is_nanacoin (fst (pb_fetch p b w1))) \<and> probed \<noteq> [] \<and> last probed = b \<and> \<not> pb_aborted p w'"
  using assms
proof (induction bs arbitrary: probed w w')
  case (Cons c bs)
  obtain r w1 where f: "pb_fetch p c w = (r, w1)" by fastforce
  obtain found ps w2 where d: "discover p bs w1 = (found, ps, w2)" by (cases "discover p bs w1")
  have "is_nanacoin r \<Longrightarrow> \<exists>v. is_nanacoin (fst (pb_fetch p c v))" using f by (intro exI [of _ w]) simp
  then show ?case using Cons.prems Cons.IH [of w probed w'] Cons.IH [of w1 ps w2]
    by (auto simp: f d split: if_splits)
qed simp

text \<open>A parser that reads back what \<open>href\<close> wrote; then a search never fails, and plain addresses are skipped.\<close>

definition reads_back :: "url_parser \<Rightarrow> bool" where
  "reads_back parse \<longleftrightarrow> (\<forall>s u b. parse s = Some u \<longrightarrow> wu_user u = [] \<longrightarrow> wu_password u = [] \<longrightarrow>
     (let v = (with_protocol ''https:'' u)\<lparr>wu_path := ''/api/v1''\<rparr>; v' = (if b then v else with_protocol ''http:'' v) in
      \<exists>t. parse (url_href v') = Some t \<and> wu_protocol t = wu_protocol v'))"

lemma candidate_parses:
  assumes "reads_back parse" and "b \<in> set (candidates parse current meta)"
  shows "\<exists>u. parse b = Some u"
proof -
  obtain raw where raw: "b \<in> set (candidate_urls parse raw)" using assms(2) by (auto simp: candidates_def)
  then obtain u where u: "parse (with_scheme raw) = Some u"
    by (cases "parse (with_scheme raw)") (auto simp: candidate_urls_def split: if_splits)
  let ?v = "(with_protocol ''https:'' u)\<lparr>wu_path := ''/api/v1''\<rparr>"
  have plain: "wu_user u = []" "wu_password u = []" and b: "b = url_href ?v \<or> b = url_href (with_protocol ''http:'' ?v)"
    using raw by (auto simp: candidate_urls_def u Let_def split: if_splits)
  from assms(1) u plain have "\<exists>t. parse (url_href (if c then ?v else with_protocol ''http:'' ?v)) = Some t" for c
    unfolding reads_back_def Let_def by blast
  from this [of True] this [of False] b show ?thesis by auto
qed

lemma discover_total:
  "\<forall>b \<in> set bs. \<exists>u. pb_parse p b = Some u \<Longrightarrow> \<exists>r probed w'. discover p bs w = (Inr r, probed, w')"
proof (induction bs arbitrary: w)
  case (Cons b bs)
  then obtain u where u: "pb_parse p b = Some u" by auto
  obtain r w1 where f: "pb_fetch p b w = (r, w1)" by fastforce
  obtain r1 p1 v1 where 1: "discover p bs w = (Inr r1, p1, v1)" using Cons by fastforce
  obtain r2 p2 v2 where 2: "discover p bs w1 = (Inr r2, p2, v2)" using Cons by fastforce
  show ?case by (simp add: u f 1 2)
qed simp

end
