(* ===== verification/Mastodon.thy ===== *)
theory Mastodon
  imports Discovery "HOL-Library.Multiset"
begin

text \<open>
  \<open>api/mastodon.ts\<close>: signing in to a Mastodon server (OAuth with PKCE, all in the browser) and sending direct
  messages there. The browser's URL parser, its \<open>fetch\<close>, random bytes and the NanaCoin service are arguments.
  What the theory ends with is the life of a browser as a step relation: a code is redeemed only with the server,
  verifier and person of a sign-in started here, and each sign-in at most once.
\<close>

section \<open>State\<close>

record sign_in =
  si_user :: string
  si_server :: string
  si_client :: string
  si_secret :: string
  si_redirect :: string
  si_verifier :: string
  si_state :: string

record credentials =
  cr_server :: string
  cr_client :: string
  cr_secret :: string
  cr_token :: string
  cr_acct :: string

text \<open>
  The two storages: the tab's pending sign-in (absent, unreadable, or one that was written), the credentials
  kept per person, the last server. An unreadable credential reads as none and is left out.
\<close>

datatype waiting = Nothing_pending | Unreadable | Awaiting sign_in

record mastodon =
  md_pending :: waiting
  md_credentials :: "(string \<times> credentials) list"
  md_last :: string

definition new_mastodon :: mastodon where
  "new_mastodon = \<lparr>md_pending = Nothing_pending, md_credentials = [], md_last = []\<rparr>"

definition credentials_of :: "mastodon \<Rightarrow> string option \<Rightarrow> credentials option" where
  "credentials_of m me = (if truthy_str me then map_of (md_credentials m) (the me) else None)"

definition md_connected :: "bool \<Rightarrow> string option \<Rightarrow> mastodon \<Rightarrow> bool" where
  "md_connected demo me m \<longleftrightarrow> \<not> demo \<and> credentials_of m me \<noteq> None"

definition md_account :: "string option \<Rightarrow> mastodon \<Rightarrow> string option" where
  "md_account me m = map_option cr_acct (credentials_of m me)"

definition md_server :: "string option \<Rightarrow> mastodon \<Rightarrow> string option" where
  "md_server me m = map_option cr_server (credentials_of m me)"

section \<open>Requests to a Mastodon server\<close>

record outgoing =
  og_url :: string
  og_bearer :: "string option"
  og_key :: "string option"
  og_fields :: "(string \<times> string) list"

text \<open>No answer, an answer that is fine, one that is not; a body that is not JSON is \<open>None\<close>.\<close>

datatype fetched = No_answer | Fine "json option" | Status nat "json option"

type_synonym 'w fetch = "outgoing \<Rightarrow> 'w \<Rightarrow> fetched \<times> 'w"

definition post_form :: "string \<Rightarrow> (string \<times> string) list \<Rightarrow> outgoing" where
  "post_form url fs = \<lparr>og_url = url, og_bearer = None, og_key = None, og_fields = fs\<rparr>"

definition unreachable :: "string \<Rightarrow> string" where
  "unreachable host = ''Could not reach '' @ host @ ''. Check the name and that it is switched on. If it is a household server with its own certificate, open http://'' @ host @ ''/trust on this device to trust it, then try again.''"

definition NOT_JSON :: problem where "NOT_JSON = Thrown (PlainError ''SyntaxError'')"

text \<open>\<open>reach\<close> and \<open>responseJson\<close>; the text of the JSON parser's own error is not the program's.\<close>

definition reach_json :: "url_parser \<Rightarrow> 'w fetch \<Rightarrow> string \<Rightarrow> outgoing \<Rightarrow> 'w \<Rightarrow> (problem + json) \<times> 'w" where
  "reach_json parse fetch server rq w = (case fetch rq w of
     (No_answer, w') \<Rightarrow> (Inl (Thrown (case parse server of None \<Rightarrow> TypeError
        | Some u \<Rightarrow> PlainError (unreachable (host_text u)))), w')
   | (Fine (Some j), w') \<Rightarrow> (Inr j, w')
   | (Fine None, w') \<Rightarrow> (Inl NOT_JSON, w')
   | (Status n body, w') \<Rightarrow> (Inl (Thrown (PlainError (
        let told = (\<lambda>k. case body of None \<Rightarrow> [] | Some j \<Rightarrow> json_text (json_get j k)) in
        if told ''error_description'' \<noteq> [] then told ''error_description''
        else if told ''error'' \<noteq> [] then told ''error''
        else ''Mastodon returned '' @ show_nat n @ ''.''))), w'))"

text \<open>A member that should be text and is missing is printed as \<open>undefined\<close> wherever it is used.\<close>

definition text_member :: "json \<Rightarrow> string \<Rightarrow> string" where
  "text_member j k = (case json_get j k of Some (JStr s) \<Rightarrow> s | _ \<Rightarrow> ''undefined'')"

section \<open>Connecting\<close>

definition normalize_server :: "url_parser \<Rightarrow> string \<Rightarrow> problem + string" where
  "normalize_server parse v = (let entered = strip_slashes (trim v) in
     if entered = [] then Inl (Thrown (PlainError ''Enter your Mastodon server.''))
     else case parse (with_scheme entered) of None \<Rightarrow> Inl (Thrown TypeError)
     | Some u \<Rightarrow>
         if wu_protocol u \<notin> {''http:'', ''https:''} \<or> wu_user u \<noteq> [] \<or> wu_password u \<noteq> [] \<or> wu_path u \<noteq> ''/''
         then Inl (Thrown (PlainError ''Enter a Mastodon server such as mastodon.social.''))
         else Inr (url_origin u))"

text \<open>\<open>URLSearchParams.toString\<close>.\<close>

definition form_char :: "char \<Rightarrow> string" where
  "form_char c = (if is_letter c \<or> is_digit c \<or> c \<in> set ''*-._'' then [c]
     else if c = CHR '' '' then ''+'' else concat (map percent (utf8_char c)))"

definition form_text :: "string \<Rightarrow> string" where
  "form_text s = concat (map form_char s)"

definition form_pair :: "string \<times> string \<Rightarrow> string" where
  "form_pair kv = form_text (fst kv) @ ''='' @ form_text (snd kv)"

fun form_query :: "(string \<times> string) list \<Rightarrow> string" where
  "form_query [] = []"
| "form_query [kv] = form_pair kv"
| "form_query (kv # rest) = form_pair kv @ ''&'' @ form_query rest"

definition SCOPES :: string where "SCOPES = ''read:accounts write:statuses''"

definition apps_request :: "string \<Rightarrow> string \<Rightarrow> outgoing" where
  "apps_request server redirect = post_form (server @ ''/api/v1/apps'')
     [(''client_name'', ''NanaCoin''), (''redirect_uris'', redirect), (''scopes'', SCOPES),
      (''website'', ''https://github.com/matthewdeanmartin/nanacoin'')]"

definition challenge_of :: "string \<Rightarrow> string" where
  "challenge_of verifier = base64url (digest_sha256 (utf8_bytes verifier))"

definition authorize_url :: "sign_in \<Rightarrow> string" where
  "authorize_url p = si_server p @ ''/oauth/authorize?'' @ form_query
     [(''client_id'', si_client p), (''redirect_uri'', si_redirect p), (''response_type'', ''code''), (''scope'', SCOPES),
      (''state'', si_state p), (''code_challenge'', challenge_of (si_verifier p)), (''code_challenge_method'', ''S256'')]"

text \<open>\<open>connect\<close> ends by leaving the page for the address it answers with (\<open>None\<close> in the demo, which only says so).\<close>

definition md_connect ::
  "bool \<Rightarrow> url_parser \<Rightarrow> 'w fetch \<Rightarrow> string option \<Rightarrow> string \<Rightarrow> byte list \<Rightarrow> byte list \<Rightarrow> string \<Rightarrow> mastodon \<Rightarrow> 'w
     \<Rightarrow> (problem + string option) \<times> mastodon \<times> 'w" where
  "md_connect demo parse fetch me redirect verifier state entry m w =
     (if demo then (Inr None, m, w)
      else if \<not> truthy_str me then (Inl (Thrown (PlainError ''Sign in to NanaCoin first.'')), m, w)
      else case normalize_server parse entry of
        Inl e \<Rightarrow> (Inl e, m, w)
      | Inr server \<Rightarrow> (case reach_json parse fetch server (apps_request server redirect) w of
          (Inl e, w1) \<Rightarrow> (Inl e, m, w1)
        | (Inr app, w1) \<Rightarrow>
            let p = \<lparr>si_user = the me, si_server = server, si_client = text_member app ''client_id'',
                     si_secret = (case json_get app ''client_secret'' of Some (JStr s) \<Rightarrow> s | _ \<Rightarrow> []), si_redirect = redirect,
                     si_verifier = base64url verifier, si_state = base64url state\<rparr> in
            (Inr (Some (authorize_url p)),
             m\<lparr>md_pending := Awaiting p, md_last := (case parse server of Some u \<Rightarrow> host_text u | None \<Rightarrow> md_last m)\<rparr>, w1)))"

section \<open>Coming back\<close>

definition token_form :: "sign_in \<Rightarrow> string \<Rightarrow> outgoing" where
  "token_form p code = post_form (si_server p @ ''/oauth/token'')
     [(''grant_type'', ''authorization_code''), (''code'', code), (''client_id'', si_client p),
      (''client_secret'', si_secret p), (''redirect_uri'', si_redirect p), (''code_verifier'', si_verifier p), (''scope'', SCOPES)]"

definition verify_request :: "sign_in \<Rightarrow> string \<Rightarrow> outgoing" where
  "verify_request p token = \<lparr>og_url = si_server p @ ''/api/v1/accounts/verify_credentials'',
     og_bearer = Some token, og_key = None, og_fields = []\<rparr>"

text \<open>The comparison that looks at every character; the lengths are equal by then.\<close>

definition mismatch :: "string \<Rightarrow> string \<Rightarrow> nat" where
  "mismatch a b = foldl (\<lambda>x (c, d). or x (xor (of_char c) (of_char d))) 0 (zip a b)"

definition refused_sign_in :: "string option \<Rightarrow> string \<Rightarrow> waiting \<Rightarrow> string + sign_in" where
  "refused_sign_in me returned held = (case held of
     Nothing_pending \<Rightarrow> Inl ''That Mastodon sign-in has expired. Start again.''
   | Unreadable \<Rightarrow> Inl ''That Mastodon sign-in could not be read. Start again.''
   | Awaiting p \<Rightarrow>
       if si_state p = [] \<or> length (si_state p) \<noteq> length returned then Inl ''Mastodon sign-in state did not match.''
       else if mismatch (si_state p) returned \<noteq> 0 \<or> Some (si_user p) \<noteq> me
       then Inl ''Mastodon sign-in did not match this NanaCoin user.''
       else Inr p)"

definition full_acct :: "url_parser \<Rightarrow> sign_in \<Rightarrow> json \<Rightarrow> problem + string" where
  "full_acct parse p account = (case parse (si_server p) of None \<Rightarrow> Inl (Thrown TypeError)
     | Some u \<Rightarrow> (case json_get account ''acct'' of
         Some (JStr a) \<Rightarrow> Inr (CHR ''@'' # (if CHR ''@'' \<in> set a then a else a @ CHR ''@'' # host_text u))
       | _ \<Rightarrow> Inl (Thrown TypeError)))"

text \<open>\<open>finish\<close>: whatever happens, the sign-in is no longer pending.\<close>

definition md_finish ::
  "bool \<Rightarrow> url_parser \<Rightarrow> 'w fetch \<Rightarrow> (string \<Rightarrow> string \<Rightarrow> ('w, unit) call) \<Rightarrow> ('w, unit) call \<Rightarrow> string option
     \<Rightarrow> string \<Rightarrow> string \<Rightarrow> mastodon \<Rightarrow> 'w \<Rightarrow> (problem + string) \<times> mastodon \<times> 'w" where
  "md_finish demo parse fetch register reload me code returned m w =
     (let m1 = m\<lparr>md_pending := Nothing_pending\<rparr> in
      if demo then (Inl (Thrown (PlainError ''mastodon connection disabled in demo mode'')), m1, w)
      else case refused_sign_in me returned (md_pending m) of
        Inl e \<Rightarrow> (Inl (Thrown (PlainError e)), m1, w)
      | Inr p \<Rightarrow> (case reach_json parse fetch (si_server p) (token_form p code) w of
          (Inl e, w1) \<Rightarrow> (Inl e, m1, w1)
        | (Inr token, w1) \<Rightarrow>
            let t = text_member token ''access_token'' in
            (case reach_json parse fetch (si_server p) (verify_request p t) w1 of
              (Inl e, w2) \<Rightarrow> (Inl e, m1, w2)
            | (Inr account, w2) \<Rightarrow> (case full_acct parse p account of
                Inl e \<Rightarrow> (Inl e, m1, w2)
              | Inr acct \<Rightarrow> (case register (si_user p) acct w2 of
                  (Inl e, w3) \<Rightarrow> (Inl e, m1, w3)
                | (Inr _, w3) \<Rightarrow>
                    let m2 = m1\<lparr>md_credentials := AList.update (si_user p) \<lparr>cr_server = si_server p, cr_client = si_client p,
                      cr_secret = si_secret p, cr_token = t, cr_acct = acct\<rparr> (md_credentials m1)\<rparr> in
                    (case reload w3 of (Inl e, w4) \<Rightarrow> (Inl e, m2, w4) | (Inr _, w4) \<Rightarrow> (Inr acct, m2, w4)))))))"

definition md_disconnect :: "string option \<Rightarrow> mastodon \<Rightarrow> mastodon" where
  "md_disconnect me m = (if truthy_str me then m\<lparr>md_credentials := AList.delete (the me) (md_credentials m)\<rparr> else m)"

section \<open>Messages\<close>

definition share_url :: "string option \<Rightarrow> mastodon \<Rightarrow> string \<Rightarrow> string" where
  "share_url me m text = (case md_server me m of Some s \<Rightarrow> s | None \<Rightarrow> ''https://mastodon.social'')
     @ ''/share?'' @ form_query [(''text'', text)]"

text \<open>\<open>handle\<close> is the member's registered Mastodon ID, if any.\<close>

definition send_direct ::
  "url_parser \<Rightarrow> 'w fetch \<Rightarrow> (user_view \<Rightarrow> string option) \<Rightarrow> string option \<Rightarrow> byte list \<Rightarrow> user_view \<Rightarrow> string
     \<Rightarrow> mastodon \<Rightarrow> ('w, unit) call" where
  "send_direct parse fetch handle me key u message m w = (case credentials_of m me of
     None \<Rightarrow> (Inl (Thrown (PlainError ''Connect your Mastodon account first.'')), w)
   | Some c \<Rightarrow>
       if \<not> truthy_str (handle u)
       then (Inl (Thrown (PlainError (uv_display_name u @ '' has no registered Mastodon ID.''))), w)
       else if trim message = [] then (Inl (Thrown (PlainError ''Write a message first.'')), w)
       else case reach_json parse fetch (cr_server c)
           \<lparr>og_url = cr_server c @ ''/api/v1/statuses'', og_bearer = Some (cr_token c), og_key = Some (base64url key),
            og_fields = [(''status'', the (handle u) @ '' '' @ trim message), (''visibility'', ''direct'')]\<rparr> w of
         (Inl e, w') \<Rightarrow> (Inl e, w') | (Inr _, w') \<Rightarrow> (Inr (), w'))"

section \<open>The sign-ins of a browser\<close>

text \<open>The browser, what it sent (the server's answers are \<open>ms_answers\<close>), and the sign-ins started so far.\<close>

record browser =
  br_state :: mastodon
  br_sent :: "outgoing list"
  br_started :: "sign_in list"

definition recorded :: "(nat \<Rightarrow> fetched) \<Rightarrow> (outgoing list) fetch" where
  "recorded answers rq sent = (answers (length sent), sent @ [rq])"

definition quiet_call :: "problem option \<Rightarrow> ('w, unit) call" where
  "quiet_call e w = ((case e of None \<Rightarrow> Inr () | Some p \<Rightarrow> Inl p), w)"

inductive md_step :: "url_parser \<Rightarrow> (nat \<Rightarrow> fetched) \<Rightarrow> browser \<Rightarrow> browser \<Rightarrow> bool"
  for parse answers where
  connect: "md_connect False parse (recorded answers) me redirect verifier state entry (br_state b) (br_sent b) = (r, m, sent) \<Longrightarrow>
    md_step parse answers b \<lparr>br_state = m, br_sent = sent,
      br_started = br_started b @ (case (r, md_pending m) of (Inr _, Awaiting p) \<Rightarrow> [p] | _ \<Rightarrow> [])\<rparr>"
| finish: "md_finish False parse (recorded answers) (\<lambda>_ _. quiet_call e1) (quiet_call e2) me code returned (br_state b) (br_sent b)
      = (r, m, sent) \<Longrightarrow>
    md_step parse answers b (b\<lparr>br_state := m, br_sent := sent\<rparr>)"
| disconnect: "md_step parse answers b (b\<lparr>br_state := md_disconnect me (br_state b)\<rparr>)"

inductive md_reaches :: "url_parser \<Rightarrow> (nat \<Rightarrow> fetched) \<Rightarrow> browser \<Rightarrow> bool"
  for parse answers where
  start: "md_reaches parse answers \<lparr>br_state = new_mastodon, br_sent = [], br_started = []\<rparr>"
| step: "md_reaches parse answers b \<Longrightarrow> md_step parse answers b b' \<Longrightarrow> md_reaches parse answers b'"

text \<open>The sign-ins whose code was sent to a server, as the requests show, and the one still waiting.\<close>

definition is_token_form :: "outgoing \<Rightarrow> bool" where
  "is_token_form rq \<longleftrightarrow> (case og_fields rq of (k, v) # _ \<Rightarrow> k = ''grant_type'' | [] \<Rightarrow> False)"

definition waiting_list :: "mastodon \<Rightarrow> sign_in list" where
  "waiting_list m = (case md_pending m of Awaiting p \<Rightarrow> [p] | _ \<Rightarrow> [])"

definition redeemed :: "(sign_in \<times> string) list \<Rightarrow> outgoing list \<Rightarrow> bool" where
  "redeemed pcs sent \<longleftrightarrow> filter is_token_form sent = map (\<lambda>(p, code). token_form p code) pcs"

definition md_inv :: "browser \<Rightarrow> bool" where
  "md_inv b \<longleftrightarrow> (\<exists>pcs. redeemed pcs (br_sent b)
       \<and> mset (map fst pcs) + mset (waiting_list (br_state b)) \<subseteq># mset (br_started b))
     \<and> (\<forall>(u, c) \<in> set (md_credentials (br_state b)). \<exists>p \<in> set (br_started b).
          si_user p = u \<and> cr_server c = si_server p \<and> cr_client c = si_client p)"

lemma set_update_pair: "(u, c) \<in> set (AList.update k d xs) \<Longrightarrow> (u, c) \<in> set xs \<or> (u = k \<and> c = d)"
  by (induction xs) (auto split: if_splits)

lemma set_delete_sub: "set (AList.delete k xs) \<subseteq> set xs"
  by (simp add: AList.delete_eq)

lemma xor_zero: "xor x y = 0 \<longleftrightarrow> x = (y :: nat)"
proof
  assume "xor x y = 0"
  then have "xor (xor x y) y = y" by simp
  then show "x = y" by (simp add: ac_simps)
qed simp

lemma mismatch_zero: "length a = length b \<Longrightarrow> mismatch a b = 0 \<longleftrightarrow> a = b"
proof -
  have "foldl (\<lambda>x (c, d). or x (xor (of_char c) (of_char d))) n (zip a b) = (0::nat) \<longleftrightarrow> n = 0 \<and> a = b"
    if "length a = length b" for n and a b :: string
    using that by (induction a b arbitrary: n rule: list_induct2) (auto simp: or_eq_0_iff xor_zero)
  then show "length a = length b \<Longrightarrow> mismatch a b = 0 \<longleftrightarrow> a = b" by (simp add: mismatch_def)
qed

lemma refused_sign_in_Inr:
  "refused_sign_in me returned held = Inr p \<longleftrightarrow>
     held = Awaiting p \<and> si_state p \<noteq> [] \<and> si_state p = returned \<and> me = Some (si_user p)"
  by (cases held) (auto simp: refused_sign_in_def mismatch_zero)

section \<open>Each sign-in is redeemed at most once\<close>

lemma reach_sent:
  "reach_json parse (recorded answers) server rq sent = (r, sent') \<Longrightarrow> sent' = sent @ [rq]"
  by (auto simp: reach_json_def recorded_def split: fetched.splits option.splits)

lemma not_token_form [simp]:
  "\<not> is_token_form (apps_request s r)" "\<not> is_token_form (verify_request p t)" "is_token_form (token_form p code)"
  by (simp_all add: is_token_form_def apps_request_def verify_request_def token_form_def post_form_def)

text \<open>The credentials a redeemed sign-in may add.\<close>

definition credited :: "sign_in \<Rightarrow> (string \<times> credentials) list \<Rightarrow> (string \<times> credentials) list \<Rightarrow> bool" where
  "credited p cs cs' \<longleftrightarrow> cs' = cs \<or> (\<exists>c. cr_server c = si_server p \<and> cr_client c = si_client p
     \<and> cs' = AList.update (si_user p) c cs)"

lemma creditedI [simp]:
  "credited p cs cs"
  "cr_server c = si_server p \<Longrightarrow> cr_client c = si_client p \<Longrightarrow> credited p cs (AList.update (si_user p) c cs)"
  by (auto simp: credited_def)

lemma creditedD:
  assumes "credited p cs cs'" and "(u, c) \<in> set cs'"
  shows "(u, c) \<in> set cs \<or> (u = si_user p \<and> cr_server c = si_server p \<and> cr_client c = si_client p)"
proof (cases "cs' = cs")
  case False
  then obtain d where d: "cr_server d = si_server p" "cr_client d = si_client p" "cs' = AList.update (si_user p) d cs"
    using assms(1) by (auto simp: credited_def)
  have "(u, c) \<in> set cs \<or> (u = si_user p \<and> c = d)" using assms(2) unfolding d(3) by (rule set_update_pair)
  with d(1,2) show ?thesis by auto
qed (use assms(2) in simp)

lemma connect_sent:
  assumes "md_connect False parse (recorded answers) me redirect verifier state entry m sent = (r, m', sent')"
  shows "filter is_token_form sent' = filter is_token_form sent \<and> md_credentials m' = md_credentials m
    \<and> ((\<exists>e. r = Inl e \<and> m' = m) \<or> (\<exists>url p. r = Inr (Some url) \<and> md_pending m' = Awaiting p))"
  using assms by (auto simp: md_connect_def Let_def split: if_splits sum.splits prod.splits dest!: reach_sent)

lemma finish_sent:
  assumes "md_finish False parse (recorded answers) (\<lambda>_ _. quiet_call e1) (quiet_call e2) me code returned m sent = (r, m', sent')"
  shows "md_pending m' = Nothing_pending \<and>
    ((filter is_token_form sent' = filter is_token_form sent \<and> md_credentials m' = md_credentials m)
     \<or> (\<exists>p. md_pending m = Awaiting p \<and> me = Some (si_user p) \<and> returned = si_state p
          \<and> filter is_token_form sent' = filter is_token_form sent @ [token_form p code]
          \<and> credited p (md_credentials m) (md_credentials m')))"
proof (cases "refused_sign_in me returned (md_pending m)")
  case (Inl e)
  with assms show ?thesis by (auto simp: md_finish_def Let_def)
next
  case (Inr p)
  note p = Inr [unfolded refused_sign_in_Inr]
  have "md_pending m' = Nothing_pending \<and> filter is_token_form sent' = filter is_token_form sent @ [token_form p code]
      \<and> credited p (md_credentials m) (md_credentials m')"
    using assms by (auto simp: md_finish_def Let_def Inr quiet_call_def split: sum.splits prod.splits option.splits dest!: reach_sent)
  with p show ?thesis by blast
qed

lemma md_step_inv:
  assumes "md_step parse answers b b'" and "md_inv b"
  shows "md_inv b'"
proof -
  obtain pcs where pcs: "redeemed pcs (br_sent b)" "mset (map fst pcs) + mset (waiting_list (br_state b)) \<subseteq># mset (br_started b)"
    and creds: "\<forall>(u, c) \<in> set (md_credentials (br_state b)). \<exists>p \<in> set (br_started b).
        si_user p = u \<and> cr_server c = si_server p \<and> cr_client c = si_client p"
    using assms(2) unfolding md_inv_def by blast
  from assms(1) show ?thesis
  proof cases
    case (connect me redirect verifier state entry r m sent)
    note c = connect_sent [OF connect(2)]
    show ?thesis
    proof (cases r)
      case (Inl e)
      then have "m = br_state b" using c by auto
      with Inl c pcs creds show ?thesis by (auto simp: md_inv_def connect(1) redeemed_def)
    next
      case (Inr u)
      then obtain p where p: "md_pending m = Awaiting p" using c by auto
      have "mset (map fst pcs) \<subseteq># mset (br_started b)" using pcs(2) by (meson mset_subset_eq_add_left subset_mset.order_trans)
      then have "mset (map fst pcs) + mset (waiting_list m) \<subseteq># mset (br_started b @ [p])"
        by (simp add: waiting_list_def p)
      with Inr p c pcs(1) creds show ?thesis
        by (auto simp: md_inv_def connect(1) redeemed_def intro!: exI [of _ pcs])
    qed
  next
    case (finish e1 e2 me code returned r m sent)
    note f = finish_sent [OF finish(2)]
    then consider (kept) "filter is_token_form sent = filter is_token_form (br_sent b)" "md_credentials m = md_credentials (br_state b)"
      | (redeem) p where "md_pending (br_state b) = Awaiting p"
          "filter is_token_form sent = filter is_token_form (br_sent b) @ [token_form p code]"
          "credited p (md_credentials (br_state b)) (md_credentials m)"
      by blast
    then show ?thesis
    proof cases
      case kept
      have "mset (map fst pcs) \<subseteq># mset (br_started b)" using pcs(2) by (meson mset_subset_eq_add_left subset_mset.order_trans)
      with kept f pcs(1) creds show ?thesis
        by (auto simp: md_inv_def finish(1) redeemed_def waiting_list_def intro!: exI [of _ pcs])
    next
      case (redeem p)
      have started: "p \<in> set (br_started b)" using pcs(2) redeem(1)
        by (auto simp: waiting_list_def dest: mset_subset_eqD)
      have "redeemed (pcs @ [(p, code)]) sent" using pcs(1) redeem(2) by (simp add: redeemed_def)
      moreover have "mset (map fst (pcs @ [(p, code)])) + mset (waiting_list m) \<subseteq># mset (br_started b)"
        using pcs(2) redeem(1) f by (simp add: waiting_list_def)
      moreover have "\<exists>q \<in> set (br_started b). si_user q = u \<and> cr_server c = si_server q \<and> cr_client c = si_client q"
        if "(u, c) \<in> set (md_credentials m)" for u c
        using creditedD [OF redeem(3) that] creds started by blast
      ultimately show ?thesis unfolding md_inv_def finish(1) by auto
    qed
  next
    case (disconnect me)
    have "waiting_list (md_disconnect me (br_state b)) = waiting_list (br_state b)"
      "set (md_credentials (md_disconnect me (br_state b))) \<subseteq> set (md_credentials (br_state b))"
      using set_delete_sub [of "the me" "md_credentials (br_state b)"] by (auto simp: md_disconnect_def waiting_list_def)
    with pcs creds show ?thesis unfolding md_inv_def disconnect by auto
  qed
qed

lemma md_reaches_inv: "md_reaches parse answers b \<Longrightarrow> md_inv b"
proof (induction rule: md_reaches.induct)
  case start
  show ?case by (auto simp: md_inv_def redeemed_def new_mastodon_def waiting_list_def intro!: exI [of _ "[]"])
next
  case (step b b')
  then show ?case using md_step_inv by blast
qed

end
