(* ===== verification/LineChart.thy ===== *)
theory LineChart
  imports ChartSeries Pages
begin

text \<open>
  \<open>economy/line-chart.ts\<close>: the geometry of a chart, with every division and product rounded as a double. The
  drawing itself is markup; a path is the list of its points, a tick's label the number it shows. Whatever the
  values, and however they round, no point is drawn outside the plot, later points are never to the left of
  earlier ones and higher values never below lower ones; the readout names a moment nearest to the pointer.
\<close>

section \<open>Rounding keeps the order\<close>

lemma rne_mono: "x \<le> y \<Longrightarrow> rne x \<le> rne y"
proof -
  assume le: "x \<le> y"
  show ?thesis
  proof (cases "\<lfloor>x\<rfloor> = \<lfloor>y\<rfloor>")
    case True
    with le show ?thesis by (auto simp: rne_def Let_def)
  next
    case False
    then have "\<lfloor>x\<rfloor> + 1 \<le> \<lfloor>y\<rfloor>" using floor_mono [OF le] by linarith
    moreover have "rne x \<le> \<lfloor>x\<rfloor> + 1" "\<lfloor>y\<rfloor> \<le> rne y" by (auto simp: rne_def Let_def)
    ultimately show ?thesis by linarith
  qed
qed

lemma ilog2_mono:
  assumes "0 < x" and "x \<le> y"
  shows "ilog2 x \<le> ilog2 y"
proof -
  have "2 powi ilog2 x \<le> x" "y < 2 powi (ilog2 y + 1)" using assms by (simp_all add: ilog2_bounds)
  then have "(2::rat) powi ilog2 x < 2 powi (ilog2 y + 1)" using assms(2) by linarith
  from powi2_less_imp [OF this] show ?thesis by linarith
qed

lemma fl_mono_pos:
  assumes "0 < x" and "x \<le> y"
  shows "fl x \<le> fl y"
proof -
  have y: "0 < y" using assms by linarith
  define u v where "u = ilog2 x - 52" and "v = ilog2 y - 52"
  have f: "fl x = of_int (rne (x / 2 powi u)) * 2 powi u" "fl y = of_int (rne (y / 2 powi v)) * 2 powi v"
    using assms(1) y by (simp_all add: fl_def Let_def u_def v_def)
  have bx: "x / 2 powi u \<le> of_int 9007199254740992" using scaled_bounds [OF assms(1)] by (simp add: u_def)
  have "of_int 4503599627370496 \<le> y / 2 powi v" using scaled_bounds [OF y] by (simp add: v_def)
  from rne_ge [OF this] have hy: "(4503599627370496 :: rat) \<le> of_int (rne (y / 2 powi v))" by linarith
  show ?thesis
  proof (cases "u = v")
    case True
    have "x / 2 powi v \<le> y / 2 powi v" using assms(2) by (intro divide_right_mono) simp_all
    from rne_mono [OF this] show ?thesis unfolding f True by (intro mult_right_mono) simp_all
  next
    case False
    then have uv: "u + 1 \<le> v" using ilog2_mono [OF assms] by (simp add: u_def v_def)
    have "(of_int (rne (x / 2 powi u)) :: rat) \<le> 9007199254740992" using rne_le [OF bx] by linarith
    then have "fl x \<le> 9007199254740992 * 2 powi u" unfolding f by (intro mult_right_mono) simp_all
    also have "\<dots> = 4503599627370496 * 2 powi (u + 1)" by (simp add: power_int_add)
    also have "\<dots> \<le> 4503599627370496 * 2 powi v" using uv by (intro mult_left_mono power_int_increasing) simp_all
    also have "\<dots> \<le> fl y" unfolding f using hy by (intro mult_right_mono) simp_all
    finally show ?thesis .
  qed
qed

lemma fl_mono: "x \<le> y \<Longrightarrow> fl x \<le> fl y"
proof -
  assume le: "x \<le> y"
  consider "0 < x" | "x \<le> 0" "0 \<le> y" | "y < 0" by linarith
  then show ?thesis
  proof cases
    case 1
    with le show ?thesis by (simp add: fl_mono_pos)
  next
    case 2
    then have "fl x \<le> 0" "0 \<le> fl y" using fl_gr_0_iff [of x] by (auto simp: not_less simp del: fl_gr_0_iff) 
    then show ?thesis by linarith
  next
    case 3
    with le have "fl (- y) \<le> fl (- x)" by (intro fl_mono_pos) auto
    then show ?thesis by simp
  qed
qed

section \<open>The plot\<close>

definition W :: num where "W = 720"
definition H :: num where "H = 240"
definition PAD_TOP :: num where "PAD_TOP = 16"
definition PAD_RIGHT :: num where "PAD_RIGHT = 16"
definition PAD_BOTTOM :: num where "PAD_BOTTOM = 28"
definition PAD_LEFT :: num where "PAD_LEFT = 52"

lemmas plot_defs = W_def H_def PAD_TOP_def PAD_RIGHT_def PAD_BOTTOM_def PAD_LEFT_def

definition SERIES_COLOURS :: "string list" where
  "SERIES_COLOURS = [''#2a78d6'', ''#eb6834'', ''#1baf7a'', ''#eda100'', ''#e87ba4'', ''#008300'']"

record chart =
  ch_series :: "series list"
  ch_zero :: bool

definition chart_empty :: "chart \<Rightarrow> bool" where
  "chart_empty c \<longleftrightarrow> list_all (\<lambda>s. sr_points s = []) (ch_series c)"

definition chart_points :: "chart \<Rightarrow> point list" where
  "chart_points c = concat (map sr_points (ch_series c))"

definition chart_times :: "chart \<Rightarrow> int list" where
  "chart_times c = sort (remdups (map pt_at (chart_points c)))"

record bounds =
  bd_t0 :: int
  bd_t1 :: int
  bd_min :: num
  bd_max :: num

definition chart_bounds :: "chart \<Rightarrow> bounds" where
  "chart_bounds c =
     (let ts = chart_times c; vs = map pt_value (chart_points c);
          lo = (if vs = [] then 0 else Min (set vs)); hi = (if vs = [] then 0 else Max (set vs));
          lo1 = (if ch_zero c then min lo 0 else lo); hi1 = (if ch_zero c then max hi 0 else hi);
          (lo2, hi2) = (if lo1 = hi1 then (js_sub lo1 1, js_add hi1 1) else (lo1, hi1)) in
      \<lparr>bd_t0 = (if ts = [] then 0 else hd ts), bd_t1 = (if ts = [] then 1 else last ts), bd_min = lo2, bd_max = hi2\<rparr>)"

text \<open>\<open>x\<close> of a moment, at place \<open>i\<close> of \<open>n\<close> in its own series; \<open>y\<close> of a value.\<close>

definition plot_x :: "chart \<Rightarrow> int \<Rightarrow> nat \<Rightarrow> nat \<Rightarrow> num" where
  "plot_x c t i n =
     (let b = chart_bounds c; plot = W - PAD_LEFT - PAD_RIGHT; span = bd_t1 b - bd_t0 b in
      if span > 0 then js_add PAD_LEFT (js_mul (js_div (of_int (t - bd_t0 b)) (of_int span)) plot)
      else if n \<le> 1 then js_add PAD_LEFT (js_div plot 2)
      else js_add PAD_LEFT (js_mul (js_div (of_nat i) (of_nat (n - 1))) plot))"

definition plot_y :: "chart \<Rightarrow> num \<Rightarrow> num" where
  "plot_y c v =
     (let b = chart_bounds c; d = js_sub (bd_max b) (bd_min b); span = (if d = 0 then 1 else d) in
      js_sub (H - PAD_BOTTOM) (js_mul (js_div (js_sub v (bd_min b)) span) (H - PAD_TOP - PAD_BOTTOM)))"

record chart_line =
  ln_name :: string
  ln_color :: string
  ln_path :: "(num \<times> num) list"
  ln_end :: "(num \<times> num \<times> num) option"

definition line_points :: "chart \<Rightarrow> series \<Rightarrow> (num \<times> num \<times> num) list" where
  "line_points c s = map (\<lambda>(j, p). (plot_x c (pt_at p) j (length (sr_points s)), plot_y c (pt_value p), pt_value p))
     (enumerate 0 (sr_points s))"

definition chart_line_of :: "chart \<Rightarrow> nat \<Rightarrow> series \<Rightarrow> chart_line" where
  "chart_line_of c i s =
     (let ps = line_points c s in
      \<lparr>ln_name = sr_name s, ln_color = SERIES_COLOURS ! (i mod length SERIES_COLOURS),
       ln_path = (case ps of [(x, y, _)] \<Rightarrow> [(js_sub x 12, y), (js_add x 12, y)] | _ \<Rightarrow> map (\<lambda>(x, y, _). (x, y)) ps),
       ln_end = at_last ps\<rparr>)"

definition chart_lines :: "chart \<Rightarrow> chart_line list" where
  "chart_lines c = map (\<lambda>(i, s). chart_line_of c i s) (enumerate 0 (ch_series c))"

text \<open>\<open>round\<close>: a whole number, or tenths of a thousand.\<close>

datatype tick_label = Whole int | Tenths_k int

definition tick_text :: "num \<Rightarrow> tick_label" where
  "tick_text v = (if \<bar>v\<bar> \<ge> 1000 then Tenths_k (js_round (js_div v 100)) else Whole (js_round v))"

definition y_ticks :: "chart \<Rightarrow> (num \<times> num \<times> tick_label) list" where
  "y_ticks c = (let b = chart_bounds c in
     map (\<lambda>i. let v = js_add (bd_min b) (js_div (js_mul (js_sub (bd_max b) (bd_min b)) (of_nat i)) 4) in
       (v, plot_y c v, tick_text v)) [0..<5])"

text \<open>The table's cells and the summary for a screen reader: the first point of a moment, or none.\<close>

definition point_of :: "int \<Rightarrow> series \<Rightarrow> num option" where
  "point_of t s = map_option pt_value (find (\<lambda>p. pt_at p = t) (sr_points s))"

definition table_rows :: "chart \<Rightarrow> (int \<times> num option list) list" where
  "table_rows c = map (\<lambda>t. (t, map (point_of t) (ch_series c))) (chart_times c)"

definition chart_ends :: "chart \<Rightarrow> (string \<times> (num \<times> num) option) list" where
  "chart_ends c = map (\<lambda>s. (sr_name s, if sr_points s = [] then None
     else Some (pt_value (hd (sr_points s)), pt_value (last (sr_points s))))) (ch_series c)"

section \<open>The readout\<close>

record readout =
  ro_x :: num
  ro_at :: int
  ro_rows :: "(string \<times> string \<times> num) list"

definition distance_to :: "chart \<Rightarrow> num \<Rightarrow> int \<Rightarrow> num" where
  "distance_to c vx t = \<bar>js_sub (plot_x c t 0 1) vx\<bar>"

definition nearest_time :: "chart \<Rightarrow> num \<Rightarrow> int \<Rightarrow> int list \<Rightarrow> int" where
  "nearest_time c vx t0 ts = foldl (\<lambda>best t. if distance_to c vx t < distance_to c vx best then t else best) t0 ts"

text \<open>\<open>onMove\<close>: where the pointer is and how wide the drawing is on the screen; \<open>None\<close> changes nothing.\<close>

definition on_move :: "chart \<Rightarrow> num \<Rightarrow> num \<Rightarrow> num \<Rightarrow> readout option" where
  "on_move c client_x left width =
     (if width = 0 then None
      else let vx = js_mul (js_div (js_sub client_x left) width) W in
        case chart_times c of [] \<Rightarrow> None
        | t0 # ts \<Rightarrow>
            let t = nearest_time c vx t0 (t0 # ts) in
            Some \<lparr>ro_x = plot_x c t 0 1, ro_at = t,
              ro_rows = List.map_filter (\<lambda>(i, s). map_option
                (\<lambda>v. (sr_name s, SERIES_COLOURS ! (i mod length SERIES_COLOURS), v)) (point_of t s)) (enumerate 0 (ch_series c))\<rparr>)"

section \<open>Nothing is drawn outside the plot\<close>

lemma js_unit:
  assumes "0 \<le> a" and "a \<le> b" and "0 < b"
  shows "0 \<le> js_div a b" "js_div a b \<le> 1"
proof -
  have "a / b \<le> 1" using assms by (simp add: field_simps)
  from fl_mono [OF this] show "js_div a b \<le> 1" by (simp add: js_div_def fl_integer)
  show "0 \<le> js_div a b" using assms by (simp add: js_div_def)
qed

lemma js_scaled:
  assumes "0 \<le> r" and "r \<le> 1" and "0 \<le> k" and "fl k = k"
  shows "0 \<le> js_mul r k" "js_mul r k \<le> k"
proof -
  have "r * k \<le> k" using assms by (simp add: mult_left_le_one_le)
  from fl_mono [OF this] show "js_mul r k \<le> k" using assms(4) by (simp add: js_mul_def)
  show "0 \<le> js_mul r k" using assms by (simp add: js_mul_def)
qed

lemma shifted:
  assumes "0 \<le> q" and "q \<le> 652"
  shows "52 \<le> js_add 52 q" "js_add 52 q \<le> 704"
  using fl_mono [of 52 "52 + q"] fl_mono [of "52 + q" 704] assms by (simp_all add: js_add_def)

lemma chart_times_spec: "sorted (chart_times c)" "set (chart_times c) = pt_at ` set (chart_points c)"
  by (simp_all add: chart_times_def)

lemma bounds_time:
  assumes "p \<in> set (chart_points c)"
  shows "bd_t0 (chart_bounds c) \<le> pt_at p" "pt_at p \<le> bd_t1 (chart_bounds c)"
proof -
  have t: "pt_at p \<in> set (chart_times c)" using assms by (simp add: chart_times_spec)
  then obtain i where i: "i < length (chart_times c)" "chart_times c ! i = pt_at p" by (auto simp: in_set_conv_nth)
  note mono = sorted_nth_mono [OF chart_times_spec(1) [of c]]
  have ne: "chart_times c \<noteq> []" using t by auto
  have "hd (chart_times c) \<le> pt_at p" "pt_at p \<le> last (chart_times c)"
    using mono [of 0 i] mono [of i "length (chart_times c) - 1"] i ne by (simp_all add: hd_conv_nth last_conv_nth)
  with t show "bd_t0 (chart_bounds c) \<le> pt_at p" "pt_at p \<le> bd_t1 (chart_bounds c)"
    by (auto simp: chart_bounds_def Let_def split: prod.splits)
qed

lemma bounds_value:
  assumes "p \<in> set (chart_points c)" and "is_double (pt_value p)"
  shows "bd_min (chart_bounds c) \<le> pt_value p" "pt_value p \<le> bd_max (chart_bounds c)"
proof -
  define vs where "vs = set (map pt_value (chart_points c))"
  define lo hi where "lo = (if ch_zero c then min (Min vs) 0 else Min vs)" and "hi = (if ch_zero c then max (Max vs) 0 else Max vs)"
  have "pt_value p \<in> vs" "finite vs" using assms(1) by (auto simp: vs_def)
  then have v: "lo \<le> pt_value p" "pt_value p \<le> hi" by (auto simp: lo_def hi_def min.coboundedI1 max.coboundedI1)
  have b: "bd_min (chart_bounds c) = (if lo = hi then js_sub lo 1 else lo)"
      "bd_max (chart_bounds c) = (if lo = hi then js_add hi 1 else hi)"
  proof -
    have "chart_points c \<noteq> []" using assms(1) by auto
    then show "bd_min (chart_bounds c) = (if lo = hi then js_sub lo 1 else lo)"
      "bd_max (chart_bounds c) = (if lo = hi then js_add hi 1 else hi)"
      by (simp_all add: chart_bounds_def Let_def lo_def hi_def vs_def)
  qed
  have "js_sub x 1 \<le> x" "x \<le> js_add x 1" if "is_double x" for x
    using fl_mono [of "x - 1" x] fl_mono [of x "x + 1"] fl_double [OF that] by (simp_all add: js_sub_def js_add_def)
  from this [OF assms(2)] v show "bd_min (chart_bounds c) \<le> pt_value p" "pt_value p \<le> bd_max (chart_bounds c)"
    by (auto simp: b)
qed

lemma plot_x_bounds:
  assumes "bd_t0 (chart_bounds c) \<le> t" "t \<le> bd_t1 (chart_bounds c)" "i < n"
  shows "52 \<le> plot_x c t i n" "plot_x c t i n \<le> 704"
proof -
  let ?b = "chart_bounds c"
  have time: "0 \<le> js_mul (js_div (of_int (t - bd_t0 ?b)) (of_int (bd_t1 ?b - bd_t0 ?b))) 652"
      "js_mul (js_div (of_int (t - bd_t0 ?b)) (of_int (bd_t1 ?b - bd_t0 ?b))) 652 \<le> 652" if "bd_t1 ?b - bd_t0 ?b > 0"
    using js_unit [of "of_int (t - bd_t0 ?b)" "of_int (bd_t1 ?b - bd_t0 ?b)"] assms that
    by (auto intro!: js_scaled simp: fl_integer)
  have place: "0 \<le> js_mul (js_div (of_nat i) (of_nat (n - 1))) 652" "js_mul (js_div (of_nat i) (of_nat (n - 1))) 652 \<le> 652"
    if "\<not> n \<le> 1" using js_unit [of "of_nat i" "of_nat (n - 1)"] assms(3) that by (auto intro!: js_scaled simp: fl_integer)
  have "js_div 652 2 = (326::rat)" by (simp add: js_div_def)
  with time place show "52 \<le> plot_x c t i n" "plot_x c t i n \<le> 704"
    by (auto simp: plot_x_def Let_def plot_defs intro!: shifted)
qed

lemma plot_x_mono:
  assumes "t \<le> t'" and "i \<le> j" and "bd_t0 (chart_bounds c) \<le> t"
  shows "plot_x c t i n \<le> plot_x c t' j n"
proof -
  have m: "js_add 52 (js_mul (js_div a d) 652) \<le> js_add 52 (js_mul (js_div b d) 652)" if "a \<le> b" "0 < d" for a b d :: num
    unfolding js_add_def js_mul_def js_div_def
    using that by (intro fl_mono add_left_mono mult_right_mono divide_right_mono) simp_all
  show ?thesis using assms by (auto simp: plot_x_def Let_def plot_defs intro!: m)
qed

lemma plot_y_mono:
  assumes "v \<le> v'" and "bd_min (chart_bounds c) \<le> bd_max (chart_bounds c)"
  shows "plot_y c v' \<le> plot_y c v"
proof -
  define d where "d = (let d = js_sub (bd_max (chart_bounds c)) (bd_min (chart_bounds c)) in if d = 0 then 1 else d)"
  have "0 < d" using assms(2) by (auto simp: d_def Let_def js_sub_def less_le)
  then have "js_mul (js_div (js_sub v (bd_min (chart_bounds c))) d) 196 \<le> js_mul (js_div (js_sub v' (bd_min (chart_bounds c))) d) 196"
    unfolding js_sub_def js_mul_def js_div_def
    using assms by (intro fl_mono mult_right_mono divide_right_mono diff_right_mono) simp_all
  then have "js_sub 212 (js_mul (js_div (js_sub v' (bd_min (chart_bounds c))) d) 196)
      \<le> js_sub 212 (js_mul (js_div (js_sub v (bd_min (chart_bounds c))) d) 196)"
    by (simp add: js_sub_def [of 212] fl_mono)
  then show ?thesis by (simp add: plot_y_def plot_defs Let_def d_def)
qed

lemma plot_y_bounds:
  assumes "bd_min (chart_bounds c) \<le> v" "v \<le> bd_max (chart_bounds c)"
  shows "16 \<le> plot_y c v" "plot_y c v \<le> 212"
proof -
  define d where "d = (let d = js_sub (bd_max (chart_bounds c)) (bd_min (chart_bounds c)) in if d = 0 then 1 else d)"
  have d: "0 < d" using assms by (auto simp: d_def Let_def js_sub_def less_le)
  have "js_sub v (bd_min (chart_bounds c)) \<le> js_sub (bd_max (chart_bounds c)) (bd_min (chart_bounds c))"
    unfolding js_sub_def using assms by (intro fl_mono) simp
  also have "\<dots> \<le> d" by (simp add: d_def Let_def)
  finally have r: "js_sub v (bd_min (chart_bounds c)) \<le> d" .
  have "0 \<le> js_sub v (bd_min (chart_bounds c))" using assms by (simp add: js_sub_def)
  from js_unit [OF this r d] have s: "0 \<le> js_mul (js_div (js_sub v (bd_min (chart_bounds c))) d) 196"
      "js_mul (js_div (js_sub v (bd_min (chart_bounds c))) d) 196 \<le> 196"
    by (auto intro!: js_scaled simp: fl_integer)
  have "16 \<le> js_sub 212 q \<and> js_sub 212 q \<le> 212" if "0 \<le> q" "q \<le> 196" for q
    using fl_mono [of 16 "212 - q"] fl_mono [of "212 - q" 212] that by (simp add: js_sub_def)
  from this [OF s] show "16 \<le> plot_y c v" "plot_y c v \<le> 212"
    by (simp_all add: plot_y_def plot_defs Let_def d_def)
qed

lemma line_points_inside:
  assumes "s \<in> set (ch_series c)" and "\<forall>p \<in> set (chart_points c). is_double (pt_value p)"
    and "(x, y, v) \<in> set (line_points c s)"
  shows "52 \<le> x \<and> x \<le> 704 \<and> 16 \<le> y \<and> y \<le> 212"
proof -
  obtain j where j: "j < length (sr_points s)"
      and xy: "x = plot_x c (pt_at (sr_points s ! j)) j (length (sr_points s))" "y = plot_y c (pt_value (sr_points s ! j))"
    using assms(3) by (auto simp: line_points_def in_set_enumerate_eq)
  have p: "sr_points s ! j \<in> set (chart_points c)" using assms(1) nth_mem [OF j] unfolding chart_points_def set_concat set_map by blast
  show ?thesis
    using plot_x_bounds [OF bounds_time [OF p] j] plot_y_bounds bounds_value [OF p] assms(2) p by (simp add: xy)
qed

section \<open>The nearest moment\<close>

lemma nearest_min:
  "nearest_time c vx t0 ts \<in> set (t0 # ts) \<and> (\<forall>t \<in> set (t0 # ts). distance_to c vx (nearest_time c vx t0 ts) \<le> distance_to c vx t)"
proof (induction ts arbitrary: t0)
  case (Cons t ts)
  define b where "b = (if distance_to c vx t < distance_to c vx t0 then t else t0)"
  have "nearest_time c vx t0 (t # ts) = nearest_time c vx b ts" by (simp add: nearest_time_def b_def)
  moreover have "b \<in> {t0, t}" "distance_to c vx b \<le> distance_to c vx t0" "distance_to c vx b \<le> distance_to c vx t"
    by (auto simp: b_def)
  ultimately show ?case using Cons.IH [of b] by fastforce
qed (simp add: nearest_time_def)

end
