(* ===== verification/PageDemo.thy ===== *)
theory PageDemo
  imports DemoHouse PaymentNet PageNet GoodDeeds LoansPage ForexPage FulfillmentPage ExportState Mastodon LineChart
begin

text \<open>
  The household of theory DemoHouse on the wire of theory KeyedNet, with what its members have on their pages:
  the states to which the theorems about the pages are applied. The first answer of the server is lost.
\<close>

section \<open>Ada's browser on the wire\<close>

definition house_net :: net where
  "house_net = \<lparr>nt_client = house_client, nt_server = house_server,
     nt_delivery = (\<lambda>i. if i = 0 then Answer_lost else Delivered), nt_chance = (\<lambda>_. quiet_chance),
     nt_random = (\<lambda>i. replicate i 0), nt_sent = 0, nt_drawn = 0\<rparr>"

lemma base64url_grows: "length (base64url_bytes xs) < length (base64url_bytes (replicate (Suc (length xs)) 0))"
proof (induction xs rule: base64url_bytes.induct)
  case (4 a b c r)
  have "replicate (Suc (length (a # b # c # r))) (0 :: nat) = 0 # 0 # 0 # replicate (Suc (length r)) 0" by simp
  then show ?case using 4 by (simp only: base64url_bytes.simps) simp
qed simp_all

lemma house_keys: "inj (net_key house_net)"
proof (rule linorder_injI)
  fix i j :: nat assume "i < j"
  have step: "length (base64url_bytes (replicate k 0)) < length (base64url_bytes (replicate (Suc k) 0))" for k
    using base64url_grows [of "replicate k 0"] by simp
  have "length (base64url_bytes (replicate i 0)) < length (base64url_bytes (replicate j 0))"
    using \<open>i < j\<close> by (rule lift_Suc_mono_less [rotated]) (rule step)
  then have "base64url_bytes (replicate i 0) \<noteq> base64url_bytes (replicate j 0)" by auto
  then show "net_key house_net i \<noteq> net_key house_net j"
    by (simp add: net_key_def new_key_def house_net_def base64url_def)
qed

lemma house_net_good: "net_good ''user-2'' house_net"
proof -
  have "client_good ''user-2'' house_net" unfolding client_good_def by (intro conjI) code_simp+
  moreover have "wf_receipts (nt_server house_net)" by (simp add: wf_receipts_def house_net_def house_server_def)
  moreover have "net_done uid house_net = []" for uid by (simp add: net_done_def house_net_def house_server_def List.map_filter_def)
  ultimately show ?thesis using house_keys by (simp add: net_good_def)
qed

lemma house_net_empty [simp]:
  "net_done uid house_net = []" "net_carried uid house_net = []" "net_seen uid house_net = {}" "net_room house_net = 4096"
proof -
  show d: "net_done uid house_net = []" for uid by (simp add: net_done_def house_net_def house_server_def List.map_filter_def)
  show "net_carried uid house_net = []" by (simp add: net_carried_def d List.map_filter_def)
  show "net_seen uid house_net = {}" by (simp add: net_seen_def d) (simp add: house_net_def)
  show "net_room house_net = 4096" by (simp add: net_room_def house_net_def house_server_def)
qed

section \<open>The household's pages\<close>

definition pocket_money :: allowance where
  "pocket_money = \<lparr>al_id = ''a1'', al_owner = ''user-2'', al_recipient = u_account bob, al_recipient_name = ''Bob'', al_amount = 10,
     al_epoch = Some 0, al_cadence = Weekly, al_next_due = ''2024-01-05'', al_memo = ''pocket money'', al_pending = None\<rparr>"

definition bob_view :: user_view where
  "bob_view = \<lparr>uv_id = ''user-3'', uv_username = ''bob'', uv_display_name = ''Bob'', uv_role = Member, uv_status = UserActive,
     uv_account = u_account bob, uv_created_at = 0, uv_bio = None, uv_balance = None, uv_usd_cents = None\<rparr>"

definition house_money :: money where "house_money = new_money\<lparr>my_decimals := 0\<rparr>"

definition rent_form :: send_page where
  "rent_form = (open_send_page [bob_view] (Some (u_account bob)) (Some ''300'') (Some ''rent''))\<lparr>sp_kind := Some OtherKind\<rparr>"

definition ada_rate :: forex_page where
  "ada_rate = \<lparr>fx_quotes = [], fx_transactions = [], fx_chart_error = False, fx_unsupported = False, fx_posting = False,
     fx_busy = None, fx_side = Ask, fx_coins = ''40'', fx_rate = Some 25, fx_toasts = no_toasts\<rparr>"

definition eggs_form :: market_form where
  "eggs_form = (empty_form Sell)\<lparr>mf_title := '' Eggs'', mf_price := ''12'', mf_kind := Some Good, mf_quantity := ''6.5''\<rparr>"

definition plain_sending :: "net sending" where
  "plain_sending = \<lparr>sd_pay = net_transfer (\<lambda>w. w), sd_draw = net_draw, sd_screen = (\<lambda>_ w. (Inr (), w)),
     sd_dm = (\<lambda>_ _ w. (Inr (), w)), sd_refresh = (\<lambda>w. (Inr (), w))\<rparr>"

definition no_gifts :: gift_page where
  "no_gifts = keyed_page.extend new_keyed_page (gift_page.fields Open_gifts [] [] [] [] [(7, ''25'')] [])"

definition begging :: gift_request where
  "begging = \<lparr>g_id = 7, g_owner = 3, g_title = ''A kite'', g_description = '''', g_target = None, g_deadline = None,
     g_received = 0, g_closed = False, g_created_at = 0\<rparr>"

definition nana_deeds :: "ledger deed_calls" where
  "nana_deeds = \<lparr>gd_create = listed_by house_client ''k'' nana, gd_accept = (\<lambda>_ _ w. (Inr (), w)), gd_decline = (\<lambda>_ w. (Inr (), w)),
     gd_cancel = (\<lambda>_ w. (Inr (), w)), gd_refresh = (\<lambda>w. (Inr (), w)), gd_draw = (\<lambda>w. (''k'', w))\<rparr>"

definition no_deeds :: deeds_page where
  "no_deeds = \<lparr>dp_title = [], dp_description = [], dp_reward = [], dp_busy = False, dp_toasts = no_toasts, dp_reloads = 0\<rparr>"

definition drawn :: draw where
  "drawn = raffle_draw\<lparr>d_view := (d_view raffle_draw)\<lparr>lo_status := LottoSettled, lo_winner := Some (u_account bob)\<rparr>\<rparr>"

definition supply_line :: series where
  "supply_line = \<lparr>sr_name = ''Supply'', sr_points = [\<lparr>pt_at = 0, pt_value = 1000\<rparr>, \<lparr>pt_at = 86400, pt_value = 1500\<rparr>]\<rparr>"

definition supply_chart :: chart where
  "supply_chart = \<lparr>ch_series = [supply_line], ch_zero = False\<rparr>"

definition big_application :: loan where
  "big_application = loan.truncate (running_loan\<lparr>ln_amount := 2000, ln_installment := 100, ln_rate_bps := 500, ln_status := Requested\<rparr>)"

text \<open>A server of which nothing could be read, and a Mastodon server that answers every request with an application.\<close>

definition nothing_read :: server_state where
  "nothing_read = gather 0 ''<script>'' [] [] \<lparr>gt_status = None, gt_config = None, gt_transport = None, gt_users = None,
     gt_listings = None, gt_things = None, gt_loans = None, gt_lottos = None, gt_quotes = None, gt_offers = None,
     gt_fulfillments = None\<rparr>"

definition plain_texts :: formatters where
  "plain_texts = \<lparr>fm_coins = (\<lambda>_. []), fm_date = (\<lambda>_. ''<now>''), fm_handle = (\<lambda>_. None), fm_dash = ''-'', fm_arrow = ''to''\<rparr>"

definition one_server :: url_parser where
  "one_server s = Some \<lparr>wu_protocol = ''https:'', wu_user = [], wu_password = [], wu_host = ''m.example'', wu_port = None, wu_path = ''/''\<rparr>"

definition app_answers :: "nat \<Rightarrow> fetched" where
  "app_answers i = Fine (Some (JObj [(''client_id'', JStr ''c''), (''access_token'', JStr ''t''), (''acct'', JStr ''ada'')]))"

definition signing_in :: "(problem + string option) \<times> mastodon \<times> outgoing list" where
  "signing_in = md_connect False one_server (recorded app_answers) (Some ''user-2'') ''https://x/'' [1] [2] ''m.example'' new_mastodon []"

definition signed_on :: "(problem + string) \<times> mastodon \<times> outgoing list" where
  "signed_on = md_finish False one_server (recorded app_answers) (\<lambda>_ _. quiet_call None) (quiet_call None) (Some ''user-2'') ''code''
     (base64url [2]) (fst (snd signing_in)) (snd (snd signing_in))"

definition app_json :: json where
  "app_json = JObj [(''client_id'', JStr ''c''), (''access_token'', JStr ''t''), (''acct'', JStr ''ada'')]"

definition the_sign_in :: sign_in where
  "the_sign_in = \<lparr>si_user = ''user-2'', si_server = ''https://m.example'', si_client = ''c'', si_secret = [],
     si_redirect = ''https://x/'', si_verifier = base64url [1], si_state = base64url [2]\<rparr>"

lemma app_answer: "reach_json one_server (recorded app_answers) s rq w = (Inr app_json, w @ [rq])"
  by (simp add: reach_json_def recorded_def app_answers_def app_json_def)

lemma signing_in_pending: "md_pending (fst (snd signing_in)) = Awaiting the_sign_in \<and> md_credentials (fst (snd signing_in)) = []"
proof -
  have n: "normalize_server one_server ''m.example'' = Inr ''https://m.example''" by code_simp
  have t: "truthy_str (Some ''user-2'')" "text_member app_json ''client_id'' = ''c''"
    "(case json_get app_json ''client_secret'' of Some (JStr s) \<Rightarrow> s | _ \<Rightarrow> []) = []" by code_simp+
  show ?thesis
    unfolding signing_in_def md_connect_def n app_answer
    by (simp add: t Let_def the_sign_in_def new_mastodon_def)
qed

lemma signed_on_credentials: "map fst (md_credentials (fst (snd signed_on))) = [''user-2'']"
proof -
  have r: "refused_sign_in (Some ''user-2'') (base64url [2]) (Awaiting the_sign_in) = Inr the_sign_in" by code_simp
  have "case full_acct one_server the_sign_in app_json of Inr _ \<Rightarrow> True | Inl _ \<Rightarrow> False" by code_simp
  then obtain a where a: "full_acct one_server the_sign_in app_json = Inr a" by (auto split: sum.splits)
  have u: "si_user the_sign_in = ''user-2''" by (simp add: the_sign_in_def)
  show ?thesis
    unfolding signed_on_def md_finish_def
    using signing_in_pending by (simp add: r a u app_answer Let_def quiet_call_def)
qed

end
