(* ===== verification/ChartLines.thy ===== *)
theory ChartLines
  imports ChartSeries "HOL-Library.Multiset"
begin

text \<open>
  The rebuilt lines are right: with amounts whose sums are exact as doubles, the point after each
  transaction is the closing value less what came later, so the line ends at the closing value; and the
  line of an account over the whole journal, closed at the ledger's balance, starts at zero.
\<close>

definition exact_line :: "num \<Rightarrow> num list \<Rightarrow> bool" where
  "exact_line c ds \<longleftrightarrow> is_integer c \<and> (\<forall>d \<in> set ds. is_integer d)
     \<and> \<bar>c\<bar> + 2 * sum_list (map abs ds) \<le> 9007199254740992"

lemma abs_sum_list: "\<bar>sum_list ds\<bar> \<le> sum_list (map abs (ds :: rat list))"
  by (induction ds) auto

lemma abs_sum_nonneg: "0 \<le> sum_list (map abs (ds :: rat list))"
  by (induction ds) auto

lemma js_sub_add: "js_sub a b = js_add a (- b)"
  by (simp add: js_sub_def js_add_def)

lemma foldl_js_sub: "foldl js_sub c ds = js_sum_from c (map uminus ds)"
  by (induction ds arbitrary: c) (simp_all add: js_sub_add)

lemma sum_uminus: "sum_list (map uminus ds) = - sum_list (ds :: rat list)"
  by (induction ds) auto

lemma opening_exact:
  assumes "exact_line c ds"
  shows "foldl js_sub c ds = c - sum_list ds"
proof -
  have "sum_list (map abs (map uminus ds)) = sum_list (map abs ds)" by (induction ds) auto
  then have "\<bar>c\<bar> + sum_list (map abs (map uminus ds)) \<le> 9007199254740992"
    using assms abs_sum_nonneg [of ds] unfolding exact_line_def by linarith
  then have "js_sum_from c (map uminus ds) = c + sum_list (map uminus ds)"
    using assms by (intro js_sum_from_exact) (auto simp: exact_line_def)
  then show ?thesis by (simp add: foldl_js_sub sum_uminus)
qed

lemma running_step:
  assumes "is_integer x" and "\<forall>d \<in> set (d # ds). is_integer d"
    and "\<bar>x\<bar> + sum_list (map abs (d # ds)) \<le> 9007199254740992"
  shows "js_add x d = x + d" "is_integer (x + d)" "\<bar>x + d\<bar> + sum_list (map abs ds) \<le> 9007199254740992"
proof -
  show i: "is_integer (x + d)" using assms by (auto intro: is_integer_add)
  show b: "\<bar>x + d\<bar> + sum_list (map abs ds) \<le> 9007199254740992" using assms(3) by simp
  show "js_add x d = x + d" using i b abs_sum_nonneg [of ds] by (intro js_add_exact) auto
qed

lemma running_values:
  assumes "is_integer x" and "\<forall>d \<in> set (map snd ds). is_integer d"
    and "\<bar>x\<bar> + sum_list (map abs (map snd ds)) \<le> 9007199254740992"
  shows "length (running_points False x ds) = length ds
    \<and> (\<forall>k < length ds. pt_value (running_points False x ds ! k) = x + sum_list (take (Suc k) (map snd ds)))"
  using assms
proof (induction ds arbitrary: x)
  case (Cons p ds)
  obtain t d where p: "p = (t, d)" by (cases p)
  have s: "js_add x d = x + d" "is_integer (x + d)" "\<bar>x + d\<bar> + sum_list (map abs (map snd ds)) \<le> 9007199254740992"
    using running_step [of x d "map snd ds"] Cons.prems by (simp_all add: p)
  have i: "\<forall>e \<in> set (map snd ds). is_integer e" using Cons.prems by simp
  from Cons.IH [OF s(2) i s(3)] show ?case
    by (auto simp: p s nth_Cons split: nat.split)
qed simp

lemma running_last:
  assumes "is_integer x" and "\<forall>d \<in> set (map snd ds). is_integer d"
    and "\<bar>x\<bar> + sum_list (map abs (map snd ds)) \<le> 9007199254740992"
  shows "pt_value (last (\<lparr>pt_at = t0, pt_value = x\<rparr> # running_points skip x ds)) = x + sum_list (map snd ds)"
  using assms
proof (induction ds arbitrary: x t0)
  case (Cons p ds)
  obtain t d where p: "p = (t, d)" by (cases p)
  have s: "js_add x d = x + d" "is_integer (x + d)" "\<bar>x + d\<bar> + sum_list (map abs (map snd ds)) \<le> 9007199254740992"
    using running_step [of x d "map snd ds"] Cons.prems by (simp_all add: p)
  have i: "\<forall>e \<in> set (map snd ds). is_integer e" using Cons.prems by simp
  note ih = Cons.IH [OF s(2) i s(3)]
  show ?case
  proof (cases "skip \<and> d = 0")
    case True
    with ih [of t0] p show ?thesis by simp
  next
    case False
    with ih [of t] p s show ?thesis by auto
  qed
qed simp

lemma exact_opening:
  assumes "exact_line c ds"
  shows "is_integer (c - sum_list ds)" "\<bar>c - sum_list ds\<bar> + sum_list (map abs ds) \<le> 9007199254740992"
  using assms abs_sum_list [of ds]
  by (auto simp: exact_line_def intro!: is_integer_diff is_integer_sum_list)

lemma line_ends:
  assumes "exact_line c (map snd ds)" and "ds \<noteq> []"
  shows "pt_value (hd (line_from skip ds c)) = c - sum_list (map snd ds)"
    and "pt_value (last (line_from skip ds c)) = c"
proof -
  obtain t d rest where ds: "ds = (t, d) # rest" using assms(2) by (cases ds) auto
  have i: "\<forall>d \<in> set (map snd ds). is_integer d" using assms(1) by (simp add: exact_line_def)
  have l: "line_from skip ds c = \<lparr>pt_at = t, pt_value = c - sum_list (map snd ds)\<rparr>
      # running_points skip (c - sum_list (map snd ds)) ds"
    using opening_exact [OF assms(1)] by (simp add: line_from_def Let_def ds)
  then show "pt_value (hd (line_from skip ds c)) = c - sum_list (map snd ds)" by simp
  show "pt_value (last (line_from skip ds c)) = c"
    unfolding l using running_last [OF exact_opening(1) i exact_opening(2), OF assms(1) assms(1)] by simp
qed

lemma line_value:
  assumes "exact_line c (map snd ds)" and "k \<le> length ds" and "ds \<noteq> []"
  shows "pt_value (line_from False ds c ! k) = c - sum_list (drop k (map snd ds))"
proof -
  obtain t d rest where ds: "ds = (t, d) # rest" using assms(3) by (cases ds) auto
  let ?S = "sum_list (map snd ds)"
  have i: "\<forall>d \<in> set (map snd ds). is_integer d" using assms(1) by (simp add: exact_line_def)
  have l: "line_from False ds c = \<lparr>pt_at = t, pt_value = c - ?S\<rparr> # running_points False (c - ?S) ds"
    using opening_exact [OF assms(1)] by (simp add: line_from_def Let_def ds)
  have split: "?S = sum_list (take j (map snd ds)) + sum_list (drop j (map snd ds))" for j
    by (metis append_take_drop_id sum_list_append)
  show ?thesis
  proof (cases k)
    case 0
    then show ?thesis by (simp add: l)
  next
    case (Suc j)
    with assms(2) have "pt_value (running_points False (c - ?S) ds ! j) = c - ?S + sum_list (take (Suc j) (map snd ds))"
      using running_values [OF exact_opening(1) i exact_opening(2), OF assms(1) assms(1)] by simp
    then show ?thesis using split [of k] by (simp add: l Suc)
  qed
qed

section \<open>Over the whole journal\<close>

lemma sum_list_filter_zero: "(\<And>x. x \<in> set xs \<Longrightarrow> \<not> P x \<Longrightarrow> f x = (0 :: rat)) \<Longrightarrow>
    sum_list (map f (filter P xs)) = sum_list (map f xs)"
  by (induction xs) auto

lemma sum_list_mset: "mset xs = mset ys \<Longrightarrow> sum_list (map f xs) = (sum_list (map f ys) :: rat)"
  by (metis mset_map sum_mset_sum_list)

lemma mset_commit_order: "mset (by_commit_order ts) = mset ts"
  by (simp add: by_commit_order_def)

lemma sum_list_concat: "sum_list (concat xss) = (sum_list (map sum_list xss) :: rat)"
  by (induction xss) auto

lemma account_delta_named:
  "account_delta a (transaction.extend (t\<lparr>t_postings := map (\<lambda>p. p\<lparr>p_name := f p\<rparr>) ps\<rparr>) x) = js_sum (amounts_of a ps)"
  by (simp add: account_delta_def amounts_of_def transaction.defs filter_map comp_def)

lemma deltas_of_journal:
  assumes "\<forall>x \<in> set (journal_amounts a (epoch_exponents w) ts). is_integer x"
    and "sum_list (map abs (journal_amounts a (epoch_exponents w) ts)) \<le> 9007199254740992"
  shows "map (account_delta a) (named w ts) = map (\<lambda>t. sum_list (amounts_of a (current_postings w t))) ts"
proof -
  have "js_sum (amounts_of a (current_postings w t)) = sum_list (amounts_of a (current_postings w t))" if t: "t \<in> set ts" for t
  proof (rule js_sum_exact)
    from t have sub: "set (amounts_of a (current_postings w t)) \<subseteq> set (journal_amounts a (epoch_exponents w) ts)"
      by (auto simp: journal_amounts_def current_postings_def)
    with assms(1) show "\<forall>x \<in> set (amounts_of a (current_postings w t)). is_integer x" by blast
    obtain us vs where "ts = us @ t # vs" using split_list [OF t] by blast
    then have "sum_list (map abs (journal_amounts a (epoch_exponents w) ts))
      = sum_list (map abs (journal_amounts a (epoch_exponents w) us)) + sum_list (map abs (amounts_of a (current_postings w t)))
        + sum_list (map abs (journal_amounts a (epoch_exponents w) vs))"
      by (simp add: journal_amounts_def current_postings_def)
    with assms(2) abs_sum_nonneg [of "journal_amounts a (epoch_exponents w) us"]
      abs_sum_nonneg [of "journal_amounts a (epoch_exponents w) vs"]
    show "sum_list (map abs (amounts_of a (current_postings w t))) \<le> 9007199254740992" by linarith
  qed
  then show ?thesis by (simp add: named_def account_delta_named comp_def)
qed

text \<open>The line of an account over the whole journal, closed at the ledger's balance.\<close>

lemma balance_line:
  assumes "\<forall>x \<in> set (journal_amounts a (epoch_exponents w) (transactions w)). is_integer x"
    and "3 * sum_list (map abs (journal_amounts a (epoch_exponents w) (transactions w))) \<le> 9007199254740992"
    and "\<exists>t \<in> set (transactions w). amounts_of a (current_postings w t) \<noteq> []"
    and ps: "ps = sr_points (balance_series (named w (transactions w)) a (balance_of w a) n)"
  shows "pt_value (hd ps) = 0 \<and> pt_value (last ps) = balance_of w a"
proof -
  let ?J = "journal_amounts a (epoch_exponents w) (transactions w)"
  let ?has = "\<lambda>t. list_ex (\<lambda>p. p_account p = a) (t_postings t)"
  let ?V = "named w (transactions w)"
  define ds where "ds = map (\<lambda>t. (t_created_at t, account_delta a t)) (by_commit_order (filter ?has ?V))"
  have b: "sum_list (map abs ?J) \<le> 9007199254740992" using assms(2) abs_sum_nonneg [of ?J] by linarith
  have c: "balance_of w a = sum_list ?J" unfolding balance_of_def by (rule js_sum_exact [OF assms(1) b])
  have z: "\<not> ?has t \<Longrightarrow> account_delta a t = 0" for t
    by (simp add: account_delta_def list_ex_iff filter_False)
  note d = deltas_of_journal [OF assms(1) b]
  have sums: "sum_list (map (\<lambda>t. f (account_delta a t)) (by_commit_order (filter ?has ?V)))
      = sum_list (map (\<lambda>t. f (sum_list (amounts_of a (current_postings w t)))) (transactions w))" if f: "f 0 = 0" for f :: "rat \<Rightarrow> rat"
  proof -
    have "sum_list (map (\<lambda>t. f (account_delta a t)) (by_commit_order (filter ?has ?V)))
      = sum_list (map (\<lambda>t. f (account_delta a t)) ?V)"
      using sum_list_mset [OF mset_commit_order] sum_list_filter_zero [of ?V ?has "\<lambda>t. f (account_delta a t)"] z f by simp
    also have "map (\<lambda>t. f (account_delta a t)) ?V = map f (map (account_delta a) ?V)" by simp
    finally show ?thesis by (simp only: d) (simp add: comp_def)
  qed
  have s: "sum_list (map snd ds) = sum_list ?J"
    using sums [of "\<lambda>x. x"] by (simp add: ds_def comp_def journal_amounts_def sum_list_concat current_postings_def)
  have "sum_list (map (\<lambda>t. \<bar>sum_list (amounts_of a (current_postings w t))\<bar>) ts)
      \<le> sum_list (map abs (journal_amounts a (epoch_exponents w) ts))" for ts
    using abs_sum_list by (induction ts) (auto simp: journal_amounts_def current_postings_def intro!: add_mono)
  then have "sum_list (map abs (map snd ds)) \<le> sum_list (map abs ?J)"
    using sums [of abs] by (simp add: ds_def comp_def)
  moreover have "\<forall>x \<in> set (map snd ds). is_integer x"
  proof -
    have "set (map snd ds) \<subseteq> set (map (account_delta a) ?V)"
      using arg_cong [OF mset_commit_order, of set_mset] by (auto simp: ds_def)
    moreover have "is_integer (sum_list (amounts_of a (current_postings w t)))" if t: "t \<in> set (transactions w)" for t
      using assms(1) t by (intro is_integer_sum_list) (auto simp: journal_amounts_def current_postings_def)
    ultimately show ?thesis unfolding d by auto
  qed
  moreover have "is_integer (sum_list ?J)" using assms(1) by (rule is_integer_sum_list)
  ultimately have e: "exact_line (balance_of w a) (map snd ds)"
    using assms(2) abs_sum_list [of ?J] unfolding exact_line_def c by auto
  have "ds \<noteq> []"
  proof -
    obtain t where t: "t \<in> set (transactions w)" "amounts_of a (current_postings w t) \<noteq> []" using assms(3) by blast
    then have "\<exists>v \<in> set ?V. ?has v"
      by (auto simp: named_def amounts_of_def transaction.defs list_ex_iff filter_empty_conv)
    then have "by_commit_order (filter ?has ?V) \<noteq> []"
      using arg_cong [OF mset_commit_order [of "filter ?has ?V"], of set_mset] by auto
    then show ?thesis by (simp add: ds_def)
  qed
  from line_ends [OF e this, of False] show ?thesis
    unfolding ps balance_series_def ds_def [symmetric] by (simp add: s c)
qed

end
