(* ===== verification/Wealth.thy ===== *)
theory Wealth
  imports ChartSeries
begin

text \<open>
  \<open>economy/wealth.ts\<close> and \<open>economy/forex-series.ts\<close>: what a member owns and owes, where income came from,
  the lines of both over time, and the rates at which dollars changed hands. Identifiers end in their
  number, as the ledger makes them; \<open>t0\<close> is the caller's \<open>now\<close>.
\<close>

section \<open>Position\<close>

record position =
  po_cash :: num
  po_dollars :: num
  po_receivable :: num
  po_payable :: num
  po_interest_asset :: num
  po_interest_debt :: num
  po_savings :: num

definition lotto_reference :: "lotto \<Rightarrow> string" where
  "lotto_reference l = ''lotto-'' @ show_nat (lo_id l)"

definition savings_returned :: "string \<Rightarrow> transaction_view list \<Rightarrow> lotto \<Rightarrow> num" where
  "savings_returned account ts l = (if lo_status l \<noteq> Paying then 0
     else js_sum (map (\<lambda>t. max 0 (account_delta account t))
       (filter (\<lambda>t. t_reference t = Some (lotto_reference l) \<and> t_economic_kind t \<noteq> Some Interest) ts)))"

definition wealth_position ::
  "string \<Rightarrow> num \<Rightarrow> num \<Rightarrow> loan list \<Rightarrow> lotto list \<Rightarrow> transaction_view list \<Rightarrow> position" where
  "wealth_position account cash dollars loans lottos ts =
     (let active = filter (\<lambda>l. ln_status l = LoanActive) loans;
          lent = filter (\<lambda>l. ln_lender l = account) active;
          owed = filter (\<lambda>l. ln_borrower l = account) active;
          saving = filter (\<lambda>l. lt_kind (lo_terms l) = Savings \<and> lo_status l \<noteq> LottoSettled) lottos in
      \<lparr>po_cash = cash, po_dollars = dollars, po_receivable = js_sum (map ln_principal lent),
       po_payable = js_sum (map ln_principal owed), po_interest_asset = js_sum (map ln_interest lent),
       po_interest_debt = js_sum (map ln_interest owed),
       po_savings = js_sum (map (\<lambda>l. max 0 (js_sub (js_mul (lo_my_tickets l) (lt_ticket_price (lo_terms l)))
         (savings_returned account ts l))) saving)\<rparr>)"

section \<open>Flows\<close>

record flow =
  fl_category :: string
  fl_income :: num
  fl_expenses :: num

definition categories :: "string list" where
  "categories = [''Work and goods'', ''Gifts'', ''Interest'', ''Other payments'']"

definition savings_transfer :: "transaction_view \<Rightarrow> lotto list \<Rightarrow> bool" where
  "savings_transfer t lottos \<longleftrightarrow> t_economic_kind t \<noteq> Some Interest
     \<and> list_ex (\<lambda>l. lt_kind (lo_terms l) = Savings \<and> t_reference t = Some (lotto_reference l)) lottos"

definition referring :: "string \<Rightarrow> transaction_view \<Rightarrow> bool" where
  "referring p t \<longleftrightarrow> (case t_reference t of None \<Rightarrow> False | Some r \<Rightarrow> prefix p r)"

definition no_flow :: "lotto list \<Rightarrow> transaction_view \<Rightarrow> bool" where
  "no_flow lottos t \<longleftrightarrow>
     t_kind t = Message \<or> t_kind t = Retire \<or> t_economic_kind t = Some LoanPrincipal
     \<or> referring ''quote-'' t \<or> savings_transfer t lottos
     \<or> (t_kind t = Issue \<or> list_ex (\<lambda>p. p_account p = SYSTEM_ISSUANCE) (t_postings t))
        \<and> t_economic_kind t \<notin> {Some Labor, Some Good, Some Gift, Some Interest}
     \<or> referring ''lotto-'' t \<and> t_economic_kind t \<noteq> Some Interest
        \<and> \<not> list_ex (\<lambda>l. t_reference t = Some (lotto_reference l)) lottos"

definition category_of :: "transaction_view \<Rightarrow> nat" where
  "category_of t = (case t_economic_kind t of Some Good \<Rightarrow> 0 | Some Labor \<Rightarrow> 0 | Some Gift \<Rightarrow> 1 | Some Interest \<Rightarrow> 2 | _ \<Rightarrow> 3)"

definition add_flow :: "string \<Rightarrow> transaction_view \<Rightarrow> flow list \<Rightarrow> flow list" where
  "add_flow account t rows =
     (let amount = account_delta account t; k = category_of t; row = rows ! k;
          reversal = (t_kind t = Reversal);
          inbound = (if reversal then amount < 0 else amount > 0);
          x = js_mul (if reversal then - 1 else 1) \<bar>amount\<bar> in
      if amount = 0 then rows
      else rows[k := (if inbound then row\<lparr>fl_income := js_add (fl_income row) x\<rparr>
                      else row\<lparr>fl_expenses := js_add (fl_expenses row) x\<rparr>)])"

definition personal_flows :: "transaction_view list \<Rightarrow> string \<Rightarrow> lotto list \<Rightarrow> flow list" where
  "personal_flows ts account lottos =
     foldl (\<lambda>rows t. if no_flow lottos t then rows else add_flow account t rows)
       (map (\<lambda>c. \<lparr>fl_category = c, fl_income = 0, fl_expenses = 0\<rparr>) categories) ts"

definition group_by_bucket :: "int \<Rightarrow> bucket \<Rightarrow> transaction_view list \<Rightarrow> (int \<times> transaction_view list) list" where
  "group_by_bucket zone b ts = foldl (\<lambda>m t. let k = bucket_start zone (t_created_at t) b in
     AList.update k ((case map_of m k of Some xs \<Rightarrow> xs | None \<Rightarrow> []) @ [t]) m) [] ts"

definition personal_flow_series :: "int \<Rightarrow> transaction_view list \<Rightarrow> string \<Rightarrow> bucket \<Rightarrow> lotto list \<Rightarrow> series list" where
  "personal_flow_series zone ts account b lottos =
     (let points = map (\<lambda>(k, xs). let rows = personal_flows xs account lottos in
            (k, js_sum (map fl_income rows), js_sum (map fl_expenses rows))) (sort_key fst (group_by_bucket zone b ts)) in
      [\<lparr>sr_name = ''Income'', sr_points = map (\<lambda>(k, i, e). \<lparr>pt_at = k, pt_value = i\<rparr>) points\<rparr>,
       \<lparr>sr_name = ''Expenses'', sr_points = map (\<lambda>(k, i, e). \<lparr>pt_at = k, pt_value = e\<rparr>) points\<rparr>])"

section \<open>Position over time\<close>

text \<open>What one transaction changed: cash, dollars, receivable, payable, savings.\<close>

record change =
  ch_at :: int
  ch_cash :: num
  ch_dollars :: num
  ch_receivable :: num
  ch_payable :: num
  ch_savings :: num

definition change_of :: "string \<Rightarrow> loan list \<Rightarrow> lotto list \<Rightarrow> transaction_view \<Rightarrow> change" where
  "change_of account loans lottos t =
     (let amount = account_delta account t;
          loan = find (\<lambda>l. t_reference t = Some (''loan-'' @ show_nat (ln_id l))) loans;
          principal = (t_economic_kind t = Some LoanPrincipal) in
      \<lparr>ch_at = t_created_at t, ch_cash = amount, ch_dollars = account_delta (account @ ''-usd'') t,
       ch_receivable = (if principal \<and> map_option ln_lender loan = Some account then - amount else 0),
       ch_payable = (if principal \<and> map_option ln_borrower loan = Some account then amount else 0),
       ch_savings = (if savings_transfer t lottos then - amount else 0)\<rparr>)"

definition move_position :: "(num \<Rightarrow> num \<Rightarrow> num) \<Rightarrow> position \<Rightarrow> change \<Rightarrow> position" where
  "move_position f p c = p\<lparr>po_cash := f (po_cash p) (ch_cash c), po_dollars := f (po_dollars p) (ch_dollars c),
     po_receivable := f (po_receivable p) (ch_receivable c), po_payable := f (po_payable p) (ch_payable c),
     po_savings := f (po_savings p) (ch_savings c)\<rparr>"

fun positions_after :: "position \<Rightarrow> change list \<Rightarrow> (int \<times> position) list" where
  "positions_after p [] = []"
| "positions_after p (c # cs) = (let q = move_position js_add p c in (ch_at c, q) # positions_after q cs)"

definition position_snapshots ::
  "transaction_view list \<Rightarrow> string \<Rightarrow> position \<Rightarrow> loan list \<Rightarrow> lotto list \<Rightarrow> int \<Rightarrow> (int \<times> position) list" where
  "position_snapshots ts account p loans lottos t0 =
     (let changes = map (change_of account loans lottos) (by_commit_order ts);
          opening = foldl (move_position js_sub) p changes in
      (case changes of [] \<Rightarrow> t0 | c # _ \<Rightarrow> ch_at c, opening) # positions_after opening changes @ [(t0, p)])"

definition personal_position_series ::
  "transaction_view list \<Rightarrow> string \<Rightarrow> position \<Rightarrow> loan list \<Rightarrow> lotto list \<Rightarrow> int \<Rightarrow> series list" where
  "personal_position_series ts account p loans lottos t0 =
     (let snapshots = position_snapshots ts account p loans lottos t0;
          line = (\<lambda>name f. \<lparr>sr_name = name, sr_points = map (\<lambda>(t, q). \<lparr>pt_at = t, pt_value = f q\<rparr>) snapshots\<rparr>) in
      [line ''NC assets (principal)'' (\<lambda>q. js_add (js_add (po_cash q) (po_receivable q)) (po_savings q)),
       line ''NC liabilities (principal)'' po_payable,
       line ''USD cash'' po_dollars])"

section \<open>Exchange rates\<close>

datatype rate_direction = UsdPerNc | NcPerUsd

record legs =
  lg_coins :: "num option"
  lg_cash :: "num option"
  lg_at :: int
  lg_reversed :: bool

definition add_leg :: "transaction_view \<Rightarrow> (string \<times> legs) list \<Rightarrow> (string \<times> legs) list" where
  "add_leg t m =
     (let r = the (t_reference t);
          pair = (case map_of m r of Some p \<Rightarrow> p
            | None \<Rightarrow> \<lparr>lg_coins = None, lg_cash = None, lg_at = t_created_at t, lg_reversed = False\<rparr>);
          pair = pair\<lparr>lg_reversed := (lg_reversed pair \<or> truthy_str (tv_reversed_by t))\<rparr>;
          positive = js_sum (map (\<lambda>p. max 0 (p_amount p)) (t_postings t)) in
      AList.update r (if list_ex (\<lambda>p. suffix ''-usd'' (p_account p)) (t_postings t)
        then pair\<lparr>lg_cash := Some positive\<rparr> else pair\<lparr>lg_coins := Some positive\<rparr>) m)"

definition trade_legs :: "transaction_view list \<Rightarrow> (string \<times> legs) list" where
  "trade_legs ts = foldl (\<lambda>m t. if \<not> referring ''quote-'' t \<or> t_kind t \<noteq> Transfer then m else add_leg t m) [] ts"

definition settle_trade :: "nat \<Rightarrow> (string \<times> int \<times> num) list \<Rightarrow> string \<times> legs \<Rightarrow> (string \<times> int \<times> num) list" where
  "settle_trade d trades = (\<lambda>(i, p).
     if lg_reversed p then AList.delete i trades
     else if truthy_num (lg_cash p) \<and> truthy_num (lg_coins p)
     then AList.update i (lg_at p, js_div (js_mul (the (lg_cash p)) (js_pow10 (int d))) (the (lg_coins p))) trades
     else trades)"

definition actual_rates :: "quote list \<Rightarrow> transaction_view list \<Rightarrow> nat \<Rightarrow> (int \<times> num) list" where
  "actual_rates qs ts d =
     (let posted = foldl (\<lambda>m q. if q_status q = Filled then AList.update (q_id q) (q_updated_at q, q_cents_per_coin q) m else m) [] qs;
          trades = foldl (settle_trade d) posted (trade_legs ts) in
      sort_key fst (filter (\<lambda>(_, cents). cents > 0) (map snd trades)))"

definition convert_rate :: "rate_direction \<Rightarrow> num \<Rightarrow> num" where
  "convert_rate direction c = (case direction of UsdPerNc \<Rightarrow> js_div c 100 | NcPerUsd \<Rightarrow> js_div 100 c)"

definition posted_series :: "quote list \<Rightarrow> rate_direction \<Rightarrow> quote_side \<Rightarrow> series" where
  "posted_series qs direction side = \<lparr>sr_name = (if side = Bid then ''Posted bids'' else ''Posted asks''),
     sr_points = sort_key pt_at (map (\<lambda>q. \<lparr>pt_at = q_created_at q, pt_value = convert_rate direction (q_cents_per_coin q)\<rparr>)
       (filter (\<lambda>q. q_side q = side \<and> q_cents_per_coin q > 0) qs))\<rparr>"

definition forex_series :: "quote list \<Rightarrow> transaction_view list \<Rightarrow> nat \<Rightarrow> rate_direction \<Rightarrow> series list" where
  "forex_series qs ts d direction =
     [posted_series qs direction Bid, posted_series qs direction Ask,
      \<lparr>sr_name = ''Completed trades'',
       sr_points = map (\<lambda>(t, c). \<lparr>pt_at = t, pt_value = convert_rate direction c\<rparr>) (actual_rates qs ts d)\<rparr>]"

end
