(* ===== verification/Reports.thy ===== *)
theory Reports
  imports ChartLines Wealth
begin

text \<open>
  \<open>economy/central-bank.ts\<close> and \<open>people/public-report.ts\<close>: Nana as central bank, and a member as the
  public ledger shows them. \<open>before\<close> is \<open>localeCompare\<close>. The flows of the money supply add up: what
  was issued, less what was retired, with the corrections, is the change in circulation.
\<close>

section \<open>Flows of the central bank\<close>

record flows =
  cf_counted :: nat
  cf_from :: "int option"
  cf_to :: "int option"
  cf_issued_to_nana :: num
  cf_issued_to_members :: num
  cf_issued_for_lotto :: num
  cf_retired :: num
  cf_corrections :: num
  cf_net_issuance :: num
  cf_usd_recorded :: num
  cf_coins_bought_back :: num
  cf_usd_paid_out :: num
  cf_coins_sold :: num
  cf_usd_taken_in :: num
  cf_interest_received :: num
  cf_interest_paid :: num
  cf_lent :: num
  cf_repaid :: num
  cf_bought_from_members :: num
  cf_sold_to_members :: num
  cf_paid_out :: num
  cf_received_other :: num

definition no_flows :: flows where
  "no_flows = \<lparr>cf_counted = 0, cf_from = None, cf_to = None, cf_issued_to_nana = 0, cf_issued_to_members = 0,
     cf_issued_for_lotto = 0, cf_retired = 0, cf_corrections = 0, cf_net_issuance = 0, cf_usd_recorded = 0,
     cf_coins_bought_back = 0, cf_usd_paid_out = 0, cf_coins_sold = 0, cf_usd_taken_in = 0, cf_interest_received = 0,
     cf_interest_paid = 0, cf_lent = 0, cf_repaid = 0, cf_bought_from_members = 0, cf_sold_to_members = 0,
     cf_paid_out = 0, cf_received_other = 0\<rparr>"

definition amount_at :: "transaction_view \<Rightarrow> string \<Rightarrow> num" where
  "amount_at t account = (case find (\<lambda>p. p_account p = account) (t_postings t) of Some p \<Rightarrow> p_amount p | None \<Rightarrow> 0)"

text \<open>
  \<open>book\<close>: a reversal is booked against the original's side with a minus sign; \<open>inbound\<close> and \<open>outbound\<close>
  add a size to one field of the flows.
\<close>

definition book_flow :: "bool \<Rightarrow> num \<Rightarrow> (num \<Rightarrow> flows \<Rightarrow> flows) \<Rightarrow> (num \<Rightarrow> flows \<Rightarrow> flows) \<Rightarrow> flows \<Rightarrow> flows" where
  "book_flow reversal d inbound outbound f =
     (let original = (if reversal then - d else d); size = (if reversal then - \<bar>d\<bar> else \<bar>d\<bar>) in
      if original > 0 then inbound size f else outbound size f)"

definition supply_flow :: "string \<Rightarrow> transaction_view \<Rightarrow> num \<Rightarrow> flows \<Rightarrow> flows" where
  "supply_flow nana t added f0 =
     (let f = f0\<lparr>cf_net_issuance := js_add (cf_net_issuance f0) added\<rparr> in
      if t_kind t = Reversal then f\<lparr>cf_corrections := js_add (cf_corrections f) added\<rparr>
      else if t_kind t = Retire then f\<lparr>cf_retired := js_sub (cf_retired f) added\<rparr>
      else if referring ''lotto-'' t then f\<lparr>cf_issued_for_lotto := js_add (cf_issued_for_lotto f) added\<rparr>
      else if amount_at t nana > 0 then f\<lparr>cf_issued_to_nana := js_add (cf_issued_to_nana f) added\<rparr>
      else f\<lparr>cf_issued_to_members := js_add (cf_issued_to_members f) added\<rparr>)"

definition coin_flow :: "string \<Rightarrow> transaction_view \<Rightarrow> flows \<Rightarrow> flows" where
  "coin_flow nana t f =
     (let d = amount_at t nana; book = book_flow (t_kind t = Reversal) d in
      if d = 0 then f
      else if referring ''quote-'' t then book (\<lambda>x f. f\<lparr>cf_coins_bought_back := js_add (cf_coins_bought_back f) x\<rparr>)
          (\<lambda>x f. f\<lparr>cf_coins_sold := js_add (cf_coins_sold f) x\<rparr>) f
      else case t_economic_kind t of
        Some Interest \<Rightarrow> book (\<lambda>x f. f\<lparr>cf_interest_received := js_add (cf_interest_received f) x\<rparr>)
          (\<lambda>x f. f\<lparr>cf_interest_paid := js_add (cf_interest_paid f) x\<rparr>) f
      | Some LoanPrincipal \<Rightarrow> book (\<lambda>x f. f\<lparr>cf_repaid := js_add (cf_repaid f) x\<rparr>)
          (\<lambda>x f. f\<lparr>cf_lent := js_add (cf_lent f) x\<rparr>) f
      | Some Labor \<Rightarrow> book (\<lambda>x f. f\<lparr>cf_sold_to_members := js_add (cf_sold_to_members f) x\<rparr>)
          (\<lambda>x f. f\<lparr>cf_bought_from_members := js_add (cf_bought_from_members f) x\<rparr>) f
      | Some Good \<Rightarrow> book (\<lambda>x f. f\<lparr>cf_sold_to_members := js_add (cf_sold_to_members f) x\<rparr>)
          (\<lambda>x f. f\<lparr>cf_bought_from_members := js_add (cf_bought_from_members f) x\<rparr>) f
      | _ \<Rightarrow> book (\<lambda>x f. f\<lparr>cf_received_other := js_add (cf_received_other f) x\<rparr>)
          (\<lambda>x f. f\<lparr>cf_paid_out := js_add (cf_paid_out f) x\<rparr>) f)"

definition count_flow :: "transaction_view \<Rightarrow> flows \<Rightarrow> flows" where
  "count_flow t f = f\<lparr>cf_counted := Suc (cf_counted f),
     cf_from := Some (case cf_from f of None \<Rightarrow> t_created_at t | Some x \<Rightarrow> min x (t_created_at t)),
     cf_to := Some (case cf_to f of None \<Rightarrow> t_created_at t | Some x \<Rightarrow> max x (t_created_at t))\<rparr>"

definition add_flows :: "string \<Rightarrow> int \<Rightarrow> flows \<Rightarrow> transaction_view \<Rightarrow> flows" where
  "add_flows nana since f0 t =
     (if t_kind t = Message \<or> t_created_at t < since then f0
      else let f = count_flow t f0 in
        if list_ex (\<lambda>p. p_account p = USD_ISSUANCE) (t_postings t)
        then f\<lparr>cf_usd_recorded := js_sub (cf_usd_recorded f) (amount_at t USD_ISSUANCE)\<rparr>
        else if list_ex (\<lambda>p. suffix ''-usd'' (p_account p)) (t_postings t)
        then (if referring ''quote-'' t then book_flow (t_kind t = Reversal) (amount_at t (nana @ ''-usd''))
            (\<lambda>x f. f\<lparr>cf_usd_taken_in := js_add (cf_usd_taken_in f) x\<rparr>)
            (\<lambda>x f. f\<lparr>cf_usd_paid_out := js_add (cf_usd_paid_out f) x\<rparr>) f else f)
        else (case find (\<lambda>p. p_account p = SYSTEM_ISSUANCE) (t_postings t) of
            Some p \<Rightarrow> supply_flow nana t (- p_amount p) f
          | None \<Rightarrow> coin_flow nana t f))"

definition central_bank_flows :: "transaction_view list \<Rightarrow> string \<Rightarrow> int \<Rightarrow> flows" where
  "central_bank_flows ts nana since = foldl (add_flows nana since) no_flows ts"

section \<open>The flows of the supply add up\<close>

text \<open>What a transaction adds to the coins in circulation, when the report counts it so.\<close>

definition supply_added :: "int \<Rightarrow> transaction_view \<Rightarrow> num" where
  "supply_added since t =
     (if t_kind t = Message \<or> t_created_at t < since \<or> list_ex (\<lambda>p. p_account p = USD_ISSUANCE) (t_postings t)
         \<or> list_ex (\<lambda>p. suffix ''-usd'' (p_account p)) (t_postings t) then 0
      else (case find (\<lambda>p. p_account p = SYSTEM_ISSUANCE) (t_postings t) of Some p \<Rightarrow> - p_amount p | None \<Rightarrow> 0))"

definition supply_fields :: "flows \<Rightarrow> num list" where
  "supply_fields f = [cf_net_issuance f, cf_issued_to_nana f, cf_issued_to_members f, cf_issued_for_lotto f,
     cf_retired f, cf_corrections f]"

definition adds_up :: "num \<Rightarrow> num \<Rightarrow> flows \<Rightarrow> bool" where
  "adds_up s b f \<longleftrightarrow> cf_net_issuance f = s \<and> (\<forall>x \<in> set (supply_fields f). is_integer x \<and> \<bar>x\<bar> \<le> b)
     \<and> cf_net_issuance f = cf_issued_to_nana f + cf_issued_to_members f + cf_issued_for_lotto f + cf_corrections f
         - cf_retired f"

lemma supply_fields_count [simp]: "supply_fields (count_flow t f) = supply_fields f"
  by (simp add: supply_fields_def count_flow_def)

lemma adds_up_same: "supply_fields f' = supply_fields f \<Longrightarrow> adds_up s b f' = adds_up s b f"
  by (simp add: adds_up_def supply_fields_def)

lemma coin_flow_keeps: "supply_fields (coin_flow nana t f) = supply_fields f"
  unfolding coin_flow_def Let_def
  by (simp add: book_flow_def Let_def supply_fields_def split: option.split economic_kind.split)

lemma exact_step:
  assumes "is_integer x" "is_integer a" "\<bar>x\<bar> \<le> b" "b + \<bar>a\<bar> \<le> 9007199254740992"
  shows "js_add x a = x + a" "js_sub x a = x - a" "is_integer (x + a)" "is_integer (x - a)"
    "\<bar>x + a\<bar> \<le> b + \<bar>a\<bar>" "\<bar>x - a\<bar> \<le> b + \<bar>a\<bar>"
  using assms by (auto intro!: js_add_exact js_sub_exact is_integer_add is_integer_diff)

lemma supply_flow_adds:
  assumes "adds_up s b f" and "is_integer a" and "b + \<bar>a\<bar> \<le> 9007199254740992"
  shows "adds_up (s + a) (b + \<bar>a\<bar>) (supply_flow nana t a f)"
proof -
  have w: "\<And>x. \<bar>x\<bar> \<le> b \<Longrightarrow> \<bar>x\<bar> \<le> b + \<bar>a\<bar>" by linarith
  have x: "is_integer x \<and> \<bar>x\<bar> \<le> b" if "x \<in> set (supply_fields f)" for x
    using assms(1) that by (simp add: adds_up_def)
  note e = exact_step [OF conjunct1 [OF x] assms(2) conjunct2 [OF x] assms(3)]
  from assms(1) show ?thesis
    by (auto simp: supply_flow_def Let_def adds_up_def supply_fields_def e w)
qed

lemma add_flows_adds:
  assumes "adds_up s b f" and "is_integer (supply_added since t)" and "b + \<bar>supply_added since t\<bar> \<le> 9007199254740992"
  shows "adds_up (s + supply_added since t) (b + \<bar>supply_added since t\<bar>) (add_flows nana since f t)"
proof -
  have c: "adds_up s b (count_flow t f)" using assms(1) adds_up_same [OF supply_fields_count] by blast
  show ?thesis
  proof (cases "t_kind t = Message \<or> t_created_at t < since \<or> list_ex (\<lambda>p. p_account p = USD_ISSUANCE) (t_postings t)
      \<or> list_ex (\<lambda>p. suffix ''-usd'' (p_account p)) (t_postings t)")
    case True
    then have "supply_fields (add_flows nana since f t) = supply_fields f" and "supply_added since t = 0"
      by (auto simp: add_flows_def Let_def supply_added_def book_flow_def supply_fields_def count_flow_def)
    then show ?thesis using assms(1) adds_up_same [of "add_flows nana since f t" f] by simp
  next
    case False
    show ?thesis
    proof (cases "find (\<lambda>p. p_account p = SYSTEM_ISSUANCE) (t_postings t)")
      case None
      with False have "supply_added since t = 0" "add_flows nana since f t = coin_flow nana t (count_flow t f)"
        by (simp_all add: supply_added_def add_flows_def Let_def)
      then show ?thesis using c adds_up_same [OF coin_flow_keeps] by simp
    next
      case (Some p)
      with False have "supply_added since t = - p_amount p"
        "add_flows nana since f t = supply_flow nana t (- p_amount p) (count_flow t f)"
        by (simp_all add: supply_added_def add_flows_def Let_def)
      then show ?thesis using supply_flow_adds [OF c assms(2,3)] by simp
    qed
  qed
qed

lemma flows_add_up:
  assumes "\<forall>t \<in> set ts. is_integer (supply_added since t)"
    and "b + sum_list (map (\<lambda>t. \<bar>supply_added since t\<bar>) ts) \<le> 9007199254740992" and "adds_up s b f"
  shows "adds_up (s + sum_list (map (supply_added since) ts)) (b + sum_list (map (\<lambda>t. \<bar>supply_added since t\<bar>) ts))
    (foldl (add_flows nana since) f ts)"
  using assms
proof (induction ts arbitrary: s b f)
  case (Cons t ts)
  have n: "0 \<le> sum_list (map (\<lambda>t. \<bar>supply_added since t\<bar>) ts)" by (induction ts) auto
  have "adds_up (s + supply_added since t) (b + \<bar>supply_added since t\<bar>) (add_flows nana since f t)"
    using Cons.prems n by (intro add_flows_adds) auto
  from Cons.IH [OF _ _ this] Cons.prems show ?case by (simp add: add.assoc)
qed simp

section \<open>Position of the central bank\<close>

record bank_position =
  bp_circulation :: num
  bp_nana_coins :: num
  bp_public_coins :: num
  bp_usd_reserve :: num
  bp_buy_back_promise :: num
  bp_reserve_ratio :: "num option"
  bp_backing :: "num option"
  bp_best_bid :: "num option"
  bp_best_ask :: "num option"
  bp_sell_promise :: num
  bp_loans_owed :: num
  bp_loans_overdue :: num
  bp_loan_offers :: num
  bp_lotto_pools :: num
  bp_lotto_interest :: num

definition central_bank_position ::
  "num \<Rightarrow> num \<Rightarrow> string \<Rightarrow> num \<Rightarrow> num \<Rightarrow> quote list \<Rightarrow> loan list \<Rightarrow> lotto list \<Rightarrow> bank_position" where
  "central_bank_position circ scale nana nana_coins reserve qs loans lottos =
     (let mine = filter (\<lambda>q. q_maker q = nana \<and> q_status q = QuoteOpen \<and> q_live q) qs;
          bids = filter (\<lambda>q. q_side q = Bid) mine; asks = filter (\<lambda>q. q_side q = Ask) mine;
          promise = js_sum (map q_cents bids); public_coins = max 0 (js_sub circ nana_coins);
          lent = filter (\<lambda>l. ln_lender l = nana) loans; active = filter (\<lambda>l. ln_status l = LoanActive) lent;
          houses = filter (\<lambda>l. lo_house l = nana \<and> lo_status l \<noteq> LottoSettled) lottos in
      \<lparr>bp_circulation = circ, bp_nana_coins = nana_coins, bp_public_coins = public_coins, bp_usd_reserve = reserve,
       bp_buy_back_promise = promise,
       bp_reserve_ratio = (if promise > 0 then Some (js_div reserve promise) else None),
       bp_backing = (if public_coins > 0 then Some (js_div (js_mul reserve scale) public_coins) else None),
       bp_best_bid = (if bids = [] then None else Some (Max (set (map q_cents_per_coin bids)))),
       bp_best_ask = (if asks = [] then None else Some (Min (set (map q_cents_per_coin asks)))),
       bp_sell_promise = js_sum (map q_coins asks),
       bp_loans_owed = foldl (\<lambda>n l. js_add (js_add n (ln_principal l)) (ln_interest l)) 0 active,
       bp_loans_overdue = js_sum (map ln_overdue active),
       bp_loan_offers = js_sum (map ln_amount (filter (\<lambda>l. ln_status l = Offered \<or> ln_status l = Armed) lent)),
       bp_lotto_pools = js_sum (map lo_pool houses),
       bp_lotto_interest = js_sum (map lo_interest (filter (\<lambda>l. lt_kind (lo_terms l) \<noteq> Simple) houses))\<rparr>)"

definition supply_growth :: "num \<Rightarrow> num \<Rightarrow> num option" where
  "supply_growth circ net = (let opening = js_sub circ net in
     if opening > 0 then Some (js_div net opening) else None)"

section \<open>The public report\<close>

record report_row =
  rr_label :: string
  rr_received :: num
  rr_paid :: num

record partner =
  pn_account :: string
  pn_name :: string
  pn_count :: nat

record public_report =
  pr_count :: nat
  pr_first :: "int option"
  pr_last :: "int option"
  pr_received :: num
  pr_paid :: num
  pr_rows :: "(string \<times> report_row) list"
  pr_partners :: "(string \<times> partner) list"

definition report_rows :: "(string \<times> string) list" where
  "report_rows = [(''LABOR'', ''Work''), (''GOOD'', ''Goods''), (''GIFT'', ''Gifts''), (''LOAN_PRINCIPAL'', ''Loans''),
     (''INTEREST'', ''Interest''), (''ISSUE'', ''From Nana (new money)''), (''RETIRE'', ''Returned to Nana''),
     (''OTHER'', ''Other'')]"

definition report_category :: "transaction_view \<Rightarrow> string" where
  "report_category t = (if t_kind t = Issue then ''ISSUE'' else if t_kind t = Retire then ''RETIRE''
     else case t_economic_kind t of Some Labor \<Rightarrow> ''LABOR'' | Some Good \<Rightarrow> ''GOOD'' | Some Gift \<Rightarrow> ''GIFT''
       | Some LoanPrincipal \<Rightarrow> ''LOAN_PRINCIPAL'' | Some Interest \<Rightarrow> ''INTEREST'' | _ \<Rightarrow> ''OTHER'')"

definition note_partner :: "string \<Rightarrow> (string \<times> partner) list \<Rightarrow> posting \<Rightarrow> (string \<times> partner) list" where
  "note_partner account m p =
     (if p_account p = account \<or> \<not> prefix ''account-'' (p_account p) \<or> suffix ''-usd'' (p_account p) then m
      else let seen = (case map_of m (p_account p) of Some x \<Rightarrow> x
          | None \<Rightarrow> \<lparr>pn_account = p_account p, pn_name = p_name p, pn_count = 0\<rparr>) in
        AList.update (p_account p) (seen\<lparr>pn_count := Suc (pn_count seen)\<rparr>) m)"

definition report_movement :: "string \<Rightarrow> public_report \<Rightarrow> transaction_view \<Rightarrow> public_report" where
  "report_movement account r t =
     (let d = account_delta account t; key = report_category t in
      if t_kind t = Message \<or> d = 0 then r
      else let row = (case map_of (pr_rows r) key of Some x \<Rightarrow> x
            | None \<Rightarrow> \<lparr>rr_label = the (map_of report_rows key), rr_received = 0, rr_paid = 0\<rparr>) in
        \<lparr>pr_count = Suc (pr_count r),
         pr_first = Some (case pr_first r of None \<Rightarrow> t_created_at t | Some x \<Rightarrow> min x (t_created_at t)),
         pr_last = Some (case pr_last r of None \<Rightarrow> t_created_at t | Some x \<Rightarrow> max x (t_created_at t)),
         pr_received = (if d > 0 then js_add (pr_received r) d else pr_received r),
         pr_paid = (if d > 0 then pr_paid r else js_sub (pr_paid r) d),
         pr_rows = AList.update key (if d > 0 then row\<lparr>rr_received := js_add (rr_received row) d\<rparr>
           else row\<lparr>rr_paid := js_sub (rr_paid row) d\<rparr>) (pr_rows r),
         pr_partners = foldl (note_partner account) (pr_partners r) (t_postings t)\<rparr>)"

text \<open>The rows in the order of the table; the partners by trades, then by name.\<close>

definition public_report_of ::
  "(string \<Rightarrow> string \<Rightarrow> bool) \<Rightarrow> string \<Rightarrow> transaction_view list \<Rightarrow> public_report \<times> report_row list \<times> partner list" where
  "public_report_of before account ts =
     (let r = foldl (report_movement account) \<lparr>pr_count = 0, pr_first = None, pr_last = None, pr_received = 0,
          pr_paid = 0, pr_rows = [], pr_partners = []\<rparr> ts in
      (r, List.map_filter (\<lambda>(key, _). map_of (pr_rows r) key) report_rows,
       foldr (insert_by (\<lambda>a b. pn_count a > pn_count b \<or> pn_count a = pn_count b \<and> before (pn_name a) (pn_name b)))
         (map snd (pr_partners r)) []))"

section \<open>The household\<close>

record population =
  pp_members :: nat
  pp_active :: nat
  pp_disabled :: nat
  pp_nanas :: nat
  pp_since :: "int option"
  pp_newest :: "user_view option"
  pp_total :: num
  pp_median :: "num option"

definition population_of :: "user_view list \<Rightarrow> population" where
  "population_of us =
     (let balances = sort (List.map_filter (\<lambda>u. if uv_status u = UserActive then uv_balance u else None) us);
          mid = length balances div 2; joined = sort_key uv_created_at us in
      \<lparr>pp_members = length us, pp_active = length (filter (\<lambda>u. uv_status u = UserActive) us),
       pp_disabled = length (filter (\<lambda>u. uv_status u \<noteq> UserActive) us),
       pp_nanas = length (filter (\<lambda>u. uv_role u = Nana) us),
       pp_since = (case joined of [] \<Rightarrow> None | u # _ \<Rightarrow> Some (uv_created_at u)),
       pp_newest = at_last joined, pp_total = js_sum balances,
       pp_median = (if balances = [] then None
         else if length balances mod 2 \<noteq> 0 then Some (balances ! mid)
         else Some (of_int \<lfloor>js_div (js_add (balances ! (mid - 1)) (balances ! mid)) 2\<rfloor>))\<rparr>)"

end
