(* ===== verification/SeedSafety.thy ===== *)
theory SeedSafety
  imports Seed DemoSafety
begin

text \<open>
  Every statement of the seeding script is a method of the ledger, so the script takes a reachable
  ledger to a reachable one, whatever the clock, the time zone and the random numbers.
\<close>

definition runs :: "'a script \<Rightarrow> bool" where
  "runs m \<longleftrightarrow> (\<forall>w r w'. m w = Some (r, w') \<longrightarrow> reachable w \<longrightarrow> reachable w')"

named_theorems runs_intros "scripts that are runs of the ledger"

lemma runsD: "runs m \<Longrightarrow> m w = Some (r, w') \<Longrightarrow> reachable w \<Longrightarrow> reachable w'"
  by (auto simp: runs_def)

lemma runs_bind [runs_intros]: "runs m \<Longrightarrow> (\<And>a. runs (k a)) \<Longrightarrow> runs (bind m k)"
  unfolding runs_def bind_def by (fastforce split: option.splits prod.splits sum.splits)

lemma runs_pure [runs_intros]: "runs (done_with a)" "runs (peek f)" "runs (present g)"
  by (auto simp: runs_def done_with_def peek_def present_def split: option.splits)

lemma runs_thn [runs_intros]: "runs m \<Longrightarrow> runs n \<Longrightarrow> runs (thn m n)"
  unfolding thn_def by (intro runs_bind)

lemma runs_fold [runs_intros]: "(\<And>s x. runs (f s x)) \<Longrightarrow> runs (fold_script f s xs)"
  by (induction xs arbitrary: s) (auto intro!: runs_intros)

lemma runs_map [runs_intros]: "(\<And>x. runs (f x)) \<Longrightarrow> runs (map_script f xs)"
  by (induction xs) (auto intro!: runs_intros)

lemma runs_all [runs_intros]: "(\<forall>m \<in> set ms. runs m) \<Longrightarrow> runs (all_of ms)"
  by (induction ms) (auto intro!: runs_intros)

lemma runs_step: "(\<And>w. run x w = Some (f w)) \<Longrightarrow> runs (step f)"
  by (auto simp: runs_def step_def intro: reachable.step)

lemma runs_act: "(\<And>w. run x w = Some (snd (m w))) \<Longrightarrow> runs (act m)"
  by (metis (no_types, lifting) runs_def act_def option.inject reachable.step snd_conv)

lemma runs_just [runs_intros]: "runs (act m) \<Longrightarrow> runs (just m)"
  unfolding just_def by (intro runs_intros)

lemma runs_reading [runs_intros]: "runs reading"
  using reachable.step [of _ ReadClock] by (auto simp: runs_def reading_def)

lemma runs_draws [runs_intros]: "runs (lotto_tick lotto_host t rnd)"
  using reachable.step [of _ "TickLottos t rnd"] by (auto simp: runs_def)

lemma runs_steps [runs_intros]: "runs (wait s)" "runs (step (advance_to t))" "runs (step start_live)"
  "runs (step (\<lambda>w. w\<lparr>decimals := n\<rparr>))"
  unfolding wait_def
  by (rule runs_step [of "Advance _"] runs_step [of "AdvanceTo _"] runs_step [of StartLive]
      runs_step [of "SetDecimals _"], simp)+

lemma runs_acts [runs_intros]:
  "runs (act (provision a b c d))" "runs (act (add_user a b c r))" "runs (act (issue u i x m))"
  "runs (act (issue_usd u i x m))" "runs (act (transfer u i x m e))" "runs (act (reverse_txn u i m))"
  "runs (act (refund u i x m))" "runs (act (create_listing u li))" "runs (act (purchase u i))"
  "runs (act (make_offer u i x m))" "runs (act (accept_offer u i))" "runs (act (post_quote u s x y))"
  "runs (act (take_quote u i))" "runs (act (reform u ri))" "runs (act (command commerce_host u ca))"
  "runs (act (loan_offer lending_host u lt t bb n))" "runs (act (loan_accept lending_host u k t))"
  "runs (act (loan_repay lending_host u k x t))" "runs (act (lotto_buy lotto_host u k x t))"
  by (rule runs_act [of "Provision _ _ _ _"] runs_act [of "AddUser _ _ _ _"] runs_act [of "IssueOp _ _ _ _"]
      runs_act [of "IssueUsd _ _ _ _"] runs_act [of "TransferOp _ _ _ _ _"] runs_act [of "ReverseOp _ _ _"]
      runs_act [of "RefundOp _ _ _ _"] runs_act [of "CreateListing _ _"] runs_act [of "PurchaseOp _ _"]
      runs_act [of "MakeOffer _ _ _ _"] runs_act [of "AcceptOffer _ _"] runs_act [of "PostQuote _ _ _ _"]
      runs_act [of "TakeQuote _ _"] runs_act [of "ReformOp _ _"] runs_act [of "CommerceOp _ _"]
      runs_act [of "OfferLoan _ _ _ _ _"] runs_act [of "AcceptLoan _ _ _"] runs_act [of "RepayLoan _ _ _ _"]
      runs_act [of "BuyTickets _ _ _ _"], simp)+

lemma runs_create_draw [runs_intros]: "runs (act (create_draw u terms t))"
  by (rule runs_act [of "CreateLotto u terms t"]) (simp add: create_draw_def case_prod_unfold)

lemma runs_weeks: "runs (seed_week f cw week)" "runs (seed_month f month)"
  by (cases cw; auto simp: seed_week_def seed_chores_def seed_chore_def seed_treat_def seed_birthday_def seed_month_def Let_def
      intro!: runs_intros)+

lemma runs_market: "runs (seed_listings f)" "runs (seed_offers f)" "runs (seed_mistake f)" "runs (seed_this_week zone f)"
  by (auto simp: seed_listings_def seed_offers_def seed_mistake_def seed_this_week_def sold_to_def offer_on_def
      intro!: runs_intros)

lemma runs_decimals: "runs (seed_reform f)" "runs (seed_refund f)" "runs (seed_art f)" "runs (seed_deeds f)"
  by (auto simp: seed_reform_def seed_refund_def seed_art_def seed_deeds_def order_def post_deed_def deed_titled_def
      intro!: runs_intros split: prod.splits)

lemma runs_books: "runs (seed_draw rnd f t k)" "runs (seed_loans f t)"
  by (auto simp: seed_draw_def seed_loans_def lend_def Let_def intro!: runs_intros)

lemma runs_start: "runs seed_family" "runs (seed_floats f)"
  by (auto simp: seed_family_def seed_floats_def Let_def intro!: runs_intros)

lemma runs_seed: "runs (seed zone rnd)"
  unfolding seed_def
  by (intro runs_bind runs_all runs_start ballI) (auto intro!: runs_intros runs_weeks runs_market runs_decimals runs_books runs_start)

lemma seeding_reachable: "reachable w \<Longrightarrow> reachable (seeding zone rnd w)"
  using runsD [OF runs_seed] by (simp add: seeding_def split: option.splits prod.splits)

end
