(* ===== verification/SessionSafety.thy ===== *)
theory SessionSafety
  imports Session
begin

text \<open>
  Whose screen it is. A server is honest when \<open>/me\<close> and the login answer with the owner of the token;
  the locale holds what follows: whatever the service answers, the store of accounts stays well formed
  and every token stays with its owner, and a method that returns leaves the page showing the account
  that its next request will be made by.
\<close>

definition shown :: "session \<Rightarrow> bool" where
  "shown s \<longleftrightarrow> (case ss_me s of None \<Rightarrow> True
     | Some u \<Rightarrow> (\<exists>a. active_account (ss_accounts s) = Some a \<and> sa_user a = uv_id u))"

definition held :: "(string \<Rightarrow> string) \<Rightarrow> session \<Rightarrow> bool" where
  "held owner s \<longleftrightarrow> wf_accounts (ss_accounts s) \<and> (\<forall>a \<in> set (ac_all (ss_accounts s)). owner (sa_token a) = sa_user a)"

definition honest :: "world \<Rightarrow> (string \<Rightarrow> string) \<Rightarrow> bool" where
  "honest w owner \<longleftrightarrow> (\<forall>k t u. wd_me w k (Some t) = Inr u \<longrightarrow> uv_id u = owner t) \<and> (\<forall>k u. wd_me w k None \<noteq> Inr u)
     \<and> (\<forall>k u t. wd_login w k = Inr (u, t) \<longrightarrow> uv_id u = owner t)"

definition keeps :: "(session \<Rightarrow> bool) \<Rightarrow> 'a task \<Rightarrow> bool" where
  "keeps P m \<longleftrightarrow> (\<forall>s. P s \<longrightarrow> P (snd (m s)))"

named_theorems keeps_intros "tasks that keep a property of the session"

lemma keepsD: "keeps P m \<Longrightarrow> P s \<Longrightarrow> P (snd (m s))"
  by (simp add: keeps_def)

lemma keepsE: "keeps P m \<Longrightarrow> m s = (r, s') \<Longrightarrow> P s \<Longrightarrow> P s'"
  by (metis keeps_def snd_conv)

lemma keeps_andthen [keeps_intros]:
  assumes "keeps P m" and "\<And>a. keeps P (k a)"
  shows "keeps P (andthen m k)"
  unfolding keeps_def
proof (intro allI impI)
  fix s assume "P s"
  obtain r s' where m: "m s = (r, s')" by fastforce
  have "P s'" using keepsE [OF assms(1) m \<open>P s\<close>] .
  with m assms(2) show "P (snd (andthen m k s))" by (cases r) (simp_all add: andthen_def keeps_def)
qed

lemma keeps_on_error [keeps_intros]:
  assumes "keeps P m" and "\<And>e. keeps P (h e)"
  shows "keeps P (on_error m h)"
  unfolding keeps_def
proof (intro allI impI)
  fix s assume "P s"
  obtain r s' where m: "m s = (r, s')" by fastforce
  have "P s'" using keepsE [OF assms(1) m \<open>P s\<close>] .
  with m assms(2) show "P (snd (on_error m h s))" by (cases r) (simp_all add: on_error_def keeps_def)
qed

lemma keeps_finally [keeps_intros]: "keeps P m \<Longrightarrow> (\<And>s. P s \<Longrightarrow> P (f s)) \<Longrightarrow> keeps P (finally_do f m)"
  by (simp add: keeps_def finally_do_def case_prod_unfold)

lemma keeps_update [keeps_intros]: "(\<And>s. P s \<Longrightarrow> P (f s)) \<Longrightarrow> keeps P (update f)"
  by (simp add: keeps_def update_def)

lemma keeps_pure [keeps_intros]: "(\<And>s. P s \<Longrightarrow> P (f s)) \<Longrightarrow> keeps P (\<lambda>s. (r, f s))"
  by (simp add: keeps_def)

lemma keeps_if [keeps_intros]: "keeps P m \<Longrightarrow> keeps P n \<Longrightarrow> keeps P (\<lambda>s. if b s then m s else n s)"
  by (simp add: keeps_def)

section \<open>The store of accounts\<close>

lemma remove_all: "ac_all (remove_account i s) = filter (\<lambda>a. sa_user a \<noteq> i) (ac_all s)"
  by (simp add: remove_account_def Let_def)

lemma invalidate_subset: "set (ac_all (invalidate_active s)) \<subseteq> set (ac_all s)"
  by (auto simp: invalidate_active_def remove_all split: option.splits)

lemma held_fields: "ss_accounts s' = ss_accounts s \<Longrightarrow> held owner s' = held owner s"
  by (simp add: held_def)

lemma held_rejected: "held owner s \<Longrightarrow> held owner (rejected e s)"
  using invalidate_subset wf_invalidate by (fastforce simp: held_def rejected_def split: trouble.splits)

lemma held_settle: "held owner s \<Longrightarrow> held owner (settle r s)"
  by (simp add: settle_def held_rejected split: sum.splits)

lemma held_activate: "held owner s \<Longrightarrow> held owner (s\<lparr>ss_accounts := activate_account i (ss_accounts s)\<rparr>)"
  using wf_activate by (auto simp: held_def activate_account_def)

lemma held_views: "held owner (clear_view s) = held owner s" "held owner (set_me u s) = held owner s"
  "held owner (later w s) = held owner s"
  by (simp_all add: held_def clear_view_def set_me_def later_def)

lemma held_invalidate: "held owner s \<Longrightarrow> held owner (s\<lparr>ss_accounts := invalidate_active (ss_accounts s)\<rparr>)"
  using invalidate_subset wf_invalidate by (fastforce simp: held_def)

lemma held_calls: "held owner (s\<lparr>ss_calls := n\<rparr>) = held owner s"
  by (simp add: held_def)

lemma held_add: "held owner s \<Longrightarrow> owner (sa_token a) = sa_user a \<Longrightarrow>
    held owner (s\<lparr>ss_accounts := add_account a (ss_accounts s)\<rparr>)"
  using wf_add [of "ss_accounts s" a] by (auto simp: held_def add_account_def)

lemma keeps_call [keeps_intros]: "keeps (held owner) (call f)"
  by (simp add: keeps_def call_def Let_def held_settle held_calls)

lemma snd_call3: "snd (call3 f g h s) = settle (h (ss_calls s + 2) (active_token (ss_accounts s)))
    (settle (g (ss_calls s + 1) (active_token (ss_accounts s)))
      (settle (f (ss_calls s) (active_token (ss_accounts s))) (s\<lparr>ss_calls := ss_calls s + 3\<rparr>)))"
  by (simp add: call3_def Let_def split: sum.splits)

lemma keeps_call3 [keeps_intros]: "keeps (held owner) (call3 f g h)"
  unfolding keeps_def snd_call3 by (intro allI impI held_settle) (simp add: held_calls)

lemma keeps_refresh [keeps_intros]: "keeps (held owner) (refresh w known)"
proof -
  have b: "keeps (held owner) (finally_do (\<lambda>s. s\<lparr>ss_loading := False\<rparr>)
      (andthen (case known of Some m \<Rightarrow> (\<lambda>s. (Inr m, s)) | None \<Rightarrow> call (\<lambda>k _. wd_status w k)) (\<lambda>m.
       andthen (call3 (wd_me w) (wd_users w) (wd_listings w)) (\<lambda>(u, us, ls).
         update (\<lambda>s. later w (s\<lparr>ss_me := Some u, ss_household := us, ss_listings := ls, ss_status := Some m\<rparr>))))))"
    by (intro keeps_finally keeps_andthen keeps_call3)
       (auto simp: held_views held_def later_def intro!: keeps_update keeps_call keeps_pure split: option.splits)
  show ?thesis unfolding keeps_def refresh_def
    using keepsD [OF b] held_fields [of "_\<lparr>ss_loading := True\<rparr>"] by simp
qed

lemma keeps_load_me [keeps_intros]: "keeps (held owner) (load_me w)"
  unfolding load_me_def by (intro keeps_intros) (simp add: held_views)

lemma keeps_pairs [keeps_intros]: "keeps P (\<lambda>s. (r, s))"
  by (simp add: keeps_def)

lemma held_restore: "held owner s \<Longrightarrow> held owner (snd (restore w s))"
proof -
  have "keeps (held owner) (on_error (andthen (load_me w) (\<lambda>_ s. (Inr True, s))) (\<lambda>_ s. (Inr False, set_me None s)))"
    by (intro keeps_intros) (simp add: held_views)
  then show "held owner s \<Longrightarrow> ?thesis" by (simp add: restore_def keeps_def)
qed

section \<open>The page shows the account it acts as\<close>

lemma find_active: "active_account s = Some a \<Longrightarrow> a \<in> set (ac_all s) \<and> ac_active s = Some (sa_user a)"
  by (auto simp: active_account_def find_Some_iff)

lemma call_Inr: "call f s = (Inr x, s') \<longleftrightarrow>
    f (ss_calls s) (active_token (ss_accounts s)) = Inr x \<and> s' = s\<lparr>ss_calls := Suc (ss_calls s)\<rparr>"
  by (auto simp: call_def Let_def settle_def)

lemma andthen_Inr: "andthen m k s = (Inr x, s') \<longleftrightarrow> (\<exists>a s1. m s = (Inr a, s1) \<and> k a s1 = (Inr x, s'))"
  by (auto simp: andthen_def split: prod.splits sum.splits)

lemma call3_Inr: "call3 f g h s = (Inr (a, b, c), s') \<Longrightarrow>
    f (ss_calls s) (active_token (ss_accounts s)) = Inr a \<and> s' = s\<lparr>ss_calls := ss_calls s + 3\<rparr>"
  by (auto simp: call3_def Let_def settle_def split: sum.splits)

lemma on_error_Inl: "on_error m (\<lambda>e s. (Inl e, f s)) s = (Inr x, s') \<longleftrightarrow> m s = (Inr x, s')"
  by (auto simp: on_error_def split: prod.splits sum.splits)

locale honest_world =
  fixes w :: world and owner :: "string \<Rightarrow> string"
  assumes honest: "honest w owner"
begin

lemma me_owner:
  assumes "wd_me w k (active_token (ss_accounts s)) = Inr u" and "held owner s"
  shows "\<exists>a. active_account (ss_accounts s) = Some a \<and> sa_user a = uv_id u"
proof (cases "active_account (ss_accounts s)")
  case None
  with assms(1) honest show ?thesis by (simp add: active_token_def honest_def)
next
  case (Some a)
  with find_active [OF Some] assms honest show ?thesis by (auto simp: active_token_def honest_def held_def)
qed

lemma refresh_shows:
  assumes "refresh w known s = (Inr (), s')" and "held owner s"
  shows "shown s'"
proof (cases "ss_me s")
  case None
  with assms(1) show ?thesis by (simp add: refresh_def shown_def)
next
  case (Some u0)
  let ?t = "case known of Some m \<Rightarrow> (\<lambda>s. (Inr m, s)) | None \<Rightarrow> call (\<lambda>k _. wd_status w k)"
  from assms(1) Some obtain m s1 u us ls s2 where m: "?t (s\<lparr>ss_loading := True\<rparr>) = (Inr m, s1)"
    and c: "call3 (wd_me w) (wd_users w) (wd_listings w) s1 = (Inr (u, us, ls), s2)"
    and s': "s' = (later w (s2\<lparr>ss_me := Some u, ss_household := us, ss_listings := ls, ss_status := Some m\<rparr>))\<lparr>ss_loading := False\<rparr>"
    by (auto simp: refresh_def finally_do_def andthen_Inr update_def split: prod.splits)
  have a1: "ss_accounts s1 = ss_accounts s" using m by (cases known) (auto simp: call_Inr)
  then have h: "held owner s1" using assms(2) by (simp add: held_def)
  from call3_Inr [OF c] have u: "wd_me w (ss_calls s1) (active_token (ss_accounts s1)) = Inr u"
    "ss_accounts s2 = ss_accounts s1" by simp_all
  show ?thesis using me_owner [OF u(1) h] u(2) by (simp add: s' shown_def later_def)
qed

lemma load_me_shows:
  assumes "load_me w s = (Inr (), s')" and "held owner s"
  shows "shown s'"
proof -
  from assms(1) obtain u s1 where c: "call (wd_me w) s = (Inr u, s1)"
    and r: "refresh w None (set_me (Some u) s1) = (Inr (), s')"
    by (auto simp: load_me_def andthen_Inr update_def)
  have "held owner (set_me (Some u) s1)" using keepsE [OF keeps_call c assms(2)] by (simp add: held_views)
  then show ?thesis using refresh_shows [OF r] by simp
qed

lemma shown_or_none:
  assumes "held owner s"
  shows "shown (snd (on_error (load_me w) (\<lambda>_ s. (Inr (), set_me None s)) s))"
proof -
  obtain r s' where m: "load_me w s = (r, s')" by fastforce
  show ?thesis
  proof (cases r)
    case (Inl e)
    then show ?thesis by (simp add: on_error_def m shown_def set_me_def)
  next
    case (Inr x)
    then show ?thesis using load_me_shows [of s s'] m assms by (simp add: on_error_def)
  qed
qed

lemma held_login: "held owner s \<Longrightarrow> held owner (snd (login w s))"
proof -
  have "keeps (held owner) (login_call w)"
    unfolding keeps_def
  proof (intro allI impI)
    fix s assume h: "held owner s"
    obtain r s1 where c: "call (\<lambda>k _. wd_login w k) s = (r, s1)" by fastforce
    have h1: "held owner s1" using keepsE [OF keeps_call c h] .
    show "held owner (snd (login_call w s))"
    proof (cases r)
      case (Inl e)
      with h1 c show ?thesis by (simp add: login_call_def andthen_def)
    next
      case (Inr p)
      obtain u t where p: "p = (u, t)" by (cases p)
      have "owner t = uv_id u" using c honest unfolding Inr p call_Inr honest_def by metis
      with h1 c Inr p show ?thesis
        using held_add [OF h1] by (simp add: login_call_def andthen_def update_def)
    qed
  qed
  then have "keeps (held owner) (login w)"
    unfolding login_def by (intro keeps_andthen keeps_update keeps_refresh) (simp_all add: held_views)
  then show "held owner s \<Longrightarrow> ?thesis" by (rule keepsD)
qed

lemma login_shows:
  assumes "login w s = (Inr (), s')" and "held owner s"
  shows "shown s'"
proof -
  from assms(1) obtain u t s1 where c: "call (\<lambda>k _. wd_login w k) s = (Inr (u, t), s1)"
    and r: "refresh w None (set_me (Some u) (s1\<lparr>ss_accounts := add_account \<lparr>sa_user = uv_id u,
      sa_username = uv_username u, sa_name = uv_display_name u, sa_role = uv_role u, sa_token = t\<rparr> (ss_accounts s1)\<rparr>))
      = (Inr (), s')"
    by (auto simp: login_def login_call_def andthen_Inr update_def split: prod.splits)
  have h: "held owner s1" using keepsE [OF keeps_call c assms(2)] .
  have "owner t = uv_id u" using c honest unfolding call_Inr honest_def by metis
  with h have "held owner (set_me (Some u) (s1\<lparr>ss_accounts := add_account \<lparr>sa_user = uv_id u,
      sa_username = uv_username u, sa_name = uv_display_name u, sa_role = uv_role u, sa_token = t\<rparr> (ss_accounts s1)\<rparr>))"
    unfolding held_views by (intro held_add) simp_all
  then show ?thesis using refresh_shows [OF r] by simp
qed

lemma held_switch:
  assumes "held owner s"
  shows "held owner (snd (switch_to w i s))"
proof -
  have "held owner (fall_back w p s)" if "held owner s" for p s
    using keepsD [OF keeps_on_error [OF keeps_load_me, of owner "\<lambda>_ s. (Inr (), set_me None s)"] held_activate [OF that]] that
    by (simp add: fall_back_def keeps_def held_views split: option.splits)
  then have "keeps (held owner) (on_error (load_me w) (\<lambda>e s. (Inl e, fall_back w p s)))" for p
    by (intro keeps_intros)
  from keepsD [OF this] show ?thesis
    using assms held_activate [OF assms] by (simp add: switch_to_def Let_def held_views)
qed

lemma switch_shows:
  assumes "switch_to w i s = (Inr (), s')" and "held owner s" and "shown s"
  shows "shown s'"
proof (cases "map_option sa_user (active_account (ss_accounts s)) = Some i")
  case True
  with assms show ?thesis by (simp add: switch_to_def)
next
  case False
  with assms(1) have "load_me w (clear_view (s\<lparr>ss_accounts := activate_account i (ss_accounts s)\<rparr>)) = (Inr (), s')"
    by (simp add: switch_to_def Let_def on_error_Inl del: map_option_eq_Some)
  then show ?thesis using load_me_shows held_activate [OF assms(2)] held_views(1) by blast
qed

lemma restore_shows:
  assumes "held owner s" and "shown s"
  shows "shown (snd (restore w s))"
proof -
  obtain r s' where m: "load_me w s = (r, s')" by fastforce
  have l: "r = Inr () \<Longrightarrow> shown s'" using load_me_shows [of s s'] m assms by simp
  show ?thesis
  proof (cases r)
    case (Inl e)
    with m assms(2) show ?thesis by (auto simp: restore_def on_error_def andthen_def shown_def set_me_def split: option.splits)
  next
    case (Inr x)
    with m l assms(2) show ?thesis by (simp add: restore_def on_error_def andthen_def)
  qed
qed

lemma logout_shows:
  assumes "held owner s"
  shows "held owner (logout_session w s)" and "shown (logout_session w s)"
proof -
  let ?s = "clear_view (snd (logout_call w s))"
  have "keeps (held owner) (logout_call w)"
    unfolding logout_call_def by (intro keeps_intros held_invalidate)
  then have h: "held owner ?s" using keepsD assms held_views(1) by blast
  have "keeps (held owner) (on_error (load_me w) (\<lambda>_ s. (Inr (), set_me None s)))"
    by (intro keeps_intros) (simp add: held_views)
  from keepsD [OF this h] h show "held owner (logout_session w s)" by (simp add: logout_session_def Let_def)
  show "shown (logout_session w s)"
    using shown_or_none [OF h] by (simp add: logout_session_def Let_def shown_def clear_view_def)
qed

lemma logout_all_shows: "held owner (logout_all_session w s)" "shown (logout_all_session w s)"
  by (simp_all add: logout_all_session_def held_def wf_accounts_def no_accounts_def shown_def clear_view_def)

end

section \<open>A browser with four accounts\<close>

definition visitor :: "string \<Rightarrow> user_view" where
  "visitor i = \<lparr>uv_id = i, uv_username = i, uv_display_name = i, uv_role = Member, uv_status = UserActive,
     uv_account = ''account-'' @ i, uv_created_at = 0, uv_bio = None, uv_balance = Some 0, uv_usd_cents = None\<rparr>"

definition held_account :: "string \<Rightarrow> stored_account" where
  "held_account i = \<lparr>sa_user = i, sa_username = i, sa_name = i, sa_role = Member, sa_token = ''t-'' @ i\<rparr>"

definition token_owner :: "string \<Rightarrow> string" where "token_owner t = drop 2 t"

definition four_accounts :: accounts where
  "four_accounts = \<lparr>ac_all = map held_account [''dan'', ''cat'', ''bob'', ''ann''], ac_active = Some ''ann''\<rparr>"

text \<open>A server that no longer knows Ann's session, and knows the others'.\<close>

definition expired :: trouble where
  "expired = Http \<lparr>hf_status = 401, hf_retry_after = None, hf_error = None, hf_message = None, hf_status_text = []\<rparr>"

definition knows :: "string option \<Rightarrow> (string \<Rightarrow> 'a) \<Rightarrow> trouble + 'a" where
  "knows t f = (case t of None \<Rightarrow> Inl expired | Some x \<Rightarrow> if x = ''t-ann'' then Inl expired else Inr (f (token_owner x)))"

definition later_world :: world where
  "later_world = \<lparr>wd_status = \<lambda>_. Inr \<lparr>sm_sequence = Some 7, sm_logs_enabled = None, sm_diag_enabled = None\<rparr>,
     wd_me = \<lambda>_ t. knows t visitor, wd_users = \<lambda>_ t. knows t (\<lambda>_. []), wd_listings = \<lambda>_ t. knows t (\<lambda>_. []),
     wd_login = \<lambda>_. Inl expired, wd_logout = \<lambda>_ t. knows t (\<lambda>_. ()), wd_time = \<lambda>_. 50000\<rparr>"

definition ann_session :: session where
  "ann_session = (new_session four_accounts)\<lparr>ss_me := Some (visitor ''ann'')\<rparr>"

interpretation later: honest_world later_world token_owner
  by unfold_locales
     (auto simp: honest_def later_world_def knows_def visitor_def split: option.splits if_splits)

lemma ann_held: "held token_owner ann_session" "shown ann_session"
  by (simp_all add: held_def ann_session_def new_session_def four_accounts_def held_account_def token_owner_def
      wf_accounts_def shown_def active_account_def visitor_def)

end
