(* ===== verification/UpdateRecovery.thy ===== *)
theory UpdateRecovery
  imports ClientLog
begin

text \<open>
  \<open>ui/update-recovery.ts\<close>: what the page does when a module of it cannot be loaded, usually because a new
  version was deployed. One automatic reload, guarded by a note in the tab's storage that survives it, and
  a button when that did not help. The page's life across reloads is the step relation \<open>tab\<close>; under it
  two automatic reloads are always at least half a minute apart, so a broken deployment cannot make the
  page reload itself in a loop.
\<close>

section \<open>Which errors\<close>

definition FRAGMENTS :: "string list" where
  "FRAGMENTS = [''error loading dynamically imported module'', ''failed to fetch dynamically imported module'',
     ''importing a module script failed'', ''chunkloaderror'', ''loading chunk'', ''failed to load module script'']"

definition is_chunk_text :: "string \<Rightarrow> bool" where
  "is_chunk_text s \<longleftrightarrow> (let text = to_lower s in
     list_ex (\<lambda>f. contains_text f text) FRAGMENTS \<or> (contains_text ''module'' text \<and> contains_text ''mime type'' text))"

text \<open>
  An error is a JSON-like value; a name or message that is not text reads as empty, since no other value
  prints as one of the fragments. The depth counts down from seven.
\<close>

definition text_part :: "(string \<times> json) list \<Rightarrow> string \<Rightarrow> string" where
  "text_part fs k = (case map_of fs k of Some (JStr s) \<Rightarrow> s | _ \<Rightarrow> [])"

fun is_chunk_error :: "nat \<Rightarrow> json \<Rightarrow> bool" where
  "is_chunk_error 0 e = False"
| "is_chunk_error (Suc n) (JStr s) = is_chunk_text s"
| "is_chunk_error (Suc n) (JObj fs) =
     ((n > 0 \<and> is_chunk_text (text_part fs ''name'' @ '': '' @ text_part fs ''message''))
      \<or> list_ex (\<lambda>k. case map_of fs k of None \<Rightarrow> False | Some e \<Rightarrow> is_chunk_error n e) [''reason'', ''rejection'', ''error''])"
| "is_chunk_error (Suc n) _ = False"

definition is_chunk_load_error :: "json \<Rightarrow> bool" where "is_chunk_load_error = is_chunk_error 7"

section \<open>The service\<close>

text \<open>
  The tab's storage entry: absent, not JSON, JSON without a numeric \<open>attemptedAt\<close>, or a note of the time of
  the last attempt. \<open>rc_reload\<close>: a reload is scheduled.
\<close>

datatype stored = Absent | Garbage | Other | Attempted int

record recovery =
  rc_updating :: bool
  rc_failed :: bool
  rc_started :: bool
  rc_target :: "string option"
  rc_reload :: bool

definition fresh_recovery :: recovery where
  "fresh_recovery = \<lparr>rc_updating = False, rc_failed = False, rc_started = False, rc_target = None, rc_reload = False\<rparr>"

definition recently :: "int \<Rightarrow> stored \<Rightarrow> bool" where
  "recently t s \<longleftrightarrow> (case s of Attempted then_at \<Rightarrow> t - then_at < 60000 | _ \<Rightarrow> False)"

definition recover :: "bool \<Rightarrow> bool \<Rightarrow> int \<Rightarrow> json \<Rightarrow> string option \<Rightarrow> stored \<Rightarrow> recovery \<Rightarrow> bool \<times> stored \<times> recovery" where
  "recover storage_works online t error target s r =
     (if \<not> is_chunk_load_error error then (False, s, r)
      else let r1 = (if target \<notin> {None, Some []} then r\<lparr>rc_target := target\<rparr> else r) in
        if rc_started r1 then (True, s, r1)
        else let r2 = r1\<lparr>rc_started := True\<rparr> in
          if \<not> storage_works \<or> s = Garbage \<or> \<not> online \<or> recently t s then (True, s, r2\<lparr>rc_failed := True\<rparr>)
          else (True, Attempted t, r2\<lparr>rc_updating := True, rc_reload := True\<rparr>))"

definition retry :: "bool \<Rightarrow> int \<Rightarrow> stored \<Rightarrow> recovery \<Rightarrow> stored \<times> recovery" where
  "retry storage_works t s r =
     (if storage_works then Attempted t else s, r\<lparr>rc_failed := False, rc_updating := True\<rparr>)"

text \<open>The half-minute timer that clears the note of a load that went well.\<close>

definition clear_note :: "bool \<Rightarrow> stored \<Rightarrow> recovery \<Rightarrow> stored" where
  "clear_note storage_works s r = (if \<not> rc_started r \<and> storage_works then Absent else s)"

text \<open>\<open>reloadTarget\<close>: the hash the address gets before the reload, if any.\<close>

definition target_hash :: "recovery \<Rightarrow> string option" where
  "target_hash r = (case rc_target r of Some t \<Rightarrow> if starts_with ''/'' t then Some t else None | None \<Rightarrow> None)"

section \<open>A tab\<close>

text \<open>
  \<open>tb_now\<close> the clock in milliseconds, \<open>tb_loaded\<close> when the page was loaded, \<open>tb_auto\<close> the times at which an
  automatic reload was decided, newest first. Time passes by \<open>wait\<close>; a scheduled reload loads the page anew, with the
  storage it left, and so does the person at any time.
\<close>

record tab =
  tb_now :: int
  tb_loaded :: int
  tb_page :: recovery
  tb_storage :: stored
  tb_auto :: "int list"

definition new_tab :: "int \<Rightarrow> stored \<Rightarrow> tab" where
  "new_tab t s = \<lparr>tb_now = t, tb_loaded = t, tb_page = fresh_recovery, tb_storage = s, tb_auto = []\<rparr>"

definition load_page :: "tab \<Rightarrow> tab" where
  "load_page x = x\<lparr>tb_loaded := tb_now x, tb_page := fresh_recovery\<rparr>"

definition tab_error :: "bool \<Rightarrow> bool \<Rightarrow> json \<Rightarrow> string option \<Rightarrow> tab \<Rightarrow> tab" where
  "tab_error works online e target x = (case recover works online (tb_now x) e target (tb_storage x) (tb_page x) of
     (_, s, r) \<Rightarrow> x\<lparr>tb_page := r, tb_storage := s,
       tb_auto := (if rc_reload r \<and> \<not> rc_reload (tb_page x) then tb_now x # tb_auto x else tb_auto x)\<rparr>)"

inductive tab_step :: "tab \<Rightarrow> tab \<Rightarrow> bool" where
  wait: "0 \<le> d \<Longrightarrow> tab_step x (x\<lparr>tb_now := tb_now x + d\<rparr>)"
| error: "tab_step x (tab_error works online e target x)"
| reload: "tab_step x (load_page x)"
| stable: "tb_now x \<ge> tb_loaded x + 30000 \<Longrightarrow>
    tab_step x (x\<lparr>tb_storage := clear_note works (tb_storage x) (tb_page x)\<rparr>)"
| retry: "tab_step x (case retry works (tb_now x) (tb_storage x) (tb_page x) of
    (s, r) \<Rightarrow> load_page (x\<lparr>tb_storage := s, tb_page := r\<rparr>))"

inductive tab_reaches :: "tab \<Rightarrow> tab \<Rightarrow> bool" where
  here: "tab_reaches x x"
| step: "tab_reaches x y \<Longrightarrow> tab_step y z \<Longrightarrow> tab_reaches x z"

section \<open>No reload loop\<close>

text \<open>Times half a minute apart, newest first.\<close>

fun spaced :: "int list \<Rightarrow> bool" where
  "spaced (a # b # ts) = (b + 30000 \<le> a \<and> spaced (b # ts))"
| "spaced _ = True"

text \<open>
  A page that has not yet met an error remembers the last automatic reload: by the note in storage, or by
  having been loaded for half a minute since.
\<close>

definition tab_inv :: "tab \<Rightarrow> bool" where
  "tab_inv x \<longleftrightarrow> spaced (tb_auto x) \<and> tb_loaded x \<le> tb_now x \<and> (rc_reload (tb_page x) \<longrightarrow> rc_started (tb_page x))
     \<and> (\<forall>t \<in> set (take 1 (tb_auto x)). t \<le> tb_now x \<and> (\<not> rc_started (tb_page x) \<longrightarrow> t \<le> tb_loaded x)
          \<and> ((\<exists>u. tb_storage x = Attempted u \<and> t \<le> u) \<or> t + 30000 \<le> tb_now x))"

lemma recover_reloads:
  assumes "recover works online t e target s r = (b, s', r')" and "rc_reload r \<longrightarrow> rc_started r"
  shows "(rc_reload r' \<and> \<not> rc_reload r \<and> \<not> rc_started r \<and> \<not> recently t s \<and> rc_started r' \<and> s' = Attempted t)
    \<or> (s' = s \<and> rc_reload r' = rc_reload r \<and> (rc_started r \<longrightarrow> rc_started r') \<and> (rc_reload r' \<longrightarrow> rc_started r'))"
  using assms by (auto simp: recover_def Let_def split: if_splits)

lemma spaced_Cons: "spaced (t # ts) \<longleftrightarrow> spaced ts \<and> (\<forall>u \<in> set (take 1 ts). u + 30000 \<le> t)"
  by (cases ts) auto

lemma tab_error_inv: "tab_inv x \<Longrightarrow> tab_inv (tab_error works online e target x)"
proof -
  assume i: "tab_inv x"
  obtain b s r where r: "recover works online (tb_now x) e target (tb_storage x) (tb_page x) = (b, s, r)"
    by (metis prod_cases3)
  have "rc_reload (tb_page x) \<longrightarrow> rc_started (tb_page x)" using i by (simp add: tab_inv_def)
  from recover_reloads [OF r this] i show ?thesis
    by (auto simp: tab_inv_def tab_error_def r spaced_Cons recently_def)
qed

lemma tab_step_inv: "tab_step x y \<Longrightarrow> tab_inv x \<Longrightarrow> tab_inv y"
proof (induction rule: tab_step.induct)
  case (error x works online e target)
  then show ?case by (rule tab_error_inv [rotated -1])
next
  case (stable x works)
  then show ?case by (auto simp: tab_inv_def clear_note_def)
next
  case (retry x works)
  then show ?case by (auto simp: tab_inv_def retry_def load_page_def fresh_recovery_def)
qed (auto simp: tab_inv_def load_page_def fresh_recovery_def)

lemma tab_inv_new: "tab_inv (new_tab t s)"
  by (simp add: tab_inv_def new_tab_def fresh_recovery_def)

lemma tab_reaches_inv: "tab_reaches x y \<Longrightarrow> tab_inv x \<Longrightarrow> tab_inv y"
  by (induction rule: tab_reaches.induct) (auto intro: tab_step_inv)

lemma reloads_are_spaced: "tab_reaches (new_tab t s) x \<Longrightarrow> spaced (tb_auto x)"
  using tab_reaches_inv [OF _ tab_inv_new] by (simp add: tab_inv_def)

end
