(* ===== verification/Spec2Isabelle.thy ===== *)
theory Spec2Isabelle
  imports GiftSafety Normalization PageDemo Reports SeedSafety SessionSafety UpdateRecovery
begin

text \<open>
NanaCoin is a household currency. Its web client (src/nanacoin_ui/src/app) contains the whole
  bank a second time: demo/ledger.ts is the ledger with the economic rules of the server, and
  demo/lending.ts, demo/lotto.ts and demo/commerce.ts are its loan, lottery and art books. This
  library models that code and proves what makes it correct.

  Layers, bottom up.

  \<^item> Prelude, JsNumber, JsString: the part of JavaScript the program uses. A method that changes
    state is a function from a state to a thrown value or a result and the state left behind
    (a throw keeps the mutations made before it). A number is a rational, each operator rounds
    its exact result to the nearest double (fl); NaN and the infinities, which every guard of the
    program refuses, are outside the model. bigint is int. A Map keeps insertion order, as an
    association list. Strings are lists of Latin-1 characters.
  \<^item> Models: the wire types of api/models.ts as records and datatypes.
  \<^item> Sha256: api/sha256.ts, next to the functional specification of FIPS 180-4. The shifts of
    the padding computation are 32-bit, so from 2^31 - 72 bytes on it throws (None).
  \<^item> Lending, LendingSafety; Lotto, LottoFairness, LottoSafety, LottoHost; Commerce,
    CommerceSafety: the three books, each over the host object the ledger hands it (a record of
    functions, like the source's interface), with its invariant. The locales lending_client,
    lotto_client and commerce_client state what a book relies on: a payment either happens or
    leaves no trace, moves exactly its amount, does not touch the book.
  \<^item> LedgerState, LedgerCore, LedgerMarket, LedgerForex, LedgerRefund, LedgerReform: DemoLedger,
    its state as one record and one definition per method, every refusal in the source's order.
    LedgerHosts: the three host objects and tickLoans.
  \<^item> LedgerAppend: what append does to fields and balances, and the journal invariants. LedgerBooks
    interprets the three locales on the ledger, which discharges their laws for the code's own
    hosts. LedgerJournal and LedgerRun: every method grows the journal (locales lending_frame,
    lotto_frame and commerce_frame cover the books), the ledger as a step relation with the
    reachable states. LedgerSafety: refusals, refunds, reversals, vouchers, tickets, reform.
    GiftSafety: a relation that every method keeps, the frame locales interpreted for it, which says
    that the gift request a journal entry names is always still in the commerce book; with it no
    correction can fail after its entry was pushed.
  \<^item> Http: the platform the server and the client share: JSON values, Number of a string, URL
    encoding, query strings, base64url, requests. DemoBackend, DemoRoutes: demo/demo-backend.ts, the
    server in the page: sessions, codes, retry receipts, and every route in the file's order as a
    list of conditions with their handlers. DemoSafety: the locales server_law and login_law (a
    relation on server states kept by every step a handler makes), interpreted for reachability of
    the ledger, for the receipts and for the sessions. Seed, SeedSafety: demo/seed.ts, the script of
    the first request, statement by statement, a run of the ledger's methods.
  \<^item> Accounts (api/accounts.ts, api/api-base.ts), MoneyText (api/money.ts), ClientLog (api/log.ts):
    the page's own state. Client, ClientMoney: api/nanacoin.service.ts, each method as the request
    it sends. ClientCalls: retries, failures, and the loop that follows the journal's cursors.
  \<^item> Session, SessionSafety: api/session.ts over the answers of the service; the locale honest_world
    (the server answers with the owner of the token), interpreted on a browser with four accounts,
    holds whose view a page shows.
  \<^item> ChartSeries (economy/series.ts), Wealth (economy/wealth.ts, economy/forex-series.ts), Reports
    (economy/central-bank.ts, people/public-report.ts), Normalization
    (api/transaction-normalization.ts): the economy pages' arithmetic, pure functions
    of the journal. MarketPlan: nana/market-maker-plan.ts, Nana's batches; Quantities:
    catalog/economics.ts. ChartLines: lines rebuilt backwards from a balance agree with the ledger's.
    LineChart: economy/line-chart.ts, in double arithmetic, with every point inside its frame.
  \<^item> ClientLedger: the journal reader against the server's pages (locale still_ledger, interpreted
    on the household). ClientDemo: a client method routed by the server is the ledger's operation.
  \<^item> Pages (ui/toasts.ts, ui/dialog.ts, api/guards.ts, pages/message-caps.ts), UpdateRecovery
    (ui/update-recovery.ts), Discovery (api/discovery.ts, pages/connect-form.ts), Mastodon
    (api/mastodon.ts, a browser's sign-ins as a step relation), ExportState (system/export-state.ts,
    pages/export-state.ts), Calendar (civil dates).
  \<^item> The pages that move money, each as its form and its handlers over the calls it makes: SendPage and
    Allowances (pages/send.ts, pages/allowances.ts), Keyed (the retry keys a page keeps),
    CommercePages (pages/gift-requests.ts, pages/art.ts, people/people.ts), LoansPage, LottoPage,
    MarketPage (pages/market.ts, pages/offers.ts), GoodDeeds, ForexPage, FulfillmentPage. Their
    lemmas relate what a page lets through or offers to what the ledger accepts. AllowanceSafety has
    the locale payer: a payment call that carries out a key at most once.
  \<^item> KeyedNet, PaymentNet, PageNet: the pages on the demo's server over a network that may lose any
    request and any answer; the receipts say what was carried out. They interpret payer and the
    locale keyed on the client's own requests, so that pressing again pays once. PageDemo:
    concrete pages for the witnesses.
  \<^item> Household, DemoHouse: a concrete household built by running the methods, and the server over
    it, to which the theorems below that have hypotheses are applied.

  The wall clock is the sequence of its readings (ledger field wall), with no assumption on them;
  random values are list arguments, and lotto_settle answers None when the list ends inside the
  rejection loop. The ledger takes paging cursors as their parsed numbers; the server parses them.
  NaN, which only the server's reading of a body can make, is a half there: both fail every
  isSafeInteger guard. The script that fills the ledger is an argument of serve; a
  script that throws, which leaves the source unseeded, is outside serve.

  Charts: Date's local time is calendar arithmetic at a fixed offset, localeCompare an argument, and
  sums are exact below 2^53, a hypothesis of the theorems about them.

  Network: nt_delivery decides which request or answer is lost, nt_chance and nt_random supply what
  is random; keys do not repeat (net_good). The server keeps at most 4096 receipts, so the theorems
  about retries ask for room for the keys they use.

  Not modelled: templates, routing and the pages that only show what is modelled here, the service
  worker, the catalogue table, the live script of seed-live.ts (it drives the modelled client
  methods), the archived Go web client, and everything that is not TypeScript.
\<close>

section \<open>The journal\<close>

text \<open>
  What holds of the journal in every ledger the program can reach, whatever is called in whatever order.
\<close>

text \<open>
  C1 (invariant).
  In every ledger reachable from new DemoLedger() by any sequence of its state-changing methods,
  refused or not, currency reforms and the loan, lottery and commerce books included, balanced()
  is true: the postings sum to zero.
\<close>

theorem ledger_always_balanced: "reachable w \<Longrightarrow> balanced w"
  by (rule reachable_balanced)

theorem ledger_always_balanced_witness: "balanced market4 \<and> length (transactions market4) = 4"
  using ledger_always_balanced [OF market_reachable(2)] by (rule conjI) code_simp

text \<open>
  C2 (safety).
  The journal is append-only: no method removes, reorders or edits an entry (the delivery record
  of an entry apart), and every entry it adds sums to zero by itself.
\<close>

theorem journal_append_only:
  "reachable w \<Longrightarrow> run x w = Some w' \<Longrightarrow>
     \<exists>us. map bare (transactions w') = map bare (transactions w) @ us
       \<and> (\<forall>t \<in> set us. js_sum (map p_amount (t_postings t)) = 0)"
  using reachable_append_only [of w x w'] by (simp add: entries_ok_def)

theorem journal_append_only_witness:
  "\<exists>us. map bare (transactions market4) = map bare (transactions market3) @ us
     \<and> (\<forall>t \<in> set us. js_sum (map p_amount (t_postings t)) = 0)"
  by (rule journal_append_only [OF market_reachable(1), of "PurchaseOp nana ''listing-4''"]) (simp add: market4_run)

text \<open>
  C3 (invariant).
  No two entries of a reachable journal share an identifier, and every identifier is txn-k or usd-
  txn-k for a k below the counter, so the next entry's identifier is new.
\<close>

theorem journal_ids_unique:
  "reachable w \<Longrightarrow> distinct (map t_id (transactions w))
     \<and> (\<forall>t \<in> set (transactions w). \<exists>k < next_txn w. t_id t = txn_id k \<or> t_id t = usd_txn_id k)"
  using reachable_ids [of w] by (simp add: wf_ids_def known_id_def)

theorem journal_ids_unique_witness: "distinct (map t_id (transactions market4)) \<and> next_txn market4 = 5"
  by (rule conjI [OF conjunct1 [OF journal_ids_unique [OF market_reachable(2)]]]) code_simp

section \<open>Money moves exactly, or not at all\<close>

text \<open>
  C4 (error).
  A refused call changes nothing: transfer, issuance, retirement, dollar records, vouchers,
  listings, purchases, the offer operations and the member settings either return a result or
  leave the very ledger they were called on, clock and counters included.
\<close>

theorem refused_calls_leave_no_trace:
  "traceless w (transfer u a x m e w) \<and> traceless w (issue u a x m w) \<and> traceless w (retire u a x m w)
   \<and> traceless w (issue_usd u a x m w) \<and> traceless w (create_nickle u x f bs w) \<and> traceless w (redeem_nickle u i w)
   \<and> traceless w (create_listing u li w) \<and> traceless w (cancel_listing u i w) \<and> traceless w (purchase u i w)
   \<and> traceless w (make_offer u i x m w) \<and> traceless w (accept_offer u i w) \<and> traceless w (decline_offer u i w)
   \<and> traceless w (withdraw_offer u i w) \<and> traceless w (set_user_status u i s w)"
  by (intro conjI transfer_traceless issue_traceless retire_traceless issue_usd_traceless create_nickle_traceless
      redeem_nickle_traceless purchase_traceless make_offer_traceless accept_offer_traceless offer_moves_traceless
      members_traceless)

text \<open>
  C5 (error).
  Reversals, refunds and exchanges are atomic too, in every reachable ledger: takeQuote moves the
  dollars before it appends the coin transaction, but its checks guarantee that the append goes
  through; a correction is pushed before the money is taken off its gift request, but the gift
  request an entry names is always still in the commerce book; so a refusal happens before
  anything moved.
\<close>

theorem refused_corrections_leave_no_trace:
  "reachable w \<Longrightarrow>
     traceless w (take_quote u i w) \<and> traceless w (reverse_txn u i m w) \<and> traceless w (refund u i x m w)"
  by (rule corrections_traceless)

theorem refused_corrections_leave_no_trace_witness: "traceless market4 (refund bob ''txn-4'' 10 ''late'' market4)"
  using refused_corrections_leave_no_trace [OF market_reachable(2)] by blast

text \<open>
  C6 (functional).
  A transfer that returns moved exactly its amount: the sender's balance fell and the recipient's
  rose by it, in the program's own double arithmetic, no third balance changed, the sender is not
  overdrawn, and the balances of the new ledger are still whole numbers.
\<close>

theorem transfer_is_exact:
  assumes ok: "books_ok w" and r: "transfer u a x m e w = (Inr t, w')" and x: "x \<noteq> 0" and s: "u_account u \<noteq> SYSTEM_ISSUANCE"
  shows "balance_of w' (u_account u) = js_sub (balance_of w (u_account u)) x
    \<and> balance_of w' a = js_add (balance_of w a) x
    \<and> (\<forall>b. b \<noteq> u_account u \<longrightarrow> b \<noteq> a \<longrightarrow> balance_of w' b = balance_of w b)
    \<and> 0 \<le> balance_of w' (u_account u) \<and> books_ok w'"
proof -
  have d: "is_safe x" "0 < x" "a \<noteq> u_account u" and wf: "wf_money w"
    and ap: "append_txn Transfer (u_id u) m (payment_of (u_account u) a x) (economic_opts e) w = (Inr t, w')"
    using r x ok by (auto simp: transfer_def guard_simps require_amount_None payment_of_def books_ok_def)
  have o: "\<not> op_allow_overdraft (economic_opts e)" by (simp add: economic_opts_def no_opts_def split: option.splits)
  note dd = is_safeD [OF d(1)]
  note b = payment_balance [OF wf ap dd(4) d(3) [symmetric]]
  have "books_ok w'" using append_books_ok [OF ok ap] dd by (simp add: payment_of_def)
  then show ?thesis using b payment_no_overdraft [OF wf ap dd(4) d(2) d(3) [symmetric] s o] by simp
qed

theorem transfer_is_exact_witness:
  "balance_of (snd (transfer ada (u_account bob) 300 ''rent'' None home5)) (u_account ada) = 700
   \<and> balance_of (snd (transfer ada (u_account bob) 300 ''rent'' None home5)) (u_account bob) = 800"
proof -
  have r: "returned (transfer ada (u_account bob) 300 ''rent'' None home5)" by code_simp
  have "u_account ada \<noteq> SYSTEM_ISSUANCE" by code_simp
  note t = transfer_is_exact [OF household_books returned_eq [OF r] _ this]
  have "js_sub (balance_of home5 (u_account ada)) 300 = 700" "js_add (balance_of home5 (u_account bob)) 300 = 800"
    by code_simp+
  with t show ?thesis by simp
qed

text \<open>
  C7 (bounds).
  Partial refunds add up: what has been refunded of a payment grows by exactly the amount of each
  refund, and never exceeds what the payment moved.
\<close>

theorem refunds_never_exceed_the_payment:
  "reachable w \<Longrightarrow> txn_by_id w i = Some t \<Longrightarrow> is_safe (original_amount t) \<Longrightarrow> is_integer (refunded w t) \<Longrightarrow>
     0 \<le> refunded w t \<Longrightarrow> refund u i x m w = (Inr t', w') \<Longrightarrow>
     refunded w' t = refunded w t + x \<and> refunded w' t \<le> original_amount t"
  using reachable_ids refund_bound by blast

theorem refunds_never_exceed_the_payment_witness:
  "refunded (snd (refund ada ''txn-4'' 15 ''stale'' market4)) (transactions market4 ! 3) = 15"
proof -
  have "returned (refund ada ''txn-4'' 15 ''stale'' market4)" by code_simp
  note r = returned_eq [OF this]
  have t: "txn_by_id market4 ''txn-4'' = Some (transactions market4 ! 3)" by code_simp
  have f: "refunded market4 (transactions market4 ! 3) = 0" "is_safe (original_amount (transactions market4 ! 3))" by code_simp+
  have i: "is_integer (refunded market4 (transactions market4 ! 3))" "0 \<le> refunded market4 (transactions market4 ! 3)"
    unfolding f(1) by (rule is_integer_iff [THEN iffD2]) (auto intro: exI [of _ 0])
  note n = refunds_never_exceed_the_payment [OF market_reachable(2) t f(2) i r, THEN conjunct1]
  show ?thesis unfolding n f(1) by (rule add_0)
qed

text \<open>
  C8 (functional).
  A reversal appends exactly the negated current postings of the payment it names, under that
  payment's identifier, and the same payment cannot be reversed again by anyone.
\<close>

theorem reversal_mirrors_once:
  assumes "reachable w" and "reverse_txn u i m w = (Inr t', w')" and "run (ReverseOp u i m) w = Some w'"
  shows "(\<exists>t. txn_by_id w i = Some t \<and> t_kind t \<noteq> Reversal \<and> t_kind t' = Reversal \<and> t_reverses t' = Some i
      \<and> t_postings t' = map negate_posting (current_postings w t))
    \<and> (\<forall>v m'. \<exists>e. fst (reverse_txn v i m' w') = Inl e)"
proof (intro conjI allI)
  note mm = reverse_mirror [OF assms(2) reachable_ids [OF assms(1)]]
  then show "\<exists>t. txn_by_id w i = Some t \<and> t_kind t \<noteq> Reversal \<and> t_kind t' = Reversal \<and> t_reverses t' = Some i
    \<and> t_postings t' = map negate_posting (current_postings w t)" by blast
  have "reachable w'" using assms(1,3) by (rule reachable.step)
  with mm reachable_ids show "\<exists>e. fst (reverse_txn v i m' w') = Inl e" for v m'
    by (blast intro: reversed_refuses)
qed

theorem reversal_mirrors_once_witness:
  "\<exists>e. fst (reverse_txn nana ''txn-4'' ''again'' (snd (reverse_txn nana ''txn-4'' ''mistake'' market4))) = Inl e"
proof -
  have "returned (reverse_txn nana ''txn-4'' ''mistake'' market4)" by code_simp
  from reversal_mirrors_once [OF market_reachable(2) returned_eq [OF this]] show ?thesis by simp
qed

section \<open>The demo's server\<close>

text \<open>
  C9 (refinement).
  Whatever a page sends, the demo's server changes its ledger only by the ledger's own methods:
  one request, accepted or refused, the first one with its seeding script included, takes a
  reachable ledger to a reachable ledger, where everything above holds, the balanced journal
  included.
\<close>

theorem requests_are_ledger_runs:
  "serve (seeding zone draws) rnd rq st = Some (r, st') \<Longrightarrow> reachable (be_ledger st) \<Longrightarrow>
     reachable (be_ledger st') \<and> balanced (be_ledger st')"
  using serve_reachable [of "seeding zone draws" rnd rq st r st'] seeding_reachable reachable_balanced by blast

theorem requests_are_ledger_runs_witness:
  "balanced (be_ledger (snd rent_paid)) \<and> length (transactions (be_ledger (snd rent_paid))) = 3"
proof (rule conjI)
  have "reachable (be_ledger house_server)" using household_reachable(3) by (simp add: house_server_def)
  from requests_are_ledger_runs [OF rent_paid this] show "balanced (be_ledger (snd rent_paid))" by blast
qed code_simp

text \<open>
  C10 (safety).
  A request with a retry key is carried out once: sent again after an answer, whatever the random
  bytes and the clock of the second try, it gets the first answer back, and the only thing that
  moved meanwhile is the ledger's own timer.
\<close>

theorem retries_are_idempotent:
  "serve fill rnd rq st = Some (Reply a, st1) \<Longrightarrow> identity rq st \<noteq> [] \<Longrightarrow>
     tick_loans (ch_tick rnd') (be_ledger st1) = Some (Inr (), w) \<Longrightarrow>
     serve fill rnd' rq st1 = Some (Reply a, st1\<lparr>be_ledger := w\<rparr>)"
  by (rule serve_replay)

theorem retries_are_idempotent_witness:
  "\<exists>a. fst rent_paid = Reply a
     \<and> map_option fst (serve (\<lambda>w. w) quiet_chance rent_request (snd rent_paid)) = Some (Reply a)"
proof -
  obtain a where a: "fst rent_paid = Reply a" using is_answerE [OF rent_answered] by blast
  have s: "serve (\<lambda>w. w) quiet_chance rent_request house_server = Some (Reply a, snd rent_paid)"
    using rent_paid a by simp
  have i: "identity rent_request house_server \<noteq> []" by code_simp
  have "map_option fst (tick_loans [] (be_ledger (snd rent_paid))) = Some (Inr ())" by code_simp
  then obtain w where "tick_loans (ch_tick quiet_chance) (be_ledger (snd rent_paid)) = Some (Inr (), w)"
    by (auto simp: quiet_chance_def)
  from retries_are_idempotent [OF s i this] a show ?thesis by simp
qed

text \<open>
  C11 (error).
  Without a session, every route but the open ones (status, configuration, transport, public
  ledger, screen, provisioning, login) is refused, and the request leaves the server as it was,
  but for the seeding and the timer that every request starts with.
\<close>

theorem no_session_no_change:
  "\<not> list_ex fst (open_routes rnd rq) \<Longrightarrow> session_of rq st = None \<Longrightarrow> serve fill rnd rq st = Some (r, st') \<Longrightarrow>
     (\<exists>e. r = refusal e) \<and> st' = (seeded fill st)\<lparr>be_ledger := be_ledger st'\<rparr>
       \<and> (\<exists>x. tick_loans (ch_tick rnd) (be_ledger (seeded fill st)) = Some (x, be_ledger st'))"
  by (rule serve_no_session)

theorem no_session_no_change_witness:
  "\<exists>e. fst (the (serve (\<lambda>w. w) quiet_chance stray_request house_server)) = refusal e"
proof -
  have o: "\<not> list_ex fst (open_routes quiet_chance stray_request)" by code_simp
  have s: "session_of stray_request house_server = None" by code_simp
  have "serve (\<lambda>w. w) quiet_chance stray_request house_server \<noteq> None" by code_simp
  then obtain r st' where r: "serve (\<lambda>w. w) quiet_chance stray_request house_server = Some (r, st')" by auto
  from no_session_no_change [OF o s r] r show ?thesis by auto
qed

section \<open>The page and the server together\<close>

text \<open>
  C12 (refinement).
  What the page's transfer sends, the server reads back as the ledger's transfer with the same
  recipient, amount, memo and accounting record, made by the member whose account is active on the
  page: headers, path, body and routing lose and change nothing.
\<close>

theorem page_transfer_is_the_ledgers_transfer:
  "c_transfer c recipient amount memo key e = Inr rq \<Longrightarrow> signed_in c st me \<Longrightarrow>
     handle rnd rq st = act_on ATransaction (transfer me recipient amount memo (map_option economic_arg e)) st"
  by (rule handle_transfer)

theorem page_transfer_is_the_ledgers_transfer_witness:
  "handle quiet_chance rent_request house_server
     = act_on ATransaction (transfer ada (u_account bob) 300 ''rent'' None) house_server"
  using page_transfer_is_the_ledgers_transfer [OF rent_sent house_signed_in] by simp

text \<open>
  C13 (liveness).
  Reading the journal page by page ends, and misses and repeats nothing: from a server whose
  ledger stands still the client's loop over cursors returns the newest movements, as many as were
  asked for (or all there are), in order, and never answers with one of its errors.
\<close>

theorem journal_reader_is_complete:
  "reachable w \<Longrightarrow> small_counters w \<Longrightarrow>
     \<exists>k. read_ledger (\<lambda>_. demo_page w) (\<lambda>_. source) source limit = Some (Inr
       \<lparr>wp_transactions = take (wanted_rows limit) (named w (movements w)), wp_next = k,
        wp_upper = next_txn w - 1, wp_truncated = False\<rparr>)"
  by (rule still_ledger.read_ledger_complete [OF still_ledger.intro])

theorem journal_reader_is_complete_witness:
  "\<exists>p. read_ledger (\<lambda>_. demo_page home5) (\<lambda>_. SAME_ORIGIN) SAME_ORIGIN (Some 1) = Some (Inr p)
     \<and> map t_id (wp_transactions p) = [''txn-2'']"
proof -
  have m: "map t_id (take (wanted_rows (Some 1)) (named home5 (movements home5))) = [''txn-2'']" by code_simp
  have "small_counters home5" by code_simp
  from journal_reader_is_complete [OF household_reachable(3) this, of SAME_ORIGIN "Some 1"]
  obtain p where "read_ledger (\<lambda>_. demo_page home5) (\<lambda>_. SAME_ORIGIN) SAME_ORIGIN (Some 1) = Some (Inr p)"
    "wp_transactions p = take (wanted_rows (Some 1)) (named home5 (movements home5))" by (metis wire_page.select_convs(1))
  with m show ?thesis by metis
qed

section \<open>Vouchers and reform\<close>

text \<open>
  C14 (safety).
  A bearer voucher is spent at most once: after a redemption, presenting the same token again, by
  anyone, is refused and changes nothing.
\<close>

theorem voucher_spent_once:
  "redeem_nickle b tok w = (Inr t, w') \<Longrightarrow> \<exists>e. redeem_nickle c tok w' = (Inl e, w')"
  by (rule redeemed_once)

theorem voucher_spent_once_witness: "\<exists>w w' t e. redeem_nickle bob token w = (Inr t, w') \<and> redeem_nickle nana token w' = (Inl e, w')"
  using voucher_redeemed voucher_spent_once by blast

text \<open>
  C15 (roundtrip).
  Creating a voucher and redeeming it is a round trip: the token a member was given is accepted
  from any other active member, who is credited exactly the amount it was created with.
\<close>

theorem voucher_round_trip:
  "books_ok w \<Longrightarrow> 0 \<le> balance_of w NICKLE_RESERVE \<Longrightarrow> length bs = 32 \<Longrightarrow> u_account a \<noteq> NICKLE_RESERVE \<Longrightarrow>
     create_nickle a x f bs w = (Inr (tok, y, ser), w') \<Longrightarrow>
     u_status b = UserActive \<Longrightarrow> u_id b \<noteq> u_id a \<Longrightarrow> u_account b \<noteq> NICKLE_RESERVE \<Longrightarrow>
     \<exists>t w''. redeem_nickle b tok w' = (Inr t, w'') \<and> y = x \<and>
       balance_of w'' (u_account b) = js_add (balance_of w' (u_account b)) x"
  using create_then_redeem create_nickle_done by (metis (no_types, lifting))

theorem voucher_round_trip_witness:
  "\<exists>w tok ser w' t w''. create_nickle ada 25 False (replicate 32 7) w = (Inr (tok, 25, ser), w')
     \<and> redeem_nickle bob tok w' = (Inr t, w'')"
proof -
  obtain tok ser w' where c: "create_nickle ada 25 False (replicate 32 7) home5 = (Inr (tok, 25, ser), w')"
    using voucher_created by blast
  have "0 \<le> balance_of home5 NICKLE_RESERVE" by code_simp
  moreover have "u_account ada \<noteq> NICKLE_RESERVE" "u_account bob \<noteq> NICKLE_RESERVE" "u_id bob \<noteq> u_id ada"
    "u_status bob = UserActive" by code_simp+
  ultimately have "\<exists>t w''. redeem_nickle bob tok w' = (Inr t, w'')"
    using voucher_round_trip [OF household_books _ _ _ c, of bob] by auto
  with c show ?thesis by blast
qed

text \<open>
  C16 (functional).
  A currency reform is all or nothing: a refused reform, and every preview, leaves the ledger as
  it was; every other one starts a new epoch with the decimals asked for, adds its power of ten to
  the exponents of all earlier epochs, multiplies every listing price, offer, quoted quantity and
  voucher by exactly that power, losing nothing, keeps the dollar side of every quote, reforms the
  loan book by the same power, and rewrites no journal entry.
\<close>

theorem reform_is_all_or_nothing:
  assumes "reform u i w = (r, w')"
  shows "if (\<exists>e. r = Inl e) \<or> ri_preview i then w' = w
    else money_epoch w' = Suc (money_epoch w) \<and> decimals w' = nat \<lfloor>ri_decimals i\<rfloor>
    \<and> epoch_exponents w' = map (\<lambda>x. x + reform_exponent w i) (epoch_exponents w) @ [0] \<and> transactions w' = transactions w
    \<and> lending_reform (reform_exponent w i) (lending_book w) = Inr (lending_book w')
    \<and> list_all2 (\<lambda>x y. y = x\<lparr>l_price := l_price y\<rparr> \<and> rescaled (reform_exponent w i) (l_price x) (l_price y)) (listings w) (listings w')
    \<and> list_all2 (\<lambda>x y. y = x\<lparr>o_amount := o_amount y\<rparr> \<and> rescaled (reform_exponent w i) (o_amount x) (o_amount y)) (offers w) (offers w')
    \<and> list_all2 (\<lambda>x y. q_cents y = q_cents x \<and> rescaled (reform_exponent w i) (q_coins x) (q_coins y)) (quotes w) (quotes w')
    \<and> list_all2 (\<lambda>x y. fst y = fst x \<and> rescaled (reform_exponent w i) (nk_amount (snd x)) (nk_amount (snd y))) (nickles w) (nickles w')"
  by (rule reform_all_or_nothing [OF assms])

theorem reform_is_all_or_nothing_witness:
  "\<exists>v w'. reform nana half_power home5 = (Inr v, w') \<and> money_epoch w' = 1 \<and> transactions w' = transactions home5"
proof -
  have "returned (reform nana half_power home5)" "\<not> ri_preview half_power" "money_epoch home5 = 0" by code_simp+
  note r = returned_eq [OF this(1)] and p = this(2,3)
  from reform_is_all_or_nothing [OF r] r p show ?thesis by auto
qed

section \<open>Loans\<close>

text \<open>
  C17 (functional).
  Interest is exact: accruing a well-formed loan to a time t2 gives the same loan whether or not
  it was also accrued at any time t1 in between, because the fraction is carried in the remainder.
\<close>

theorem interest_does_not_depend_on_when_it_is_computed:
  "wf_terms l \<Longrightarrow> wf_debt l \<Longrightarrow> sl_accrued_at l \<le> t1 \<Longrightarrow> t1 \<le> t2 \<Longrightarrow> accrue l t2 = Inr l2 \<Longrightarrow>
     \<exists>l1. accrue l t1 = Inr l1 \<and> accrue l1 t2 = Inr l2"
  by (rule accrue_split)

theorem interest_does_not_depend_on_when_it_is_computed_witness:
  "\<exists>l1 l2. accrue running_loan 100000 = Inr l1 \<and> accrue l1 300000 = Inr l2 \<and> ln_interest l2 = 4"
proof -
  have w: "wf_terms running_loan" "wf_debt running_loan" "sl_accrued_at running_loan \<le> 100000" by code_simp+
  have r: "case accrue running_loan 300000 of Inr l \<Rightarrow> ln_interest l = 4 | Inl _ \<Rightarrow> False" by code_simp
  then obtain l2 where l2: "accrue running_loan 300000 = Inr l2" "ln_interest l2 = 4" by (auto split: sum.splits)
  with interest_does_not_depend_on_when_it_is_computed [OF w _ l2(1)] show ?thesis by auto
qed

text \<open>
  C18 (functional).
  A settlement of a loan pays out of the borrower's cash only: what the borrower still owes,
  principal and interest, falls by exactly the amount paid, the borrower's balance, when it is at
  most 2^53, falls by the same amount, never more than the balance covers, a voluntary repayment
  takes the requested amount or the whole debt if that is less, and the loan is PAID exactly when
  nothing is owed.
\<close>

theorem repayment_conserves_money:
  assumes "books_ok w" and "wf_loan l" and "wf_book (lending_book w)"
    and "\<And>a. amount = Some a \<Longrightarrow> is_safe a \<and> 0 < a"
    and "loan_settle lending_host l t amount w = (Inr l', w')"
  shows "\<exists>l0 paid. accrue l t = Inr l0 \<and> ln_status l = LoanActive
    \<and> 0 \<le> paid \<and> paid \<le> max 0 (balance_of w (ln_borrower l))
    \<and> ln_principal l' + ln_interest l' = ln_principal l0 + ln_interest l0 - paid
    \<and> (\<bar>balance_of w (ln_borrower l)\<bar> \<le> 9007199254740992 \<longrightarrow>
         balance_of w' (ln_borrower l) = balance_of w (ln_borrower l) - paid)
    \<and> (\<forall>m. amount = Some m \<longrightarrow> paid = min m (ln_principal l0 + ln_interest l0))
    \<and> (ln_status l' = Paid \<longleftrightarrow> ln_principal l' = 0 \<and> ln_interest l' = 0)
    \<and> wf_loan l' \<and> wf_book (lending_book w') \<and> books_ok w'"
proof -
  have "wf_book (lh_get lending_host w)" using assms(3) by (simp add: lending_host_def)
  from lend.settle_done [OF assms(1,2) this assms(4,5)] show ?thesis by (auto simp: lending_host_def)
qed

theorem repayment_conserves_money_witness:
  "case loan_settle lending_host running_loan 100000 (Some 300) (home5\<lparr>lending_book := running_book\<rparr>) of
     (Inr l, _) \<Rightarrow> ln_principal l + ln_interest l = 701 | (Inl _, _) \<Rightarrow> False"
proof -
  define w where "w = home5\<lparr>lending_book := running_book\<rparr>"
  have r: "returned (loan_settle lending_host running_loan 100000 (Some 300) w)" unfolding w_def by code_simp
  have b: "books_ok w" using household_books by (simp add: w_def books_ok_def wf_money_def balance_of_def)
  have l: "wf_loan running_loan" unfolding wf_loan_def wf_terms_def wf_debt_def by code_simp
  have k: "wf_book (lending_book w)" unfolding w_def by (simp, code_simp)
  have "case accrue running_loan 100000 of Inr l \<Rightarrow> ln_principal l + ln_interest l = 1001 | Inl _ \<Rightarrow> False" by code_simp
  moreover have "is_safe 300 \<and> 0 < (300 :: rat)" by code_simp
  ultimately have "\<exists>l w'. loan_settle lending_host running_loan 100000 (Some 300) w = (Inr l, w')
      \<and> ln_principal l + ln_interest l = 701"
    using repayment_conserves_money [OF b l k _ returned_eq [OF r]] returned_eq [OF r] by fastforce
  then show ?thesis unfolding w_def by auto
qed

text \<open>
  C19 (invariant).
  Every loan operation keeps the loan book well formed: at most 32 loans with distinct
  identifiers, terms within their limits, debt in whole units with due amounts never above what is
  owed and the interest remainder below its denominator, no debt on a loan that is not running,
  and whole balances in the ledger.
\<close>

theorem loans_stay_well_formed:
  assumes "wf_book (lending_book w)" and "books_ok w"
  shows "(loan_offer lending_host u i t False responding w = (Inr v, w') \<longrightarrow> wf_book (lending_book w') \<and> books_ok w')
    \<and> (loan_offer lending_host u i t True None w = (Inr v, w') \<longrightarrow> wf_book (lending_book w') \<and> books_ok w')
    \<and> (loan_accept lending_host u n t w = (Inr v, w') \<longrightarrow> wf_book (lending_book w') \<and> books_ok w')
    \<and> (loan_close lending_host u n t w = (Inr v, w') \<longrightarrow> wf_book (lending_book w') \<and> books_ok w')
    \<and> (loan_repay lending_host u n x t w = (Inr v, w') \<longrightarrow> wf_book (lending_book w') \<and> books_ok w')
    \<and> (loan_tick lending_host t w = (m, w') \<longrightarrow>
      wf_book (lending_book w') \<and> books_ok w' \<and> m \<le> 4 \<and> (m = 0 \<longrightarrow> w' = w))"
proof -
  have g: "lh_get lending_host = lending_book" by (simp add: lending_host_def)
  note wf = assms [folded g]
  have o: "wf_book (lending_book w') \<and> books_ok w'"
    if "loan_offer lending_host u i t req resp w = (Inr v, w')" and "resp \<noteq> None \<Longrightarrow> \<not> req" for req resp
    using lend.offer_wf [OF wf(1) that(2,1)] assms(2) by (simp add: g)
  show ?thesis
    using o [of False responding] o [of True None] lend.close_wf [OF wf(1)] assms(2)
    by (intro conjI impI; simp add: g lend.accept_wf [OF wf, unfolded g] lend.repay_wf [OF wf, unfolded g]
        lend.tick_wf [OF wf, unfolded g])
qed

theorem loans_stay_well_formed_witness:
  "wf_book (lending_book (snd (loan_offer lending_host ada bob_terms 1000 False None home5)))"
proof -
  have r: "returned (loan_offer lending_host ada bob_terms 1000 False None home5)" by code_simp
  have "wf_book (lending_book home5)" by code_simp
  from loans_stay_well_formed [OF this household_books] returned_eq [OF r] show ?thesis by blast
qed

text \<open>
  C20 (error).
  A refused loan operation leaves no trace, in the ledger or in the loan book: a repayment of
  principal and interest is two payments, and when the second could fail the first is not made.
\<close>

theorem refused_loans_leave_no_trace:
  assumes "wf_book (lending_book w)" and "books_ok w"
  shows "traceless w (loan_offer lending_host u i t b r w) \<and> traceless w (loan_accept lending_host u n t w)
    \<and> traceless w (loan_close lending_host u n t w) \<and> traceless w (loan_repay lending_host u n x t w)"
proof -
  have b: "wf_book (lh_get lending_host w)" using assms(1) by (simp add: lending_host_def)
  show ?thesis
    unfolding traceless_def
    using lend.offer_refused lend.accept_refused lend.close_refused lend.repay_refused [OF assms(2) b]
    by (metis prod.collapse)
qed

theorem refused_loans_leave_no_trace_witness: "traceless home5 (loan_accept lending_host bob 1 1000 home5)"
proof -
  have "wf_book (lending_book home5)" by code_simp
  from refused_loans_leave_no_trace [OF this household_books] show ?thesis by blast
qed

text \<open>
  C21 (functional).
  A currency reform of a well-formed loan book that goes through multiplies every amount of every
  loan by exactly the power of ten: amount, installment, principal, what is due of principal and
  of interest, and the last attempted balance; and the interest together with its fraction as one
  exact number, counted in units of one over the loan's denominator, so no fraction of interest is
  lost. It changes nothing else, and the book stays well formed.
\<close>

theorem loan_reform_keeps_the_book:
  "wf_book b \<Longrightarrow> lending_reform e b = Inr b' \<Longrightarrow> wf_book b' \<and> b' = b\<lparr>le_loans := le_loans b'\<rparr>
     \<and> list_all2 (\<lambda>l l'.
          rescaled e (ln_interest l * of_int (accrue_denominator l) + of_int (sl_remainder l))
            (ln_interest l' * of_int (accrue_denominator l') + of_int (sl_remainder l'))
          \<and> rescaled e (ln_amount l) (ln_amount l') \<and> rescaled e (ln_installment l) (ln_installment l')
          \<and> rescaled e (ln_principal l) (ln_principal l') \<and> rescaled e (sl_principal_due l) (sl_principal_due l')
          \<and> rescaled e (sl_interest_due l) (sl_interest_due l') \<and> rescaled e (sl_attempted_balance l) (sl_attempted_balance l')
          \<and> l' = l\<lparr>ln_amount := ln_amount l', ln_installment := ln_installment l', ln_principal := ln_principal l',
               sl_principal_due := sl_principal_due l', sl_interest_due := sl_interest_due l',
               sl_attempted_balance := sl_attempted_balance l', ln_interest := ln_interest l', sl_remainder := sl_remainder l'\<rparr>)
        (le_loans b) (le_loans b')"
  using lending_reform_exact [of b e b'] unfolding loan_rescaled_def exact_interest_def by blast

theorem loan_reform_keeps_the_book_witness:
  "\<exists>b'. lending_reform 2 running_book = Inr b' \<and> wf_book b' \<and> length (le_loans b') = 1
     \<and> ln_principal (hd (le_loans b')) = 100 * ln_principal (hd (le_loans running_book))"
proof -
  have w: "wf_book running_book" by code_simp
  have "case lending_reform 2 running_book of Inr _ \<Rightarrow> True | Inl _ \<Rightarrow> False" by code_simp
  then obtain b' where b: "lending_reform 2 running_book = Inr b'" by (auto split: sum.splits)
  have l: "le_loans running_book = [running_loan]" by (simp add: running_book_def)
  from loan_reform_keeps_the_book [OF w b] b show ?thesis
    by (auto simp: l list_all2_Cons1 rescaled_def)
qed

section \<open>Lotteries\<close>

text \<open>
  C22 (functional).
  The draw is fair: of the 32-bit random values the rejection loop accepts, exactly the same
  number falls on every ticket, so an account with c of the n tickets is named by 2^32 div n * c
  of them, and the winner always holds a ticket.
\<close>

theorem every_ticket_has_the_same_chance:
  "wf_draw d \<Longrightarrow> lo_tickets (d_view d) = of_nat n \<Longrightarrow> 0 < n \<Longrightarrow> tickets_of d a = of_nat c \<Longrightarrow>
     a \<in> fst ` set (d_entries d) \<Longrightarrow>
     card {r. of_nat r < draw_bound (of_nat n) \<and> winner_for d r = a} = 4294967296 div n * c
       \<and> winner_for d r \<in> fst ` set (d_entries d)"
  using draw_is_fair [of d n a c] by blast

theorem every_ticket_has_the_same_chance_witness:
  "card {r. of_nat r < draw_bound 4 \<and> winner_for raffle_draw r = u_account ada} = 3221225472"
proof -
  have "wf_draw raffle_draw" by code_simp
  moreover have "lo_tickets (d_view raffle_draw) = of_nat 4" "tickets_of raffle_draw (u_account ada) = of_nat 3"
    by (simp, code_simp)+
  moreover have "u_account ada \<in> fst ` set (d_entries raffle_draw)" by code_simp
  ultimately show ?thesis using every_ticket_has_the_same_chance [of raffle_draw 4 "u_account ada" 3] by simp
qed

text \<open>
  C23 (functional).
  A ticket purchase that returns is a payment: it was made while the draw was open and before it
  closed, the buyer's balance, which covered it, fell by exactly count times the ticket price, the
  pool's account rose by it and no third balance changed; the buyer holds exactly count tickets
  more, nobody else's tickets and no other draw changed, the pool grew by the price, and the draws
  stay well formed.
\<close>

theorem tickets_are_paid_for:
  assumes "wf_draws (lotto_draws w)" and "books_ok w" and "u_account u \<noteq> pool_account i"
    and "lotto_buy lotto_host u i n t w = (Inr v, w')"
  shows "wf_draws (lotto_draws w') \<and> (\<exists>d d'. d \<in> set (lotto_draws w) \<and> lo_id (d_view d) = i \<and> lo_status (d_view d) = LottoOpen
    \<and> of_int t < lt_closes_at (lo_terms (d_view d))
    \<and> lotto_draws w' = upd_first (\<lambda>x. lo_id (d_view x) = i) (\<lambda>_. d') (lotto_draws w) \<and> lo_id (d_view d') = i
    \<and> v = (d_view d')\<lparr>lo_my_tickets := tickets_of d' (u_account u)\<rparr>
    \<and> lo_tickets (d_view d') = lo_tickets (d_view d) + n
    \<and> (\<forall>a. tickets_of d' a = tickets_of d a + (if a = u_account u then n else 0))
    \<and> lo_pool (d_view d') = lo_pool (d_view d) + n * lt_ticket_price (lo_terms (d_view d))
    \<and> n * lt_ticket_price (lo_terms (d_view d)) \<le> balance_of w (u_account u)
    \<and> balance_of w' (u_account u) = js_sub (balance_of w (u_account u)) (n * lt_ticket_price (lo_terms (d_view d)))
    \<and> balance_of w' (pool_account i) = js_add (balance_of w (pool_account i)) (n * lt_ticket_price (lo_terms (d_view d)))
    \<and> (\<forall>a. a \<noteq> u_account u \<longrightarrow> a \<noteq> pool_account i \<longrightarrow> balance_of w' a = balance_of w a))"
proof (rule conjI)
  have "wf_draws (oh_get lotto_host w)" using assms(1) by (simp add: lotto_host_def)
  from draws.buy_done [OF this assms(4)] show "wf_draws (lotto_draws w')" by (simp add: lotto_host_def)
qed (rule tickets_paid [OF assms])

theorem tickets_are_paid_for_witness: "balance_of lot2 (u_account ada) = 970 \<and> map (lo_tickets \<circ> d_view) (lotto_draws lot2) = [3]"
proof -
  have r: "returned (lotto_buy lotto_host ada 1 3 1000 lot1)" by code_simp
  have w: "wf_draws (lotto_draws lot1)" "u_account ada \<noteq> pool_account 1" by code_simp+
  have b: "books_ok lot1" using household_books by (simp add: lot1_def books_ok_def wf_money_def balance_of_def)
  have l: "lotto_draws lot1 = [\<lparr>d_view = fresh_lotto nana raffle 1, d_entries = []\<rparr>]"
    by (simp add: lot1_def lotto_create_def Let_def, code_simp)
  have p: "lt_ticket_price (lo_terms (fresh_lotto nana raffle 1)) = 10" "lo_tickets (fresh_lotto nana raffle 1) = 0"
    "js_sub (balance_of lot1 (u_account ada)) 30 = 970" by code_simp+
  show ?thesis using tickets_are_paid_for [OF w(1) b w(2) returned_eq [OF r]] p
    by (auto simp: l lot2_def)
qed

text \<open>
  C24 (termination).
  Settling returns: the rejection loop of a draw ends at the first random value below 2^31,
  whatever the number of tickets, so settling every draw ends as soon as the random source has
  produced one such value per draw.
\<close>

theorem settling_terminates:
  "wf_draws (lotto_draws w) \<Longrightarrow> length (lotto_draws w) \<le> length (filter small rnd) \<Longrightarrow>
     \<exists>res w'. lotto_settle lotto_host t force rnd w = Some (res, w')"
  using draws.settle_returns [of w rnd] by (simp add: lotto_host_def)

theorem settling_terminates_witness: "\<exists>res w'. lotto_settle lotto_host 9000000 True [4294967295, 7] lot2 = Some (res, w')"
proof -
  have "length (lotto_draws lot2) \<le> length (filter small [4294967295, 7])" by (simp add: lot2_draws small_def)
  with lot2_wf show ?thesis by (rule settling_terminates)
qed

text \<open>
  C25 (safety).
  A settled draw never changes again, no draw is added or lost, the draws stay well formed, and
  resolving on demand settles every one of them.
\<close>

theorem settled_draws_are_final:
  assumes "wf_draws (lotto_draws w)" and "lotto_settle lotto_host t force rnd w = Some (res, w')"
  shows "wf_draws (lotto_draws w') \<and> length (lotto_draws w') = length (lotto_draws w)
    \<and> (\<forall>k < length (lotto_draws w). lo_status (d_view (lotto_draws w ! k)) = LottoSettled \<longrightarrow>
          lotto_draws w' ! k = lotto_draws w ! k)
    \<and> (force \<longrightarrow> res = Inr () \<longrightarrow> (\<forall>d \<in> set (lotto_draws w'). lo_status (d_view d) = LottoSettled))"
proof -
  have g: "oh_get lotto_host = lotto_draws" by (simp add: lotto_host_def)
  from draws.settle_draws [unfolded g, OF assms] show ?thesis .
qed

theorem settled_draws_are_final_witness:
  "\<exists>res w'. lotto_settle lotto_host 9000000 True [7] lot2 = Some (res, w') \<and> wf_draws (lotto_draws w')"
proof -
  have "length (lotto_draws lot2) \<le> length (filter small [7])" by (simp add: lot2_draws small_def)
  then obtain res w' where "lotto_settle lotto_host 9000000 True [7] lot2 = Some (res, w')"
    using draws.settle_returns [of lot2 "[7]" 9000000 True] lot2_wf by (auto simp: lotto_host_def)
  with settled_draws_are_final [OF lot2_wf] show ?thesis by blast
qed

text \<open>
  C26 (functional).
  What a draw pays out adds up: the principal postings take exactly the pool from the pool account
  and give it to the winner, or in a savings draw back to every holder at the ticket price, and
  sum to zero; the interest postings, part from the house and the rest newly issued, sum to zero
  as well.
\<close>

theorem payouts_balance:
  "wf_draw d \<Longrightarrow> 0 < lo_tickets (d_view d) \<Longrightarrow> pool_account (lo_id (d_view d)) \<notin> fst ` set (d_entries d) \<Longrightarrow>
     winner \<noteq> pool_account (lo_id (d_view d)) \<Longrightarrow> is_integer (balance_of w (lo_house (d_view d))) \<Longrightarrow>
     js_sum (map p_amount (payout_postings lotto_host w d winner)) = 0
       \<and> js_sum (map p_amount (interest_postings lotto_host w (d_view d) winner)) = 0
       \<and> payout_totals d winner = (pool_account (lo_id (d_view d)), - lo_pool (d_view d)) #
           (if lt_kind (lo_terms (d_view d)) = Savings
            then map (\<lambda>(a, c). (a, c * lt_ticket_price (lo_terms (d_view d)))) (d_entries d)
            else [(winner, lo_pool (d_view d))])"
  using payout_balanced [of d winner lotto_host w] payout_totals_eq [of d winner]
    interest_balanced [of "d_view d" lotto_host w winner] wf_draw_interest [of d]
  by (simp add: lotto_host_def)

theorem payouts_balance_witness:
  "payout_totals raffle_draw (u_account bob) =
     [(''lotto-pool-1'', - 40), (u_account ada, 30), (u_account bob, 10)]"
proof -
  have "wf_draw raffle_draw" "0 < lo_tickets (d_view raffle_draw)"
    "pool_account (lo_id (d_view raffle_draw)) \<notin> fst ` set (d_entries raffle_draw)"
    "u_account bob \<noteq> pool_account (lo_id (d_view raffle_draw))"
    "is_integer (balance_of home0 (lo_house (d_view raffle_draw)))" by code_simp+
  note p = payouts_balance [OF this, THEN conjunct2, THEN conjunct2]
  show ?thesis unfolding p by code_simp
qed

section \<open>Gift requests and art\<close>

text \<open>
  C27 (invariant).
  Every commerce command keeps the book well formed, at most 32 requests and 64 artworks with
  distinct identifiers below the sequence number, valid prices, and at most one equipped artwork
  per owner, and advances the sequence to the number it returns; a refused command moves nothing
  but the clock.
\<close>

theorem commerce_stays_well_formed:
  assumes "wf_commerce (revision w) (commerce_book w)"
  shows "(command commerce_host u a w = (Inr n, w') \<longrightarrow>
      wf_commerce (revision w') (commerce_book w') \<and> revision w' = n \<and> revision w < n)
    \<and> (command commerce_host u a w = (Inl e, w') \<longrightarrow> ticked w w')"
proof -
  have g: "ch_get commerce_host = commerce_book" by (simp add: commerce_host_def)
  have "wf_commerce (revision w') (commerce_book w') \<and> revision w' = n \<and> revision w < n"
    if "command commerce_host u a w = (Inr n, w')"
    by (rule shop.command_wf [unfolded g, OF assms that])
  moreover have "ticked w w'" if "command commerce_host u a w = (Inl e, w')"
    using that by (rule shop.command_refused)
  ultimately show ?thesis by blast
qed

theorem commerce_stays_well_formed_witness: "wf_commerce (revision art1) (commerce_book art1) \<and> revision art1 = 3"
proof -
  have r: "command commerce_host ada poster home5 = (Inr 3, art1)" by (rule poster_minted)
  have "wf_commerce (revision home5) (commerce_book home5)" by code_simp
  from commerce_stays_well_formed [OF this, of ada poster 3 art1] r show ?thesis by blast
qed

text \<open>
  C28 (safety).
  An artwork is sold only as the buyer saw it: a successful purchase found the artwork at the very
  owner, revision and price the buyer named, paid exactly that price to that owner, and left it
  owned by the buyer, unlisted and not equipped.
\<close>

theorem art_sells_at_the_price_seen:
  assumes "command commerce_host u (BuyArt i eo er ep) w = (Inr n, w')"
  shows "\<exists>art seller t w1. find_art (commerce_book w) i = Some art \<and> a_owner art = eo \<and> a_revision art = er
    \<and> a_price art = Some ep \<and> eo \<noteq> user_number (u_id u) \<and> commerce_user w eo = Some seller
    \<and> commerce_pay u (u_account seller) ep (''Digital art: '' @ a_title art) None (Some i) w = (Inr t, w1)
    \<and> find_art (commerce_book w') i = Some (sold_art (user_number (u_id u)) n art)"
  using shop.buy_command [OF assms] by (simp add: commerce_host_def)

theorem art_sells_at_the_price_seen_witness:
  "map_option a_owner (find_art (commerce_book (snd (command commerce_host bob (BuyArt 3 2 4 60) art2))) 3) = Some 3"
proof -
  have r: "returned (command commerce_host bob (BuyArt 3 2 4 60) art2)" by code_simp
  have "user_number (u_id bob) = 3" by code_simp
  with art_sells_at_the_price_seen [OF returned_eq [OF r]] show ?thesis by (auto simp: sold_art_def)
qed

section \<open>SHA-256\<close>

text \<open>
  C29 (equivalence).
  The hand-written sha256 computes SHA-256 and says exactly for which messages: up to 72 bytes
  below 2^31 it equals the functional specification of FIPS 180-4, with the padding, the message
  schedule and the 64 rounds stated independently of the program's typed arrays and in-place
  updates; from there on the 32-bit shifts of the padded length wrap and every call throws a
  RangeError (None).
\<close>

theorem sha256_is_fips_180_4:
  "sha256 msg = (if length msg < 2147483576 then Some (fips_sha256 msg) else None)"
  using sha256_eq [of msg] with_pad_None [of msg] by (simp add: sha256_def)

section \<open>The client's own state\<close>

text \<open>
  C30 (roundtrip).
  What the client writes into an amount field it reads back: for every precision up to 8 and every
  amount up to the maximum, parseMoney of the text moneyText makes (without grouping) is the
  amount.
\<close>

theorem amounts_survive_the_text_box:
  "d \<le> 8 \<Longrightarrow> of_nat n \<le> max_money \<Longrightarrow> parse_money (amount_text (int n) d False) (of_nat d) = Value (of_nat n)"
  by (rule amount_round_trip)

theorem amounts_survive_the_text_box_witness:
  "amount_text 1205 2 False = ''12.05'' \<and> parse_money ''12.05'' 2 = Value 1205"
proof -
  have t: "amount_text 1205 2 False = ''12.05''" by code_simp
  have m: "of_nat 1205 \<le> max_money" by (simp add: max_money_def)
  show ?thesis using amounts_survive_the_text_box [of 2 1205] m t by simp
qed

text \<open>
  C31 (type).
  The store of signed-in accounts keeps its type: no member twice, and an active account exactly
  when one is held, which is one of them; signing in, switching, signing out and a rejected
  session keep that, and a page reload reads back exactly the store that was written.
\<close>

theorem accounts_stay_well_formed:
  "wf_accounts no_accounts \<and> (wf_accounts s \<longrightarrow>
     wf_accounts (add_account a s) \<and> wf_accounts (activate_account i s) \<and> wf_accounts (remove_account i s)
     \<and> wf_accounts (invalidate_active s) \<and> read_accounts (Some (persisted s)) = s
     \<and> (ac_all s \<noteq> [] \<longrightarrow> (\<exists>b \<in> set (ac_all s). active_account s = Some b)))"
proof -
  have "wf_accounts no_accounts" by (simp add: wf_accounts_def no_accounts_def)
  moreover have "\<exists>b \<in> set (ac_all s). active_account s = Some b" if "wf_accounts s" "ac_all s \<noteq> []"
    using active_held [OF that] by blast
  ultimately show ?thesis
    by (intro conjI impI wf_add wf_activate wf_remove wf_invalidate read_persisted)
qed

theorem accounts_stay_well_formed_witness:
  "read_accounts (Some (persisted (cl_accounts house_client))) = cl_accounts house_client
     \<and> length (ac_all (cl_accounts house_client)) = 1"
proof (rule conjI)
  have "wf_accounts (cl_accounts house_client)" by code_simp
  with accounts_stay_well_formed show
    "read_accounts (Some (persisted (cl_accounts house_client))) = cl_accounts house_client" by blast
qed code_simp

text \<open>
  C32 (safety).
  One person's view is never shown under another's name: with a server that answers /me and the
  login with the owner of the token, a refresh, login or switch of account that returns, and a
  restore or logout in any case, leave the page showing nobody or the very account whose token its
  next request carries, and leave the store of accounts well formed with every token at its owner.
\<close>

theorem page_shows_the_account_it_acts_as:
  assumes h: "honest w owner" and s: "held owner s" "shown s"
  shows "(fst (refresh w known s) = Inr () \<longrightarrow> shown (snd (refresh w known s)))
    \<and> (fst (login w s) = Inr () \<longrightarrow> shown (snd (login w s)))
    \<and> (fst (switch_to w i s) = Inr () \<longrightarrow> shown (snd (switch_to w i s)))
    \<and> shown (snd (restore w s)) \<and> shown (logout_session w s) \<and> shown (logout_all_session w s)
    \<and> held owner (snd (refresh w known s)) \<and> held owner (snd (login w s)) \<and> held owner (snd (switch_to w i s))
    \<and> held owner (snd (restore w s)) \<and> held owner (logout_session w s) \<and> held owner (logout_all_session w s)"
proof -
  note l = honest_world.intro [OF h]
  have p: "fst q = Inr () \<Longrightarrow> q = (Inr (), snd q)" for q :: "(trouble + unit) \<times> session" by (cases q) simp
  show ?thesis
    using honest_world.refresh_shows [OF l p s(1)] honest_world.login_shows [OF l p s(1)]
      honest_world.switch_shows [OF l p s] honest_world.restore_shows [OF l s] honest_world.logout_shows [OF l s(1)]
      honest_world.logout_all_shows [OF l] keepsD [OF keeps_refresh s(1)] honest_world.held_login [OF l s(1)]
      honest_world.held_switch [OF l s(1)] held_restore [OF s(1)]
    by (intro conjI impI) simp_all
qed

theorem page_shows_the_account_it_acts_as_witness:
  "shown (snd (switch_to later_world ''bob'' ann_session))
   \<and> map_option uv_id (ss_me (snd (switch_to later_world ''bob'' ann_session))) = Some ''bob''"
proof (rule conjI)
  have "fst (switch_to later_world ''bob'' ann_session) = Inr ()" by code_simp
  with page_shows_the_account_it_acts_as [OF later.honest ann_held]
  show "shown (snd (switch_to later_world ''bob'' ann_session))" by blast
qed code_simp

text \<open>
  C33 (safety).
  The client's log is safe to paste: it keeps at most 200 entries, numbered without gaps, and in
  the recorded details no field whose name contains one of the secret words carries anything but
  the mark that it was removed, at any depth.
\<close>

theorem logs_hold_no_secret:
  "wf_log new_log \<and> (wf_log l \<longrightarrow> wf_log (log_add t level scope message detail l) \<and> wf_log (log_clear l))"
  using wf_log_new wf_log_add wf_log_clear by blast

theorem logs_hold_no_secret_witness:
  "wf_log (log_add 0 Info ''http'' ''POST /auth/authorize''
     (Some (JObj [(''body'', JObj [(''username'', JStr ''ada''), (''password'', JStr ''hunter2'')])])) new_log)"
  using logs_hold_no_secret by blast

section \<open>The reports\<close>

text \<open>
  C34 (functional).
  The balance chart is the ledger's: the line that balanceSeries rebuilds backwards from the
  balance the ledger reports, over the account's part of the whole journal in the order it sorts
  to, starts at zero and ends at that balance, while the amounts are whole and their sums exact.
\<close>

theorem balance_line_starts_at_nothing:
  "(\<forall>x \<in> set (journal_amounts a (epoch_exponents w) (transactions w)). is_integer x) \<Longrightarrow>
     3 * sum_list (map abs (journal_amounts a (epoch_exponents w) (transactions w))) \<le> 9007199254740992 \<Longrightarrow>
     (\<exists>t \<in> set (transactions w). amounts_of a (current_postings w t) \<noteq> []) \<Longrightarrow>
     pt_value (hd (sr_points (balance_series (named w (transactions w)) a (balance_of w a) shown_name))) = 0
     \<and> pt_value (last (sr_points (balance_series (named w (transactions w)) a (balance_of w a) shown_name))) = balance_of w a"
  using balance_line by blast

theorem balance_line_starts_at_nothing_witness:
  "pt_value (last (sr_points (balance_series (named home5 (transactions home5)) (u_account ada)
     (balance_of home5 (u_account ada)) ''Ada''))) = 1000"
proof -
  let ?J = "journal_amounts (u_account ada) (epoch_exponents home5) (transactions home5)"
  have j: "?J = [1000]" by code_simp
  have "list_ex (\<lambda>t. amounts_of (u_account ada) (current_postings home5 t) \<noteq> []) (transactions home5)" by code_simp
  then have t: "\<exists>t \<in> set (transactions home5). amounts_of (u_account ada) (current_postings home5 t) \<noteq> []"
    by (simp add: list_ex_iff)
  have b: "balance_of home5 (u_account ada) = 1000" by code_simp
  have "\<forall>x \<in> set ?J. is_integer x" "3 * sum_list (map abs ?J) \<le> 9007199254740992" unfolding j by simp_all
  from balance_line_starts_at_nothing [OF this t, of "''Ada''"] b show ?thesis by simp
qed

text \<open>
  C35 (equivalence).
  The central-bank report balances: with whole amounts whose sum is exact, the net issuance it
  shows is what was issued to Nana, to members and for lotto interest plus the corrections less
  what was retired, and is the sum of what the counted transactions added to circulation; dollars
  and payments between members do not move it.
\<close>

theorem supply_flows_add_up:
  "(\<forall>t \<in> set ts. is_integer (supply_added since t)) \<Longrightarrow>
     sum_list (map (\<lambda>t. \<bar>supply_added since t\<bar>) ts) \<le> 9007199254740992 \<Longrightarrow> f = central_bank_flows ts nana_account since \<Longrightarrow>
     cf_net_issuance f = sum_list (map (supply_added since) ts)
     \<and> cf_net_issuance f = cf_issued_to_nana f + cf_issued_to_members f + cf_issued_for_lotto f + cf_corrections f
         - cf_retired f"
  using flows_add_up [of ts since 0 0 no_flows nana_account]
  by (simp add: central_bank_flows_def adds_up_def supply_fields_def no_flows_def)

theorem supply_flows_add_up_witness:
  "cf_net_issuance (central_bank_flows (named home5 (transactions home5)) (u_account nana) (- 90000000)) = 1500"
proof -
  let ?v = "named home5 (transactions home5)"
  have s: "map (supply_added (- 90000000)) ?v = [1000, 500]" by code_simp
  have i: "\<forall>x \<in> set (map (supply_added (- 90000000)) ?v). is_integer x" unfolding s by simp
  have m: "map (\<lambda>t. \<bar>supply_added (- 90000000) t\<bar>) ?v = map abs (map (supply_added (- 90000000)) ?v)" by simp
  have "sum_list (map (\<lambda>t. \<bar>supply_added (- 90000000) t\<bar>) ?v) \<le> 9007199254740992" unfolding m s by simp
  from supply_flows_add_up [OF _ this refl] i s show ?thesis by auto
qed

section \<open>The pages\<close>

text \<open>
  C36 (safety).
  Checking the allowances pays each instalment once, over a network that loses requests and
  answers and whatever the server refuses, as long as the server has room for the receipts (120
  per allowance, of 4096) and random keys do not repeat: what the server has carried out of the
  payer's payments after a check is what it had before, then for every allowance exactly the
  instalments between the first one that was unpaid and the first one that still is, in order; and
  when the page says that everything was sent, nothing is due any more.
\<close>

theorem allowances_are_paid_once:
  assumes "check_allowances net_draw (net_transfer fill) epoch through me refreshed items n = (msg, p, t')"
    and "net_good uid n" and "list_ready (net_seen uid n) (net_carried uid n) (my_allowances me items)"
    and "distinct (map al_id items)" and "120 * length (my_allowances me items) \<le> net_room n"
  shows "\<exists>nbs. list_all2 (ended (net_carried uid n) (net_carried uid (tl_world t')) (tl_items t')) (my_allowances me items) nbs
    \<and> map snd (net_carried uid (tl_world t'))
      = map snd (net_carried uid n) @ paid_instalments (net_carried uid n) (my_allowances me items) nbs
    \<and> (msg = finished_text (tl_sent t') False \<longrightarrow> p = None \<longrightarrow> (\<forall>nb \<in> set nbs. \<not> str_le (al_next_due (snd nb)) through))"
  using wire.check_pays_once [OF assms(1) conjI [OF assms(2,3)] assms(4,5)] .

theorem allowances_are_paid_once_witness:
  "\<exists>t' nbs. snd (snd (check_allowances net_draw (net_transfer (\<lambda>w. w)) 0 ''2024-01-12'' (Some ''user-2'') None [pocket_money] house_net)) = t'
     \<and> list_all2 (ended [] (net_carried ''user-2'' (tl_world t')) (tl_items t')) [pocket_money] nbs
     \<and> map snd (net_carried ''user-2'' (tl_world t')) = paid_instalments [] [pocket_money] nbs"
proof -
  obtain msg p t' where r: "check_allowances net_draw (net_transfer (\<lambda>w. w)) 0 ''2024-01-12'' (Some ''user-2'') None [pocket_money] house_net
      = (msg, p, t')" by (metis prod_cases3)
  have mine: "my_allowances (Some ''user-2'') [pocket_money] = [pocket_money]" by code_simp
  have "list_ready (net_seen ''user-2'' house_net) (net_carried ''user-2'' house_net) [pocket_money]"
    by (simp add: list_ready_def key_held_def own_keys_def pocket_money_def)
  from allowances_are_paid_once [OF r house_net_good, unfolded mine, OF this] r show ?thesis by auto
qed

text \<open>
  C37 (safety).
  A payment typed once and pressed until the page says it was sent is made exactly once, with the
  recipient, amount, memo and accounting record that were typed, however many presses failed on
  the way and wherever their requests or answers were lost; while no press has succeeded it was
  made at most once. The form starts without kept keys, the question about a repeated payment,
  where it is asked, is answered yes, and the server has room for a receipt per press.
\<close>

theorem payment_pressed_again_is_made_once:
  assumes "net_good uid n" and "sp_keys p = []" and "length presses \<le> net_room n"
    and "sd_pay s = net_transfer fill" and "sd_draw s = net_draw" and "quiet (net_carried uid) s"
    and "acceptable m payees registered linked x p"
    and "\<forall>(recent, confirmed) \<in> set presses. confirmed \<or> duplicate_of recent p x = None"
    and "keep_pressing m payees registered linked s presses p n = (sent, p', n')"
  shows "if sent then \<exists>k. net_carried uid n' = net_carried uid n @ [(k, form_identity p x)]
    else net_carried uid n' = net_carried uid n \<or> (\<exists>k. net_carried uid n' = net_carried uid n @ [(k, form_identity p x)])"
proof -
  have "wire.attempt uid (net_carried uid n) (form_identity p x) p n"
    using assms(1,2) wire.carried_seen [OF assms(1)] by (simp add: wire.attempt_def)
  from wire.pressing_pays_once [OF this assms(3-7) disjI2 [OF assms(8)] assms(9)] show ?thesis .
qed

theorem payment_pressed_again_is_made_once_witness:
  "\<exists>sent p' n'. keep_pressing house_money [bob_view] (\<lambda>_. False) False plain_sending [([], False), ([], False)] rent_form house_net
      = (sent, p', n') \<and> (sent \<longrightarrow> map snd (net_carried ''user-2'' n') = [form_identity rent_form 300])
     \<and> length (map snd (net_carried ''user-2'' n')) \<le> 1"
proof -
  obtain sent p' n' where r: "keep_pressing house_money [bob_view] (\<lambda>_. False) False plain_sending [([], False), ([], False)] rent_form house_net
      = (sent, p', n')" by (metis prod_cases3)
  have f: "sp_keys rent_form = []" "acceptable house_money [bob_view] (\<lambda>_. False) False 300 rent_form"
    "length [([] :: recent_send list, False), ([], False)] \<le> net_room house_net"
    "\<forall>(recent, confirmed) \<in> set [([] :: recent_send list, False), ([], False)]. confirmed \<or> duplicate_of recent rent_form 300 = None"
    unfolding acceptable_def by (code_simp, code_simp, simp, simp add: duplicate_of_def)
  have s: "sd_pay plain_sending = net_transfer (\<lambda>w. w)" "sd_draw plain_sending = net_draw" "quiet (net_carried ''user-2'') plain_sending"
    by (simp_all add: plain_sending_def quiet_def)
  note o = payment_pressed_again_is_made_once [OF house_net_good f(1,3) s f(2,4) r]
  have "(sent \<longrightarrow> map snd (net_carried ''user-2'' n') = [form_identity rent_form 300]) \<and> length (map snd (net_carried ''user-2'' n')) \<le> 1"
    using o by (cases sent) auto
  with r show ?thesis by (intro exI) (rule conjI)
qed





text \<open>
  C40 (safety).
  A Mastodon sign-in is redeemed at most once, and only if it was started here: the codes the
  browser ever sent to be exchanged belong, one each, to sign-ins that were started and are no
  longer waiting, and every credential it holds is for the NanaCoin user, server and application
  of one of them.
\<close>

theorem sign_ins_are_redeemed_once:
  assumes "md_reaches parse replies b"
  shows "(\<exists>pcs. filter is_token_form (br_sent b) = map (\<lambda>(p, code). token_form p code) pcs
      \<and> mset (map fst pcs) + mset (waiting_list (br_state b)) \<subseteq># mset (br_started b))
    \<and> (\<forall>(u, c) \<in> set (md_credentials (br_state b)). \<exists>p \<in> set (br_started b).
         si_user p = u \<and> cr_server c = si_server p \<and> cr_client c = si_client p)"
  using md_reaches_inv [OF assms] by (simp add: md_inv_def redeemed_def)

theorem sign_ins_are_redeemed_once_witness:
  "\<exists>b pcs. md_reaches one_server app_answers b \<and> map fst (md_credentials (br_state b)) = [''user-2'']
     \<and> filter is_token_form (br_sent b) = map (\<lambda>(p, code). token_form p code) pcs
     \<and> mset (map fst pcs) + mset (waiting_list (br_state b)) \<subseteq># mset (br_started b)"
proof -
  obtain r m sent where c: "signing_in = (r, m, sent)" by (metis prod_cases3)
  obtain r' m' sent' where f: "signed_on = (r', m', sent')" by (metis prod_cases3)
  define b where "b = \<lparr>br_state = m, br_sent = sent, br_started = (case (r, md_pending m) of (Inr _, Awaiting p) \<Rightarrow> [p] | _ \<Rightarrow> [])\<rparr>"
  have s1: "md_reaches one_server app_answers b"
    using md_reaches.step [OF md_reaches.start md_step.connect] c
    by (fastforce simp: b_def signing_in_def)
  have "md_finish False one_server (recorded app_answers) (\<lambda>_ _. quiet_call None) (quiet_call None) (Some ''user-2'') ''code''
     (base64url [2]) (br_state b) (br_sent b) = (r', m', sent')"
    using f by (simp add: signed_on_def c b_def)
  then have s2: "md_reaches one_server app_answers (b\<lparr>br_state := m', br_sent := sent'\<rparr>)"
    by (rule md_reaches.step [OF s1 md_step.finish])
  have "map fst (md_credentials m') = [''user-2'']" using signed_on_credentials unfolding f fst_conv snd_conv .
  then have "map fst (md_credentials (br_state (b\<lparr>br_state := m', br_sent := sent'\<rparr>))) = [''user-2'']" by simp
  note held = conjI [OF s2 this]
  from sign_ins_are_redeemed_once [OF s2, THEN conjunct1] obtain pcs where
    "filter is_token_form (br_sent (b\<lparr>br_state := m', br_sent := sent'\<rparr>)) = map (\<lambda>(p, code). token_form p code) pcs
     \<and> mset (map fst pcs) + mset (waiting_list (br_state (b\<lparr>br_state := m', br_sent := sent'\<rparr>)))
       \<subseteq># mset (br_started (b\<lparr>br_state := m', br_sent := sent'\<rparr>))" by (rule exE)
  from conjI [OF held this] show ?thesis unfolding conj_assoc by (intro exI)
qed

section \<open>What modelling showed\<close>

text \<open>Findings: an offer left open on a sold listing is accepted, and a second buyer is named.\<close>

theorem sold_listing_is_sold_again:
  "reachable market4 \<and> map (\<lambda>l. (l_status l, l_buyer l)) (listings market4) = [(Sold, Some (u_account nana))]
   \<and> (case accept_offer ada ''offer-5'' market4 of
        (Inr _, w) \<Rightarrow> map (\<lambda>l. (l_status l, l_buyer l)) (listings w) = [(Sold, Some (u_account bob))]
      | _ \<Rightarrow> False)"
  by (intro conjI market_reachable bread_sold bread_sold_again)

text \<open>Findings: after a reform by a negative power of ten an entry can stop being a whole number.\<close>

theorem reformed_amounts_leave_the_integers:
  "p_amount (current_posting (- 5) (posting ''account-user-2'' 300000)) \<noteq> 3
   \<and> reform_convert 0 1000000000000000 (p_amount (current_posting (- 5) (posting ''account-user-2'' 300000))) = Inl RangeError"
  by (rule conjI) code_simp+

text \<open>Findings: three requests with one dead token forget three accounts, and the page keeps showing the first.\<close>

theorem one_expired_session_forgets_the_others:
  "map sa_user (ac_all (ss_accounts ann_session)) = [''dan'', ''cat'', ''bob'', ''ann'']
   \<and> map sa_user (ac_all (ss_accounts (check_for_changes later_world False ann_session))) = [''dan'']
   \<and> map_option uv_id (ss_me (check_for_changes later_world False ann_session)) = Some ''ann''
   \<and> active_token (ss_accounts (check_for_changes later_world False ann_session)) = Some ''t-dan''
   \<and> map sa_user (ac_all (ss_accounts (logout_session later_world ann_session))) = [''dan'', ''cat'']"
  by (intro conjI) code_simp+

end
